(* ===== verification/Py_Prelude.thy ===== *)
theory Py_Prelude imports Complex_Main "HOL-Library.AList" "HOL-Library.List_Lexorder" "HOL-Library.Char_ord" "HOL-Library.Multiset" begin

text \<open>
  What the components share: the Python strings and dictionaries the sources use, and the names
  of the model's types.
  \<^item> Strings are char lists over ASCII; \<open>lower\<close>, \<open>strip\<close> and \<open>removeprefix\<close> are Python's
    methods on such strings. Their order is Python's (by code point).
  \<^item> A dict is an association list with distinct keys in insertion order: assignment is
    \<open>AList.update\<close> (a known key keeps its place, a new one goes last), \<open>del\<close> is
    \<open>AList.delete\<close>, \<open>get\<close> is \<open>map_of\<close>.
\<close>

section \<open>Names for the types\<close>

type_synonym did = string
type_synonym uuid = string
type_synonym content_hash = string

text \<open>A point in time, in microseconds since the epoch (naive UTC datetimes, time stamps).\<close>

type_synonym pytime = int

named_theorems store_simps "equations of the store operations"
named_theorems keys_simps "keys of association lists"

section \<open>Python strings\<close>

definition is_space :: "char \<Rightarrow> bool" where
  "is_space c \<longleftrightarrow> (let n = of_char c :: nat in (9 \<le> n \<and> n \<le> 13) \<or> (28 \<le> n \<and> n \<le> 32))"

definition lower_char :: "char \<Rightarrow> char" where
  "lower_char c = (let n = of_char c :: nat in if 65 \<le> n \<and> n \<le> 90 then char_of (n + 32) else c)"

text \<open>Code equations on the bits of a character, for the evaluation of concrete strings.\<close>

lemma lower_char_bits [code]:
  "lower_char (Char b0 b1 b2 b3 b4 b5 b6 b7) =
     (if \<not> b7 \<and> b6 \<and> \<not> b5 \<and> (b0 \<or> b1 \<or> b2 \<or> b3 \<or> b4) \<and> \<not> (b4 \<and> b3 \<and> (b2 \<or> b1 \<and> b0))
      then Char b0 b1 b2 b3 b4 True True False else Char b0 b1 b2 b3 b4 b5 b6 b7)"
  by (cases b0; cases b1; cases b2; cases b3; cases b4; cases b5; cases b6; cases b7; simp add: lower_char_def is_space_def Let_def char_of_def bit_Suc_0_iff)

lemma is_space_bits [code]:
  "is_space (Char b0 b1 b2 b3 b4 b5 b6 b7) \<longleftrightarrow>
     \<not> b7 \<and> \<not> b6 \<and>
     ((b5 \<and> \<not> b4 \<and> \<not> b3 \<and> \<not> b2 \<and> \<not> b1 \<and> \<not> b0) \<or>
      (\<not> b5 \<and> b4 \<and> b3 \<and> b2) \<or>
      (\<not> b5 \<and> \<not> b4 \<and> b3 \<and> (b2 \<and> \<not> b1 \<or> \<not> b2 \<and> (b0 \<or> b1))))"
  by (cases b0; cases b1; cases b2; cases b3; cases b4; cases b5; cases b6; cases b7; simp add: lower_char_def is_space_def Let_def char_of_def bit_Suc_0_iff)

definition lower :: "string \<Rightarrow> string" where
  "lower s = map lower_char s"

definition lstrip_by :: "(char \<Rightarrow> bool) \<Rightarrow> string \<Rightarrow> string" where
  "lstrip_by p s = dropWhile p s"

definition rstrip_by :: "(char \<Rightarrow> bool) \<Rightarrow> string \<Rightarrow> string" where
  "rstrip_by p s = rev (dropWhile p (rev s))"

definition strip :: "string \<Rightarrow> string" where
  "strip s = rstrip_by is_space (lstrip_by is_space s)"

definition starts_with :: "string \<Rightarrow> string \<Rightarrow> bool" where
  "starts_with p s \<longleftrightarrow> take (length p) s = p"

definition removeprefix :: "string \<Rightarrow> string \<Rightarrow> string" where
  "removeprefix p s = (if starts_with p s then drop (length p) s else s)"

fun contains :: "string \<Rightarrow> string \<Rightarrow> bool" where
  "contains p [] = (p = [])"
| "contains p (c # s) = (starts_with p (c # s) \<or> contains p s)"

lemma length_lower [simp]: "length (lower s) = length s"
  by (simp add: lower_def)

lemma lower_char_idem [simp]: "lower_char (lower_char c) = lower_char c"
  by (auto simp: lower_char_def Let_def)

lemma lower_idem [simp]: "lower (lower s) = lower s"
  by (simp add: lower_def)

lemma lower_eq_Nil [simp]: "lower s = [] \<longleftrightarrow> s = []"
  by (simp add: lower_def)

lemma is_space_lower_char [simp]: "is_space (lower_char c) = is_space c"
  by (auto simp: is_space_def lower_char_def Let_def)

lemma dropWhile_lower: "dropWhile is_space (lower s) = lower (dropWhile is_space s)"
  by (induction s) (auto simp: lower_def)

lemma rev_lower: "rev (lower s) = lower (rev s)"
  by (simp add: lower_def rev_map)

lemma strip_lower: "strip (lower s) = lower (strip s)"
  by (simp add: strip_def rstrip_by_def lstrip_by_def dropWhile_lower rev_lower)

lemma strip_split: "\<exists>u v. s = u @ strip s @ v"
proof -
  let ?t = "dropWhile is_space s"
  have "s = takeWhile is_space s @ ?t" by simp
  moreover have "rev ?t = takeWhile is_space (rev ?t) @ dropWhile is_space (rev ?t)" by simp
  then have "?t = rev (dropWhile is_space (rev ?t)) @ rev (takeWhile is_space (rev ?t))"
    by (metis rev_append rev_rev_ident)
  ultimately show ?thesis unfolding strip_def rstrip_by_def lstrip_by_def by metis
qed

lemma strip_idem [simp]: "strip (strip s) = strip s"
proof -
  let ?t = "dropWhile is_space s" and ?r = "rev (dropWhile is_space (rev (dropWhile is_space s)))"
  have t: "?t = ?r @ rev (takeWhile is_space (rev ?t))"
    by (metis rev_append rev_rev_ident takeWhile_dropWhile_id)
  have "dropWhile is_space ?r = ?r"
  proof (cases ?r)
    case (Cons c cs)
    then have "hd ?t = c" "?t \<noteq> []" using t by (metis append_Cons list.sel(1), metis append_Cons list.distinct(1))
    then have "\<not> is_space c" using hd_dropWhile by metis
    then show ?thesis using Cons by simp
  next
    case Nil
    then show ?thesis by (simp only: dropWhile.simps)
  qed
  moreover have "rev (dropWhile is_space (rev ?r)) = ?r" by simp
  ultimately show ?thesis unfolding strip_def rstrip_by_def lstrip_by_def by metis
qed

lemma starts_with_append [simp]: "starts_with p (p @ s)"
  by (simp add: starts_with_def)

lemma removeprefix_append [simp]: "removeprefix p (p @ s) = s"
  by (simp add: removeprefix_def)

lemma starts_withE: "starts_with p s \<Longrightarrow> (\<And>t. s = p @ t \<Longrightarrow> thesis) \<Longrightarrow> thesis"
  unfolding starts_with_def by (metis append_take_drop_id)

lemma starts_with_contains: "starts_with p s \<Longrightarrow> contains p s"
  by (cases s) (auto simp: starts_with_def)

lemma contains_iff: "contains p s \<longleftrightarrow> (\<exists>u v. s = u @ p @ v)"
proof (induction s)
  case Nil
  then show ?case by auto
next
  case (Cons c s)
  show ?case
  proof
    assume "contains p (c # s)"
    then consider "starts_with p (c # s)" | "contains p s" by auto
    then show "\<exists>u v. c # s = u @ p @ v"
    proof cases
      case 1
      then obtain v where "c # s = [] @ p @ v" by (auto elim: starts_withE)
      then show ?thesis by blast
    next
      case 2
      then obtain u v where "c # s = (c # u) @ p @ v" using Cons.IH by auto
      then show ?thesis by blast
    qed
  next
    assume "\<exists>u v. c # s = u @ p @ v"
    then obtain u v where eq: "c # s = u @ p @ v" by blast
    show "contains p (c # s)"
    proof (cases u)
      case Nil
      then show ?thesis using eq starts_with_contains [of p "c # s"] by simp
    next
      case (Cons a u')
      with eq show ?thesis using Cons.IH by auto
    qed
  qed
qed

section \<open>Digits of a number\<close>

text \<open>
  \<open>digits b n\<close> writes \<open>n\<close> in base \<open>b\<close>, most significant digit first and without a leading
  zero; \<open>of_digits\<close> reads it back. \<open>nat_text\<close> is \<open>str\<close> of a non-negative int.
\<close>

function digits :: "nat \<Rightarrow> nat \<Rightarrow> nat list" where
  "digits b n = (if 2 \<le> b \<and> 0 < n then digits b (n div b) @ [n mod b] else [])"
  by pat_completeness auto
termination
  by (relation "measure (\<lambda>(b, n). n)") auto

declare digits.simps [simp del]

definition of_digits :: "nat \<Rightarrow> nat list \<Rightarrow> nat" where
  "of_digits b ds = foldl (\<lambda>n d. n * b + d) 0 ds"

lemma of_digits_Nil [simp]: "of_digits b [] = 0"
  by (simp add: of_digits_def)

lemma of_digits_snoc [simp]: "of_digits b (ds @ [d]) = of_digits b ds * b + d"
  by (simp add: of_digits_def)

lemma digits_0 [simp]: "digits b 0 = []"
  by (simp add: digits.simps)

lemma of_digits_digits: "2 \<le> b \<Longrightarrow> of_digits b (digits b n) = n"
  by (induction b n rule: digits.induct) (simp add: digits.simps)

lemma digits_less: "d \<in> set (digits b n) \<Longrightarrow> d < b"
proof (induction b n rule: digits.induct)
  case (1 b n)
  then show ?case by (auto simp: digits.simps [of b n] split: if_splits)
qed

lemma digits_eq_Nil: "2 \<le> b \<Longrightarrow> digits b n = [] \<longleftrightarrow> n = 0"
  by (simp add: digits.simps [of b n])

lemma hd_digits: "2 \<le> b \<Longrightarrow> 0 < n \<Longrightarrow> hd (digits b n) \<noteq> 0"
proof (induction b n rule: digits.induct)
  case (1 b n)
  show ?case
  proof (cases "n < b")
    case True
    with "1.prems" show ?thesis by (simp add: digits.simps [of b n])
  next
    case False
    with "1.prems" have "0 < n div b" by (simp add: div_greater_zero_iff)
    with "1.IH" "1.prems" show ?thesis
      by (simp add: digits.simps [of b n] digits_eq_Nil)
  qed
qed

lemma digits_of_digits:
  "2 \<le> b \<Longrightarrow> \<forall>d\<in>set ds. d < b \<Longrightarrow> digits b (of_digits b ds) = dropWhile (\<lambda>d. d = 0) ds"
proof (induction ds rule: rev_induct)
  case (snoc d ds)
  let ?n = "of_digits b ds"
  from snoc have d: "d < b" and IH: "digits b ?n = dropWhile (\<lambda>d. d = 0) ds" by auto
  show ?case
  proof (cases "?n * b + d = 0")
    case True
    with snoc.prems(1) have "?n = 0" "d = 0" by auto
    with IH have "dropWhile (\<lambda>d. d = 0) ds = []" by simp
    with \<open>d = 0\<close> True show ?thesis by (auto simp: dropWhile_append)
  next
    case False
    with snoc.prems(1) d have "digits b (?n * b + d) = digits b ?n @ [d]"
      by (simp add: digits.simps [of b "?n * b + d"])
    moreover have "(\<forall>x\<in>set ds. x = 0) \<longleftrightarrow> ?n = 0"
      using IH digits_eq_Nil [OF snoc.prems(1), of ?n] by (simp add: dropWhile_eq_Nil_conv)
    ultimately show ?thesis using False IH
      by (cases "?n = 0") (auto simp: dropWhile_append dropWhile_eq_Nil_conv)
  qed
qed simp

definition nat_text :: "nat \<Rightarrow> string" where
  "nat_text n = (if n = 0 then ''0'' else map (\<lambda>d. char_of (48 + d)) (digits 10 n))"

definition int_text :: "int \<Rightarrow> string" where
  "int_text i = (if i < 0 then CHR ''-'' # nat_text (nat (- i)) else nat_text (nat i))"

section \<open>Splitting and joining\<close>

text \<open>\<open>sep.join(parts)\<close> and \<open>s.split(c)\<close> for a one-character separator.\<close>

fun join :: "string \<Rightarrow> string list \<Rightarrow> string" where
  "join sep [] = []"
| "join sep [x] = x"
| "join sep (x # y # ys) = x @ sep @ join sep (y # ys)"

fun split_char :: "char \<Rightarrow> string \<Rightarrow> string list" where
  "split_char c [] = [[]]"
| "split_char c (x # xs) =
     (if x = c then [] # split_char c xs
      else case split_char c xs of [] \<Rightarrow> [[x]] | p # ps \<Rightarrow> (x # p) # ps)"

text \<open>\<open>s.split(sep, 1)\<close>: the text before and after the first occurrence of \<open>sep\<close>, if any.\<close>

fun split_once :: "string \<Rightarrow> string \<Rightarrow> (string \<times> string) option" where
  "split_once sep [] = (if sep = [] then Some ([], []) else None)"
| "split_once sep (x # xs) =
     (if starts_with sep (x # xs) then Some ([], drop (length sep) (x # xs))
      else map_option (\<lambda>(a, b). (x # a, b)) (split_once sep xs))"

lemma split_char_not_Nil [simp]: "split_char c xs \<noteq> []"
  by (induction xs) (auto split: list.splits)

lemma split_char_free: "c \<notin> set xs \<Longrightarrow> split_char c xs = [xs]"
  by (induction xs) auto

lemma split_char_append:
  "c \<notin> set xs \<Longrightarrow> split_char c (xs @ c # ys) = xs # split_char c ys"
  by (induction xs) auto

lemma split_char_join:
  "ps \<noteq> [] \<Longrightarrow> \<forall>p\<in>set ps. c \<notin> set p \<Longrightarrow> split_char c (join [c] ps) = ps"
  by (induction "[c]" ps rule: join.induct) (auto simp: split_char_free split_char_append)

lemma join_Cons_char: "join sep ((x # a) # ps) = x # join sep (a # ps)"
  by (cases ps) auto

lemma join_Nil_Cons: "ps \<noteq> [] \<Longrightarrow> join [c] ([] # ps) = c # join [c] ps"
  by (cases ps) auto

lemma join_split_char: "join [c] (split_char c xs) = xs"
proof (induction xs)
  case (Cons x xs)
  then show ?case
    by (cases "split_char c xs") (auto simp: join_Cons_char join_Nil_Cons split: list.splits)
qed simp

lemma split_once_char: "c \<notin> set xs \<Longrightarrow> split_once [c] (xs @ c # ys) = Some (xs, ys)"
  by (induction xs) (auto simp: starts_with_def)

lemma split_once_free: "c \<notin> set xs \<Longrightarrow> split_once [c] xs = None"
  by (induction xs) (auto simp: starts_with_def)

lemma contains_char [simp]: "contains [c] s \<longleftrightarrow> c \<in> set s"
  by (induction s) (auto simp: starts_with_def)

section \<open>Python dictionaries\<close>

abbreviation keys :: "('k \<times> 'v) list \<Rightarrow> 'k list" where
  "keys d \<equiv> map fst d"

abbreviation vals :: "('k \<times> 'v) list \<Rightarrow> 'v list" where
  "vals d \<equiv> map snd d"

lemma keys_update [keys_simps]:
  "set (keys (AList.update k v d)) = insert k (set (keys d))"
  by (simp add: AList.update_keys insert_absorb)

lemma keys_delete [keys_simps]: "set (keys (AList.delete k d)) = set (keys d) - {k}"
  by (simp add: AList.delete_eq) force

lemma distinct_keys_update [simp]:
  "distinct (keys d) \<Longrightarrow> distinct (keys (AList.update k v d))"
  by (rule AList.distinct_update)

lemma distinct_keys_delete [simp]:
  "distinct (keys d) \<Longrightarrow> distinct (keys (AList.delete k d))"
  by (simp add: AList.delete_eq distinct_map_filter)

lemma map_of_update [simp]: "map_of (AList.update k v d) k' = (if k' = k then Some v else map_of d k')"
  by (simp add: AList.update_conv')

lemma map_of_delete [simp]: "map_of (AList.delete k d) k' = (if k' = k then None else map_of d k')"
  by (simp add: AList.delete_conv')

lemma length_update:
  "length (AList.update k v d) = (if k \<in> set (keys d) then length d else Suc (length d))"
  by (induction d) auto

lemma set_update_subset: "set (AList.update k v d) \<subseteq> insert (k, v) (set d)"
  by (induction d) auto

lemma update_new: "k \<notin> set (keys d) \<Longrightarrow> AList.update k v d = d @ [(k, v)]"
  by (induction d) auto

lemma distinct_keys_filter [simp]: "distinct (keys d) \<Longrightarrow> distinct (keys (filter P d))"
  by (rule distinct_map_filter)

lemma map_of_filter_key:
  "distinct (keys d) \<Longrightarrow>
   map_of (filter P d) k = (case map_of d k of None \<Rightarrow> None | Some v \<Rightarrow> if P (k, v) then Some v else None)"
  by (induction d) (auto split: option.splits dest: map_of_SomeD simp: image_iff map_of_eq_None_iff)

lemma find_append:
  "find P (xs @ ys) = (case find P xs of None \<Rightarrow> find P ys | Some x \<Rightarrow> Some x)"
  by (induction xs) auto

lemma find_mem: "find P xs = Some x \<Longrightarrow> x \<in> set xs \<and> P x"
  by (auto simp: find_Some_iff)

text \<open>A dict built by a comprehension over values: a later value of a key replaces an earlier one.\<close>

definition dict_by :: "('v \<Rightarrow> 'k) \<Rightarrow> 'v list \<Rightarrow> ('k \<times> 'v) list" where
  "dict_by f vs = fold (\<lambda>v d. AList.update (f v) v d) vs []"

lemma map_of_fold_update:
  "map_of (fold (\<lambda>v d. AList.update (f v) v d) vs d) k =
     (case find (\<lambda>v. f v = k) (rev vs) of None \<Rightarrow> map_of d k | Some v \<Rightarrow> Some v)"
proof (induction vs arbitrary: d)
  case (Cons v vs)
  then show ?case by (auto simp: find_append split: option.splits)
qed simp

text \<open>A dict filled entry by entry in a loop.\<close>

lemma fold_update_other:
  "k \<notin> f ` set xs \<Longrightarrow> map_of (fold (\<lambda>x d. AList.update (f x) (h x) d) xs d) k = map_of d k"
  by (induction xs arbitrary: d) auto

lemma fold_update_mem:
  "distinct (map f xs) \<Longrightarrow> x \<in> set xs \<Longrightarrow>
   map_of (fold (\<lambda>x d. AList.update (f x) (h x) d) xs d) (f x) = Some (h x)"
proof (induction xs arbitrary: d)
  case (Cons y ys)
  then show ?case using fold_update_other [of "f y" f ys h] by (cases "x = y") auto
qed simp

lemma distinct_fold_update:
  "distinct (keys d) \<Longrightarrow> distinct (keys (fold (\<lambda>x d. AList.update (f x) (h x) d) xs d))"
  by (induction xs arbitrary: d) auto

lemma keys_fold_update:
  "set (keys (fold (\<lambda>x d. AList.update (f x) (h x) d) xs d)) = f ` set xs \<union> set (keys d)"
  by (induction xs arbitrary: d) (auto simp: keys_update simp del: set_map)

lemma map_of_dict_by:
  "map_of (dict_by f vs) k = find (\<lambda>v. f v = k) (rev vs)"
  by (simp add: dict_by_def map_of_fold_update split: option.splits)

lemma distinct_dict_by [simp]: "distinct (keys (dict_by f vs))"
  by (simp add: dict_by_def distinct_fold_update)

lemma keys_dict_by: "set (keys (dict_by f vs)) = f ` set vs"
  by (simp add: dict_by_def keys_fold_update del: set_map)

lemma bind_someE: "Option.bind x f = Some y \<Longrightarrow> (\<And>a. x = Some a \<Longrightarrow> f a = Some y \<Longrightarrow> P) \<Longrightarrow> P"
  by (cases x) auto

end
