(* ===== verification/Merkle_Root.thy ===== *)
theory Merkle_Root imports Py_Prelude begin

text \<open>
  The Merkle root over catalog content hashes (\<open>federation/merkle.py\<close>). SHA-256 over the UTF-8
  bytes of a string, as a hex string, is the parameter \<open>sha\<close>. The loop over levels is
  \<open>merkle_loop\<close>; it terminates because a level of at least two nodes shrinks.
\<close>

definition hash_pair :: "(string \<Rightarrow> string) \<Rightarrow> string \<Rightarrow> string \<Rightarrow> string" where
  "hash_pair sha left right = sha (left @ right)"

text \<open>The inner \<open>for\<close> loop: pairs are hashed, an odd last node is promoted unpaired.\<close>

fun next_level :: "(string \<Rightarrow> string) \<Rightarrow> string list \<Rightarrow> string list" where
  "next_level sha (l # r # rest) = hash_pair sha l r # next_level sha rest"
| "next_level sha [l] = [l]"
| "next_level sha [] = []"

lemma length_next_level: "length (next_level sha xs) = (length xs + 1) div 2"
  by (induction sha xs rule: next_level.induct) auto

function merkle_loop :: "(string \<Rightarrow> string) \<Rightarrow> string list \<Rightarrow> string list" where
  "merkle_loop sha level =
     (if 1 < length level then merkle_loop sha (next_level sha level) else level)"
  by pat_completeness auto
termination
  by (relation "measure (\<lambda>(sha, level). length level)") (auto simp: length_next_level)

declare merkle_loop.simps [simp del]

definition merkle_root :: "(string \<Rightarrow> string) \<Rightarrow> string list \<Rightarrow> string" where
  "merkle_root sha leaf_hashes =
     (if leaf_hashes = [] then sha []
      else let level = sort leaf_hashes
           in if length level = 1 then level ! 0 else merkle_loop sha level ! 0)"

section \<open>The loop ends with one node\<close>

lemma length_merkle_loop: "xs \<noteq> [] \<Longrightarrow> length (merkle_loop sha xs) = 1"
proof (induction sha xs rule: merkle_loop.induct)
  case (1 sha xs)
  show ?case
  proof (cases "1 < length xs")
    case True
    then have "next_level sha xs \<noteq> []"
      using length_next_level [of sha xs] by auto
    with True "1.IH" show ?thesis by (simp add: merkle_loop.simps [of sha xs])
  next
    case False
    with "1.prems" have "length xs = 1"
      by (cases xs) auto
    then show ?thesis by (simp add: merkle_loop.simps [of sha xs])
  qed
qed

lemma merkle_loop_single [simp]: "merkle_loop sha [x] = [x]"
  by (simp add: merkle_loop.simps)

lemma merkle_root_loop: "xs \<noteq> [] \<Longrightarrow> merkle_root sha xs = merkle_loop sha (sort xs) ! 0"
proof (cases "length xs = 1")
  case True
  then obtain x where "sort xs = [x]" by (metis length_sort length_Suc_conv length_0_conv One_nat_def)
  then show "xs \<noteq> [] \<Longrightarrow> ?thesis" using True by (simp add: merkle_root_def)
qed (simp add: merkle_root_def Let_def)

section \<open>The root binds the leaves\<close>

text \<open>
  \<open>loop_inputs\<close> are the strings the loop hashes. When \<open>sha\<close> has no collision among them, the
  loop is injective on levels of equal shape (the same number of nodes, equal lengths node by
  node), so equal roots mean equal sorted leaves.
\<close>

fun level_inputs :: "string list \<Rightarrow> string list" where
  "level_inputs (l # r # rest) = (l @ r) # level_inputs rest"
| "level_inputs xs = []"

function loop_inputs :: "(string \<Rightarrow> string) \<Rightarrow> string list \<Rightarrow> string list" where
  "loop_inputs sha level =
     (if 1 < length level then level_inputs level @ loop_inputs sha (next_level sha level) else [])"
  by pat_completeness auto
termination
  by (relation "measure (\<lambda>(sha, level). length level)") (auto simp: length_next_level)

declare loop_inputs.simps [simp del]

abbreviation same_shape :: "string list \<Rightarrow> string list \<Rightarrow> bool" where
  "same_shape \<equiv> list_all2 (\<lambda>a b. length a = length b)"

lemma next_level_shape:
  "\<forall>s. length (sha s) = h \<Longrightarrow> same_shape xs ys \<Longrightarrow>
   same_shape (next_level sha xs) (next_level sha ys)"
  by (induction sha xs arbitrary: ys rule: next_level.induct)
    (auto simp: list_all2_Cons1 hash_pair_def)

lemma next_level_inj:
  "inj_on sha A \<Longrightarrow> same_shape xs ys \<Longrightarrow> set (level_inputs xs) \<union> set (level_inputs ys) \<subseteq> A \<Longrightarrow>
   next_level sha xs = next_level sha ys \<Longrightarrow> xs = ys"
proof (induction sha xs arbitrary: ys rule: next_level.induct)
  case (1 sha l r rest)
  from "1.prems"(2) obtain l' r' rest' where
    ys: "ys = l' # r' # rest'" and len: "length l = length l'" "length r = length r'"
    and rest: "same_shape rest rest'"
    by (auto simp: list_all2_Cons1)
  have eqs: "sha (l @ r) = sha (l' @ r')" "next_level sha rest = next_level sha rest'"
    using "1.prems"(4) ys by (auto simp: hash_pair_def)
  with "1.prems"(1,3) ys have "l @ r = l' @ r'" by (auto dest: inj_onD)
  moreover have "rest = rest'" using "1.IH" "1.prems"(1,3) ys rest eqs(2) by auto
  ultimately show ?case using ys len by simp
qed (auto simp: list_all2_Cons1)

lemma merkle_loop_inj:
  "\<forall>s. length (sha s) = h \<Longrightarrow> inj_on sha A \<Longrightarrow> same_shape xs ys \<Longrightarrow>
   set (loop_inputs sha xs) \<union> set (loop_inputs sha ys) \<subseteq> A \<Longrightarrow>
   merkle_loop sha xs = merkle_loop sha ys \<Longrightarrow> xs = ys"
proof (induction sha xs arbitrary: ys rule: merkle_loop.induct)
  case (1 sha xs)
  from "1.prems"(3) have len: "length xs = length ys" by (rule list_all2_lengthD)
  show ?case
  proof (cases "1 < length xs")
    case True
    with "1.prems"(4) len have sub:
      "set (loop_inputs sha (next_level sha xs)) \<union> set (loop_inputs sha (next_level sha ys)) \<subseteq> A"
      "set (level_inputs xs) \<union> set (level_inputs ys) \<subseteq> A"
      by (auto simp: loop_inputs.simps [of sha xs] loop_inputs.simps [of sha ys])
    from True len "1.prems"(5) have
      "merkle_loop sha (next_level sha xs) = merkle_loop sha (next_level sha ys)"
      by (simp add: merkle_loop.simps [of sha xs] merkle_loop.simps [of sha ys])
    with "1.IH" [OF True "1.prems"(1,2) next_level_shape [OF "1.prems"(1,3)] sub(1)]
    have "next_level sha xs = next_level sha ys" by simp
    then show ?thesis by (rule next_level_inj [OF "1.prems"(2,3) sub(2)])
  next
    case False
    with len "1.prems"(5) show ?thesis
      by (simp add: merkle_loop.simps [of sha xs] merkle_loop.simps [of sha ys])
  qed
qed

text \<open>Lists whose strings all have one length have the shape of each other once sorted.\<close>

lemma same_shape_sort:
  assumes "length xs = length ys" and "\<forall>x\<in>set xs \<union> set ys. length x = n"
  shows "same_shape (sort xs) (sort ys)"
  using assms by (auto simp: list_all2_conv_all_nth) (metis Un_iff length_sort nth_mem set_sort)

text \<open>
  Two catalogs with the same content hashes, in whatever order they are listed, have the same
  Merkle root.
\<close>

theorem merkle_root_order_independent:
  assumes "mset xs = mset ys"
  shows "merkle_root sha xs = merkle_root sha ys"
proof -
  have "sort xs = sort ys" using assms by (metis mset_sort properties_for_sort sorted_sort)
  moreover have "xs = [] \<longleftrightarrow> ys = []" using assms by auto
  ultimately show ?thesis by (simp add: merkle_root_def)
qed

theorem merkle_root_order_independent_witness:
  "merkle_root (\<lambda>s. ''h'' @ s) [''b'', ''a'', ''c''] = merkle_root (\<lambda>s. ''h'' @ s) [''c'', ''b'', ''a'']"
  by (rule merkle_root_order_independent) simp

text \<open>
  C1: the root binds the catalog. If two catalogs of the same size list hashes of one length, every
  digest has one length and the digest has no collision among the strings hashed for the two roots,
  then equal roots mean that the two catalogs list the same hashes (each as often).
\<close>

theorem merkle_root_binding:
  assumes "length xs = length ys" and "\<forall>x\<in>set xs \<union> set ys. length x = n"
    and "\<forall>s. length (sha s) = h"
    and "inj_on sha (set (loop_inputs sha (sort xs)) \<union> set (loop_inputs sha (sort ys)))"
    and "merkle_root sha xs = merkle_root sha ys"
  shows "mset xs = mset ys"
proof (cases "xs = []")
  case False
  with assms(1) have ne: "xs \<noteq> []" "ys \<noteq> []" by auto
  have one: "length (merkle_loop sha (sort zs)) = 1" if "zs \<noteq> []" for zs
    using that by (intro length_merkle_loop) (metis length_0_conv length_sort)
  have "merkle_loop sha (sort xs) ! 0 = merkle_loop sha (sort ys) ! 0"
    using assms(5) unfolding merkle_root_loop [OF ne(1)] merkle_root_loop [OF ne(2)] .
  with one [OF ne(1)] one [OF ne(2)] have "merkle_loop sha (sort xs) = merkle_loop sha (sort ys)"
    by (metis One_nat_def length_0_conv length_Suc_conv nth_Cons_0)
  with merkle_loop_inj [OF assms(3,4) same_shape_sort [OF assms(1,2)] order.refl]
  have "sort xs = sort ys" .
  then show ?thesis by (metis mset_sort)
qed (use assms(1) in auto)

theorem merkle_root_binding_witness:
  "merkle_root (\<lambda>s. take 4 (s @ ''____'')) [''ab'', ''cd''] \<noteq> merkle_root (\<lambda>s. take 4 (s @ ''____'')) [''ab'', ''ce'']"
proof
  let ?sha = "\<lambda>s. take 4 (s @ ''____'')"
  assume eq: "merkle_root ?sha [''ab'', ''cd''] = merkle_root ?sha [''ab'', ''ce'']"
  have "mset [''ab'', ''cd''] = mset [''ab'', ''ce'']"
    by (rule merkle_root_binding [where sha = ?sha and n = 2 and h = 4, OF _ _ _ _ eq])
      (simp_all add: loop_inputs.simps hash_pair_def, arith)
  then show False by (simp add: add_eq_conv_ex)
qed

end
