(* ===== verification/Did_Key.thy ===== *)
theory Did_Key imports Py_Prelude "HOL-Library.Word" begin

text \<open>
  The \<open>did:key\<close> encoding of Ed25519 public keys (\<open>federation/identity.py\<close>): base58 over
  bytes, the multicodec prefix, and the checks of the decoder. Bytes are 8-bit words.
\<close>

type_synonym byte = "8 word"

section \<open>Base58\<close>

definition base58_alphabet :: string where
  "base58_alphabet = ''123456789ABCDEFGHJKLMNPQRSTUVWXYZabcdefghijkmnopqrstuvwxyz''"

definition bytes_to_int :: "byte list \<Rightarrow> nat" where
  "bytes_to_int data = of_digits 256 (map unat data)"

text \<open>The \<open>while num > 0\<close> loop pushes remainders least significant first; \<open>b58_loop\<close> is it.\<close>

function b58_loop :: "nat \<Rightarrow> string \<Rightarrow> string" where
  "b58_loop num encoded =
     (if 0 < num then b58_loop (num div 58) (encoded @ [base58_alphabet ! (num mod 58)]) else encoded)"
  by pat_completeness auto
termination
  by (relation "measure fst") auto

declare b58_loop.simps [simp del]

definition base58_encode :: "byte list \<Rightarrow> string" where
  "base58_encode data =
     (let encoded = b58_loop (bytes_to_int data) [];
          pad = length (takeWhile (\<lambda>b. b = 0) data)
      in replicate pad (base58_alphabet ! 0) @ rev encoded)"

datatype codec_error = UnicodeEncodeError | AlphabetError char | UnsupportedDid string
  | MissingMulticodec | WrongKeyLength nat

fun index_of :: "'a \<Rightarrow> 'a list \<Rightarrow> nat option" where
  "index_of x [] = None"
| "index_of x (y # ys) = (if x = y then Some 0 else map_option Suc (index_of x ys))"

fun b58_value :: "string \<Rightarrow> nat \<Rightarrow> codec_error + nat" where
  "b58_value [] num = Inr num"
| "b58_value (c # cs) num =
     (case index_of c base58_alphabet of
        None \<Rightarrow> Inl (AlphabetError c)
      | Some i \<Rightarrow> b58_value cs (num * 58 + i))"

text \<open>
  \<open>num.to_bytes((num.bit_length() + 7) // 8, "big")\<close> is the shortest big-endian form of \<open>num\<close>:
  \<open>length_to_bytes\<close> below shows that the digits in base 256 have exactly that length.
\<close>

definition to_bytes :: "nat \<Rightarrow> byte list" where
  "to_bytes num = map of_nat (digits 256 num)"

definition base58_decode :: "string \<Rightarrow> codec_error + byte list" where
  "base58_decode text =
     (if \<exists>c\<in>set text. 128 \<le> (of_char c :: nat) then Inl UnicodeEncodeError
      else case b58_value text 0 of
        Inl e \<Rightarrow> Inl e
      | Inr num \<Rightarrow>
          (let combined = if num \<noteq> 0 then to_bytes num else [];
               pad = length (takeWhile (\<lambda>c. c = CHR ''1'') text)
           in Inr (replicate pad 0 @ combined)))"

section \<open>did:key\<close>

definition multicodec_prefix :: "byte list" where
  "multicodec_prefix = [0xED, 0x01]"

definition did_key_prefix :: string where
  "did_key_prefix = ''did:key:z''"

definition public_key_to_did :: "byte list \<Rightarrow> did" where
  "public_key_to_did raw = did_key_prefix @ base58_encode (multicodec_prefix @ raw)"

definition did_to_public_key :: "did \<Rightarrow> codec_error + byte list" where
  "did_to_public_key d =
     (if \<not> starts_with did_key_prefix d then Inl (UnsupportedDid (take 32 d))
      else case base58_decode (drop (length did_key_prefix) d) of
        Inl e \<Rightarrow> Inl e
      | Inr decoded \<Rightarrow>
          if length decoded < 2 \<or> take 2 decoded \<noteq> multicodec_prefix then Inl MissingMulticodec
          else let raw = drop 2 decoded
               in if length raw \<noteq> 32 then Inl (WrongKeyLength (length raw)) else Inr raw)"

section \<open>Facts about the alphabet\<close>

lemma length_alphabet [simp]: "length base58_alphabet = 58"
  by (simp add: base58_alphabet_def)

lemma distinct_alphabet: "distinct base58_alphabet"
  by (simp add: base58_alphabet_def)

lemma ascii_alphabet: "c \<in> set base58_alphabet \<Longrightarrow> (of_char c :: nat) < 128"
  by (auto simp: base58_alphabet_def)

lemma alphabet_0 [simp]: "base58_alphabet ! 0 = CHR ''1''"
  by (simp add: base58_alphabet_def)

lemma index_of_nth: "distinct xs \<Longrightarrow> i < length xs \<Longrightarrow> index_of (xs ! i) xs = Some i"
proof (induction xs arbitrary: i)
  case (Cons x xs)
  then show ?case by (cases i) (auto simp: nth_mem)
qed simp

lemma index_of_alphabet: "i < 58 \<Longrightarrow> index_of (base58_alphabet ! i) base58_alphabet = Some i"
  by (rule index_of_nth) (simp_all add: distinct_alphabet)

lemma alphabet_eq_1: "i < 58 \<Longrightarrow> base58_alphabet ! i = CHR ''1'' \<longleftrightarrow> i = 0"
  using index_of_alphabet [of i] index_of_alphabet [of 0] by auto

section \<open>Encoding then decoding\<close>

lemma b58_loop_digits: "b58_loop n acc = acc @ rev (map ((!) base58_alphabet) (digits 58 n))"
proof (induction n acc rule: b58_loop.induct)
  case (1 n acc)
  then show ?case by (simp add: b58_loop.simps [of n] digits.simps [of 58 n])
qed

lemma base58_encode_digits:
  "base58_encode data = replicate (length (takeWhile (\<lambda>b. b = 0) data)) (CHR ''1'')
     @ map ((!) base58_alphabet) (digits 58 (bytes_to_int data))"
  by (simp add: base58_encode_def b58_loop_digits)

lemma b58_value_map:
  "\<forall>d\<in>set ds. d < 58 \<Longrightarrow>
   b58_value (map ((!) base58_alphabet) ds) n = Inr (foldl (\<lambda>n d. n * 58 + d) n ds)"
  by (induction ds arbitrary: n) (auto simp: index_of_alphabet)

lemma b58_value_ones: "b58_value (replicate k (CHR ''1'') @ cs) 0 = b58_value cs 0"
  using index_of_alphabet [of 0] by (induction k) auto

lemma b58_value_encode: "b58_value (base58_encode data) 0 = Inr (bytes_to_int data)"
proof -
  have "\<forall>d\<in>set (digits 58 (bytes_to_int data)). d < 58" by (auto dest: digits_less)
  then show ?thesis
    using of_digits_digits [of 58 "bytes_to_int data"]
    by (simp add: base58_encode_digits b58_value_ones b58_value_map of_digits_def)
qed

lemma takeWhile_ones_encode:
  "takeWhile (\<lambda>c. c = CHR ''1'') (base58_encode data) =
     replicate (length (takeWhile (\<lambda>b. b = 0) data)) (CHR ''1'')"
proof -
  let ?ds = "digits 58 (bytes_to_int data)"
  have "takeWhile (\<lambda>c. c = CHR ''1'') (map ((!) base58_alphabet) ?ds) = []"
  proof (cases "?ds")
    case (Cons d ds)
    then have "bytes_to_int data \<noteq> 0" by (metis digits_0 list.distinct(1))
    with Cons hd_digits [of 58 "bytes_to_int data"] have "d \<noteq> 0" by simp
    moreover have "d < 58" using Cons by (intro digits_less [of d 58 "bytes_to_int data"]) simp
    ultimately show ?thesis using Cons alphabet_eq_1 by simp
  qed simp
  then show ?thesis by (simp add: base58_encode_digits takeWhile_append)
qed

lemma dropWhile_unat: "dropWhile (\<lambda>d. d = 0) (map unat (data :: byte list)) = map unat (dropWhile (\<lambda>b. b = 0) data)"
  by (induction data) (auto simp: unat_eq_zero)

lemma to_bytes_bytes_to_int: "to_bytes (bytes_to_int data) = dropWhile (\<lambda>b. b = 0) data"
proof -
  have "\<forall>d\<in>set (map unat data). d < 256" using unsigned_less [where 'b = 8] by auto
  then show ?thesis
    by (simp add: to_bytes_def bytes_to_int_def digits_of_digits dropWhile_unat comp_def)
qed

lemma base58_encode_alphabet: "set (base58_encode data) \<subseteq> set base58_alphabet"
proof
  fix c assume "c \<in> set (base58_encode data)"
  then consider "c = base58_alphabet ! 0" | d where "d \<in> set (digits 58 (bytes_to_int data))" "c = base58_alphabet ! d"
    by (auto simp: base58_encode_digits)
  then show "c \<in> set base58_alphabet"
  proof cases
    case 1
    then show ?thesis by (metis length_alphabet nth_mem zero_less_numeral)
  next
    case 2
    then show ?thesis by (simp add: digits_less)
  qed
qed

lemma ascii_encode: "c \<in> set (base58_encode data) \<Longrightarrow> (of_char c :: nat) < 128"
  using base58_encode_alphabet ascii_alphabet by blast

lemma takeWhile_zeros: "replicate (length (takeWhile (\<lambda>b. b = 0) xs)) 0 = takeWhile (\<lambda>b. b = 0) xs"
  by (induction xs) auto

lemma base58_decode_encode: "base58_decode (base58_encode data) = Inr data"
proof -
  have ascii: "\<not> (\<exists>c\<in>set (base58_encode data). 128 \<le> (of_char c :: nat))"
    using ascii_encode by (meson leD)
  have "(if n \<noteq> 0 then to_bytes n else []) = to_bytes n" for n
    by (simp add: to_bytes_def)
  with ascii show ?thesis
    by (simp add: base58_decode_def b58_value_encode takeWhile_ones_encode to_bytes_bytes_to_int takeWhile_zeros)
qed

section \<open>Decoding then encoding\<close>

text \<open>A text that decodes is the encoding of what it decodes to: base58 has one spelling per value.\<close>

lemma index_of_SomeD: "index_of x xs = Some i \<Longrightarrow> i < length xs \<and> xs ! i = x"
  by (induction xs arbitrary: i) (auto split: if_splits)

lemma b58_value_InrD:
  "b58_value cs n = Inr m \<Longrightarrow>
   \<exists>ds. cs = map ((!) base58_alphabet) ds \<and> (\<forall>d\<in>set ds. d < 58) \<and> m = foldl (\<lambda>n d. n * 58 + d) n ds"
proof (induction cs arbitrary: n)
  case (Cons c cs)
  then obtain i where i: "index_of c base58_alphabet = Some i"
    and rest: "b58_value cs (n * 58 + i) = Inr m"
    by (auto split: option.splits)
  from Cons.IH [OF rest] obtain ds where
    "cs = map ((!) base58_alphabet) ds" "\<forall>d\<in>set ds. d < 58"
    "m = foldl (\<lambda>n d. n * 58 + d) (n * 58 + i) ds" by auto
  with index_of_SomeD [OF i] show ?case by (intro exI [of _ "i # ds"]) auto
qed simp

lemma takeWhile_ones_map:
  "\<forall>d\<in>set ds. d < 58 \<Longrightarrow>
   takeWhile (\<lambda>c. c = CHR ''1'') (map ((!) base58_alphabet) ds)
     = replicate (length (takeWhile (\<lambda>d. d = 0) ds)) (CHR ''1'')"
  by (induction ds) (auto simp: alphabet_eq_1)

lemma map_alphabet_split:
  "\<forall>d\<in>set ds. d < 58 \<Longrightarrow>
   map ((!) base58_alphabet) ds = replicate (length (takeWhile (\<lambda>d. d = 0) ds)) (CHR ''1'')
     @ map ((!) base58_alphabet) (dropWhile (\<lambda>d. d = 0) ds)"
  by (induction ds) (auto simp: alphabet_eq_1)

lemma unat_to_bytes: "map unat (to_bytes n) = digits 256 n"
  by (auto simp: to_bytes_def comp_def unat_of_nat dest: digits_less intro!: map_idI)

lemma takeWhile_to_bytes: "takeWhile (\<lambda>b. b = 0) (to_bytes n) = []"
proof (cases "to_bytes n")
  case (Cons b bs)
  then have dg: "digits 256 n = unat b # map unat bs" using unat_to_bytes [of n] by simp
  then have "n \<noteq> 0" by (metis digits_0 list.distinct(1))
  with dg hd_digits [of 256 n] show ?thesis using Cons by auto
qed simp

lemma of_digits_zeros: "of_digits b (replicate k 0 @ ds) = of_digits b ds"
  by (induction ds rule: rev_induct) (auto simp: append_assoc [symmetric] simp del: append_assoc, induction k, auto simp: of_digits_def)

lemma base58_encode_decode:
  assumes "base58_decode text = Inr data"
  shows "base58_encode data = text"
proof -
  from assms obtain num where num: "b58_value text 0 = Inr num"
    and data: "data = replicate (length (takeWhile (\<lambda>c. c = CHR ''1'') text)) 0 @ to_bytes num"
    by (auto simp: base58_decode_def to_bytes_def split: if_splits sum.splits)
  from b58_value_InrD [OF num] obtain ds where
    tx: "text = map ((!) base58_alphabet) ds" and ds: "\<forall>d\<in>set ds. d < 58"
    and "num = of_digits 58 ds" by (auto simp: of_digits_def)
  then have dg: "digits 58 num = dropWhile (\<lambda>d. d = 0) ds"
    by (simp add: digits_of_digits)
  let ?pad = "length (takeWhile (\<lambda>d. d = 0) ds)"
  have data': "data = replicate ?pad 0 @ to_bytes num"
    using data tx ds by (simp add: takeWhile_ones_map)
  have "bytes_to_int data = num"
    using of_digits_digits [of 256 num]
    by (simp add: bytes_to_int_def data' of_digits_zeros unat_to_bytes)
  moreover have "length (takeWhile (\<lambda>b. b = 0) data) = ?pad"
    by (simp add: data' takeWhile_append takeWhile_to_bytes)
  ultimately show ?thesis
    using map_alphabet_split [OF ds] by (simp add: base58_encode_digits dg tx)
qed

section \<open>The length of the shortest big-endian form\<close>

function bit_length :: "nat \<Rightarrow> nat" where
  "bit_length n = (if n = 0 then 0 else Suc (bit_length (n div 2)))"
  by pat_completeness auto
termination
  by (relation "measure id") auto

declare bit_length.simps [simp del]

lemma bit_length_half: "bit_length (n div 2) = bit_length n - 1"
  by (cases "n = 0") (simp_all add: bit_length.simps [of n] bit_length.simps [of 0])

lemma bit_length_256: "bit_length (n div 256) = bit_length n - 8"
proof -
  have "n div 256 = n div 2 div 2 div 2 div 2 div 2 div 2 div 2 div 2"
    by (simp flip: div_mult2_eq)
  then have "bit_length (n div 256) = bit_length n - 1 - 1 - 1 - 1 - 1 - 1 - 1 - 1"
    by (simp only: bit_length_half)
  then show ?thesis by linarith
qed

lemma length_to_bytes: "length (to_bytes n) = (bit_length n + 7) div 8"
proof (induction n rule: less_induct)
  case (less n)
  show ?case
  proof (cases "n = 0")
    case True
    then show ?thesis by (simp add: to_bytes_def bit_length.simps)
  next
    case False
    then have "length (to_bytes n) = Suc (length (to_bytes (n div 256)))"
      by (simp add: to_bytes_def digits.simps [of 256 n])
    also have "\<dots> = Suc ((bit_length n - 8 + 7) div 8)"
      using less.IH [of "n div 256"] False by (simp add: bit_length_256)
    also have "\<dots> = (bit_length n + 7) div 8"
      using False bit_length.simps [of n] by simp
    finally show ?thesis .
  qed
qed

lemma length_multicodec: "length multicodec_prefix = 2"
  by (simp add: multicodec_prefix_def)

section \<open>The decoder accepts exactly the encodings of 32-byte keys\<close>

text \<open>
  C2: resolving a \<open>did:key\<close> string succeeds with a key exactly when the key has 32 bytes and the
  string is its encoding. So encoding and resolving are inverse to each other, and two different
  DID strings never resolve to one key: the follow allow-list, which compares DID strings, cannot
  be bypassed by another spelling of a followed peer's DID.
\<close>

theorem did_key_bijection:
  "did_to_public_key d = Inr raw \<longleftrightarrow> length raw = 32 \<and> d = public_key_to_did raw"
proof
  assume ok: "did_to_public_key d = Inr raw"
  then have pre: "starts_with did_key_prefix d"
    by (auto simp: did_to_public_key_def split: if_splits)
  then obtain t where d: "d = did_key_prefix @ t" by (auto elim: starts_withE)
  with ok pre obtain decoded where dec: "base58_decode t = Inr decoded"
    and take: "take 2 decoded = multicodec_prefix" and raw: "raw = drop 2 decoded" "length raw = 32"
    by (auto simp: did_to_public_key_def Let_def split: sum.splits if_splits)
  from take raw have "decoded = multicodec_prefix @ raw" by (metis append_take_drop_id)
  with base58_encode_decode [OF dec] d raw(2) show "length raw = 32 \<and> d = public_key_to_did raw"
    by (simp add: public_key_to_did_def)
next
  assume "length raw = 32 \<and> d = public_key_to_did raw"
  then show "did_to_public_key d = Inr raw"
    by (simp add: did_to_public_key_def public_key_to_did_def base58_decode_encode length_multicodec)
qed

end
