(* ===== verification/Json_Value.thy ===== *)
theory Json_Value imports Py_Prelude begin

text \<open>
  JSON values as Python holds them (dicts keep insertion order) and the deterministic encoding
  \<open>canonical_json_bytes\<close> of \<open>federation/identity.py\<close>:
  \<open>json.dumps(data, sort_keys=True, separators=(",", ":"))\<close>. A float is represented by its
  \<open>repr\<close> text. The encoding is pure ASCII, so its UTF-8 bytes are its characters.
\<close>

datatype json =
    JNull
  | JBool bool
  | JInt int
  | JFloat string
  | JStr string
  | JList "json list"
  | JObj "(string \<times> json) list"

text \<open>A decoded JSON object.\<close>

type_synonym doc = "(string \<times> json) list"

text \<open>Python's truth value of a decoded JSON value (a float is false when its text is a zero).\<close>

fun truthy :: "json \<Rightarrow> bool" where
  "truthy JNull = False"
| "truthy (JBool b) = b"
| "truthy (JInt i) = (i \<noteq> 0)"
| "truthy (JFloat s) = (s \<noteq> ''0.0'' \<and> s \<noteq> ''-0.0'')"
| "truthy (JStr s) = (s \<noteq> [])"
| "truthy (JList xs) = (xs \<noteq> [])"
| "truthy (JObj d) = (d \<noteq> [])"

text \<open>\<open>d.get(k)\<close> on a dict: a missing key reads as \<open>None\<close>.\<close>

definition jget :: "(string \<times> json) list \<Rightarrow> string \<Rightarrow> json" where
  "jget d k = (case map_of d k of None \<Rightarrow> JNull | Some v \<Rightarrow> v)"

definition hex_digit :: "nat \<Rightarrow> char" where
  "hex_digit n = ''0123456789abcdef'' ! n"

definition escape_char :: "char \<Rightarrow> string" where
  "escape_char c =
     (let n = of_char c :: nat in
      if n = 34 then [char_of (92 :: nat), c]
      else if n = 92 then [c, c]
      else if n = 8 then [char_of (92 :: nat), CHR ''b'']
      else if n = 9 then [char_of (92 :: nat), CHR ''t'']
      else if n = 10 then [char_of (92 :: nat), CHR ''n'']
      else if n = 12 then [char_of (92 :: nat), CHR ''f'']
      else if n = 13 then [char_of (92 :: nat), CHR ''r'']
      else if 32 \<le> n \<and> n \<le> 126 then [c]
      else char_of (92 :: nat) # ''u00'' @ [hex_digit (n div 16), hex_digit (n mod 16)])"

definition quote :: "string \<Rightarrow> string" where
  "quote s = char_of (34 :: nat) # concat (map escape_char s) @ [char_of (34 :: nat)]"

primrec canonical_json :: "json \<Rightarrow> string" where
  "canonical_json JNull = ''null''"
| "canonical_json (JBool b) = (if b then ''true'' else ''false'')"
| "canonical_json (JInt i) = int_text i"
| "canonical_json (JFloat s) = s"
| "canonical_json (JStr s) = quote s"
| "canonical_json (JList xs) = ''['' @ join '','' (map canonical_json xs) @ '']''"
| "canonical_json (JObj d) =
     ''{'' @ join '','' (map (\<lambda>(k, t). quote k @ '':'' @ t) (sort_key fst (map (map_prod id canonical_json) d))) @ ''}''"

text \<open>The order in which a dict was filled does not show in its canonical text.\<close>

lemma sort_key_unique:
  assumes m: "mset xs = mset ys" and d: "distinct (map fst xs)"
  shows "sort_key fst xs = sort_key fst ys"
proof -
  have s: "set xs = set ys" using m by (metis set_mset_mset)
  have "distinct (map fst ys)" using m d by (metis mset_eq_imp_distinct_iff mset_map)
  with d s show ?thesis
    by (intro map_sorted_distinct_set_unique [of fst])
      (simp_all add: distinct_map distinct_sort)
qed

lemma canonical_json_obj_order:
  assumes "mset d = mset d'" and "distinct (keys d)"
  shows "canonical_json (JObj d) = canonical_json (JObj d')"
proof -
  have "mset (map (map_prod id canonical_json) d) = mset (map (map_prod id canonical_json) d')"
    using assms(1) by simp
  then have "sort_key fst (map (map_prod id canonical_json) d) = sort_key fst (map (map_prod id canonical_json) d')"
    by (rule sort_key_unique) (use assms(2) in \<open>simp add: comp_def\<close>)
  then show ?thesis by simp
qed

end
