(* ===== verification/Supply_Tree.thy ===== *)
theory Supply_Tree imports Json_Value begin

text \<open>
  Supply trees and supply-tree solutions (\<open>models/supply_trees.py\<close>): resource URIs, the tree and
  solution classes, the dependency graph, cycle detection, validation, the production sequence and
  the aggregates of a nested solution. Scores and costs are exact rationals (the code's floats
  without rounding error); \<open>round2\<close> is \<open>round(x, 2)\<close> on them.
\<close>

section \<open>Resource URIs\<close>

datatype resource_type = OKH | OKH_PROCESS | OKH_MATERIAL | OKH_PART | OKW | OKW_EQUIPMENT
  | OKW_PROCESS | RECIPE | KITCHEN

fun resource_value :: "resource_type \<Rightarrow> string" where
  "resource_value OKH = ''okh''"
| "resource_value OKH_PROCESS = ''okh_process''"
| "resource_value OKH_MATERIAL = ''okh_material''"
| "resource_value OKH_PART = ''okh_part''"
| "resource_value OKW = ''okw''"
| "resource_value OKW_EQUIPMENT = ''okw_equipment''"
| "resource_value OKW_PROCESS = ''okw_process''"
| "resource_value RECIPE = ''recipe''"
| "resource_value KITCHEN = ''kitchen''"

definition resource_types :: "resource_type list" where
  "resource_types = [OKH, OKH_PROCESS, OKH_MATERIAL, OKH_PART, OKW, OKW_EQUIPMENT, OKW_PROCESS,
     RECIPE, KITCHEN]"

text \<open>\<open>ResourceType(scheme)\<close>: \<open>None\<close> is the \<open>ValueError\<close>.\<close>

definition resource_of_value :: "string \<Rightarrow> resource_type option" where
  "resource_of_value s = find (\<lambda>t. resource_value t = s) resource_types"

record resource_uri =
  resource_type :: resource_type
  uri_id :: string
  uri_path :: "string list"
  uri_fragment :: "string option"

definition uri_to_string :: "resource_uri \<Rightarrow> string" where
  "uri_to_string u =
     (let path_str = join ''/'' (uri_path u);
          base = resource_value (resource_type u) @ ''://'' @ uri_id u @ ''/'' @ path_str
      in case uri_fragment u of
           None \<Rightarrow> base
         | Some f \<Rightarrow> if f = [] then base else base @ ''#'' @ f)"

text \<open>\<open>None\<close> is the \<open>ValueError\<close> of unpacking a string without \<open>://\<close>.\<close>

definition uri_from_string :: "string \<Rightarrow> resource_uri option" where
  "uri_from_string uri_str =
     (case split_once ''://'' uri_str of
        None \<Rightarrow> None
      | Some (scheme, rest) \<Rightarrow>
          (let rt = (case resource_of_value scheme of
                       Some t \<Rightarrow> t
                     | None \<Rightarrow> if scheme = ''okh'' then OKH else OKW);
               parts = split_char (CHR ''/'') rest;
               path_str = join ''/'' (tl parts);
               (path_str', uri_fragment') =
                 (case split_once ''#'' path_str of
                    Some (p, f) \<Rightarrow> (p, Some f)
                  | None \<Rightarrow> (path_str, None))
           in Some \<lparr>resource_type = rt, uri_id = hd parts,
                    uri_path = (if path_str' \<noteq> [] then split_char (CHR ''/'') path_str' else []),
                    uri_fragment = uri_fragment'\<rparr>))"

text \<open>
  Navigation of \<open>get_value_from_okh\<close> and \<open>get_value_from_okw\<close> (the two bodies are the same) over
  the dict form of the manifest or facility; \<open>JNull\<close> is \<open>None\<close>.
\<close>

definition is_digits :: "string \<Rightarrow> bool" where
  "is_digits s \<longleftrightarrow> s \<noteq> [] \<and> (\<forall>c\<in>set s. 48 \<le> (of_char c :: nat) \<and> (of_char c :: nat) \<le> 57)"

definition int_of_digits :: "string \<Rightarrow> nat" where
  "int_of_digits s = of_digits 10 (map (\<lambda>c. of_char c - 48) s)"

fun navigate :: "string list \<Rightarrow> json \<Rightarrow> json option" where
  "navigate [] current = Some current"
| "navigate (k # path) current =
     (case current of
        JObj d \<Rightarrow> (case map_of d k of Some v \<Rightarrow> navigate path v | None \<Rightarrow> None)
      | JList xs \<Rightarrow>
          if is_digits k
          then (let index = int_of_digits k in if index < length xs then navigate path (xs ! index) else None)
          else None
      | _ \<Rightarrow> None)"

definition get_value :: "resource_uri \<Rightarrow> json \<Rightarrow> json" where
  "get_value u manifest_dict =
     (case navigate (uri_path u) manifest_dict of
        None \<Rightarrow> JNull
      | Some current \<Rightarrow>
          (case (uri_fragment u, current) of
             (Some f, JObj d) \<Rightarrow> if f \<noteq> [] then jget d f else current
           | _ \<Rightarrow> current))"

section \<open>Supply trees\<close>

text \<open>\<open>round(x, 2)\<close>: to the nearest hundredth, ties to the even one.\<close>

definition round2 :: "rat \<Rightarrow> rat" where
  "round2 x =
     (let y = 100 * x; f = \<lfloor>y\<rfloor>; d = y - of_int f
      in (if d < 1/2 then of_int f
          else if 1/2 < d then of_int (f + 1)
          else if even f then of_int f else of_int (f + 1)) / 100)"

record supply_tree =
  facility_name :: string
  okh_reference :: string
  confidence_score :: rat
  okw_reference :: "string option"
  tree_id :: uuid
  estimated_cost :: "rat option"
  estimated_time :: "string option"
  materials_required :: "string list"
  capabilities_used :: "string list"
  match_type :: string
  tree_metadata :: "(string \<times> json) list"
  creation_time :: pytime
  parent_tree_id :: "uuid option"
  child_tree_ids :: "uuid list"
  component_id :: "string option"
  component_name :: "string option"
  component_quantity :: "rat option"
  component_unit :: "string option"
  depends_on :: "uuid list"
  required_by :: "uuid list"
  production_stage :: string
  assembly_location :: "uuid option"
  depth :: int
  component_path :: "string list"

definition tree_post_init :: "supply_tree \<Rightarrow> supply_tree" where
  "tree_post_init t = t\<lparr>confidence_score := round2 (confidence_score t)\<rparr>"

text \<open>\<open>__hash__\<close> and \<open>__eq__\<close> go by this key.\<close>

definition tree_key :: "supply_tree \<Rightarrow> string \<times> string \<times> string option" where
  "tree_key t = (facility_name t, okh_reference t, okw_reference t)"

definition tree_eq :: "supply_tree \<Rightarrow> supply_tree \<Rightarrow> bool" where
  "tree_eq s t \<longleftrightarrow> tree_key s = tree_key t"

section \<open>Solutions\<close>

record validation_result =
  is_valid :: bool
  vr_errors :: "string list"
  vr_warnings :: "string list"
  unmatched_components :: "string list"
  circular_dependencies :: "uuid list list"
  missing_dependencies :: "uuid list"

type_synonym dep_graph = "(uuid \<times> uuid list) list"

record solution =
  all_trees :: "supply_tree list"
  score :: rat
  metrics :: "(string \<times> json) list"
  root_trees :: "supply_tree list option"
  component_mapping :: "(string \<times> supply_tree list) list option"
  dependency_graph :: "dep_graph option"
  production_sequence :: "uuid list list option"
  validation :: "validation_result option"
  total_estimated_cost :: "rat option"
  total_estimated_time :: "string option"
  sol_metadata :: "(string \<times> json) list"

datatype solution_error = NoTrees | NotSingleTree nat

definition mean_confidence :: "supply_tree list \<Rightarrow> rat" where
  "mean_confidence ts = sum_list (map confidence_score ts) / of_nat (length ts)"

definition error_fallback :: "(string \<times> json) list \<Rightarrow> bool" where
  "error_fallback md \<longleftrightarrow> md \<noteq> [] \<and> (truthy (jget md ''error'') \<or> truthy (jget md ''warning''))"

text \<open>\<open>SupplyTreeSolution.__post_init__\<close>.\<close>

definition solution_post_init :: "solution \<Rightarrow> solution_error + solution" where
  "solution_post_init s =
     (let s1 = s\<lparr>score := round2 (score s)\<rparr>;
          s2 = (if root_trees s1 = None then s1\<lparr>root_trees := Some (all_trees s1)\<rparr> else s1)
      in if all_trees s2 = [] \<and> \<not> error_fallback (sol_metadata s2) then Inl NoTrees
         else Inr (if score s2 = 0 \<and> all_trees s2 \<noteq> []
                   then s2\<lparr>score := round2 (mean_confidence (all_trees s2))\<rparr> else s2))"

definition single_tree :: "solution \<Rightarrow> solution_error + supply_tree" where
  "single_tree s =
     (case all_trees s of [t] \<Rightarrow> Inr t | ts \<Rightarrow> Inl (NotSingleTree (length ts)))"

definition is_nested :: "solution \<Rightarrow> bool" where
  "is_nested s \<longleftrightarrow> 1 < length (all_trees s) \<or> component_mapping s \<noteq> None \<or> dependency_graph s \<noteq> None"

subsection \<open>The dependency graph\<close>

fun dedup :: "'a list \<Rightarrow> 'a list \<Rightarrow> 'a list" where
  "dedup seen [] = []"
| "dedup seen (d # ds) = (if d \<in> set seen then dedup seen ds else d # dedup (d # seen) ds)"

definition tree_dependencies :: "supply_tree \<Rightarrow> uuid list" where
  "tree_dependencies t =
     dedup [] ((case parent_tree_id t of None \<Rightarrow> [] | Some p \<Rightarrow> [p]) @ depends_on t)"

definition build_graph :: "supply_tree list \<Rightarrow> dep_graph" where
  "build_graph ts = fold (\<lambda>t g. AList.update (tree_id t) (tree_dependencies t) g) ts []"

definition get_dependency_graph :: "solution \<Rightarrow> dep_graph" where
  "get_dependency_graph s =
     (case dependency_graph s of Some g \<Rightarrow> g | None \<Rightarrow> build_graph (all_trees s))"

definition deps_of :: "dep_graph \<Rightarrow> uuid \<Rightarrow> uuid list" where
  "deps_of g n = (case map_of g n of None \<Rightarrow> [] | Some ds \<Rightarrow> ds)"

subsection \<open>Cycle detection\<close>

text \<open>
  The state the recursive \<open>dfs\<close> mutates. \<open>fuel\<close> bounds the recursion depth; \<open>None\<close> is running out.
  \<open>dfs_fuel\<close> is one more than the number of nodes, which \<open>detect_ok\<close> shows to be enough.
\<close>

record dfs_state =
  visited :: "uuid list"
  rec_stack :: "uuid list"
  cycles :: "uuid list list"
  cycle_paths :: "uuid list list"

definition cycle_key :: "uuid list \<Rightarrow> uuid list" where
  "cycle_key c = sort (remdups c)"

definition note_cycle :: "uuid \<Rightarrow> uuid list \<Rightarrow> dfs_state \<Rightarrow> dfs_state" where
  "note_cycle node path st =
     (let cycle = dropWhile (\<lambda>x. x \<noteq> node) path @ [node];
          cycle_tuple = cycle_key cycle
      in if cycle_tuple \<in> set (cycle_paths st) then st
         else st\<lparr>cycle_paths := cycle_tuple # cycle_paths st, cycles := cycles st @ [cycle]\<rparr>)"

fun dfs :: "nat \<Rightarrow> dep_graph \<Rightarrow> uuid \<Rightarrow> uuid list \<Rightarrow> dfs_state \<Rightarrow> dfs_state option" where
  "dfs 0 g node path st = None"
| "dfs (Suc fuel) g node path st =
     (if node \<in> set (rec_stack st) then Some (note_cycle node path st)
      else if node \<in> set (visited st) then Some st
      else map_option (\<lambda>s. s\<lparr>rec_stack := removeAll node (rec_stack s)\<rparr>)
        (fold (\<lambda>dep so. Option.bind so (dfs fuel g dep (path @ [node]))) (deps_of g node)
          (Some (st\<lparr>visited := node # visited st, rec_stack := node # rec_stack st\<rparr>))))"

definition graph_nodes :: "dep_graph \<Rightarrow> uuid list" where
  "graph_nodes g = remdups (keys g @ concat (vals g))"

definition dfs_fuel :: "dep_graph \<Rightarrow> nat" where
  "dfs_fuel g = Suc (length (graph_nodes g))"

definition dfs_init :: dfs_state where
  "dfs_init = \<lparr>visited = [], rec_stack = [], cycles = [], cycle_paths = []\<rparr>"

definition detect_circular_dependencies :: "dep_graph \<Rightarrow> uuid list list option" where
  "detect_circular_dependencies g =
     map_option cycles
       (fold (\<lambda>n so. Option.bind so
                (\<lambda>st. if n \<in> set (visited st) then Some st else dfs (dfs_fuel g) g n [] st))
         (keys g) (Some dfs_init))"

subsection \<open>Validation\<close>

definition validate_solution :: "solution \<Rightarrow> validation_result option" where
  "validate_solution s =
     (let unmatched = (case component_mapping s of
                         None \<Rightarrow> []
                       | Some m \<Rightarrow> map fst (filter (\<lambda>(c, ts). ts = []) m));
          errors1 = map (\<lambda>c. ''Component '' @ c @ '' has no matching facilities'') unmatched;
          all_tree_ids = map tree_id (all_trees s);
          missing = concat (map (\<lambda>t. map (Pair (tree_id t)) (filter (\<lambda>d. d \<notin> set all_tree_ids) (depends_on t)))
                      (all_trees s));
          errors2 = map (\<lambda>(t, d). ''SupplyTree '' @ t @ '' depends on missing tree '' @ d) missing;
          errors = errors1 @ errors2
      in map_option (\<lambda>circular.
           \<lparr>is_valid = (length errors = 0), vr_errors = errors,
            vr_warnings = (if circular \<noteq> []
              then [''Detected '' @ nat_text (length circular) @ '' potential circular dependencies''] else []),
            unmatched_components = unmatched, circular_dependencies = circular,
            missing_dependencies = map snd missing\<rparr>)
         (detect_circular_dependencies (get_dependency_graph s)))"

subsection \<open>The production sequence\<close>

definition in_degrees :: "dep_graph \<Rightarrow> (uuid \<times> int) list" where
  "in_degrees g =
     fold (\<lambda>(node, deps) ind.
            fold (\<lambda>dep ind. case map_of ind dep of None \<Rightarrow> ind | Some d \<Rightarrow> AList.update dep (d + 1) ind)
              deps ind)
       g (map (\<lambda>(node, deps). (node, 0)) g)"

definition process_node :: "dep_graph \<Rightarrow> uuid \<Rightarrow> (uuid \<times> int) list \<times> uuid list \<Rightarrow> (uuid \<times> int) list \<times> uuid list" where
  "process_node g node s =
     fold (\<lambda>(dependent, deps) (ind, queue).
            if node \<in> set deps
            then (let d = the (map_of ind dependent) - 1
                  in (AList.update dependent d ind, if d = 0 then queue @ [dependent] else queue))
            else (ind, queue)) g s"

partial_function (option) sequence_loop ::
  "dep_graph \<Rightarrow> (uuid \<times> int) list \<Rightarrow> uuid list \<Rightarrow> uuid list list \<Rightarrow> uuid list list option" where
  "sequence_loop g ind queue stages =
     (if queue = [] then Some stages
      else (let s = fold (process_node g) queue (ind, [])
            in sequence_loop g (fst s) (snd s) (stages @ [queue])))"

definition calculate_production_sequence :: "dep_graph \<Rightarrow> uuid list list option" where
  "calculate_production_sequence g =
     (if g = [] then Some []
      else (let ind = in_degrees g
            in sequence_loop g ind (map fst (filter (\<lambda>(n, d). d = 0) ind)) []))"

definition get_assembly_sequence :: "solution \<Rightarrow> supply_tree list list" where
  "get_assembly_sequence s =
     (case production_sequence s of
        None \<Rightarrow> []
      | Some stages \<Rightarrow>
          (let tree_map = dict_by tree_id (all_trees s)
           in map (\<lambda>stage. List.map_filter (map_of tree_map) stage) stages))"

subsection \<open>Aggregates and factories\<close>

definition calculate_total_cost :: "solution \<Rightarrow> rat" where
  "calculate_total_cost s =
     fold (\<lambda>t total. case estimated_cost t of None \<Rightarrow> total | Some c \<Rightarrow> total + c) (all_trees s) 0"

definition calculate_critical_path_time :: "solution \<Rightarrow> string" where
  "calculate_critical_path_time s =
     (case production_sequence s of
        None \<Rightarrow> ''Unknown''
      | Some stages \<Rightarrow>
          if stages = [] then ''Unknown''
          else (let times_with_values =
                      filter (\<lambda>t. case estimated_time t of None \<Rightarrow> False | Some x \<Rightarrow> x \<noteq> [] \<and> x \<noteq> ''Unknown'')
                        (all_trees s);
                    num_stages = nat_text (length stages)
                in if times_with_values \<noteq> [] then num_stages @ '' stages (time estimates available)''
                   else num_stages @ '' stages''))"

definition plain_solution :: "supply_tree list \<Rightarrow> rat \<Rightarrow> solution" where
  "plain_solution ts sc =
     \<lparr>all_trees = ts, score = sc, metrics = [], root_trees = None, component_mapping = None,
      dependency_graph = None, production_sequence = None, validation = None,
      total_estimated_cost = None, total_estimated_time = None, sol_metadata = []\<rparr>"

definition from_single_tree ::
  "supply_tree \<Rightarrow> rat option \<Rightarrow> (string \<times> json) list option \<Rightarrow> solution_error + solution" where
  "from_single_tree tree sc mt =
     solution_post_init
       ((plain_solution [tree] (case sc of Some x \<Rightarrow> x | None \<Rightarrow> confidence_score tree))
         \<lparr>root_trees := Some [tree], metrics := (case mt of Some m \<Rightarrow> m | None \<Rightarrow> [])\<rparr>)"

text \<open>
  The second half of \<open>from_nested_trees\<close>: graph, production sequence, validation, aggregates.
  \<open>None\<close> would be a loop that does not return; \<open>from_nested_trees_result\<close> excludes it.
\<close>

definition complete_nested :: "solution \<Rightarrow> solution option" where
  "complete_nested s0 =
     (let g = get_dependency_graph s0; s1 = s0\<lparr>dependency_graph := Some g\<rparr>
      in case calculate_production_sequence g of
           None \<Rightarrow> None
         | Some stages \<Rightarrow>
             (let s2 = s1\<lparr>production_sequence := Some stages\<rparr>
              in case validate_solution s2 of
                   None \<Rightarrow> None
                 | Some v \<Rightarrow>
                     (let s3 = s2\<lparr>validation := Some v\<rparr>;
                          s4 = s3\<lparr>total_estimated_cost := Some (calculate_total_cost s3)\<rparr>
                      in Some (s4\<lparr>total_estimated_time := Some (calculate_critical_path_time s4)\<rparr>))))"

definition from_nested_trees ::
  "supply_tree list \<Rightarrow> supply_tree list \<Rightarrow> (string \<times> supply_tree list) list \<Rightarrow> rat option \<Rightarrow>
   (string \<times> json) list option \<Rightarrow> (string \<times> json) list option \<Rightarrow> (solution_error + solution) option" where
  "from_nested_trees ts roots mapping sc mt md =
     (let sc' = (case sc of Some x \<Rightarrow> x | None \<Rightarrow> if ts = [] then 0 else mean_confidence ts)
      in case solution_post_init
           ((plain_solution ts sc')
             \<lparr>root_trees := Some roots, component_mapping := Some mapping,
              metrics := (case mt of Some m \<Rightarrow> m | None \<Rightarrow> []),
              sol_metadata := (case md of Some m \<Rightarrow> m | None \<Rightarrow> [])\<rparr>) of
           Inl e \<Rightarrow> Some (Inl e)
         | Inr s0 \<Rightarrow> map_option Inr (complete_nested s0))"

definition solution_eq :: "solution \<Rightarrow> solution \<Rightarrow> bool" where
  "solution_eq s s' \<longleftrightarrow>
     (case (all_trees s, all_trees s') of
        ([t], [t']) \<Rightarrow> tree_key t = tree_key t'
      | (ts, ts') \<Rightarrow> set (map tree_id ts) = set (map tree_id ts'))"

end
