(* ===== verification/Supply_Tree_Facts.thy ===== *)
theory Supply_Tree_Facts imports Supply_Tree begin

text \<open>
  The facts about supply trees: round trip of resource URIs, correctness and termination of the
  cycle detection, the exact value of the production sequence, what a valid solution means.
\<close>

section \<open>Resource URIs\<close>

lemma resource_of_value [simp]: "resource_of_value (resource_value t) = Some t"
  by (cases t) (simp_all add: resource_of_value_def resource_types_def)

lemma split_scheme [simp]: "split_once ''://'' (resource_value t @ ''://'' @ s) = Some (resource_value t, s)"
  by (cases t) (simp_all add: starts_with_def)

lemma hd_tl_split_slash:
  "CHR ''/'' \<notin> set i \<Longrightarrow> split_char (CHR ''/'') (i @ ''/'' @ s) = i # split_char (CHR ''/'') s"
  using split_char_append [of "CHR ''/''" i s] by simp

lemmas uri_text_simps = split_scheme [simplified] hd_tl_split_slash [simplified] join_split_char

lemma hash_free_join:
  "\<forall>p\<in>set ps. CHR ''#'' \<notin> set p \<Longrightarrow> CHR ''#'' \<notin> set (join ''/'' ps)"
  by (induction "''/''" ps rule: join.induct) auto

lemma join_slash_eq_Nil: "join ''/'' ps = [] \<longleftrightarrow> ps = [] \<or> ps = [[]]"
  by (cases ps; cases "tl ps") auto

lemma split_slash_join:
  "ps \<noteq> [] \<Longrightarrow> \<forall>p\<in>set ps. CHR ''/'' \<notin> set p \<Longrightarrow> split_char (CHR ''/'') (join ''/'' ps) = ps"
  using split_char_join [of ps "CHR ''/''"] by simp

text \<open>
  Parsing the text of a resource URI gives the URI back, when the identifier has no slash,
  the path segments have neither slash nor hash and are not the single empty segment, and the
  fragment (which may hold any character) is not the empty string.
\<close>

theorem resource_uri_roundtrip:
  assumes "CHR ''/'' \<notin> set (uri_id u)"
    and "\<forall>p\<in>set (uri_path u). CHR ''/'' \<notin> set p \<and> CHR ''#'' \<notin> set p"
    and "uri_path u \<noteq> [[]]" and "uri_fragment u \<noteq> Some []"
  shows "uri_from_string (uri_to_string u) = Some u"
proof -
  let ?ps = "join ''/'' (uri_path u)"
  have free: "CHR ''#'' \<notin> set ?ps" using assms(2) by (intro hash_free_join) auto
  have path: "(if ?ps \<noteq> [] then split_char (CHR ''/'') ?ps else []) = uri_path u"
    using assms(2,3) by (auto simp: join_slash_eq_Nil intro: split_slash_join)
  show ?thesis
  proof (cases "uri_fragment u")
    case None
    then show ?thesis using path assms(1) split_once_free [OF free]
      by (simp add: uri_to_string_def uri_from_string_def Let_def uri_text_simps)
  next
    case (Some f)
    then show ?thesis using path assms(1,4) split_once_char [OF free, of f]
      by (simp add: uri_to_string_def uri_from_string_def Let_def uri_text_simps)
  qed
qed

theorem resource_uri_roundtrip_witness:
  "uri_from_string (uri_to_string
     \<lparr>resource_type = OKH_PROCESS, uri_id = ''part-123'', uri_path = [''process'', ''milling''],
      uri_fragment = Some ''tolerance''\<rparr>)
   = Some \<lparr>resource_type = OKH_PROCESS, uri_id = ''part-123'', uri_path = [''process'', ''milling''],
      uri_fragment = Some ''tolerance''\<rparr>"
  by (rule resource_uri_roundtrip) simp_all

section \<open>The production sequence\<close>

lemma keys_increment:
  "keys (fold (\<lambda>dep ind. case map_of ind dep of None \<Rightarrow> ind | Some d \<Rightarrow> AList.update dep (d + 1) ind) deps ind)
     = keys ind"
  by (induction deps arbitrary: ind)
    (auto simp: AList.update_keys map_of_eq_None_iff split: option.splits dest: map_of_SomeD)

lemma map_of_increment:
  "map_of (fold (\<lambda>dep ind. case map_of ind dep of None \<Rightarrow> ind | Some d \<Rightarrow> AList.update dep (d + (1::int)) ind) deps ind) n
     = map_option (\<lambda>d. d + int (count_list deps n)) (map_of ind n)"
  by (induction deps arbitrary: ind) (auto simp: option.map_ident split: option.splits)

lemma keys_in_degrees [simp]: "keys (in_degrees g) = keys g"
proof -
  have "keys (fold (\<lambda>(node, deps) ind.
            fold (\<lambda>dep ind. case map_of ind dep of None \<Rightarrow> ind | Some d \<Rightarrow> AList.update dep (d + (1::int)) ind)
              deps ind) h ind) = keys ind" for h :: dep_graph and ind
    by (induction h arbitrary: ind) (auto simp: keys_increment)
  then show ?thesis by (simp add: in_degrees_def comp_def case_prod_unfold)
qed

lemma map_of_in_degrees:
  "n \<in> set (keys g) \<Longrightarrow> map_of (in_degrees g) n = Some (int (count_list (concat (vals g)) n))"
proof -
  have "map_of (fold (\<lambda>(node, deps) ind.
            fold (\<lambda>dep ind. case map_of ind dep of None \<Rightarrow> ind | Some d \<Rightarrow> AList.update dep (d + (1::int)) ind)
              deps ind) h ind) n = map_option (\<lambda>d. d + int (count_list (concat (vals h)) n)) (map_of ind n)"
    for h :: dep_graph and ind
    by (induction h arbitrary: ind)
      (auto simp: map_of_increment option.map_comp comp_def add.assoc option.map_ident)
  moreover assume "n \<in> set (keys g)"
  then have "map_of (map (\<lambda>(node, deps). (node, 0 :: int)) g) n = Some 0"
    by (induction g) auto
  ultimately show ?thesis by (simp add: in_degrees_def)
qed

definition undepended :: "dep_graph \<Rightarrow> uuid list" where
  "undepended g = filter (\<lambda>n. n \<notin> set (concat (vals g))) (keys g)"

lemma assoc_list_by_keys:
  "distinct (keys d) \<Longrightarrow> map (\<lambda>k. (k, the (map_of d k))) (keys d) = d"
proof (induction d)
  case (Cons a d)
  have "map (\<lambda>k. (k, the (map_of (a # d) k))) (keys d) = map (\<lambda>k. (k, the (map_of d k))) (keys d)"
    by (rule map_cong [OF refl]) (use Cons.prems in \<open>force simp: image_iff\<close>)
  with Cons show ?case by simp
qed simp

lemma initial_queue:
  assumes "distinct (keys g)"
  shows "map fst (filter (\<lambda>(n, d). d = 0) (in_degrees g)) = undepended g"
proof -
  let ?c = "\<lambda>n. int (count_list (concat (vals g)) n)"
  have "in_degrees g = map (\<lambda>k. (k, the (map_of (in_degrees g) k))) (keys g)"
    using assoc_list_by_keys [of "in_degrees g"] assms by (simp only: keys_in_degrees)
  also have "\<dots> = map (\<lambda>k. (k, ?c k)) (keys g)"
    by (rule map_cong [OF refl]) (simp add: map_of_in_degrees)
  finally have "map fst (filter (\<lambda>(n, d). d = 0) (in_degrees g)) =
      map fst (filter (\<lambda>(n, d). d = 0) (map (\<lambda>k. (k, ?c k)) (keys g)))" by simp
  then show ?thesis
    by (simp add: filter_map comp_def undepended_def count_list_0_iff)
qed

lemma process_node_idle: "n \<notin> set (concat (vals g)) \<Longrightarrow> process_node g n s = s"
  unfolding process_node_def by (induction g arbitrary: s) auto

lemma process_stage_idle:
  "\<forall>n\<in>set ns. n \<notin> set (concat (vals g)) \<Longrightarrow> fold (process_node g) ns s = s"
  by (induction ns arbitrary: s) (auto simp: process_node_idle simp del: set_concat)

lemma calculate_production_sequence_eq:
  assumes "distinct (keys g)"
  shows "calculate_production_sequence g = Some (if undepended g = [] then [] else [undepended g])"
proof (cases "undepended g = []")
  case True
  then show ?thesis
    unfolding calculate_production_sequence_def Let_def initial_queue [OF assms]
    by (simp add: sequence_loop.simps)
next
  case False
  have "fold (process_node g) (undepended g) s = s" for s
    by (rule process_stage_idle) (simp add: undepended_def)
  moreover have "g \<noteq> []" using False by (auto simp: undepended_def)
  ultimately show ?thesis using False
    unfolding calculate_production_sequence_def Let_def initial_queue [OF assms]
    by (simp add: sequence_loop.simps)
qed

section \<open>Cycle detection\<close>

definition dep_edge :: "dep_graph \<Rightarrow> uuid \<Rightarrow> uuid \<Rightarrow> bool" where
  "dep_edge g a b \<longleftrightarrow> b \<in> set (deps_of g a)"

definition is_cycle :: "dep_graph \<Rightarrow> uuid list \<Rightarrow> bool" where
  "is_cycle g c \<longleftrightarrow> 2 \<le> length c \<and> hd c = last c \<and> successively (dep_edge g) c"

text \<open>A list of finished nodes, the latest first: each node's dependencies were finished before it.\<close>

fun topo :: "dep_graph \<Rightarrow> uuid list \<Rightarrow> bool" where
  "topo g [] = True"
| "topo g (n # fs) = (set (deps_of g n) \<subseteq> set fs \<and> topo g fs)"

lemma topo_closed: "topo g fs \<Longrightarrow> a \<in> set fs \<Longrightarrow> dep_edge g a b \<Longrightarrow> b \<in> set fs"
  by (induction fs) (auto simp: dep_edge_def)

lemma topo_reach: "(dep_edge g)\<^sup>+\<^sup>+ a b \<Longrightarrow> topo g fs \<Longrightarrow> a \<in> set fs \<Longrightarrow> b \<in> set fs"
  by (induction rule: tranclp_induct) (auto dest: topo_closed)

lemma topo_acyclic: "topo g fs \<Longrightarrow> n \<in> set fs \<Longrightarrow> \<not> (dep_edge g)\<^sup>+\<^sup>+ n n"
proof (induction fs)
  case (Cons m fs)
  show ?case
  proof (cases "n \<in> set fs")
    case False
    with Cons.prems have "n = m" by simp
    show ?thesis
    proof
      assume cyc: "(dep_edge g)\<^sup>+\<^sup>+ n n"
      then obtain k where "dep_edge g n k" "(dep_edge g)\<^sup>*\<^sup>* k n" by (auto dest: tranclpD)
      moreover from this \<open>n = m\<close> Cons.prems have "k \<in> set fs" by (auto simp: dep_edge_def)
      ultimately have "n \<in> set fs" using Cons.prems(1) topo_reach
        by (metis rtranclpD topo.simps(2))
      with False show False by simp
    qed
  qed (use Cons in auto)
qed simp

lemma successively_reach: "successively R (x # xs) \<Longrightarrow> xs \<noteq> [] \<Longrightarrow> R\<^sup>+\<^sup>+ x (last xs)"
proof (induction xs arbitrary: x)
  case (Cons y ys)
  then show ?case
    by (cases "ys = []") (auto intro: tranclp_into_tranclp2)
qed simp

lemma is_cycle_reach: "is_cycle g c \<Longrightarrow> (dep_edge g)\<^sup>+\<^sup>+ (hd c) (hd c)"
  using successively_reach [of "dep_edge g" "hd c" "tl c"]
  by (cases c; cases "tl c") (auto simp: is_cycle_def)

definition dfs_ok :: "dep_graph \<Rightarrow> uuid list \<Rightarrow> dfs_state \<Rightarrow> bool" where
  "dfs_ok g path st \<longleftrightarrow>
     set (rec_stack st) = set path \<and> set path \<subseteq> set (visited st) \<and>
     set (visited st) \<subseteq> set (graph_nodes g) \<and>
     set (cycle_paths st) = cycle_key ` set (cycles st) \<and> (\<forall>c\<in>set (cycles st). is_cycle g c) \<and>
     (cycles st = [] \<longrightarrow> (\<exists>fs. topo g fs \<and> set fs = set (visited st) - set path))"

definition unvisited :: "dep_graph \<Rightarrow> dfs_state \<Rightarrow> nat" where
  "unvisited g st = card (set (graph_nodes g) - set (visited st))"

text \<open>What a call for node \<open>n\<close> below \<open>path\<close> achieves: it returns, and if no cycle was noted \<open>n\<close> is finished.\<close>

definition dfs_step_ok :: "dep_graph \<Rightarrow> uuid list \<Rightarrow> dfs_state \<Rightarrow> uuid set \<Rightarrow> dfs_state option \<Rightarrow> bool" where
  "dfs_step_ok g path st ns r \<longleftrightarrow>
     (\<exists>st'. r = Some st' \<and> dfs_ok g path st' \<and> set (visited st) \<subseteq> set (visited st') \<and>
        ns \<subseteq> set (visited st') \<and> (cycles st' = [] \<longrightarrow> cycles st = [] \<and> ns \<inter> set path = {}))"

lemma dep_edgeD: "dep_edge g a b \<Longrightarrow> \<exists>ds. (a, ds) \<in> set g \<and> b \<in> set ds"
  by (cases "map_of g a") (auto simp: dep_edge_def deps_of_def dest: map_of_SomeD)

lemma deps_in_nodes: "dep_edge g a b \<Longrightarrow> b \<in> set (graph_nodes g)"
  by (drule dep_edgeD) (force simp: graph_nodes_def)

lemma unvisited_mono: "set (visited st) \<subseteq> set (visited st') \<Longrightarrow> unvisited g st' \<le> unvisited g st"
  unfolding unvisited_def by (rule card_mono) auto

lemma fold_dfs_ok:
  assumes "\<And>n st. n \<in> set ns \<Longrightarrow> dfs_ok g path st \<Longrightarrow> unvisited g st < b \<Longrightarrow> dfs_step_ok g path st {n} (F n st)"
    and "dfs_ok g path st" and "unvisited g st < b"
  shows "dfs_step_ok g path st (set ns) (fold (\<lambda>n so. Option.bind so (F n)) ns (Some st))"
  using assms
proof (induction ns arbitrary: st)
  case Nil
  then show ?case by (simp add: dfs_step_ok_def)
next
  case (Cons n ns)
  from Cons.prems(1) [of n st] Cons.prems(2,3) obtain st1 where
    1: "F n st = Some st1" "dfs_ok g path st1" "set (visited st) \<subseteq> set (visited st1)" "n \<in> set (visited st1)"
       "cycles st1 = [] \<longrightarrow> cycles st = [] \<and> n \<notin> set path"
    by (auto simp: dfs_step_ok_def)
  from 1(3) Cons.prems(3) have "unvisited g st1 < b" using unvisited_mono le_less_trans by blast
  with Cons.IH [of st1] Cons.prems(1) 1(2)
  have "dfs_step_ok g path st1 (set ns) (fold (\<lambda>n so. Option.bind so (F n)) ns (Some st1))" by simp
  with 1 show ?case by (auto simp: dfs_step_ok_def)
qed

lemma note_cycle_ok:
  assumes ok: "dfs_ok g path st" and mem: "n \<in> set path"
    and chain: "successively (dep_edge g) (path @ [n])"
  shows "dfs_step_ok g path st {n} (Some (note_cycle n path st))"
proof -
  let ?s = "dropWhile (\<lambda>x. x \<noteq> n) path"
  from mem have ne: "?s \<noteq> []" and hd: "hd ?s = n"
    using hd_dropWhile [of "\<lambda>x. x \<noteq> n" path] by auto
  have "path @ [n] = takeWhile (\<lambda>x. x \<noteq> n) path @ ?s @ [n]" by simp
  with chain have "successively (dep_edge g) (?s @ [n])"
    by (metis successively_append_iff)
  with ne hd have cyc: "is_cycle g (?s @ [n])"
    by (cases ?s) (auto simp: is_cycle_def)
  show ?thesis
    using ok mem cyc by (auto simp: dfs_step_ok_def dfs_ok_def note_cycle_def Let_def)
qed

lemma dfs_correct:
  "dfs_ok g path st \<Longrightarrow> n \<in> set (graph_nodes g) \<Longrightarrow> successively (dep_edge g) (path @ [n]) \<Longrightarrow>
   unvisited g st < fuel \<Longrightarrow> dfs_step_ok g path st {n} (dfs fuel g n path st)"
proof (induction fuel arbitrary: n path st)
  case (Suc fuel)
  note ok = Suc.prems(1)
  consider "n \<in> set path" | "n \<notin> set path" "n \<in> set (visited st)" | "n \<notin> set (visited st)"
    by blast
  then show ?case
  proof cases
    case 1
    with ok note_cycle_ok [OF ok] Suc.prems(3) show ?thesis by (simp add: dfs_ok_def)
  next
    case 2
    with ok show ?thesis by (auto simp: dfs_step_ok_def dfs_ok_def)
  next
    case 3
    let ?st1 = "st\<lparr>visited := n # visited st, rec_stack := n # rec_stack st\<rparr>" and ?path = "path @ [n]"
    from ok 3 have np: "n \<notin> set path" by (auto simp: dfs_ok_def)
    have ok1: "dfs_ok g ?path ?st1" using ok 3 Suc.prems(2) by (auto simp: dfs_ok_def)
    have "set (graph_nodes g) - set (visited ?st1) \<subset> set (graph_nodes g) - set (visited st)"
      using 3 Suc.prems(2) by auto
    then have less: "unvisited g ?st1 < fuel"
      using Suc.prems(4) psubset_card_mono [of "set (graph_nodes g) - set (visited st)"]
      by (force simp: unvisited_def)
    have step: "dfs_step_ok g ?path s {d} (dfs fuel g d ?path s)"
      if "d \<in> set (deps_of g n)" "dfs_ok g ?path s" "unvisited g s < fuel" for d s
    proof (rule Suc.IH [OF that(2) _ _ that(3)])
      show "d \<in> set (graph_nodes g)" using that(1) deps_in_nodes [of g n d] by (simp add: dep_edge_def)
      show "successively (dep_edge g) (?path @ [d])"
        using Suc.prems(3) that(1) by (simp add: successively_append_iff dep_edge_def)
    qed
    have "dfs_step_ok g ?path ?st1 (set (deps_of g n))
            (fold (\<lambda>d so. Option.bind so (dfs fuel g d ?path)) (deps_of g n) (Some ?st1))"
      by (rule fold_dfs_ok [OF step ok1 less])
    then obtain s where s:
      "fold (\<lambda>d so. Option.bind so (dfs fuel g d ?path)) (deps_of g n) (Some ?st1) = Some s"
      "dfs_ok g ?path s" "set (visited ?st1) \<subseteq> set (visited s)" "set (deps_of g n) \<subseteq> set (visited s)"
      "cycles s = [] \<longrightarrow> cycles st = [] \<and> set (deps_of g n) \<inter> set ?path = {}"
      by (auto simp: dfs_step_ok_def)
    let ?r = "s\<lparr>rec_stack := removeAll n (rec_stack s)\<rparr>"
    have "\<exists>fs. topo g fs \<and> set fs = set (visited s) - set path" if none: "cycles s = []"
    proof -
      from none s(2) obtain fs where fs: "topo g fs" "set fs = set (visited s) - set ?path"
        by (auto simp: dfs_ok_def)
      with s(4,5) none have "topo g (n # fs)" by auto
      moreover have "set (n # fs) = set (visited s) - set path"
        using fs(2) s(3) np by auto
      ultimately show ?thesis by blast
    qed
    with s(2) np have "dfs_ok g path ?r" by (auto simp: dfs_ok_def)
    then show ?thesis using s 3 ok np by (auto simp: dfs_step_ok_def dfs_ok_def)
  qed
qed simp

lemma detect_ok:
  "\<exists>st. detect_circular_dependencies g = Some (cycles st) \<and> dfs_ok g [] st \<and> set (keys g) \<subseteq> set (visited st)"
proof -
  let ?F = "\<lambda>n st. if n \<in> set (visited st) then Some st else dfs (dfs_fuel g) g n [] st"
  have init: "dfs_ok g [] dfs_init" by (auto simp: dfs_ok_def dfs_init_def intro: exI [of _ "[]"])
  have less: "unvisited g st < dfs_fuel g" for st
  proof -
    have "unvisited g st \<le> card (set (graph_nodes g))" unfolding unvisited_def by (rule card_mono) auto
    also have "\<dots> \<le> length (graph_nodes g)" by (rule card_length)
    finally show ?thesis by (simp add: dfs_fuel_def)
  qed
  have step: "dfs_step_ok g [] st {n} (?F n st)" if "n \<in> set (keys g)" "dfs_ok g [] st" for n st
  proof (cases "n \<in> set (visited st)")
    case True
    with that(2) show ?thesis by (auto simp: dfs_step_ok_def)
  next
    case False
    then show ?thesis using dfs_correct [OF that(2) _ _ less] that(1) by (auto simp: graph_nodes_def)
  qed
  have "dfs_step_ok g [] dfs_init (set (keys g)) (fold (\<lambda>n so. Option.bind so (?F n)) (keys g) (Some dfs_init))"
    by (rule fold_dfs_ok [OF step init less])
  then show ?thesis by (auto simp: dfs_step_ok_def detect_circular_dependencies_def)
qed

lemma detect_cycles_iff:
  "\<exists>st. detect_circular_dependencies g = Some (cycles st) \<and> dfs_ok g [] st \<and>
        (cycles st = [] \<longleftrightarrow> \<not> (\<exists>n. (dep_edge g)\<^sup>+\<^sup>+ n n))"
proof -
  obtain st where st: "detect_circular_dependencies g = Some (cycles st)" "dfs_ok g [] st"
    "set (keys g) \<subseteq> set (visited st)"
    using detect_ok by blast
  have acyc: "\<not> (dep_edge g)\<^sup>+\<^sup>+ n n" if none: "cycles st = []" for n
  proof
    assume cyc: "(dep_edge g)\<^sup>+\<^sup>+ n n"
    then obtain m where "dep_edge g n m" by (auto dest: tranclpD)
    then have "n \<in> set (keys g)" by (force dest: dep_edgeD)
    moreover from st(2) none obtain fs where "topo g fs" "set fs = set (visited st)"
      by (auto simp: dfs_ok_def)
    ultimately show False using topo_acyclic [of g fs n] st(3) cyc by auto
  qed
  have cyc: "\<exists>n. (dep_edge g)\<^sup>+\<^sup>+ n n" if "cycles st \<noteq> []"
  proof -
    from that st(2) have "is_cycle g (hd (cycles st))" by (auto simp: dfs_ok_def)
    then show ?thesis using is_cycle_reach by blast
  qed
  from acyc cyc have "cycles st = [] \<longleftrightarrow> \<not> (\<exists>n. (dep_edge g)\<^sup>+\<^sup>+ n n)" by blast
  then show ?thesis using st by blast
qed

text \<open>
  C3: cycle detection always returns (the recursion depth never exceeds the number of nodes), each
  list it reports is a closed walk along dependency edges, and it reports none exactly when the
  dependency relation is acyclic.
\<close>

theorem detect_circular_dependencies_correct:
  "\<exists>cs. detect_circular_dependencies g = Some cs \<and>
        (cs = [] \<longleftrightarrow> \<not> (\<exists>n. (dep_edge g)\<^sup>+\<^sup>+ n n)) \<and> list_all (is_cycle g) cs"
  using detect_cycles_iff [of g] by (auto simp: dfs_ok_def list_all_iff)

section \<open>What the production sequence is\<close>

text \<open>
  C5: the production sequence of a dependency graph is a single stage: the nodes no node depends
  on, in the graph's order (and no stage when there is no such node). In-degrees count a node's
  dependents where the loop expects its dependencies, so nothing is ever released after the first
  stage: a node that another node depends on is never scheduled, and no stage orders a dependency
  before its dependent.
\<close>

theorem production_sequence_single_stage:
  assumes "distinct (keys g)"
  shows "calculate_production_sequence g = Some (if undepended g = [] then [] else [undepended g]) \<and>
      (\<forall>n\<in>set (keys g). n \<in> set (undepended g) \<longleftrightarrow> \<not> (\<exists>m\<in>set (keys g). dep_edge g m n))"
proof -
  have "n \<in> set (undepended g) \<longleftrightarrow> \<not> (\<exists>m\<in>set (keys g). dep_edge g m n)" if "n \<in> set (keys g)" for n
    using that assms map_of_is_SomeI [OF assms]
    by (force simp: undepended_def dep_edge_def deps_of_def)
  then show ?thesis using calculate_production_sequence_eq [OF assms] by blast
qed

theorem production_sequence_single_stage_witness:
  "calculate_production_sequence [(''housing'', [''frame'']), (''frame'', [])] = Some [[''housing'']]"
  using production_sequence_single_stage [of "[(''housing'', [''frame'']), (''frame'', [])]"]
  by (simp add: undepended_def)

section \<open>Solutions\<close>

lemma distinct_build_graph: "distinct (keys (build_graph ts))"
  by (simp add: build_graph_def distinct_fold_update)

lemma set_dedup: "set (dedup seen ds) = set ds - set seen"
  by (induction ds arbitrary: seen) auto

lemma distinct_dedup: "distinct (dedup seen ds)"
  by (induction ds arbitrary: seen) (auto simp: set_dedup)

lemma map_of_build_graph:
  "distinct (map tree_id ts) \<Longrightarrow> t \<in> set ts \<Longrightarrow> map_of (build_graph ts) (tree_id t) = Some (tree_dependencies t)"
  unfolding build_graph_def by (rule fold_update_mem)

lemma validate_solution_returns: "\<exists>v. validate_solution s = Some v"
  using detect_ok [of "get_dependency_graph s"]
  by (auto simp: validate_solution_def Let_def)

lemma validate_solution_is_valid:
  assumes "validate_solution s = Some v"
  shows "is_valid v \<longleftrightarrow>
     (case component_mapping s of None \<Rightarrow> True | Some m \<Rightarrow> list_all (\<lambda>(c, ts). ts \<noteq> []) m) \<and>
     list_all (\<lambda>t. set (depends_on t) \<subseteq> tree_id ` set (all_trees s)) (all_trees s)"
  using assms
  by (auto simp: validate_solution_def Let_def filter_empty_conv subset_iff list_all_iff split: option.splits)

text \<open>
  C4: validation always returns a verdict, and the verdict is "valid" exactly when every component
  of the mapping has a tree and every explicit dependency of every tree is a tree of the solution.
  Circular dependencies are reported when there are any, but only as a warning: they never make
  the solution invalid.
\<close>

theorem validate_solution_verdict:
  "\<exists>v. validate_solution s = Some v \<and>
     (is_valid v \<longleftrightarrow>
        (case component_mapping s of None \<Rightarrow> True | Some m \<Rightarrow> list_all (\<lambda>(c, ts). ts \<noteq> []) m) \<and>
        list_all (\<lambda>t. set (depends_on t) \<subseteq> tree_id ` set (all_trees s)) (all_trees s)) \<and>
     (circular_dependencies v = [] \<longleftrightarrow> \<not> (\<exists>n. (dep_edge (get_dependency_graph s))\<^sup>+\<^sup>+ n n)) \<and>
     (vr_warnings v = [] \<longleftrightarrow> circular_dependencies v = [])"
proof -
  obtain st :: dfs_state where st: "detect_circular_dependencies (get_dependency_graph s) = Some (cycles st)"
    and cs: "cycles st = [] \<longleftrightarrow> \<not> (\<exists>n. (dep_edge (get_dependency_graph s))\<^sup>+\<^sup>+ n n)"
    using detect_cycles_iff [of "get_dependency_graph s"] by blast
  obtain v where v: "validate_solution s = Some v" using validate_solution_returns by blast
  moreover have c: "circular_dependencies v = cycles st"
    "vr_warnings v = (if cycles st \<noteq> []
       then [''Detected '' @ nat_text (length (cycles st)) @ '' potential circular dependencies''] else [])"
    using v st by (auto simp: validate_solution_def Let_def)
  moreover have "vr_warnings v = [] \<longleftrightarrow> cycles st = []" unfolding c by simp
  ultimately show ?thesis using validate_solution_is_valid [OF v] cs by auto
qed

lemma total_cost_sum:
  "calculate_total_cost s =
     (\<Sum>t\<leftarrow>all_trees s. case estimated_cost t of None \<Rightarrow> 0 | Some c \<Rightarrow> c)"
proof -
  have "fold (\<lambda>t total. case estimated_cost t of None \<Rightarrow> total | Some c \<Rightarrow> total + c) ts a =
      a + (\<Sum>t\<leftarrow>ts. case estimated_cost t of None \<Rightarrow> 0 | Some c \<Rightarrow> c)" for ts :: "supply_tree list" and a
    by (induction ts arbitrary: a) (auto split: option.splits)
  then show ?thesis by (simp add: calculate_total_cost_def)
qed

lemma solution_post_init_cases:
  "solution_post_init s =
     (if all_trees s = [] \<and> \<not> error_fallback (sol_metadata s) then Inl NoTrees
      else Inr (s\<lparr>root_trees := Some (case root_trees s of None \<Rightarrow> all_trees s | Some r \<Rightarrow> r),
                  score := (if round2 (score s) = 0 \<and> all_trees s \<noteq> []
                            then round2 (mean_confidence (all_trees s)) else round2 (score s))\<rparr>))"
  by (cases "root_trees s") (auto simp: solution_post_init_def Let_def)

lemma complete_nested_result:
  assumes "dependency_graph s0 = None"
  shows "\<exists>s. complete_nested s0 = Some s \<and> all_trees s = all_trees s0 \<and> root_trees s = root_trees s0 \<and>
     component_mapping s = component_mapping s0 \<and> dependency_graph s = Some (build_graph (all_trees s0)) \<and>
     production_sequence s = calculate_production_sequence (build_graph (all_trees s0)) \<and>
     validation s = validate_solution s \<and> validation s \<noteq> None \<and>
     total_estimated_cost s = Some (\<Sum>t\<leftarrow>all_trees s0. case estimated_cost t of None \<Rightarrow> 0 | Some c \<Rightarrow> c)"
proof -
  let ?g = "build_graph (all_trees s0)"
  have g: "get_dependency_graph s0 = ?g" using assms by (simp add: get_dependency_graph_def)
  obtain stages where stages: "calculate_production_sequence ?g = Some stages"
    using calculate_production_sequence_eq [OF distinct_build_graph] by blast
  obtain v where v: "validate_solution (s0\<lparr>dependency_graph := Some ?g, production_sequence := Some stages\<rparr>) = Some v"
    using validate_solution_returns by blast
  have cong: "validate_solution (s\<lparr>production_sequence := a, validation := b, total_estimated_cost := c,
      total_estimated_time := d\<rparr>) = validate_solution s" for s a b c d
    unfolding validate_solution_def get_dependency_graph_def by (simp add: Let_def cong: option.case_cong)
  have "validate_solution (s0\<lparr>dependency_graph := Some ?g\<rparr>) = Some v"
    using v cong [where s = "s0\<lparr>dependency_graph := Some ?g\<rparr>" and a = "Some stages" and b = "validation s0"
      and c = "total_estimated_cost s0" and d = "total_estimated_time s0"] by simp
  then show ?thesis
    using cong [where s = "s0\<lparr>dependency_graph := Some ?g\<rparr>"]
    by (simp add: complete_nested_def g stages v Let_def total_cost_sum)
qed

text \<open>
  Building a nested solution always returns. It raises exactly when there is no tree and the
  metadata has no error or warning marker; otherwise the solution carries the graph of its trees,
  that graph's production sequence, the verdict of validating the solution itself and the sum of
  the known costs.
\<close>

theorem from_nested_trees_result:
  "\<exists>s. from_nested_trees ts roots mapping sc mt md =
         Some (if ts = [] \<and> \<not> error_fallback (case md of Some m \<Rightarrow> m | None \<Rightarrow> []) then Inl NoTrees else Inr s) \<and>
       all_trees s = ts \<and> root_trees s = Some roots \<and> component_mapping s = Some mapping \<and>
       dependency_graph s = Some (build_graph ts) \<and>
       production_sequence s = calculate_production_sequence (build_graph ts) \<and>
       validation s = validate_solution s \<and> validation s \<noteq> None \<and>
       total_estimated_cost s = Some (\<Sum>t\<leftarrow>ts. case estimated_cost t of None \<Rightarrow> 0 | Some c \<Rightarrow> c)"
proof -
  let ?md = "case md of Some m \<Rightarrow> m | None \<Rightarrow> []"
  define p where "p = (plain_solution ts (case sc of Some x \<Rightarrow> x | None \<Rightarrow> if ts = [] then 0 else mean_confidence ts))
    \<lparr>root_trees := Some roots, component_mapping := Some mapping,
     metrics := (case mt of Some m \<Rightarrow> m | None \<Rightarrow> []), sol_metadata := ?md\<rparr>"
  have p: "all_trees p = ts" "root_trees p = Some roots" "component_mapping p = Some mapping"
    "dependency_graph p = None" "sol_metadata p = ?md"
    by (simp_all add: p_def plain_solution_def)
  then obtain s0 where post: "solution_post_init p = (if ts = [] \<and> \<not> error_fallback ?md then Inl NoTrees else Inr s0)"
    and s0: "all_trees s0 = ts" "root_trees s0 = Some roots" "component_mapping s0 = Some mapping"
      "dependency_graph s0 = None"
    by (simp add: solution_post_init_cases)
  obtain s :: solution where "complete_nested s0 = Some s" and s: "all_trees s = ts" "root_trees s = Some roots"
    "component_mapping s = Some mapping" "dependency_graph s = Some (build_graph ts)"
    "production_sequence s = calculate_production_sequence (build_graph ts)"
    "validation s = validate_solution s" "validation s \<noteq> None"
    "total_estimated_cost s = Some (\<Sum>t\<leftarrow>ts. case estimated_cost t of None \<Rightarrow> 0 | Some c \<Rightarrow> c)"
    using complete_nested_result [OF s0(4)] unfolding s0 by blast
  then have "from_nested_trees ts roots mapping sc mt md =
      Some (if ts = [] \<and> \<not> error_fallback ?md then Inl NoTrees else Inr s)"
    using post by (simp add: from_nested_trees_def p_def)
  with s show ?thesis by blast
qed

end
