(* ===== verification/Py_Time.thy ===== *)
theory Py_Time imports Py_Prelude "HOL-Library.Monad_Syntax" begin

text \<open>
  Python's \<open>datetime\<close> as the sources use it: the fields, \<open>isoformat\<close>, \<open>fromisoformat\<close> on the
  format \<open>isoformat\<close> writes (and the \<open>Z\<close> suffix), and the instant a value denotes, with which two
  datetimes are compared and subtracted. Offsets are whole minutes; \<open>None\<close> is a naive datetime,
  which the sources read as UTC.
\<close>

record datetime =
  dt_year :: nat
  dt_month :: nat
  dt_day :: nat
  dt_hour :: nat
  dt_minute :: nat
  dt_second :: nat
  dt_micro :: nat
  dt_offset :: "int option"

definition is_leap :: "nat \<Rightarrow> bool" where
  "is_leap y \<longleftrightarrow> y mod 4 = 0 \<and> (y mod 100 \<noteq> 0 \<or> y mod 400 = 0)"

definition month_lengths :: "nat \<Rightarrow> nat list" where
  "month_lengths y = [31, if is_leap y then 29 else 28, 31, 30, 31, 30, 31, 31, 30, 31, 30, 31]"

text \<open>The checks of the constructor; a value that fails them is a \<open>ValueError\<close>.\<close>

definition valid_datetime :: "datetime \<Rightarrow> bool" where
  "valid_datetime d \<longleftrightarrow>
     1 \<le> dt_year d \<and> dt_year d \<le> 9999 \<and> 1 \<le> dt_month d \<and> dt_month d \<le> 12 \<and>
     1 \<le> dt_day d \<and> dt_day d \<le> month_lengths (dt_year d) ! (dt_month d - 1) \<and>
     dt_hour d < 24 \<and> dt_minute d < 60 \<and> dt_second d < 60 \<and> dt_micro d < 1000000 \<and>
     (case dt_offset d of None \<Rightarrow> True | Some m \<Rightarrow> \<bar>m\<bar> < 24 * 60)"

definition days_of_date :: "nat \<Rightarrow> nat \<Rightarrow> nat \<Rightarrow> nat" where
  "days_of_date y m d =
     (y - 1) * 365 + (y - 1) div 4 - (y - 1) div 100 + (y - 1) div 400 +
     sum_list (take (m - 1) (month_lengths y)) + d"

text \<open>Microseconds since the first day of year one, in UTC.\<close>

definition instant :: "datetime \<Rightarrow> int" where
  "instant d =
     ((int (days_of_date (dt_year d) (dt_month d) (dt_day d)) * 24 + int (dt_hour d)) * 60 + int (dt_minute d)
        - (case dt_offset d of None \<Rightarrow> 0 | Some m \<Rightarrow> m)) * 60000000
     + int (dt_second d) * 1000000 + int (dt_micro d)"

definition hours :: "int \<Rightarrow> int" where
  "hours n = n * 3600000000"

section \<open>Fixed-width decimal fields\<close>

fun fixed :: "nat \<Rightarrow> nat \<Rightarrow> string" where
  "fixed 0 n = []"
| "fixed (Suc w) n = fixed w (n div 10) @ [char_of (48 + n mod 10)]"

definition is_digit :: "char \<Rightarrow> bool" where
  "is_digit c \<longleftrightarrow> (48::nat) \<le> of_char c \<and> (of_char c :: nat) \<le> 57"

definition read_nat :: "string \<Rightarrow> nat option" where
  "read_nat s = (if s \<noteq> [] \<and> list_all is_digit s then Some (of_digits 10 (map (\<lambda>c. of_char c - 48) s)) else None)"

text \<open>Reads \<open>w\<close> digits off the front of a text.\<close>

definition scan :: "nat \<Rightarrow> string \<Rightarrow> (nat \<times> string) option" where
  "scan w s =
     (if w \<le> length s then map_option (\<lambda>n. (n, drop w s)) (read_nat (take w s)) else None)"

definition expect :: "char \<Rightarrow> string \<Rightarrow> string option" where
  "expect c s = (case s of [] \<Rightarrow> None | x # xs \<Rightarrow> if x = c then Some xs else None)"

lemma length_fixed [simp]: "length (fixed w n) = w"
  by (induction w arbitrary: n) auto

lemma digit_char: "is_digit (char_of (48 + n mod 10 :: nat))" "of_char (char_of (48 + n mod 10 :: nat)) = 48 + n mod 10"
proof -
  have "(48 + n mod 10) mod 256 = 48 + n mod 10" by (rule mod_less) linarith
  then show "of_char (char_of (48 + n mod 10 :: nat)) = 48 + n mod 10" by simp
  then show "is_digit (char_of (48 + n mod 10 :: nat))" by (simp add: is_digit_def)
qed

lemma digits_fixed: "list_all is_digit (fixed w n)"
  by (induction w arbitrary: n) (auto simp: digit_char)

lemma of_digits_fixed: "n < 10 ^ w \<Longrightarrow> of_digits 10 (map (\<lambda>c. of_char c - 48) (fixed w n)) = n"
proof (induction w arbitrary: n)
  case (Suc w)
  then have "n div 10 < 10 ^ w" by simp
  with Suc.IH show ?case by (simp add: digit_char del: char_of_def)
qed simp

lemma scan_fixed [simp]: "0 < w \<Longrightarrow> n < 10 ^ w \<Longrightarrow> scan w (fixed w n @ s) = Some (n, s)"
  using length_fixed [of w n]
  by (auto simp: scan_def read_nat_def digits_fixed of_digits_fixed simp del: length_fixed)

lemma expect_Cons [simp]: "expect c (x # xs) = (if x = c then Some xs else None)"
  by (simp add: expect_def)

lemma fixed_not_Nil [simp]: "0 < w \<Longrightarrow> fixed w n \<noteq> []"
  by (cases w) auto

section \<open>The ISO text of a datetime\<close>

definition offset_text :: "int option \<Rightarrow> string" where
  "offset_text off =
     (case off of None \<Rightarrow> []
      | Some m \<Rightarrow> (if m < 0 then CHR ''-'' else CHR ''+'') #
          fixed 2 (nat \<bar>m\<bar> div 60) @ CHR '':'' # fixed 2 (nat \<bar>m\<bar> mod 60))"

definition isoformat :: "datetime \<Rightarrow> string" where
  "isoformat d =
     fixed 4 (dt_year d) @ CHR ''-'' # fixed 2 (dt_month d) @ CHR ''-'' # fixed 2 (dt_day d) @ CHR ''T'' #
     fixed 2 (dt_hour d) @ CHR '':'' # fixed 2 (dt_minute d) @ CHR '':'' # fixed 2 (dt_second d) @
     (if dt_micro d = 0 then [] else CHR ''.'' # fixed 6 (dt_micro d)) @ offset_text (dt_offset d)"

definition read_offset :: "string \<Rightarrow> int option option" where
  "read_offset s =
     (if s = [] then Some None
      else if s = ''Z'' then Some (Some 0)
      else if hd s \<in> {CHR ''+'', CHR ''-''} then
        do { (h, s1) \<leftarrow> scan 2 (tl s); s2 \<leftarrow> expect (CHR '':'') s1; (m, s3) \<leftarrow> scan 2 s2;
             if s3 = [] \<and> m < 60
             then (let k = int (h * 60 + m) in Some (Some (if hd s = CHR ''-'' then - k else k)))
             else None }
      else None)"

definition read_micro :: "string \<Rightarrow> (nat \<times> string) option" where
  "read_micro s = (if s \<noteq> [] \<and> hd s = CHR ''.'' then scan 6 (tl s) else Some (0, s))"

definition fromisoformat :: "string \<Rightarrow> datetime option" where
  "fromisoformat s =
     do { (y, s) \<leftarrow> scan 4 s; s \<leftarrow> expect (CHR ''-'') s; (mo, s) \<leftarrow> scan 2 s; s \<leftarrow> expect (CHR ''-'') s;
          (d, s) \<leftarrow> scan 2 s; s \<leftarrow> expect (CHR ''T'') s; (h, s) \<leftarrow> scan 2 s; s \<leftarrow> expect (CHR '':'') s;
          (mi, s) \<leftarrow> scan 2 s; s \<leftarrow> expect (CHR '':'') s; (sec, s) \<leftarrow> scan 2 s; (us, s) \<leftarrow> read_micro s;
          off \<leftarrow> read_offset s;
          let t = \<lparr>dt_year = y, dt_month = mo, dt_day = d, dt_hour = h, dt_minute = mi, dt_second = sec,
                   dt_micro = us, dt_offset = off\<rparr>;
          if valid_datetime t then Some t else None }"

lemma read_offset_text:
  assumes "case off of None \<Rightarrow> True | Some m \<Rightarrow> \<bar>m\<bar> < 24 * 60"
  shows "read_offset (offset_text off) = Some off"
proof (cases off)
  case (Some m)
  with assms have "nat \<bar>m\<bar> div 60 < 10 ^ 2" by simp
  moreover have "nat \<bar>m\<bar> mod 60 < 10 ^ 2" by (rule order.strict_trans [of _ 60]) simp_all
  moreover have "nat \<bar>m\<bar> div 60 * 60 + nat \<bar>m\<bar> mod 60 = nat \<bar>m\<bar>" by simp
  then have "int (nat \<bar>m\<bar> div 60 * 60 + nat \<bar>m\<bar> mod 60) = \<bar>m\<bar>" by simp
  moreover have "scan 2 (fixed 2 n) = Some (n, [])" if "n < 10 ^ 2" for n
    using scan_fixed [of 2 n "[]"] that by simp
  ultimately show ?thesis using Some by (simp add: read_offset_def offset_text_def Let_def)
qed (simp add: read_offset_def offset_text_def)

lemma read_micro_text:
  assumes "us < 1000000"
  shows "read_micro ((if us = 0 then [] else CHR ''.'' # fixed 6 us) @ offset_text off) = Some (us, offset_text off)"
proof -
  have "offset_text off \<noteq> [] \<Longrightarrow> hd (offset_text off) \<noteq> CHR ''.''"
    by (cases off) (auto simp: offset_text_def)
  then show ?thesis using assms by (auto simp: read_micro_def)
qed

lemma fromisoformat_isoformat: "valid_datetime d \<Longrightarrow> fromisoformat (isoformat d) = Some d"
proof -
  assume v: "valid_datetime d"
  have "dt_day d \<le> 31"
    using v by (auto simp: valid_datetime_def month_lengths_def nth_Cons' split: if_splits)
  with v have "dt_year d < 10 ^ 4" "dt_month d < 10 ^ 2" "dt_day d < 10 ^ 2" "dt_hour d < 10 ^ 2"
    "dt_minute d < 10 ^ 2" "dt_second d < 10 ^ 2" "dt_micro d < 1000000"
    "case dt_offset d of None \<Rightarrow> True | Some m \<Rightarrow> \<bar>m\<bar> < 24 * 60"
    by (auto simp: valid_datetime_def)
  moreover have "valid_datetime \<lparr>dt_year = dt_year d, dt_month = dt_month d, dt_day = dt_day d, dt_hour = dt_hour d,
      dt_minute = dt_minute d, dt_second = dt_second d, dt_micro = dt_micro d, dt_offset = dt_offset d\<rparr>"
    using v by (simp add: valid_datetime_def)
  ultimately show ?thesis using v
    by (simp add: fromisoformat_def isoformat_def read_micro_text read_offset_text Let_def)
qed

section \<open>Comparing and shifting datetimes\<close>

text \<open>\<open>a < b\<close> on datetimes: comparing a naive with an aware one is a \<open>TypeError\<close> (\<open>None\<close>).\<close>

definition dt_less :: "datetime \<Rightarrow> datetime \<Rightarrow> bool option" where
  "dt_less a b =
     (if (dt_offset a = None) = (dt_offset b = None) then Some (instant a < instant b) else None)"

definition next_day :: "datetime \<Rightarrow> datetime" where
  "next_day d =
     (if dt_day d < month_lengths (dt_year d) ! (dt_month d - 1) then d\<lparr>dt_day := dt_day d + 1\<rparr>
      else if dt_month d < 12 then d\<lparr>dt_month := dt_month d + 1, dt_day := 1\<rparr>
      else d\<lparr>dt_year := dt_year d + 1, dt_month := 1, dt_day := 1\<rparr>)"

definition prev_day :: "datetime \<Rightarrow> datetime" where
  "prev_day d =
     (if 1 < dt_day d then d\<lparr>dt_day := dt_day d - 1\<rparr>
      else if 1 < dt_month d
        then d\<lparr>dt_month := dt_month d - 1, dt_day := month_lengths (dt_year d) ! (dt_month d - 2)\<rparr>
      else d\<lparr>dt_year := dt_year d - 1, dt_month := 12, dt_day := 31\<rparr>)"

text \<open>\<open>d + timedelta(days=n)\<close>; leaving the years 1 to 9999 is an \<open>OverflowError\<close> (\<open>None\<close>).\<close>

definition add_days :: "int \<Rightarrow> datetime \<Rightarrow> datetime option" where
  "add_days n d =
     (let r = (if 0 \<le> n then (next_day ^^ nat n) d else (prev_day ^^ nat (- n)) d)
      in if 1 \<le> dt_year r \<and> dt_year r \<le> 9999 then Some r else None)"

lemma dt_offset_next_day [simp]: "dt_offset (next_day d) = dt_offset d"
  by (simp add: next_day_def)

definition valid_date :: "datetime \<Rightarrow> bool" where
  "valid_date d \<longleftrightarrow> 1 \<le> dt_year d \<and> 1 \<le> dt_month d \<and> dt_month d \<le> 12 \<and> 1 \<le> dt_day d \<and>
     dt_day d \<le> month_lengths (dt_year d) ! (dt_month d - 1)"

lemma valid_datetime_date: "valid_datetime d \<Longrightarrow> valid_date d"
  by (simp add: valid_datetime_def valid_date_def)

lemma length_months [simp]: "length (month_lengths y) = 12"
  by (simp add: month_lengths_def)

lemma month_length_pos: "1 \<le> m \<Longrightarrow> m \<le> 12 \<Longrightarrow> 1 \<le> month_lengths y ! (m - 1)"
  by (auto simp: month_lengths_def nth_Cons')

lemma days_next_month:
  assumes "1 \<le> m" and "m < 12"
  shows "days_of_date y (m + 1) 1 = days_of_date y m (month_lengths y ! (m - 1)) + 1"
proof -
  have "take m (month_lengths y) = take (m - 1) (month_lengths y) @ [month_lengths y ! (m - 1)]"
    using take_Suc_conv_app_nth [of "m - 1" "month_lengths y"] assms by simp
  then show ?thesis by (simp add: days_of_date_def algebra_simps)
qed

lemma div_step: "1 \<le> (y::nat) \<Longrightarrow> y div k = (y - 1) div k + (if y mod k = 0 then 1 else 0)"
  by (cases y) (auto simp: div_Suc)

lemma leap_arith:
  "(b::nat) \<le> a \<Longrightarrow> (p400 \<longrightarrow> p100) \<Longrightarrow> (p100 \<longrightarrow> p4) \<Longrightarrow>
   z * 365 + 365 + (a + (if p4 then 1 else 0)) - (b + (if p100 then 1 else 0)) + (c + (if p400 then 1 else 0)) + 1
     = z * 365 + a - b + c + (if p4 \<and> (\<not> p100 \<or> p400) then 366 else 365) + 1"
  by (cases p4; cases p100; cases p400) auto

lemma mod_chain: "(y::nat) mod 400 = 0 \<longrightarrow> y mod 100 = 0" "(y::nat) mod 100 = 0 \<longrightarrow> y mod 4 = 0"
  by presburger+

lemma days_next_year:
  assumes "1 \<le> y"
  shows "days_of_date (y + 1) 1 1 = days_of_date y 12 (month_lengths y ! 11) + 1"
proof -
  have le: "(y - 1) div 100 \<le> (y - 1) div 4" by (rule div_le_mono2) simp_all
  have s: "sum_list (take 11 (month_lengths y)) + month_lengths y ! 11 = (if is_leap y then 366 else 365)"
    by (simp add: month_lengths_def)
  have y: "y * 365 = (y - 1) * 365 + 365" using assms by (cases y) simp_all
  have "days_of_date (y + 1) 1 1 = y * 365 + y div 4 - y div 100 + y div 400 + 1"
    by (simp add: days_of_date_def)
  also have "\<dots> = (y - 1) * 365 + (y - 1) div 4 - (y - 1) div 100 + (y - 1) div 400
      + (if is_leap y then 366 else 365) + 1"
    unfolding y div_step [OF assms, of 4] div_step [OF assms, of 100] div_step [OF assms, of 400] is_leap_def
    by (rule leap_arith [OF le mod_chain])
  also have "\<dots> = days_of_date y 12 (month_lengths y ! 11) + 1"
    unfolding s [symmetric] days_of_date_def by (simp only: add.assoc) simp
  finally show ?thesis .
qed

lemma next_day_props:
  assumes "valid_date d"
  shows "valid_date (next_day d)" and "instant (next_day d) = instant d + 86400000000"
proof -
  let ?l = "month_lengths (dt_year d) ! (dt_month d - 1)"
  consider (day) "dt_day d < ?l" | (month) "dt_day d = ?l" "dt_month d < 12" | (year) "dt_day d = ?l" "dt_month d = 12"
    using assms by (force simp: valid_date_def)
  then have "valid_date (next_day d) \<and> days_of_date (dt_year (next_day d)) (dt_month (next_day d)) (dt_day (next_day d)) =
      days_of_date (dt_year d) (dt_month d) (dt_day d) + 1"
  proof cases
    case day
    then show ?thesis using assms by (simp add: next_day_def valid_date_def days_of_date_def)
  next
    case month
    then show ?thesis
      using assms days_next_month [of "dt_month d" "dt_year d"] month_length_pos [of "dt_month d + 1" "dt_year d"]
      by (simp add: next_day_def valid_date_def)
  next
    case year
    then show ?thesis
      using assms days_next_year [of "dt_year d"] month_length_pos [of 1 "dt_year d + 1"]
      by (simp add: next_day_def valid_date_def)
  qed
  then show "valid_date (next_day d)" "instant (next_day d) = instant d + 86400000000"
    by (auto simp: instant_def next_day_def algebra_simps)
qed

lemma next_days_props:
  "valid_date d \<Longrightarrow> valid_date ((next_day ^^ n) d) \<and> instant ((next_day ^^ n) d) = instant d + int n * 86400000000 \<and>
     dt_offset ((next_day ^^ n) d) = dt_offset d"
  by (induction n) (auto simp: next_day_props algebra_simps)

lemma add_days_instant:
  assumes "valid_datetime d" and "0 \<le> n" and "add_days n d = Some e"
  shows "instant e = instant d + n * 86400000000" and "dt_offset e = dt_offset d"
  using next_days_props [OF valid_datetime_date [OF assms(1)], of "nat n"] assms(2,3)
  by (auto simp: add_days_def Let_def split: if_splits)

end
