(* ===== verification/Doc_Fields.thy ===== *)
theory Doc_Fields imports Json_Value Py_Time begin

text \<open>
  Reading and writing the fields of the JSON documents the stores keep: optional fields, time
  stamps, and the text of a \<open>UUID\<close>. A reader returns \<open>None\<close> where the source raises, and also
  where the document holds a JSON type other than the one the field is annotated with.
\<close>

section \<open>Optional fields\<close>

definition opt_json :: "('a \<Rightarrow> json) \<Rightarrow> 'a option \<Rightarrow> json" where
  "opt_json f x = (case x of None \<Rightarrow> JNull | Some a \<Rightarrow> f a)"

fun read_str :: "json \<Rightarrow> string option" where
  "read_str (JStr s) = Some s"
| "read_str _ = None"

fun read_opt_str :: "json \<Rightarrow> string option option" where
  "read_opt_str JNull = Some None"
| "read_opt_str (JStr s) = Some (Some s)"
| "read_opt_str _ = None"

fun read_opt_bool :: "json \<Rightarrow> bool option option" where
  "read_opt_bool JNull = Some None"
| "read_opt_bool (JBool b) = Some (Some b)"
| "read_opt_bool _ = None"

text \<open>\<open>str(value)\<close> of a decoded scalar.\<close>

fun py_str :: "json \<Rightarrow> string option" where
  "py_str JNull = Some ''None''"
| "py_str (JBool b) = Some (if b then ''True'' else ''False'')"
| "py_str (JInt i) = Some (int_text i)"
| "py_str (JFloat s) = Some s"
| "py_str (JStr s) = Some s"
| "py_str _ = None"

definition time_json :: "datetime option \<Rightarrow> json" where
  "time_json t = opt_json (\<lambda>d. JStr (isoformat d)) t"

text \<open>\<open>fromisoformat\<close> of a truthy field, with \<open>None\<close> for what it rejects.\<close>

fun read_time :: "json \<Rightarrow> datetime option" where
  "read_time (JStr s) = fromisoformat s"
| "read_time _ = None"

lemma read_opt_str_json [simp]: "read_opt_str (opt_json JStr x) = Some x"
  by (cases x) (auto simp: opt_json_def)

lemma read_opt_bool_json [simp]: "read_opt_bool (opt_json JBool x) = Some x"
  by (cases x) (auto simp: opt_json_def)

definition valid_time :: "datetime option \<Rightarrow> bool" where
  "valid_time t = (case t of None \<Rightarrow> True | Some d \<Rightarrow> valid_datetime d)"

lemma read_time_json [simp]: "valid_time t \<Longrightarrow> read_time (time_json t) = t"
  by (cases t) (auto simp: time_json_def opt_json_def valid_time_def fromisoformat_isoformat)

lemma fromisoformat_valid: "fromisoformat s = Some d \<Longrightarrow> valid_datetime d"
  by (auto simp: fromisoformat_def Let_def split: option.splits prod.splits if_splits bind_splits)

lemma valid_read_time [simp]: "valid_time (read_time j)"
  by (cases j) (auto simp: valid_time_def fromisoformat_valid split: option.splits)

section \<open>UUIDs\<close>

text \<open>\<open>s.replace(p, "")\<close>.\<close>

function remove_all :: "string \<Rightarrow> string \<Rightarrow> string" where
  "remove_all p s =
     (if p = [] \<or> s = [] then s
      else if starts_with p s then remove_all p (drop (length p) s)
      else hd s # remove_all p (tl s))"
  by pat_completeness auto
termination
  by (relation "measure (\<lambda>(p, s). length s)") (auto simp: neq_Nil_conv)

declare remove_all.simps [simp del]

definition is_hex :: "char \<Rightarrow> bool" where
  "is_hex c \<longleftrightarrow> (let n = of_char (lower_char c) :: nat in (48 \<le> n \<and> n \<le> 57) \<or> (97 \<le> n \<and> n \<le> 102))"

definition dashed :: "string \<Rightarrow> string" where
  "dashed h = take 8 h @ CHR ''-'' # take 4 (drop 8 h) @ CHR ''-'' # take 4 (drop 12 h) @
     CHR ''-'' # take 4 (drop 16 h) @ CHR ''-'' # drop 20 h"

text \<open>
  \<open>str(UUID(s))\<close>; \<open>None\<close> is the \<open>ValueError\<close>. Exactly 32 hexadecimal digits must remain once
  \<open>urn:\<close>, \<open>uuid:\<close>, outer braces and dashes are gone.
\<close>

definition parse_uuid :: "string \<Rightarrow> uuid option" where
  "parse_uuid s =
     (let brace = (\<lambda>c. c = CHR ''{'' \<or> c = CHR ''}'');
          h = filter (\<lambda>c. c \<noteq> CHR ''-'')
                (rstrip_by brace (lstrip_by brace (remove_all ''uuid:'' (remove_all ''urn:'' s))))
      in if length h = 32 \<and> list_all is_hex h then Some (dashed (lower h)) else None)"

definition is_uuid :: "string \<Rightarrow> bool" where
  "is_uuid u \<longleftrightarrow> parse_uuid u = Some u"

lemma remove_all_absent: "hd p \<notin> set s \<Longrightarrow> remove_all p s = s"
proof (induction p s rule: remove_all.induct)
  case (1 p s)
  show ?case
  proof (cases "p = [] \<or> s = []")
    case False
    then have "\<not> starts_with p s" using "1.prems"
      by (auto elim!: starts_withE)
    with False 1 show ?thesis
      by (subst remove_all.simps) (auto simp: neq_Nil_conv)
  qed (simp add: remove_all.simps)
qed

lemma dropWhile_none: "\<forall>x\<in>set xs. \<not> P x \<Longrightarrow> dropWhile P xs = xs"
  by (cases xs) auto

lemma is_hex_lower [simp]: "is_hex (lower_char c) = is_hex c"
  by (simp add: is_hex_def)

lemma set_dashed: "set (dashed h) \<subseteq> insert (CHR ''-'') (set h)"
  by (auto simp: dashed_def dest: in_set_takeD in_set_dropD)

lemma filter_dashed: "CHR ''-'' \<notin> set h \<Longrightarrow> filter (\<lambda>c. c \<noteq> CHR ''-'') (dashed h) = h"
proof -
  assume a: "CHR ''-'' \<notin> set h"
  then have f: "filter (\<lambda>c. c \<noteq> CHR ''-'') (take n (drop m h)) = take n (drop m h)"
    "filter (\<lambda>c. c \<noteq> CHR ''-'') (take n h) = take n h"
    "filter (\<lambda>c. c \<noteq> CHR ''-'') (drop m h) = drop m h" for n m
    by (auto simp: filter_id_conv dest: in_set_takeD in_set_dropD)
  have s: "take 4 (drop m h) @ drop (m + 4) h = drop m h" for m
    by (metis append_take_drop_id drop_drop add.commute)
  have "filter (\<lambda>c. c \<noteq> CHR ''-'') (dashed h) =
      take 8 h @ take 4 (drop 8 h) @ take 4 (drop 12 h) @ take 4 (drop 16 h) @ drop 20 h"
    unfolding dashed_def by (simp add: f)
  also have "\<dots> = h" using s [of 8] s [of 12] s [of 16] by simp
  finally show ?thesis .
qed

lemma hex_chars: "is_hex c \<Longrightarrow> c \<notin> {CHR ''-'', CHR ''u'', CHR ''{'', CHR ''}''}"
  by (auto simp: is_hex_def lower_char_def)

lemma parse_uuid_dashed:
  assumes "length h = 32" and "list_all is_hex h"
  shows "parse_uuid (dashed h) = Some (dashed (lower h))"
proof -
  from assms(2) have h: "\<forall>c\<in>set h. c \<notin> {CHR ''-'', CHR ''u'', CHR ''{'', CHR ''}''}"
    using hex_chars by (auto simp: list_all_iff)
  then have d: "\<forall>c\<in>set (dashed h). c \<notin> {CHR ''u'', CHR ''{'', CHR ''}''}"
    using set_dashed [of h] by auto
  then have "CHR ''u'' \<notin> set (dashed h)" by blast
  then have "remove_all ''uuid:'' (remove_all ''urn:'' (dashed h)) = dashed h"
    using remove_all_absent [of "''urn:''" "dashed h"] remove_all_absent [of "''uuid:''" "dashed h"] by simp
  moreover have "rstrip_by P (lstrip_by P (dashed h)) = dashed h" if "\<forall>c\<in>set (dashed h). \<not> P c" for P
    using that by (simp add: rstrip_by_def lstrip_by_def dropWhile_none)
  moreover have "filter (\<lambda>c. c \<noteq> CHR ''-'') (dashed h) = h"
    using h by (intro filter_dashed) auto
  ultimately show ?thesis using d assms by (simp add: parse_uuid_def Let_def)
qed

lemma is_uuid_parsed: "parse_uuid s = Some u \<Longrightarrow> is_uuid u"
proof -
  assume "parse_uuid s = Some u"
  then obtain h where "length h = 32" "list_all is_hex h" "u = dashed (lower h)"
    by (auto simp: parse_uuid_def Let_def split: if_splits)
  moreover have "list_all is_hex (lower h)" using \<open>list_all is_hex h\<close> by (simp add: lower_def list_all_iff)
  ultimately show ?thesis using parse_uuid_dashed [of "lower h"] by (simp add: is_uuid_def)
qed

section \<open>Results that may fail\<close>

definition and_then :: "'e + 'a \<Rightarrow> ('a \<Rightarrow> 'e + 'b) \<Rightarrow> 'e + 'b" where
  "and_then r f = (case r of Inl e \<Rightarrow> Inl e | Inr x \<Rightarrow> f x)"

lemma and_then_simps [simp]: "and_then (Inl e) f = Inl e" "and_then (Inr x) f = f x"
  by (simp_all add: and_then_def)

lemma and_then_Inr: "and_then r f = Inr y \<longleftrightarrow> (\<exists>x. r = Inr x \<and> f x = Inr y)"
  by (cases r) auto

lemma and_then_Inl: "and_then r f = Inl e \<longleftrightarrow> r = Inl e \<or> (\<exists>x. r = Inr x \<and> f x = Inl e)"
  by (cases r) auto

fun map_result :: "('a \<Rightarrow> 'e + 'b) \<Rightarrow> 'a list \<Rightarrow> 'e + 'b list" where
  "map_result f [] = Inr []"
| "map_result f (x # xs) = and_then (f x) (\<lambda>y. and_then (map_result f xs) (\<lambda>ys. Inr (y # ys)))"

lemma map_result_Inr: "map_result f xs = Inr ys \<longleftrightarrow> list_all2 (\<lambda>x y. f x = Inr y) xs ys"
  by (induction xs arbitrary: ys) (auto simp: and_then_Inr list_all2_Cons1)

lemma map_result_Inr_iff: "(\<exists>ys. map_result f xs = Inr ys) \<longleftrightarrow> (\<forall>x\<in>set xs. \<exists>y. f x = Inr y)"
  by (induction xs) (auto simp: and_then_Inr)

end
