(* ===== verification/Asset_Record.thy ===== *)
theory Asset_Record imports Doc_Fields begin

text \<open>
  The records of field repair and their JSON forms: the observed state of a component and of a
  device unit (\<open>models/asset.py\<close>), triage reports and checklists (\<open>models/repair.py\<close>), salvage
  matches (\<open>models/salvage.py\<close>) and sourcing resolutions (\<open>models/sourcing.py\<close>).
\<close>

section \<open>Component states\<close>

datatype component_condition = INTACT | DAMAGED | MISSING | UNKNOWN

fun condition_value :: "component_condition \<Rightarrow> string" where
  "condition_value INTACT = ''intact''"
| "condition_value DAMAGED = ''damaged''"
| "condition_value MISSING = ''missing''"
| "condition_value UNKNOWN = ''unknown''"

definition read_condition :: "json option \<Rightarrow> component_condition" where
  "read_condition j =
     (case j of
        None \<Rightarrow> UNKNOWN
      | Some v \<Rightarrow>
          (case find (\<lambda>c. v = JStr (condition_value c)) [INTACT, DAMAGED, MISSING, UNKNOWN] of
             Some c \<Rightarrow> c | None \<Rightarrow> UNKNOWN))"

datatype asset_status = ACTIVE | UNDER_TRIAGE | PARTS_PENDING | UNDER_REPAIR | RESTORED | CONDEMNED

fun status_value :: "asset_status \<Rightarrow> string" where
  "status_value ACTIVE = ''active''"
| "status_value UNDER_TRIAGE = ''under_triage''"
| "status_value PARTS_PENDING = ''parts_pending''"
| "status_value UNDER_REPAIR = ''under_repair''"
| "status_value RESTORED = ''restored''"
| "status_value CONDEMNED = ''condemned''"

definition read_status :: "json \<Rightarrow> asset_status" where
  "read_status j =
     (case find (\<lambda>s. j = JStr (status_value s)) [ACTIVE, UNDER_TRIAGE, PARTS_PENDING, UNDER_REPAIR, RESTORED, CONDEMNED] of
        Some s \<Rightarrow> s | None \<Rightarrow> ACTIVE)"

record component_state =
  cs_name :: string
  condition :: component_condition
  repair_feasible :: "bool option"
  harvest_viable :: "bool option"
  source_required :: "bool option"
  cs_notes :: "string option"
  observed_at :: "datetime option"
  assessed_by :: "string option"
  claimed_by :: "string option"
  claimed_at :: "datetime option"

text \<open>A claim lasts 48 hours; \<open>now\<close> is \<open>datetime.now(timezone.utc)\<close>.\<close>

definition is_claimed :: "datetime \<Rightarrow> component_state \<Rightarrow> bool" where
  "is_claimed now cs =
     (case (claimed_by cs, claimed_at cs) of
        (Some who, Some ct) \<Rightarrow> who \<noteq> [] \<and> instant now - instant ct < hours 48
      | _ \<Rightarrow> False)"

definition component_state_to_dict :: "component_state \<Rightarrow> json" where
  "component_state_to_dict cs = JObj
     [(''component_name'', JStr (cs_name cs)),
      (''condition'', JStr (condition_value (condition cs))),
      (''repair_feasible'', opt_json JBool (repair_feasible cs)),
      (''harvest_viable'', opt_json JBool (harvest_viable cs)),
      (''source_required'', opt_json JBool (source_required cs)),
      (''notes'', opt_json JStr (cs_notes cs)),
      (''observed_at'', time_json (observed_at cs)),
      (''assessed_by'', opt_json JStr (assessed_by cs)),
      (''claimed_by'', opt_json JStr (claimed_by cs)),
      (''claimed_at'', time_json (claimed_at cs))]"

definition component_state_from_dict :: "json \<Rightarrow> component_state option" where
  "component_state_from_dict j =
     (case j of
        JObj d \<Rightarrow>
          do { name \<leftarrow> Option.bind (map_of d ''component_name'') read_str;
               rf \<leftarrow> read_opt_bool (jget d ''repair_feasible'');
               hv \<leftarrow> read_opt_bool (jget d ''harvest_viable'');
               sr \<leftarrow> read_opt_bool (jget d ''source_required'');
               nt \<leftarrow> read_opt_str (jget d ''notes'');
               ab \<leftarrow> read_opt_str (jget d ''assessed_by'');
               cb \<leftarrow> read_opt_str (jget d ''claimed_by'');
               Some \<lparr>cs_name = name, condition = read_condition (map_of d ''condition''), repair_feasible = rf,
                     harvest_viable = hv, source_required = sr, cs_notes = nt,
                     observed_at = read_time (jget d ''observed_at''), assessed_by = ab, claimed_by = cb,
                     claimed_at = read_time (jget d ''claimed_at'')\<rparr> }
      | _ \<Rightarrow> None)"

section \<open>Asset records\<close>

record asset_record =
  manifest_id :: string
  asset_tag :: string
  asset_id :: uuid
  asset_location :: "string option"
  asset_status :: asset_status
  component_states :: "component_state list"
  last_triaged_at :: "datetime option"
  triage_notes :: "string option"

definition asset_to_dict :: "asset_record \<Rightarrow> json" where
  "asset_to_dict r = JObj
     [(''id'', JStr (asset_id r)), (''manifest_id'', JStr (manifest_id r)), (''asset_tag'', JStr (asset_tag r)),
      (''location'', opt_json JStr (asset_location r)), (''status'', JStr (status_value (asset_status r))),
      (''component_states'', JList (map component_state_to_dict (component_states r))),
      (''last_triaged_at'', time_json (last_triaged_at r)), (''triage_notes'', opt_json JStr (triage_notes r))]"

text \<open>
  \<open>fresh\<close> is the \<open>uuid4()\<close> drawn when the document has no readable id. A component state that does
  not decode is dropped; a missing key is \<open>[]\<close>, and iterating \<open>None\<close> or a number raises.
\<close>

definition read_asset_id :: "uuid \<Rightarrow> json \<Rightarrow> uuid" where
  "read_asset_id fresh j =
     (if truthy j
      then (case Option.bind (py_str j) parse_uuid of Some u \<Rightarrow> u | None \<Rightarrow> fresh)
      else fresh)"

fun read_states :: "json option \<Rightarrow> component_state list option" where
  "read_states None = Some []"
| "read_states (Some (JList xs)) = Some (List.map_filter component_state_from_dict xs)"
| "read_states (Some (JObj d)) = Some []"
| "read_states (Some (JStr s)) = Some []"
| "read_states (Some _) = None"

definition asset_from_dict :: "uuid \<Rightarrow> json \<Rightarrow> asset_record option" where
  "asset_from_dict fresh j =
     (case j of
        JObj d \<Rightarrow>
          do { css \<leftarrow> read_states (map_of d ''component_states'');
               mid \<leftarrow> Option.bind (map_of d ''manifest_id'') py_str;
               tag \<leftarrow> Option.bind (map_of d ''asset_tag'') py_str;
               loc \<leftarrow> read_opt_str (jget d ''location'');
               notes \<leftarrow> read_opt_str (jget d ''triage_notes'');
               Some \<lparr>manifest_id = mid, asset_tag = tag, asset_id = read_asset_id fresh (jget d ''id''),
                     asset_location = loc, asset_status = read_status (jget d ''status''),
                     component_states = css, last_triaged_at = read_time (jget d ''last_triaged_at''),
                     triage_notes = notes\<rparr> }
      | _ \<Rightarrow> None)"

subsection \<open>What decodes is well formed, and well-formed records survive the round trip\<close>

definition wf_state :: "component_state \<Rightarrow> bool" where
  "wf_state cs \<longleftrightarrow> valid_time (observed_at cs) \<and> valid_time (claimed_at cs)"

definition wf_asset :: "asset_record \<Rightarrow> bool" where
  "wf_asset r \<longleftrightarrow> is_uuid (asset_id r) \<and> list_all wf_state (component_states r) \<and> valid_time (last_triaged_at r)"

lemma read_condition_value [simp]: "read_condition (Some (JStr (condition_value c))) = c"
  by (cases c) (auto simp: read_condition_def)

lemma read_status_value [simp]: "read_status (JStr (status_value s)) = s"
  by (cases s) (auto simp: read_status_def)

lemma component_state_roundtrip: "wf_state cs \<Longrightarrow> component_state_from_dict (component_state_to_dict cs) = Some cs"
  by (simp add: component_state_from_dict_def component_state_to_dict_def jget_def wf_state_def)

lemma component_state_from_dict_wf: "component_state_from_dict j = Some cs \<Longrightarrow> wf_state cs"
  by (auto simp: component_state_from_dict_def wf_state_def split: json.splits bind_splits)

lemma states_roundtrip:
  "list_all wf_state css \<Longrightarrow> List.map_filter component_state_from_dict (map component_state_to_dict css) = css"
  by (induction css) (simp_all add: List.map_filter_simps component_state_roundtrip)

lemma is_uuid_not_Nil: "is_uuid u \<Longrightarrow> u \<noteq> []"
  by (auto simp: is_uuid_def parse_uuid_def Let_def remove_all_absent rstrip_by_def lstrip_by_def)

lemma read_asset_id_uuid [simp]: "is_uuid u \<Longrightarrow> read_asset_id fresh (JStr u) = u"
  using is_uuid_not_Nil [of u] by (simp add: read_asset_id_def) (simp add: is_uuid_def)

lemma asset_roundtrip: "wf_asset r \<Longrightarrow> asset_from_dict fresh (asset_to_dict r) = Some r"
  by (simp add: asset_from_dict_def asset_to_dict_def jget_def wf_asset_def states_roundtrip)

lemma read_states_wf: "read_states j = Some css \<Longrightarrow> list_all wf_state css"
  by (cases j rule: read_states.cases)
    (auto simp: list_all_iff List.map_filter_def component_state_from_dict_wf)

lemma asset_from_dict_wf: "is_uuid fresh \<Longrightarrow> asset_from_dict fresh j = Some r \<Longrightarrow> wf_asset r"
  by (auto simp: asset_from_dict_def wf_asset_def read_asset_id_def read_states_wf is_uuid_parsed
      split: json.splits bind_splits option.splits)

section \<open>Triage reports and checklists\<close>

datatype triage_action = ASSESS | NO_ACTION | REPAIR_IN_PLACE | HARVEST | SOURCE_NEW | DECOMMISSION

fun action_value :: "triage_action \<Rightarrow> string" where
  "action_value ASSESS = ''assess''"
| "action_value NO_ACTION = ''no_action''"
| "action_value REPAIR_IN_PLACE = ''repair_in_place''"
| "action_value HARVEST = ''harvest''"
| "action_value SOURCE_NEW = ''source_new''"
| "action_value DECOMMISSION = ''decommission''"

record triage_item =
  ti_name :: string
  recommended_action :: triage_action
  ti_condition :: string
  ti_repair_feasible :: "bool option"
  ti_harvest_viable :: "bool option"
  ti_source_required :: "bool option"
  ti_notes :: "string option"
  ti_replaceable :: bool
  ti_salvageable :: bool
  ti_consumable :: bool
  ti_part_number :: "string option"

definition triage_item_to_dict :: "triage_item \<Rightarrow> json" where
  "triage_item_to_dict i = JObj
     [(''component_name'', JStr (ti_name i)), (''recommended_action'', JStr (action_value (recommended_action i))),
      (''condition'', JStr (ti_condition i)), (''repair_feasible'', opt_json JBool (ti_repair_feasible i)),
      (''harvest_viable'', opt_json JBool (ti_harvest_viable i)),
      (''source_required'', opt_json JBool (ti_source_required i)), (''notes'', opt_json JStr (ti_notes i)),
      (''replaceable'', JBool (ti_replaceable i)), (''salvageable'', JBool (ti_salvageable i)),
      (''consumable'', JBool (ti_consumable i)), (''part_number'', opt_json JStr (ti_part_number i))]"

record triage_report =
  tr_asset_id :: string
  tr_manifest_id :: string
  tr_asset_tag :: string
  tr_items :: "triage_item list"
  tr_last_triaged_at :: "string option"
  tr_notes :: "string option"

definition total_components :: "triage_report \<Rightarrow> nat" where
  "total_components r = length (tr_items r)"

text \<open>The six counting properties: \<open>sum(1 for i in items if i.recommended_action == a)\<close>.\<close>

definition action_count :: "triage_action \<Rightarrow> triage_report \<Rightarrow> nat" where
  "action_count a r = length (filter (\<lambda>i. recommended_action i = a) (tr_items r))"

definition needs_assessment :: "triage_report \<Rightarrow> nat" where
  "needs_assessment r = action_count ASSESS r"

definition repair_in_place_count :: "triage_report \<Rightarrow> nat" where
  "repair_in_place_count r = action_count REPAIR_IN_PLACE r"

definition harvest_count :: "triage_report \<Rightarrow> nat" where
  "harvest_count r = action_count HARVEST r"

definition source_new_count :: "triage_report \<Rightarrow> nat" where
  "source_new_count r = action_count SOURCE_NEW r"

definition no_action_count :: "triage_report \<Rightarrow> nat" where
  "no_action_count r = action_count NO_ACTION r"

definition decommission_count :: "triage_report \<Rightarrow> nat" where
  "decommission_count r = action_count DECOMMISSION r"

definition triage_report_to_dict :: "triage_report \<Rightarrow> json" where
  "triage_report_to_dict r = JObj
     [(''asset_id'', JStr (tr_asset_id r)), (''manifest_id'', JStr (tr_manifest_id r)),
      (''asset_tag'', JStr (tr_asset_tag r)), (''last_triaged_at'', opt_json JStr (tr_last_triaged_at r)),
      (''triage_notes'', opt_json JStr (tr_notes r)), (''items'', JList (map triage_item_to_dict (tr_items r))),
      (''summary'', JObj
         [(''total_components'', JInt (int (total_components r))),
          (''needs_assessment'', JInt (int (needs_assessment r))),
          (''repair_in_place'', JInt (int (repair_in_place_count r))),
          (''harvest'', JInt (int (harvest_count r))), (''source_new'', JInt (int (source_new_count r))),
          (''no_action'', JInt (int (no_action_count r))),
          (''decommission'', JInt (int (decommission_count r)))])]"

record checklist_item =
  ci_name :: string
  assessed :: bool
  ci_replaceable :: bool
  ci_salvageable :: bool
  ci_consumable :: bool
  ci_part_number :: "string option"
  current_condition :: "string option"
  current_state :: "json option"

definition checklist_item_to_dict :: "checklist_item \<Rightarrow> json" where
  "checklist_item_to_dict i = JObj
     [(''component_name'', JStr (ci_name i)), (''assessed'', JBool (assessed i)),
      (''replaceable'', JBool (ci_replaceable i)), (''salvageable'', JBool (ci_salvageable i)),
      (''consumable'', JBool (ci_consumable i)), (''part_number'', opt_json JStr (ci_part_number i)),
      (''current_condition'', opt_json JStr (current_condition i)),
      (''current_state'', opt_json id (current_state i))]"

record triage_checklist =
  tc_asset_id :: string
  tc_manifest_id :: string
  tc_asset_tag :: string
  tc_status :: string
  tc_items :: "checklist_item list"
  tc_last_triaged_at :: "string option"

definition checklist_total :: "triage_checklist \<Rightarrow> nat" where
  "checklist_total c = length (tc_items c)"

definition assessed_count :: "triage_checklist \<Rightarrow> nat" where
  "assessed_count c = length (filter assessed (tc_items c))"

definition pending_count :: "triage_checklist \<Rightarrow> nat" where
  "pending_count c = length (filter (\<lambda>i. \<not> assessed i) (tc_items c))"

definition checklist_to_dict :: "triage_checklist \<Rightarrow> json" where
  "checklist_to_dict c = JObj
     [(''asset_id'', JStr (tc_asset_id c)), (''manifest_id'', JStr (tc_manifest_id c)),
      (''asset_tag'', JStr (tc_asset_tag c)), (''status'', JStr (tc_status c)),
      (''last_triaged_at'', opt_json JStr (tc_last_triaged_at c)),
      (''items'', JList (map checklist_item_to_dict (tc_items c))),
      (''total_components'', JInt (int (checklist_total c))),
      (''assessed_count'', JInt (int (assessed_count c))), (''pending_count'', JInt (int (pending_count c)))]"

section \<open>Salvage matches and sourcing resolutions\<close>

record salvage_match =
  sm_asset_id :: string
  sm_asset_tag :: string
  sm_manifest_id :: string
  sm_component_name :: string
  sm_condition :: string
  sm_location :: "string option"
  sm_notes :: "string option"
  sm_assessed_by :: "string option"
  sm_observed_at :: "string option"
  sm_part_number :: "string option"
  sm_salvageable :: bool
  sm_replaceable :: bool
  sm_claimed_by :: "string option"
  sm_claimed_at :: "string option"

definition salvage_match_to_dict :: "salvage_match \<Rightarrow> json" where
  "salvage_match_to_dict m = JObj
     [(''asset_id'', JStr (sm_asset_id m)), (''asset_tag'', JStr (sm_asset_tag m)),
      (''manifest_id'', JStr (sm_manifest_id m)), (''location'', opt_json JStr (sm_location m)),
      (''component_name'', JStr (sm_component_name m)), (''condition'', JStr (sm_condition m)),
      (''notes'', opt_json JStr (sm_notes m)), (''assessed_by'', opt_json JStr (sm_assessed_by m)),
      (''observed_at'', opt_json JStr (sm_observed_at m)), (''part_number'', opt_json JStr (sm_part_number m)),
      (''salvageable'', JBool (sm_salvageable m)), (''replaceable'', JBool (sm_replaceable m)),
      (''claimed_by'', opt_json JStr (sm_claimed_by m)), (''claimed_at'', opt_json JStr (sm_claimed_at m))]"

record salvage_result =
  sr_matches :: "salvage_match list"
  query_component_name :: "string option"
  query_part_number :: "string option"
  query_manifest_id :: "string option"

definition salvage_result_to_dict :: "salvage_result \<Rightarrow> json" where
  "salvage_result_to_dict r = JObj
     [(''matches'', JList (map salvage_match_to_dict (sr_matches r))),
      (''total'', JInt (int (length (sr_matches r)))),
      (''query'', JObj
         [(''component_name'', opt_json JStr (query_component_name r)),
          (''part_number'', opt_json JStr (query_part_number r)),
          (''manifest_id'', opt_json JStr (query_manifest_id r))])]"

datatype sourcing_verdict = FLEET_AVAILABLE | PROCURE_NEW

fun verdict_value :: "sourcing_verdict \<Rightarrow> string" where
  "verdict_value FLEET_AVAILABLE = ''fleet_available''"
| "verdict_value PROCURE_NEW = ''procure_new''"

record sourcing_item =
  si_component_name :: string
  si_verdict :: sourcing_verdict
  si_part_number :: "string option"
  si_matches :: "json list"

definition sourcing_item_to_dict :: "sourcing_item \<Rightarrow> json" where
  "sourcing_item_to_dict i = JObj
     [(''component_name'', JStr (si_component_name i)), (''verdict'', JStr (verdict_value (si_verdict i))),
      (''part_number'', opt_json JStr (si_part_number i)), (''matches'', JList (si_matches i)),
      (''match_count'', JInt (int (length (si_matches i))))]"

record sourcing_resolution =
  so_asset_id :: string
  so_asset_tag :: string
  so_manifest_id :: string
  so_items :: "sourcing_item list"

definition fleet_available_count :: "sourcing_resolution \<Rightarrow> nat" where
  "fleet_available_count s = length (filter (\<lambda>i. si_verdict i = FLEET_AVAILABLE) (so_items s))"

definition procure_new_count :: "sourcing_resolution \<Rightarrow> nat" where
  "procure_new_count s = length (filter (\<lambda>i. si_verdict i = PROCURE_NEW) (so_items s))"

definition sourcing_resolution_to_dict :: "sourcing_resolution \<Rightarrow> json" where
  "sourcing_resolution_to_dict s = JObj
     [(''asset_id'', JStr (so_asset_id s)), (''asset_tag'', JStr (so_asset_tag s)),
      (''manifest_id'', JStr (so_manifest_id s)), (''items'', JList (map sourcing_item_to_dict (so_items s))),
      (''total_components'', JInt (int (length (so_items s)))),
      (''fleet_available_count'', JInt (int (fleet_available_count s))),
      (''procure_new_count'', JInt (int (procure_new_count s)))]"

text \<open>Every item has exactly one action (verdict, mark), so the counts add up to the total.\<close>

lemma action_counts_total:
  "needs_assessment r + repair_in_place_count r + harvest_count r + source_new_count r + no_action_count r
     + decommission_count r = total_components r"
proof -
  have "length (filter (\<lambda>i. recommended_action i = ASSESS) is) + length (filter (\<lambda>i. recommended_action i = REPAIR_IN_PLACE) is)
      + length (filter (\<lambda>i. recommended_action i = HARVEST) is) + length (filter (\<lambda>i. recommended_action i = SOURCE_NEW) is)
      + length (filter (\<lambda>i. recommended_action i = NO_ACTION) is) + length (filter (\<lambda>i. recommended_action i = DECOMMISSION) is)
      = length is" for "is" :: "triage_item list"
  proof (induction "is")
    case (Cons i "is")
    then show ?case by (cases "recommended_action i") auto
  qed simp
  then show ?thesis
    by (simp add: needs_assessment_def repair_in_place_count_def harvest_count_def source_new_count_def
        no_action_count_def decommission_count_def action_count_def total_components_def)
qed

lemma verdict_counts_total: "fleet_available_count s + procure_new_count s = length (so_items s)"
proof -
  have "filter (\<lambda>i. si_verdict i = PROCURE_NEW) xs = filter (\<lambda>i. si_verdict i \<noteq> FLEET_AVAILABLE) xs" for xs :: "sourcing_item list"
    by (rule filter_cong [OF refl]) (metis sourcing_verdict.exhaust sourcing_verdict.distinct(1))
  then show ?thesis
    using sum_length_filter_compl [of "\<lambda>i. si_verdict i = FLEET_AVAILABLE" "so_items s"]
    by (simp add: fleet_available_count_def procure_new_count_def)
qed

lemma checklist_counts_total: "assessed_count c + pending_count c = checklist_total c"
  by (simp add: assessed_count_def pending_count_def checklist_total_def sum_length_filter_compl)

end
