(* ===== verification/Asset_Service.thy ===== *)
theory Asset_Service imports Asset_Record begin

text \<open>
  The asset service (\<open>services/asset_service.py\<close>). The object store is the list of its objects
  under their keys in listing order, each object the JSON document it decodes to (\<open>None\<close>: bytes
  that are no JSON); the service runs without a store manager when the state is \<open>None\<close>. The OKH
  service is read only: \<open>okh\<close> is its lookup of a manifest by id. \<open>fresh k\<close> is the \<open>uuid4()\<close> drawn
  when the object under key \<open>k\<close> carries no readable id, \<open>now\<close> the current UTC time.
\<close>

type_synonym doc_store = "(string \<times> json option) list"

record okh_component =
  oc_name :: string
  oc_quantity :: int
  oc_replaceable :: bool
  oc_salvageable :: bool
  oc_consumable :: bool
  oc_okh_ref :: "string option"
  oc_product_url :: "string option"
  oc_part_number :: "string option"
  oc_notes :: "string option"
  oc_failure_modes :: "string list"
  oc_diagnostic_codes :: "string list"
  oc_repair_notes :: "string option"

text \<open>The part of an OKH manifest the service reads.\<close>

record okh_manifest =
  okh_components :: "okh_component list"
  compatible_manifest_ids :: "string list"

datatype asset_error =
    AssetNotFound uuid
  | ComponentNotFound string uuid
  | AlreadyClaimed string "string option"
  | BadManifestId string
  | BadDocument

section \<open>Deriving actions, flags and matches\<close>

definition flag_of :: "(okh_component \<Rightarrow> bool) \<Rightarrow> okh_component option \<Rightarrow> bool" where
  "flag_of f part = (case part of None \<Rightarrow> False | Some c \<Rightarrow> f c)"

definition derive_action :: "component_state option \<Rightarrow> okh_component option \<Rightarrow> triage_action" where
  "derive_action cso part =
     (case cso of
        None \<Rightarrow> ASSESS
      | Some cs \<Rightarrow>
          (case condition cs of
             UNKNOWN \<Rightarrow> ASSESS
           | INTACT \<Rightarrow> NO_ACTION
           | DAMAGED \<Rightarrow>
               if repair_feasible cs = Some True then REPAIR_IN_PLACE
               else if flag_of oc_salvageable part then HARVEST
               else if flag_of oc_replaceable part then SOURCE_NEW
               else DECOMMISSION
           | MISSING \<Rightarrow> if flag_of oc_replaceable part then SOURCE_NEW else DECOMMISSION))"

datatype flag = RepairFeasible | HarvestViable | SourceRequired

fun get_flag :: "flag \<Rightarrow> component_state \<Rightarrow> bool option" where
  "get_flag RepairFeasible cs = repair_feasible cs"
| "get_flag HarvestViable cs = harvest_viable cs"
| "get_flag SourceRequired cs = source_required cs"

fun set_flag :: "flag \<Rightarrow> bool \<Rightarrow> component_state \<Rightarrow> component_state" where
  "set_flag RepairFeasible b cs = cs\<lparr>repair_feasible := Some b\<rparr>"
| "set_flag HarvestViable b cs = cs\<lparr>harvest_viable := Some b\<rparr>"
| "set_flag SourceRequired b cs = cs\<lparr>source_required := Some b\<rparr>"

fun derive_flags :: "triage_action \<Rightarrow> (flag \<times> bool) list" where
  "derive_flags REPAIR_IN_PLACE = [(RepairFeasible, True), (HarvestViable, False), (SourceRequired, False)]"
| "derive_flags HARVEST = [(HarvestViable, True), (RepairFeasible, False), (SourceRequired, False)]"
| "derive_flags SOURCE_NEW = [(SourceRequired, True), (HarvestViable, False), (RepairFeasible, False)]"
| "derive_flags DECOMMISSION = [(HarvestViable, False), (RepairFeasible, False), (SourceRequired, False)]"
| "derive_flags NO_ACTION = [(SourceRequired, False)]"
| "derive_flags ASSESS = []"

definition is_salvage_match ::
  "component_state \<Rightarrow> okh_component option \<Rightarrow> string option \<Rightarrow> string option \<Rightarrow> string list option \<Rightarrow> bool" where
  "is_salvage_match cs part component_name part_number conditions =
     (if harvest_viable cs \<noteq> Some True then False
      else if (case conditions of None \<Rightarrow> False | Some c \<Rightarrow> c \<noteq> [] \<and> condition_value (condition cs) \<notin> set c) then False
      else if (case component_name of None \<Rightarrow> False | Some n \<Rightarrow> \<not> contains (lower n) (lower (cs_name cs))) then False
      else if (case part_number of None \<Rightarrow> False | Some pn \<Rightarrow> Option.bind part oc_part_number \<noteq> Some pn) then False
      else True)"

section \<open>Storage operations\<close>

definition asset_key :: "uuid \<Rightarrow> string" where
  "asset_key u = ''asset/'' @ u @ ''.json''"

text \<open>Discovery by the prefix \<open>asset/\<close>.\<close>

definition discover :: "doc_store \<Rightarrow> doc_store" where
  "discover st = filter (\<lambda>(k, doc). starts_with ''asset/'' k) st"

text \<open>\<open>data.get("id") == str(asset_id)\<close> of a document that is a dict.\<close>

definition doc_has_id :: "uuid \<Rightarrow> json option \<Rightarrow> bool" where
  "doc_has_id u doc = (case doc of Some (JObj d) \<Rightarrow> jget d ''id'' = JStr u | _ \<Rightarrow> False)"

definition read_asset :: "(string \<Rightarrow> uuid) \<Rightarrow> string \<times> json option \<Rightarrow> asset_record option" where
  "read_asset fresh obj = Option.bind (snd obj) (asset_from_dict (fresh (fst obj)))"

fun get_loop :: "(string \<Rightarrow> uuid) \<Rightarrow> uuid \<Rightarrow> doc_store \<Rightarrow> asset_record option" where
  "get_loop fresh u [] = None"
| "get_loop fresh u (obj # objs) =
     (if doc_has_id u (snd obj)
      then (case read_asset fresh obj of Some r \<Rightarrow> Some r | None \<Rightarrow> get_loop fresh u objs)
      else get_loop fresh u objs)"

definition asset_get :: "(string \<Rightarrow> uuid) \<Rightarrow> doc_store option \<Rightarrow> uuid \<Rightarrow> asset_record option" where
  "asset_get fresh st u = (case st of None \<Rightarrow> None | Some s \<Rightarrow> get_loop fresh u (discover s))"

definition find_key :: "doc_store option \<Rightarrow> uuid \<Rightarrow> string option" where
  "find_key st u =
     (case st of None \<Rightarrow> None | Some s \<Rightarrow> map_option fst (find (\<lambda>obj. doc_has_id u (snd obj)) (discover s)))"

text \<open>\<open>manifest_id and record.manifest_id != manifest_id\<close>: an empty or missing filter keeps all.\<close>

definition asset_list :: "(string \<Rightarrow> uuid) \<Rightarrow> doc_store option \<Rightarrow> string option \<Rightarrow> asset_record list" where
  "asset_list fresh st manifest_filter =
     (case st of
        None \<Rightarrow> []
      | Some s \<Rightarrow>
          vals (fold (\<lambda>obj records.
             case read_asset fresh obj of
               None \<Rightarrow> records
             | Some r \<Rightarrow>
                 (if (case manifest_filter of None \<Rightarrow> False | Some m \<Rightarrow> m \<noteq> [] \<and> manifest_id r \<noteq> m) then records
                  else if asset_id r \<in> set (keys records) then records
                  else records @ [(asset_id r, r)])) (discover s) []))"

datatype asset_input = Record asset_record | Document json

definition input_record :: "uuid \<Rightarrow> asset_input \<Rightarrow> asset_error + asset_record" where
  "input_record fresh_id i =
     (case i of
        Record r \<Rightarrow> Inr r
      | Document j \<Rightarrow> (case asset_from_dict fresh_id j of Some r \<Rightarrow> Inr r | None \<Rightarrow> Inl BadDocument))"

definition put_asset :: "string \<Rightarrow> asset_record \<Rightarrow> doc_store option \<Rightarrow> doc_store option" where
  "put_asset k r st = map_option (AList.update k (Some (asset_to_dict r))) st"

definition asset_create ::
  "uuid \<Rightarrow> doc_store option \<Rightarrow> asset_input \<Rightarrow> asset_error + (asset_record \<times> doc_store option)" where
  "asset_create fresh_id st i =
     and_then (input_record fresh_id i) (\<lambda>r. Inr (r, put_asset (asset_key (asset_id r)) r st))"

definition asset_update ::
  "uuid \<Rightarrow> doc_store option \<Rightarrow> uuid \<Rightarrow> asset_input \<Rightarrow> asset_error + (asset_record \<times> doc_store option)" where
  "asset_update fresh_id st u i =
     and_then (input_record fresh_id i) (\<lambda>r.
       Inr (r, put_asset (case find_key st u of Some k \<Rightarrow> if k \<noteq> [] then k else asset_key u | None \<Rightarrow> asset_key u) r st))"

definition asset_delete :: "doc_store option \<Rightarrow> uuid \<Rightarrow> bool \<times> doc_store option" where
  "asset_delete st u =
     (case find_key st u of None \<Rightarrow> (False, st) | Some k \<Rightarrow> (True, map_option (AList.delete k) st))"

section \<open>Triage\<close>

text \<open>\<open>await okh_svc.get(UUID(mid))\<close>, and the components of the manifest by name (later ones win).\<close>

definition okh_get :: "(uuid \<Rightarrow> okh_manifest option) \<Rightarrow> string \<Rightarrow> asset_error + okh_manifest option" where
  "okh_get okh mid = (case parse_uuid mid of None \<Rightarrow> Inl (BadManifestId mid) | Some u \<Rightarrow> Inr (okh u))"

definition manifest_components :: "okh_manifest option \<Rightarrow> okh_component list" where
  "manifest_components m = (case m of None \<Rightarrow> [] | Some mf \<Rightarrow> okh_components mf)"

definition comp_map :: "okh_manifest option \<Rightarrow> (string \<times> okh_component) list" where
  "comp_map m = dict_by oc_name (manifest_components m)"

definition fill_flags :: "(string \<times> okh_component) list \<Rightarrow> component_state \<Rightarrow> component_state" where
  "fill_flags cm cs =
     fold (\<lambda>(flag, value) c. if get_flag flag c = None then set_flag flag value c else c)
       (derive_flags (derive_action (Some cs) (map_of cm (cs_name cs)))) cs"

definition merge_states :: "component_state list \<Rightarrow> component_state list \<Rightarrow> component_state list" where
  "merge_states old new =
     vals (fold (\<lambda>s d. AList.update (cs_name s) s d) new (dict_by cs_name old))"

definition require_asset ::
  "(string \<Rightarrow> uuid) \<Rightarrow> doc_store option \<Rightarrow> uuid \<Rightarrow> asset_error + asset_record" where
  "require_asset fresh st u = (case asset_get fresh st u of None \<Rightarrow> Inl (AssetNotFound u) | Some r \<Rightarrow> Inr r)"

text \<open>What \<open>record_triage\<close> does to the record it read, given the components of the manifest.\<close>

definition apply_triage ::
  "(string \<times> okh_component) list \<Rightarrow> datetime \<Rightarrow> component_state list \<Rightarrow> string option \<Rightarrow> asset_record \<Rightarrow> asset_record" where
  "apply_triage cm now states notes record =
     (let record1 = record\<lparr>component_states := merge_states (component_states record) (map (fill_flags cm) states),
                           last_triaged_at := Some now\<rparr>
      in case notes of None \<Rightarrow> record1 | Some n \<Rightarrow> record1\<lparr>triage_notes := Some n\<rparr>)"

definition record_triage ::
  "(string \<Rightarrow> uuid) \<Rightarrow> uuid \<Rightarrow> (uuid \<Rightarrow> okh_manifest option) \<Rightarrow> datetime \<Rightarrow> doc_store option \<Rightarrow> uuid \<Rightarrow>
   component_state list \<Rightarrow> string option \<Rightarrow> asset_error + (asset_record \<times> doc_store option)" where
  "record_triage fresh fresh_id okh now st u states notes =
     and_then (require_asset fresh st u) (\<lambda>record.
     and_then (okh_get okh (manifest_id record)) (\<lambda>manifest.
       asset_update fresh_id st u (Document (asset_to_dict
         (apply_triage (comp_map manifest) now states notes record)))))"

definition triage_item_of :: "component_state option \<Rightarrow> okh_component \<Rightarrow> triage_item" where
  "triage_item_of cs part =
     \<lparr>ti_name = oc_name part, recommended_action = derive_action cs (Some part),
      ti_condition = (case cs of None \<Rightarrow> ''not_assessed'' | Some c \<Rightarrow> condition_value (condition c)),
      ti_repair_feasible = Option.bind cs repair_feasible, ti_harvest_viable = Option.bind cs harvest_viable,
      ti_source_required = Option.bind cs source_required, ti_notes = Option.bind cs cs_notes,
      ti_replaceable = oc_replaceable part, ti_salvageable = oc_salvageable part,
      ti_consumable = oc_consumable part, ti_part_number = oc_part_number part\<rparr>"

definition observed_item :: "component_state \<Rightarrow> triage_item" where
  "observed_item cs =
     \<lparr>ti_name = cs_name cs, recommended_action = derive_action (Some cs) None,
      ti_condition = condition_value (condition cs), ti_repair_feasible = repair_feasible cs,
      ti_harvest_viable = harvest_viable cs, ti_source_required = source_required cs, ti_notes = cs_notes cs,
      ti_replaceable = False, ti_salvageable = False, ti_consumable = False, ti_part_number = None\<rparr>"

definition triage_report_for :: "asset_record \<Rightarrow> okh_manifest option \<Rightarrow> triage_report" where
  "triage_report_for record manifest =
     (let observed = dict_by cs_name (component_states record);
          items = (if manifest_components manifest \<noteq> []
                   then map (\<lambda>part. triage_item_of (map_of observed (oc_name part)) part) (manifest_components manifest)
                   else map observed_item (component_states record))
      in \<lparr>tr_asset_id = asset_id record, tr_manifest_id = manifest_id record, tr_asset_tag = asset_tag record,
          tr_items = items, tr_last_triaged_at = map_option isoformat (last_triaged_at record),
          tr_notes = triage_notes record\<rparr>)"

definition generate_triage_report ::
  "(string \<Rightarrow> uuid) \<Rightarrow> (uuid \<Rightarrow> okh_manifest option) \<Rightarrow> doc_store option \<Rightarrow> uuid \<Rightarrow> asset_error + triage_report" where
  "generate_triage_report fresh okh st u =
     and_then (require_asset fresh st u) (\<lambda>record.
     and_then (okh_get okh (manifest_id record)) (\<lambda>manifest. Inr (triage_report_for record manifest)))"

definition checklist_item_of :: "component_state option \<Rightarrow> okh_component \<Rightarrow> checklist_item" where
  "checklist_item_of cs part =
     \<lparr>ci_name = oc_name part, assessed = (cs \<noteq> None), ci_replaceable = oc_replaceable part,
      ci_salvageable = oc_salvageable part, ci_consumable = oc_consumable part,
      ci_part_number = oc_part_number part,
      current_condition = map_option (\<lambda>c. condition_value (condition c)) cs,
      current_state = map_option component_state_to_dict cs\<rparr>"

definition unlisted_item :: "component_state \<Rightarrow> checklist_item" where
  "unlisted_item cs =
     \<lparr>ci_name = cs_name cs, assessed = True, ci_replaceable = False, ci_salvageable = False,
      ci_consumable = False, ci_part_number = None,
      current_condition = Some (condition_value (condition cs)),
      current_state = Some (component_state_to_dict cs)\<rparr>"

definition triage_checklist_for :: "asset_record \<Rightarrow> okh_manifest option \<Rightarrow> triage_checklist" where
  "triage_checklist_for record manifest =
     (let observed = dict_by cs_name (component_states record);
          listed = manifest_components manifest;
          seen = map oc_name listed;
          items = map (\<lambda>part. checklist_item_of (map_of observed (oc_name part)) part) listed @
                  map (\<lambda>(name, cs). unlisted_item cs) (filter (\<lambda>(name, cs). name \<notin> set seen) observed)
      in \<lparr>tc_asset_id = asset_id record, tc_manifest_id = manifest_id record, tc_asset_tag = asset_tag record,
          tc_status = status_value (asset_status record), tc_items = items,
          tc_last_triaged_at = map_option isoformat (last_triaged_at record)\<rparr>)"

definition generate_triage_checklist ::
  "(string \<Rightarrow> uuid) \<Rightarrow> (uuid \<Rightarrow> okh_manifest option) \<Rightarrow> doc_store option \<Rightarrow> uuid \<Rightarrow> asset_error + triage_checklist" where
  "generate_triage_checklist fresh okh st u =
     and_then (require_asset fresh st u) (\<lambda>record.
     and_then (okh_get okh (manifest_id record)) (\<lambda>manifest. Inr (triage_checklist_for record manifest)))"

section \<open>Salvage and sourcing\<close>

definition search_manifest_ids ::
  "(uuid \<Rightarrow> okh_manifest option) \<Rightarrow> string option \<Rightarrow> asset_error + string list option" where
  "search_manifest_ids okh mid =
     (case mid of
        None \<Rightarrow> Inr None
      | Some m \<Rightarrow>
          if m = [] then Inr None
          else and_then (okh_get okh m) (\<lambda>primary.
            Inr (Some (m # (case primary of None \<Rightarrow> [] | Some p \<Rightarrow> compatible_manifest_ids p)))))"

definition salvage_match_of ::
  "asset_record \<Rightarrow> component_state \<Rightarrow> okh_component option \<Rightarrow> salvage_match" where
  "salvage_match_of record cs part =
     \<lparr>sm_asset_id = asset_id record, sm_asset_tag = asset_tag record, sm_manifest_id = manifest_id record,
      sm_component_name = cs_name cs, sm_condition = condition_value (condition cs),
      sm_location = asset_location record, sm_notes = cs_notes cs, sm_assessed_by = assessed_by cs,
      sm_observed_at = map_option isoformat (observed_at cs), sm_part_number = Option.bind part oc_part_number,
      sm_salvageable = flag_of oc_salvageable part, sm_replaceable = flag_of oc_replaceable part,
      sm_claimed_by = claimed_by cs, sm_claimed_at = map_option isoformat (claimed_at cs)\<rparr>"

record salvage_query =
  sq_name :: "string option"
  sq_part_number :: "string option"
  sq_manifest_id :: "string option"
  sq_conditions :: "string list option"
  sq_exclude_asset_id :: "string option"
  sq_exclude_claimed :: bool

definition excluded_asset :: "salvage_query \<Rightarrow> asset_record \<Rightarrow> bool" where
  "excluded_asset q r = (case sq_exclude_asset_id q of None \<Rightarrow> False | Some x \<Rightarrow> x \<noteq> [] \<and> asset_id r = x)"

definition salvage_hit :: "datetime \<Rightarrow> salvage_query \<Rightarrow> (string \<times> okh_component) list \<Rightarrow> component_state \<Rightarrow> bool" where
  "salvage_hit now q cm cs \<longleftrightarrow>
     \<not> (sq_exclude_claimed q \<and> is_claimed now cs) \<and>
     is_salvage_match cs (map_of cm (cs_name cs)) (sq_name q) (sq_part_number q) (sq_conditions q)"

text \<open>The matches of one record of the fleet.\<close>

definition salvage_record ::
  "(uuid \<Rightarrow> okh_manifest option) \<Rightarrow> datetime \<Rightarrow> salvage_query \<Rightarrow> asset_record \<Rightarrow> asset_error + salvage_match list" where
  "salvage_record okh now q record =
     (if excluded_asset q record then Inr []
      else and_then (okh_get okh (manifest_id record)) (\<lambda>manifest.
        let cm = comp_map manifest
        in Inr (map (\<lambda>cs. salvage_match_of record cs (map_of cm (cs_name cs)))
                  (filter (salvage_hit now q cm) (component_states record)))))"

definition salvage_search ::
  "(string \<Rightarrow> uuid) \<Rightarrow> (uuid \<Rightarrow> okh_manifest option) \<Rightarrow> datetime \<Rightarrow> doc_store option \<Rightarrow> salvage_query \<Rightarrow>
   asset_error + salvage_result" where
  "salvage_search fresh okh now st q =
     and_then (search_manifest_ids okh (sq_manifest_id q)) (\<lambda>ids.
       let records = asset_list fresh st None;
           wanted = (case ids of None \<Rightarrow> records | Some is \<Rightarrow> filter (\<lambda>r. manifest_id r \<in> set is) records)
       in and_then (map_result (salvage_record okh now q) wanted) (\<lambda>mss.
            Inr \<lparr>sr_matches = concat mss, query_component_name = sq_name q,
                 query_part_number = sq_part_number q, query_manifest_id = sq_manifest_id q\<rparr>))"

definition sourcing_query :: "uuid \<Rightarrow> asset_record \<Rightarrow> triage_item \<Rightarrow> salvage_query" where
  "sourcing_query u record item =
     \<lparr>sq_name = Some (ti_name item), sq_part_number = None, sq_manifest_id = Some (manifest_id record),
      sq_conditions = None, sq_exclude_asset_id = Some u, sq_exclude_claimed = True\<rparr>"

definition sourcing_item_of :: "triage_item \<Rightarrow> salvage_result \<Rightarrow> sourcing_item" where
  "sourcing_item_of item result =
     \<lparr>si_component_name = ti_name item,
      si_verdict = (if sr_matches result \<noteq> [] then FLEET_AVAILABLE else PROCURE_NEW),
      si_part_number = ti_part_number item, si_matches = map salvage_match_to_dict (sr_matches result)\<rparr>"

definition resolve_sourcing ::
  "(string \<Rightarrow> uuid) \<Rightarrow> (uuid \<Rightarrow> okh_manifest option) \<Rightarrow> datetime \<Rightarrow> doc_store option \<Rightarrow> uuid \<Rightarrow>
   asset_error + sourcing_resolution" where
  "resolve_sourcing fresh okh now st u =
     and_then (require_asset fresh st u) (\<lambda>record.
     and_then (generate_triage_report fresh okh st u) (\<lambda>report.
     and_then (map_result (\<lambda>item.
         and_then (salvage_search fresh okh now st (sourcing_query u record item)) (\<lambda>result.
           Inr (sourcing_item_of item result)))
         (filter (\<lambda>i. recommended_action i = SOURCE_NEW) (tr_items report))) (\<lambda>items.
       Inr \<lparr>so_asset_id = asset_id record, so_asset_tag = asset_tag record,
            so_manifest_id = manifest_id record, so_items = items\<rparr>)))"

section \<open>Claims\<close>

text \<open>Replaces the first element that satisfies \<open>P\<close>: the object \<open>next(...)\<close> found, changed in place.\<close>

fun update_first :: "('a \<Rightarrow> bool) \<Rightarrow> ('a \<Rightarrow> 'a) \<Rightarrow> 'a list \<Rightarrow> 'a list" where
  "update_first P f [] = []"
| "update_first P f (x # xs) = (if P x then f x # xs else x # update_first P f xs)"

definition claim_component ::
  "(string \<Rightarrow> uuid) \<Rightarrow> uuid \<Rightarrow> datetime \<Rightarrow> doc_store option \<Rightarrow> uuid \<Rightarrow> string \<Rightarrow> string \<Rightarrow>
   asset_error + (component_state \<times> doc_store option)" where
  "claim_component fresh fresh_id now st u name who =
     and_then (require_asset fresh st u) (\<lambda>record.
       case find (\<lambda>s. cs_name s = name) (component_states record) of
         None \<Rightarrow> Inl (ComponentNotFound name u)
       | Some cs \<Rightarrow>
           if is_claimed now cs then Inl (AlreadyClaimed name (claimed_by cs))
           else
             (let claim = (\<lambda>s. s\<lparr>claimed_by := Some who, claimed_at := Some now\<rparr>)
              in and_then (asset_update fresh_id st u (Record
                     (record\<lparr>component_states := update_first (\<lambda>s. cs_name s = name) claim (component_states record)\<rparr>)))
                   (\<lambda>(r, st'). Inr (claim cs, st'))))"

end
