(* ===== verification/Asset_Facts.thy ===== *)
theory Asset_Facts imports Asset_Service begin

text \<open>
  What the asset service guarantees: lookups after updates, the exclusivity of claims, the effect of
  recording a triage and the report that follows it, the fleet search, and the sourcing verdicts.
  A store is well formed when its keys are distinct, as the keys of an object store are.
\<close>

section \<open>Lookups after an update\<close>

abbreviation wf_store :: "doc_store option \<Rightarrow> bool" where
  "wf_store st \<equiv> (case st of None \<Rightarrow> False | Some s \<Rightarrow> distinct (keys s))"

lemma discover_update:
  "starts_with ''asset/'' k \<Longrightarrow> discover (AList.update k v s) = AList.update k v (discover s)"
  by (induction s) (auto simp: discover_def)

lemma distinct_discover: "distinct (keys s) \<Longrightarrow> distinct (keys (discover s))"
  by (simp add: discover_def)

lemma starts_asset_key: "starts_with ''asset/'' (asset_key u)"
  by (simp add: asset_key_def starts_with_def)

lemma find_key_asset: "find_key (Some s) u = Some k \<Longrightarrow> starts_with ''asset/'' k"
  by (auto simp: find_key_def discover_def dest!: find_mem)

lemma starts_with_not_Nil: "starts_with ''asset/'' k \<Longrightarrow> k \<noteq> []"
  by (auto simp: starts_with_def)

lemma doc_has_id_record: "doc_has_id u (Some (asset_to_dict r)) \<longleftrightarrow> asset_id r = u"
  by (simp add: doc_has_id_def asset_to_dict_def jget_def)

lemma read_asset_record: "wf_asset r \<Longrightarrow> read_asset fresh (k, Some (asset_to_dict r)) = Some r"
  by (simp add: read_asset_def asset_roundtrip)

lemma get_loop_found:
  assumes "find (\<lambda>obj. doc_has_id u (snd obj)) d = Some (k, doc)" and "distinct (keys d)"
    and "wf_asset r" and "asset_id r = u"
  shows "get_loop fresh u (AList.update k (Some (asset_to_dict r)) d) = Some r"
  using assms
proof (induction d)
  case (Cons obj d)
  show ?case
  proof (cases "doc_has_id u (snd obj)")
    case False
    with Cons.prems have "fst obj \<noteq> k" by (cases obj) (auto dest!: find_mem intro: rev_image_eqI)
    with False Cons show ?thesis by (cases obj) auto
  qed (use Cons.prems in \<open>cases obj, auto simp: doc_has_id_record read_asset_record\<close>)
qed simp

lemma get_loop_new:
  assumes "find (\<lambda>obj. doc_has_id u (snd obj)) d = None" and "wf_asset r" and "asset_id r = u"
  shows "get_loop fresh u (AList.update k (Some (asset_to_dict r)) d) = Some r"
  using assms by (induction d) (auto simp: doc_has_id_record read_asset_record split: if_splits)

lemma asset_get_update:
  assumes "wf_store st" and "wf_asset r" and "asset_id r = u"
  shows "asset_get fresh (snd (projr (asset_update f st u (Record r)))) u = Some r"
proof -
  obtain s where st: "st = Some s" "distinct (keys s)" using assms(1) by (cases st) auto
  show ?thesis
  proof (cases "find (\<lambda>obj. doc_has_id u (snd obj)) (discover s)")
    case None
    then show ?thesis using st assms(2,3) get_loop_new [OF None assms(2,3)]
      by (simp add: asset_update_def input_record_def put_asset_def find_key_def asset_get_def
          discover_update starts_asset_key)
  next
    case (Some obj)
    obtain k doc where obj: "obj = (k, doc)" by force
    have k: "starts_with ''asset/'' k"
      using Some st obj by (intro find_key_asset [of s u]) (simp add: find_key_def)
    then show ?thesis using st Some obj assms(2,3) get_loop_found [OF _ distinct_discover [OF st(2)] assms(2,3)]
      by (simp add: asset_update_def input_record_def put_asset_def find_key_def asset_get_def
          discover_update starts_with_not_Nil)
  qed
qed

lemma get_loop_wf:
  "is_uuid u \<Longrightarrow> get_loop fresh u d = Some r \<Longrightarrow> wf_asset r \<and> asset_id r = u"
proof (induction d)
  case (Cons obj d)
  have "wf_asset q \<and> asset_id q = u" if "doc_has_id u (snd obj)" "read_asset fresh obj = Some q" for q
    using that Cons.prems(1)
    by (auto simp: doc_has_id_def read_asset_def asset_from_dict_def wf_asset_def read_states_wf
        split: option.splits json.splits bind_splits)
  with Cons show ?case by (auto split: if_splits option.splits)
qed simp

lemma asset_get_wf: "is_uuid u \<Longrightarrow> asset_get fresh st u = Some r \<Longrightarrow> wf_asset r \<and> asset_id r = u"
  by (auto simp: asset_get_def get_loop_wf split: option.splits)

lemma asset_get_store: "asset_get fresh st u = Some r \<Longrightarrow> st \<noteq> None"
  by (cases st) (auto simp: asset_get_def)

lemma wf_store_update:
  "wf_store st \<Longrightarrow> asset_update f st u i = Inr (r, st') \<Longrightarrow> wf_store st'"
  by (auto simp: asset_update_def and_then_Inr put_asset_def split: option.splits)

lemma asset_update_record: "\<exists>st'. asset_update f st u (Record r) = Inr (r, st')"
  by (simp add: asset_update_def input_record_def)

lemma asset_update_document:
  "wf_asset r \<Longrightarrow> asset_update f st u (Document (asset_to_dict r)) = asset_update f st u (Record r)"
  by (simp add: asset_update_def input_record_def asset_roundtrip)

section \<open>Claims\<close>

lemma update_first_find: "(\<And>x. P x \<Longrightarrow> P (f x)) \<Longrightarrow> find P (update_first P f xs) = map_option f (find P xs)"
  by (induction xs) auto

lemma list_all_update_first: "list_all Q xs \<Longrightarrow> (\<And>x. Q x \<Longrightarrow> Q (f x)) \<Longrightarrow> list_all Q (update_first P f xs)"
  by (induction xs) auto

lemma claim_component_Inr:
  assumes "claim_component fresh f now st u name who = Inr (cs, st')"
    and "wf_store st" and "is_uuid u" and "valid_datetime now"
  shows "\<exists>r old. asset_get fresh st u = Some r \<and> find (\<lambda>s. cs_name s = name) (component_states r) = Some old \<and>
     \<not> is_claimed now old \<and> cs = old\<lparr>claimed_by := Some who, claimed_at := Some now\<rparr> \<and> wf_store st' \<and>
     asset_get fresh st' u = Some (r\<lparr>component_states := update_first (\<lambda>s. cs_name s = name)
        (\<lambda>s. s\<lparr>claimed_by := Some who, claimed_at := Some now\<rparr>) (component_states r)\<rparr>)"
proof -
  let ?claim = "\<lambda>s :: component_state. s\<lparr>claimed_by := Some who, claimed_at := Some now\<rparr>"
  from assms(1) obtain r :: asset_record and old :: component_state where
    r: "asset_get fresh st u = Some r" and old: "find (\<lambda>s. cs_name s = name) (component_states r) = Some old"
    and free: "\<not> is_claimed now old"
    by (auto simp: claim_component_def require_asset_def and_then_Inr split: option.splits if_splits)
  define q where "q = r\<lparr>component_states := update_first (\<lambda>s. cs_name s = name) ?claim (component_states r)\<rparr>"
  obtain st2 where st2: "asset_update f st u (Record q) = Inr (q, st2)"
    using asset_update_record by blast
  with assms(1) r old free have res: "cs = ?claim old" "st' = st2"
    by (auto simp: claim_component_def require_asset_def q_def [symmetric])
  have "wf_asset r" "asset_id r = u" using asset_get_wf [OF assms(3) r] by auto
  then have q: "wf_asset q" "asset_id q = u"
    using assms(4) by (auto simp: q_def wf_asset_def wf_state_def valid_time_def intro!: list_all_update_first)
  with asset_get_update [OF assms(2) q, of fresh f] wf_store_update [OF assms(2) st2] st2 res r old free
  show ?thesis by (auto simp: q_def)
qed


definition demo_id :: uuid where
  "demo_id = ''0a0a0a0a-0000-4000-8000-000000000001''"

definition demo_manifest_id :: uuid where
  "demo_manifest_id = ''0b0b0b0b-0000-4000-8000-000000000001''"

definition demo_time :: "nat \<Rightarrow> datetime" where
  "demo_time d = \<lparr>dt_year = 2025, dt_month = 1, dt_day = d, dt_hour = 0, dt_minute = 0, dt_second = 0,
     dt_micro = 0, dt_offset = Some 0\<rparr>"

definition demo_state :: component_state where
  "demo_state = \<lparr>cs_name = ''motor'', condition = DAMAGED, repair_feasible = None, harvest_viable = None,
     source_required = None, cs_notes = None, observed_at = None, assessed_by = None, claimed_by = None,
     claimed_at = None\<rparr>"

definition demo_asset :: asset_record where
  "demo_asset = \<lparr>manifest_id = demo_manifest_id, asset_tag = ''T1'', asset_id = demo_id, asset_location = None,
     asset_status = ACTIVE, component_states = [demo_state], last_triaged_at = None, triage_notes = None\<rparr>"

definition demo_store :: "doc_store option" where
  "demo_store = Some [(asset_key demo_id, Some (asset_to_dict demo_asset))]"

lemma demo_ids: "is_uuid demo_id" "is_uuid demo_manifest_id"
  by code_simp+

lemma demo_facts:
  "wf_store demo_store" "wf_asset demo_asset" "valid_datetime (demo_time 1)" "valid_datetime (demo_time 2)"
  by (simp_all add: demo_store_def wf_asset_def demo_asset_def demo_ids wf_state_def demo_state_def valid_time_def
      valid_datetime_def demo_time_def month_lengths_def)

lemma demo_get: "asset_get fresh demo_store demo_id = Some demo_asset"
  by (simp add: demo_store_def asset_get_def discover_def starts_asset_key doc_has_id_record
      read_asset_record demo_facts) (simp add: demo_asset_def)


section \<open>Recording a triage\<close>

text \<open>The state a record holds for a component name; of several, the last one counts.\<close>

definition observed :: "asset_record \<Rightarrow> string \<Rightarrow> component_state option" where
  "observed r n = map_of (dict_by cs_name (component_states r)) n"

lemma fold_update_append:
  "distinct (map f vs) \<Longrightarrow> f ` set vs \<inter> set (keys d) = {} \<Longrightarrow>
   fold (\<lambda>v d. AList.update (f v) v d) vs d = d @ map (\<lambda>v. (f v, v)) vs"
proof (induction vs arbitrary: d)
  case (Cons v vs)
  then have "AList.update (f v) v d = d @ [(f v, v)]" by (auto intro!: update_new)
  with Cons show ?case by auto
qed simp

lemma dict_by_vals:
  assumes "\<forall>(k, v)\<in>set d. f v = k" and "distinct (keys d)"
  shows "dict_by f (vals d) = d"
proof -
  have k: "map f (vals d) = keys d" using assms(1) by auto
  then have "distinct (map f (vals d))" using assms(2) by (simp del: map_map)
  then have "dict_by f (vals d) = map (\<lambda>v. (f v, v)) (vals d)"
    by (simp add: dict_by_def fold_update_append del: map_map)
  also have "\<dots> = d" unfolding map_map using assms(1) by (intro map_idI) auto
  finally show ?thesis .
qed

lemma dict_by_consistent: "\<forall>(k, v)\<in>set (dict_by f vs). f v = k"
proof -
  have *: "\<forall>(k, v)\<in>set d. f v = k \<Longrightarrow> \<forall>(k, v)\<in>set (fold (\<lambda>v d. AList.update (f v) v d) vs d). f v = k" for d
  proof (induction vs arbitrary: d)
    case (Cons v vs)
    have "\<forall>(k, w)\<in>set (AList.update (f v) v d). f w = k"
      using Cons.prems set_update_subset [of "f v" v d] by auto
    then show ?case using Cons.IH by simp
  qed simp
  from * [of "[]"] show ?thesis by (simp add: dict_by_def)
qed

lemma find_vals: "\<forall>(k, v)\<in>set d. f v = k \<Longrightarrow> find (\<lambda>v. f v = n) (vals d) = map_of d n"
  by (induction d) auto

lemma merge_states_dict: "dict_by cs_name (merge_states old new) = fold (\<lambda>s d. AList.update (cs_name s) s d) new (dict_by cs_name old)"
proof -
  have "fold (\<lambda>s d. AList.update (cs_name s) s d) new (dict_by cs_name old) = dict_by cs_name (old @ new)"
    by (simp add: dict_by_def)
  then show ?thesis unfolding merge_states_def using dict_by_vals [OF dict_by_consistent distinct_dict_by, of cs_name "old @ new"]
    by simp
qed

lemma set_merge_states: "set (merge_states old new) \<subseteq> set old \<union> set new"
proof -
  have "snd ` set (fold (\<lambda>s d. AList.update (cs_name s) s d) ss d) \<subseteq> snd ` set d \<union> set ss"
    for ss :: "component_state list" and d
  proof (induction ss arbitrary: d)
    case (Cons s ss)
    have "snd ` set (AList.update (cs_name s) s d) \<subseteq> insert s (snd ` set d)"
      using set_update_subset [of "cs_name s" s d] by force
    with Cons [of "AList.update (cs_name s) s d"] show ?case by auto
  qed simp
  from this [of new "dict_by cs_name old"] this [of old "[]"] show ?thesis
    unfolding merge_states_def dict_by_def by auto
qed

lemma get_set_flag [simp]: "get_flag f (set_flag g b cs) = (if f = g then Some b else get_flag f cs)"
  by (cases f; cases g) auto

lemma set_flag_fields [simp]:
  "cs_name (set_flag g b cs) = cs_name cs" "condition (set_flag g b cs) = condition cs"
  "claimed_by (set_flag g b cs) = claimed_by cs" "claimed_at (set_flag g b cs) = claimed_at cs"
  "observed_at (set_flag g b cs) = observed_at cs" "cs_notes (set_flag g b cs) = cs_notes cs"
  by (cases g; simp)+

lemma fill_flags_get:
  "get_flag f (fill_flags cm cs) =
     (case get_flag f cs of
        Some b \<Rightarrow> Some b
      | None \<Rightarrow> map_of (derive_flags (derive_action (Some cs) (map_of cm (cs_name cs)))) f)"
  by (cases "derive_action (Some cs) (map_of cm (cs_name cs))"; cases f)
    (auto simp: fill_flags_def split: option.splits)

lemma fill_flags_fields [simp]:
  "cs_name (fill_flags cm cs) = cs_name cs" "condition (fill_flags cm cs) = condition cs"
  "claimed_by (fill_flags cm cs) = claimed_by cs" "claimed_at (fill_flags cm cs) = claimed_at cs"
  "observed_at (fill_flags cm cs) = observed_at cs" "cs_notes (fill_flags cm cs) = cs_notes cs"
  by (cases "derive_action (Some cs) (map_of cm (cs_name cs))"; simp add: fill_flags_def)+

lemma fill_flags_wf [simp]: "wf_state (fill_flags cm cs) = wf_state cs"
  by (simp add: wf_state_def)

text \<open>Filling the flags does not change the action that was derived from the state.\<close>

lemma fill_flags_action: "derive_action (Some (fill_flags cm cs)) (map_of cm (cs_name cs)) = derive_action (Some cs) (map_of cm (cs_name cs))"
proof -
  have "repair_feasible (fill_flags cm cs) = Some True \<longleftrightarrow>
      repair_feasible cs = Some True \<or> derive_action (Some cs) (map_of cm (cs_name cs)) = REPAIR_IN_PLACE"
    using fill_flags_get [of RepairFeasible cm cs]
    by (cases "repair_feasible cs"; cases "derive_action (Some cs) (map_of cm (cs_name cs))")
      (auto simp: derive_action_def split: component_condition.splits if_splits)
  then show ?thesis
    by (cases "condition cs") (auto simp: derive_action_def)
qed

text \<open>
  The flags a triage fills in. A value the caller gave is kept; a flag left open gets the value
  the recommended action implies, if it implies one; the action itself is the one derived before
  filling, and nothing else of the state changes.
\<close>

theorem fill_flags_result:
  "(\<forall>fl. get_flag fl (fill_flags cm cs) =
      (case get_flag fl cs of
         Some b \<Rightarrow> Some b
       | None \<Rightarrow> map_of (derive_flags (derive_action (Some cs) (map_of cm (cs_name cs)))) fl)) \<and>
   derive_action (Some (fill_flags cm cs)) (map_of cm (cs_name cs)) = derive_action (Some cs) (map_of cm (cs_name cs)) \<and>
   (\<exists>rf hv sr. fill_flags cm cs = cs\<lparr>repair_feasible := rf, harvest_viable := hv, source_required := sr\<rparr>)"
proof -
  have "\<exists>rf hv sr. fill_flags cm cs = cs\<lparr>repair_feasible := rf, harvest_viable := hv, source_required := sr\<rparr>"
    by (rule exI [of _ "repair_feasible (fill_flags cm cs)"], rule exI [of _ "harvest_viable (fill_flags cm cs)"],
        rule exI [of _ "source_required (fill_flags cm cs)"],
        cases "derive_action (Some cs) (map_of cm (cs_name cs))") (auto simp: fill_flags_def)
  then show ?thesis using fill_flags_get fill_flags_action by blast
qed

lemma observed_merge:
  "map_of (dict_by cs_name (merge_states old (map g new))) n =
     (case find (\<lambda>s. cs_name s = n) (rev (map g new)) of Some s \<Rightarrow> Some s | None \<Rightarrow> map_of (dict_by cs_name old) n)"
  by (simp add: merge_states_dict map_of_fold_update split: option.splits)

lemma find_map_same: "(\<And>s. P (g s) = P s) \<Longrightarrow> find P (map g xs) = map_option g (find P xs)"
  by (induction xs) auto

lemma apply_triage_fields [simp]:
  "component_states (apply_triage cm now states notes r) = merge_states (component_states r) (map (fill_flags cm) states)"
  "last_triaged_at (apply_triage cm now states notes r) = Some now"
  "manifest_id (apply_triage cm now states notes r) = manifest_id r"
  "asset_id (apply_triage cm now states notes r) = asset_id r"
  "triage_notes (apply_triage cm now states notes r) = (case notes of None \<Rightarrow> triage_notes r | Some n \<Rightarrow> Some n)"
  by (simp_all add: apply_triage_def Let_def split: option.splits)

lemma apply_triage_wf:
  assumes "wf_asset r" and "valid_datetime now" and "list_all wf_state states"
  shows "wf_asset (apply_triage cm now states notes r)"
proof -
  have "list_all wf_state (merge_states (component_states r) (map (fill_flags cm) states))"
    using set_merge_states [of "component_states r" "map (fill_flags cm) states"] assms(1,3)
    by (auto simp: list_all_iff wf_asset_def subset_iff)
  then show ?thesis using assms(1,2) by (simp add: wf_asset_def valid_time_def)
qed

lemma record_triage_eq:
  assumes "asset_get fresh st u = Some old" and "okh_get okh (manifest_id old) = Inr mf" and "is_uuid u"
    and "valid_datetime now" and "list_all wf_state states"
  shows "record_triage fresh f okh now st u states notes =
     asset_update f st u (Record (apply_triage (comp_map mf) now states notes old))"
  using asset_update_document [OF apply_triage_wf [OF _ assms(4,5)]] asset_get_wf [OF assms(3,1)] assms(1,2)
  by (simp add: record_triage_def require_asset_def)

lemma record_triage_Inr:
  assumes "record_triage fresh f okh now st u states notes = Inr (r, st')"
    and "wf_store st" and "is_uuid u" and "valid_datetime now" and "list_all wf_state states"
  shows "\<exists>old mf. asset_get fresh st u = Some old \<and> okh_get okh (manifest_id old) = Inr mf \<and>
     asset_get fresh st' u = Some r \<and> wf_store st' \<and> r = apply_triage (comp_map mf) now states notes old"
proof -
  from assms(1) obtain old :: asset_record and mf where old: "asset_get fresh st u = Some old"
    and mf: "okh_get okh (manifest_id old) = Inr mf"
    by (auto simp: record_triage_def require_asset_def and_then_Inr split: option.splits)
  let ?q = "apply_triage (comp_map mf) now states notes old"
  have upd: "asset_update f st u (Record ?q) = Inr (r, st')"
    using assms(1) record_triage_eq [OF old mf assms(3-5)] by simp
  moreover from this have "r = ?q" using asset_update_record [of f st u ?q] by auto
  moreover have "wf_asset ?q" "asset_id ?q = u"
    using apply_triage_wf [OF _ assms(4,5)] asset_get_wf [OF assms(3) old] by auto
  ultimately show ?thesis
    using asset_get_update [OF assms(2), of ?q u fresh f] wf_store_update [OF assms(2) upd] old mf by auto
qed

text \<open>
  Recording a triage. The stored record holds, for every component name, the last submitted
  state of that name with its flags filled from the unit's manifest, or the state it held before
  when none was submitted; it is stamped with the time, keeps its manifest, and keeps its notes
  unless new ones were given. The record returned is the one a later lookup returns.
\<close>

theorem record_triage_result:
  assumes "record_triage fresh f okh now st u states notes = Inr (r, st')"
    and "wf_store st" and "is_uuid u" and "valid_datetime now" and "list_all wf_state states"
  shows "asset_get fresh st' u = Some r \<and>
     (\<exists>old mf. asset_get fresh st u = Some old \<and> okh_get okh (manifest_id old) = Inr mf \<and>
        (\<forall>n. observed r n =
           (case find (\<lambda>s. cs_name s = n) (rev states) of
              Some s \<Rightarrow> Some (fill_flags (comp_map mf) s)
            | None \<Rightarrow> observed old n)) \<and>
        manifest_id r = manifest_id old \<and> last_triaged_at r = Some now \<and>
        triage_notes r = (case notes of None \<Rightarrow> triage_notes old | Some n \<Rightarrow> Some n))"
proof -
  from record_triage_Inr [OF assms] obtain old :: asset_record and mf where *:
    "asset_get fresh st u = Some old" "okh_get okh (manifest_id old) = Inr mf" "asset_get fresh st' u = Some r"
    "r = apply_triage (comp_map mf) now states notes old"
    by blast
  then show ?thesis
    by (auto simp: observed_def observed_merge rev_map find_map_same split: option.splits)
qed

theorem record_triage_result_witness:
  "\<exists>r st'. record_triage (\<lambda>_. demo_id) demo_id (\<lambda>_. None) (demo_time 2) demo_store demo_id
      [demo_state\<lparr>condition := INTACT\<rparr>] None = Inr (r, st') \<and>
      asset_get (\<lambda>_. demo_id) st' demo_id = Some r \<and> map_option condition (observed r ''motor'') = Some INTACT"
proof -
  let ?states = "[demo_state\<lparr>condition := INTACT\<rparr>]" and ?fr = "\<lambda>_ :: string. demo_id"
  have wf: "list_all wf_state ?states" by (simp add: wf_state_def demo_state_def valid_time_def)
  have mid: "okh_get (\<lambda>_. None) (manifest_id demo_asset) = Inr None"
    using demo_ids by (simp add: okh_get_def demo_asset_def is_uuid_def)
  obtain r st' where r: "record_triage ?fr demo_id (\<lambda>_. None) (demo_time 2) demo_store demo_id ?states None = Inr (r, st')"
    using record_triage_eq [OF demo_get mid demo_ids(1) demo_facts(4) wf] asset_update_record by metis
  from record_triage_result [OF r demo_facts(1) demo_ids(1) demo_facts(4) wf] r show ?thesis
    by (auto simp: demo_state_def)
qed

text \<open>
  A triage drops an active claim. When the last submitted state of a component carries no
  claim, the stored component is unclaimed afterwards, so another coordinator's claim succeeds even
  within the 48 hours of the first one.
\<close>

theorem record_triage_drops_claim:
  assumes "record_triage fresh f okh now st u states notes = Inr (r, st')"
    and "wf_store st" and "is_uuid u" and "valid_datetime now" and "list_all wf_state states"
    and "find (\<lambda>s. cs_name s = n) (rev states) = Some s" and "claimed_by s = None"
  shows "\<exists>cs st''. claim_component fresh f now2 st' u n other = Inr (cs, st'') \<and> claimed_by cs = Some other"
proof -
  from record_triage_Inr [OF assms(1-5)] obtain old :: asset_record and mf where
    get: "asset_get fresh st' u = Some r" and r: "r = apply_triage (comp_map mf) now states notes old"
    by blast
  let ?cm = "comp_map mf" and ?d = "dict_by cs_name (component_states r)"
  have d: "map_of ?d n = Some (fill_flags ?cm s)"
    using assms(6) by (simp add: r observed_merge rev_map find_map_same)
  have eq: "component_states r = vals ?d"
    by (simp add: r merge_states_dict) (simp add: merge_states_def)
  have found: "find (\<lambda>t. cs_name t = n) (component_states r) = Some (fill_flags ?cm s)"
    using find_vals [OF dict_by_consistent [where f = cs_name and vs = "component_states r"], of n] d unfolding eq [symmetric] by simp
  moreover have "\<not> is_claimed now2 (fill_flags ?cm s)" using assms(7) by (simp add: is_claimed_def)
  ultimately show ?thesis using get
    by (simp add: claim_component_def require_asset_def asset_update_def input_record_def Let_def)
qed

theorem record_triage_drops_claim_witness:
  "\<exists>cs st1 r st2 cs' st3.
     claim_component (\<lambda>_. demo_id) demo_id (demo_time 1) demo_store demo_id ''motor'' ''ann'' = Inr (cs, st1) \<and>
     record_triage (\<lambda>_. demo_id) demo_id (\<lambda>_. None) (demo_time 1) st1 demo_id [demo_state] None = Inr (r, st2) \<and>
     claim_component (\<lambda>_. demo_id) demo_id (demo_time 1) st2 demo_id ''motor'' ''bob'' = Inr (cs', st3)"
proof -
  let ?fr = "\<lambda>_ :: string. demo_id" and ?okh = "\<lambda>_ :: uuid. None :: okh_manifest option"
  have wf: "list_all wf_state [demo_state]" by (simp add: wf_state_def demo_state_def valid_time_def)
  obtain cs st1 where c: "claim_component ?fr demo_id (demo_time 1) demo_store demo_id ''motor'' ''ann'' = Inr (cs, st1)"
    by (simp add: claim_component_def require_asset_def demo_get demo_asset_def demo_state_def is_claimed_def Let_def
        asset_update_def input_record_def)
  obtain a :: asset_record where a: "asset_get ?fr st1 demo_id = Some a" "manifest_id a = demo_manifest_id" "wf_store st1"
    using claim_component_Inr [OF c demo_facts(1) demo_ids(1) demo_facts(3)] demo_get
    by (force simp: demo_asset_def)
  then have mid: "okh_get ?okh (manifest_id a) = Inr None" using demo_ids by (simp add: okh_get_def is_uuid_def)
  obtain r st2 where r: "record_triage ?fr demo_id ?okh (demo_time 1) st1 demo_id [demo_state] None = Inr (r, st2)"
    using record_triage_eq [OF a(1) mid demo_ids(1) demo_facts(3) wf] asset_update_record by metis
  have "\<exists>cs' st3. claim_component ?fr demo_id (demo_time 1) st2 demo_id ''motor'' ''bob'' = Inr (cs', st3) \<and> claimed_by cs' = Some ''bob''"
    by (rule record_triage_drops_claim [OF r a(3) demo_ids(1) demo_facts(3) wf, where s = demo_state])
      (simp_all add: demo_state_def)
  with c r show ?thesis by blast
qed

lemma comp_map_unique:
  assumes "distinct (map oc_name (manifest_components mf))" and "c \<in> set (manifest_components mf)"
  shows "map_of (comp_map mf) (oc_name c) = Some c"
  using fold_update_mem [OF assms(1,2), where h = "\<lambda>c. c" and d = "[]"] by (simp add: comp_map_def dict_by_def)

text \<open>
  The report after a triage. It has one item per component of the manifest, in the manifest's
  order, recommending the action that the state as submitted (or else the one observed before)
  implies for that component, and its six counts add up to the number of components.
\<close>

theorem triage_then_report:
  assumes "record_triage fresh f okh now st u states notes = Inr (r, st')"
    and "wf_store st" and "is_uuid u" and "valid_datetime now" and "list_all wf_state states"
    and "asset_get fresh st u = Some old" and "okh_get okh (manifest_id old) = Inr mf"
    and "manifest_components mf \<noteq> []" and "distinct (map oc_name (manifest_components mf))"
  shows "\<exists>rep. generate_triage_report fresh okh st' u = Inr rep \<and>
     map (\<lambda>i. (ti_name i, recommended_action i)) (tr_items rep) =
       map (\<lambda>c. (oc_name c, derive_action
              (case find (\<lambda>s. cs_name s = oc_name c) (rev states) of
                 Some s \<Rightarrow> Some s | None \<Rightarrow> observed old (oc_name c)) (Some c))) (manifest_components mf) \<and>
     needs_assessment rep + repair_in_place_count rep + harvest_count rep + source_new_count rep
       + no_action_count rep + decommission_count rep = length (manifest_components mf)"
proof -
  from record_triage_Inr [OF assms(1-5)] assms(6,7) have
    get: "asset_get fresh st' u = Some r" and r: "r = apply_triage (comp_map mf) now states notes old"
    by auto
  define rep where "rep = triage_report_for r mf"
  have gen: "generate_triage_report fresh okh st' u = Inr rep"
    using get assms(7) by (simp add: generate_triage_report_def require_asset_def rep_def r)
  have items: "tr_items rep = map (\<lambda>c. triage_item_of (map_of (dict_by cs_name (component_states r)) (oc_name c)) c) (manifest_components mf)"
    using assms(8) by (simp add: rep_def triage_report_for_def Let_def)
  have "derive_action (map_of (dict_by cs_name (component_states r)) (oc_name c)) (Some c) =
      derive_action (case find (\<lambda>s. cs_name s = oc_name c) (rev states) of Some s \<Rightarrow> Some s | None \<Rightarrow> observed old (oc_name c)) (Some c)"
    if "c \<in> set (manifest_components mf)" for c
  proof -
    have "derive_action (Some (fill_flags (comp_map mf) s)) (Some c) = derive_action (Some s) (Some c)"
      if "cs_name s = oc_name c" for s
      using fill_flags_action [of "comp_map mf" s] comp_map_unique [OF assms(9) \<open>c \<in> _\<close>] that by simp
    then show ?thesis
      by (auto simp: r observed_merge rev_map find_map_same observed_def split: option.splits dest: find_mem)
  qed
  then have "map (\<lambda>i. (ti_name i, recommended_action i)) (tr_items rep) =
       map (\<lambda>c. (oc_name c, derive_action
              (case find (\<lambda>s. cs_name s = oc_name c) (rev states) of
                 Some s \<Rightarrow> Some s | None \<Rightarrow> observed old (oc_name c)) (Some c))) (manifest_components mf)"
    unfolding items by (simp add: triage_item_of_def)
  moreover have "total_components rep = length (manifest_components mf)"
    by (simp add: total_components_def items)
  ultimately show ?thesis using gen action_counts_total [of rep] by auto
qed

definition demo_part :: okh_component where
  "demo_part = \<lparr>oc_name = ''motor'', oc_quantity = 1, oc_replaceable = True, oc_salvageable = False, oc_consumable = False,
     oc_okh_ref = None, oc_product_url = None, oc_part_number = None, oc_notes = None, oc_failure_modes = [],
     oc_diagnostic_codes = [], oc_repair_notes = None\<rparr>"

theorem triage_then_report_witness:
  "\<exists>r st' rep. record_triage (\<lambda>_. demo_id) demo_id (\<lambda>_. Some \<lparr>okh_components = [demo_part], compatible_manifest_ids = []\<rparr>)
       (demo_time 1) demo_store demo_id [demo_state] None = Inr (r, st') \<and>
     generate_triage_report (\<lambda>_. demo_id) (\<lambda>_. Some \<lparr>okh_components = [demo_part], compatible_manifest_ids = []\<rparr>) st' demo_id = Inr rep \<and>
     map recommended_action (tr_items rep) = [SOURCE_NEW]"
proof -
  let ?fr = "\<lambda>_ :: string. demo_id" and ?okh = "\<lambda>_ :: uuid. Some \<lparr>okh_components = [demo_part], compatible_manifest_ids = []\<rparr>"
  have wf: "list_all wf_state [demo_state]" by (simp add: wf_state_def demo_state_def valid_time_def)
  have mid: "okh_get ?okh (manifest_id demo_asset) = Inr (Some \<lparr>okh_components = [demo_part], compatible_manifest_ids = []\<rparr>)"
    using demo_ids by (simp add: okh_get_def is_uuid_def demo_asset_def)
  obtain r st' where r: "record_triage ?fr demo_id ?okh (demo_time 1) demo_store demo_id [demo_state] None = Inr (r, st')"
    using record_triage_eq [OF demo_get mid demo_ids(1) demo_facts(3) wf] asset_update_record by metis
  obtain rep where rep: "generate_triage_report ?fr ?okh st' demo_id = Inr rep"
    "map (\<lambda>i. (ti_name i, recommended_action i)) (tr_items rep) = [(''motor'', SOURCE_NEW)]"
    using triage_then_report [OF r demo_facts(1) demo_ids(1) demo_facts(3) wf demo_get mid]
    by (auto simp: manifest_components_def demo_part_def demo_state_def derive_action_def flag_of_def)
  from rep(2) have "map snd (map (\<lambda>i. (ti_name i, recommended_action i)) (tr_items rep)) = [SOURCE_NEW]" by simp
  then have "map recommended_action (tr_items rep) = [SOURCE_NEW]" by (simp add: comp_def del: map_eq_Cons_conv)
  with r rep(1) show ?thesis by (intro exI conjI)
qed

section \<open>Listing the assets\<close>

definition add_first :: "asset_record \<Rightarrow> (uuid \<times> asset_record) list \<Rightarrow> (uuid \<times> asset_record) list" where
  "add_first r records = (if asset_id r \<in> set (keys records) then records else records @ [(asset_id r, r)])"

lemma asset_list_all:
  "asset_list fresh (Some s) None = vals (fold add_first (List.map_filter (read_asset fresh) (discover s)) [])"
proof -
  have "fold (\<lambda>obj records. case read_asset fresh obj of None \<Rightarrow> records | Some r \<Rightarrow> add_first r records) d acc =
      fold add_first (List.map_filter (read_asset fresh) d) acc" for d acc
    by (induction d arbitrary: acc) (auto simp: List.map_filter_simps split: option.splits)
  then have "vals (fold (\<lambda>obj records. case read_asset fresh obj of None \<Rightarrow> records | Some r \<Rightarrow> add_first r records) (discover s) []) =
      vals (fold add_first (List.map_filter (read_asset fresh) (discover s)) [])" by simp
  then show ?thesis by (simp add: asset_list_def add_first_def cong: option.case_cong)
qed

lemma fold_add_first:
  "\<forall>(k, v)\<in>set acc. asset_id v = k \<Longrightarrow> distinct (keys acc) \<Longrightarrow>
   (\<forall>(k, v)\<in>set (fold add_first rs acc). asset_id v = k) \<and> distinct (keys (fold add_first rs acc)) \<and>
   map_of (fold add_first rs acc) u =
     (case map_of acc u of Some x \<Rightarrow> Some x | None \<Rightarrow> find (\<lambda>r. asset_id r = u) rs)"
proof (induction rs arbitrary: acc)
  case (Cons r rs)
  have 1: "\<forall>(k, v)\<in>set (add_first r acc). asset_id v = k" using Cons.prems(1) by (auto simp: add_first_def)
  have 2: "distinct (keys (add_first r acc))" using Cons.prems(2) by (simp add: add_first_def)
  have "map_of (add_first r acc) u = (case map_of acc u of Some x \<Rightarrow> Some x | None \<Rightarrow> if asset_id r = u then Some r else None)"
    using map_of_eq_None_iff [of acc "asset_id r"]
    by (cases "asset_id r \<in> set (keys acc)") (auto simp: add_first_def map_add_def split: option.splits)
  with Cons.IH [OF 1 2] show ?case by (auto split: option.splits)
qed (auto split: option.splits)

lemma asset_list_find:
  "distinct (map asset_id (asset_list fresh (Some s) None)) \<and>
   find (\<lambda>r. asset_id r = u) (asset_list fresh (Some s) None) =
     find (\<lambda>r. asset_id r = u) (List.map_filter (read_asset fresh) (discover s))"
proof -
  let ?d = "fold add_first (List.map_filter (read_asset fresh) (discover s)) []"
  from fold_add_first [of "[]" "List.map_filter (read_asset fresh) (discover s)"]
  have c: "\<forall>(k, v)\<in>set ?d. asset_id v = k" and d: "distinct (keys ?d)"
    and m: "map_of ?d u = find (\<lambda>r. asset_id r = u) (List.map_filter (read_asset fresh) (discover s))"
    by auto
  have "map asset_id (vals ?d) = keys ?d" using c by (auto simp: list_eq_iff_nth_eq nth_mem split_beta)
  with d m find_vals [OF c, of u] show ?thesis unfolding asset_list_all by (metis (no_types))
qed

text \<open>Every readable document carries its own id as the text of that id.\<close>

definition canonical_ids :: "(string \<Rightarrow> uuid) \<Rightarrow> doc_store \<Rightarrow> bool" where
  "canonical_ids fresh s \<longleftrightarrow>
     list_all (\<lambda>obj. case read_asset fresh obj of None \<Rightarrow> True | Some r \<Rightarrow> doc_has_id (asset_id r) (snd obj)) (discover s)"

text \<open>
  The listing and the lookup agree. When every readable document carries its id in canonical
  form, the listing holds one record per id, and looking an id up finds exactly the listed record of
  that id (or nothing, when none is listed).
\<close>

theorem asset_list_get:
  assumes "canonical_ids fresh s"
  shows "distinct (map asset_id (asset_list fresh (Some s) None)) \<and>
     (\<forall>u. asset_get fresh (Some s) u = find (\<lambda>r. asset_id r = u) (asset_list fresh (Some s) None))"
proof -
  have "get_loop fresh u d = find (\<lambda>r. asset_id r = u) (List.map_filter (read_asset fresh) d)"
    if "list_all (\<lambda>obj. case read_asset fresh obj of None \<Rightarrow> True | Some r \<Rightarrow> doc_has_id (asset_id r) (snd obj)) d"
    for u d
    using that
  proof (induction d)
    case (Cons obj d)
    have "asset_id r = u \<longleftrightarrow> doc_has_id u (snd obj)" if "read_asset fresh obj = Some r" for r
      using Cons.prems that by (auto simp: doc_has_id_def split: option.splits json.splits)
    with Cons show ?case by (auto simp: List.map_filter_simps split: option.splits)
  qed simp
  from this [OF assms [unfolded canonical_ids_def]] show ?thesis
    using asset_list_find [of fresh s] by (simp add: asset_get_def)
qed

theorem asset_list_get_witness:
  "asset_get (\<lambda>_. demo_id) demo_store demo_id = find (\<lambda>r. asset_id r = demo_id) (asset_list (\<lambda>_. demo_id) demo_store None)"
proof -
  have "canonical_ids (\<lambda>_. demo_id) [(asset_key demo_id, Some (asset_to_dict demo_asset))]"
    by (simp add: canonical_ids_def discover_def starts_asset_key read_asset_record demo_facts doc_has_id_record)
  from asset_list_get [OF this] show ?thesis by (simp add: demo_store_def)
qed

section \<open>The fleet search\<close>

lemma salvage_record_Inr:
  assumes "salvage_record okh now q r = Inr ms"
  shows "m \<in> set ms \<longleftrightarrow> \<not> excluded_asset q r \<and>
     (\<exists>mf. okh_get okh (manifest_id r) = Inr mf \<and>
       (\<exists>cs\<in>set (component_states r). salvage_hit now q (comp_map mf) cs \<and>
          m = salvage_match_of r cs (map_of (comp_map mf) (cs_name cs))))"
  using assms by (auto simp: salvage_record_def and_then_Inr Let_def split: if_splits)

lemma salvage_search_Inr:
  assumes "salvage_search fresh okh now st q = Inr res"
  shows "\<exists>ids. search_manifest_ids okh (sq_manifest_id q) = Inr ids \<and>
     (\<forall>m. m \<in> set (sr_matches res) \<longleftrightarrow>
       (\<exists>r\<in>set (asset_list fresh st None). (case ids of None \<Rightarrow> True | Some is \<Rightarrow> manifest_id r \<in> set is) \<and>
          \<not> excluded_asset q r \<and>
          (\<exists>mf. okh_get okh (manifest_id r) = Inr mf \<and>
            (\<exists>cs\<in>set (component_states r). salvage_hit now q (comp_map mf) cs \<and>
               m = salvage_match_of r cs (map_of (comp_map mf) (cs_name cs))))))"
proof -
  from assms obtain ids mss where ids: "search_manifest_ids okh (sq_manifest_id q) = Inr ids"
    and mss: "map_result (salvage_record okh now q)
      (case ids of None \<Rightarrow> asset_list fresh st None
       | Some is \<Rightarrow> filter (\<lambda>r. manifest_id r \<in> set is) (asset_list fresh st None)) = Inr mss"
    and res: "sr_matches res = concat mss"
    by (auto simp: salvage_search_def and_then_Inr Let_def)
  let ?rs = "case ids of None \<Rightarrow> asset_list fresh st None
       | Some is \<Rightarrow> filter (\<lambda>r. manifest_id r \<in> set is) (asset_list fresh st None)"
  have conc: "m \<in> set (concat yss) \<longleftrightarrow> (\<exists>x\<in>set xs. \<exists>ys. f x = Inr ys \<and> m \<in> set ys)"
    if "list_all2 (\<lambda>x ys. f x = Inr ys) xs yss" for f :: "asset_record \<Rightarrow> asset_error + salvage_match list" and xs yss m
    using that by (induction rule: list_all2_induct) auto
  have ex: "\<exists>ys. salvage_record okh now q r = Inr ys" if "r \<in> set ?rs" for r
    using mss that by (metis map_result_Inr_iff)
  have "m \<in> set (sr_matches res) \<longleftrightarrow> (\<exists>r\<in>set ?rs. \<not> excluded_asset q r \<and>
     (\<exists>mf. okh_get okh (manifest_id r) = Inr mf \<and>
       (\<exists>cs\<in>set (component_states r). salvage_hit now q (comp_map mf) cs \<and>
          m = salvage_match_of r cs (map_of (comp_map mf) (cs_name cs)))))" for m
    unfolding res conc [OF mss [unfolded map_result_Inr]]
    using ex salvage_record_Inr by blast
  moreover have "r \<in> set ?rs \<longleftrightarrow> r \<in> set (asset_list fresh st None) \<and>
      (case ids of None \<Rightarrow> True | Some is \<Rightarrow> manifest_id r \<in> set is)" for r
    by (auto split: option.splits)
  ultimately show ?thesis using ids by blast
qed

text \<open>What a query asks of a record and of one of its components, given the record's manifest.\<close>

definition in_family :: "(uuid \<Rightarrow> okh_manifest option) \<Rightarrow> string option \<Rightarrow> asset_record \<Rightarrow> bool" where
  "in_family okh mid r \<longleftrightarrow>
     (case mid of
        None \<Rightarrow> True
      | Some m \<Rightarrow> m = [] \<or> manifest_id r = m \<or>
          (case Option.bind (parse_uuid m) okh of None \<Rightarrow> False | Some p \<Rightarrow> manifest_id r \<in> set (compatible_manifest_ids p)))"

definition satisfies_query ::
  "datetime \<Rightarrow> salvage_query \<Rightarrow> asset_record \<Rightarrow> component_state \<Rightarrow> okh_component option \<Rightarrow> bool" where
  "satisfies_query now q r cs part \<longleftrightarrow>
     harvest_viable cs = Some True \<and>
     (sq_exclude_claimed q \<longrightarrow> \<not> is_claimed now cs) \<and>
     (\<forall>x. sq_exclude_asset_id q = Some x \<and> x \<noteq> [] \<longrightarrow> asset_id r \<noteq> x) \<and>
     (\<forall>n. sq_name q = Some n \<longrightarrow> contains (lower n) (lower (cs_name cs))) \<and>
     (\<forall>pn. sq_part_number q = Some pn \<longrightarrow> Option.bind part oc_part_number = Some pn) \<and>
     (\<forall>c. sq_conditions q = Some c \<and> c \<noteq> [] \<longrightarrow> condition_value (condition cs) \<in> set c)"

lemma satisfies_query_hit:
  "satisfies_query now q r cs (map_of cm (cs_name cs)) \<longleftrightarrow> \<not> excluded_asset q r \<and> salvage_hit now q cm cs"
  unfolding satisfies_query_def excluded_asset_def salvage_hit_def is_salvage_match_def
  by (auto split: option.splits)

lemma search_manifest_ids_family:
  assumes "search_manifest_ids okh mid = Inr ids"
  shows "(case ids of None \<Rightarrow> True | Some is \<Rightarrow> manifest_id r \<in> set is) = in_family okh mid r"
  using assms
  by (auto simp: search_manifest_ids_def in_family_def and_then_Inr okh_get_def split: option.splits if_splits)

lemma salvage_search_members:
  assumes "salvage_search fresh okh now st q = Inr res"
  shows "m \<in> set (sr_matches res) \<longleftrightarrow>
     (\<exists>r\<in>set (asset_list fresh st None). \<exists>cs\<in>set (component_states r). \<exists>mf.
        in_family okh (sq_manifest_id q) r \<and> okh_get okh (manifest_id r) = Inr mf \<and>
        satisfies_query now q r cs (map_of (comp_map mf) (cs_name cs)) \<and>
        m = salvage_match_of r cs (map_of (comp_map mf) (cs_name cs)))"
  using salvage_search_Inr [OF assms] search_manifest_ids_family
  unfolding satisfies_query_hit by blast

text \<open>
  The fleet search returns exactly the components that satisfy the query: harvestable, of an
  asset of the manifest's family, on an asset that is not excluded, unclaimed when claimed ones are
  excluded, whose name contains the searched name regardless of case, with the searched part number
  and in one of the searched conditions.
\<close>

theorem salvage_search_result:
  assumes "salvage_search fresh okh now st q = Inr res"
  shows "m \<in> set (sr_matches res) \<longleftrightarrow>
     (\<exists>r\<in>set (asset_list fresh st None). \<exists>cs\<in>set (component_states r). \<exists>mf.
        in_family okh (sq_manifest_id q) r \<and> okh_get okh (manifest_id r) = Inr mf \<and>
        satisfies_query now q r cs (map_of (comp_map mf) (cs_name cs)) \<and>
        m = salvage_match_of r cs (map_of (comp_map mf) (cs_name cs)))"
  by (rule salvage_search_members [OF assms])

definition name_query :: "string \<Rightarrow> salvage_query" where
  "name_query n = \<lparr>sq_name = Some n, sq_part_number = None, sq_manifest_id = None, sq_conditions = None,
     sq_exclude_asset_id = None, sq_exclude_claimed = True\<rparr>"

definition harvest_store :: "doc_store option" where
  "harvest_store = Some [(asset_key demo_id, Some (asset_to_dict
     (demo_asset\<lparr>component_states := [demo_state\<lparr>harvest_viable := Some True\<rparr>]\<rparr>)))]"

lemma harvest_list:
  "asset_list fresh harvest_store None = [demo_asset\<lparr>component_states := [demo_state\<lparr>harvest_viable := Some True\<rparr>]\<rparr>]"
proof -
  have "wf_asset (demo_asset\<lparr>component_states := [demo_state\<lparr>harvest_viable := Some True\<rparr>]\<rparr>)"
    using demo_facts(2) by (simp add: wf_asset_def wf_state_def demo_state_def valid_time_def demo_asset_def)
  then show ?thesis
    by (simp add: harvest_store_def asset_list_all discover_def starts_asset_key List.map_filter_simps
        read_asset_record add_first_def)
qed

theorem salvage_search_result_witness:
  "\<exists>res. salvage_search (\<lambda>_. demo_id) (\<lambda>_. None) (demo_time 1) harvest_store (name_query ''MOT'') = Inr res \<and>
     salvage_match_of (demo_asset\<lparr>component_states := [demo_state\<lparr>harvest_viable := Some True\<rparr>]\<rparr>)
       (demo_state\<lparr>harvest_viable := Some True\<rparr>) None \<in> set (sr_matches res)"
proof -
  let ?a = "demo_asset\<lparr>component_states := [demo_state\<lparr>harvest_viable := Some True\<rparr>]\<rparr>"
  have mid: "okh_get (\<lambda>_. None) (manifest_id ?a) = Inr None"
    using demo_ids by (simp add: okh_get_def is_uuid_def demo_asset_def)
  obtain res where res: "salvage_search (\<lambda>_. demo_id) (\<lambda>_. None) (demo_time 1) harvest_store (name_query ''MOT'') = Inr res"
    using mid by (simp add: salvage_search_def search_manifest_ids_def name_query_def harvest_list salvage_record_def
        excluded_asset_def Let_def)
  have name: "contains (lower ''MOT'') (lower ''motor'')" by code_simp
  have hit: "satisfies_query (demo_time 1) (name_query ''MOT'') ?a (demo_state\<lparr>harvest_viable := Some True\<rparr>) None"
    using name by (simp add: satisfies_query_def name_query_def demo_state_def is_claimed_def)
  have "map_of (comp_map None) n = None" for n by (simp add: comp_map_def manifest_components_def dict_by_def)
  with hit mid show ?thesis using res
    by (auto simp: salvage_search_result [OF res] harvest_list in_family_def name_query_def demo_asset_def intro!: exI [of _ res])
qed

lemma salvage_search_bad_id:
  assumes "r \<in> set (asset_list fresh st None)" and "parse_uuid (manifest_id r) = None"
    and "\<not> excluded_asset q r" and "in_family okh (sq_manifest_id q) r"
  shows "\<exists>mid. salvage_search fresh okh now st q = Inl (BadManifestId mid)"
proof (cases "search_manifest_ids okh (sq_manifest_id q)")
  case (Inl e)
  then show ?thesis
    by (auto simp: salvage_search_def search_manifest_ids_def okh_get_def and_then_Inl
        split: option.splits if_splits)
next
  case (Inr ids)
  let ?rs = "case ids of None \<Rightarrow> asset_list fresh st None
       | Some is \<Rightarrow> filter (\<lambda>r. manifest_id r \<in> set is) (asset_list fresh st None)"
  have "r \<in> set ?rs" using assms(1,4) search_manifest_ids_family [OF Inr, of r] by (auto split: option.splits)
  moreover have "\<nexists>ys. salvage_record okh now q r = Inr ys"
    using assms(2,3) by (simp add: salvage_record_def okh_get_def)
  ultimately have none: "\<nexists>ys. map_result (salvage_record okh now q) ?rs = Inr ys"
    using map_result_Inr_iff [of "salvage_record okh now q" ?rs] by blast
  have "\<exists>mid. map_result (salvage_record okh now q) xs = Inl (BadManifestId mid)"
    if "\<nexists>ys. map_result (salvage_record okh now q) xs = Inr ys" for xs
    using that
  proof (induction xs)
    case (Cons x xs)
    have "(\<exists>ys. salvage_record okh now q x = Inr ys) \<or> (\<exists>mid. salvage_record okh now q x = Inl (BadManifestId mid))"
      by (auto simp: salvage_record_def okh_get_def Let_def split: option.splits)
    then show ?case
    proof (elim disjE exE)
      fix ys assume "salvage_record okh now q x = Inr ys"
      with Cons show ?thesis by (cases "map_result (salvage_record okh now q) xs") auto
    qed simp
  qed simp
  from this [OF none] show ?thesis using Inr by (auto simp: salvage_search_def Let_def)
qed

text \<open>
  One unreadable reference poisons the whole search. If any asset of the searched family that is
  not excluded refers to a manifest by a text that is no UUID, the search raises, whatever the other
  assets hold.
\<close>

theorem salvage_search_poisoned:
  assumes "r \<in> set (asset_list fresh st None)" and "parse_uuid (manifest_id r) = None"
    and "\<not> excluded_asset q r" and "in_family okh (sq_manifest_id q) r"
  shows "\<exists>mid. salvage_search fresh okh now st q = Inl (BadManifestId mid)"
  using assms by (rule salvage_search_bad_id)

theorem salvage_search_poisoned_witness:
  "\<exists>mid. salvage_search (\<lambda>_. demo_id) (\<lambda>_. None) (demo_time 1)
     (Some [(asset_key demo_id, Some (asset_to_dict (demo_asset\<lparr>manifest_id := ''rev-2''\<rparr>)))]) (name_query ''motor'') = Inl (BadManifestId mid)"
proof (rule salvage_search_poisoned)
  have "wf_asset (demo_asset\<lparr>manifest_id := ''rev-2''\<rparr>)"
    using demo_facts(2) by (simp add: wf_asset_def demo_asset_def)
  then show "demo_asset\<lparr>manifest_id := ''rev-2''\<rparr> \<in> set (asset_list (\<lambda>_. demo_id)
      (Some [(asset_key demo_id, Some (asset_to_dict (demo_asset\<lparr>manifest_id := ''rev-2''\<rparr>)))]) None)"
    by (simp add: asset_list_all discover_def starts_asset_key List.map_filter_simps read_asset_record add_first_def)
  show "parse_uuid (manifest_id (demo_asset\<lparr>manifest_id := ''rev-2''\<rparr>)) = None"
    by (simp, code_simp)
qed (simp_all add: excluded_asset_def name_query_def in_family_def)

text \<open>
  A sourcing plan has one verdict for each component the triage report wants sourced anew, and
  the verdict is "fleet available" exactly when some other asset of the same manifest family holds
  an unclaimed harvestable component whose name contains the wanted one.
\<close>

theorem resolve_sourcing_verdicts:
  assumes "resolve_sourcing fresh okh now st u = Inr res" and "u \<noteq> []"
  shows "\<exists>unit rep. asset_get fresh st u = Some unit \<and> generate_triage_report fresh okh st u = Inr rep \<and>
     map si_component_name (so_items res) = map ti_name (filter (\<lambda>i. recommended_action i = SOURCE_NEW) (tr_items rep)) \<and>
     fleet_available_count res + procure_new_count res = source_new_count rep \<and>
     list_all (\<lambda>item. si_verdict item = FLEET_AVAILABLE \<longleftrightarrow>
       (\<exists>r\<in>set (asset_list fresh st None). asset_id r \<noteq> u \<and> in_family okh (Some (manifest_id unit)) r \<and>
          (\<exists>cs\<in>set (component_states r). harvest_viable cs = Some True \<and> \<not> is_claimed now cs \<and>
             contains (lower (si_component_name item)) (lower (cs_name cs))))) (so_items res)"
proof -
  from assms(1) obtain unit :: asset_record and rep :: triage_report and items where
    unit: "asset_get fresh st u = Some unit" and rep: "generate_triage_report fresh okh st u = Inr rep"
    and items: "list_all2 (\<lambda>i item. \<exists>result. salvage_search fresh okh now st (sourcing_query u unit i) = Inr result \<and>
        sourcing_item_of i result = item) (filter (\<lambda>i. recommended_action i = SOURCE_NEW) (tr_items rep)) items"
    and res: "so_items res = items"
    by (auto simp: resolve_sourcing_def require_asset_def and_then_Inr map_result_Inr split: option.splits)
  have names: "map si_component_name items = map ti_name (filter (\<lambda>i. recommended_action i = SOURCE_NEW) (tr_items rep))"
    using items by (induction rule: list_all2_induct) (auto simp: sourcing_item_of_def)
  have verdict: "si_verdict (sourcing_item_of i result) = FLEET_AVAILABLE \<longleftrightarrow>
       (\<exists>r\<in>set (asset_list fresh st None). asset_id r \<noteq> u \<and> in_family okh (Some (manifest_id unit)) r \<and>
          (\<exists>cs\<in>set (component_states r). harvest_viable cs = Some True \<and> \<not> is_claimed now cs \<and>
             contains (lower (ti_name i)) (lower (cs_name cs))))"
    if s: "salvage_search fresh okh now st (sourcing_query u unit i) = Inr result" for i result
  proof -
    have mf: "\<exists>mf. okh_get okh (manifest_id r) = Inr mf"
      if "r \<in> set (asset_list fresh st None)" "asset_id r \<noteq> u" "in_family okh (Some (manifest_id unit)) r" for r
    proof (rule ccontr)
      assume "\<nexists>mf. okh_get okh (manifest_id r) = Inr mf"
      then have "parse_uuid (manifest_id r) = None" by (auto simp: okh_get_def split: option.splits)
      with that have "\<exists>mid. salvage_search fresh okh now st (sourcing_query u unit i) = Inl (BadManifestId mid)"
        by (intro salvage_search_bad_id) (auto simp: excluded_asset_def sourcing_query_def)
      with s show False by simp
    qed
    have "sr_matches result \<noteq> [] \<longleftrightarrow> (\<exists>m. m \<in> set (sr_matches result))" by (cases "sr_matches result") auto
    also have "\<dots> \<longleftrightarrow> (\<exists>r\<in>set (asset_list fresh st None). \<exists>cs\<in>set (component_states r). \<exists>mf.
        in_family okh (Some (manifest_id unit)) r \<and> okh_get okh (manifest_id r) = Inr mf \<and>
        satisfies_query now (sourcing_query u unit i) r cs (map_of (comp_map mf) (cs_name cs)))"
      using salvage_search_members [OF s] by (auto simp: sourcing_query_def)
    finally show ?thesis using assms(2) mf
      by (auto simp: sourcing_item_of_def satisfies_query_def sourcing_query_def)
  qed
  have "list_all (\<lambda>item. si_verdict item = FLEET_AVAILABLE \<longleftrightarrow>
       (\<exists>r\<in>set (asset_list fresh st None). asset_id r \<noteq> u \<and> in_family okh (Some (manifest_id unit)) r \<and>
          (\<exists>cs\<in>set (component_states r). harvest_viable cs = Some True \<and> \<not> is_claimed now cs \<and>
             contains (lower (si_component_name item)) (lower (cs_name cs))))) items"
    using items
  proof (induction rule: list_all2_induct)
    case (Cons i wanted item items)
    then obtain result where "salvage_search fresh okh now st (sourcing_query u unit i) = Inr result"
      and item: "item = sourcing_item_of i result" by blast
    moreover have "si_component_name item = ti_name i" by (simp add: item sourcing_item_of_def)
    ultimately show ?case using verdict [of i result] Cons.IH by simp
  qed simp
  moreover have "length items = source_new_count rep"
    using names by (metis action_count_def length_map source_new_count_def)
  ultimately show ?thesis using unit rep names res verdict_counts_total [of res] by auto
qed

definition spare_id :: uuid where
  "spare_id = ''0a0a0a0a-0000-4000-8000-000000000002''"

definition spare_asset :: asset_record where
  "spare_asset = demo_asset\<lparr>asset_id := spare_id, component_states := [demo_state\<lparr>harvest_viable := Some True\<rparr>]\<rparr>"

definition fleet_store :: "doc_store option" where
  "fleet_store = Some [(asset_key demo_id, Some (asset_to_dict demo_asset)),
     (asset_key spare_id, Some (asset_to_dict spare_asset))]"

definition demo_manifest :: okh_manifest where
  "demo_manifest = \<lparr>okh_components = [demo_part], compatible_manifest_ids = []\<rparr>"

lemma fleet_list: "asset_list fresh fleet_store None = [demo_asset, spare_asset]"
proof -
  have "is_uuid spare_id" by code_simp
  then have "wf_asset spare_asset"
    using demo_facts(2) by (simp add: wf_asset_def wf_state_def demo_state_def valid_time_def spare_asset_def)
  moreover have "demo_id \<noteq> spare_id" by code_simp
  ultimately show ?thesis
    by (simp add: fleet_store_def asset_list_all discover_def starts_asset_key List.map_filter_simps
        read_asset_record demo_facts add_first_def) (simp add: demo_asset_def spare_asset_def)
qed

theorem resolve_sourcing_verdicts_witness:
  "\<exists>res. resolve_sourcing (\<lambda>_. demo_id) (\<lambda>_. Some demo_manifest) (demo_time 1) fleet_store demo_id = Inr res \<and>
     map si_component_name (so_items res) = [''motor''] \<and> list_all (\<lambda>i. si_verdict i = FLEET_AVAILABLE) (so_items res)"
proof -
  let ?fr = "\<lambda>_ :: string. demo_id" and ?okh = "\<lambda>_ :: uuid. Some demo_manifest"
  have get: "asset_get ?fr fleet_store demo_id = Some demo_asset"
    by (simp add: fleet_store_def asset_get_def discover_def starts_asset_key doc_has_id_record
        read_asset_record demo_facts) (simp add: demo_asset_def)
  have mids: "manifest_id demo_asset = demo_manifest_id" "manifest_id spare_asset = demo_manifest_id"
    by (simp_all add: demo_asset_def spare_asset_def)
  have mid: "okh_get ?okh demo_manifest_id = Inr (Some demo_manifest)"
    using demo_ids by (simp add: okh_get_def is_uuid_def)
  have rep: "generate_triage_report ?fr ?okh fleet_store demo_id = Inr (triage_report_for demo_asset (Some demo_manifest))"
    by (simp add: generate_triage_report_def require_asset_def get mids mid)
  have items: "map ti_name (filter (\<lambda>i. recommended_action i = SOURCE_NEW)
      (tr_items (triage_report_for demo_asset (Some demo_manifest)))) = [''motor'']"
    by (simp add: triage_report_for_def demo_manifest_def manifest_components_def triage_item_of_def demo_part_def
        demo_asset_def demo_state_def dict_by_def derive_action_def flag_of_def Let_def)
  have "\<exists>result. salvage_search ?fr ?okh (demo_time 1) fleet_store q = Inr result"
    if "sq_manifest_id q \<in> {None, Some demo_manifest_id}" for q
    using that mid by (auto simp: salvage_search_def search_manifest_ids_def fleet_list mids salvage_record_def Let_def
        demo_manifest_def)
  then have "\<exists>ys. map_result (\<lambda>item. and_then (salvage_search ?fr ?okh (demo_time 1) fleet_store (sourcing_query demo_id demo_asset item))
      (\<lambda>result. Inr (sourcing_item_of item result))) xs = Inr ys" for xs
    unfolding map_result_Inr_iff by (fastforce simp: sourcing_query_def mids and_then_Inr)
  then obtain ys where "map_result (\<lambda>item. and_then (salvage_search ?fr ?okh (demo_time 1) fleet_store (sourcing_query demo_id demo_asset item))
      (\<lambda>result. Inr (sourcing_item_of item result)))
      (filter (\<lambda>i. recommended_action i = SOURCE_NEW) (tr_items (triage_report_for demo_asset (Some demo_manifest)))) = Inr ys"
    by blast
  then obtain res where res: "resolve_sourcing ?fr ?okh (demo_time 1) fleet_store demo_id = Inr res"
    by (simp add: resolve_sourcing_def require_asset_def get rep)
  have ids: "demo_id \<noteq> []" "spare_id \<noteq> demo_id" by code_simp+
  have spare: "asset_id spare_asset = spare_id" "component_states spare_asset = [demo_state\<lparr>harvest_viable := Some True\<rparr>]"
    by (simp_all add: spare_asset_def)
  have hit: "harvest_viable (demo_state\<lparr>harvest_viable := Some True\<rparr>) = Some True \<and>
      \<not> is_claimed (demo_time 1) (demo_state\<lparr>harvest_viable := Some True\<rparr>) \<and>
      contains (lower ''motor'') (lower (cs_name (demo_state\<lparr>harvest_viable := Some True\<rparr>)))"
    by (simp add: demo_state_def is_claimed_def) code_simp
  have family: "in_family ?okh (Some demo_manifest_id) spare_asset" by (simp add: in_family_def mids)
  obtain unit rep2 where r: "asset_get ?fr fleet_store demo_id = Some unit"
    "generate_triage_report ?fr ?okh fleet_store demo_id = Inr rep2"
    "map si_component_name (so_items res) = map ti_name (filter (\<lambda>i. recommended_action i = SOURCE_NEW) (tr_items rep2))"
    "list_all (\<lambda>item. si_verdict item = FLEET_AVAILABLE \<longleftrightarrow>
       (\<exists>r\<in>set (asset_list ?fr fleet_store None). asset_id r \<noteq> demo_id \<and> in_family ?okh (Some (manifest_id unit)) r \<and>
          (\<exists>cs\<in>set (component_states r). harvest_viable cs = Some True \<and> \<not> is_claimed (demo_time 1) cs \<and>
             contains (lower (si_component_name item)) (lower (cs_name cs))))) (so_items res)"
    using resolve_sourcing_verdicts [OF res ids(1)] by blast
  have "unit = demo_asset" using r(1) get by simp
  have names: "map si_component_name (so_items res) = [''motor'']" using r(2,3) rep items by simp
  moreover have "si_verdict x = FLEET_AVAILABLE" if "x \<in> set (so_items res)" for x
  proof -
    have "si_component_name x \<in> set (map si_component_name (so_items res))" using that by auto
    then have "si_component_name x = ''motor''" unfolding names by simp
    with r(4) that hit family spare ids show ?thesis
      unfolding \<open>unit = demo_asset\<close> mids fleet_list list_all_iff by fastforce
  qed
  ultimately show ?thesis using res by (auto simp: list_all_iff)
qed

end
