(* ===== verification/Signing.thy ===== *)
theory Signing imports Did_Key Doc_Fields begin

text \<open>
  Signing identities and signed payloads (\<open>federation/identity.py\<close>). Ed25519 itself is the
  parameter \<open>ed\<close>: the public key of a private key, signing, and verification. A signature is hex
  text over the canonical JSON of a payload; a payload is verified against the key its signer's
  DID encodes.
\<close>

section \<open>Hex text of bytes\<close>

definition hex_byte :: "byte \<Rightarrow> string" where
  "hex_byte b = [hex_digit (unat b div 16), hex_digit (unat b mod 16)]"

definition hex :: "byte list \<Rightarrow> string" where
  "hex bs = concat (map hex_byte bs)"

text \<open>\<open>bytes.fromhex\<close>: white space is skipped between bytes; \<open>None\<close> is the \<open>ValueError\<close>.\<close>

definition nibble :: "char \<Rightarrow> nat option" where
  "nibble c = index_of (lower_char c) ''0123456789abcdef''"

fun fromhex :: "string \<Rightarrow> byte list option" where
  "fromhex [] = Some []"
| "fromhex [c] = (if is_space c then Some [] else None)"
| "fromhex (c # d # s) =
     (if is_space c then fromhex (d # s)
      else case (nibble c, nibble d) of
        (Some h, Some l) \<Rightarrow> map_option (\<lambda>bs. of_nat (16 * h + l) # bs) (fromhex s)
      | _ \<Rightarrow> None)"

lemma nibble_hex_digit: "n < 16 \<Longrightarrow> nibble (hex_digit n) = Some n \<and> \<not> is_space (hex_digit n)"
proof -
  have "\<forall>n\<in>set [0..<16]. nibble (hex_digit n) = Some n \<and> \<not> is_space (hex_digit n)"
    by code_simp
  then show "n < 16 \<Longrightarrow> ?thesis" by simp
qed

lemma fromhex_hex: "fromhex (hex bs) = Some bs"
proof (induction bs)
  case (Cons b bs)
  have "unat b < 256" using unsigned_less [of b] by simp
  then have "unat b div 16 < 16" by simp
  moreover have "unat b mod 16 < 16" by simp
  moreover have "(of_nat (16 * (unat b div 16) + unat b mod 16) :: byte) = b"
    unfolding mult_div_mod_eq by simp
  ultimately show ?case
    using Cons nibble_hex_digit [of "unat b div 16"] nibble_hex_digit [of "unat b mod 16"]
    by (simp add: hex_def hex_byte_def del: mult_div_mod_eq)
qed (simp add: hex_def)

section \<open>Keys and signatures\<close>

record ed25519 =
  ed_pub :: "byte list \<Rightarrow> byte list"
  ed_sign :: "byte list \<Rightarrow> string \<Rightarrow> byte list"
  ed_verify :: "byte list \<Rightarrow> byte list \<Rightarrow> string \<Rightarrow> bool"

text \<open>What the callers rely on: public keys have 32 bytes and a key's own signatures verify.\<close>

definition ed_sound :: "ed25519 \<Rightarrow> bool" where
  "ed_sound ed \<longleftrightarrow> (\<forall>sk m. length (ed_pub ed sk) = 32 \<and> ed_verify ed (ed_pub ed sk) (ed_sign ed sk m) m)"

definition sign_payload :: "ed25519 \<Rightarrow> byte list \<Rightarrow> json \<Rightarrow> string" where
  "sign_payload ed private_key payload = hex (ed_sign ed private_key (canonical_json payload))"

definition verify_payload :: "ed25519 \<Rightarrow> did \<Rightarrow> json \<Rightarrow> string \<Rightarrow> bool" where
  "verify_payload ed d payload signature_hex =
     (case did_to_public_key d of
        Inl e \<Rightarrow> False
      | Inr pk \<Rightarrow>
          (case fromhex signature_hex of
             None \<Rightarrow> False
           | Some sig \<Rightarrow> ed_verify ed pk sig (canonical_json payload)))"

definition key_did :: "ed25519 \<Rightarrow> byte list \<Rightarrow> did" where
  "key_did ed sk = public_key_to_did (ed_pub ed sk)"

lemma did_to_public_key_did: "length raw = 32 \<Longrightarrow> did_to_public_key (public_key_to_did raw) = Inr raw"
  by (simp add: did_to_public_key_def public_key_to_did_def base58_decode_encode length_multicodec)

lemma verify_own_signature: "ed_sound ed \<Longrightarrow> verify_payload ed (key_did ed sk) p (sign_payload ed sk p)"
  by (simp add: verify_payload_def key_did_def sign_payload_def did_to_public_key_did fromhex_hex ed_sound_def)

section \<open>Node identities\<close>

record node_identity =
  ni_did :: did
  ni_display_name :: string
  private_key :: "byte list"

definition sign_json :: "ed25519 \<Rightarrow> node_identity \<Rightarrow> json \<Rightarrow> byte list" where
  "sign_json ed n data = ed_sign ed (private_key n) (canonical_json data)"

definition to_identity_file :: "ed25519 \<Rightarrow> node_identity \<Rightarrow> (string \<times> json) list" where
  "to_identity_file ed n =
     [(''did'', JStr (ni_did n)), (''display_name'', JStr (ni_display_name n)),
      (''private_key_hex'', JStr (hex (private_key n))),
      (''public_key_hex'', JStr (hex (ed_pub ed (private_key n))))]"

text \<open>
  \<open>None\<close>: no or bad private key hex, a key that is not 32 bytes, or a DID that is no text. An
  absent display name reads as \<open>OHM Node\<close>.
\<close>

definition from_identity_file :: "ed25519 \<Rightarrow> (string \<times> json) list \<Rightarrow> node_identity option" where
  "from_identity_file ed d =
     do { hx \<leftarrow> Option.bind (map_of d ''private_key_hex'') read_str;
          sk \<leftarrow> fromhex hx;
          if length sk \<noteq> 32 then None else
          do { did' \<leftarrow> (if truthy (jget d ''did'') then read_str (jget d ''did'') else Some (key_did ed sk));
               name \<leftarrow> (case map_of d ''display_name'' of None \<Rightarrow> Some ''OHM Node'' | Some j \<Rightarrow> py_str j);
               Some \<lparr>ni_did = did', ni_display_name = name, private_key = sk\<rparr> } }"

text \<open>\<open>sk\<close> is the freshly generated private key.\<close>

definition generate_identity :: "ed25519 \<Rightarrow> byte list \<Rightarrow> string \<Rightarrow> node_identity" where
  "generate_identity ed sk display_name =
     \<lparr>ni_did = key_did ed sk, ni_display_name = display_name, private_key = sk\<rparr>"

text \<open>
  \<open>load_or_create_identity\<close> over the content of \<open>identity.json\<close> (\<open>None\<close>: no file); it returns the
  identity and the file as it is afterwards. The outer \<open>None\<close> is an unreadable file.
\<close>

definition load_or_create_identity ::
  "ed25519 \<Rightarrow> byte list \<Rightarrow> (string \<times> json) list option \<Rightarrow> string \<Rightarrow>
   (node_identity \<times> (string \<times> json) list) option" where
  "load_or_create_identity ed sk identity_file display_name =
     (case identity_file of
        Some raw \<Rightarrow>
          do { n \<leftarrow> from_identity_file ed raw;
               if display_name \<noteq> [] \<and> ni_display_name n \<noteq> display_name
               then (let n' = n\<lparr>ni_display_name := display_name\<rparr> in Some (n', to_identity_file ed n'))
               else Some (n, raw) }
      | None \<Rightarrow>
          (let n = generate_identity ed sk (if display_name = [] then ''OHM Node'' else display_name)
           in Some (n, to_identity_file ed n)))"

definition wf_identity :: "ed25519 \<Rightarrow> node_identity \<Rightarrow> bool" where
  "wf_identity ed n \<longleftrightarrow> length (private_key n) = 32 \<and> ni_did n = key_did ed (private_key n)"

lemma key_did_not_Nil: "key_did ed sk \<noteq> []"
  by (simp add: key_did_def public_key_to_did_def did_key_prefix_def)

lemma identity_file_roundtrip:
  "length (private_key n) = 32 \<Longrightarrow> ni_did n \<noteq> [] \<Longrightarrow> from_identity_file ed (to_identity_file ed n) = Some n"
  by (simp add: from_identity_file_def to_identity_file_def fromhex_hex jget_def)

text \<open>
  Starting a node twice keeps its identity. The first start creates the file; whatever display
  name a later start asks for, it gets the same DID and the same key back, its signatures verify
  against that DID, and only the name changes (unless the asked name is empty).
\<close>

theorem identity_survives_restart:
  assumes "ed_sound ed" and "length sk = 32"
    and "load_or_create_identity ed sk None name = Some (n, doc)"
    and "load_or_create_identity ed sk' (Some doc) name' = Some (n', doc')"
  shows "ni_did n' = ni_did n \<and> private_key n' = private_key n \<and>
     ni_display_name n' = (if name' = [] then ni_display_name n else name') \<and>
     verify_payload ed (ni_did n') p (hex (sign_json ed n' p)) \<and>
     load_or_create_identity ed sk'' (Some doc') [] = Some (n', doc')"
proof -
  from assms(3) have n: "private_key n = sk" "ni_did n = key_did ed sk" "doc = to_identity_file ed n"
    by (auto simp: load_or_create_identity_def generate_identity_def Let_def)
  have "from_identity_file ed doc = Some n"
    using identity_file_roundtrip [of n ed] n assms(2) key_did_not_Nil by simp
  with assms(4) have n': "private_key n' = sk" "ni_did n' = key_did ed sk"
    "ni_display_name n' = (if name' = [] then ni_display_name n else name')"
    "doc' = to_identity_file ed n' \<or> (n' = n \<and> doc' = doc)"
    using n by (auto simp: load_or_create_identity_def Let_def split: if_splits)
  then have "from_identity_file ed doc' = Some n'"
    using identity_file_roundtrip [of n' ed] n assms(2) key_did_not_Nil \<open>from_identity_file ed doc = Some n\<close> by auto
  moreover have "verify_payload ed (ni_did n') p (hex (sign_json ed n' p))"
    using verify_own_signature [OF assms(1), of sk p] n'(1,2) by (simp add: sign_json_def sign_payload_def)
  ultimately show ?thesis using n n' by (simp add: load_or_create_identity_def)
qed

text \<open>A toy signature scheme, with which the hypotheses on \<open>ed\<close> hold.\<close>

definition toy_ed :: ed25519 where
  "toy_ed = \<lparr>ed_pub = (\<lambda>sk. take 32 (sk @ replicate 32 0)), ed_sign = (\<lambda>sk m. [0]), ed_verify = (\<lambda>pk sig m. sig = [0])\<rparr>"

lemma toy_ed_sound: "ed_sound toy_ed"
  by (auto simp: ed_sound_def toy_ed_def min_def)

theorem identity_survives_restart_witness:
  "\<exists>n doc n' doc'. load_or_create_identity toy_ed (replicate 32 7) None ''Shop'' = Some (n, doc) \<and>
     load_or_create_identity toy_ed (replicate 32 9) (Some doc) ''Lab'' = Some (n', doc') \<and>
     private_key n' = replicate 32 7 \<and> ni_display_name n' = ''Lab''"
proof -
  obtain n doc where 1: "load_or_create_identity toy_ed (replicate 32 7) None ''Shop'' = Some (n, doc)"
    and n: "private_key n = replicate 32 7" "doc = to_identity_file toy_ed n" "ni_did n \<noteq> []"
    using key_did_not_Nil by (simp add: load_or_create_identity_def generate_identity_def Let_def)
  then have "from_identity_file toy_ed doc = Some n" using identity_file_roundtrip [of n] by simp
  then obtain n' doc' where 2: "load_or_create_identity toy_ed (replicate 32 9) (Some doc) ''Lab'' = Some (n', doc')"
    by (cases "ni_display_name n = ''Lab''") (simp_all add: load_or_create_identity_def Let_def)
  with 1 n identity_survives_restart [OF toy_ed_sound _ 1 2] show ?thesis by auto
qed

end
