(* ===== verification/Store_Index.thy ===== *)
theory Store_Index imports Py_Prelude begin

text \<open>
  The stores that keep one value per key (space claims, attestations, bindings, directory entries,
  peers). \<open>keyed_store\<close> and \<open>listed_store\<close> are the contract their clients rely on. \<open>kv_store\<close> is
  the form most of them share (\<open>storage/space_claim_store.py\<close>, \<open>storage/attestation_store.py\<close>,
  \<open>storage/binding_store.py\<close>): objects under their storage keys, and an in-memory index that is
  built on first use and updated by every save. \<open>indexed_store\<close> shows that this form keeps the
  contract and that losing the index (a restart) changes no answer.
\<close>

section \<open>The contract\<close>

text \<open>
  Saving replaces what the key held and touches no other key. \<open>ok\<close> are the values a store may be
  given, \<open>wf\<close> the states the operations keep.
\<close>

locale keyed_store =
  fixes key :: "'v \<Rightarrow> 'k"
    and save :: "'v \<Rightarrow> 's \<Rightarrow> 's"
    and load :: "'s \<Rightarrow> 'k \<Rightarrow> 'v option"
    and ok :: "'v \<Rightarrow> bool"
    and wf :: "'s \<Rightarrow> bool"
  assumes load_save: "wf s \<Longrightarrow> ok v \<Longrightarrow> load (save v s) k = (if k = key v then Some v else load s k)"
    and wf_save: "wf s \<Longrightarrow> ok v \<Longrightarrow> wf (save v s)"
begin

lemma load_save_same: "wf s \<Longrightarrow> ok v \<Longrightarrow> load (save v s) (key v) = Some v"
  by (simp add: load_save)

lemma load_save_other: "wf s \<Longrightarrow> ok v \<Longrightarrow> k \<noteq> key v \<Longrightarrow> load (save v s) k = load s k"
  by (simp add: load_save)

lemma wf_saves: "wf s \<Longrightarrow> list_all ok vs \<Longrightarrow> wf (fold save vs s)"
  by (induction vs arbitrary: s) (auto simp: wf_save)

lemma load_saves:
  "wf s \<Longrightarrow> list_all ok vs \<Longrightarrow>
   load (fold save vs s) k = (case find (\<lambda>v. key v = k) (rev vs) of None \<Rightarrow> load s k | Some v \<Rightarrow> Some v)"
  by (induction vs arbitrary: s) (auto simp: find_append load_save wf_save split: option.splits)

end

text \<open>A store that can also enumerate what it holds.\<close>

locale listed_store = keyed_store key save load ok wf
  for key :: "'v \<Rightarrow> 'k"
    and save :: "'v \<Rightarrow> 's \<Rightarrow> 's"
    and load :: "'s \<Rightarrow> 'k \<Rightarrow> 'v option"
    and ok :: "'v \<Rightarrow> bool"
    and wf :: "'s \<Rightarrow> bool" +
  fixes listing :: "'s \<Rightarrow> 'v list"
  assumes listing_iff: "wf s \<Longrightarrow> v \<in> set (listing s) \<longleftrightarrow> load s (key v) = Some v"
    and load_key: "wf s \<Longrightarrow> load s k = Some v \<Longrightarrow> key v = k"
begin

lemma listing_save:
  "wf s \<Longrightarrow> ok v \<Longrightarrow> w \<in> set (listing (save v s)) \<longleftrightarrow> w = v \<or> (w \<in> set (listing s) \<and> key w \<noteq> key v)"
  by (auto simp: listing_iff wf_save load_save split: if_splits)

lemma query_save:
  "wf s \<Longrightarrow> ok v \<Longrightarrow> P v \<Longrightarrow> v \<in> set (filter P (listing (save v s)))"
  by (simp add: listing_save)

lemma load_listing: "wf s \<Longrightarrow> load s k = Some v \<Longrightarrow> v \<in> set (listing s)"
  using load_key listing_iff by blast

end

section \<open>Objects with an index\<close>

record ('k, 'v) kv_store =
  kv_objects :: "(string \<times> 'v option) list"
  kv_index :: "('k \<times> 'v) list option"

text \<open>\<open>_ensure_index\<close>: an object that does not parse is skipped, a later one of a key wins.\<close>

definition kv_build :: "('v \<Rightarrow> 'k) \<Rightarrow> (string \<times> 'v option) list \<Rightarrow> ('k \<times> 'v) list" where
  "kv_build ikey objs = fold (\<lambda>v idx. AList.update (ikey v) v idx) (List.map_filter snd objs) []"

definition kv_ensure :: "('v \<Rightarrow> 'k) \<Rightarrow> ('k, 'v) kv_store \<Rightarrow> ('k, 'v) kv_store" where
  "kv_ensure ikey s =
     (case kv_index s of Some i \<Rightarrow> s | None \<Rightarrow> s\<lparr>kv_index := Some (kv_build ikey (kv_objects s))\<rparr>)"

definition kv_current :: "('v \<Rightarrow> 'k) \<Rightarrow> ('k, 'v) kv_store \<Rightarrow> ('k \<times> 'v) list" where
  "kv_current ikey s = (case kv_index (kv_ensure ikey s) of Some i \<Rightarrow> i | None \<Rightarrow> [])"

definition kv_save :: "('v \<Rightarrow> string) \<Rightarrow> ('v \<Rightarrow> 'k) \<Rightarrow> 'v \<Rightarrow> ('k, 'v) kv_store \<Rightarrow> ('k, 'v) kv_store" where
  "kv_save okey ikey v s =
     s\<lparr>kv_objects := AList.update (okey v) (Some v) (kv_objects s),
       kv_index := map_option (AList.update (ikey v) v) (kv_index s)\<rparr>"

definition kv_load :: "('v \<Rightarrow> 'k) \<Rightarrow> ('k, 'v) kv_store \<Rightarrow> 'k \<Rightarrow> 'v option" where
  "kv_load ikey s k = map_of (kv_current ikey s) k"

definition kv_list :: "('v \<Rightarrow> 'k) \<Rightarrow> ('k, 'v) kv_store \<Rightarrow> 'v list" where
  "kv_list ikey s = vals (kv_current ikey s)"

text \<open>A new process over the same objects.\<close>

definition kv_restart :: "('k, 'v) kv_store \<Rightarrow> ('k, 'v) kv_store" where
  "kv_restart s = s\<lparr>kv_index := None\<rparr>"

definition kv_empty :: "('k, 'v) kv_store" where
  "kv_empty = \<lparr>kv_objects = [], kv_index = None\<rparr>"

definition kv_wf :: "('v \<Rightarrow> string) \<Rightarrow> ('v \<Rightarrow> 'k) \<Rightarrow> ('v \<Rightarrow> bool) \<Rightarrow> ('k, 'v) kv_store \<Rightarrow> bool" where
  "kv_wf okey ikey ok s \<longleftrightarrow>
     distinct (keys (kv_objects s)) \<and>
     (\<forall>q v. (q, Some v) \<in> set (kv_objects s) \<longrightarrow> q = okey v \<and> ok v) \<and>
     (\<forall>i. kv_index s = Some i \<longrightarrow> distinct (keys i) \<and> map_of i = map_of (kv_build ikey (kv_objects s)))"

lemma kv_wf_empty: "kv_wf okey ikey ok kv_empty"
  by (simp add: kv_wf_def kv_empty_def)

lemma kv_current_restart: "kv_wf okey ikey ok s \<Longrightarrow> map_of (kv_current ikey s) = map_of (kv_build ikey (kv_objects s))"
  by (auto simp: kv_current_def kv_ensure_def kv_wf_def split: option.splits)

lemma map_of_kv_restart: "map_of (kv_current ikey (kv_restart s)) = map_of (kv_build ikey (kv_objects s))"
  by (simp add: kv_current_def kv_ensure_def kv_restart_def)

locale indexed_store =
  fixes okey :: "'v \<Rightarrow> string"
    and ikey :: "'v \<Rightarrow> 'k"
    and ok :: "'v \<Rightarrow> bool"
  assumes okey_iff: "ok v \<Longrightarrow> ok w \<Longrightarrow> okey v = okey w \<longleftrightarrow> ikey v = ikey w"
begin

lemma build_iff:
  assumes "distinct (keys objs)" and "\<forall>q v. (q, Some v) \<in> set objs \<longrightarrow> q = okey v \<and> ok v"
  shows "map_of (kv_build ikey objs) k = Some v \<longleftrightarrow> map_of objs (okey v) = Some (Some v) \<and> ikey v = k"
proof -
  let ?vs = "List.map_filter snd objs"
  have set: "v \<in> set ?vs \<longleftrightarrow> (okey v, Some v) \<in> set objs" for v
    using assms(2) by (force simp: List.map_filter_def)
  have "distinct (map ikey ?vs)"
    using assms
  proof (induction objs)
    case (Cons obj objs)
    obtain q w where obj: "obj = (q, w)" by force
    have ih: "distinct (map ikey (List.map_filter snd objs))"
      using Cons.prems by (intro Cons.IH) simp_all
    show ?case
    proof (cases w)
      case (Some v)
      have "ikey v \<noteq> ikey u" if "u \<in> set (List.map_filter snd objs)" for u
      proof -
        from that obtain p where p: "(p, Some u) \<in> set objs" by (auto simp: List.map_filter_def)
        with Cons.prems(2) have "p = okey u" "ok u" by auto
        moreover have "q = okey v" "ok v" using Cons.prems(2) obj Some by auto
        moreover have "p \<noteq> q" using Cons.prems(1) obj p by force
        ultimately show ?thesis using okey_iff [of v u] by simp
      qed
      then have "ikey v \<notin> ikey ` set (List.map_filter snd objs)" by (auto simp: image_iff)
      with ih show ?thesis by (simp add: obj Some List.map_filter_simps)
    next
      case None
      with ih show ?thesis by (simp add: obj List.map_filter_simps)
    qed
  qed (simp add: List.map_filter_simps)
  then have mem: "map_of (kv_build ikey objs) (ikey v) = Some v" if "v \<in> set ?vs" for v
    using that fold_update_mem [of ikey ?vs v "\<lambda>v. v" "[]"] by (simp add: kv_build_def)
  have other: "map_of (kv_build ikey objs) k = None" if "k \<notin> ikey ` set ?vs" for k
    using that fold_update_other [of k ikey ?vs "\<lambda>v. v" "[]"] by (simp add: kv_build_def)
  have "map_of (kv_build ikey objs) k = Some v \<longleftrightarrow> v \<in> set ?vs \<and> ikey v = k"
  proof (cases "k \<in> ikey ` set ?vs")
    case True
    then obtain u where "u \<in> set ?vs" "k = ikey u" by blast
    then show ?thesis using mem [of u] mem [of v] by auto
  qed (use other [of k] in auto)
  then show ?thesis using set assms(1) by simp
qed

lemma map_eqI: "(\<And>k v. m k = Some v \<longleftrightarrow> m' k = Some v) \<Longrightarrow> m = m'"
  by (rule ext) (metis option.exhaust)

lemma build_save:
  assumes "kv_wf okey ikey ok s" and "ok v"
  shows "map_of (kv_build ikey (AList.update (okey v) (Some v) (kv_objects s))) =
     (map_of (kv_build ikey (kv_objects s)))(ikey v \<mapsto> v)"
proof (rule map_eqI)
  fix k w
  let ?objs = "AList.update (okey v) (Some v) (kv_objects s)"
  have d: "distinct (keys (kv_objects s))" and o: "\<forall>q u. (q, Some u) \<in> set (kv_objects s) \<longrightarrow> q = okey u \<and> ok u"
    using assms(1) by (auto simp: kv_wf_def)
  have o': "\<forall>q u. (q, Some u) \<in> set ?objs \<longrightarrow> q = okey u \<and> ok u"
    using o assms(2) set_update_subset [of "okey v" "Some v" "kv_objects s"] by blast
  have "map_of (kv_objects s) (okey w) = Some (Some w) \<Longrightarrow> ok w" using o by (meson map_of_SomeD)
  then have "ok w \<or> map_of (kv_objects s) (okey w) \<noteq> Some (Some w)" by blast
  then have "map_of ?objs (okey w) = Some (Some w) \<and> ikey w = k \<longleftrightarrow>
      (if k = ikey v then w = v else map_of (kv_objects s) (okey w) = Some (Some w) \<and> ikey w = k)"
    using okey_iff [OF assms(2), of w] assms(2) by (cases "okey w = okey v") auto
  then show "map_of (kv_build ikey ?objs) k = Some w \<longleftrightarrow> ((map_of (kv_build ikey (kv_objects s)))(ikey v \<mapsto> v)) k = Some w"
    unfolding build_iff [OF distinct_keys_update [OF d] o'] fun_upd_apply
    using build_iff [OF d o, of k w] by auto
qed

lemma kv_wf_save:
  assumes "kv_wf okey ikey ok s" and "ok v"
  shows "kv_wf okey ikey ok (kv_save okey ikey v s)"
proof -
  have "\<forall>q u. (q, Some u) \<in> set (AList.update (okey v) (Some v) (kv_objects s)) \<longrightarrow> q = okey u \<and> ok u"
    using assms set_update_subset [of "okey v" "Some v" "kv_objects s"] unfolding kv_wf_def by blast
  moreover have "map_of (AList.update (ikey v) v i) = (map_of i)(ikey v \<mapsto> v)" for i by auto
  ultimately show ?thesis
    using assms build_save [OF assms] by (auto simp: kv_wf_def kv_save_def)
qed

lemma map_of_current_save:
  assumes "kv_wf okey ikey ok s" and "ok v"
  shows "map_of (kv_current ikey (kv_save okey ikey v s)) = (map_of (kv_current ikey s))(ikey v \<mapsto> v)"
  using kv_current_restart [OF kv_wf_save [OF assms]] kv_current_restart [OF assms(1)] build_save [OF assms]
  by (simp add: kv_save_def)

lemma kv_load_restart: "kv_wf okey ikey ok s \<Longrightarrow> kv_load ikey (kv_restart s) k = kv_load ikey s k"
  by (simp add: kv_load_def map_of_kv_restart kv_current_restart)

lemma kv_wf_restart: "kv_wf okey ikey ok s \<Longrightarrow> kv_wf okey ikey ok (kv_restart s)"
  by (simp add: kv_wf_def kv_restart_def)

lemma current_distinct: "kv_wf okey ikey ok s \<Longrightarrow> distinct (keys (kv_current ikey s))"
  by (auto simp: kv_current_def kv_ensure_def kv_wf_def kv_build_def distinct_fold_update split: option.splits)

lemma current_key: "kv_wf okey ikey ok s \<Longrightarrow> map_of (kv_current ikey s) k = Some v \<Longrightarrow> ikey v = k"
  using kv_current_restart [of okey ikey ok s] build_iff [of "kv_objects s" k v] by (simp add: kv_wf_def)

end

sublocale indexed_store \<subseteq> listed_store ikey "kv_save okey ikey" "kv_load ikey" ok "kv_wf okey ikey ok" "kv_list ikey"
proof
  show "kv_load ikey (kv_save okey ikey v s) k = (if k = ikey v then Some v else kv_load ikey s k)"
    if "kv_wf okey ikey ok s" "ok v" for s v k
    using map_of_current_save [OF that] by (simp add: kv_load_def)
  show "kv_wf okey ikey ok (kv_save okey ikey v s)" if "kv_wf okey ikey ok s" "ok v" for s v
    using kv_wf_save [OF that] .
  show "v \<in> set (kv_list ikey s) \<longleftrightarrow> kv_load ikey s (ikey v) = Some v" if "kv_wf okey ikey ok s" for s v
  proof -
    have d: "distinct (keys (kv_current ikey s))" using current_distinct [OF that] .
    have "v \<in> set (kv_list ikey s) \<longleftrightarrow> (\<exists>k. map_of (kv_current ikey s) k = Some v)"
      using d by (force simp: kv_list_def)
    then show ?thesis using current_key [OF that] by (auto simp: kv_load_def)
  qed
  show "ikey v = k" if "kv_wf okey ikey ok s" "kv_load ikey s k = Some v" for s k v
    using current_key that by (simp add: kv_load_def)
qed

end
