(* ===== verification/Identity_Models.thy ===== *)
theory Identity_Models imports Signing Store_Index begin

text \<open>
  The signed records of identity and trust: capability grants (\<open>models/capability.py\<close>),
  attestations (\<open>models/attestation.py\<close>), space claims (\<open>models/space.py\<close>), bindings and directory
  entries (\<open>models/binding.py\<close>), identities and their links (\<open>models/identity.py\<close>). The times given as
  \<open>utcnow\<close> are naive datetimes.
\<close>

section \<open>Capability grants\<close>

definition base_permissions :: "string list" where
  "base_permissions = [''read'', ''write'', ''admin'']"

definition extended_permissions :: "string list" where
  "extended_permissions = [''publish'', ''certify'', ''moderate'', ''own'']"

definition known_scope_kinds :: "string list" where
  "known_scope_kinds = [''node'', ''space'', ''pool'', ''record'']"

definition is_base_permission :: "string \<Rightarrow> bool" where
  "is_base_permission p \<longleftrightarrow> p \<in> set base_permissions \<or> starts_with ''domain:'' p"

definition is_known_verb :: "string \<Rightarrow> bool" where
  "is_known_verb p \<longleftrightarrow> is_base_permission p \<or> p \<in> set extended_permissions"

record scope =
  scope_kind :: string
  scope_target :: string
  scope_v :: int

definition scope_key :: "scope \<Rightarrow> string" where
  "scope_key s = scope_kind s @ '':'' @ scope_target s @ '':v'' @ int_text (scope_v s)"

record capability_grant =
  grant_id :: uuid
  issuer_did :: did
  subject_did :: did
  permissions :: "string list"
  coarse_floor :: "string list"
  scope :: scope
  issued_at :: datetime
  not_before :: "datetime option"
  expires_at :: datetime
  signature :: string

text \<open>The \<open>coarse_floor\<close> validator: \<open>False\<close> is the \<open>ValueError\<close> of constructing the grant.\<close>

definition floor_is_base_subset :: "string list \<Rightarrow> bool" where
  "floor_is_base_subset fl \<longleftrightarrow> list_all is_base_permission fl"

definition grant_payload :: "capability_grant \<Rightarrow> json" where
  "grant_payload g = JObj
     [(''grant_id'', JStr (grant_id g)), (''issuer_did'', JStr (issuer_did g)),
      (''subject_did'', JStr (subject_did g)), (''permissions'', JList (map JStr (permissions g))),
      (''coarse_floor'', JList (map JStr (coarse_floor g))),
      (''scope'', JObj [(''kind'', JStr (scope_kind (scope g))), (''target'', JStr (scope_target (scope g))),
        (''v'', JInt (scope_v (scope g)))]),
      (''issued_at'', JStr (isoformat (issued_at g))), (''not_before'', time_json (not_before g)),
      (''expires_at'', JStr (isoformat (expires_at g)))]"

subsection \<open>The grant store\<close>

text \<open>
  \<open>storage/grant_store.py\<close>: objects \<open>identity/grants/<id>.json\<close> and an index from subjects to their
  grants, built on first use. A missing index is \<open>None\<close>; an object that does not parse is \<open>None\<close>.
\<close>

record grant_store =
  g_objects :: "(string \<times> capability_grant option) list"
  g_index :: "(did \<times> capability_grant list) list option"

definition grant_key :: "uuid \<Rightarrow> string" where
  "grant_key u = ''identity/grants/'' @ u @ ''.json''"

text \<open>\<open>index.get(subject, [])\<close>.\<close>

definition grants_of :: "(did \<times> capability_grant list) list \<Rightarrow> did \<Rightarrow> capability_grant list" where
  "grants_of idx d = (case map_of idx d of None \<Rightarrow> [] | Some gs \<Rightarrow> gs)"

definition index_add :: "capability_grant \<Rightarrow> (did \<times> capability_grant list) list \<Rightarrow> (did \<times> capability_grant list) list" where
  "index_add g idx =
     AList.update (subject_did g) (grants_of idx (subject_did g) @ [g]) idx"

definition grant_build :: "(string \<times> capability_grant option) list \<Rightarrow> (did \<times> capability_grant list) list" where
  "grant_build objs = fold index_add (List.map_filter snd objs) []"

definition grant_ensure :: "grant_store \<Rightarrow> grant_store" where
  "grant_ensure s =
     (case g_index s of Some i \<Rightarrow> s | None \<Rightarrow> s\<lparr>g_index := Some (grant_build (g_objects s))\<rparr>)"

definition grant_current :: "grant_store \<Rightarrow> (did \<times> capability_grant list) list" where
  "grant_current s = (case g_index (grant_ensure s) of Some i \<Rightarrow> i | None \<Rightarrow> [])"

definition save_grant :: "capability_grant \<Rightarrow> grant_store \<Rightarrow> grant_store" where
  "save_grant g s =
     s\<lparr>g_objects := AList.update (grant_key (grant_id g)) (Some g) (g_objects s),
       g_index := map_option (index_add g) (g_index s)\<rparr>"

definition delete_grant :: "uuid \<Rightarrow> grant_store \<Rightarrow> grant_store" where
  "delete_grant u s =
     s\<lparr>g_objects := AList.delete (grant_key u) (g_objects s),
       g_index := map_option (map (\<lambda>(d, gs). (d, filter (\<lambda>g. grant_id g \<noteq> u) gs))) (g_index s)\<rparr>"

definition list_for_subject :: "did \<Rightarrow> grant_store \<Rightarrow> capability_grant list" where
  "list_for_subject d s = grants_of (grant_current s) d"

definition list_all_grants :: "grant_store \<Rightarrow> capability_grant list" where
  "list_all_grants s = concat (vals (grant_current s))"

section \<open>Attestations\<close>

definition known_attestation_types :: "string list" where
  "known_attestation_types = [''authored'', ''published'', ''on_behalf_of'', ''certified'', ''vouch'',
     ''space_member'', ''listed'', ''curated'', ''domain_bound'', ''oauth_bound'']"

record attestation =
  attestation_id :: uuid
  att_type :: string
  att_issuer :: did
  att_subject :: did
  att_content_hash :: "string option"
  att_claim :: "(string \<times> json) list"
  att_created_at :: datetime
  att_expires_at :: "datetime option"
  att_signature :: string

definition attestation_payload :: "attestation \<Rightarrow> json" where
  "attestation_payload a = JObj
     [(''attestation_id'', JStr (attestation_id a)), (''type'', JStr (att_type a)),
      (''issuer_did'', JStr (att_issuer a)), (''subject_did'', JStr (att_subject a)),
      (''content_hash'', opt_json JStr (att_content_hash a)), (''claim'', JObj (att_claim a)),
      (''created_at'', JStr (isoformat (att_created_at a))), (''expires_at'', time_json (att_expires_at a))]"

text \<open>\<open>None\<close> is the \<open>TypeError\<close> of comparing the naive clock with an aware expiry.\<close>

definition verify_attestation :: "ed25519 \<Rightarrow> datetime \<Rightarrow> attestation \<Rightarrow> bool option" where
  "verify_attestation ed utcnow a =
     (if att_signature a = [] \<or> att_issuer a = [] then Some False
      else (let check = verify_payload ed (att_issuer a) (attestation_payload a) (att_signature a)
            in case att_expires_at a of
                 None \<Rightarrow> Some check
               | Some e \<Rightarrow>
                   (case dt_less utcnow e of
                      None \<Rightarrow> None
                    | Some before \<Rightarrow> Some (if \<not> before then False else check))))"

definition attestation_key :: "attestation \<Rightarrow> string" where
  "attestation_key a = ''identity/attestations/'' @ attestation_id a @ ''.json''"

type_synonym attestation_store = "(uuid, attestation) kv_store"

definition save_attestation :: "attestation \<Rightarrow> attestation_store \<Rightarrow> attestation_store" where
  "save_attestation a s = kv_save attestation_key attestation_id a s"

definition load_attestation :: "attestation_store \<Rightarrow> uuid \<Rightarrow> attestation option" where
  "load_attestation s u = kv_load attestation_id s u"

definition all_attestations :: "attestation_store \<Rightarrow> attestation list" where
  "all_attestations s = kv_list attestation_id s"

definition attestations_for_subject :: "did \<Rightarrow> attestation_store \<Rightarrow> attestation list" where
  "attestations_for_subject d s = filter (\<lambda>a. att_subject a = d) (all_attestations s)"

definition attestations_for_content :: "string \<Rightarrow> attestation_store \<Rightarrow> attestation list" where
  "attestations_for_content h s = filter (\<lambda>a. att_content_hash a = Some h) (all_attestations s)"

definition attestations_for_catalog :: "string \<Rightarrow> attestation_store \<Rightarrow> attestation list" where
  "attestations_for_catalog h s =
     filter (\<lambda>a. att_content_hash a = Some h \<or> jget (att_claim a) ''manifest_content_hash'' = JStr h) (all_attestations s)"

section \<open>Space claims\<close>

record space_claim =
  space_did :: did
  admin_did :: did
  sc_claimed_at :: datetime
  claim_method :: string
  sc_signature :: string

definition space_claim_payload :: "space_claim \<Rightarrow> json" where
  "space_claim_payload c = JObj
     [(''space_did'', JStr (space_did c)), (''admin_did'', JStr (admin_did c)),
      (''claimed_at'', JStr (isoformat (sc_claimed_at c))), (''claim_method'', JStr (claim_method c))]"

text \<open>\<open>did.replace("/", "_")\<close>, the file-safe form of a DID.\<close>

definition safe_did :: "did \<Rightarrow> string" where
  "safe_did d = map (\<lambda>c. if c = CHR ''/'' then CHR ''_'' else c) d"

definition space_claim_key :: "space_claim \<Rightarrow> string" where
  "space_claim_key c = ''identity/space-claims/'' @ safe_did (space_did c) @ ''.json''"

type_synonym space_claim_store = "(did, space_claim) kv_store"

definition save_space_claim :: "space_claim \<Rightarrow> space_claim_store \<Rightarrow> space_claim_store" where
  "save_space_claim c s = kv_save space_claim_key space_did c s"

definition load_space_claim :: "space_claim_store \<Rightarrow> did \<Rightarrow> space_claim option" where
  "load_space_claim s d = kv_load space_did s d"

definition all_space_claims :: "space_claim_store \<Rightarrow> space_claim list" where
  "all_space_claims s = kv_list space_did s"

section \<open>Bindings and the directory\<close>

record identity_binding =
  binding_id :: uuid
  b_subject :: did
  b_kind :: string
  external_id :: string
  evidence :: "(string \<times> json) list"
  challenge :: "string option"
  verified :: bool
  verified_at :: "datetime option"
  b_created_at :: datetime
  b_signature :: string

definition binding_payload :: "identity_binding \<Rightarrow> json" where
  "binding_payload b = JObj
     [(''binding_id'', JStr (binding_id b)), (''subject_did'', JStr (b_subject b)), (''kind'', JStr (b_kind b)),
      (''external_id'', JStr (external_id b)), (''evidence'', JObj (evidence b)), (''verified'', JBool (verified b)),
      (''verified_at'', time_json (verified_at b)), (''created_at'', JStr (isoformat (b_created_at b)))]"

text \<open>
  \<open>domain_external_id\<close>: trimmed, lower case, without scheme, trailing slashes and path.
\<close>

definition domain_host :: "string \<Rightarrow> string" where
  "domain_host domain =
     (let h0 = lower (strip domain);
          h1 = removeprefix ''https://'' h0;
          h2 = removeprefix ''http://'' h1
      in hd (split_char (CHR ''/'') (rstrip_by (\<lambda>c. c = CHR ''/'') h2)))"

definition domain_external_id :: "string \<Rightarrow> string" where
  "domain_external_id domain = ''domain:'' @ domain_host domain"

definition oauth_external_id :: "string \<Rightarrow> string \<Rightarrow> string" where
  "oauth_external_id provider external_subject =
     ''oauth:'' @ lower (strip provider) @ '':'' @ strip external_subject"

definition well_known_url :: "string \<Rightarrow> string" where
  "well_known_url domain =
     ''https://'' @ removeprefix ''domain:'' (domain_external_id domain) @ ''/.well-known/ohm-did.json''"

definition well_known_document :: "did \<Rightarrow> string \<Rightarrow> json" where
  "well_known_document d ch =
     JObj [(''did'', JStr d), (''challenge'', JStr ch), (''method'', JStr ''ohm-domain-bind-v1'')]"

definition binding_key :: "identity_binding \<Rightarrow> string" where
  "binding_key b = ''identity/bindings/'' @ binding_id b @ ''.json''"

type_synonym binding_store = "(uuid, identity_binding) kv_store"

definition save_binding :: "identity_binding \<Rightarrow> binding_store \<Rightarrow> binding_store" where
  "save_binding b s = kv_save binding_key binding_id b s"

definition load_binding :: "binding_store \<Rightarrow> uuid \<Rightarrow> identity_binding option" where
  "load_binding s u = kv_load binding_id s u"

definition all_bindings :: "binding_store \<Rightarrow> identity_binding list" where
  "all_bindings s = kv_list binding_id s"

definition bindings_for_subject :: "did \<Rightarrow> binding_store \<Rightarrow> identity_binding list" where
  "bindings_for_subject d s = filter (\<lambda>b. b_subject b = d) (all_bindings s)"

definition find_by_external_id :: "string \<Rightarrow> binding_store \<Rightarrow> identity_binding option" where
  "find_by_external_id x s = find (\<lambda>b. external_id b = x) (all_bindings s)"

record directory_entry =
  de_did :: did
  de_display_name :: string
  de_base_url :: "string option"
  de_domain :: "string option"
  verified_bindings :: "string list"
  de_updated_at :: datetime

definition directory_key :: "directory_entry \<Rightarrow> string" where
  "directory_key e = ''identity/directory/'' @ safe_did (de_did e) @ ''.json''"

type_synonym directory_store = "(did, directory_entry) kv_store"

definition save_directory :: "directory_entry \<Rightarrow> directory_store \<Rightarrow> directory_store" where
  "save_directory e s = kv_save directory_key de_did e s"

definition load_directory :: "directory_store \<Rightarrow> did \<Rightarrow> directory_entry option" where
  "load_directory s d = kv_load de_did s d"

definition all_directory :: "directory_store \<Rightarrow> directory_entry list" where
  "all_directory s = kv_list de_did s"

end
