(* ===== verification/Auth_Service.thy ===== *)
theory Auth_Service imports Identity_Models begin

text \<open>
  The authentication and identity service (\<open>services/auth_service.py\<close>) over its stores
  (\<open>storage/auth_storage.py\<close>, \<open>storage/identity_key_store.py\<close>): API keys, self-sovereign
  identities, capability grants, space claims, attestations, bindings and the directory.
  \<^item> \<open>auth_env\<close> is what the service reads and never changes: the signature scheme, \<open>bcrypt\<close>'s
    check, the configured mode and environment keys, the node's own identity, the security policy,
    and the answer of \<open>_is_followed_peer\<close>.
  \<^item> \<open>auth_state\<close> are its stores; a store that is not available is \<open>None\<close>.
  \<^item> An operation that may fail returns \<open>auth_error + 'a\<close>, one that changes a store also the
    state after it, with what was written before a failure kept.
  \<^item> \<open>utcnow\<close> is \<open>datetime.utcnow()\<close>, a naive datetime; fresh ids and keys are arguments.
\<close>

datatype auth_error = Http nat string | RuntimeErr string | TypeErr | OverflowErr | ValueErr

section \<open>Records\<close>

record api_key =
  key_id :: uuid
  key_hash :: string
  ak_name :: string
  ak_description :: "string option"
  ak_permissions :: "string list"
  ak_created_at :: datetime
  last_used_at :: "datetime option"
  ak_expires_at :: "datetime option"
  revoked :: bool
  created_by :: string

record auth_user =
  user_key_id :: uuid
  user_name :: string
  user_permissions :: "string list"
  user_account_id :: uuid
  user_did :: "did option"

datatype identity_kind = PERSON | SPACE | NODE

record identity_link =
  from_did :: did
  to_did :: did
  link_reason :: string
  signed_by :: did
  link_signature :: string
  link_created_at :: datetime

definition link_payload :: "identity_link \<Rightarrow> json" where
  "link_payload l = JObj
     [(''from_did'', JStr (from_did l)), (''to_did'', JStr (to_did l)), (''reason'', JStr (link_reason l)),
      (''signed_by'', JStr (signed_by l)), (''created_at'', JStr (isoformat (link_created_at l)))]"

record identity =
  id_did :: did
  id_kind :: identity_kind
  id_display_name :: string
  id_created_at :: datetime
  id_account_id :: "string option"
  links_in :: "identity_link list"
  custodial :: bool

datatype auth_mode = ModeEnv | ModeStorage | ModeHybrid

record auth_env =
  ed :: ed25519
  checkpw :: "string \<Rightarrow> string \<Rightarrow> bool"
  mode :: auth_mode
  env_keys :: "string list"
  node :: "node_identity option"
  followed :: "did \<Rightarrow> bool"
  policy_ttl_days :: int
  custodial_allowed :: bool
  ca_pinned :: bool

text \<open>The key store keeps per DID the signing key and the public record, under the file-safe DID.\<close>

record auth_state =
  api_keys :: "(string \<times> api_key option) list option"
  key_cache :: "(uuid \<times> api_key \<times> datetime) list"
  identity_files :: "(string \<times> node_identity \<times> identity) list option"
  grants :: "grant_store option"
  space_claims :: "space_claim_store option"
  attestations :: "attestation_store option"
  bindings :: "binding_store option"
  directory :: "directory_store option"

definition root_account_id :: uuid where
  "root_account_id = ''00000000-0000-0000-0000-000000000001''"

section \<open>The identity key store\<close>

definition id_save :: "node_identity \<Rightarrow> identity \<Rightarrow> (string \<times> node_identity \<times> identity) list \<Rightarrow>
   (string \<times> node_identity \<times> identity) list" where
  "id_save key i files = AList.update (safe_did (id_did i)) (key, i) files"

definition load_signing_key :: "(string \<times> node_identity \<times> identity) list \<Rightarrow> did \<Rightarrow> node_identity option" where
  "load_signing_key files d = map_option fst (map_of files (safe_did d))"

definition load_identity :: "(string \<times> node_identity \<times> identity) list \<Rightarrow> did \<Rightarrow> identity option" where
  "load_identity files d = map_option snd (map_of files (safe_did d))"

text \<open>\<open>sorted(glob("*.json"))\<close>: in the order of the file names \<open><did>.json\<close>.\<close>

definition list_identities :: "(string \<times> node_identity \<times> identity) list \<Rightarrow> identity list" where
  "list_identities files = map (snd \<circ> snd) (sort_key (\<lambda>f. fst f @ ''.json'') files)"

definition find_primary_did :: "(string \<times> node_identity \<times> identity) list \<Rightarrow> string \<Rightarrow> did option" where
  "find_primary_did files account =
     map_option id_did (find (\<lambda>i. id_account_id i = Some account) (list_identities files))"

section \<open>API keys\<close>

definition api_key_path :: "uuid \<Rightarrow> string" where
  "api_key_path u = ''auth/api-keys/'' @ u @ ''.json''"

definition save_key :: "api_key \<Rightarrow> auth_state \<Rightarrow> auth_state" where
  "save_key k st = st\<lparr>api_keys := map_option (AList.update (api_key_path (key_id k)) (Some k)) (api_keys st)\<rparr>"

definition list_keys :: "auth_state \<Rightarrow> api_key list" where
  "list_keys st = (case api_keys st of None \<Rightarrow> [] | Some objs \<Rightarrow> List.map_filter snd objs)"

definition load_key :: "auth_state \<Rightarrow> uuid \<Rightarrow> api_key option" where
  "load_key st u =
     (case api_keys st of None \<Rightarrow> None | Some objs \<Rightarrow> (case map_of objs (api_key_path u) of Some (Some k) \<Rightarrow> Some k | _ \<Rightarrow> None))"

definition check_env_keys :: "auth_env \<Rightarrow> string \<Rightarrow> auth_user option" where
  "check_env_keys env token =
     (if list_ex (\<lambda>k. k \<noteq> [] \<and> strip k = strip token) (env_keys env)
      then Some \<lparr>user_key_id = ''00000000-0000-0000-0000-000000000000'', user_name = ''Environment Key'',
                 user_permissions = [''read'', ''write'', ''admin''], user_account_id = root_account_id, user_did = None\<rparr>
      else None)"

definition account_id_from_key :: "api_key \<Rightarrow> uuid" where
  "account_id_from_key k = (case parse_uuid (created_by k) of Some u \<Rightarrow> u | None \<Rightarrow> root_account_id)"

definition subject_did_for :: "auth_state \<Rightarrow> uuid \<Rightarrow> did option" where
  "subject_did_for st account =
     (case identity_files st of None \<Rightarrow> None | Some files \<Rightarrow> find_primary_did files account)"

definition invalid_token :: auth_error where
  "invalid_token = Http 401 ''Invalid authentication token''"

text \<open>What happens with the stored key the token matches.\<close>

definition accept_key :: "datetime \<Rightarrow> api_key \<Rightarrow> auth_state \<Rightarrow> (auth_error + auth_user) \<times> auth_state" where
  "accept_key utcnow k st =
     (if revoked k then (Inl (Http 401 ''API key has been revoked''), st)
      else case (case ak_expires_at k of None \<Rightarrow> Some False | Some e \<Rightarrow> dt_less e utcnow) of
             None \<Rightarrow> (Inl invalid_token, st)
           | Some True \<Rightarrow> (Inl (Http 401 ''API key has expired''), st)
           | Some False \<Rightarrow>
               (let k' = k\<lparr>last_used_at := Some utcnow\<rparr>;
                    st' = save_key k' st;
                    account = account_id_from_key k'
                in (Inr \<lparr>user_key_id = key_id k', user_name = ak_name k', user_permissions = ak_permissions k',
                        user_account_id = account, user_did = subject_did_for st account\<rparr>,
                    st'\<lparr>key_cache := AList.update (key_id k') (k', utcnow) (key_cache st')\<rparr>)))"

definition validate_api_key :: "auth_env \<Rightarrow> datetime \<Rightarrow> string \<Rightarrow> auth_state \<Rightarrow> (auth_error + auth_user) \<times> auth_state" where
  "validate_api_key env utcnow token st =
     (case (if mode env \<in> {ModeEnv, ModeHybrid} then check_env_keys env token else None) of
        Some user \<Rightarrow> (Inr user, st)
      | None \<Rightarrow>
          (case (if mode env \<in> {ModeStorage, ModeHybrid} then find (\<lambda>k. checkpw env token (key_hash k)) (list_keys st) else None) of
             Some k \<Rightarrow> accept_key utcnow k st
           | None \<Rightarrow> (Inl invalid_token, st)))"

definition create_api_key ::
  "uuid \<Rightarrow> string \<Rightarrow> datetime \<Rightarrow> string \<Rightarrow> string option \<Rightarrow> string list \<Rightarrow> datetime option \<Rightarrow> uuid option \<Rightarrow>
   auth_state \<Rightarrow> (auth_error + api_key) \<times> auth_state" where
  "create_api_key fresh hash utcnow name descr perms expires account st =
     (case api_keys st of
        None \<Rightarrow> (Inl (RuntimeErr ''Storage not available for API key creation''), st)
      | Some _ \<Rightarrow>
          (let k = \<lparr>key_id = fresh, key_hash = hash, ak_name = name, ak_description = descr, ak_permissions = perms,
                    ak_created_at = utcnow, last_used_at = None, ak_expires_at = expires, revoked = False,
                    created_by = (case account of None \<Rightarrow> root_account_id | Some a \<Rightarrow> a)\<rparr>
           in (Inr k, save_key k st)))"

definition revoke_api_key :: "uuid \<Rightarrow> auth_state \<Rightarrow> (auth_error + unit) \<times> auth_state" where
  "revoke_api_key u st =
     (if api_keys st = None then (Inl (RuntimeErr ''Storage not available for API key revocation''), st)
      else case load_key st u of
        None \<Rightarrow> (Inl (Http 404 ''API key not found''), st)
      | Some k \<Rightarrow>
          (let st' = save_key (k\<lparr>revoked := True\<rparr>) st
           in (Inr (), st'\<lparr>key_cache := AList.delete u (key_cache st')\<rparr>)))"

section \<open>Identities\<close>

definition local_node_scope :: "auth_env \<Rightarrow> scope option" where
  "local_node_scope env =
     map_option (\<lambda>n. \<lparr>scope_kind = ''node'', scope_target = ni_did n, scope_v = 1\<rparr>) (node env)"

definition signing_key_for :: "auth_env \<Rightarrow> auth_state \<Rightarrow> did \<Rightarrow> node_identity option" where
  "signing_key_for env st d =
     (case node env of
        Some n \<Rightarrow>
          if ni_did n = d then Some n
          else (case identity_files st of None \<Rightarrow> None | Some files \<Rightarrow> load_signing_key files d)
      | None \<Rightarrow> (case identity_files st of None \<Rightarrow> None | Some files \<Rightarrow> load_signing_key files d))"

definition create_identity ::
  "auth_env \<Rightarrow> byte list \<Rightarrow> datetime \<Rightarrow> uuid \<Rightarrow> identity_kind \<Rightarrow> string \<Rightarrow> auth_state \<Rightarrow>
   (auth_error + identity) \<times> auth_state" where
  "create_identity env sk utcnow account kind display_name st =
     (case identity_files st of
        None \<Rightarrow> (Inl (RuntimeErr ''Identity store not available''), st)
      | Some files \<Rightarrow>
          if \<not> custodial_allowed env then (Inl (Http 403 ''Custodial identity minting is disabled''), st)
          else
            (let name = (if display_name = [] then account else display_name);
                 key = generate_identity (ed env) sk name;
                 i = \<lparr>id_did = ni_did key, id_kind = kind, id_display_name = name, id_created_at = utcnow,
                      id_account_id = Some account, links_in = [], custodial = True\<rparr>
             in (Inr i, st\<lparr>identity_files := Some (id_save key i files)\<rparr>)))"

definition rotate_identity ::
  "auth_env \<Rightarrow> byte list \<Rightarrow> datetime \<Rightarrow> did \<Rightarrow> auth_state \<Rightarrow> (auth_error + identity) \<times> auth_state" where
  "rotate_identity env sk utcnow d st =
     (case identity_files st of
        None \<Rightarrow> (Inl (RuntimeErr ''Identity store not available''), st)
      | Some files \<Rightarrow>
          (case (load_signing_key files d, load_identity files d) of
             (Some old_key, Some old) \<Rightarrow>
               (let new_key = generate_identity (ed env) sk (id_display_name old);
                    l = \<lparr>from_did = d, to_did = ni_did new_key, link_reason = ''rotation'', signed_by = d,
                         link_signature = [], link_created_at = utcnow\<rparr>;
                    l' = l\<lparr>link_signature := sign_payload (ed env) (private_key old_key) (link_payload l)\<rparr>;
                    i = \<lparr>id_did = ni_did new_key, id_kind = id_kind old, id_display_name = id_display_name old,
                         id_created_at = utcnow, id_account_id = id_account_id old,
                         links_in = links_in old @ [l'], custodial = custodial old\<rparr>
                in (Inr i, st\<lparr>identity_files := Some (id_save new_key i files)\<rparr>))
           | _ \<Rightarrow> (Inl (Http 404 ''Identity not found''), st)))"

end
