(* ===== verification/Auth_Grants.thy ===== *)
theory Auth_Grants imports Auth_Service begin

text \<open>
  The second half of the authentication service (\<open>services/auth_service.py\<close>): capability grants
  and permission checks, space claims, attestations and reputation, domain and OAuth bindings
  (\<open>services/domain_bind.py\<close>) and the trust-on-follow directory.
\<close>

section \<open>Grants and permissions\<close>

definition issue_grant ::
  "auth_env \<Rightarrow> uuid \<Rightarrow> datetime \<Rightarrow> did \<Rightarrow> did \<Rightarrow> string list \<Rightarrow> scope \<Rightarrow> int option \<Rightarrow> string list option \<Rightarrow>
   auth_state \<Rightarrow> (auth_error + capability_grant) \<times> auth_state" where
  "issue_grant env fresh utcnow issuer subject perms sc ttl_days fl st =
     (case grants st of
        None \<Rightarrow> (Inl (RuntimeErr ''Grant store not available''), st)
      | Some gs \<Rightarrow>
          (case signing_key_for env st issuer of
             None \<Rightarrow> (Inl (Http 403 ''No signing key held for issuer; cannot issue grant''), st)
           | Some key \<Rightarrow>
               (case add_days (case ttl_days of Some t \<Rightarrow> t | None \<Rightarrow> policy_ttl_days env) utcnow of
                  None \<Rightarrow> (Inl OverflowErr, st)
                | Some expires \<Rightarrow>
                    (let floor' = (case fl of None \<Rightarrow> [''read''] | Some f \<Rightarrow> if f = [] then [''read''] else f);
                         g = \<lparr>grant_id = fresh, issuer_did = issuer, subject_did = subject, permissions = perms,
                              coarse_floor = floor', scope = sc, issued_at = utcnow, not_before = None,
                              expires_at = expires, signature = []\<rparr>;
                         g' = g\<lparr>signature := sign_payload (ed env) (private_key key) (grant_payload g)\<rparr>
                     in if \<not> floor_is_base_subset floor' then (Inl ValueErr, st)
                        else (Inr g', st\<lparr>grants := Some (save_grant g' gs)\<rparr>)))))"

definition list_grants :: "auth_state \<Rightarrow> did \<Rightarrow> capability_grant list" where
  "list_grants st d = (case grants st of None \<Rightarrow> [] | Some gs \<Rightarrow> list_for_subject d gs)"

definition revoke_grant :: "uuid \<Rightarrow> auth_state \<Rightarrow> (auth_error + unit) \<times> auth_state" where
  "revoke_grant u st =
     (case grants st of
        None \<Rightarrow> (Inl (RuntimeErr ''Grant store not available''), st)
      | Some gs \<Rightarrow> (Inr (), st\<lparr>grants := Some (delete_grant u gs)\<rparr>))"

definition get_space_claim :: "auth_state \<Rightarrow> did \<Rightarrow> space_claim option" where
  "get_space_claim st d = (case space_claims st of None \<Rightarrow> None | Some s \<Rightarrow> load_space_claim s d)"

definition is_issuer_trusted :: "auth_env \<Rightarrow> auth_state \<Rightarrow> capability_grant \<Rightarrow> bool" where
  "is_issuer_trusted env st g =
     (if (case node env of Some n \<Rightarrow> issuer_did g = ni_did n | None \<Rightarrow> False) then True
      else if issuer_did g = subject_did g then True
      else if followed env (issuer_did g) then True
      else if scope_kind (scope g) = ''space''
        then (case get_space_claim st (scope_target (scope g)) of
                None \<Rightarrow> False
              | Some c \<Rightarrow> admin_did c = issuer_did g \<and>
                  verify_payload (ed env) (space_did c) (space_claim_payload c) (sc_signature c))
      else False)"

text \<open>\<open>None\<close> is the \<open>TypeError\<close> of comparing the naive clock with an aware bound.\<close>

definition verify_grant :: "auth_env \<Rightarrow> datetime \<Rightarrow> capability_grant \<Rightarrow> bool option" where
  "verify_grant env utcnow g =
     (if \<not> verify_payload (ed env) (issuer_did g) (grant_payload g) (signature g) then Some False
      else case (case not_before g of None \<Rightarrow> Some False | Some nb \<Rightarrow> dt_less utcnow nb) of
        None \<Rightarrow> None
      | Some True \<Rightarrow> Some False
      | Some False \<Rightarrow>
          (case dt_less utcnow (expires_at g) of
             None \<Rightarrow> None
           | Some False \<Rightarrow> Some False
           | Some True \<Rightarrow> Some (scope_kind (scope g) \<in> set known_scope_kinds)))"

definition grant_effective_permissions :: "capability_grant \<Rightarrow> string list" where
  "grant_effective_permissions g = filter is_known_verb (permissions g) @ coarse_floor g"

text \<open>The loop over the subject's grants; the result is read as a set.\<close>

fun resolve_loop :: "auth_env \<Rightarrow> datetime \<Rightarrow> auth_state \<Rightarrow> string \<Rightarrow> capability_grant list \<Rightarrow> string list option" where
  "resolve_loop env utcnow st k [] = Some []"
| "resolve_loop env utcnow st k (g # gs) =
     (if scope_key (scope g) \<noteq> k then resolve_loop env utcnow st k gs
      else case verify_grant env utcnow g of
        None \<Rightarrow> None
      | Some False \<Rightarrow> resolve_loop env utcnow st k gs
      | Some True \<Rightarrow>
          if \<not> is_issuer_trusted env st g then resolve_loop env utcnow st k gs
          else map_option ((@) (grant_effective_permissions g)) (resolve_loop env utcnow st k gs))"

definition resolve_capabilities :: "auth_env \<Rightarrow> datetime \<Rightarrow> auth_state \<Rightarrow> did \<Rightarrow> scope \<Rightarrow> string list option" where
  "resolve_capabilities env utcnow st d sc = resolve_loop env utcnow st (scope_key sc) (list_grants st d)"

definition permits :: "string list \<Rightarrow> string list \<Rightarrow> bool" where
  "permits required perms =
     (if ''admin'' \<in> set perms then True
      else list_all (\<lambda>r. r \<in> set perms \<or> (r = ''read'' \<and> ''write'' \<in> set perms)) required)"

definition check_permission ::
  "auth_env \<Rightarrow> datetime \<Rightarrow> auth_state \<Rightarrow> auth_user \<Rightarrow> string list \<Rightarrow> scope option \<Rightarrow> bool option" where
  "check_permission env utcnow st user required sc =
     (if required = [] then Some True
      else case (sc, user_did user) of
        (Some s, Some d) \<Rightarrow>
          if d = [] then Some (permits required (user_permissions user))
          else map_option (\<lambda>caps. permits required (user_permissions user @ caps))
                 (resolve_capabilities env utcnow st d s)
      | _ \<Rightarrow> Some (permits required (user_permissions user)))"

definition bootstrap_edge_grant ::
  "auth_env \<Rightarrow> uuid \<Rightarrow> datetime \<Rightarrow> did \<Rightarrow> string list option \<Rightarrow> int option \<Rightarrow>
   auth_state \<Rightarrow> (auth_error + capability_grant) \<times> auth_state" where
  "bootstrap_edge_grant env fresh utcnow subject perms ttl st =
     (case local_node_scope env of
        None \<Rightarrow> (Inl (Http 400 ''No local node identity; cannot bootstrap edge grant''), st)
      | Some sc \<Rightarrow>
          issue_grant env fresh utcnow subject subject
            (case perms of None \<Rightarrow> [''write''] | Some p \<Rightarrow> if p = [] then [''write''] else p)
            sc ttl (Some [''read'', ''write'']) st)"

section \<open>Space claims\<close>

definition claim_space ::
  "auth_env \<Rightarrow> datetime \<Rightarrow> did \<Rightarrow> did \<Rightarrow> auth_state \<Rightarrow> (auth_error + space_claim) \<times> auth_state" where
  "claim_space env utcnow space admin st =
     (case (space_claims st, identity_files st) of
        (Some scs, Some files) \<Rightarrow>
          (if (case load_identity files space of None \<Rightarrow> True | Some i \<Rightarrow> id_kind i \<noteq> SPACE)
           then (Inl (Http 400 ''space_did must refer to a locally held SPACE identity''), st)
           else if (case load_identity files admin of None \<Rightarrow> True | Some i \<Rightarrow> id_kind i \<noteq> PERSON)
           then (Inl (Http 400 ''admin_did must refer to a locally held PERSON identity''), st)
           else case load_space_claim scs space of
             Some existing \<Rightarrow> (Inl (Http 409 (''Space already claimed by '' @ admin_did existing)), st)
           | None \<Rightarrow>
               (case load_signing_key files space of
                  None \<Rightarrow> (Inl (Http 403 ''No signing key held for space; cannot claim''), st)
                | Some key \<Rightarrow>
                    (let c = \<lparr>space_did = space, admin_did = admin, sc_claimed_at = utcnow, claim_method = ''tofu'',
                              sc_signature = []\<rparr>;
                         c' = c\<lparr>sc_signature := sign_payload (ed env) (private_key key) (space_claim_payload c)\<rparr>
                     in (Inr c', st\<lparr>space_claims := Some (save_space_claim c' scs)\<rparr>))))
      | _ \<Rightarrow> (Inl (RuntimeErr ''Space claim store not available''), st))"

section \<open>Attestations\<close>

definition issue_attestation ::
  "auth_env \<Rightarrow> uuid \<Rightarrow> datetime \<Rightarrow> string \<Rightarrow> did \<Rightarrow> did option \<Rightarrow> string option \<Rightarrow> (string \<times> json) list \<Rightarrow>
   datetime option \<Rightarrow> auth_state \<Rightarrow> (auth_error + attestation) \<times> auth_state" where
  "issue_attestation env fresh utcnow type subject issuer content claim expires st =
     (case attestations st of
        None \<Rightarrow> (Inl (RuntimeErr ''Attestation store not available''), st)
      | Some ats \<Rightarrow>
          (case (case issuer of
                   Some i \<Rightarrow> if i \<noteq> [] then Some i else map_option ni_did (node env)
                 | None \<Rightarrow> map_option ni_did (node env)) of
             None \<Rightarrow> (Inl (Http 400 ''No local node identity to issue from; specify issuer_did''), st)
           | Some iss \<Rightarrow>
               (case signing_key_for env st iss of
                  None \<Rightarrow> (Inl (Http 403 ''No signing key held for issuer; cannot issue attestation''), st)
                | Some key \<Rightarrow>
                    (let a = \<lparr>attestation_id = fresh, att_type = type, att_issuer = iss, att_subject = subject,
                              att_content_hash = content, att_claim = claim, att_created_at = utcnow,
                              att_expires_at = expires, att_signature = []\<rparr>;
                         a' = a\<lparr>att_signature := sign_payload (ed env) (private_key key) (attestation_payload a)\<rparr>
                     in (Inr a', st\<lparr>attestations := Some (save_attestation a' ats)\<rparr>)))))"

definition certify ::
  "auth_env \<Rightarrow> uuid \<Rightarrow> datetime \<Rightarrow> did \<Rightarrow> string \<Rightarrow> string \<Rightarrow> did option \<Rightarrow> (string \<times> json) list \<Rightarrow> string option \<Rightarrow>
   auth_state \<Rightarrow> (auth_error + attestation) \<times> auth_state" where
  "certify env fresh utcnow subject bundle version issuer claim manifest_hash st =
     (let payload = AList.update ''version'' (JStr version) claim;
          payload' = (case manifest_hash of
                        None \<Rightarrow> payload
                      | Some h \<Rightarrow> if h = [] then payload else AList.update ''manifest_content_hash'' (JStr h) payload)
      in issue_attestation env fresh utcnow ''certified'' subject issuer (Some bundle) payload' None st)"

definition list_attestations :: "auth_state \<Rightarrow> did option \<Rightarrow> string option \<Rightarrow> attestation list" where
  "list_attestations st subject content =
     (case attestations st of
        None \<Rightarrow> []
      | Some ats \<Rightarrow>
          (case (if subject = Some [] then None else subject) of
             Some d \<Rightarrow>
               (let found = attestations_for_subject d ats
                in case (if content = Some [] then None else content) of
                     Some h \<Rightarrow> filter (\<lambda>a. att_content_hash a = Some h) found
                   | None \<Rightarrow> found)
           | None \<Rightarrow>
               (case (if content = Some [] then None else content) of
                  Some h \<Rightarrow> attestations_for_content h ats
                | None \<Rightarrow> all_attestations ats)))"

fun reputation_loop :: "auth_env \<Rightarrow> datetime \<Rightarrow> attestation list \<Rightarrow> attestation list option" where
  "reputation_loop env utcnow [] = Some []"
| "reputation_loop env utcnow (a # rest) =
     (if att_type a \<notin> set known_attestation_types then reputation_loop env utcnow rest
      else case verify_attestation (ed env) utcnow a of
        None \<Rightarrow> None
      | Some False \<Rightarrow> reputation_loop env utcnow rest
      | Some True \<Rightarrow> map_option ((#) a) (reputation_loop env utcnow rest))"

definition list_reputation :: "auth_env \<Rightarrow> datetime \<Rightarrow> auth_state \<Rightarrow> did \<Rightarrow> attestation list option" where
  "list_reputation env utcnow st subject = reputation_loop env utcnow (list_attestations st (Some subject) None)"

section \<open>Bindings and the directory\<close>

definition list_bindings :: "auth_state \<Rightarrow> did option \<Rightarrow> identity_binding list" where
  "list_bindings st subject =
     (case bindings st of
        None \<Rightarrow> []
      | Some bs \<Rightarrow>
          (case (if subject = Some [] then None else subject) of
             Some d \<Rightarrow> bindings_for_subject d bs
           | None \<Rightarrow> all_bindings bs))"

definition get_identity :: "auth_state \<Rightarrow> did \<Rightarrow> identity option" where
  "get_identity st d = (case identity_files st of None \<Rightarrow> None | Some files \<Rightarrow> load_identity files d)"

definition publish_directory_entry ::
  "datetime \<Rightarrow> did \<Rightarrow> string \<Rightarrow> string option \<Rightarrow> string option \<Rightarrow>
   auth_state \<Rightarrow> (auth_error + directory_entry) \<times> auth_state" where
  "publish_directory_entry utcnow d display_name base_url domain st =
     (case directory st of
        None \<Rightarrow> (Inl (RuntimeErr ''Directory store not available''), st)
      | Some ds \<Rightarrow>
          (let ext = map external_id (filter verified (list_bindings st (Some d)));
               domain' = (case domain of
                            Some x \<Rightarrow> Some x
                          | None \<Rightarrow> map_option (removeprefix ''domain:'') (find (starts_with ''domain:'') ext));
               e = \<lparr>de_did = d,
                    de_display_name = (if display_name \<noteq> [] then display_name
                      else case get_identity st d of Some i \<Rightarrow> id_display_name i | None \<Rightarrow> []),
                    de_base_url = base_url, de_domain = domain', verified_bindings = ext, de_updated_at = utcnow\<rparr>
           in (Inr e, st\<lparr>directory := Some (save_directory e ds)\<rparr>)))"

definition refresh_directory :: "datetime \<Rightarrow> did \<Rightarrow> auth_state \<Rightarrow> auth_state" where
  "refresh_directory utcnow d st =
     (case directory st of
        None \<Rightarrow> st
      | Some ds \<Rightarrow>
          (case load_directory ds d of
             None \<Rightarrow> snd (publish_directory_entry utcnow d [] None None st)
           | Some e \<Rightarrow> snd (publish_directory_entry utcnow d (de_display_name e) (de_base_url e) (de_domain e) st)))"

definition list_directory :: "auth_env \<Rightarrow> auth_state \<Rightarrow> directory_entry list" where
  "list_directory env st =
     (case directory st of
        None \<Rightarrow> []
      | Some ds \<Rightarrow>
          (if \<not> ca_pinned env then all_directory ds
           else filter (\<lambda>e. (case de_domain e of None \<Rightarrow> False | Some x \<Rightarrow> x \<noteq> []) \<or>
                            list_ex (starts_with ''domain:'') (verified_bindings e)) (all_directory ds)))"

definition start_domain_binding ::
  "auth_env \<Rightarrow> uuid \<Rightarrow> string \<Rightarrow> datetime \<Rightarrow> did \<Rightarrow> string \<Rightarrow> auth_state \<Rightarrow>
   (auth_error + (identity_binding \<times> string \<times> json)) \<times> auth_state" where
  "start_domain_binding env fresh ch utcnow subject domain st =
     (case bindings st of
        None \<Rightarrow> (Inl (RuntimeErr ''Binding store not available''), st)
      | Some bs \<Rightarrow>
          (case signing_key_for env st subject of
             None \<Rightarrow> (Inl (Http 403 ''No signing key held for subject; cannot start domain bind''), st)
           | Some key \<Rightarrow>
               (let ext = domain_external_id domain in
                case (case find_by_external_id ext bs of None \<Rightarrow> None | Some b \<Rightarrow> if verified b then Some b else None) of
                  Some b \<Rightarrow> (Inl (Http 409 (''Domain already bound to '' @ b_subject b)), st)
                | None \<Rightarrow>
                    (let host = removeprefix ''domain:'' ext;
                         b = \<lparr>binding_id = fresh, b_subject = subject, b_kind = ''domain'', external_id = ext,
                              evidence = [(''domain'', JStr host), (''well_known_url'', JStr (well_known_url host))],
                              challenge = Some ch, verified = False, verified_at = None, b_created_at = utcnow,
                              b_signature = []\<rparr>;
                         b' = b\<lparr>b_signature := sign_payload (ed env) (private_key key) (binding_payload b)\<rparr>
                     in (Inr (b', well_known_url host, well_known_document subject ch),
                         st\<lparr>bindings := Some (save_binding b' bs)\<rparr>)))))"

text \<open>The reason the document is refused for, \<open>None\<close> when it is accepted.\<close>

definition validate_well_known_document :: "json \<Rightarrow> did \<Rightarrow> string \<Rightarrow> string option" where
  "validate_well_known_document doc expected_did expected_challenge =
     (case doc of
        JObj d \<Rightarrow>
          if jget d ''did'' \<noteq> JStr expected_did then Some ''did mismatch''
          else if jget d ''challenge'' \<noteq> JStr expected_challenge then Some ''challenge mismatch''
          else None
      | _ \<Rightarrow> Some ''well-known document is not a JSON object'')"

text \<open>\<open>fetch\<close> maps a URL to the decoded document, or to why it could not be had.\<close>

definition fetch_and_validate_domain ::
  "(string \<Rightarrow> string + json) \<Rightarrow> string \<Rightarrow> did \<Rightarrow> string \<Rightarrow> string option" where
  "fetch_and_validate_domain fetch domain expected_did expected_challenge =
     (case fetch (well_known_url domain) of
        Inl reason \<Rightarrow> Some reason
      | Inr doc \<Rightarrow> validate_well_known_document doc expected_did expected_challenge)"

definition verify_domain_binding ::
  "auth_env \<Rightarrow> (string \<Rightarrow> string + json) \<Rightarrow> uuid \<Rightarrow> datetime \<Rightarrow> did \<Rightarrow> string \<Rightarrow> auth_state \<Rightarrow>
   (auth_error + identity_binding) \<times> auth_state" where
  "verify_domain_binding env fetch fresh utcnow subject domain st =
     (case bindings st of
        None \<Rightarrow> (Inl (RuntimeErr ''Binding store not available''), st)
      | Some bs \<Rightarrow>
          (let ext = domain_external_id domain in
           case find_by_external_id ext bs of
             None \<Rightarrow> (Inl (Http 404 ''No pending domain binding for this subject/domain''), st)
           | Some b \<Rightarrow>
               if b_subject b \<noteq> subject then (Inl (Http 404 ''No pending domain binding for this subject/domain''), st)
               else if verified b then (Inr b, st)
               else case challenge b of
                 None \<Rightarrow> (Inl (Http 400 ''Binding has no challenge; restart domain bind''), st)
               | Some ch \<Rightarrow>
                   if ch = [] then (Inl (Http 400 ''Binding has no challenge; restart domain bind''), st)
                   else case fetch_and_validate_domain fetch domain subject ch of
                     Some reason \<Rightarrow> (Inl (Http 400 reason), st)
                   | None \<Rightarrow>
                       (case signing_key_for env st subject of
                          None \<Rightarrow> (Inl (Http 403 ''No signing key held for subject; cannot finalize domain bind''), st)
                        | Some key \<Rightarrow>
                            (let b1 = b\<lparr>verified := True, verified_at := Some utcnow, challenge := None\<rparr>;
                                 b2 = b1\<lparr>b_signature := sign_payload (ed env) (private_key key) (binding_payload b1)\<rparr>;
                                 st1 = st\<lparr>bindings := Some (save_binding b2 bs)\<rparr>
                             in case issue_attestation env fresh utcnow ''domain_bound'' subject (Some subject) None
                                  [(''external_id'', JStr ext), (''domain'', JStr (removeprefix ''domain:'' ext))] None st1 of
                                  (Inl e, st2) \<Rightarrow> (Inl e, st2)
                                | (Inr a, st2) \<Rightarrow> (Inr b2, refresh_directory utcnow subject st2)))))"

definition bind_oauth ::
  "auth_env \<Rightarrow> uuid \<Rightarrow> uuid \<Rightarrow> datetime \<Rightarrow> did \<Rightarrow> string \<Rightarrow> string \<Rightarrow> (string \<times> json) list \<Rightarrow> bool \<Rightarrow> auth_state \<Rightarrow>
   (auth_error + identity_binding) \<times> auth_state" where
  "bind_oauth env fresh fresh_att utcnow subject provider external_subject extra verif st =
     (case bindings st of
        None \<Rightarrow> (Inl (RuntimeErr ''Binding store not available''), st)
      | Some bs \<Rightarrow>
          (case signing_key_for env st subject of
             None \<Rightarrow> (Inl (Http 403 ''No signing key held for subject; cannot bind OAuth identity''), st)
           | Some key \<Rightarrow>
               (let ext = oauth_external_id provider external_subject;
                    existing = find_by_external_id ext bs in
                case (case existing of None \<Rightarrow> None | Some b \<Rightarrow> if verified b \<and> b_subject b \<noteq> subject then Some b else None) of
                  Some b \<Rightarrow> (Inl (Http 409 (''OAuth identity already bound to '' @ b_subject b)), st)
                | None \<Rightarrow>
                    (let b = \<lparr>binding_id = (case existing of None \<Rightarrow> fresh | Some x \<Rightarrow> binding_id x), b_subject = subject,
                              b_kind = ''oauth'', external_id = ext,
                              evidence = fold (\<lambda>(k, v) d. AList.update k v d) extra
                                [(''provider'', JStr (lower (strip provider))),
                                 (''external_subject'', JStr (strip external_subject))],
                              challenge = None, verified = verif, verified_at = (if verif then Some utcnow else None),
                              b_created_at = utcnow, b_signature = []\<rparr>;
                         b' = b\<lparr>b_signature := sign_payload (ed env) (private_key key) (binding_payload b)\<rparr>;
                         st1 = st\<lparr>bindings := Some (save_binding b' bs)\<rparr>
                     in if \<not> verif then (Inr b', st1)
                        else case issue_attestation env fresh_att utcnow ''oauth_bound'' subject (Some subject) None
                               [(''external_id'', JStr ext), (''provider'', JStr (lower (strip provider)))] None st1 of
                               (Inl e, st2) \<Rightarrow> (Inl e, st2)
                             | (Inr a, st2) \<Rightarrow> (Inr b', refresh_directory utcnow subject st2)))))"

end
