(* ===== verification/Identity_Stores.thy ===== *)
theory Identity_Stores imports Identity_Models begin

text \<open>
  The stores of \<open>Identity_Models\<close> keep their contracts: the indexed stores are instances of
  \<open>indexed_store\<close>, and the index of the grant store always answers as its objects do.
\<close>

section \<open>The indexed stores\<close>

abbreviation path_free :: "did \<Rightarrow> bool" where
  "path_free d \<equiv> CHR ''/'' \<notin> set d"

lemma safe_did_path_free: "path_free d \<Longrightarrow> safe_did d = d"
  by (auto simp: safe_did_def intro: map_idI)

interpretation att: indexed_store attestation_key attestation_id "\<lambda>_. True"
  by unfold_locales (simp add: attestation_key_def)

interpretation spc: indexed_store space_claim_key space_did "\<lambda>c. path_free (space_did c)"
  by unfold_locales (simp add: space_claim_key_def safe_did_path_free)

interpretation bnd: indexed_store binding_key binding_id "\<lambda>_. True"
  by unfold_locales (simp add: binding_key_def)

interpretation dir: indexed_store directory_key de_did "\<lambda>e. path_free (de_did e)"
  by unfold_locales (simp add: directory_key_def safe_did_path_free)

text \<open>A value under new keys goes to the end of the listing, with or without a loaded index.\<close>

lemma map_filter_append: "List.map_filter f (xs @ ys) = List.map_filter f xs @ List.map_filter f ys"
  by (simp add: List.map_filter_def)

lemma kv_current_save_new:
  assumes "okey v \<notin> set (keys (kv_objects s))" and "ikey v \<notin> set (keys (kv_current ikey s))"
  shows "kv_current ikey (kv_save okey ikey v s) = kv_current ikey s @ [(ikey v, v)]"
  using assms
  by (cases "kv_index s")
    (auto simp: kv_current_def kv_ensure_def kv_save_def kv_build_def update_new
      map_filter_append List.map_filter_simps)

lemma find_by_external_id_save_new:
  assumes "binding_key b \<notin> set (keys (kv_objects s))" and "binding_id b \<notin> set (keys (kv_current binding_id s))"
  shows "find_by_external_id x (save_binding b s) =
     (case find_by_external_id x s of Some c \<Rightarrow> Some c | None \<Rightarrow> if external_id b = x then Some b else None)"
  using kv_current_save_new [where okey = binding_key and ikey = binding_id, OF assms]
  by (simp add: find_by_external_id_def all_bindings_def save_binding_def kv_list_def find_append split: option.splits)

section \<open>The grant store\<close>

abbreviation grant_objects :: "grant_store \<Rightarrow> capability_grant list" where
  "grant_objects s \<equiv> List.map_filter snd (g_objects s)"

definition grants_wf :: "grant_store \<Rightarrow> bool" where
  "grants_wf s \<longleftrightarrow>
     distinct (keys (g_objects s)) \<and>
     (\<forall>q g. (q, Some g) \<in> set (g_objects s) \<longrightarrow> q = grant_key (grant_id g)) \<and>
     (\<forall>i. g_index s = Some i \<longrightarrow>
        (\<forall>d. grants_of i d = filter (\<lambda>g. subject_did g = d) (grant_objects s)))"

lemma index_add_lookup: "grants_of (index_add g i) d = grants_of i d @ (if subject_did g = d then [g] else [])"
  by (auto simp: index_add_def grants_of_def)

lemma grant_build_lookup: "grants_of (grant_build objs) d = filter (\<lambda>g. subject_did g = d) (List.map_filter snd objs)"
proof -
  have "grants_of (fold index_add gs i) d = grants_of i d @ filter (\<lambda>g. subject_did g = d) gs" for gs i
    by (induction gs arbitrary: i) (auto simp: index_add_lookup)
  from this [of _ "[]"] show ?thesis by (simp add: grant_build_def grants_of_def)
qed

lemma list_for_subject_objects:
  "grants_wf s \<Longrightarrow> list_for_subject d s = filter (\<lambda>g. subject_did g = d) (grant_objects s)"
  by (cases "g_index s")
    (simp_all add: list_for_subject_def grant_current_def grant_ensure_def grants_wf_def grant_build_lookup)

lemma map_filter_delete:
  "distinct (keys objs) \<Longrightarrow> \<forall>q g. (q, Some g) \<in> set objs \<longrightarrow> q = grant_key (grant_id g) \<Longrightarrow>
   List.map_filter snd (AList.delete (grant_key u) objs) = filter (\<lambda>g. grant_id g \<noteq> u) (List.map_filter snd objs)"
proof (induction objs)
  case (Cons obj objs)
  then have ih: "List.map_filter snd (AList.delete (grant_key u) objs) = filter (\<lambda>g. grant_id g \<noteq> u) (List.map_filter snd objs)"
    by simp
  obtain q og where obj: "obj = (q, og)" by force
  show ?case
  proof (cases og)
    case (Some g)
    then have "q = grant_key (grant_id g)" using Cons.prems(2) obj by simp
    then show ?thesis using ih obj Some by (simp add: List.map_filter_simps grant_key_def)
  qed (use ih obj in \<open>auto simp: List.map_filter_simps\<close>)
qed (simp add: List.map_filter_simps)

lemma map_of_filtered:
  "grants_of (map (\<lambda>(d, gs). (d, filter P gs)) i) d = filter P (grants_of i d)"
  by (induction i) (auto simp: grants_of_def)

lemma grants_wf_save:
  assumes "grants_wf s" and "grant_key (grant_id g) \<notin> set (keys (g_objects s))"
  shows "grants_wf (save_grant g s)"
proof -
  have "AList.update (grant_key (grant_id g)) (Some g) (g_objects s) = g_objects s @ [(grant_key (grant_id g), Some g)]"
    using assms(2) by (rule update_new)
  then show ?thesis using assms
    by (auto simp: grants_wf_def save_grant_def map_filter_append List.map_filter_simps index_add_lookup)
qed

lemma set_delete_subset: "set (AList.delete k d) \<subseteq> set d"
  by (auto simp: AList.delete_eq)

lemma grants_wf_delete: "grants_wf s \<Longrightarrow> grants_wf (delete_grant u s)"
proof -
  assume wf: "grants_wf s"
  then have d: "distinct (keys (g_objects s))" and o: "\<forall>q g. (q, Some g) \<in> set (g_objects s) \<longrightarrow> q = grant_key (grant_id g)"
    by (auto simp: grants_wf_def)
  have "\<forall>q g. (q, Some g) \<in> set (AList.delete (grant_key u) (g_objects s)) \<longrightarrow> q = grant_key (grant_id g)"
    using o set_delete_subset [of "grant_key u" "g_objects s"] by blast
  then show ?thesis using wf map_filter_delete [OF d o, of u]
    by (auto simp: grants_wf_def delete_grant_def map_of_filtered filter_filter conj_commute)
qed


definition demo_moment :: "nat \<Rightarrow> datetime" where
  "demo_moment d = \<lparr>dt_year = 2025, dt_month = 1, dt_day = d, dt_hour = 0, dt_minute = 0, dt_second = 0,
     dt_micro = 0, dt_offset = None\<rparr>"

definition demo_grant :: capability_grant where
  "demo_grant = \<lparr>grant_id = ''g1'', issuer_did = ''did:a'', subject_did = ''did:b'', permissions = [''write''],
     coarse_floor = [''read''], scope = \<lparr>scope_kind = ''node'', scope_target = ''did:a'', scope_v = 1\<rparr>,
     issued_at = demo_moment 1, not_before = None, expires_at = demo_moment 2, signature = []\<rparr>"

definition empty_grants :: grant_store where
  "empty_grants = \<lparr>g_objects = [], g_index = None\<rparr>"

lemma empty_grants_wf: "grants_wf empty_grants"
  by (simp add: grants_wf_def empty_grants_def)


end
