(* ===== verification/Auth_Facts.thy ===== *)
theory Auth_Facts imports Auth_Grants Identity_Stores begin

text \<open>
  What the authentication service guarantees: permission checks, the fail-closed resolution of
  grants, the life of an issued grant, revoked and expiring API keys, first-claimer-wins spaces,
  reputation, domain bindings and the directory.
\<close>

section \<open>Scopes\<close>

lemma int_text_no_v: "CHR ''v'' \<notin> set (int_text i)"
proof -
  have d: "CHR ''v'' \<noteq> char_of (48 + k)" if "k < 10" for k :: nat
  proof
    assume "CHR ''v'' = char_of (48 + k)"
    then have "(of_char (CHR ''v'') :: nat) = of_char (char_of (48 + k) :: char)" by simp
    with that show False by simp
  qed
  have "CHR ''v'' \<notin> set (nat_text n)" for n
    using d digits_less [of _ 10 n] by (auto simp: nat_text_def)
  then show ?thesis by (auto simp: int_text_def)
qed

lemma nat_text_inj: "nat_text m = nat_text n \<Longrightarrow> m = n"
proof -
  have read: "of_digits 10 (map (\<lambda>c. of_char c - 48) (nat_text n)) = n" for n
  proof -
    have "map (\<lambda>c. of_char c - 48) (map (\<lambda>d. char_of (48 + d)) (digits 10 n)) = digits 10 n"
    proof -
      have "(of_char (char_of (48 + d) :: char) :: nat) - 48 = d" if "d \<in> set (digits 10 n)" for d
        using digits_less [OF that] by simp
      then show ?thesis by (simp add: map_idI)
    qed
    moreover have "of_digits 10 [0] = 0" by (simp add: of_digits_def)
    ultimately show ?thesis by (simp add: nat_text_def of_digits_digits)
  qed
  show "nat_text m = nat_text n \<Longrightarrow> m = n" using read by metis
qed

lemma nat_text_head: "hd (nat_text n) \<noteq> CHR ''-''" "nat_text n \<noteq> []"
proof -
  have d: "CHR ''-'' \<noteq> char_of (48 + k)" if "k < 10" for k :: nat
  proof
    assume "CHR ''-'' = char_of (48 + k)"
    then have "(of_char (CHR ''-'') :: nat) = of_char (char_of (48 + k) :: char)" by simp
    with that show False by simp
  qed
  show ne: "nat_text n \<noteq> []" by (simp add: nat_text_def digits_eq_Nil)
  then have "hd (nat_text n) \<in> set (nat_text n)" by simp
  moreover have "CHR ''-'' \<notin> set (nat_text n)"
    using d digits_less [of _ 10 n] by (auto simp: nat_text_def)
  ultimately show "hd (nat_text n) \<noteq> CHR ''-''" by metis
qed

lemma int_text_inj: "int_text i = int_text j \<Longrightarrow> i = j"
  using nat_text_head nat_text_inj [of "nat (- i)" "nat (- j)"] nat_text_inj [of "nat i" "nat j"]
  by (auto simp: int_text_def split: if_splits) (metis list.sel(1) nat_text_head(1))+

text \<open>The matching key of a scope determines the scope, when the kinds contain no colon.\<close>

lemma scope_key_inj:
  assumes "scope_key s = scope_key t" and "CHR '':'' \<notin> set (scope_kind s)" and "CHR '':'' \<notin> set (scope_kind t)"
  shows "s = t"
proof -
  have k: "split_once '':'' (scope_key u) = Some (scope_kind u, scope_target u @ '':v'' @ int_text (scope_v u))"
    if "CHR '':'' \<notin> set (scope_kind u)" for u :: scope
    using split_once_char [OF that] by (simp add: scope_key_def)
  from k [OF assms(2)] k [OF assms(3)] assms(1) have kind: "scope_kind s = scope_kind t"
    and rest: "scope_target s @ '':v'' @ int_text (scope_v s) = scope_target t @ '':v'' @ int_text (scope_v t)"
    by auto
  have r: "split_once ''v'' (rev (scope_target u @ '':v'' @ int_text (scope_v u))) =
      Some (rev (int_text (scope_v u)), CHR '':'' # rev (scope_target u))" for u :: scope
    using split_once_char [of "CHR ''v''" "rev (int_text (scope_v u))" "CHR '':'' # rev (scope_target u)"] int_text_no_v
    by simp
  from r [of s] r [of t] rest have "(rev (int_text (scope_v s)), CHR '':'' # rev (scope_target s)) =
      (rev (int_text (scope_v t)), CHR '':'' # rev (scope_target t))"
    by (metis option.inject)
  then have "int_text (scope_v s) = int_text (scope_v t)" "scope_target s = scope_target t" by auto
  with kind show ?thesis by (cases s; cases t) (auto dest: int_text_inj)
qed

section \<open>Resolving capabilities\<close>

lemma verify_grant_True:
  "verify_grant env utcnow g = Some True \<longleftrightarrow>
     verify_payload (ed env) (issuer_did g) (grant_payload g) (signature g) \<and>
     (\<forall>nb. not_before g = Some nb \<longrightarrow> dt_less utcnow nb = Some False) \<and>
     dt_less utcnow (expires_at g) = Some True \<and> scope_kind (scope g) \<in> set known_scope_kinds"
  by (auto simp: verify_grant_def split: option.splits bool.splits)

lemma resolve_loop_mem:
  "resolve_loop env utcnow st k gs = Some caps \<Longrightarrow>
   p \<in> set caps \<longleftrightarrow> (\<exists>g\<in>set gs. scope_key (scope g) = k \<and> verify_grant env utcnow g = Some True \<and>
      is_issuer_trusted env st g \<and> p \<in> set (grant_effective_permissions g))"
  by (induction gs arbitrary: caps) (auto split: if_splits option.splits bool.splits)

lemma known_kind_no_colon: "k \<in> set known_scope_kinds \<Longrightarrow> CHR '':'' \<notin> set k"
  by (auto simp: known_scope_kinds_def)

text \<open>
  C8: capabilities are resolved fail closed. A permission is granted to a subject on a scope exactly
  when some stored grant for that very scope carries it (as a verb this node knows, or in its coarse
  floor), is signed by its issuer, is inside its time window, has a scope kind this node knows, and
  its issuer is trusted. Nothing else contributes a permission.
\<close>

theorem resolve_capabilities_fail_closed:
  assumes "resolve_capabilities env utcnow st d sc = Some caps" and "CHR '':'' \<notin> set (scope_kind sc)"
  shows "p \<in> set caps \<longleftrightarrow>
     (\<exists>g\<in>set (list_grants st d). scope g = sc \<and> scope_kind sc \<in> set known_scope_kinds \<and>
        verify_payload (ed env) (issuer_did g) (grant_payload g) (signature g) \<and>
        (\<forall>nb. not_before g = Some nb \<longrightarrow> dt_less utcnow nb = Some False) \<and>
        dt_less utcnow (expires_at g) = Some True \<and> is_issuer_trusted env st g \<and>
        (p \<in> set (permissions g) \<and> is_known_verb p \<or> p \<in> set (coarse_floor g)))"
proof -
  have "scope_key (scope g) = scope_key sc \<and> scope_kind (scope g) \<in> set known_scope_kinds \<longleftrightarrow>
      scope g = sc \<and> scope_kind sc \<in> set known_scope_kinds" for g :: capability_grant
    using scope_key_inj [of "scope g" sc] assms(2) known_kind_no_colon by auto
  then show ?thesis
    using resolve_loop_mem [OF assms(1) [unfolded resolve_capabilities_def], of p]
    by (auto simp: verify_grant_True grant_effective_permissions_def)
qed

text \<open>
  A permission check without required permissions always passes. Otherwise it passes exactly
  when the user's own permissions together with the capabilities resolved for their DID on the scope
  hold "admin" or each required one, where "write" stands for "read" and nothing else is implied.
\<close>

theorem check_permission_result:
  assumes "check_permission env utcnow st user required sc = Some b"
  shows "b \<longleftrightarrow> required = [] \<or>
     (\<exists>caps. (case (sc, user_did user) of
               (Some s, Some d) \<Rightarrow> (if d = [] then caps = [] else resolve_capabilities env utcnow st d s = Some caps)
             | _ \<Rightarrow> caps = []) \<and>
        (let perms = set (user_permissions user) \<union> set caps
         in ''admin'' \<in> perms \<or> (\<forall>r\<in>set required. r \<in> perms \<or> (r = ''read'' \<and> ''write'' \<in> perms))))"
proof -
  have p: "permits required ps \<longleftrightarrow>
      ''admin'' \<in> set ps \<or> (\<forall>r\<in>set required. r \<in> set ps \<or> (r = ''read'' \<and> ''write'' \<in> set ps))" for ps
    by (auto simp: permits_def list_all_iff)
  show ?thesis
  proof (cases "required = []")
    case False
    show ?thesis
    proof (cases "\<exists>s d. sc = Some s \<and> user_did user = Some d \<and> d \<noteq> []")
      case True
      then obtain s d where sd: "sc = Some s" "user_did user = Some d" "d \<noteq> []" by blast
      with assms False obtain caps where "resolve_capabilities env utcnow st d s = Some caps"
        "b = permits required (user_permissions user @ caps)"
        by (auto simp: check_permission_def)
      then show ?thesis using False sd p [of "user_permissions user @ caps"] by (simp add: Let_def)
    next
      case no: False
      then have "b = permits required (user_permissions user)"
        using assms False by (auto simp: check_permission_def split: option.splits if_splits)
      moreover have "(case (sc, user_did user) of
               (Some s, Some d) \<Rightarrow> (if d = [] then caps = [] else resolve_capabilities env utcnow st d s = Some caps)
             | _ \<Rightarrow> caps = []) = (caps = [])" for caps
        using no by (auto split: option.splits)
      ultimately show ?thesis using False p [of "user_permissions user"] by (simp add: Let_def)
    qed
  qed (use assms in \<open>auto simp: check_permission_def\<close>)
qed

section \<open>The life of an issued grant\<close>

lemma issue_grant_Inr:
  assumes "issue_grant env fresh utcnow issuer subject perms sc ttl fl st = (Inr g, st')"
  shows "\<exists>gs key. grants st = Some gs \<and> signing_key_for env st issuer = Some key \<and>
     add_days (case ttl of Some t \<Rightarrow> t | None \<Rightarrow> policy_ttl_days env) utcnow = Some (expires_at g) \<and>
     grant_id g = fresh \<and> issuer_did g = issuer \<and> subject_did g = subject \<and> permissions g = perms \<and> scope g = sc \<and>
     not_before g = None \<and> floor_is_base_subset (coarse_floor g) \<and> coarse_floor g \<noteq> [] \<and>
     signature g = sign_payload (ed env) (private_key key) (grant_payload g) \<and>
     st' = st\<lparr>grants := Some (save_grant g gs)\<rparr>"
  using assms
  by (auto simp: issue_grant_def Let_def grant_payload_def split: option.splits if_splits)

lemma load_save_grant:
  assumes "grants_wf gs" and "grant_key (grant_id g) \<notin> set (keys (g_objects gs))"
  shows "g \<in> set (list_for_subject (subject_did g) (save_grant g gs))"
proof -
  have "grant_objects (save_grant g gs) = grant_objects gs @ [g]"
    using update_new [OF assms(2)] by (simp add: save_grant_def map_filter_append List.map_filter_simps)
  then show ?thesis using list_for_subject_objects [OF grants_wf_save [OF assms]] by simp
qed

text \<open>
  A grant this node issues is honoured for its life time and no longer. For a grant issued with a
  key whose DID is the issuer's, by the node itself, by the subject itself or by a followed peer,
  on a scope of a known kind: its known verbs and its floor are among the resolved capabilities of
  its subject until the number of days asked for have passed, and from then on the grant no longer
  verifies.
\<close>

theorem issued_grant_life:
  assumes "issue_grant env fresh utcnow issuer subject perms sc (Some days) fl st = (Inr g, st')"
    and "ed_sound (ed env)" and "\<forall>key. signing_key_for env st issuer = Some key \<longrightarrow> issuer = key_did (ed env) (private_key key)"
    and "\<forall>gs. grants st = Some gs \<longrightarrow> grants_wf gs \<and> grant_key fresh \<notin> set (keys (g_objects gs))"
    and "scope_kind sc \<in> set known_scope_kinds"
    and "map_option ni_did (node env) = Some issuer \<or> issuer = subject \<or> followed env issuer"
    and "valid_datetime utcnow" and "dt_offset utcnow = None" and "dt_offset t = None" and "0 \<le> days"
  shows "(instant t < instant utcnow + days * 86400000000 \<longrightarrow>
            (\<forall>caps. resolve_capabilities env t st' subject sc = Some caps \<longrightarrow>
               set (filter is_known_verb perms) \<union> set (coarse_floor g) \<subseteq> set caps)) \<and>
         (instant utcnow + days * 86400000000 \<le> instant t \<longrightarrow> verify_grant env t g = Some False)"
proof -
  from issue_grant_Inr [OF assms(1)] obtain gs key where
    gs: "grants st = Some gs" and key: "signing_key_for env st issuer = Some key"
    and exp: "add_days days utcnow = Some (expires_at g)"
    and g: "grant_id g = fresh" "issuer_did g = issuer" "subject_did g = subject" "permissions g = perms" "scope g = sc"
      "not_before g = None" "signature g = sign_payload (ed env) (private_key key) (grant_payload g)"
    and st': "st' = st\<lparr>grants := Some (save_grant g gs)\<rparr>"
    by auto
  have sig: "verify_payload (ed env) (issuer_did g) (grant_payload g) (signature g)"
    using verify_own_signature [OF assms(2)] assms(3) key g by simp
  have less: "dt_less t (expires_at g) = Some (instant t < instant utcnow + days * 86400000000)"
    using add_days_instant [OF assms(7,10) exp] assms(8,9) by (simp add: dt_less_def)
  have mem: "g \<in> set (list_grants st' subject)"
    using load_save_grant [of gs g] assms(4) gs g st' by (simp add: list_grants_def)
  have trust: "is_issuer_trusted env st' g"
    using assms(6) g by (auto simp: is_issuer_trusted_def split: option.splits)
  show ?thesis
  proof (intro conjI impI allI)
    fix caps assume t: "instant t < instant utcnow + days * 86400000000"
      and caps: "resolve_capabilities env t st' subject sc = Some caps"
    have v: "verify_grant env t g = Some True"
      unfolding verify_grant_True using sig less t g assms(5) by simp
    show "set (filter is_known_verb perms) \<union> set (coarse_floor g) \<subseteq> set caps"
      using resolve_loop_mem [OF caps [unfolded resolve_capabilities_def]] mem v trust g
      by (fastforce simp: grant_effective_permissions_def)
  next
    assume "instant utcnow + days * 86400000000 \<le> instant t"
    then show "verify_grant env t g = Some False"
      using sig less g by (simp add: verify_grant_def)
  qed
qed

section \<open>A node to try things on\<close>

definition demo_node :: node_identity where
  "demo_node = generate_identity toy_ed (replicate 32 7) ''node''"

definition demo_env :: auth_env where
  "demo_env = \<lparr>ed = toy_ed, checkpw = (\<lambda>token hash. token = hash), mode = ModeHybrid, env_keys = [], node = Some demo_node,
     followed = (\<lambda>_. False), policy_ttl_days = 90, custodial_allowed = True, ca_pinned = False\<rparr>"

definition demo_auth :: auth_state where
  "demo_auth = \<lparr>api_keys = Some [], key_cache = [], identity_files = Some [], grants = Some empty_grants,
     space_claims = Some kv_empty, attestations = Some kv_empty, bindings = Some kv_empty, directory = Some kv_empty\<rparr>"

definition demo_scope :: scope where
  "demo_scope = \<lparr>scope_kind = ''node'', scope_target = ni_did demo_node, scope_v = 1\<rparr>"

lemma demo_env_fields [simp]:
  "ed demo_env = toy_ed" "node demo_env = Some demo_node" "mode demo_env = ModeHybrid" "env_keys demo_env = []"
  "checkpw demo_env token hash = (token = hash)" "followed demo_env d = False"
  by (simp_all add: demo_env_def)

lemma demo_auth_fields [simp]:
  "grants demo_auth = Some empty_grants" "api_keys demo_auth = Some []" "attestations demo_auth = Some kv_empty"
  "bindings demo_auth = Some kv_empty" "directory demo_auth = Some kv_empty" "space_claims demo_auth = Some kv_empty"
  by (simp_all add: demo_auth_def)

lemma demo_node_key: "signing_key_for demo_env st (ni_did demo_node) = Some demo_node"
  by (simp add: signing_key_for_def)

lemma demo_node_did: "ni_did demo_node = key_did toy_ed (private_key demo_node)"
  by (simp add: demo_node_def generate_identity_def)

lemma demo_moment_valid: "1 \<le> d \<Longrightarrow> d \<le> 31 \<Longrightarrow> valid_datetime (demo_moment d)" "dt_offset (demo_moment d) = None"
  by (simp_all add: demo_moment_def valid_datetime_def month_lengths_def)

lemma demo_moment_instant: "instant (demo_moment d) = instant (demo_moment 0) + int d * 86400000000"
  by (simp add: demo_moment_def instant_def days_of_date_def algebra_simps)

lemma demo_issue:
  "\<exists>g st'. issue_grant demo_env ''g1'' (demo_moment 1) (ni_did demo_node) ''did:b'' [''write''] demo_scope (Some 3) None demo_auth = (Inr g, st')"
proof -
  have "add_days 3 (demo_moment 1) \<noteq> None"
    by (simp add: add_days_def next_day_def demo_moment_def month_lengths_def numeral_3_eq_3 Let_def)
  moreover have "floor_is_base_subset [''read'']" by code_simp
  ultimately show ?thesis
    by (auto simp: issue_grant_def demo_node_key Let_def split: option.splits)
qed

lemma demo_issued:
  assumes "issue_grant demo_env ''g1'' (demo_moment 1) (ni_did demo_node) ''did:b'' [''write''] demo_scope (Some 3) None demo_auth = (Inr g, st')"
  shows "list_grants st' ''did:b'' = [g]" "scope g = demo_scope" "issuer_did g = ni_did demo_node" "permissions g = [''write'']"
    "not_before g = None" "signature g = sign_payload toy_ed (private_key demo_node) (grant_payload g)"
    "add_days 3 (demo_moment 1) = Some (expires_at g)" "coarse_floor g = [''read'']"
proof -
  from issue_grant_Inr [OF assms] have st': "st' = demo_auth\<lparr>grants := Some (save_grant g empty_grants)\<rparr>"
    and g: "grant_id g = ''g1''" "subject_did g = ''did:b''" and f: "scope g = demo_scope" "issuer_did g = ni_did demo_node"
    "permissions g = [''write'']" "not_before g = None"
    "signature g = sign_payload toy_ed (private_key demo_node) (grant_payload g)"
    "add_days 3 (demo_moment 1) = Some (expires_at g)"
    by (auto simp: demo_node_key)
  have "grants_wf (save_grant g empty_grants)"
    using grants_wf_save [OF empty_grants_wf] by (simp add: empty_grants_def)
  then have "list_for_subject ''did:b'' (save_grant g empty_grants) = [g]"
    using list_for_subject_objects g by (simp add: save_grant_def empty_grants_def List.map_filter_simps)
  then show "list_grants st' ''did:b'' = [g]" by (simp add: list_grants_def st')
  show "scope g = demo_scope" "issuer_did g = ni_did demo_node" "permissions g = [''write'']"
    "not_before g = None" "signature g = sign_payload toy_ed (private_key demo_node) (grant_payload g)"
    "add_days 3 (demo_moment 1) = Some (expires_at g)"
    using f by auto
  show "coarse_floor g = [''read'']"
    using assms by (auto simp: issue_grant_def Let_def demo_node_key split: option.splits if_splits)
qed

theorem issued_grant_life_witness:
  "\<exists>g st'. issue_grant demo_env ''g1'' (demo_moment 1) (ni_did demo_node) ''did:b'' [''write''] demo_scope (Some 3) None demo_auth = (Inr g, st') \<and>
     verify_grant demo_env (demo_moment 4) g = Some False"
proof -
  obtain g st' where i: "issue_grant demo_env ''g1'' (demo_moment 1) (ni_did demo_node) ''did:b'' [''write''] demo_scope (Some 3) None demo_auth = (Inr g, st')"
    using demo_issue by blast
  have "instant (demo_moment 1) + 3 * 86400000000 \<le> instant (demo_moment 4)"
    using demo_moment_instant [of 1] demo_moment_instant [of 4] by simp
  moreover have "\<forall>gs. grants demo_auth = Some gs \<longrightarrow> grants_wf gs \<and> grant_key ''g1'' \<notin> set (keys (g_objects gs))"
    using empty_grants_wf by (simp add: empty_grants_def)
  moreover have "\<forall>key. signing_key_for demo_env demo_auth (ni_did demo_node) = Some key \<longrightarrow> ni_did demo_node = key_did (ed demo_env) (private_key key)"
    using demo_node_key demo_node_did by simp
  moreover have "scope_kind demo_scope \<in> set known_scope_kinds" by (simp add: demo_scope_def known_scope_kinds_def)
  ultimately have "verify_grant demo_env (demo_moment 4) g = Some False"
    using issued_grant_life [OF i, where t = "demo_moment 4"] toy_ed_sound demo_moment_valid by simp
  with i show ?thesis by blast
qed

theorem resolve_capabilities_fail_closed_witness:
  "\<exists>g st' caps. issue_grant demo_env ''g1'' (demo_moment 1) (ni_did demo_node) ''did:b'' [''write''] demo_scope (Some 3) None demo_auth = (Inr g, st') \<and>
     resolve_capabilities demo_env (demo_moment 2) st' ''did:b'' demo_scope = Some caps \<and> ''write'' \<in> set caps \<and> ''admin'' \<notin> set caps"
proof -
  obtain g st' where i: "issue_grant demo_env ''g1'' (demo_moment 1) (ni_did demo_node) ''did:b'' [''write''] demo_scope (Some 3) None demo_auth = (Inr g, st')"
    using demo_issue by blast
  note g = demo_issued [OF i]
  have sig: "verify_payload toy_ed (issuer_did g) (grant_payload g) (signature g)"
    using verify_own_signature [OF toy_ed_sound] g(3,6) demo_node_did by simp
  have less: "dt_less (demo_moment 2) (expires_at g) = Some True"
    using add_days_instant [OF _ _ g(7)] demo_moment_valid [of 1] demo_moment_valid [of 2]
      demo_moment_instant [of 1] demo_moment_instant [of 2] by (simp add: dt_less_def)
  have trust: "is_issuer_trusted demo_env st' g" by (simp add: is_issuer_trusted_def g)
  have kind: "scope_kind demo_scope \<in> set known_scope_kinds" by (simp add: demo_scope_def known_scope_kinds_def)
  then have v: "verify_grant demo_env (demo_moment 2) g = Some True"
    unfolding verify_grant_True using sig less g(2,5) by simp
  obtain caps where caps: "resolve_capabilities demo_env (demo_moment 2) st' ''did:b'' demo_scope = Some caps"
    using v trust g(1,2) by (simp add: resolve_capabilities_def)
  have c: "CHR '':'' \<notin> set (scope_kind demo_scope)" by (simp add: demo_scope_def)
  have "is_known_verb ''write''" by code_simp
  then have "''write'' \<in> set caps"
    unfolding resolve_capabilities_fail_closed [OF caps c] g(1)
    using sig less trust g(2,4,5) kind by simp
  moreover have "''admin'' \<notin> set caps"
    unfolding resolve_capabilities_fail_closed [OF caps c] g(1) using g(4,8) by simp
  ultimately show ?thesis using i caps by blast
qed

definition demo_user :: auth_user where
  "demo_user = \<lparr>user_key_id = ''k'', user_name = ''n'', user_permissions = [''write''], user_account_id = ''a'', user_did = None\<rparr>"

theorem check_permission_result_witness:
  "check_permission demo_env (demo_moment 1) demo_auth demo_user [''read''] None = Some True \<and>
   check_permission demo_env (demo_moment 1) demo_auth demo_user [''admin''] None = Some False"
proof -
  obtain b c where b: "check_permission demo_env (demo_moment 1) demo_auth demo_user [''read''] None = Some b"
    and c: "check_permission demo_env (demo_moment 1) demo_auth demo_user [''admin''] None = Some c"
    by (simp add: check_permission_def)
  show ?thesis unfolding b c using check_permission_result [OF b] check_permission_result [OF c]
    by (simp add: demo_user_def)
qed

section \<open>API keys\<close>

definition keys_wf :: "auth_state \<Rightarrow> bool" where
  "keys_wf st \<longleftrightarrow>
     (case api_keys st of
        None \<Rightarrow> True
      | Some objs \<Rightarrow> distinct (keys objs) \<and> (\<forall>q k. (q, Some k) \<in> set objs \<longrightarrow> q = api_key_path (key_id k)))"

lemma list_keys_mem:
  assumes "keys_wf st"
  shows "k \<in> set (list_keys st) \<longleftrightarrow> load_key st (key_id k) = Some k"
proof (cases "api_keys st")
  case (Some objs)
  with assms have d: "distinct (keys objs)" and o: "\<forall>q k. (q, Some k) \<in> set objs \<longrightarrow> q = api_key_path (key_id k)"
    by (auto simp: keys_wf_def)
  have "k \<in> set (list_keys st) \<longleftrightarrow> (api_key_path (key_id k), Some k) \<in> set objs"
    using o Some by (force simp: list_keys_def List.map_filter_def)
  also have "\<dots> \<longleftrightarrow> map_of objs (api_key_path (key_id k)) = Some (Some k)" using d by simp
  finally show ?thesis using Some by (simp add: load_key_def split: option.splits)
qed (simp add: list_keys_def load_key_def)

lemma save_key_props:
  assumes "keys_wf st"
  shows "keys_wf (save_key k st)"
    and "load_key (save_key k st) u = (if u = key_id k \<and> api_keys st \<noteq> None then Some k else load_key st u)"
proof -
  show "keys_wf (save_key k st)"
  proof (cases "api_keys st")
    case (Some objs)
    have "\<forall>q j. (q, Some j) \<in> set (AList.update (api_key_path (key_id k)) (Some k) objs) \<longrightarrow> q = api_key_path (key_id j)"
      using assms Some set_update_subset [of "api_key_path (key_id k)" "Some k" objs] by (auto simp: keys_wf_def)
    then show ?thesis using assms Some by (simp add: keys_wf_def save_key_def)
  qed (simp add: keys_wf_def save_key_def)
  show "load_key (save_key k st) u = (if u = key_id k \<and> api_keys st \<noteq> None then Some k else load_key st u)"
    by (cases "api_keys st") (auto simp: load_key_def save_key_def api_key_path_def split: option.splits)
qed

lemma accept_key_Inr:
  "accept_key utcnow k st = (Inr user, st') \<Longrightarrow> \<not> revoked k \<and> user_key_id user = key_id k \<and>
     (\<forall>e. ak_expires_at k = Some e \<longrightarrow> dt_less e utcnow = Some False)"
  by (auto simp: accept_key_def Let_def split: if_splits option.splits bool.splits)

lemma validate_Inr:
  assumes "validate_api_key env utcnow token st = (Inr user, st')"
  shows "check_env_keys env token = Some user \<or>
     (\<exists>k\<in>set (list_keys st). checkpw env token (key_hash k) \<and> accept_key utcnow k st = (Inr user, st'))"
proof (cases "if mode env \<in> {ModeEnv, ModeHybrid} then check_env_keys env token else None")
  case (Some u)
  then show ?thesis using assms by (auto simp: validate_api_key_def split: if_splits)
next
  case None
  then show ?thesis using assms
    by (auto simp: validate_api_key_def split: option.splits if_splits dest: find_mem)
qed

text \<open>
  C9: a revoked key never authenticates again. Once revoking a key succeeded, no token, at any time,
  is accepted as that key: whatever \<open>validate_api_key\<close> accepts is another key's user or the
  environment key's.
\<close>

theorem revoked_key_never_authenticates:
  assumes "revoke_api_key u st = (Inr (), st')" and "keys_wf st" and "u \<noteq> ''00000000-0000-0000-0000-000000000000''"
    and "validate_api_key env utcnow token st' = (Inr user, st'')"
  shows "user_key_id user \<noteq> u"
proof
  assume eq: "user_key_id user = u"
  from assms(1) obtain k where k: "load_key st u = Some k" and some: "api_keys st \<noteq> None"
    and st': "st' = (save_key (k\<lparr>revoked := True\<rparr>) st)\<lparr>key_cache := AList.delete u (key_cache (save_key (k\<lparr>revoked := True\<rparr>) st))\<rparr>"
    by (auto simp: revoke_api_key_def Let_def split: if_splits option.splits)
  have kid: "key_id k = u"
    using k assms(2) by (auto simp: load_key_def keys_wf_def api_key_path_def split: option.splits dest!: map_of_SomeD)
  let ?s = "save_key (k\<lparr>revoked := True\<rparr>) st"
  have wf: "keys_wf ?s" and ld: "load_key ?s u = Some (k\<lparr>revoked := True\<rparr>)"
    using save_key_props [OF assms(2), of "k\<lparr>revoked := True\<rparr>"] kid some by auto
  have same: "list_keys st' = list_keys ?s" by (simp add: st' list_keys_def)
  from validate_Inr [OF assms(4)] show False
  proof
    assume "check_env_keys env token = Some user"
    then show False using eq assms(3) by (auto simp: check_env_keys_def split: if_splits)
  next
    assume "\<exists>k\<in>set (list_keys st'). checkpw env token (key_hash k) \<and> accept_key utcnow k st' = (Inr user, st'')"
    then obtain j where j: "j \<in> set (list_keys ?s)" "\<not> revoked j" "key_id j = u"
      using same eq accept_key_Inr by metis
    with list_keys_mem [OF wf, of j] ld show False by auto
  qed
qed

definition demo_key :: api_key where
  "demo_key = \<lparr>key_id = ''k1'', key_hash = ''secret'', ak_name = ''ci'', ak_description = None, ak_permissions = [''read''],
     ak_created_at = demo_moment 1, last_used_at = None, ak_expires_at = None, revoked = False, created_by = ''system''\<rparr>"

definition other_key :: api_key where
  "other_key = demo_key\<lparr>key_id := ''k2'', key_hash := ''other''\<rparr>"

definition keyed_auth :: auth_state where
  "keyed_auth = demo_auth\<lparr>api_keys := Some [(api_key_path ''k1'', Some demo_key), (api_key_path ''k2'', Some other_key)]\<rparr>"

lemma keyed_auth_wf: "keys_wf keyed_auth"
  by (auto simp: keys_wf_def keyed_auth_def demo_key_def other_key_def api_key_path_def)

theorem revoked_key_never_authenticates_witness:
  "\<exists>st' user st''. revoke_api_key ''k1'' keyed_auth = (Inr (), st') \<and>
     validate_api_key demo_env (demo_moment 2) ''other'' st' = (Inr user, st'') \<and> user_key_id user \<noteq> ''k1''"
proof -
  obtain st' where r: "revoke_api_key ''k1'' keyed_auth = (Inr (), st')"
    by (simp add: revoke_api_key_def keyed_auth_def load_key_def Let_def)
  then have "api_keys st' = Some [(api_key_path ''k1'', Some (demo_key\<lparr>revoked := True\<rparr>)), (api_key_path ''k2'', Some other_key)]"
    by (auto simp: revoke_api_key_def keyed_auth_def load_key_def Let_def save_key_def demo_key_def)
  then have l: "list_keys st' = [demo_key\<lparr>revoked := True\<rparr>, other_key]"
    by (simp add: list_keys_def List.map_filter_simps)
  then obtain user st'' where v: "validate_api_key demo_env (demo_moment 2) ''other'' st' = (Inr user, st'')"
    by (simp add: validate_api_key_def check_env_keys_def demo_key_def other_key_def accept_key_def Let_def)
  show ?thesis using revoked_key_never_authenticates [OF r keyed_auth_wf _ v] r v by blast
qed

text \<open>
  A key whose expiry carries a UTC offset can never be used. The naive clock cannot be compared
  with it, the error is swallowed, and the token is refused as invalid, however far in the future
  the expiry lies.
\<close>

theorem aware_expiry_key_unusable:
  assumes "find (\<lambda>k. checkpw env token (key_hash k)) (list_keys st) = Some k" and "\<not> revoked k"
    and "ak_expires_at k = Some e" and "dt_offset e \<noteq> None" and "dt_offset utcnow = None"
    and "check_env_keys env token = None"
  shows "validate_api_key env utcnow token st = (Inl invalid_token, st)"
proof -
  have "accept_key utcnow k st = (Inl invalid_token, st)"
    using assms(2-5) by (auto simp: accept_key_def dt_less_def)
  then show ?thesis using assms(1,6) by (simp add: validate_api_key_def)
qed

definition aware_key_auth :: auth_state where
  "aware_key_auth = snd (create_api_key ''k1'' ''secret'' (demo_moment 1) ''ci'' None [''read'']
     (Some ((demo_moment 31)\<lparr>dt_offset := Some 0\<rparr>)) None demo_auth)"

lemma aware_key_listed:
  "\<exists>k. list_keys aware_key_auth = [k] \<and> key_hash k = ''secret'' \<and> \<not> revoked k \<and>
     ak_expires_at k = Some ((demo_moment 31)\<lparr>dt_offset := Some 0\<rparr>)"
  by (simp add: aware_key_auth_def create_api_key_def save_key_def list_keys_def List.map_filter_simps Let_def)

theorem aware_expiry_key_unusable_witness:
  "validate_api_key demo_env (demo_moment 2) ''secret'' aware_key_auth = (Inl invalid_token, aware_key_auth)"
proof -
  obtain k where k: "list_keys aware_key_auth = [k]" "key_hash k = ''secret''" "\<not> revoked k"
    "ak_expires_at k = Some ((demo_moment 31)\<lparr>dt_offset := Some 0\<rparr>)"
    using aware_key_listed by blast
  show ?thesis
    by (rule aware_expiry_key_unusable [OF _ k(3,4)]) (simp_all add: k check_env_keys_def demo_moment_valid)
qed

end
