(* ===== verification/Identity_Facts.thy ===== *)
theory Identity_Facts imports Auth_Facts begin

text \<open>
  Space claims, reputation, domain bindings, key rotation and the directory: what the identity
  operations of the authentication service guarantee, and where they fall short of it.
\<close>

section \<open>The first claimer of a space keeps it\<close>

text \<open>Claim attempts, one after the other: time, space and admin of each.\<close>

definition claim_attempts :: "auth_env \<Rightarrow> (datetime \<times> did \<times> did) list \<Rightarrow> auth_state \<Rightarrow> auth_state" where
  "claim_attempts env ops st = fold (\<lambda>(t, s, a) st. snd (claim_space env t s a st)) ops st"

definition claims_wf :: "auth_state \<Rightarrow> bool" where
  "claims_wf st \<longleftrightarrow>
     (case space_claims st of
        None \<Rightarrow> True
      | Some scs \<Rightarrow> kv_wf space_claim_key space_did (\<lambda>c. path_free (space_did c)) scs)"

lemma claim_space_Inr:
  assumes "claim_space env t space admin st = (Inr c, st')"
  shows "\<exists>scs files key. space_claims st = Some scs \<and> identity_files st = Some files \<and>
     load_space_claim scs space = None \<and> load_signing_key files space = Some key \<and>
     space_did c = space \<and> admin_did c = admin \<and>
     sc_signature c = sign_payload (ed env) (private_key key) (space_claim_payload c) \<and>
     st' = st\<lparr>space_claims := Some (save_space_claim c scs)\<rparr>"
  using assms by (auto simp: claim_space_def Let_def space_claim_payload_def split: option.splits if_splits)

lemma claim_space_Inl: "claim_space env t space admin st = (Inl e, st') \<Longrightarrow> st' = st"
  by (auto simp: claim_space_def Let_def split: option.splits if_splits)

lemma claim_space_keeps:
  assumes "claims_wf st" and "path_free space" and "path_free s" and "get_space_claim st space = Some c"
  shows "claims_wf (snd (claim_space env t s a st)) \<and> get_space_claim (snd (claim_space env t s a st)) space = Some c"
proof (cases "claim_space env t s a st")
  case (Pair r st')
  show ?thesis
  proof (cases r)
    case (Inl e)
    with Pair have "claim_space env t s a st = (Inl e, st')" by simp
    from claim_space_Inl [OF this] assms Pair show ?thesis by simp
  next
    case (Inr d)
    with claim_space_Inr [of env t s a st d st'] Pair obtain scs where
      scs: "space_claims st = Some scs" "load_space_claim scs s = None" "space_did d = s"
      and st': "st' = st\<lparr>space_claims := Some (save_space_claim d scs)\<rparr>" by auto
    from scs(2) assms(4) scs(1) have "space \<noteq> s" by (auto simp: get_space_claim_def)
    with scs assms show ?thesis
      by (simp add: Pair st' claims_wf_def get_space_claim_def load_space_claim_def save_space_claim_def
          spc.wf_save spc.load_save)
  qed
qed

lemma claim_attempts_keep:
  "claims_wf st \<Longrightarrow> path_free space \<Longrightarrow> list_all (\<lambda>(t, s, a). path_free s) ops \<Longrightarrow> get_space_claim st space = Some c \<Longrightarrow>
   claims_wf (claim_attempts env ops st) \<and> get_space_claim (claim_attempts env ops st) space = Some c"
proof (induction ops arbitrary: st)
  case (Cons op ops)
  obtain t s a where op: "op = (t, s, a)" by (cases op)
  from claim_space_keeps [OF Cons.prems(1,2) _ Cons.prems(4), of s env t a] Cons.prems(3) op
  have "claims_wf (snd (claim_space env t s a st))" "get_space_claim (snd (claim_space env t s a st)) space = Some c"
    by auto
  from Cons.IH [OF this(1) Cons.prems(2) _ this(2)] Cons.prems(3) op show ?case by (simp add: claim_attempts_def)
qed (simp add: claim_attempts_def)

lemma claim_space_taken:
  "get_space_claim st space = Some c \<Longrightarrow> fst (claim_space env t space a st) \<noteq> Inr d"
  by (auto simp: claim_space_def get_space_claim_def Let_def split: option.splits if_splits)

text \<open>
  C10: trust on first use. After a space was claimed, whatever claims of whatever spaces are attempted
  later, and also after a restart that loses the in-memory index, the space's claim is still the
  first one, it verifies against the space's own key, and every further claim of that space is
  refused.
\<close>

theorem space_claim_first_wins:
  assumes "claim_space env t space admin st = (Inr c, st')" and "claims_wf st" and "path_free space"
    and "list_all (\<lambda>(t, s, a). path_free s) ops"
    and "ed_sound (ed env)"
    and "\<forall>files key. identity_files st = Some files \<and> load_signing_key files space = Some key \<longrightarrow>
           space = key_did (ed env) (private_key key)"
    and "st'' = claim_attempts env ops st'"
  shows "get_space_claim st'' space = Some c \<and>
     get_space_claim (st''\<lparr>space_claims := map_option kv_restart (space_claims st'')\<rparr>) space = Some c \<and>
     admin_did c = admin \<and> verify_payload (ed env) (space_did c) (space_claim_payload c) (sc_signature c) \<and>
     (\<forall>t' admin' d. fst (claim_space env t' space admin' st'') \<noteq> Inr d)"
proof -
  from claim_space_Inr [OF assms(1)] obtain scs files key where scs: "space_claims st = Some scs"
    and key: "identity_files st = Some files" "load_signing_key files space = Some key"
    and c: "space_did c = space" "admin_did c = admin"
      "sc_signature c = sign_payload (ed env) (private_key key) (space_claim_payload c)"
    and st': "st' = st\<lparr>space_claims := Some (save_space_claim c scs)\<rparr>"
    by blast
  have w: "kv_wf space_claim_key space_did (\<lambda>c. path_free (space_did c)) scs" using assms(2) scs by (simp add: claims_wf_def)
  have "claims_wf st'" "get_space_claim st' space = Some c"
    using w assms(3) c(1)
    by (simp_all add: st' claims_wf_def get_space_claim_def load_space_claim_def save_space_claim_def spc.wf_save spc.load_save)
  from claim_attempts_keep [OF this(1) assms(3,4) this(2), of env] have
    wf: "claims_wf st''" and get: "get_space_claim st'' space = Some c" unfolding assms(7) by auto
  then have "get_space_claim (st''\<lparr>space_claims := map_option kv_restart (space_claims st'')\<rparr>) space = Some c"
    by (auto simp: get_space_claim_def claims_wf_def load_space_claim_def spc.kv_load_restart split: option.splits)
  moreover have "verify_payload (ed env) (space_did c) (space_claim_payload c) (sc_signature c)"
    using verify_own_signature [OF assms(5)] assms(6) key c by simp
  ultimately show ?thesis using get claim_space_taken [OF get] c(2) by blast
qed

definition space_key :: node_identity where
  "space_key = generate_identity toy_ed (replicate 32 1) ''space''"

definition admin_key :: node_identity where
  "admin_key = generate_identity toy_ed (replicate 32 2) ''admin''"

definition demo_identity :: "node_identity \<Rightarrow> identity_kind \<Rightarrow> identity" where
  "demo_identity n k = \<lparr>id_did = ni_did n, id_kind = k, id_display_name = ni_display_name n, id_created_at = demo_moment 1,
     id_account_id = None, links_in = [], custodial = True\<rparr>"

definition space_auth :: auth_state where
  "space_auth = demo_auth\<lparr>identity_files := Some (id_save admin_key (demo_identity admin_key PERSON)
     (id_save space_key (demo_identity space_key SPACE) []))\<rparr>"

lemma demo_dids: "ni_did admin_key \<noteq> ni_did space_key" "path_free (ni_did space_key)" "path_free (ni_did admin_key)"
proof -
  have k: "did_to_public_key (ni_did admin_key) = Inr (replicate 32 2)" "did_to_public_key (ni_did space_key) = Inr (replicate 32 1)"
    by (simp_all add: admin_key_def space_key_def generate_identity_def key_did_def toy_ed_def did_to_public_key_did)
  show "ni_did admin_key \<noteq> ni_did space_key"
  proof
    assume "ni_did admin_key = ni_did space_key"
    with k have "(replicate 32 2 :: byte list) ! 0 = replicate 32 1 ! 0" by simp
    then show False by simp
  qed
  have "path_free (key_did toy_ed sk)" for sk
  proof -
    have "set (base58_encode bs) \<subseteq> set base58_alphabet" for bs
      using base58_encode_alphabet by blast
    moreover have "CHR ''/'' \<notin> set base58_alphabet" by code_simp
    ultimately show ?thesis by (auto simp: key_did_def public_key_to_did_def did_key_prefix_def)
  qed
  then show "path_free (ni_did space_key)" "path_free (ni_did admin_key)"
    by (simp_all add: admin_key_def space_key_def generate_identity_def)
qed

lemma space_auth_keys:
  "identity_files space_auth = Some [(ni_did space_key, space_key, demo_identity space_key SPACE),
     (ni_did admin_key, admin_key, demo_identity admin_key PERSON)]"
  using demo_dids by (simp add: space_auth_def id_save_def demo_identity_def safe_did_path_free)

theorem space_claim_first_wins_witness:
  "\<exists>c st'. claim_space demo_env (demo_moment 1) (ni_did space_key) (ni_did admin_key) space_auth = (Inr c, st') \<and>
     get_space_claim (claim_attempts demo_env [(demo_moment 2, ni_did space_key, ni_did space_key)] st') (ni_did space_key) = Some c"
proof -
  have load: "load_space_claim kv_empty d = None" for d
    by (simp add: load_space_claim_def kv_load_def kv_current_def kv_ensure_def kv_empty_def kv_build_def List.map_filter_simps)
  have sc: "space_claims space_auth = Some kv_empty" by (simp add: space_auth_def)
  obtain c st' where c: "claim_space demo_env (demo_moment 1) (ni_did space_key) (ni_did admin_key) space_auth = (Inr c, st')"
    using demo_dids load by (simp add: claim_space_def space_auth_keys sc load_identity_def load_signing_key_def
        safe_did_path_free demo_identity_def Let_def)
  have "\<forall>files key. identity_files space_auth = Some files \<and> load_signing_key files (ni_did space_key) = Some key \<longrightarrow>
           ni_did space_key = key_did (ed demo_env) (private_key key)"
    using demo_dids by (simp add: space_auth_keys load_signing_key_def safe_did_path_free)
      (simp add: space_key_def generate_identity_def)
  moreover have "claims_wf space_auth" by (simp add: claims_wf_def sc kv_wf_empty)
  ultimately show ?thesis
    using space_claim_first_wins [OF c, where ops = "[(demo_moment 2, ni_did space_key, ni_did space_key)]"]
      demo_dids toy_ed_sound c by auto
qed

section \<open>Reputation\<close>

text \<open>
  One attestation with an offset in its expiry blocks the whole reputation. If any attestation
  about the subject has a known type and a signature text, and an expiry that carries a UTC offset,
  listing the subject's reputation raises, whatever the other attestations are.
\<close>

theorem aware_expiry_blocks_reputation:
  assumes "a \<in> set (list_attestations st (Some subject) None)" and "att_type a \<in> set known_attestation_types"
    and "att_signature a \<noteq> []" and "att_issuer a \<noteq> []"
    and "att_expires_at a = Some e" and "dt_offset e \<noteq> None" and "dt_offset utcnow = None"
  shows "list_reputation env utcnow st subject = None"
proof -
  have "verify_attestation (ed env) utcnow a = None"
    using assms(3-7) by (auto simp: verify_attestation_def dt_less_def Let_def)
  then have "reputation_loop env utcnow as = None" if "a \<in> set as" for "as"
    using that assms(2) by (induction "as") (auto split: option.splits bool.splits)
  with assms(1) show ?thesis by (simp add: list_reputation_def)
qed

definition aware_attestation_auth :: auth_state where
  "aware_attestation_auth = snd (issue_attestation demo_env ''a1'' (demo_moment 1) ''vouch'' ''did:b'' None None []
     (Some ((demo_moment 31)\<lparr>dt_offset := Some 0\<rparr>)) demo_auth)"

lemma list_attestations_issued:
  assumes "issue_attestation env fresh utcnow type subject issuer content claim expires st = (Inr a, st')"
    and "attestations st = Some ats" and "kv_wf attestation_key attestation_id (\<lambda>_. True) ats" and "subject \<noteq> []"
  shows "a \<in> set (list_attestations st' (Some subject) None)"
proof -
  from assms(1,2) have "st' = st\<lparr>attestations := Some (save_attestation a ats)\<rparr>" and "att_subject a = subject"
    by (auto simp: issue_attestation_def Let_def split: option.splits if_splits)
  then show ?thesis
    using assms(3,4) by (simp add: list_attestations_def attestations_for_subject_def all_attestations_def
        save_attestation_def att.listing_save)
qed

theorem aware_expiry_blocks_reputation_witness:
  "list_reputation demo_env (demo_moment 2) aware_attestation_auth ''did:b'' = None"
proof -
  obtain a st' where i: "issue_attestation demo_env ''a1'' (demo_moment 1) ''vouch'' ''did:b'' None None []
     (Some ((demo_moment 31)\<lparr>dt_offset := Some 0\<rparr>)) demo_auth = (Inr a, st')"
    by (simp add: issue_attestation_def demo_node_key Let_def)
  then have st': "aware_attestation_auth = st'" by (simp add: aware_attestation_auth_def)
  have a: "att_type a = ''vouch''" "att_signature a \<noteq> []" "att_issuer a = ni_did demo_node"
    "att_expires_at a = Some ((demo_moment 31)\<lparr>dt_offset := Some 0\<rparr>)"
    using i by (auto simp: issue_attestation_def demo_node_key Let_def sign_payload_def toy_ed_def hex_def hex_byte_def)
  show ?thesis unfolding st'
  proof (rule aware_expiry_blocks_reputation [where e = "(demo_moment 31)\<lparr>dt_offset := Some 0\<rparr>"])
    show "a \<in> set (list_attestations st' (Some ''did:b'') None)"
      using list_attestations_issued [OF i] by (simp add: kv_wf_empty)
    show "att_type a \<in> set known_attestation_types" by (simp add: a known_attestation_types_def)
    show "att_issuer a \<noteq> []" using a key_did_not_Nil demo_node_did by simp
  qed (use a in \<open>simp_all add: demo_moment_valid\<close>)
qed

text \<open>
  Reputation is the filtered set of attestations. When the listing succeeds it holds exactly the
  attestations about the subject that have a known type, an issuer whose signature over the
  attestation verifies, and no expiry or one in the future, in the order of the store.
\<close>

theorem list_reputation_result:
  assumes "list_reputation env utcnow st subject = Some as"
  shows "as = filter (\<lambda>a. att_type a \<in> set known_attestation_types \<and> att_signature a \<noteq> [] \<and> att_issuer a \<noteq> [] \<and>
       verify_payload (ed env) (att_issuer a) (attestation_payload a) (att_signature a) \<and>
       (\<forall>e. att_expires_at a = Some e \<longrightarrow> dt_less utcnow e = Some True))
     (list_attestations st (Some subject) None)"
proof -
  have v: "verify_attestation (ed env) utcnow a = Some True \<longleftrightarrow> att_signature a \<noteq> [] \<and> att_issuer a \<noteq> [] \<and>
       verify_payload (ed env) (att_issuer a) (attestation_payload a) (att_signature a) \<and>
       (\<forall>e. att_expires_at a = Some e \<longrightarrow> dt_less utcnow e = Some True)" for a
    by (auto simp: verify_attestation_def Let_def split: option.splits bool.splits)
  have "reputation_loop env utcnow xs = Some as \<Longrightarrow>
      as = filter (\<lambda>a. att_type a \<in> set known_attestation_types \<and> verify_attestation (ed env) utcnow a = Some True) xs"
    for xs "as"
    by (induction xs arbitrary: "as") (auto split: if_splits option.splits bool.splits)
  from this [OF assms [unfolded list_reputation_def]] show ?thesis unfolding v .
qed

theorem list_reputation_result_witness:
  "\<exists>a st'. issue_attestation demo_env ''a1'' (demo_moment 1) ''vouch'' ''did:b'' None None [] None demo_auth = (Inr a, st') \<and>
     list_reputation demo_env (demo_moment 2) st' ''did:b'' = Some [a]"
proof -
  obtain a st' where i: "issue_attestation demo_env ''a1'' (demo_moment 1) ''vouch'' ''did:b'' None None [] None demo_auth = (Inr a, st')"
    by (simp add: issue_attestation_def demo_node_key Let_def)
  then have st': "st' = demo_auth\<lparr>attestations := Some (save_attestation a kv_empty)\<rparr>"
    and a: "att_type a = ''vouch''" "att_issuer a = ni_did demo_node" "att_subject a = ''did:b''" "att_expires_at a = None"
      "att_signature a = sign_payload toy_ed (private_key demo_node) (attestation_payload a)"
    by (auto simp: issue_attestation_def demo_node_key Let_def attestation_payload_def)
  have l: "list_attestations st' (Some ''did:b'') None = [a]"
    by (simp add: list_attestations_def attestations_for_subject_def all_attestations_def save_attestation_def st'
        kv_list_def kv_current_def kv_ensure_def kv_save_def kv_empty_def kv_build_def List.map_filter_simps a)
  have sig: "verify_payload toy_ed (att_issuer a) (attestation_payload a) (att_signature a)"
    using verify_own_signature [OF toy_ed_sound] a(2,5) demo_node_did by simp
  have ne: "att_signature a \<noteq> []" "att_issuer a \<noteq> []"
    using a(2) key_did_not_Nil demo_node_did by (simp_all add: a(5) sign_payload_def toy_ed_def hex_def hex_byte_def)
  obtain as where r: "list_reputation demo_env (demo_moment 2) st' ''did:b'' = Some as"
    using sig ne by (simp add: list_reputation_def l a(1,4) verify_attestation_def known_attestation_types_def)
  have "as = [a]" using list_reputation_result [OF r] sig ne by (simp add: l a(1,4) known_attestation_types_def)
  with r i show ?thesis by simp
qed

section \<open>Domain bindings\<close>

definition new_binding_id :: "uuid \<Rightarrow> binding_store \<Rightarrow> bool" where
  "new_binding_id u bs \<longleftrightarrow> ''identity/bindings/'' @ u @ ''.json'' \<notin> set (keys (kv_objects bs)) \<and>
     u \<notin> set (keys (kv_current binding_id bs))"

lemma start_domain_binding_Inr:
  assumes "start_domain_binding env u ch t subject domain st = (Inr (b, url, doc), st')"
  shows "\<exists>bs. bindings st = Some bs \<and> st' = st\<lparr>bindings := Some (save_binding b bs)\<rparr> \<and> binding_id b = u \<and>
     b_subject b = subject \<and> external_id b = domain_external_id domain \<and> challenge b = Some ch \<and> \<not> verified b \<and>
     doc = well_known_document subject ch"
  using assms by (auto simp: start_domain_binding_def Let_def split: option.splits if_splits)

text \<open>
  Restarting a domain binding makes it unverifiable. When the owner of a DID starts binding a
  domain a second time and hosts the document of the second start, verification still compares it
  with the challenge of the first start, whose pending binding was never replaced, and refuses it.
\<close>

theorem restarted_domain_binding_fails:
  assumes "start_domain_binding env u1 ch1 t1 subject domain st = (Inr (b1, url1, doc1), st1)"
    and "start_domain_binding env u2 ch2 t2 subject domain st1 = (Inr (b2, url2, doc2), st2)"
    and "\<forall>bs. bindings st = Some bs \<longrightarrow> find_by_external_id (domain_external_id domain) bs = None \<and>
           new_binding_id u1 bs \<and> new_binding_id u2 bs"
    and "u1 \<noteq> u2" and "ch1 \<noteq> ch2" and "ch1 \<noteq> []" and "fetch (well_known_url domain) = Inr doc2"
  shows "verify_domain_binding env fetch u3 t3 subject domain st2 = (Inl (Http 400 ''challenge mismatch''), st2)"
proof -
  from start_domain_binding_Inr [OF assms(1)] obtain bs where bs: "bindings st = Some bs"
    and st1: "st1 = st\<lparr>bindings := Some (save_binding b1 bs)\<rparr>" and b1: "binding_id b1 = u1" "b_subject b1 = subject"
      "external_id b1 = domain_external_id domain" "challenge b1 = Some ch1" "\<not> verified b1"
    by blast
  from start_domain_binding_Inr [OF assms(2)] st1 have
    st2: "st2 = st1\<lparr>bindings := Some (save_binding b2 (save_binding b1 bs))\<rparr>" and b2: "binding_id b2 = u2"
      "external_id b2 = domain_external_id domain" and doc2: "doc2 = well_known_document subject ch2"
    by auto
  have new1: "binding_key b1 \<notin> set (keys (kv_objects bs))" "binding_id b1 \<notin> set (keys (kv_current binding_id bs))"
    using assms(3) bs b1 by (auto simp: new_binding_id_def binding_key_def)
  have "kv_current binding_id (save_binding b1 bs) = kv_current binding_id bs @ [(u1, b1)]"
    using kv_current_save_new [where okey = binding_key and ikey = binding_id, OF new1] b1 by (simp add: save_binding_def)
  then have new2: "binding_key b2 \<notin> set (keys (kv_objects (save_binding b1 bs)))"
    "binding_id b2 \<notin> set (keys (kv_current binding_id (save_binding b1 bs)))"
    using assms(3,4) bs b1 b2
    by (auto simp: new_binding_id_def binding_key_def save_binding_def kv_save_def update_new simp del: set_map
        simp add: keys_update)
  have "find_by_external_id (domain_external_id domain) (save_binding b2 (save_binding b1 bs)) = Some b1"
    using find_by_external_id_save_new [OF new1] find_by_external_id_save_new [OF new2] assms(3) bs b1(3) by simp
  then show ?thesis
    using st2 b1 assms(5-7) doc2
    by (simp add: verify_domain_binding_def fetch_and_validate_domain_def validate_well_known_document_def
        well_known_document_def jget_def Let_def)
qed

lemma demo_domain_start:
  assumes "bindings st = Some bs" and "find_by_external_id (domain_external_id ''shop.org'') bs = None \<or>
     (\<exists>b. find_by_external_id (domain_external_id ''shop.org'') bs = Some b \<and> \<not> verified b)"
  shows "\<exists>b url. start_domain_binding demo_env u ch t (ni_did demo_node) ''shop.org'' st =
     (Inr (b, url, well_known_document (ni_did demo_node) ch), st\<lparr>bindings := Some (save_binding b bs)\<rparr>) \<and> \<not> verified b"
  using assms by (auto simp: start_domain_binding_def demo_node_key Let_def)

lemma empty_bindings:
  "find_by_external_id x kv_empty = None" "new_binding_id u kv_empty"
  by (simp_all add: find_by_external_id_def all_bindings_def kv_list_def kv_current_def kv_ensure_def kv_empty_def
      kv_build_def List.map_filter_simps new_binding_id_def)

lemma single_binding:
  "find_by_external_id x (save_binding b kv_empty) = (if external_id b = x then Some b else None)"
  by (simp add: find_by_external_id_def all_bindings_def save_binding_def kv_list_def kv_current_def kv_ensure_def
      kv_save_def kv_empty_def kv_build_def List.map_filter_simps)

theorem restarted_domain_binding_fails_witness:
  "\<exists>b1 url1 doc1 st1 b2 url2 doc2 st2.
     start_domain_binding demo_env ''u1'' ''c1'' (demo_moment 1) (ni_did demo_node) ''shop.org'' demo_auth = (Inr (b1, url1, doc1), st1) \<and>
     start_domain_binding demo_env ''u2'' ''c2'' (demo_moment 2) (ni_did demo_node) ''shop.org'' st1 = (Inr (b2, url2, doc2), st2) \<and>
     verify_domain_binding demo_env (\<lambda>_. Inr doc2) ''u3'' (demo_moment 3) (ni_did demo_node) ''shop.org'' st2 =
       (Inl (Http 400 ''challenge mismatch''), st2)"
proof -
  obtain b1 url1 where 1: "start_domain_binding demo_env ''u1'' ''c1'' (demo_moment 1) (ni_did demo_node) ''shop.org'' demo_auth =
      (Inr (b1, url1, well_known_document (ni_did demo_node) ''c1''), demo_auth\<lparr>bindings := Some (save_binding b1 kv_empty)\<rparr>)"
    and b1: "\<not> verified b1"
    using demo_domain_start [of demo_auth kv_empty "''u1''" "''c1''" "demo_moment 1"] empty_bindings(1) demo_auth_fields(4)
    by blast
  let ?st1 = "demo_auth\<lparr>bindings := Some (save_binding b1 kv_empty)\<rparr>"
  obtain b2 url2 where 2: "start_domain_binding demo_env ''u2'' ''c2'' (demo_moment 2) (ni_did demo_node) ''shop.org'' ?st1 =
      (Inr (b2, url2, well_known_document (ni_did demo_node) ''c2''), ?st1\<lparr>bindings := Some (save_binding b2 (save_binding b1 kv_empty))\<rparr>)"
    using demo_domain_start [of ?st1 "save_binding b1 kv_empty" "''u2''" "''c2''" "demo_moment 2"] b1
    by (simp add: single_binding del: not_None_eq) (metis (no_types))
  have "verify_domain_binding demo_env (\<lambda>_. Inr (well_known_document (ni_did demo_node) ''c2'')) ''u3'' (demo_moment 3)
      (ni_did demo_node) ''shop.org'' (?st1\<lparr>bindings := Some (save_binding b2 (save_binding b1 kv_empty))\<rparr>) =
      (Inl (Http 400 ''challenge mismatch''), ?st1\<lparr>bindings := Some (save_binding b2 (save_binding b1 kv_empty))\<rparr>)"
    by (rule restarted_domain_binding_fails [OF 1 2]) (simp_all add: empty_bindings)
  with 1 2 show ?thesis by blast
qed

text \<open>
  A domain binding is verified only on evidence. When verification succeeds for a binding that
  was not verified before, the document fetched from the domain's well-known URL named the subject's
  DID and the pending challenge; the binding returned is the pending one, marked verified, with its
  challenge spent and a signature that verifies with the subject's key.
\<close>

theorem domain_verified_on_evidence:
  assumes "verify_domain_binding env fetch u t subject domain st = (Inr b, st')" and "bindings st = Some bs"
    and "\<forall>old. find_by_external_id (domain_external_id domain) bs = Some old \<longrightarrow> \<not> verified old"
    and "ed_sound (ed env)"
    and "\<forall>key. signing_key_for env st subject = Some key \<longrightarrow> subject = key_did (ed env) (private_key key)"
  shows "\<exists>old ch d. find_by_external_id (domain_external_id domain) bs = Some old \<and> challenge old = Some ch \<and>
     fetch (well_known_url domain) = Inr (JObj d) \<and> jget d ''did'' = JStr subject \<and> jget d ''challenge'' = JStr ch \<and>
     binding_id b = binding_id old \<and> b_subject b = subject \<and> external_id b = external_id old \<and> verified b \<and> challenge b = None \<and>
     verify_payload (ed env) subject (binding_payload b) (b_signature b)"
proof -
  from assms(1,2) obtain old :: identity_binding where old: "find_by_external_id (domain_external_id domain) bs = Some old"
    by (auto simp: verify_domain_binding_def Let_def split: option.splits)
  with assms(3) have nv: "\<not> verified old" by simp
  from assms(1) old nv assms(2) obtain ch key where subj: "b_subject old = subject" and ch: "challenge old = Some ch"
    and fetched: "fetch_and_validate_domain fetch domain subject ch = None" and key: "signing_key_for env st subject = Some key"
    and b: "b = (let b1 = old\<lparr>verified := True, verified_at := Some t, challenge := None\<rparr>
                 in b1\<lparr>b_signature := sign_payload (ed env) (private_key key) (binding_payload b1)\<rparr>)"
    by (auto simp: verify_domain_binding_def Let_def split: option.splits if_splits prod.splits sum.splits)
  from fetched obtain d where d: "fetch (well_known_url domain) = Inr (JObj d)" "jget d ''did'' = JStr subject"
    "jget d ''challenge'' = JStr ch"
    by (auto simp: fetch_and_validate_domain_def validate_well_known_document_def split: sum.splits json.splits if_splits)
  have "verify_payload (ed env) subject (binding_payload b) (b_signature b)"
    using verify_own_signature [OF assms(4), of "private_key key"] assms(5) key
    by (simp add: b Let_def binding_payload_def)
  then show ?thesis using old ch d subj by (auto simp: b Let_def)
qed

theorem domain_verified_on_evidence_witness:
  "\<exists>b1 url1 doc1 st1 b st2.
     start_domain_binding demo_env ''u1'' ''c1'' (demo_moment 1) (ni_did demo_node) ''shop.org'' demo_auth = (Inr (b1, url1, doc1), st1) \<and>
     verify_domain_binding demo_env (\<lambda>_. Inr doc1) ''u3'' (demo_moment 3) (ni_did demo_node) ''shop.org'' st1 = (Inr b, st2) \<and>
     verified b \<and> challenge b = None"
proof -
  obtain b1 url1 where 1: "start_domain_binding demo_env ''u1'' ''c1'' (demo_moment 1) (ni_did demo_node) ''shop.org'' demo_auth =
      (Inr (b1, url1, well_known_document (ni_did demo_node) ''c1''), demo_auth\<lparr>bindings := Some (save_binding b1 kv_empty)\<rparr>)"
    and b1: "\<not> verified b1"
    using demo_domain_start [of demo_auth kv_empty "''u1''" "''c1''" "demo_moment 1"] empty_bindings(1) demo_auth_fields(4)
    by blast
  let ?st1 = "demo_auth\<lparr>bindings := Some (save_binding b1 kv_empty)\<rparr>"
  from start_domain_binding_Inr [OF 1] have f: "b_subject b1 = ni_did demo_node"
    "external_id b1 = domain_external_id ''shop.org''" "challenge b1 = Some ''c1''"
    by auto
  let ?fetch = "\<lambda>_ :: string. Inr (well_known_document (ni_did demo_node) ''c1'') :: string + json"
  have ni: "ni_did demo_node \<noteq> []" by (simp only: demo_node_did key_did_not_Nil not_False_eq_True)
  obtain b st2 where 2: "verify_domain_binding demo_env ?fetch ''u3'' (demo_moment 3) (ni_did demo_node) ''shop.org'' ?st1 = (Inr b, st2)"
    using f b1 single_binding ni
    by (auto simp: verify_domain_binding_def fetch_and_validate_domain_def validate_well_known_document_def
        well_known_document_def jget_def demo_node_key issue_attestation_def Let_def split: option.splits)
  have "verified b \<and> challenge b = None"
  proof -
    have "\<forall>old. find_by_external_id (domain_external_id ''shop.org'') (save_binding b1 kv_empty) = Some old \<longrightarrow> \<not> verified old"
      using b1 by (simp add: single_binding)
    moreover have "\<forall>key. signing_key_for demo_env ?st1 (ni_did demo_node) = Some key \<longrightarrow>
        ni_did demo_node = key_did (ed demo_env) (private_key key)"
      by (simp add: demo_node_key demo_node_did [symmetric])
    ultimately show ?thesis
      using domain_verified_on_evidence [OF 2, where bs = "save_binding b1 kv_empty"] toy_ed_sound by force
  qed
  with 1 2 show ?thesis by blast
qed

section \<open>The directory under a pinned registry\<close>

text \<open>
  The pinned directory lists unverified domains. Publishing an entry with a domain of one's
  choice, for a DID that has no verified binding at all, makes the entry part of the directory that
  is meant to be restricted to verified domain bindings.
\<close>

theorem pinned_directory_lists_unverified:
  assumes "publish_directory_entry t d name url (Some x) st = (Inr e, st')" and "x \<noteq> []" and "ca_pinned env"
    and "filter verified (list_bindings st (Some d)) = []"
    and "\<forall>ds. directory st = Some ds \<longrightarrow> kv_wf directory_key de_did (\<lambda>e. path_free (de_did e)) ds" and "path_free d"
  shows "e \<in> set (list_directory env st') \<and> verified_bindings e = [] \<and> de_domain e = Some x"
proof -
  from assms(1) obtain ds where ds: "directory st = Some ds" and st': "st' = st\<lparr>directory := Some (save_directory e ds)\<rparr>"
    and e: "de_did e = d" "verified_bindings e = []" "de_domain e = Some x"
    using assms(4) by (auto simp: publish_directory_entry_def Let_def split: option.splits)
  have "e \<in> set (all_directory (save_directory e ds))"
    using assms(5,6) ds e by (simp add: all_directory_def save_directory_def dir.listing_save)
  then show ?thesis using e assms(2,3) by (simp add: list_directory_def st')
qed

theorem pinned_directory_lists_unverified_witness:
  "\<exists>e st'. publish_directory_entry (demo_moment 1) ''did:b'' ''B'' None (Some ''bank.org'') demo_auth = (Inr e, st') \<and>
     e \<in> set (list_directory (demo_env\<lparr>ca_pinned := True\<rparr>) st') \<and> verified_bindings e = []"
proof -
  have none: "list_bindings demo_auth (Some ''did:b'') = []"
    by (simp add: list_bindings_def bindings_for_subject_def all_bindings_def kv_list_def kv_current_def kv_ensure_def
        kv_empty_def kv_build_def List.map_filter_simps)
  obtain e st' where p: "publish_directory_entry (demo_moment 1) ''did:b'' ''B'' None (Some ''bank.org'') demo_auth = (Inr e, st')"
    by (simp add: publish_directory_entry_def Let_def)
  then show ?thesis
    using pinned_directory_lists_unverified [OF p, of "demo_env\<lparr>ca_pinned := True\<rparr>"] none by (simp add: kv_wf_empty)
qed

section \<open>Rotation and the primary DID\<close>

lemma find_sorted_least:
  "sorted (map f ys) \<Longrightarrow> find P ys = Some x \<Longrightarrow> y \<in> set ys \<Longrightarrow> P y \<Longrightarrow> f x \<le> (f y :: 'b :: linorder)"
  by (induction ys) (auto split: if_splits)

text \<open>
  A rotated identity may stay the primary one. After rotating an account's only identity, the
  account's primary DID, which authorization resolves grants for, is still the retired DID whenever
  the retired DID's file name sorts before the new one's.
\<close>

theorem rotation_keeps_retired_primary:
  assumes "rotate_identity env sk t d st = (Inr i, st')" and "identity_files st = Some files"
    and "distinct (keys files)" and "(d, k, j) \<in> set files" and "id_did j = d" and "id_account_id j = Some a"
    and "\<forall>(p, k', j')\<in>set files. id_account_id j' = Some a \<longrightarrow> p = d"
    and "path_free d" and "path_free (id_did i)" and "id_did i \<noteq> d" and "d @ ''.json'' < id_did i @ ''.json''"
  shows "subject_did_for st' a = Some d \<and> id_account_id i = Some a"
proof -
  have lookup: "map_of files (safe_did d) = Some (k, j)"
    using assms(3,4,8) by (simp add: safe_did_path_free)
  from assms(1,2) lookup obtain key where st': "identity_files st' = Some (id_save key i files)"
    and acc: "id_account_id i = id_account_id j"
    by (auto simp: rotate_identity_def load_signing_key_def load_identity_def Let_def)
  let ?files = "id_save key i files"
  have upd: "?files = AList.update (id_did i) (key, i) files" using assms(9) by (simp add: id_save_def safe_did_path_free)
  let ?f = "\<lambda>f :: string \<times> node_identity \<times> identity. fst f @ ''.json''"
  let ?P = "\<lambda>f :: string \<times> node_identity \<times> identity. id_account_id (snd (snd f)) = Some a"
  have d_new: "distinct (keys ?files)" using assms(3) by (simp add: upd)
  have "map_of ?files d = Some (k, j)" using assms(3,4,10) by (simp add: upd)
  then have mem: "(d, k, j) \<in> set (sort_key ?f ?files)" by (simp add: map_of_SomeD)
  then obtain x where x: "find ?P (sort_key ?f ?files) = Some x"
    using assms(6) by (cases "find ?P (sort_key ?f ?files)") (auto simp: find_None_iff)
  then have xm: "x \<in> set ?files" "?P x" using find_mem [OF x] by auto
  have le: "?f x \<le> ?f (d, k, j)"
    by (rule find_sorted_least [where P = ?P and ys = "sort_key ?f ?files"]) (use x mem assms(6) in simp_all)
  have "fst x = id_did i \<or> x \<in> set files" using xm(1) set_update_subset [of "id_did i" "(key, i)" files] unfolding upd by auto
  moreover have "fst x \<noteq> id_did i" using le assms(11) by auto
  ultimately have "fst x = d" using assms(7) xm(2) by auto
  then have "x = (d, k, j)" using xm(1) d_new mem by (metis eq_key_imp_eq_value prod.collapse set_sort)
  have "find (\<lambda>i. id_account_id i = Some a) (map (snd \<circ> snd) ys) = map_option (snd \<circ> snd) (find ?P ys)" for ys
    by (induction ys) auto
  then have "find (\<lambda>i. id_account_id i = Some a) (list_identities ?files) = Some j"
    using x \<open>x = (d, k, j)\<close> by (simp add: list_identities_def)
  then have "subject_did_for st' a = Some d" using st' assms(5) by (simp add: subject_did_for_def find_primary_did_def)
  then show ?thesis using acc assms(6) by simp
qed

theorem rotation_keeps_retired_primary_witness:
  "\<exists>sk st d i st'. rotate_identity demo_env sk (demo_moment 2) d st = (Inr i, st') \<and> id_did i \<noteq> d \<and>
     subject_did_for st' ''ann'' = Some d"
proof -
  let ?le = "\<lambda>ka kb. ni_did ka @ ''.json'' < ni_did kb @ ''.json''"
  have rotated: "\<exists>sk st d i st'. rotate_identity demo_env sk (demo_moment 2) d st = (Inr i, st') \<and> id_did i \<noteq> d \<and>
       subject_did_for st' ''ann'' = Some d"
    if "?le ka kb" "path_free (ni_did ka)" "path_free (ni_did kb)" "ni_did kb = key_did toy_ed (private_key kb)" for ka kb :: node_identity
  proof -
    let ?j = "(demo_identity ka PERSON)\<lparr>id_account_id := Some ''ann''\<rparr>"
    let ?st = "demo_auth\<lparr>identity_files := Some [(ni_did ka, ka, ?j)]\<rparr>"
    have safe: "safe_did (ni_did ka) = ni_did ka" using that(2) by (rule safe_did_path_free)
    have kb: "key_did toy_ed (private_key kb) = ni_did kb" using that(4) by simp
    obtain i st' where r: "rotate_identity demo_env (private_key kb) (demo_moment 2) (ni_did ka) ?st = (Inr i, st')"
      and i: "id_did i = ni_did kb"
      using kb safe by (simp add: rotate_identity_def load_signing_key_def load_identity_def Let_def
          generate_identity_def)
    have "subject_did_for st' ''ann'' = Some (ni_did ka) \<and> id_account_id i = Some ''ann''"
      by (rule rotation_keeps_retired_primary [OF r, where j = ?j and k = ka])
        (use that i in \<open>auto simp: demo_identity_def\<close>)
    then show ?thesis using r i that(1) by fastforce
  qed
  have "?le admin_key space_key \<or> ?le space_key admin_key"
    using demo_dids(1) less_linear [of "ni_did admin_key @ ''.json''" "ni_did space_key @ ''.json''"] by auto
  moreover have "ni_did admin_key = key_did toy_ed (private_key admin_key)" "ni_did space_key = key_did toy_ed (private_key space_key)"
    by (simp_all add: admin_key_def space_key_def generate_identity_def)
  ultimately show ?thesis using rotated demo_dids(2,3) by blast
qed

end
