(* ===== verification/Rate_Limit.thy ===== *)
theory Rate_Limit imports Py_Prelude begin

text \<open>
  The sliding-window rate limiter (\<open>services/rate_limit_service.py\<close>) and the per-peer limiter of
  the federation on top of it (\<open>federation/rate_limit.py\<close>). Times are seconds as rationals: the
  code's floats only meet \<open>+ 60.0\<close>, \<open>- 60.0\<close> and comparisons. \<open>window_decisions\<close> is the
  abstract limiter: it keeps every accepted request for ever and counts those of the last minute.
\<close>

section \<open>The service\<close>

record rate_limiter =
  cleanup_interval :: rat
  request_timestamps :: "(string \<times> rat list) list"
  last_cleanup :: rat

definition new_rate_limiter :: "rat \<Rightarrow> rat \<Rightarrow> rate_limiter" where
  "new_rate_limiter interval now = \<lparr>cleanup_interval = interval, request_timestamps = [], last_cleanup = now\<rparr>"

record rate_info =
  rl_limit :: int
  remaining :: int
  reset_time :: int

text \<open>\<open>int(x)\<close> of a float.\<close>

definition py_trunc :: "rat \<Rightarrow> int" where
  "py_trunc x = (if x < 0 then - \<lfloor>- x\<rfloor> else \<lfloor>x\<rfloor>)"

definition cleanup_if_needed :: "rat \<Rightarrow> rate_limiter \<Rightarrow> rate_limiter" where
  "cleanup_if_needed now st =
     (if now - last_cleanup st < cleanup_interval st then st
      else st\<lparr>request_timestamps := filter (\<lambda>(i, ts). ts \<noteq> [])
                (map (\<lambda>(i, ts). (i, filter (\<lambda>t. now - 60 < t) ts)) (request_timestamps st)),
              last_cleanup := now\<rparr>)"

definition stamps_of :: "rate_limiter \<Rightarrow> string \<Rightarrow> rat list" where
  "stamps_of st i = (case map_of (request_timestamps st) i of None \<Rightarrow> [] | Some ts \<Rightarrow> ts)"

definition check_rate_limit ::
  "string \<Rightarrow> int \<Rightarrow> rat \<Rightarrow> rate_limiter \<Rightarrow> (bool \<times> rate_info) \<times> rate_limiter" where
  "check_rate_limit i requests_per_minute now st =
     (let st1 = cleanup_if_needed now st;
          timestamps = filter (\<lambda>t. now - 60 < t) (stamps_of st1 i);
          request_count = int (length timestamps);
          is_allowed = (request_count < requests_per_minute);
          reset = (case timestamps of [] \<Rightarrow> py_trunc (now + 60) | t # ts \<Rightarrow> py_trunc (foldl min t ts + 60));
          timestamps' = (if is_allowed then timestamps @ [now] else timestamps)
      in ((is_allowed,
           \<lparr>rl_limit = requests_per_minute,
            remaining = max 0 (requests_per_minute - request_count - (if is_allowed then 1 else 0)),
            reset_time = reset\<rparr>),
          st1\<lparr>request_timestamps := AList.update i timestamps' (request_timestamps st1)\<rparr>))"

text \<open>\<open>get_stats\<close>: active identifiers, all identifiers, the counts of the active ones.\<close>

definition rate_stats :: "rat \<Rightarrow> rate_limiter \<Rightarrow> nat \<times> nat \<times> (string \<times> nat) list" where
  "rate_stats now st =
     (let active = filter (\<lambda>(i, n). 0 < n)
            (map (\<lambda>(i, ts). (i, length (filter (\<lambda>t. now - 60 < t) ts))) (request_timestamps st))
      in (length active, length (request_timestamps st), active))"

text \<open>\<open>FederationPeerRateLimiter.check\<close>\<close>

definition peer_key :: "string \<Rightarrow> string" where
  "peer_key peer = ''federation:peer:'' @ peer"

definition check_peer :: "int \<Rightarrow> string \<Rightarrow> rat \<Rightarrow> rate_limiter \<Rightarrow> (bool \<times> rate_info) \<times> rate_limiter" where
  "check_peer requests_per_minute peer now st = check_rate_limit (peer_key peer) requests_per_minute now st"

section \<open>The abstract limiter\<close>

type_synonym rate_call = "string \<times> int \<times> rat"

definition window_count :: "(string \<times> rat) list \<Rightarrow> string \<Rightarrow> rat \<Rightarrow> nat" where
  "window_count hist i now = length (filter (\<lambda>(j, t). j = i \<and> now - 60 < t) hist)"

fun window_decisions :: "(string \<times> rat) list \<Rightarrow> rate_call list \<Rightarrow> bool list" where
  "window_decisions hist [] = []"
| "window_decisions hist ((i, rpm, now) # calls) =
     (let ok = int (window_count hist i now) < rpm
      in ok # window_decisions (if ok then hist @ [(i, now)] else hist) calls)"

fun run_limiter :: "rate_limiter \<Rightarrow> rate_call list \<Rightarrow> bool list" where
  "run_limiter st [] = []"
| "run_limiter st ((i, rpm, now) # calls) =
     (let ((ok, info), st') = check_rate_limit i rpm now st in ok # run_limiter st' calls)"

definition call_time :: "rate_call \<Rightarrow> rat" where
  "call_time = (\<lambda>(i, rpm, now). now)"

text \<open>The accepted requests among \<open>calls\<close>, given the decisions.\<close>

definition accepted :: "rate_call list \<Rightarrow> bool list \<Rightarrow> (string \<times> rat) list" where
  "accepted calls oks = map (\<lambda>((i, rpm, now), ok). (i, now)) (filter snd (zip calls oks))"

section \<open>Refinement\<close>

text \<open>
  The table agrees with the history on everything younger than \<open>now - 60\<close>; older time stamps no
  longer matter once \<open>now\<close> has come, so dropping them is no change.
\<close>

definition tracks :: "rate_limiter \<Rightarrow> (string \<times> rat) list \<Rightarrow> rat \<Rightarrow> bool" where
  "tracks st hist now \<longleftrightarrow> distinct (keys (request_timestamps st)) \<and>
     (\<forall>i. filter (\<lambda>t. now - 60 < t) (stamps_of st i) = map snd (filter (\<lambda>(j, t). j = i \<and> now - 60 < t) hist))"

lemma filter_later:
  fixes now later :: rat
  assumes "now \<le> later"
  shows "filter (\<lambda>t. later - 60 < t) ts = filter (\<lambda>t. later - 60 < t) (filter (\<lambda>t. now - 60 < t) ts)"
  using assms by (induction ts) auto

lemma filter_hist_later:
  fixes now later :: rat
  assumes "now \<le> later"
  shows "map snd (filter (\<lambda>(j, t). j = i \<and> later - 60 < t) hist) =
    filter (\<lambda>t. later - 60 < t) (map snd (filter (\<lambda>(j, t). j = i \<and> now - 60 < t) hist))"
  using assms by (induction hist) auto

lemma tracks_later: "tracks st hist now \<Longrightarrow> now \<le> later \<Longrightarrow> tracks st hist later"
  unfolding tracks_def using filter_later [of now later] filter_hist_later [of now later] by metis

lemma stamps_of_cleanup:
  assumes "distinct (keys (request_timestamps st))"
  shows "filter (\<lambda>t. now - 60 < t) (stamps_of (cleanup_if_needed now st) i) = filter (\<lambda>t. now - 60 < t) (stamps_of st i)"
proof -
  have "distinct (keys d) \<Longrightarrow>
     (case map_of (filter (\<lambda>(i, ts). ts \<noteq> []) (map (\<lambda>(i, ts). (i, filter P ts)) d)) i of None \<Rightarrow> [] | Some ts \<Rightarrow> ts) =
     filter P (case map_of d i of None \<Rightarrow> [] | Some ts \<Rightarrow> ts)" for d :: "(string \<times> rat list) list" and P
  proof (induction d)
    case (Cons p d)
    obtain j ts where p: "p = (j, ts)" by fastforce
    show ?case
    proof (cases "i = j")
      case True
      have "map_of (filter (\<lambda>(i, ts). ts \<noteq> []) (map (\<lambda>(i, ts). (i, filter P ts)) d)) i = None"
        using Cons.prems True p by (auto simp: map_of_eq_None_iff intro: rev_image_eqI)
      then show ?thesis using True p by auto
    qed (use Cons p in auto)
  qed simp
  from this [OF assms] show ?thesis by (simp add: cleanup_if_needed_def stamps_of_def)
qed

lemma distinct_cleanup:
  "distinct (keys (request_timestamps st)) \<Longrightarrow> distinct (keys (request_timestamps (cleanup_if_needed now st)))"
proof -
  have k: "keys (map (\<lambda>(i, ts). (i, f ts)) d) = keys d" for f :: "rat list \<Rightarrow> rat list" and d :: "(string \<times> rat list) list"
    by (induction d) auto
  have "distinct (keys (filter P (map (\<lambda>(i, ts). (i, f ts)) d)))" if "distinct (keys d)"
    for P and f :: "rat list \<Rightarrow> rat list" and d :: "(string \<times> rat list) list"
    using that by (intro distinct_keys_filter) (simp only: k)
  then show "distinct (keys (request_timestamps st)) \<Longrightarrow> ?thesis"
    unfolding cleanup_if_needed_def by simp
qed

lemma check_rate_limit_tracks:
  assumes "tracks st hist now" and "check_rate_limit i rpm now st = ((ok, info), st')"
  shows "ok \<longleftrightarrow> int (window_count hist i now) < rpm" "tracks st' (if ok then hist @ [(i, now)] else hist) now"
proof -
  let ?st1 = "cleanup_if_needed now st"
  let ?P = "\<lambda>t. now - 60 < t"
  have d: "distinct (keys (request_timestamps ?st1))" using assms(1) by (simp add: tracks_def distinct_cleanup)
  have h: "filter ?P (stamps_of ?st1 j) = map snd (filter (\<lambda>(j', t). j' = j \<and> now - 60 < t) hist)" for j
    using assms(1) stamps_of_cleanup [of st now j] by (simp add: tracks_def)
  have n: "length (filter ?P (stamps_of ?st1 i)) = window_count hist i now" by (simp add: h window_count_def)
  show ok: "ok \<longleftrightarrow> int (window_count hist i now) < rpm" using assms(2) n by (auto simp: check_rate_limit_def Let_def)
  have st': "st' = ?st1\<lparr>request_timestamps := AList.update i
      (filter ?P (stamps_of ?st1 i) @ (if ok then [now] else [])) (request_timestamps ?st1)\<rparr>"
    using assms(2) by (auto simp: check_rate_limit_def Let_def)
  have s: "stamps_of st' j = (if j = i then filter ?P (stamps_of ?st1 i) @ (if ok then [now] else []) else stamps_of ?st1 j)" for j
    by (simp add: st' stamps_of_def)
  have "filter ?P (stamps_of st' j) = map snd (filter (\<lambda>(j', t). j' = j \<and> now - 60 < t)
      (if ok then hist @ [(i, now)] else hist))" for j
    unfolding s using h [of j] by auto
  moreover have "distinct (keys (request_timestamps st'))" using d by (simp add: st')
  ultimately show "tracks st' (if ok then hist @ [(i, now)] else hist) now" unfolding tracks_def by blast
qed

lemma run_limiter_window:
  "tracks st hist now \<Longrightarrow> sorted (now # map call_time calls) \<Longrightarrow> run_limiter st calls = window_decisions hist calls"
proof (induction calls arbitrary: st hist now)
  case (Cons c calls)
  obtain i rpm t where c: "c = (i, rpm, t)" using prod_cases3 by blast
  obtain ok info st' where r: "check_rate_limit i rpm t st = ((ok, info), st')" by (metis prod.exhaust)
  have "tracks st hist t" using tracks_later Cons.prems by (simp add: c call_time_def)
  note step = check_rate_limit_tracks [OF this r]
  have "run_limiter st' calls = window_decisions (if ok then hist @ [(i, t)] else hist) calls"
    using Cons.IH [OF step(2)] Cons.prems(2) by (simp add: c call_time_def)
  then show ?case using step(1) by (simp add: c r)
qed simp

lemma tracks_new: "tracks (new_rate_limiter interval t0) [] now"
  by (simp add: tracks_def new_rate_limiter_def stamps_of_def)

section \<open>The bound\<close>

definition window_use :: "(string \<times> rat) list \<Rightarrow> string \<Rightarrow> rat \<Rightarrow> int" where
  "window_use hist i w = int (length (filter (\<lambda>(j, t). j = i \<and> w - 60 < t \<and> t \<le> w) hist))"

lemma window_use_snoc:
  "window_use (hist @ [(j, t)]) i w = window_use hist i w + (if j = i \<and> w - 60 < t \<and> t \<le> w then 1 else 0)"
  by (simp add: window_use_def)

lemma window_use_le_count:
  fixes now w :: rat
  assumes "now \<le> w"
  shows "window_use hist i w \<le> int (window_count hist i now)"
  using assms by (induction hist) (auto simp: window_use_def window_count_def)

lemma window_use_accepted:
  assumes "sorted (map call_time calls)" and "list_all (\<lambda>(j, rpm, t). j \<noteq> i \<or> rpm \<le> n) calls"
    and "\<forall>w. window_use hist i w \<le> n"
  shows "window_use (hist @ accepted calls (window_decisions hist calls)) i w \<le> n"
  using assms
proof (induction calls arbitrary: hist)
  case (Cons c calls)
  obtain j rpm t where c: "c = (j, rpm, t)" using prod_cases3 by blast
  let ?ok = "int (window_count hist j t) < rpm"
  let ?hist = "if ?ok then hist @ [(j, t)] else hist"
  have "\<forall>w. window_use ?hist i w \<le> n"
  proof
    fix w
    have old: "window_use hist i w \<le> n" using Cons.prems(3) by blast
    have "window_use hist i w < n" if "j = i" "?ok" "t \<le> w"
      using window_use_le_count [OF that(3), of hist i] that Cons.prems(2) by (simp add: c)
    then show "window_use ?hist i w \<le> n" using old by (auto simp: window_use_snoc zless_imp_add1_zle)
  qed
  from Cons.IH [OF _ _ this] Cons.prems have
    "window_use (?hist @ accepted calls (window_decisions ?hist calls)) i w \<le> n" by simp
  moreover have "accepted (c # calls) (window_decisions hist (c # calls)) =
      (if ?ok then [(j, t)] else []) @ accepted calls (window_decisions ?hist calls)"
    by (simp add: c accepted_def Let_def)
  ultimately show ?case by (auto split: if_splits)
qed (simp add: accepted_def)

text \<open>
  C11: the limiter is a sliding window. On calls in the order of time it decides exactly as the
  abstract limiter that never forgets a request, so pruning and the periodic clean-up change no
  decision; and no identifier has more accepted requests in any window of 60 seconds than its limit.
\<close>

theorem rate_limit_window:
  assumes "sorted (map call_time calls)"
    and "list_all (\<lambda>(j, rpm, t). j \<noteq> i \<or> rpm \<le> n) calls" and "0 \<le> n"
  shows "run_limiter (new_rate_limiter interval t0) calls = window_decisions [] calls \<and>
     window_use (accepted calls (run_limiter (new_rate_limiter interval t0) calls)) i w \<le> n"
proof -
  have "run_limiter (new_rate_limiter interval t0) calls = window_decisions [] calls"
  proof (cases calls)
    case (Cons c cs)
    then show ?thesis using run_limiter_window [OF tracks_new, of "call_time c" calls] assms(1) by simp
  qed simp
  then show ?thesis using window_use_accepted [OF assms(1,2), of "[]"] assms(3) by (simp add: window_use_def)
qed

theorem rate_limit_window_witness:
  "run_limiter (new_rate_limiter 60 0) [(''a'', 1, 1), (''a'', 1, 30), (''b'', 1, 40), (''a'', 1, 61)] = [True, False, True, True] \<and>
   window_use (accepted [(''a'', 1, 1), (''a'', 1, 30), (''b'', 1, 40), (''a'', 1, 61)] [True, False, True, True]) ''a'' 61 \<le> 1"
proof -
  let ?calls = "[(''a'', 1, 1), (''a'', 1, 30), (''b'', 1, 40), (''a'', 1, 61)] :: rate_call list"
  have "window_decisions [] ?calls = [True, False, True, True]" by (simp add: window_count_def)
  moreover have "run_limiter (new_rate_limiter 60 0) ?calls = window_decisions [] ?calls \<and>
     window_use (accepted ?calls (run_limiter (new_rate_limiter 60 0) ?calls)) ''a'' 61 \<le> 1"
    by (rule rate_limit_window) (simp_all add: call_time_def)
  ultimately show ?thesis by metis
qed

end
