(* ===== verification/Memory_Cache.thy ===== *)
theory Memory_Cache imports Json_Value begin

text \<open>
  The in-process cache: the LRU backend with expiry (\<open>cache/backends/memory.py\<close>), the service in
  front of it (\<open>services/cache_service.py\<close>), key names and the \<open>cached\<close> helper (\<open>cache/keys.py\<close>,
  \<open>cache/helper.py\<close>). The \<open>OrderedDict\<close> is an association list, least recently used entry first.
  Times are microseconds; the clock readings inside one operation count as one instant \<open>now\<close>.
\<close>

section \<open>The backend\<close>

record 'v cache_entry =
  entry_value :: 'v
  created_at :: pytime
  entry_expires :: pytime

definition new_entry :: "pytime \<Rightarrow> 'v \<Rightarrow> int \<Rightarrow> 'v cache_entry" where
  "new_entry now v ttl_seconds = \<lparr>entry_value = v, created_at = now, entry_expires = now + ttl_seconds * 1000000\<rparr>"

definition is_expired :: "pytime \<Rightarrow> 'v cache_entry \<Rightarrow> bool" where
  "is_expired now e \<longleftrightarrow> entry_expires e \<le> now"

record 'v memory_cache =
  max_size :: int
  mc_interval :: int
  entries :: "(string \<times> 'v cache_entry) list"
  mc_last_cleanup :: pytime

definition new_cache :: "int \<Rightarrow> int \<Rightarrow> pytime \<Rightarrow> 'v memory_cache" where
  "new_cache n interval now = \<lparr>max_size = n, mc_interval = interval, entries = [], mc_last_cleanup = now\<rparr>"

definition cache_cleanup :: "pytime \<Rightarrow> 'v memory_cache \<Rightarrow> 'v memory_cache" where
  "cache_cleanup now c =
     (if now - mc_last_cleanup c < mc_interval c * 1000000 then c
      else c\<lparr>entries := filter (\<lambda>(k, e). \<not> is_expired now e) (entries c), mc_last_cleanup := now\<rparr>)"

text \<open>\<open>move_to_end\<close> of a key that is there, and the assignment of a fresh or present key before it.\<close>

definition to_end :: "string \<Rightarrow> 'v cache_entry \<Rightarrow> (string \<times> 'v cache_entry) list \<Rightarrow> (string \<times> 'v cache_entry) list" where
  "to_end k e d = AList.delete k d @ [(k, e)]"

definition cache_get :: "pytime \<Rightarrow> string \<Rightarrow> 'v memory_cache \<Rightarrow> 'v option \<times> 'v memory_cache" where
  "cache_get now k c =
     (let c1 = cache_cleanup now c
      in case map_of (entries c1) k of
           None \<Rightarrow> (None, c1)
         | Some e \<Rightarrow>
             if is_expired now e then (None, c1\<lparr>entries := AList.delete k (entries c1)\<rparr>)
             else (Some (entry_value e), c1\<lparr>entries := to_end k e (entries c1)\<rparr>))"

text \<open>\<open>None\<close> is the \<open>KeyError\<close> of \<open>popitem\<close> on an empty cache of size 0.\<close>

definition cache_set :: "pytime \<Rightarrow> string \<Rightarrow> 'v \<Rightarrow> int \<Rightarrow> 'v memory_cache \<Rightarrow> 'v memory_cache option" where
  "cache_set now k v ttl_seconds c =
     (let c1 = cache_cleanup now c;
          full = (max_size c1 \<le> int (length (entries c1)) \<and> map_of (entries c1) k = None)
      in if full \<and> entries c1 = [] then None
         else Some (c1\<lparr>entries := to_end k (new_entry now v ttl_seconds)
                        (if full then tl (entries c1) else entries c1)\<rparr>))"

definition cache_delete :: "string \<Rightarrow> 'v memory_cache \<Rightarrow> 'v memory_cache" where
  "cache_delete k c = c\<lparr>entries := AList.delete k (entries c)\<rparr>"

definition cache_clear :: "'v memory_cache \<Rightarrow> 'v memory_cache" where
  "cache_clear c = c\<lparr>entries := []\<rparr>"

definition backend_stats :: "'v memory_cache \<Rightarrow> nat \<times> int" where
  "backend_stats c = (length (entries c), max_size c)"

section \<open>The service\<close>

record cache_service =
  cs_enabled :: bool
  key_prefix :: string
  backend :: "json memory_cache"
  hits :: nat
  misses :: nat
  sets :: nat
  deletes :: nat

definition full_key :: "cache_service \<Rightarrow> string \<Rightarrow> string" where
  "full_key s k =
     (if key_prefix s \<noteq> [] \<and> \<not> starts_with (key_prefix s @ '':'') k then key_prefix s @ CHR '':'' # k else k)"

text \<open>A stored \<open>None\<close> (\<open>JNull\<close>) cannot be told from a miss.\<close>

definition service_get :: "pytime \<Rightarrow> string \<Rightarrow> cache_service \<Rightarrow> json \<times> cache_service" where
  "service_get now k s =
     (if \<not> cs_enabled s then (JNull, s)
      else let (r, b) = cache_get now (full_key s k) (backend s);
               v = (case r of None \<Rightarrow> JNull | Some v \<Rightarrow> v);
               s1 = s\<lparr>backend := b\<rparr>
           in (v, if v \<noteq> JNull then s1\<lparr>hits := hits s1 + 1\<rparr> else s1\<lparr>misses := misses s1 + 1\<rparr>))"

definition service_set :: "pytime \<Rightarrow> string \<Rightarrow> json \<Rightarrow> int \<Rightarrow> cache_service \<Rightarrow> cache_service option" where
  "service_set now k v ttl_seconds s =
     (if \<not> cs_enabled s then Some s
      else map_option (\<lambda>b. s\<lparr>backend := b, sets := sets s + 1\<rparr>) (cache_set now (full_key s k) v ttl_seconds (backend s)))"

definition service_delete :: "string \<Rightarrow> cache_service \<Rightarrow> cache_service" where
  "service_delete k s =
     (if \<not> cs_enabled s then s
      else s\<lparr>backend := cache_delete (full_key s k) (backend s), deletes := deletes s + 1\<rparr>)"

definition service_clear :: "cache_service \<Rightarrow> cache_service" where
  "service_clear s = s\<lparr>backend := cache_clear (backend s)\<rparr>"

definition namespaced_key :: "string \<Rightarrow> string \<Rightarrow> string \<Rightarrow> string \<Rightarrow> string" where
  "namespaced_key prefix service operation k =
     join '':'' (map (\<lambda>p. rstrip_by (\<lambda>c. c = CHR '':'') (lstrip_by (\<lambda>c. c = CHR '':'') p))
                  (filter (\<lambda>p. p \<noteq> []) [prefix, service, operation, k]))"

text \<open>\<open>cached\<close>: \<open>loader\<close> is what the loader returns, \<open>t1\<close> and \<open>t2\<close> the times of the look-up and of the store.\<close>

definition cached ::
  "pytime \<Rightarrow> pytime \<Rightarrow> string \<Rightarrow> string \<Rightarrow> string \<Rightarrow> int \<Rightarrow> json \<Rightarrow> cache_service \<Rightarrow> (json \<times> cache_service) option" where
  "cached t1 t2 service operation k ttl_seconds loader s =
     (let cache_key = namespaced_key (key_prefix s) service operation k;
          (hit, s1) = service_get t1 cache_key s
      in if hit \<noteq> JNull then Some (hit, s1)
         else map_option (\<lambda>s2. (loader, s2)) (service_set t2 cache_key loader ttl_seconds s1))"

section \<open>Runs\<close>

datatype 'v cache_op = Get string | Set string 'v int | Delete string | Clear

fun cache_step :: "pytime \<times> 'v cache_op \<Rightarrow> 'v memory_cache \<Rightarrow> 'v memory_cache option" where
  "cache_step (now, Get k) c = Some (snd (cache_get now k c))"
| "cache_step (now, Set k v ttl) c = cache_set now k v ttl c"
| "cache_step (now, Delete k) c = Some (cache_delete k c)"
| "cache_step (now, Clear) c = Some (cache_clear c)"

fun cache_run :: "(pytime \<times> 'v cache_op) list \<Rightarrow> 'v memory_cache \<Rightarrow> 'v memory_cache option" where
  "cache_run [] c = Some c"
| "cache_run (op # ops) c = Option.bind (cache_step op c) (cache_run ops)"

text \<open>What a cache without bounds would hold: the last value set for a key and when it expires.\<close>

fun latest_step :: "pytime \<times> 'v cache_op \<Rightarrow> (string \<Rightarrow> ('v \<times> pytime) option) \<Rightarrow> string \<Rightarrow> ('v \<times> pytime) option" where
  "latest_step (now, Get k) m = m"
| "latest_step (now, Set k v ttl) m = m(k \<mapsto> (v, now + ttl * 1000000))"
| "latest_step (now, Delete k) m = m(k := None)"
| "latest_step (now, Clear) m = (\<lambda>_. None)"

definition latest :: "(pytime \<times> 'v cache_op) list \<Rightarrow> string \<Rightarrow> ('v \<times> pytime) option" where
  "latest ops = fold latest_step ops (\<lambda>_. None)"

section \<open>What an entry can be\<close>

definition cache_wf :: "'v memory_cache \<Rightarrow> bool" where
  "cache_wf c \<longleftrightarrow> distinct (keys (entries c)) \<and> 1 \<le> max_size c \<and> int (length (entries c)) \<le> max_size c"

lemma map_of_to_end [simp]: "map_of (to_end k e d) k' = (if k' = k then Some e else map_of d k')"
  by (auto simp: to_end_def map_add_def split: option.splits)

lemma distinct_to_end [simp]: "distinct (keys d) \<Longrightarrow> distinct (keys (to_end k e d))"
  using keys_delete [of k d] by (simp add: to_end_def del: set_map)

lemma length_delete_present: "distinct (keys d) \<Longrightarrow> map_of d k = Some e \<Longrightarrow> Suc (length (AList.delete k d)) = length d"
proof (induction d)
  case (Cons p d)
  show ?case
  proof (cases "fst p = k")
    case True
    then have "AList.delete k d = d" using Cons.prems(1) by (intro AList.delete_id) auto
    then show ?thesis using True by (cases p) simp
  qed (use Cons in \<open>cases p, auto\<close>)
qed simp

lemma length_to_end:
  "distinct (keys d) \<Longrightarrow> length (to_end k e d) = (if map_of d k = None then Suc (length d) else length d)"
proof (cases "map_of d k")
  case None
  then have "AList.delete k d = d" by (simp add: AList.delete_id map_of_eq_None_iff)
  then show ?thesis using None by (simp add: to_end_def)
next
  case (Some e')
  then show "distinct (keys d) \<Longrightarrow> ?thesis" using length_delete_present [of d k e'] by (simp add: to_end_def)
qed

lemma map_of_filter_some: "distinct (keys d) \<Longrightarrow> map_of (filter P d) k = Some e \<Longrightarrow> map_of d k = Some e"
  by (metis distinct_keys_filter filter_is_subset map_of_SomeD map_of_is_SomeI subsetD)

lemma map_of_tl_some: "distinct (keys d) \<Longrightarrow> map_of (tl d) k = Some e \<Longrightarrow> map_of d k = Some e"
  by (cases d) (auto dest: map_of_SomeD intro: rev_image_eqI)

lemma cleanup_fields [simp]: "max_size (cache_cleanup now c) = max_size c"
  by (simp add: cache_cleanup_def)

lemma cleanup_entries:
  "entries (cache_cleanup now c) = entries c \<or>
   entries (cache_cleanup now c) = filter (\<lambda>(k, e). \<not> is_expired now e) (entries c)"
  by (simp add: cache_cleanup_def)

lemma cleanup_wf: "cache_wf c \<Longrightarrow> cache_wf (cache_cleanup now c)"
  using cleanup_entries [of now c] length_filter_le [of "\<lambda>(k, e). \<not> is_expired now e" "entries c"]
  by (auto simp: cache_wf_def simp del: length_filter_le)

lemma cleanup_some: "cache_wf c \<Longrightarrow> map_of (entries (cache_cleanup now c)) k = Some e \<Longrightarrow> map_of (entries c) k = Some e"
  using cleanup_entries [of now c] map_of_filter_some by (fastforce simp: cache_wf_def)

lemma cleanup_keeps:
  assumes "map_of (entries c) k = Some e" and "\<not> is_expired now e" and "cache_wf c"
  shows "map_of (entries (cache_cleanup now c)) k = Some e"
  using cleanup_entries [of now c]
proof
  assume "entries (cache_cleanup now c) = filter (\<lambda>(k, e). \<not> is_expired now e) (entries c)"
  moreover have "(k, e) \<in> set (filter (\<lambda>(k, e). \<not> is_expired now e) (entries c))"
    using assms map_of_SomeD by force
  ultimately show ?thesis using assms(3) by (simp add: cache_wf_def)
qed (use assms in simp)

lemma delete_wf: "cache_wf c \<Longrightarrow> cache_wf (c\<lparr>entries := AList.delete k (entries c)\<rparr>)"
  using AList.length_delete_le [of k "entries c"] by (simp add: cache_wf_def)

lemma set_not_stuck: "cache_wf c \<Longrightarrow> \<exists>c'. cache_set now k v ttl c = Some c'"
  using cleanup_wf [of c now] by (auto simp: cache_set_def cache_wf_def Let_def)

lemma cache_step_wf:
  assumes "cache_wf c"
  shows "\<exists>c'. cache_step (now, op) c = Some c' \<and> cache_wf c' \<and> max_size c' = max_size c"
proof -
  have w: "cache_wf (cache_cleanup now c)" using assms by (rule cleanup_wf)
  show ?thesis
  proof (cases op)
    case (Get k)
    then show ?thesis using w delete_wf [OF w, of k]
      by (auto simp: cache_get_def Let_def cache_wf_def length_to_end split: option.splits)
  next
    case (Set k v ttl)
    have "distinct (keys (tl d))" if "distinct (keys d)" for d :: "(string \<times> 'a cache_entry) list"
      using that by (cases d) auto
    moreover have "map_of (tl d) k = None" if "map_of d k = None" for d :: "(string \<times> 'a cache_entry) list"
      using that by (cases d) (auto split: if_splits)
    ultimately show ?thesis using Set w
      by (auto simp: cache_set_def Let_def cache_wf_def length_to_end)
  qed (use assms delete_wf [OF assms] in \<open>auto simp: cache_delete_def cache_clear_def cache_wf_def\<close>)
qed

lemma cache_run_wf: "cache_wf c \<Longrightarrow> \<exists>c'. cache_run ops c = Some c' \<and> cache_wf c' \<and> max_size c' = max_size c"
proof (induction ops arbitrary: c)
  case (Cons op ops)
  obtain now o' where op: "op = (now, o')" by fastforce
  obtain c1 where "cache_step op c = Some c1" "cache_wf c1" "max_size c1 = max_size c"
    using cache_step_wf [OF Cons.prems, of now o'] op by auto
  then show ?case using Cons.IH [of c1] by auto
qed simp

text \<open>Every entry is the value last set for its key.\<close>

definition holds_latest :: "'v memory_cache \<Rightarrow> (string \<Rightarrow> ('v \<times> pytime) option) \<Rightarrow> bool" where
  "holds_latest c m \<longleftrightarrow> (\<forall>k e. map_of (entries c) k = Some e \<longrightarrow> m k = Some (entry_value e, entry_expires e))"

lemma cache_step_latest:
  assumes "cache_wf c" and "holds_latest c m" and "cache_step (now, op) c = Some c'"
  shows "holds_latest c' (latest_step (now, op) m)"
proof -
  have w: "cache_wf (cache_cleanup now c)" using assms(1) by (rule cleanup_wf)
  have h: "holds_latest (cache_cleanup now c) m"
    using assms(1,2) cleanup_some unfolding holds_latest_def by blast
  show ?thesis
  proof (cases op)
    case (Get k)
    then show ?thesis using assms(3) h
      by (auto simp: cache_get_def Let_def holds_latest_def split: option.splits if_splits)
  next
    case (Set k v ttl)
    then show ?thesis using assms(3) h w map_of_tl_some [of "entries (cache_cleanup now c)"]
      by (auto simp: cache_set_def Let_def holds_latest_def new_entry_def cache_wf_def split: if_splits)
  qed (use assms in \<open>auto simp: cache_delete_def cache_clear_def holds_latest_def\<close>)
qed

lemma cache_run_latest:
  "cache_wf c \<Longrightarrow> holds_latest c m \<Longrightarrow> cache_run ops c = Some c' \<Longrightarrow> holds_latest c' (fold latest_step ops m)"
proof (induction ops arbitrary: c m)
  case (Cons op ops)
  obtain now o' where op: "op = (now, o')" by fastforce
  obtain c1 where c1: "cache_step op c = Some c1" "cache_wf c1"
    using cache_step_wf [OF Cons.prems(1), of now o'] op by auto
  then show ?case using Cons.IH [OF c1(2)] cache_step_latest [OF Cons.prems(1,2)] Cons.prems(3) op by auto
qed simp

lemma cache_get_hit:
  "fst (cache_get now k c) = Some v \<longleftrightarrow>
   (\<exists>e. map_of (entries (cache_cleanup now c)) k = Some e \<and> \<not> is_expired now e \<and> v = entry_value e)"
  by (auto simp: cache_get_def Let_def split: option.splits)

text \<open>
  C12: the cache never serves anything stale and never outgrows its size. After any operations on a
  fresh cache of size at least 1 there is no error, there are at most as many entries as the size,
  and a hit returns the value last set for the key, with no deletion of it since, before its time
  to live has passed.
\<close>

theorem cache_never_stale:
  assumes "1 \<le> n"
  shows "\<exists>c. cache_run ops (new_cache n interval t0) = Some c \<and> int (length (entries c)) \<le> n \<and>
     (case fst (cache_get now k c) of None \<Rightarrow> True | Some v \<Rightarrow> \<exists>t. latest ops k = Some (v, t) \<and> now < t)"
proof -
  have w: "cache_wf (new_cache n interval t0 :: 'a memory_cache)" using assms by (simp add: cache_wf_def new_cache_def)
  obtain c where c: "cache_run ops (new_cache n interval t0) = Some c" "cache_wf c" "max_size c = n"
    using cache_run_wf [OF w, of ops] by (auto simp: new_cache_def)
  have "holds_latest c (latest ops)"
    using cache_run_latest [OF w _ c(1), of "\<lambda>_. None"] by (simp add: latest_def holds_latest_def new_cache_def)
  then have "holds_latest (cache_cleanup now c) (latest ops)"
    using cleanup_some [OF c(2)] unfolding holds_latest_def by blast
  then have "\<exists>t. latest ops k = Some (v, t) \<and> now < t" if "fst (cache_get now k c) = Some v" for v
    using that by (auto simp: cache_get_hit holds_latest_def is_expired_def)
  then show ?thesis using c by (auto simp: cache_wf_def split: option.splits)
qed

theorem cache_never_stale_witness:
  "\<exists>c. cache_run [(0, Set ''a'' (1 :: int) 5), (1, Set ''b'' 2 5), (2, Set ''c'' 3 5)] (new_cache 2 60 0) = Some c \<and>
     int (length (entries c)) \<le> 2 \<and> fst (cache_get 3 ''c'' c) = Some 3"
proof -
  let ?ops = "[(0, Set ''a'' (1 :: int) 5), (1, Set ''b'' 2 5), (2, Set ''c'' 3 5)]"
  obtain c where c: "cache_run ?ops (new_cache 2 60 0) = Some c" "int (length (entries c)) \<le> 2"
    using cache_never_stale [where n = 2 and ops = ?ops and interval = 60 and ?t0.0 = 0 and now = 3 and k = "''c''"] by auto
  then have "fst (cache_get 3 ''c'' c) = Some 3"
    by (auto simp: cache_set_def cache_get_def cache_cleanup_def new_cache_def to_end_def is_expired_def new_entry_def)
  with c show ?thesis by blast
qed

section \<open>What stays in the cache\<close>

text \<open>Everything behind the entry of \<open>k\<close> has been used since \<open>k\<close> was.\<close>

definition retained :: "'v memory_cache \<Rightarrow> string \<Rightarrow> 'v cache_entry \<Rightarrow> string set \<Rightarrow> bool" where
  "retained c k e U \<longleftrightarrow> (\<exists>pre post. entries c = pre @ (k, e) # post \<and> set (keys post) \<subseteq> U)"

fun used_key :: "string \<Rightarrow> 'v cache_op \<Rightarrow> string set" where
  "used_key k (Get j) = {j} - {k}"
| "used_key k (Set j v ttl) = {j} - {k}"
| "used_key k _ = {}"

definition used_keys :: "string \<Rightarrow> (pytime \<times> 'v cache_op) list \<Rightarrow> string set" where
  "used_keys k ops = (\<Union>op\<in>set ops. used_key k (snd op))"

fun leaves_key :: "string \<Rightarrow> 'v cache_op \<Rightarrow> bool" where
  "leaves_key k (Get j) = True"
| "leaves_key k (Set j v ttl) = (j \<noteq> k)"
| "leaves_key k (Delete j) = (j \<noteq> k)"
| "leaves_key k Clear = False"

lemma retainedI: "entries c = pre @ (k, e) # post \<Longrightarrow> set (keys post) \<subseteq> U \<Longrightarrow> retained c k e U"
  unfolding retained_def by blast

lemma retained_mono: "retained c k e U \<Longrightarrow> U \<subseteq> V \<Longrightarrow> retained c k e V"
  unfolding retained_def by blast

lemma retained_map_of: "retained c k e U \<Longrightarrow> cache_wf c \<Longrightarrow> map_of (entries c) k = Some e"
  by (auto simp: retained_def cache_wf_def)

lemma retained_filter:
  assumes "retained c k e U" and "entries c' = filter P (entries c)" and "P (k, e)"
  shows "retained c' k e U"
proof -
  from assms(1) obtain pre post where s: "entries c = pre @ (k, e) # post" "set (keys post) \<subseteq> U" by (auto simp: retained_def)
  show ?thesis
    by (rule retainedI [where pre = "filter P pre" and post = "filter P post"]) (use s assms(2,3) in auto)
qed

lemma retained_delete: "retained c k e U \<Longrightarrow> j \<noteq> k \<Longrightarrow> retained (c\<lparr>entries := AList.delete j (entries c)\<rparr>) k e U"
  by (rule retained_filter [where P = "\<lambda>(k', e). j \<noteq> k'" and c = c]) (simp_all add: AList.delete_eq)

lemma retained_to_end:
  assumes "retained c k e U" and "j \<noteq> k"
  shows "retained (c\<lparr>entries := to_end j e' (entries c)\<rparr>) k e (insert j U)"
proof -
  from retained_delete [OF assms] obtain pre post where
    "AList.delete j (entries c) = pre @ (k, e) # post" "set (keys post) \<subseteq> U"
    by (auto simp: retained_def)
  then have "to_end j e' (entries c) = pre @ (k, e) # (post @ [(j, e')])" "set (keys (post @ [(j, e')])) \<subseteq> insert j U"
    by (auto simp: to_end_def)
  then show ?thesis by (intro retainedI [where pre = pre and post = "post @ [(j, e')]"]) simp_all
qed

lemma retained_same: "retained (c\<lparr>entries := to_end k e d\<rparr>) k e {}"
  by (rule retainedI [where post = "[]"]) (simp_all add: to_end_def)

lemma retained_cleanup: "retained c k e U \<Longrightarrow> \<not> is_expired now e \<Longrightarrow> retained (cache_cleanup now c) k e U"
  using cleanup_entries [of now c]
proof
  assume "retained c k e U" "entries (cache_cleanup now c) = entries c"
  then show ?thesis by (simp add: retained_def)
qed (auto intro: retained_filter)

lemma retained_tl:
  assumes "retained c k e U" and "cache_wf c" and "finite U"
    and "map_of (entries c) j = None" and "max_size c \<le> int (length (entries c))" and "int (card (insert j U)) < max_size c"
  shows "retained (c\<lparr>entries := tl (entries c)\<rparr>) k e U"
proof -
  from assms(1) obtain pre post where s: "entries c = pre @ (k, e) # post" "set (keys post) \<subseteq> U" by (auto simp: retained_def)
  have "pre \<noteq> []"
  proof
    assume "pre = []"
    then have "length (entries c) = Suc (card (set (keys post)))"
      using assms(2) s(1) distinct_card [of "keys post"] by (simp add: cache_wf_def del: set_map)
    moreover have "insert j (set (keys post)) \<subseteq> insert j U" using s(2) by blast
    then have "card (insert j (set (keys post))) \<le> card (insert j U)" using assms(3) by (intro card_mono) auto
    moreover have "j \<notin> set (keys post)" using assms(4) unfolding map_of_eq_None_iff s(1) by (simp add: image_Un)
    ultimately show False using assms(5,6) by (simp del: set_map)
  qed
  then have "tl (entries c) = tl pre @ (k, e) # post" using s(1) by simp
  then show ?thesis using s(2) by (auto simp: retained_def)
qed

lemma cache_step_retains:
  assumes "cache_wf c" and "retained c k e U" and "finite U" and "leaves_key k op" and "\<not> is_expired now e"
    and "int (card (U \<union> used_key k op)) < max_size c" and "cache_step (now, op) c = Some c'"
  shows "retained c' k e (U \<union> used_key k op)"
proof -
  let ?c1 = "cache_cleanup now c"
  have w: "cache_wf ?c1" using assms(1) by (rule cleanup_wf)
  have r: "retained ?c1 k e U" using assms(2,5) by (rule retained_cleanup)
  show ?thesis
  proof (cases op)
    case (Get j)
    show ?thesis
    proof (cases "j = k")
      case True
      then have "c' = ?c1\<lparr>entries := to_end k e (entries ?c1)\<rparr>"
        using assms(5,7) Get retained_map_of [OF r w] by (simp add: cache_get_def Let_def)
      then show ?thesis using retained_mono [OF retained_same] by blast
    next
      case False
      have "retained c' k e (insert j U)"
        using assms(7) Get r retained_to_end [OF r False] retained_delete [OF r False]
        by (auto simp: cache_get_def Let_def intro: retained_mono split: option.splits if_splits)
      then show ?thesis using Get False by simp
    qed
  next
    case (Set j v ttl)
    then have j: "j \<noteq> k" using assms(4) by simp
    have "retained (?c1\<lparr>entries := tl (entries ?c1)\<rparr>) k e U"
      if "map_of (entries ?c1) j = None" "max_size ?c1 \<le> int (length (entries ?c1))"
      by (rule retained_tl [OF r w assms(3) that]) (use assms(6) Set j in simp)
    then have "retained c' k e (insert j U)"
      using assms(7) Set r retained_to_end [OF r j] retained_to_end [OF _ j, of "?c1\<lparr>entries := tl (entries ?c1)\<rparr>"]
      by (auto simp: cache_set_def Let_def split: if_splits)
    then show ?thesis using Set j by simp
  qed (use assms retained_delete in \<open>auto simp: cache_delete_def\<close>)
qed

lemma finite_used_key: "finite (used_key k op)"
  by (cases op) auto

lemma cache_run_retains:
  assumes "cache_wf c" and "retained c k e U" and "finite U"
    and "list_all (\<lambda>(t, op). leaves_key k op \<and> \<not> is_expired t e) ops"
    and "int (card (U \<union> used_keys k ops)) < max_size c" and "cache_run ops c = Some c'"
  shows "\<exists>V. retained c' k e V"
  using assms
proof (induction ops arbitrary: c U)
  case (Cons op ops)
  obtain now o' where op: "op = (now, o')" by fastforce
  obtain c1 where c1: "cache_step (now, o') c = Some c1" "cache_wf c1" "max_size c1 = max_size c"
    using cache_step_wf [OF Cons.prems(1), of now o'] by auto
  have sub: "U \<union> used_key k o' \<subseteq> U \<union> used_keys k (op # ops)" by (auto simp: used_keys_def op)
  have fin: "finite (used_keys k (op # ops))" by (auto simp: used_keys_def finite_used_key)
  then have "card (U \<union> used_key k o') \<le> card (U \<union> used_keys k (op # ops))"
    using sub Cons.prems(3) by (intro card_mono) auto
  then have "retained c1 k e (U \<union> used_key k o')"
    using cache_step_retains [OF Cons.prems(1-3) _ _ _ c1(1)] Cons.prems(4,5) op by auto
  moreover have "(U \<union> used_key k o') \<union> used_keys k ops = U \<union> used_keys k (op # ops)"
    by (auto simp: used_keys_def op)
  ultimately show ?case
    using Cons.IH [OF c1(2), of "U \<union> used_key k o'"] Cons.prems(3-6) c1 op by (auto simp: finite_used_key)
qed auto

text \<open>
  The cache evicts least recently used entries first. An entry that was just set or just hit
  survives every run of operations that neither sets nor deletes its key, ends before its time to
  live has passed, and uses fewer distinct other keys than the cache has room for; the run raises
  nothing and the next look-up of the key is a hit with the same value.
\<close>

theorem lru_retains:
  assumes "cache_wf c"
    and "cache_get t k c = (Some (entry_value e), c1) \<and> map_of (entries c) k = Some e \<or>
         cache_set t k (entry_value e) ttl c = Some c1 \<and> e = new_entry t (entry_value e) ttl"
    and "list_all (\<lambda>(t, op). leaves_key k op \<and> t < entry_expires e) ops" and "now < entry_expires e"
    and "int (card (used_keys k ops)) < max_size c"
  shows "\<exists>c2. cache_run ops c1 = Some c2 \<and> fst (cache_get now k c2) = Some (entry_value e)"
proof -
  let ?c0 = "cache_cleanup t c"
  have "\<exists>op. cache_step (t, op) c = Some c1"
    using assms(2)
  proof
    assume "cache_get t k c = (Some (entry_value e), c1) \<and> map_of (entries c) k = Some e"
    then have "cache_step (t, Get k) c = Some c1" by simp
    then show ?thesis by blast
  next
    assume "cache_set t k (entry_value e) ttl c = Some c1 \<and> e = new_entry t (entry_value e) ttl"
    then have "cache_step (t, Set k (entry_value e) ttl) c = Some c1" by simp
    then show ?thesis by blast
  qed
  then obtain op where "cache_step (t, op) c = Some c1" by blast
  then have w1: "cache_wf c1" "max_size c1 = max_size c" using cache_step_wf [OF assms(1), of t op] by auto
  have "\<exists>d. c1 = ?c0\<lparr>entries := to_end k e d\<rparr>" using assms(2)
  proof
    assume a: "cache_get t k c = (Some (entry_value e), c1) \<and> map_of (entries c) k = Some e"
    then obtain e' where e': "map_of (entries ?c0) k = Some e'" "c1 = ?c0\<lparr>entries := to_end k e' (entries ?c0)\<rparr>"
      by (auto simp: cache_get_def Let_def split: option.splits if_splits)
    then show ?thesis using cleanup_some [OF assms(1) e'(1)] a by auto
  next
    assume a: "cache_set t k (entry_value e) ttl c = Some c1 \<and> e = new_entry t (entry_value e) ttl"
    then have "c1 = ?c0\<lparr>entries := to_end k (new_entry t (entry_value e) ttl)
        (if max_size ?c0 \<le> int (length (entries ?c0)) \<and> map_of (entries ?c0) k = None then tl (entries ?c0) else entries ?c0)\<rparr>"
      by (simp only: cache_set_def Let_def split: if_splits) auto
    then show ?thesis using a by (metis (no_types))
  qed
  then have r: "retained c1 k e {}" using retained_same by auto
  obtain c2 where c2: "cache_run ops c1 = Some c2" "cache_wf c2" using cache_run_wf [OF w1(1)] by blast
  have "list_all (\<lambda>(t, op). leaves_key k op \<and> \<not> is_expired t e) ops"
    using assms(3) by (auto simp: is_expired_def list_all_iff)
  then obtain V where "retained c2 k e V"
    using cache_run_retains [OF w1(1) r _ _ _ c2(1)] assms(5) w1(2) by auto
  then have "map_of (entries (cache_cleanup now c2)) k = Some e"
    using cleanup_keeps retained_map_of c2(2) assms(4) by (metis is_expired_def linorder_not_less)
  then have "fst (cache_get now k c2) = Some (entry_value e)"
    using assms(4) by (auto simp: cache_get_hit is_expired_def)
  with c2(1) show ?thesis by blast
qed

theorem lru_retains_witness:
  "\<exists>c1 c2. cache_set 0 ''a'' (1 :: int) 5 (new_cache 2 60 0) = Some c1 \<and>
     cache_run [(1, Set ''b'' 2 5), (2, Get ''a''), (3, Set ''b'' 3 5)] c1 = Some c2 \<and> fst (cache_get 4 ''a'' c2) = Some 1"
proof -
  let ?c = "new_cache 2 60 0 :: int memory_cache"
  let ?ops = "[(1, Set ''b'' 2 5), (2, Get ''a''), (3, Set ''b'' 3 5)] :: (pytime \<times> int cache_op) list"
  have w: "cache_wf ?c" by (simp add: cache_wf_def new_cache_def)
  obtain c1 where c1: "cache_set 0 ''a'' 1 5 ?c = Some c1" using set_not_stuck [OF w] by blast
  have "used_keys ''a'' ?ops = {''b''}" by (auto simp: used_keys_def)
  then have "\<exists>c2. cache_run ?ops c1 = Some c2 \<and> fst (cache_get 4 ''a'' c2) = Some (entry_value (new_entry 0 1 5))"
    by (intro lru_retains [OF w, where t = 0 and ttl = 5]) (simp_all add: c1 new_entry_def, simp add: new_cache_def)
  then show ?thesis using c1 by (simp only: new_entry_def) auto
qed

end
