(* ===== verification/Peer_Store.thy ===== *)
theory Peer_Store imports Doc_Fields Store_Index begin

text \<open>
  Node roles (\<open>federation/node_role.py\<close>), the local store of peers and follows
  (\<open>federation/store.py\<close>), the discovery of peers (\<open>federation/peer_registry.py\<close>) and following
  (\<open>FederationService.follow_peer\<close>). The two JSON files of the store are the lists they hold; the
  set in \<open>follows.json\<close> is written sorted.
\<close>

section \<open>Roles\<close>

datatype node_role = PEER | EDGE | RELAY | REGISTRY

record node_capabilities =
  cap_role :: node_role
  can_accept_inbound_sync :: bool
  must_use_relay :: bool
  advertise_mdns :: bool
  expose_federation_api :: bool

fun capabilities_for_role :: "node_role \<Rightarrow> node_capabilities" where
  "capabilities_for_role PEER =
     \<lparr>cap_role = PEER, can_accept_inbound_sync = True, must_use_relay = False, advertise_mdns = True, expose_federation_api = True\<rparr>"
| "capabilities_for_role EDGE =
     \<lparr>cap_role = EDGE, can_accept_inbound_sync = False, must_use_relay = True, advertise_mdns = True, expose_federation_api = False\<rparr>"
| "capabilities_for_role RELAY =
     \<lparr>cap_role = RELAY, can_accept_inbound_sync = True, must_use_relay = False, advertise_mdns = False, expose_federation_api = True\<rparr>"
| "capabilities_for_role REGISTRY =
     \<lparr>cap_role = REGISTRY, can_accept_inbound_sync = False, must_use_relay = False, advertise_mdns = False, expose_federation_api = True\<rparr>"

fun role_value :: "node_role \<Rightarrow> string" where
  "role_value PEER = ''peer''"
| "role_value EDGE = ''edge''"
| "role_value RELAY = ''relay''"
| "role_value REGISTRY = ''registry''"

text \<open>\<open>None\<close> is the \<open>ValueError\<close>.\<close>

definition parse_node_role :: "string \<Rightarrow> node_role option" where
  "parse_node_role value =
     (let normalized = lower (strip (if value = [] then ''peer'' else value))
      in find (\<lambda>r. role_value r = normalized) [PEER, EDGE, RELAY, REGISTRY])"

section \<open>The store\<close>

record peer_state =
  ps_did :: did
  ps_base_url :: string
  ps_display_name :: "string option"
  ps_source :: string
  ps_followed :: bool
  last_seen_at :: "datetime option"
  last_sync_at :: "datetime option"
  records_synced :: int

record federation_store =
  peers :: "peer_state list"
  follows :: "did list"

definition empty_federation_store :: federation_store where
  "empty_federation_store = \<lparr>peers = [], follows = []\<rparr>"

definition upsert_peer :: "peer_state \<Rightarrow> federation_store \<Rightarrow> federation_store" where
  "upsert_peer p st = st\<lparr>peers := vals (AList.update (ps_did p) p (dict_by ps_did (peers st)))\<rparr>"

definition is_followed :: "federation_store \<Rightarrow> did \<Rightarrow> bool" where
  "is_followed st d \<longleftrightarrow> d \<in> set (follows st)"

definition save_follows :: "did list \<Rightarrow> federation_store \<Rightarrow> federation_store" where
  "save_follows ds st = st\<lparr>follows := sort (remdups ds)\<rparr>"

definition set_followed :: "did \<Rightarrow> bool \<Rightarrow> federation_store \<Rightarrow> federation_store" where
  "set_followed d followed st =
     (let st1 = save_follows (if followed then d # follows st else filter (\<lambda>x. x \<noteq> d) (follows st)) st
      in st1\<lparr>peers := map (\<lambda>p. if ps_did p = d then p\<lparr>ps_followed := followed\<rparr> else p) (peers st1)\<rparr>)"

section \<open>Discovery\<close>

text \<open>
  \<open>base_url\<close> is \<open>build_federation_base_url\<close> (scheme and host of \<open>urlparse\<close>), with \<open>None\<close> for its
  \<open>ValueError\<close>.
\<close>

fun merge_urls :: "(string \<Rightarrow> string option) \<Rightarrow> string list \<Rightarrow> string list \<Rightarrow> string list" where
  "merge_urls base_url [] out = out"
| "merge_urls base_url (raw # rest) out =
     (if strip raw = [] then merge_urls base_url rest out
      else case base_url raw of
        None \<Rightarrow> merge_urls base_url rest out
      | Some u \<Rightarrow> merge_urls base_url rest (if u \<in> set out then out else out @ [u]))"

definition merge_manual_urls :: "(string \<Rightarrow> string option) \<Rightarrow> string list \<Rightarrow> string list \<Rightarrow> string list" where
  "merge_manual_urls base_url configured extra = merge_urls base_url (configured @ extra) []"

text \<open>\<open>identify\<close> is the answer of a base URL: its decoded body, or \<open>None\<close> for any failure to get one.\<close>

definition peer_of_info :: "datetime \<Rightarrow> string \<Rightarrow> string \<Rightarrow> did \<Rightarrow> string option \<Rightarrow> peer_state option \<Rightarrow> peer_state" where
  "peer_of_info now url source d name prior =
     \<lparr>ps_did = d, ps_base_url = url, ps_display_name = name, ps_source = source,
      ps_followed = (case prior of None \<Rightarrow> False | Some p \<Rightarrow> ps_followed p),
      last_seen_at = Some now, last_sync_at = Option.bind prior last_sync_at,
      records_synced = (case prior of None \<Rightarrow> 0 | Some p \<Rightarrow> records_synced p)\<rparr>"

text \<open>
  The loop of \<open>refresh\<close> over targets \<open>(base URL, source)\<close>. An answer that is no object, a DID that
  is an object or list, or a display name that is neither text nor null raises (\<open>None\<close>) and keeps
  what was stored before it.
\<close>

fun refresh_loop ::
  "(string \<Rightarrow> json option) \<Rightarrow> datetime \<Rightarrow> did \<Rightarrow> (string \<times> string) list \<Rightarrow> string list \<Rightarrow> federation_store \<Rightarrow>
   peer_state list option \<times> federation_store" where
  "refresh_loop identify now local_did [] seen st = (Some [], st)"
| "refresh_loop identify now local_did ((url, source) # targets) seen st =
     (if url \<in> set seen then refresh_loop identify now local_did targets seen st
      else case identify url of
        None \<Rightarrow> refresh_loop identify now local_did targets (url # seen) st
      | Some (JObj info) \<Rightarrow>
          (case (case map_of info ''did'' of None \<Rightarrow> Some [] | Some j \<Rightarrow> py_str j) of
             None \<Rightarrow> (None, st)
           | Some d \<Rightarrow>
               if d = [] \<or> d = local_did then refresh_loop identify now local_did targets (url # seen) st
               else case read_opt_str (jget info ''display_name'') of
                 None \<Rightarrow> (None, st)
               | Some name \<Rightarrow>
                   (let p = peer_of_info now url source d name (map_of (dict_by ps_did (peers st)) d);
                        (rest, st') = refresh_loop identify now local_did targets (url # seen) (upsert_peer p st)
                    in (map_option ((#) p) rest, st')))
      | Some _ \<Rightarrow> (None, st))"

definition refresh_peers ::
  "(string \<Rightarrow> string option) \<Rightarrow> (string \<Rightarrow> json option) \<Rightarrow> datetime \<Rightarrow> did \<Rightarrow> string list \<Rightarrow> string list \<Rightarrow> string list \<Rightarrow>
   federation_store \<Rightarrow> peer_state list option \<times> federation_store" where
  "refresh_peers base_url identify now local_did manual_urls extra_manual_urls mdns_urls st =
     refresh_loop identify now local_did
       (map (\<lambda>u. (u, ''manual'')) (merge_manual_urls base_url manual_urls extra_manual_urls) @
        map (\<lambda>u. (u, ''mdns'')) mdns_urls) [] st"

section \<open>The peers as a keyed store\<close>

definition find_peer :: "federation_store \<Rightarrow> did \<Rightarrow> peer_state option" where
  "find_peer st d = map_of (dict_by ps_did (peers st)) d"

definition store_wf :: "federation_store \<Rightarrow> bool" where
  "store_wf st \<longleftrightarrow> distinct (map ps_did (peers st))"

lemma dict_by_distinct: "distinct (map f vs) \<Longrightarrow> dict_by f vs = map (\<lambda>v. (f v, v)) vs"
  by (induction vs rule: rev_induct) (auto simp: dict_by_def update_new comp_def)

lemma keyed_by_own_key: "\<forall>(k, v)\<in>set d. f v = k \<Longrightarrow> map (\<lambda>v. (f v, v)) (vals d) = d"
  by (induction d) auto

lemma dict_upsert:
  assumes "store_wf st"
  shows "store_wf (upsert_peer p st)"
    "dict_by ps_did (peers (upsert_peer p st)) = AList.update (ps_did p) p (dict_by ps_did (peers st))"
proof -
  let ?d = "AList.update (ps_did p) p (dict_by ps_did (peers st))"
  have d: "dict_by ps_did (peers st) = map (\<lambda>v. (ps_did v, v)) (peers st)"
    using assms by (intro dict_by_distinct) (simp add: store_wf_def)
  have "\<forall>(k, v)\<in>set ?d. ps_did v = k"
    using set_update_subset [of "ps_did p" p "dict_by ps_did (peers st)"] unfolding d by auto
  then have own: "map (\<lambda>v. (ps_did v, v)) (vals ?d) = ?d" by (rule keyed_by_own_key)
  then have "map ps_did (vals ?d) = keys ?d" by (metis (no_types, lifting) fst_conv map_map comp_apply map_cong)
  then have dist: "distinct (map ps_did (vals ?d))" by (simp del: map_map)
  then show "store_wf (upsert_peer p st)" by (simp add: store_wf_def upsert_peer_def)
  show "dict_by ps_did (peers (upsert_peer p st)) = ?d"
    using dict_by_distinct [OF dist] own by (simp add: upsert_peer_def)
qed

lemma find_peer_iff: "store_wf st \<Longrightarrow> find_peer st d = Some p \<longleftrightarrow> p \<in> set (peers st) \<and> ps_did p = d"
  by (auto simp: find_peer_def store_wf_def dict_by_distinct map_of_eq_Some_iff comp_def)

interpretation prs: listed_store ps_did upsert_peer find_peer "\<lambda>_. True" store_wf peers
proof unfold_locales
  show "find_peer (upsert_peer p st) d = (if d = ps_did p then Some p else find_peer st d)" if "store_wf st" for p st d
    using that by (simp add: find_peer_def dict_upsert)
qed (auto simp: find_peer_iff dict_upsert(1))

lemma followed_set_followed: "is_followed (set_followed d b st) x \<longleftrightarrow> (if x = d then b else is_followed st x)"
  by (auto simp: is_followed_def set_followed_def save_follows_def Let_def)

lemma followed_upsert [simp]: "is_followed (upsert_peer p st) = is_followed st"
  by (simp add: is_followed_def upsert_peer_def fun_eq_iff)

end
