(* ===== verification/Edit_Distance.thy ===== *)
theory Edit_Distance imports Py_Prelude begin

text \<open>
  The Levenshtein distance of the matching layers (\<open>calculate_levenshtein_distance\<close> of
  \<open>matching/layers/base.py\<close>, and the same code again as \<open>_levenshtein_distance\<close> of
  \<open>services/matching_service.py\<close>): two rows of the table of prefix distances, the longer string
  walked by the outer loop. The specification is the least cost of an edit script.
\<close>

section \<open>The code\<close>

text \<open>The inner loop: \<open>cur\<close> is the row built so far, \<open>p\<close> and \<open>q\<close> are \<open>previous_row[j]\<close> and \<open>[j + 1]\<close>.\<close>

fun row_loop :: "'a \<Rightarrow> nat list \<Rightarrow> 'a list \<Rightarrow> nat list \<Rightarrow> nat list" where
  "row_loop c1 (p # q # prev) (c2 # s2) cur =
     row_loop c1 (q # prev) s2 (cur @ [min (min (q + 1) (last cur + 1)) (p + (if c1 \<noteq> c2 then 1 else 0))])"
| "row_loop c1 prev s2 cur = cur"

text \<open>The outer loop over \<open>enumerate(str1)\<close>.\<close>

fun rows_loop :: "nat \<Rightarrow> 'a list \<Rightarrow> 'a list \<Rightarrow> nat list \<Rightarrow> nat list" where
  "rows_loop i [] s2 prev = prev"
| "rows_loop i (c1 # s1) s2 prev = rows_loop (i + 1) s1 s2 (row_loop c1 prev s2 [i + 1])"

function levenshtein :: "'a list \<Rightarrow> 'a list \<Rightarrow> nat" where
  "levenshtein s1 s2 =
     (if length s1 < length s2 then levenshtein s2 s1
      else if s2 = [] then length s1
      else last (rows_loop 0 s1 s2 [0..<length s2 + 1]))"
  by pat_completeness auto
termination
  by (relation "measure (\<lambda>(s1, s2). if length s1 < length s2 then 1 else 0)") auto

declare levenshtein.simps [simp del]

section \<open>Edit scripts\<close>

datatype 'a edit = Keep | Change 'a | Add 'a | Drop

fun run_script :: "'a edit list \<Rightarrow> 'a list \<Rightarrow> 'a list option" where
  "run_script [] xs = (if xs = [] then Some [] else None)"
| "run_script (Add a # es) xs = map_option ((#) a) (run_script es xs)"
| "run_script (e # es) [] = None"
| "run_script (Keep # es) (x # xs) = map_option ((#) x) (run_script es xs)"
| "run_script (Change a # es) (x # xs) = map_option ((#) a) (run_script es xs)"
| "run_script (Drop # es) (x # xs) = run_script es xs"

definition script_cost :: "'a edit list \<Rightarrow> nat" where
  "script_cost es = length (filter (\<lambda>e. e \<noteq> Keep) es)"

definition edit_costs :: "'a list \<Rightarrow> 'a list \<Rightarrow> nat set" where
  "edit_costs xs ys = {script_cost es |es. run_script es xs = Some ys}"

lemma script_cost_simps [simp]:
  "script_cost [] = 0" "script_cost (Keep # es) = script_cost es" "script_cost (Change a # es) = Suc (script_cost es)"
  "script_cost (Add a # es) = Suc (script_cost es)" "script_cost (Drop # es) = Suc (script_cost es)"
  by (simp_all add: script_cost_def)

lemma run_script_append:
  "run_script es xs = Some ys \<Longrightarrow> run_script fs us = Some vs \<Longrightarrow> run_script (es @ fs) (xs @ us) = Some (ys @ vs)"
  by (induction es xs arbitrary: ys rule: run_script.induct) (auto split: if_splits)

lemma run_script_rev: "run_script es xs = Some ys \<Longrightarrow> run_script (rev es) (rev xs) = Some (rev ys)"
proof (induction es xs arbitrary: ys rule: run_script.induct)
  case (2 a es xs)
  then obtain ys' where y: "run_script es xs = Some ys'" "ys = a # ys'" by auto
  have "run_script [Add a] [] = Some [a]" by simp
  from run_script_append [OF "2.IH" [OF y(1)] this] show ?case by (simp add: y)
next
  case (4 es x xs)
  then obtain ys' where y: "run_script es xs = Some ys'" "ys = x # ys'" by auto
  have "run_script [Keep] [x] = Some [x]" by simp
  from run_script_append [OF "4.IH" [OF y(1)] this] show ?case by (simp add: y)
next
  case (5 a es x xs)
  then obtain ys' where y: "run_script es xs = Some ys'" "ys = a # ys'" by auto
  have "run_script [Change a] [x] = Some [a]" by simp
  from run_script_append [OF "5.IH" [OF y(1)] this] show ?case by (simp add: y)
next
  case (6 es x xs)
  then have "run_script es xs = Some ys" by simp
  moreover have "run_script [Drop] [x] = Some []" by simp
  ultimately show ?case using run_script_append [OF "6.IH"] by force
qed (auto split: if_splits)

lemma script_cost_rev [simp]: "script_cost (rev es) = script_cost es"
  by (simp add: script_cost_def rev_filter [symmetric])

lemma edit_costs_rev: "edit_costs (rev xs) (rev ys) = edit_costs xs ys"
proof -
  have "edit_costs xs ys \<subseteq> edit_costs (rev xs) (rev ys)" for xs ys :: "'a list"
  proof
    fix n assume "n \<in> edit_costs xs ys"
    then obtain es where "run_script es xs = Some ys" "n = script_cost es" by (auto simp: edit_costs_def)
    then show "n \<in> edit_costs (rev xs) (rev ys)"
      unfolding edit_costs_def using run_script_rev [of es xs ys] script_cost_rev [of es] by (metis (mono_tags) mem_Collect_eq)
  qed
  from this [of xs ys] this [of "rev xs" "rev ys"] show ?thesis by simp
qed

section \<open>The recurrence\<close>

fun ed :: "'a list \<Rightarrow> 'a list \<Rightarrow> nat" where
  "ed [] ys = length ys"
| "ed (x # xs) [] = Suc (length xs)"
| "ed (x # xs) (y # ys) =
     min (min (ed xs (y # ys) + 1) (ed (x # xs) ys + 1)) (ed xs ys + (if x \<noteq> y then 1 else 0))"

lemma ed_Nil2 [simp]: "ed xs [] = length xs"
  by (cases xs) auto

lemma ed_sym: "ed xs ys = ed ys xs"
  by (induction xs ys rule: ed.induct) auto

lemma run_map_Add: "run_script (map Add ys) [] = Some ys"
  by (induction ys) auto

lemma script_cost_map_Add [simp]: "script_cost (map Add ys) = length ys"
  by (induction ys) auto

lemma ed_script: "\<exists>es. run_script es xs = Some ys \<and> script_cost es = ed xs ys"
proof (induction xs ys rule: ed.induct)
  case (1 ys)
  show ?case using run_map_Add by (intro exI [of _ "map Add ys"]) simp
next
  case (2 x xs)
  have "run_script (replicate (length zs) Drop) zs = Some []" for zs :: "'a list"
    by (induction zs) auto
  moreover have "script_cost (replicate n Drop) = n" for n
    by (induction n) auto
  ultimately show ?case by (intro exI [of _ "replicate (length (x # xs)) Drop"]) (simp del: replicate.simps add: replicate_Suc)
next
  case (3 x xs y ys)
  obtain a b c where s: "run_script a xs = Some (y # ys)" "script_cost a = ed xs (y # ys)"
    "run_script b (x # xs) = Some ys" "script_cost b = ed (x # xs) ys"
    "run_script c xs = Some ys" "script_cost c = ed xs ys"
    using "3.IH" by blast
  consider "ed (x # xs) (y # ys) = ed xs (y # ys) + 1" | "ed (x # xs) (y # ys) = ed (x # xs) ys + 1"
    | "ed (x # xs) (y # ys) = ed xs ys + (if x \<noteq> y then 1 else 0)"
    by (metis ed.simps(3) min_def)
  then show ?case
  proof cases
    case 1
    then show ?thesis using s by (intro exI [of _ "Drop # a"]) simp
  next
    case 2
    then show ?thesis using s by (intro exI [of _ "Add y # b"]) simp
  next
    case 3
    then show ?thesis using s by (intro exI [of _ "(if x = y then Keep else Change y) # c"]) simp
  qed
qed

lemma ed_minimal: "run_script es xs = Some ys \<Longrightarrow> ed xs ys \<le> script_cost es"
proof (induction es xs arbitrary: ys rule: run_script.induct)
  case (2 a es xs)
  then obtain ys' where y: "run_script es xs = Some ys'" "ys = a # ys'" by auto
  have "ed xs (a # ys') \<le> Suc (ed xs ys')" by (cases xs) auto
  then show ?case using "2.IH" [OF y(1)] y by simp
next
  case (6 es x xs)
  then have "ed xs ys \<le> script_cost es" by simp
  moreover have "ed (x # xs) ys \<le> Suc (ed xs ys)" by (cases ys) auto
  ultimately show ?case by simp
qed (fastforce split: if_splits)+

lemma ed_Least: "ed xs ys = (LEAST n. n \<in> edit_costs xs ys)"
proof (rule Least_equality [symmetric])
  show "ed xs ys \<in> edit_costs xs ys" using ed_script [of xs ys] by (force simp: edit_costs_def)
qed (auto simp: edit_costs_def ed_minimal)

section \<open>The table\<close>

text \<open>The distance of two prefixes, through the recurrence on their reverses.\<close>

definition prefix_ed :: "'a list \<Rightarrow> 'a list \<Rightarrow> nat" where
  "prefix_ed us vs = ed (rev us) (rev vs)"

lemma prefix_ed_snoc:
  "prefix_ed (us @ [x]) (vs @ [y]) =
     min (min (prefix_ed us (vs @ [y]) + 1) (prefix_ed (us @ [x]) vs + 1)) (prefix_ed us vs + (if x \<noteq> y then 1 else 0))"
  by (simp add: prefix_ed_def)

definition ed_row :: "'a list \<Rightarrow> 'a list \<Rightarrow> 'a list \<Rightarrow> nat list" where
  "ed_row us vs ws = map (\<lambda>j. prefix_ed us (vs @ take j ws)) [0..<Suc (length ws)]"

lemma ed_row_Nil: "ed_row us vs [] = [prefix_ed us vs]"
  by (simp add: ed_row_def)

lemma ed_row_Cons: "ed_row us vs (w # ws) = prefix_ed us vs # ed_row us (vs @ [w]) ws"
  by (simp add: ed_row_def upt_conv_Cons map_Suc_upt [symmetric] del: upt_Suc)

lemma row_loop_ed:
  "cur \<noteq> [] \<Longrightarrow> last cur = prefix_ed (us @ [c]) vs \<Longrightarrow>
   row_loop c (ed_row us vs ws) ws cur = butlast cur @ ed_row (us @ [c]) vs ws"
proof (induction ws arbitrary: vs cur)
  case (Cons w ws)
  obtain rest where r: "ed_row us (vs @ [w]) ws = prefix_ed us (vs @ [w]) # rest"
    by (cases ws) (auto simp: ed_row_Nil ed_row_Cons)
  let ?m = "prefix_ed (us @ [c]) (vs @ [w])"
  have "row_loop c (ed_row us vs (w # ws)) (w # ws) cur = row_loop c (ed_row us (vs @ [w]) ws) ws (cur @ [?m])"
    using Cons.prems(2) by (simp add: ed_row_Cons r prefix_ed_snoc)
  also have "\<dots> = butlast (cur @ [?m]) @ ed_row (us @ [c]) (vs @ [w]) ws" by (rule Cons.IH) auto
  also have "\<dots> = butlast cur @ ed_row (us @ [c]) vs (w # ws)"
    using append_butlast_last_id [OF Cons.prems(1)] Cons.prems(2) by (simp add: ed_row_Cons)
  finally show ?case .
next
  case Nil
  then show ?case by (metis append_butlast_last_id ed_row_Nil row_loop.simps(3))
qed

lemma rows_loop_ed: "rows_loop (length us) s1 s2 (ed_row us [] s2) = ed_row (us @ s1) [] s2"
proof (induction s1 arbitrary: us)
  case (Cons c s1)
  have "row_loop c (ed_row us [] s2) s2 [Suc (length us)] = ed_row (us @ [c]) [] s2"
    by (subst row_loop_ed) (simp_all add: prefix_ed_def)
  then show ?case using Cons.IH [of "us @ [c]"] by simp
qed simp

lemma ed_row_start: "ed_row [] [] s2 = [0..<length s2 + 1]"
  by (simp add: ed_row_def prefix_ed_def list_eq_iff_nth_eq del: upt_Suc)

lemma levenshtein_ed: "levenshtein s1 s2 = ed (rev s1) (rev s2)"
proof -
  have core: "last (rows_loop 0 s1 s2 [0..<length s2 + 1]) = ed (rev s1) (rev s2)" for s1 s2 :: "'a list"
    using rows_loop_ed [of "[]" s1 s2] by (simp add: ed_row_start) (simp add: ed_row_def prefix_ed_def)
  show ?thesis
    by (subst levenshtein.simps, subst levenshtein.simps) (auto simp only: core ed_sym split: if_splits, simp_all)
qed

lemma levenshtein_le: "levenshtein s t \<le> n \<longleftrightarrow> (\<exists>es. run_script es s = Some t \<and> script_cost es \<le> n)"
proof
  assume le: "levenshtein s t \<le> n"
  obtain es where "run_script es (rev s) = Some (rev t)" "script_cost es = ed (rev s) (rev t)" using ed_script by blast
  then have "run_script (rev es) s = Some t \<and> script_cost (rev es) \<le> n"
    using run_script_rev[of es "rev s" "rev t"] le by (simp add: levenshtein_ed)
  then show "\<exists>es. run_script es s = Some t \<and> script_cost es \<le> n" by blast
next
  assume "\<exists>es. run_script es s = Some t \<and> script_cost es \<le> n"
  then obtain es where es: "run_script es s = Some t" "script_cost es \<le> n" by blast
  then show "levenshtein s t \<le> n" using ed_minimal[OF run_script_rev[OF es(1)]] by (simp add: levenshtein_ed)
qed

text \<open>
  The distance is the least cost of turning one string into the other. The cheapest edit script
  that keeps, changes, adds and drops characters costs exactly what the two-row table computes,
  whichever string is the longer one.
\<close>

theorem levenshtein_least_cost:
  "levenshtein s t = (LEAST n. n \<in> edit_costs s t) \<and> levenshtein s t \<in> edit_costs s t"
proof -
  have "levenshtein s t = (LEAST n. n \<in> edit_costs (rev s) (rev t))" using levenshtein_ed ed_Least by metis
  moreover have "ed (rev s) (rev t) \<in> edit_costs (rev s) (rev t)"
    using ed_script [of "rev s" "rev t"] by (force simp: edit_costs_def)
  ultimately show ?thesis by (simp add: edit_costs_rev levenshtein_ed)
qed

end
