(* ===== verification/Process_Taxonomy.thy ===== *)
theory Process_Taxonomy imports Py_Prelude begin

text \<open>
  The taxonomy of manufacturing processes (\<open>taxonomy/process_taxonomy.py\<close>): its definitions, their
  validation, the look-up tables built from them, the normalisation of a process name to a
  canonical id, and the hierarchy. Dicts are association lists; the frozen set of aliases is a list
  in some order.
\<close>

section \<open>Keys\<close>

definition upper_char :: "char \<Rightarrow> char" where
  "upper_char c = (let n = of_char c :: nat in if 97 \<le> n \<and> n \<le> 122 then char_of (n - 32) else c)"

lemma upper_char_bits [code]:
  "upper_char (Char b0 b1 b2 b3 b4 b5 b6 b7) =
     (if \<not> b7 \<and> b6 \<and> b5 \<and> (b0 \<or> b1 \<or> b2 \<or> b3 \<or> b4) \<and> \<not> (b4 \<and> b3 \<and> (b2 \<or> b1 \<and> b0))
      then Char b0 b1 b2 b3 b4 False True False else Char b0 b1 b2 b3 b4 b5 b6 b7)"
  by (cases b0; cases b1; cases b2; cases b3; cases b4; cases b5; cases b6; cases b7;
      simp add: upper_char_def Let_def char_of_def bit_Suc_0_iff)

definition upper :: "string \<Rightarrow> string" where
  "upper s = map upper_char s"

text \<open>\<open>re.sub(r"[...]+", " ", s)\<close>: every run of characters in \<open>P\<close> becomes one space.\<close>

function squeeze :: "(char \<Rightarrow> bool) \<Rightarrow> string \<Rightarrow> string" where
  "squeeze P [] = []"
| "squeeze P (c # s) = (if P c then CHR '' '' # squeeze P (dropWhile P s) else c # squeeze P s)"
  by pat_completeness auto
termination
  by (relation "measure (\<lambda>(P, s). length s)") (auto simp: le_imp_less_Suc length_dropWhile_le)

definition is_dash :: "char \<Rightarrow> bool" where
  "is_dash c \<longleftrightarrow> c = CHR ''_'' \<or> c = CHR ''-''"

definition normalize_key :: "string \<Rightarrow> string" where
  "normalize_key s = strip (squeeze is_space (squeeze is_dash (lower (strip s))))"

section \<open>Definitions and their validation\<close>

record process_def =
  canonical_id :: string
  display_name :: string
  tsdc_code :: "string option"
  parent :: "string option"
  aliases :: "string list"
  wikidata_qid :: "string option"

text \<open>A field that is \<open>None\<close> or empty counts as absent.\<close>

definition given :: "string option \<Rightarrow> string option" where
  "given x = (if x = Some [] then None else x)"

definition is_id_char :: "char \<Rightarrow> bool" where
  "is_id_char c \<longleftrightarrow> (let n = of_char c :: nat in (97 \<le> n \<and> n \<le> 122) \<or> (48 \<le> n \<and> n \<le> 57))"

lemma is_id_char_bits [code]:
  "is_id_char (Char b0 b1 b2 b3 b4 b5 b6 b7) \<longleftrightarrow>
     \<not> b7 \<and>
     ((b6 \<and> b5 \<and> (b0 \<or> b1 \<or> b2 \<or> b3 \<or> b4) \<and> \<not> (b4 \<and> b3 \<and> (b2 \<or> b1 \<and> b0))) \<or>
      (\<not> b6 \<and> b5 \<and> b4 \<and> (\<not> b3 \<or> \<not> b2 \<and> \<not> b1)))"
  by (cases b0; cases b1; cases b2; cases b3; cases b4; cases b5; cases b6; cases b7; simp add: is_id_char_def Let_def)

text \<open>\<open>re.match(r"^[a-z0-9][a-z0-9_]*$", s)\<close>; the dollar also matches before a final newline.\<close>

definition snake_case :: "string \<Rightarrow> bool" where
  "snake_case s \<longleftrightarrow>
     (let t = (if s \<noteq> [] \<and> last s = CHR 0x0A then butlast s else s)
      in t \<noteq> [] \<and> is_id_char (hd t) \<and> list_all (\<lambda>c. is_id_char c \<or> c = CHR ''_'') (tl t))"

datatype taxonomy_error =
    DuplicateId string
  | NotSnakeCase string
  | EmptyDisplayName string
  | MissingParent string string
  | CircularHierarchy string
  | AliasCollision string string string

fun check_ids :: "process_def list \<Rightarrow> string list \<Rightarrow> taxonomy_error list" where
  "check_ids [] seen = []"
| "check_ids (d # ds) seen =
     (let cid = canonical_id d
      in (if cid \<in> set seen then [DuplicateId cid] else []) @
         (if cid \<noteq> lower cid \<or> \<not> snake_case cid then [NotSnakeCase cid] else []) @
         (if strip (display_name d) = [] then [EmptyDisplayName cid] else []) @
         check_ids ds (cid # seen))"

lemma unvisited_less:
  "c \<in> set (keys d) \<Longrightarrow> c \<notin> set visited \<Longrightarrow>
   card (set (keys d) - insert c (set visited)) < card (set (keys d) - set visited)"
  by (intro psubset_card_mono) (auto simp del: set_map)

lemma key_of_some: "map_of d c = Some v \<Longrightarrow> c \<in> set (keys d)"
  by (metis map_of_eq_None_iff option.distinct(1) set_map)

text \<open>The walk up the parents; \<open>defs\<close> is \<open>defn_map\<close>.\<close>

function has_cycle :: "(string \<times> process_def) list \<Rightarrow> string list \<Rightarrow> string option \<Rightarrow> bool" where
  "has_cycle defs visited current =
     (case given current of
        None \<Rightarrow> False
      | Some c \<Rightarrow>
          if c \<in> set visited then True
          else has_cycle defs (c # visited) (case map_of defs c of None \<Rightarrow> None | Some d \<Rightarrow> parent d))"
  by pat_completeness auto
termination
proof (relation "measure (\<lambda>(defs, visited, current).
    2 * card (set (keys defs) - set visited) + (if current = None then 0 else 1))", goal_cases)
  case (2 defs visited current c)
  then have cur: "current = Some c" by (auto simp: given_def split: if_splits)
  show ?case
  proof (cases "c \<in> set (keys defs)")
    case True
    then show ?thesis using cur unvisited_less[OF True 2(2)] by simp
  next
    case False
    then have "map_of defs c = None" by (metis key_of_some not_None_eq)
    moreover have "set (keys defs) - insert c (set visited) = set (keys defs) - set visited" using False by auto
    ultimately show ?thesis using cur by simp
  qed
qed simp

declare has_cycle.simps [simp del]

definition check_parent :: "string list \<Rightarrow> (string \<times> process_def) list \<Rightarrow> process_def \<Rightarrow> taxonomy_error list" where
  "check_parent ids defs d =
     (case given (parent d) of
        None \<Rightarrow> []
      | Some p \<Rightarrow>
          if p \<notin> set ids then [MissingParent (canonical_id d) p]
          else if has_cycle defs [] (Some (canonical_id d)) then [CircularHierarchy (canonical_id d)]
          else [])"

text \<open>\<open>owner\<close> is \<open>alias_owner\<close>. The canonical id is claimed first, then the aliases.\<close>

fun claim_aliases :: "string \<Rightarrow> string list \<Rightarrow> (string \<times> string) list \<Rightarrow> taxonomy_error list \<times> (string \<times> string) list" where
  "claim_aliases cid [] owner = ([], owner)"
| "claim_aliases cid (a # as) owner =
     (let key = normalize_key a
      in if key = [] then claim_aliases cid as owner
         else case map_of owner key of
           None \<Rightarrow> claim_aliases cid as (owner @ [(key, cid)])
         | Some other \<Rightarrow>
             let (errs, owner') = claim_aliases cid as owner
             in (if other \<noteq> cid then AliasCollision key other cid # errs else errs, owner'))"

fun check_aliases :: "process_def list \<Rightarrow> (string \<times> string) list \<Rightarrow> taxonomy_error list" where
  "check_aliases [] owner = []"
| "check_aliases (d # ds) owner =
     (let (errs, owner') = claim_aliases (canonical_id d) (canonical_id d # aliases d) owner
      in errs @ check_aliases ds owner')"

definition def_map :: "process_def list \<Rightarrow> (string \<times> process_def) list" where
  "def_map ds = dict_by canonical_id ds"

definition validate_definitions :: "process_def list \<Rightarrow> taxonomy_error list" where
  "validate_definitions ds =
     check_ids ds [] @ concat (map (check_parent (map canonical_id ds) (def_map ds)) ds) @ check_aliases ds []"

section \<open>The tables\<close>

record taxonomy =
  definitions :: "(string \<times> process_def) list"
  alias_map :: "(string \<times> string) list"
  tsdc_map :: "(string \<times> string) list"
  children :: "(string \<times> string list) list"
  wikidata_map :: "(string \<times> string) list"

definition register_alias :: "string \<Rightarrow> string \<Rightarrow> (string \<times> string) list \<Rightarrow> (string \<times> string) list" where
  "register_alias cid a m =
     (let key = normalize_key a
      in if key = [] \<or> map_of m key \<noteq> None then m else m @ [(key, cid)])"

text \<open>The aliases a definition registers, in the order in which it registers them.\<close>

definition alias_texts :: "process_def \<Rightarrow> string list" where
  "alias_texts d = canonical_id d # aliases d @ (case given (tsdc_code d) of None \<Rightarrow> [] | Some t \<Rightarrow> [t])"

definition add_definition :: "process_def \<Rightarrow> taxonomy \<Rightarrow> taxonomy" where
  "add_definition d t = t\<lparr>
     definitions := AList.update (canonical_id d) d (definitions t),
     alias_map := fold (register_alias (canonical_id d)) (alias_texts d) (alias_map t),
     tsdc_map := (case given (tsdc_code d) of None \<Rightarrow> tsdc_map t | Some c \<Rightarrow> AList.update (upper c) (canonical_id d) (tsdc_map t)),
     wikidata_map := (case given (wikidata_qid d) of None \<Rightarrow> wikidata_map t | Some q \<Rightarrow> AList.update (canonical_id d) q (wikidata_map t))\<rparr>"

definition add_child :: "process_def \<Rightarrow> (string \<times> string list) list \<Rightarrow> (string \<times> string list) list" where
  "add_child d m =
     (case given (parent d) of
        None \<Rightarrow> m
      | Some p \<Rightarrow>
          (let cs = (case map_of m p of None \<Rightarrow> [] | Some cs \<Rightarrow> cs)
           in AList.update p (if canonical_id d \<in> set cs then cs else cs @ [canonical_id d]) m))"

definition build_taxonomy :: "process_def list \<Rightarrow> taxonomy" where
  "build_taxonomy ds =
     (let t = fold add_definition ds \<lparr>definitions = [], alias_map = [], tsdc_map = [], children = [], wikidata_map = []\<rparr>
      in t\<lparr>children := fold add_child ds []\<rparr>)"

text \<open>\<open>reload\<close> from definitions that were read: it keeps the current tables when they do not validate.\<close>

definition reload_taxonomy :: "process_def list \<Rightarrow> taxonomy \<Rightarrow> (taxonomy_error list + string list \<times> string list \<times> nat) \<times> taxonomy" where
  "reload_taxonomy ds t =
     (let errors = validate_definitions ds
      in if errors \<noteq> [] then (Inl errors, t)
         else (let old = keys (definitions t); new = map canonical_id ds
               in (Inr (sort (remdups (filter (\<lambda>c. c \<notin> set old) new)), sort (filter (\<lambda>c. c \<notin> set new) old), length ds),
                   build_taxonomy ds)))"

section \<open>Normalisation\<close>

definition wiki_slug :: "string \<Rightarrow> string option" where
  "wiki_slug uri =
     (case split_once ''/wiki/'' uri of
        None \<Rightarrow> None
      | Some (_, rest) \<Rightarrow>
          (let part = (case split_once ''/wiki/'' rest of None \<Rightarrow> rest | Some (a, _) \<Rightarrow> a)
           in if part = [] then None else Some (rstrip_by (\<lambda>c. c = CHR ''/'') (strip part))))"

definition by_wiki :: "taxonomy \<Rightarrow> string \<Rightarrow> string option" where
  "by_wiki t s =
     (if \<not> contains ''wikipedia.org/wiki/'' (lower s) then None
      else case wiki_slug s of
        None \<Rightarrow> None
      | Some slug \<Rightarrow> if slug = [] then None else map_of (alias_map t) (normalize_key slug))"

definition by_substring :: "taxonomy \<Rightarrow> string \<Rightarrow> string option" where
  "by_substring t key =
     map_option snd (find (\<lambda>(a, cid). 5 \<le> length a \<and> (contains a key \<or> contains key a)) (alias_map t))"

definition normalize :: "taxonomy \<Rightarrow> string \<Rightarrow> string option" where
  "normalize t input =
     (let s = strip input
      in if s = [] then None
         else if map_of (definitions t) s \<noteq> None then Some s
         else case by_wiki t s of
           Some cid \<Rightarrow> Some cid
         | None \<Rightarrow>
             (case map_of (tsdc_map t) (strip (upper s)) of
                Some cid \<Rightarrow> Some cid
              | None \<Rightarrow>
                  (case map_of (alias_map t) (normalize_key s) of
                     Some cid \<Rightarrow> Some cid
                   | None \<Rightarrow> by_substring t (normalize_key s))))"

definition is_valid_process :: "taxonomy \<Rightarrow> string \<Rightarrow> bool" where
  "is_valid_process t input \<longleftrightarrow> normalize t input \<noteq> None"

definition get_display_name :: "taxonomy \<Rightarrow> string \<Rightarrow> string" where
  "get_display_name t c = (case map_of (definitions t) c of None \<Rightarrow> c | Some d \<Rightarrow> display_name d)"

section \<open>The hierarchy\<close>

function tsdc_walk :: "taxonomy \<Rightarrow> string list \<Rightarrow> string option \<Rightarrow> string option" where
  "tsdc_walk t visited current =
     (case given current of
        None \<Rightarrow> None
      | Some c \<Rightarrow>
          if c \<in> set visited then None
          else case map_of (definitions t) c of
            None \<Rightarrow> None
          | Some d \<Rightarrow> if given (tsdc_code d) \<noteq> None then tsdc_code d else tsdc_walk t (c # visited) (parent d))"
  by pat_completeness auto
termination
  by (relation "measure (\<lambda>(t, visited, current). card (set (keys (definitions t)) - set visited))")
    (auto intro!: unvisited_less key_of_some simp del: set_map)

definition get_tsdc_code :: "taxonomy \<Rightarrow> string \<Rightarrow> string option" where
  "get_tsdc_code t c = tsdc_walk t [] (Some c)"

definition get_parent :: "taxonomy \<Rightarrow> string \<Rightarrow> string option" where
  "get_parent t c = Option.bind (map_of (definitions t) c) parent"

definition get_children :: "taxonomy \<Rightarrow> string \<Rightarrow> string list" where
  "get_children t c = (case map_of (children t) c of None \<Rightarrow> [] | Some cs \<Rightarrow> cs)"

function ancestor_walk :: "taxonomy \<Rightarrow> string list \<Rightarrow> string \<Rightarrow> string list" where
  "ancestor_walk t visited c =
     (if c = [] \<or> c \<in> set visited then []
      else case map_of (definitions t) c of
        None \<Rightarrow> []
      | Some d \<Rightarrow>
          (case given (parent d) of
             None \<Rightarrow> []
           | Some p \<Rightarrow> p # ancestor_walk t (c # visited) p))"
  by pat_completeness auto
termination
  by (relation "measure (\<lambda>(t, visited, c). card (set (keys (definitions t)) - set visited))")
    (auto intro!: unvisited_less key_of_some simp del: set_map)

declare tsdc_walk.simps [simp del] ancestor_walk.simps [simp del]

definition get_ancestors :: "taxonomy \<Rightarrow> string \<Rightarrow> string list" where
  "get_ancestors t c = ancestor_walk t [] c"

definition resolve_id :: "taxonomy \<Rightarrow> string \<Rightarrow> string option" where
  "resolve_id t c = (if map_of (definitions t) c = None then normalize t c else Some c)"

definition are_related :: "taxonomy \<Rightarrow> string \<Rightarrow> string \<Rightarrow> bool" where
  "are_related t id_a id_b =
     (case (resolve_id t id_a, resolve_id t id_b) of
        (Some a, Some b) \<Rightarrow>
          a = b \<or> a \<in> set (b # get_ancestors t b) \<or> b \<in> set (a # get_ancestors t a) \<or>
          (given (get_parent t a) \<noteq> None \<and> get_parent t a = get_parent t b)
      | _ \<Rightarrow> False)"

definition get_wikidata_iri :: "taxonomy \<Rightarrow> string \<Rightarrow> string option" where
  "get_wikidata_iri t c = map_option ((@) ''https://www.wikidata.org/entity/'') (map_of (wikidata_map t) c)"

end
