(* ===== verification/Direct_Matcher.thy ===== *)
theory Direct_Matcher imports Complex_Main Edit_Distance Process_Taxonomy begin

text \<open>
  The base of the matching layers (\<open>matching/layers/base.py\<close>) and the direct layer
  (\<open>matching/direct_matcher.py\<close>). Confidences are rationals; the time stamps and durations of the
  metrics, which no result depends on, are left out. Each reason text is a constructor.
\<close>

section \<open>The base layer\<close>

datatype matching_layer = DirectLayer | HeuristicLayer | NlpLayer | LlmLayer

datatype match_quality =
  Perfect | CaseDiff | WhitespaceDiff | NearMiss | RuleMatch | SemanticMatch | NoMatch

datatype match_reason =
    ExactText
  | ExactIgnoringCase
  | ExactIgnoringSpace
  | ExactIgnoringBoth
  | NearText nat
  | FarText nat
  | ByRule string
  | NoRule
  | ProcessNote

datatype input_error =
    RequirementsNone | CapabilitiesNone | RequirementsEmpty | CapabilitiesEmpty
  | RequirementBlank nat | CapabilityBlank nat

record matching_metrics =
  success :: bool
  matches_found :: nat
  total_requirements :: nat
  total_capabilities :: nat
  errors :: "input_error list"

record matching_result =
  requirement :: string
  capability :: string
  matched :: bool
  confidence :: rat
  reasons :: "match_reason list"
  quality :: match_quality
  character_difference :: nat
  case_difference :: bool
  whitespace_difference :: bool
  rule_used :: "string option"
  layer_type :: matching_layer

definition start_matching :: "'a list option \<Rightarrow> 'b list option \<Rightarrow> matching_metrics" where
  "start_matching rs cs = \<lparr>success = False, matches_found = 0,
     total_requirements = (case rs of None \<Rightarrow> 0 | Some xs \<Rightarrow> length xs),
     total_capabilities = (case cs of None \<Rightarrow> 0 | Some xs \<Rightarrow> length xs), errors = []\<rparr>"

definition end_matching :: "bool \<Rightarrow> nat \<Rightarrow> matching_metrics \<Rightarrow> matching_metrics" where
  "end_matching ok n m = m\<lparr>success := ok, matches_found := n\<rparr>"

definition match_rate :: "matching_metrics \<Rightarrow> rat" where
  "match_rate m = (if total_requirements m = 0 then 0 else of_nat (matches_found m) / of_nat (total_requirements m))"

definition add_error :: "input_error \<Rightarrow> matching_metrics \<Rightarrow> matching_metrics" where
  "add_error e m = m\<lparr>errors := errors m @ [e]\<rparr>"

text \<open>The index of the first item that is \<open>None\<close>, empty or blank.\<close>

fun first_blank :: "nat \<Rightarrow> string option list \<Rightarrow> nat option" where
  "first_blank i [] = None"
| "first_blank i (x # xs) = (case x of None \<Rightarrow> Some i | Some s \<Rightarrow> if strip s = [] then Some i else first_blank (Suc i) xs)"

definition input_error_of :: "string option list option \<Rightarrow> string option list option \<Rightarrow> input_error option" where
  "input_error_of rs cs =
     (case (rs, cs) of
        (None, _) \<Rightarrow> Some RequirementsNone
      | (_, None) \<Rightarrow> Some CapabilitiesNone
      | (Some xs, Some ys) \<Rightarrow>
          if xs = [] then Some RequirementsEmpty
          else if ys = [] then Some CapabilitiesEmpty
          else case first_blank 0 xs of
            Some i \<Rightarrow> Some (RequirementBlank i)
          | None \<Rightarrow> map_option CapabilityBlank (first_blank 0 ys))"

definition validate_inputs :: "string option list option \<Rightarrow> string option list option \<Rightarrow> matching_metrics \<Rightarrow> bool \<times> matching_metrics" where
  "validate_inputs rs cs m =
     (case input_error_of rs cs of None \<Rightarrow> (True, m) | Some e \<Rightarrow> (False, add_error e m))"

text \<open>The clamping of \<open>create_matching_result\<close>.\<close>

definition clamp :: "rat \<Rightarrow> rat" where
  "clamp c = (if \<not> (0 \<le> c \<and> c \<le> 1) then max 0 (min 1 c) else c)"

definition create_matching_result ::
  "matching_layer \<Rightarrow> string \<Rightarrow> string \<Rightarrow> bool \<Rightarrow> rat \<Rightarrow> match_reason list \<Rightarrow> match_quality \<Rightarrow> matching_result" where
  "create_matching_result l r c ok conf why q = \<lparr>requirement = r, capability = c, matched = ok, confidence = clamp conf,
     reasons = why, quality = q, character_difference = 0, case_difference = False, whitespace_difference = False,
     rule_used = None, layer_type = l\<rparr>"

definition has_whitespace_difference :: "string \<Rightarrow> string \<Rightarrow> bool" where
  "has_whitespace_difference s t \<longleftrightarrow>
     (if squeeze is_space (strip s) = squeeze is_space (strip t)
      then filter (\<lambda>c. \<not> is_space c) s = filter (\<lambda>c. \<not> is_space c) t \<and> s \<noteq> t else False)"

text \<open>\<open>normalize_process_name\<close>: the canonical id of a known process, a cleaned text otherwise.\<close>

definition wiki_part :: "string \<Rightarrow> string" where
  "wiki_part s =
     (if contains ''wikipedia.org/wiki/'' (lower s)
      then case split_once ''/wiki/'' s of
        None \<Rightarrow> s
      | Some (_, rest) \<Rightarrow> (case split_once ''/wiki/'' rest of None \<Rightarrow> rest | Some (a, _) \<Rightarrow> a)
      else s)"

definition normalize_process_name :: "taxonomy \<Rightarrow> string \<Rightarrow> string" where
  "normalize_process_name t s =
     (if s = [] then []
      else case normalize t s of
        Some cid \<Rightarrow> cid
      | None \<Rightarrow> strip (squeeze is_space (squeeze is_dash (lower (wiki_part (strip s))))))"

section \<open>The direct layer\<close>

definition direct_match_single :: "nat \<Rightarrow> string \<Rightarrow> string \<Rightarrow> matching_result" where
  "direct_match_single threshold r c =
     (if lower r = lower c then
        let case_diff = (r \<noteq> c);
            space_diff = has_whitespace_difference r c;
            (q, conf, why) =
              (if \<not> case_diff \<and> \<not> space_diff then (Perfect, 1, ExactText)
               else if case_diff \<and> \<not> space_diff then (CaseDiff, 95/100, ExactIgnoringCase)
               else if \<not> case_diff \<and> space_diff then (WhitespaceDiff, 95/100, ExactIgnoringSpace)
               else (CaseDiff, 9/10, ExactIgnoringBoth))
        in (create_matching_result DirectLayer r c True conf [why] q)\<lparr>case_difference := case_diff, whitespace_difference := space_diff\<rparr>
      else
        let d = levenshtein (lower r) (lower c)
        in if d \<le> threshold
           then (create_matching_result DirectLayer r c False (8/10) [NearText d] NearMiss)\<lparr>character_difference := d\<rparr>
           else (create_matching_result DirectLayer r c False 0 [FarText d] NoMatch)\<lparr>character_difference := d\<rparr>)"

text \<open>
  The frame that \<open>match\<close> of the direct and of the heuristic layer share: every requirement against
  every capability, after the validation of the inputs.
\<close>

definition match_all ::
  "(string \<Rightarrow> string \<Rightarrow> matching_result) \<Rightarrow> string option list option \<Rightarrow> string option list option \<Rightarrow>
   matching_result list \<times> matching_metrics" where
  "match_all single rs cs =
     (let (ok, m) = validate_inputs rs cs (start_matching rs cs)
      in if \<not> ok then ([], end_matching False 0 m)
         else let results = concat (map (\<lambda>r. map (single r) (map the (the cs))) (map the (the rs)))
              in (results, end_matching True (length (filter matched results)) m))"

definition direct_match :: "nat \<Rightarrow> string option list option \<Rightarrow> string option list option \<Rightarrow> matching_result list \<times> matching_metrics" where
  "direct_match threshold = match_all (direct_match_single threshold)"

section \<open>What the direct layer decides\<close>

text \<open>Texts equal up to case have their white space in the same places, so they differ in case only.\<close>

lemma lower_char_eq_space: "lower_char a = lower_char b \<Longrightarrow> is_space a \<Longrightarrow> a = b"
  by (cases a; cases b) (auto simp: lower_char_bits is_space_bits split: if_splits)

lemma same_nonspace_same:
  "lower s = lower t \<Longrightarrow> filter (\<lambda>c. \<not> is_space c) s = filter (\<lambda>c. \<not> is_space c) t \<Longrightarrow> s = t"
proof (induction s arbitrary: t)
  case (Cons a s)
  then obtain b t' where t: "t = b # t'" "lower_char a = lower_char b" "lower s = lower t'"
    by (cases t) (auto simp: lower_def)
  have sp: "is_space a \<longleftrightarrow> is_space b" using t(2) is_space_lower_char by metis
  then show ?case using Cons t lower_char_eq_space[of a b] by (cases "is_space a") auto
qed (simp add: lower_def)

lemma whitespace_never: "lower r = lower c \<Longrightarrow> \<not> has_whitespace_difference r c"
  by (auto simp: has_whitespace_difference_def dest: same_nonspace_same)

text \<open>
  The verdict of the direct layer. It matches exactly when the texts agree up to case; a pair that
  does not is a near miss exactly when some script of at most \<open>n\<close> edits turns one lower-cased text into
  the other. The qualities for white space, which the code distinguishes, never arise.
\<close>

theorem direct_match_verdict:
  "matched (direct_match_single n r c) = (lower r = lower c) \<and>
   quality (direct_match_single n r c) =
     (if r = c then Perfect
      else if lower r = lower c then CaseDiff
      else if \<exists>es. run_script es (lower r) = Some (lower c) \<and> script_cost es \<le> n then NearMiss
      else NoMatch) \<and>
   confidence (direct_match_single n r c) =
     (case quality (direct_match_single n r c) of Perfect \<Rightarrow> 1 | CaseDiff \<Rightarrow> 95 / 100 | NearMiss \<Rightarrow> 8 / 10 | _ \<Rightarrow> 0)"
  unfolding levenshtein_le[symmetric]
  by (auto simp: direct_match_single_def create_matching_result_def clamp_def whitespace_never Let_def)

text \<open>The frame: refused inputs give no result and one error, others one result per pair, in order.\<close>

lemma match_all_result:
  "match_all single rs cs =
     (case input_error_of rs cs of
        Some e \<Rightarrow> ([], (start_matching rs cs)\<lparr>errors := [e]\<rparr>)
      | None \<Rightarrow>
          (let results = [single r c. r \<leftarrow> map the (the rs), c \<leftarrow> map the (the cs)]
           in (results, (start_matching rs cs)\<lparr>success := True, matches_found := length (filter matched results)\<rparr>)))"
  by (auto simp: match_all_def validate_inputs_def end_matching_def add_error_def start_matching_def Let_def split: option.splits)

end
