(* ===== verification/Capability_Rules.thy ===== *)
theory Capability_Rules imports Direct_Matcher begin

text \<open>
  The capability rules (\<open>matching/capability_rules.py\<close>), the checks of \<open>matching/validation.py\<close> on them
  and the heuristic layer (\<open>matching/heuristic_matcher.py\<close>). The creation times of rules and rule sets,
  which nothing reads, are left out; a rule file is given as the rule set it parses to, or \<open>None\<close>.
\<close>

section \<open>Rules\<close>

datatype rule_type = CapabilityMatch

datatype rule_direction = Bidirectional | Forward | Reverse

record capability_rule =
  rule_id :: string
  rule_kind :: rule_type
  rule_capability :: string
  satisfies_requirements :: "string list"
  rule_direction :: rule_direction
  rule_confidence :: rat
  rule_domain :: string
  rule_description :: string
  rule_source :: string
  rule_tags :: "string list"

datatype rule_error =
    BlankRuleId
  | BlankRuleCapability string
  | NoRuleRequirements string
  | BlankRuleRequirement string nat
  | BadConfidence string rat
  | BlankRuleDomain string
  | BlankSetDomain
  | EmptyRuleSet string

text \<open>\<open>CapabilityRule.__post_init__\<close>: the first check that fails.\<close>

definition rule_error_of :: "capability_rule \<Rightarrow> rule_error option" where
  "rule_error_of r =
     (if strip (rule_id r) = [] then Some BlankRuleId
      else if strip (rule_capability r) = [] then Some (BlankRuleCapability (rule_id r))
      else if satisfies_requirements r = [] then Some (NoRuleRequirements (rule_id r))
      else case first_blank 0 (map Some (satisfies_requirements r)) of
        Some i \<Rightarrow> Some (BlankRuleRequirement (rule_id r) i)
      | None \<Rightarrow>
          if \<not> (0 \<le> rule_confidence r \<and> rule_confidence r \<le> 1) then Some (BadConfidence (rule_id r) (rule_confidence r))
          else if strip (rule_domain r) = [] then Some (BlankRuleDomain (rule_id r))
          else None)"

definition make_rule :: "capability_rule \<Rightarrow> rule_error + capability_rule" where
  "make_rule r = (case rule_error_of r of Some e \<Rightarrow> Inl e | None \<Rightarrow> Inr r)"

definition folded :: "string \<Rightarrow> string" where
  "folded s = strip (lower s)"

definition can_satisfy_requirement :: "capability_rule \<Rightarrow> string \<Rightarrow> bool" where
  "can_satisfy_requirement r req \<longleftrightarrow>
     (if req = [] then False else list_ex (\<lambda>q. folded req = folded q) (satisfies_requirements r))"

definition requirement_can_be_satisfied_by :: "capability_rule \<Rightarrow> string \<Rightarrow> string \<Rightarrow> bool" where
  "requirement_can_be_satisfied_by r req cap \<longleftrightarrow>
     (if req = [] \<or> cap = [] then False
      else if folded cap \<noteq> folded (rule_capability r) then False
      else can_satisfy_requirement r req)"

section \<open>Rule sets\<close>

record rule_set =
  set_domain :: string
  set_version :: string
  set_description :: string
  set_rules :: "(string \<times> capability_rule) list"

definition make_rule_set :: "rule_set \<Rightarrow> rule_error + rule_set" where
  "make_rule_set s =
     (if strip (set_domain s) = [] then Inl BlankSetDomain
      else if set_rules s = [] then Inl (EmptyRuleSet (set_domain s))
      else Inr s)"

definition add_rule :: "capability_rule \<Rightarrow> rule_set \<Rightarrow> rule_set" where
  "add_rule r s = s\<lparr>set_rules := AList.update (rule_id r) r (set_rules s)\<rparr>"

definition remove_rule :: "string \<Rightarrow> rule_set \<Rightarrow> bool \<times> rule_set" where
  "remove_rule i s =
     (if map_of (set_rules s) i \<noteq> None then (True, s\<lparr>set_rules := AList.delete i (set_rules s)\<rparr>) else (False, s))"

definition set_get_rule :: "rule_set \<Rightarrow> string \<Rightarrow> capability_rule option" where
  "set_get_rule s i = map_of (set_rules s) i"

definition set_all_rules :: "rule_set \<Rightarrow> capability_rule list" where
  "set_all_rules s = vals (set_rules s)"

definition set_rules_by_type :: "rule_set \<Rightarrow> rule_type \<Rightarrow> capability_rule list" where
  "set_rules_by_type s k = filter (\<lambda>r. rule_kind r = k) (set_all_rules s)"

definition set_rules_by_tag :: "rule_set \<Rightarrow> string \<Rightarrow> capability_rule list" where
  "set_rules_by_tag s tag = filter (\<lambda>r. tag \<in> set (rule_tags r)) (set_all_rules s)"

definition set_find_rules :: "rule_set \<Rightarrow> string \<Rightarrow> string \<Rightarrow> capability_rule list" where
  "set_find_rules s cap req = filter (\<lambda>r. requirement_can_be_satisfied_by r req cap) (set_all_rules s)"

section \<open>The rule manager\<close>

record rule_manager =
  rule_sets :: "(string \<times> rule_set) list"
  manager_ready :: bool

definition add_rule_set :: "rule_set \<Rightarrow> rule_manager \<Rightarrow> rule_manager" where
  "add_rule_set s m = m\<lparr>rule_sets := AList.update (set_domain s) s (rule_sets m)\<rparr>"

text \<open>\<open>_load_all_rule_sets\<close>: a file that does not load is skipped; a later file replaces its domain.\<close>

fun load_rule_sets :: "rule_set option list \<Rightarrow> rule_manager \<Rightarrow> rule_manager" where
  "load_rule_sets [] m = m"
| "load_rule_sets (None # fs) m = load_rule_sets fs m"
| "load_rule_sets (Some s # fs) m = load_rule_sets fs (add_rule_set s m)"

definition initialize_manager :: "rule_set option list \<Rightarrow> rule_manager \<Rightarrow> rule_manager" where
  "initialize_manager files m = (if manager_ready m then m else (load_rule_sets files m)\<lparr>manager_ready := True\<rparr>)"

definition reload_rules :: "rule_set option list \<Rightarrow> rule_manager \<Rightarrow> rule_manager" where
  "reload_rules files m = initialize_manager files (m\<lparr>rule_sets := [], manager_ready := False\<rparr>)"

definition get_rule_set :: "rule_manager \<Rightarrow> string \<Rightarrow> rule_set option" where
  "get_rule_set m dmn = map_of (rule_sets m) dmn"

definition get_available_domains :: "rule_manager \<Rightarrow> string list" where
  "get_available_domains m = keys (rule_sets m)"

definition remove_rule_set :: "string \<Rightarrow> rule_manager \<Rightarrow> bool \<times> rule_manager" where
  "remove_rule_set dmn m =
     (if map_of (rule_sets m) dmn \<noteq> None then (True, m\<lparr>rule_sets := AList.delete dmn (rule_sets m)\<rparr>) else (False, m))"

definition get_rule :: "rule_manager \<Rightarrow> string \<Rightarrow> string \<Rightarrow> capability_rule option" where
  "get_rule m dmn i = (case get_rule_set m dmn of None \<Rightarrow> None | Some s \<Rightarrow> set_get_rule s i)"

definition get_rules_by_type :: "rule_manager \<Rightarrow> string \<Rightarrow> rule_type \<Rightarrow> capability_rule list" where
  "get_rules_by_type m dmn k = (case get_rule_set m dmn of None \<Rightarrow> [] | Some s \<Rightarrow> set_rules_by_type s k)"

definition get_rules_by_tag :: "rule_manager \<Rightarrow> string \<Rightarrow> string \<Rightarrow> capability_rule list" where
  "get_rules_by_tag m dmn tag = (case get_rule_set m dmn of None \<Rightarrow> [] | Some s \<Rightarrow> set_rules_by_tag s tag)"

definition get_all_rules_for_domain :: "rule_manager \<Rightarrow> string \<Rightarrow> capability_rule list" where
  "get_all_rules_for_domain m dmn = (case get_rule_set m dmn of None \<Rightarrow> [] | Some s \<Rightarrow> set_all_rules s)"

definition find_rules :: "rule_manager \<Rightarrow> string \<Rightarrow> string \<Rightarrow> string \<Rightarrow> capability_rule list" where
  "find_rules m dmn cap req = (case get_rule_set m dmn of None \<Rightarrow> [] | Some s \<Rightarrow> set_find_rules s cap req)"

text \<open>\<open>get_rule_statistics\<close>: the number of sets and rules, the domains, and the rules per type.\<close>

definition rule_statistics :: "rule_manager \<Rightarrow> nat \<times> nat \<times> string list \<times> (rule_type \<times> nat) list" where
  "rule_statistics m =
     (let rules = concat (map set_all_rules (vals (rule_sets m)))
      in (length (rule_sets m), length rules, keys (rule_sets m),
          fold (\<lambda>r d. AList.update (rule_kind r) (Suc (case map_of d (rule_kind r) of None \<Rightarrow> 0 | Some n \<Rightarrow> n)) d) rules []))"

section \<open>Matching by rules\<close>

text \<open>\<open>max(rules, key=...)\<close>: the first rule of the highest confidence.\<close>

fun best_rule :: "capability_rule \<Rightarrow> capability_rule list \<Rightarrow> capability_rule" where
  "best_rule b [] = b"
| "best_rule b (r # rs) = best_rule (if rule_confidence b < rule_confidence r then r else b) rs"

definition capability_can_satisfy :: "rule_manager \<Rightarrow> string \<Rightarrow> string \<Rightarrow> string \<Rightarrow> bool" where
  "capability_can_satisfy m cap req dmn \<longleftrightarrow> 0 < length (find_rules m dmn cap req)"

definition requirement_satisfied_by :: "rule_manager \<Rightarrow> string \<Rightarrow> string \<Rightarrow> string \<Rightarrow> bool" where
  "requirement_satisfied_by m req cap dmn \<longleftrightarrow> capability_can_satisfy m cap req dmn"

record capability_match =
  requirement_object :: "(string \<times> string) list"
  capability_object :: "(string \<times> string) list"
  requirement_field :: string
  capability_field :: string
  requirement_value :: string
  capability_value :: string
  cm_matched :: bool
  cm_confidence :: rat
  cm_rule :: "capability_rule option"
  cm_domain :: string

definition field_value :: "(string \<times> string) list \<Rightarrow> string \<Rightarrow> string" where
  "field_value d f = folded (case map_of d f of None \<Rightarrow> [] | Some v \<Rightarrow> v)"

definition match_objects :: "rule_manager \<Rightarrow> string \<Rightarrow> string \<Rightarrow> string \<Rightarrow> (string \<times> string) list \<Rightarrow> (string \<times> string) list \<Rightarrow> capability_match" where
  "match_objects m dmn rf cf robj cobj =
     (let rv = field_value robj rf; cv = field_value cobj cf;
          res = \<lparr>requirement_object = robj, capability_object = cobj, requirement_field = rf, capability_field = cf,
                 requirement_value = rv, capability_value = cv, cm_matched = False, cm_confidence = 0, cm_rule = None, cm_domain = dmn\<rparr>
      in if rv = [] \<or> cv = [] then res
         else case find_rules m dmn cv rv of
           [] \<Rightarrow> res
         | r # rs \<Rightarrow> (let b = best_rule r rs in res\<lparr>cm_matched := True, cm_confidence := rule_confidence b, cm_rule := Some b\<rparr>))"

definition match_requirements_to_capabilities ::
  "rule_manager \<Rightarrow> (string \<times> string) list list \<Rightarrow> (string \<times> string) list list \<Rightarrow> string \<Rightarrow> string \<Rightarrow> string \<Rightarrow> capability_match list" where
  "match_requirements_to_capabilities m robjs cobjs dmn rf cf =
     concat (map (\<lambda>r. map (match_objects m dmn rf cf r) cobjs) robjs)"

section \<open>The heuristic layer\<close>

definition heuristic_match_single :: "rule_manager \<Rightarrow> string \<Rightarrow> string \<Rightarrow> string \<Rightarrow> matching_result" where
  "heuristic_match_single m dmn req cap =
     (case find_rules m dmn cap req of
        [] \<Rightarrow> create_matching_result HeuristicLayer req cap False 0 [NoRule] NoMatch
      | r # rs \<Rightarrow>
          (let b = best_rule r rs
           in (create_matching_result HeuristicLayer req cap True (rule_confidence b) [ByRule (rule_id b)] RuleMatch)
                \<lparr>rule_used := Some (rule_id b)\<rparr>))"

text \<open>\<open>match\<close> first loads the rules if that has not happened yet.\<close>

definition heuristic_match ::
  "rule_set option list \<Rightarrow> string \<Rightarrow> string option list option \<Rightarrow> string option list option \<Rightarrow> rule_manager \<Rightarrow>
   (matching_result list \<times> matching_metrics) \<times> rule_manager" where
  "heuristic_match files dmn rs cs m =
     (let m' = initialize_manager files m in (match_all (heuristic_match_single m' dmn) rs cs, m'))"

section \<open>Warnings about rules\<close>

datatype rule_warning =
  LowConfidence "string list" | DuplicateRequirements string | ManyRequirements "string list"

definition duplicate_requirements :: "capability_rule \<Rightarrow> bool" where
  "duplicate_requirements r \<longleftrightarrow>
     length (map folded (satisfies_requirements r)) \<noteq> length (remdups (map folded (satisfies_requirements r)))"

definition set_warnings :: "rule_set \<Rightarrow> rule_warning list" where
  "set_warnings s =
     (let low = [i. (i, r) \<leftarrow> set_rules s, rule_confidence r < 1/2];
          dup = [i. (i, r) \<leftarrow> set_rules s, duplicate_requirements r];
          many = [i. (i, r) \<leftarrow> set_rules s, 20 < length (satisfies_requirements r)]
      in (if low \<noteq> [] then [LowConfidence low] else []) @ map DuplicateRequirements dup @
         (if many \<noteq> [] then [ManyRequirements many] else []))"

definition rule_warnings :: "capability_rule \<Rightarrow> rule_warning list" where
  "rule_warnings r =
     (if duplicate_requirements r then [DuplicateRequirements (rule_id r)] else []) @
     (if rule_confidence r < 1/2 then [LowConfidence [rule_id r]] else []) @
     (if 20 < length (satisfies_requirements r) then [ManyRequirements [rule_id r]] else [])"

section \<open>What the rules decide\<close>

definition rule_applies :: "string \<Rightarrow> string \<Rightarrow> capability_rule \<Rightarrow> bool" where
  "rule_applies req cap r \<longleftrightarrow> req \<noteq> [] \<and> cap \<noteq> [] \<and> folded cap = folded (rule_capability r) \<and>
     folded req \<in> folded ` set (satisfies_requirements r)"

lemma requirement_can_be_satisfied_by_iff: "requirement_can_be_satisfied_by r req cap \<longleftrightarrow> rule_applies req cap r"
  by (auto simp: requirement_can_be_satisfied_by_def can_satisfy_requirement_def rule_applies_def list_ex_iff)

lemma find_rules_filter: "find_rules m dmn cap req = filter (rule_applies req cap) (get_all_rules_for_domain m dmn)"
  by (simp add: find_rules_def set_find_rules_def get_all_rules_for_domain_def requirement_can_be_satisfied_by_iff split: option.splits)

lemma best_rule_in: "best_rule b rs \<in> set (b # rs)"
  by (induction b rs rule: best_rule.induct) auto

lemma best_rule_ge: "rule_confidence b \<le> rule_confidence (best_rule b rs)"
proof (induction b rs rule: best_rule.induct)
  case (2 b r rs)
  then show ?case by (cases "rule_confidence b < rule_confidence r") auto
qed simp

lemma best_rule_max: "r \<in> set rs \<Longrightarrow> rule_confidence r \<le> rule_confidence (best_rule b rs)"
proof (induction b rs rule: best_rule.induct)
  case (2 b q rs)
  show ?case
  proof (cases "r = q")
    case True
    then show ?thesis using best_rule_ge[of "if rule_confidence b < rule_confidence q then q else b" rs] by (auto split: if_splits)
  next
    case False
    then show ?thesis using 2 by simp
  qed
qed simp

lemma first_blank_None: "first_blank i (map Some xs) = None \<longleftrightarrow> (\<forall>x\<in>set xs. strip x \<noteq> [])"
  by (induction xs arbitrary: i) auto

lemma valid_confidence: "rule_error_of r = None \<Longrightarrow> 0 \<le> rule_confidence r \<and> rule_confidence r \<le> 1"
  by (auto simp: rule_error_of_def split: if_splits option.splits)

lemma valid_texts:
  "rule_error_of r = None \<Longrightarrow> strip (rule_capability r) \<noteq> [] \<and> (\<forall>q\<in>set (satisfies_requirements r). strip q \<noteq> [])"
  by (auto simp: rule_error_of_def first_blank_None split: if_splits option.splits)

text \<open>
  What the heuristic layer answers. A pair matches exactly when the domain has a rule whose
  capability is the offered one and whose requirements contain the asked one, both up to case and
  outer space, whatever direction the rule declares; the rule reported is one of these and none of
  them is more confident. The answer to a capability that does not match has confidence 0 and no rule.
\<close>

theorem heuristic_match_verdict:
  fixes m :: rule_manager and dmn req cap :: string
  defines "applicable \<equiv> filter (rule_applies req cap) (get_all_rules_for_domain m dmn)"
  assumes valid: "list_all (\<lambda>r. rule_error_of r = None) (get_all_rules_for_domain m dmn)"
  shows "(matched (heuristic_match_single m dmn req cap) \<longleftrightarrow> applicable \<noteq> []) \<and>
    (applicable = [] \<and> confidence (heuristic_match_single m dmn req cap) = 0 \<and> rule_used (heuristic_match_single m dmn req cap) = None \<or>
     (\<exists>b\<in>set applicable. rule_used (heuristic_match_single m dmn req cap) = Some (rule_id b) \<and>
        confidence (heuristic_match_single m dmn req cap) = rule_confidence b \<and>
        (\<forall>r\<in>set applicable. rule_confidence r \<le> rule_confidence b)))"
proof (cases applicable)
  case Nil
  then show ?thesis
    by (simp add: heuristic_match_single_def find_rules_filter applicable_def create_matching_result_def clamp_def)
next
  case (Cons r rs)
  let ?b = "best_rule r rs"
  have b: "?b \<in> set applicable" "\<forall>q\<in>set applicable. rule_confidence q \<le> rule_confidence ?b"
    using Cons best_rule_in best_rule_max best_rule_ge by auto
  then have "rule_error_of ?b = None" using valid by (simp add: list_all_iff applicable_def)
  then have "0 \<le> rule_confidence ?b \<and> rule_confidence ?b \<le> 1" by (rule valid_confidence)
  then have "heuristic_match_single m dmn req cap =
      (create_matching_result HeuristicLayer req cap True (rule_confidence ?b) [ByRule (rule_id ?b)] RuleMatch)\<lparr>rule_used := Some (rule_id ?b)\<rparr> \<and>
      clamp (rule_confidence ?b) = rule_confidence ?b"
    using Cons by (simp add: heuristic_match_single_def find_rules_filter applicable_def clamp_def Let_def)
  then show ?thesis using b Cons by (auto simp: create_matching_result_def)
qed

definition laser_rule :: "capability_rule" where
  "laser_rule = \<lparr>rule_id = ''r1'', rule_kind = CapabilityMatch, rule_capability = ''Laser Cutter'',
     satisfies_requirements = [''engraving'', ''cutting''], rule_direction = Reverse, rule_confidence = 8/10,
     rule_domain = ''manufacturing'', rule_description = [], rule_source = [], rule_tags = []\<rparr>"

definition laser_manager :: rule_manager where
  "laser_manager = \<lparr>rule_sets = [(''manufacturing'', \<lparr>set_domain = ''manufacturing'', set_version = ''1.0.0'',
     set_description = [], set_rules = [(''r1'', laser_rule), (''r2'', laser_rule\<lparr>rule_id := ''r2'', rule_confidence := 9/10\<rparr>)]\<rparr>)],
     manager_ready = True\<rparr>"

lemma laser_rules: "get_all_rules_for_domain laser_manager ''manufacturing'' =
    [laser_rule, laser_rule\<lparr>rule_id := ''r2'', rule_confidence := 9/10\<rparr>]"
  by (simp add: laser_manager_def get_all_rules_for_domain_def get_rule_set_def set_all_rules_def)

lemma laser_rules_valid: "list_all (\<lambda>r. rule_error_of r = None) (get_all_rules_for_domain laser_manager ''manufacturing'')"
  unfolding laser_rules by code_simp

theorem heuristic_match_verdict_witness:
  "confidence (heuristic_match_single laser_manager ''manufacturing'' '' Engraving'' ''laser cutter'') = 9/10"
proof -
  have "filter (rule_applies '' Engraving'' ''laser cutter'') (get_all_rules_for_domain laser_manager ''manufacturing'') =
      [laser_rule, laser_rule\<lparr>rule_id := ''r2'', rule_confidence := 9/10\<rparr>]" unfolding laser_rules by code_simp
  from heuristic_match_verdict[OF laser_rules_valid, of "'' Engraving''" "''laser cutter''", unfolded this]
  show ?thesis by (auto simp: laser_rule_def)
qed

lemma folded_idem [simp]: "folded (folded s) = folded s"
  by (simp add: folded_def flip: strip_lower)

lemma folded_nonempty: "strip s \<noteq> [] \<Longrightarrow> folded s \<noteq> []"
  by (simp add: folded_def strip_lower)

lemma folded_Nil [simp]: "folded [] = []"
  by code_simp

lemma rule_applies_folded:
  assumes "rule_error_of r = None"
  shows "rule_applies (folded req) (folded cap) r \<longleftrightarrow> rule_applies req cap r"
proof -
  have "folded (rule_capability r) \<noteq> []" "[] \<notin> folded ` set (satisfies_requirements r)"
    using valid_texts[OF assms] folded_nonempty by force+
  then show ?thesis by (auto simp: rule_applies_def)
qed

text \<open>
  C15: the two implementations of rule matching agree. On objects with the two fields, the capability
  matcher, which trims and lower-cases the values before it looks for rules, gives the verdict and the
  confidence that the heuristic layer gives on the raw values, for every rule set of valid rules.
\<close>

theorem capability_matcher_agrees:
  assumes valid: "list_all (\<lambda>r. rule_error_of r = None) (get_all_rules_for_domain m dmn)"
    and fields: "map_of robj rf = Some req" "map_of cobj cf = Some cap"
  shows "cm_matched (match_objects m dmn rf cf robj cobj) = matched (heuristic_match_single m dmn req cap) \<and>
    cm_confidence (match_objects m dmn rf cf robj cobj) = confidence (heuristic_match_single m dmn req cap)"
proof -
  have v: "field_value robj rf = folded req" "field_value cobj cf = folded cap"
    using fields by (simp_all add: field_value_def)
  have "filter (rule_applies (folded req) (folded cap)) (get_all_rules_for_domain m dmn) =
      filter (rule_applies req cap) (get_all_rules_for_domain m dmn)"
    using valid rule_applies_folded by (intro filter_cong) (auto simp: list_all_iff)
  then have same: "find_rules m dmn (folded cap) (folded req) = find_rules m dmn cap req" by (simp add: find_rules_filter)
  show ?thesis
  proof (cases "find_rules m dmn cap req")
    case Nil
    then show ?thesis using same v
      by (simp add: match_objects_def heuristic_match_single_def create_matching_result_def clamp_def Let_def)
  next
    case (Cons r rs)
    have "set (r # rs) \<subseteq> set (get_all_rules_for_domain m dmn)" using Cons by (metis find_rules_filter filter_is_subset)
    then have "rule_error_of (best_rule r rs) = None" using valid best_rule_in[of r rs] by (auto simp: list_all_iff)
    then have conf: "0 \<le> rule_confidence (best_rule r rs) \<and> rule_confidence (best_rule r rs) \<le> 1" by (rule valid_confidence)
    have "r \<in> set (find_rules m dmn (folded cap) (folded req))" using Cons same by simp
    then have "folded req \<noteq> [] \<and> folded cap \<noteq> []" by (auto simp: find_rules_filter rule_applies_def)
    then show ?thesis using same v Cons conf
      by (simp add: match_objects_def heuristic_match_single_def create_matching_result_def clamp_def Let_def)
  qed
qed

theorem capability_matcher_agrees_witness:
  "cm_matched (match_objects laser_manager ''manufacturing'' ''p'' ''p'' [(''p'', '' Engraving'')] [(''p'', ''LASER CUTTER'')]) =
   matched (heuristic_match_single laser_manager ''manufacturing'' '' Engraving'' ''LASER CUTTER'')"
  using capability_matcher_agrees[OF laser_rules_valid, of "[(''p'', '' Engraving'')]" "''p''" "'' Engraving''"
      "[(''p'', ''LASER CUTTER'')]" "''p''" "''LASER CUTTER''"] by simp

end
