(* ===== verification/Layer_Cascade.thy ===== *)
theory Layer_Cascade imports Complex_Main Py_Prelude begin

text \<open>
  The cascade of the matching layers (\<open>services/matching/_layer_cascade.py\<close>). The awaited callbacks
  are a record of their answers; beside its result each function returns the calls it made, in order,
  so that what a mode evaluates can be stated as well as what it decides.
\<close>

datatype layer_kind = DirectKind | HeuristicKind | NlpKind | NoKind

datatype direct_path = Strong | Fuzzy | NoPath

datatype cascade_mode = Cascade | Veto

datatype layer_call = CallDirect | CallHeuristic | CallNlp | CallSimilarity | CallPartial

datatype veto_note = VetoFuzzyDirect | VetoHeuristic

record layer_answers =
  direct_eval :: "bool \<times> direct_path"
  heuristic_eval :: "bool \<times> string option"
  nlp_match :: bool
  nlp_similarity :: "rat option"
  partial_similarity :: rat

record layer_evaluation =
  le_matched :: bool
  le_layer :: layer_kind
  le_confidence :: rat
  le_path :: direct_path
  le_rule :: "string option"
  le_similarity :: "rat option"
  le_confirmed :: bool
  le_notes :: "veto_note list"

definition no_layer :: layer_evaluation where
  "no_layer = \<lparr>le_matched = False, le_layer = NoKind, le_confidence = 0, le_path = NoPath, le_rule = None,
     le_similarity = None, le_confirmed = False, le_notes = []\<rparr>"

definition cascade_layers :: "layer_answers \<Rightarrow> layer_evaluation \<times> layer_call list" where
  "cascade_layers a =
     (let (hit, path) = direct_eval a
      in if hit then (no_layer\<lparr>le_matched := True, le_layer := DirectKind, le_confidence := 95/100, le_path := path\<rparr>, [CallDirect])
         else let (hm, rule) = heuristic_eval a
              in if hm then (no_layer\<lparr>le_matched := True, le_layer := HeuristicKind, le_confidence := 9/10, le_rule := rule\<rparr>,
                             [CallDirect, CallHeuristic])
                 else if nlp_match a then (no_layer\<lparr>le_matched := True, le_layer := NlpKind, le_confidence := 7/10\<rparr>,
                             [CallDirect, CallHeuristic, CallNlp])
                 else (no_layer, [CallDirect, CallHeuristic, CallNlp]))"

text \<open>\<open>sim is not None and sim < veto_threshold\<close>.\<close>

definition vetoed :: "rat \<Rightarrow> layer_answers \<Rightarrow> bool" where
  "vetoed threshold a = (case nlp_similarity a of None \<Rightarrow> False | Some s \<Rightarrow> s < threshold)"

text \<open>The part of veto mode after the direct layer has not accepted, with the notes and calls so far.\<close>

definition veto_rest :: "rat \<Rightarrow> layer_answers \<Rightarrow> veto_note list \<Rightarrow> layer_call list \<Rightarrow> layer_evaluation \<times> layer_call list" where
  "veto_rest threshold a notes calls =
     (let (hm, rule) = heuristic_eval a;
          calls = calls @ [CallHeuristic];
          calls' = (if hm then calls @ [CallSimilarity] else calls);
          notes' = (if hm \<and> vetoed threshold a then notes @ [VetoHeuristic] else notes)
      in if hm \<and> \<not> vetoed threshold a
         then (no_layer\<lparr>le_matched := True, le_layer := HeuristicKind, le_confidence := 9/10, le_rule := rule,
                 le_similarity := nlp_similarity a, le_confirmed := True, le_notes := notes\<rparr>, calls')
         else if nlp_match a
         then (no_layer\<lparr>le_matched := True, le_layer := NlpKind, le_confidence := 7/10, le_notes := notes'\<rparr>, calls' @ [CallNlp])
         else (no_layer\<lparr>le_notes := notes'\<rparr>, calls' @ [CallNlp]))"

definition veto_layers :: "rat \<Rightarrow> layer_answers \<Rightarrow> layer_evaluation \<times> layer_call list" where
  "veto_layers threshold a =
     (let (hit, path) = direct_eval a
      in if hit \<and> path = Strong
         then (no_layer\<lparr>le_matched := True, le_layer := DirectKind, le_confidence := 95/100, le_path := Strong\<rparr>, [CallDirect])
         else if hit \<and> path = Fuzzy
         then if vetoed threshold a then veto_rest threshold a [VetoFuzzyDirect] [CallDirect, CallSimilarity]
              else (no_layer\<lparr>le_matched := True, le_layer := DirectKind, le_confidence := 95/100, le_path := Fuzzy,
                      le_similarity := nlp_similarity a, le_confirmed := True\<rparr>, [CallDirect, CallSimilarity])
         else veto_rest threshold a [] [CallDirect])"

definition evaluate_layers :: "cascade_mode \<Rightarrow> rat \<Rightarrow> layer_answers \<Rightarrow> layer_evaluation \<times> layer_call list" where
  "evaluate_layers mode threshold a = (case mode of Cascade \<Rightarrow> cascade_layers a | Veto \<Rightarrow> veto_layers threshold a)"

datatype tree_match = DirectMatch | HeuristicMatch | NlpMatch | PartialMatch | NoTreeMatch

text \<open>
  \<open>evaluate_layers_supply_tree\<close>: \<open>tree_direct\<close> is whether the direct hit survives the veto, and
  \<open>tree_heuristic\<close> whether the heuristic one does.
\<close>

definition evaluate_layers_supply_tree ::
  "bool \<Rightarrow> cascade_mode \<Rightarrow> rat \<Rightarrow> bool \<Rightarrow> layer_answers \<Rightarrow> (rat \<times> tree_match) \<times> layer_call list" where
  "evaluate_layers_supply_tree require_direct mode threshold veto_enabled a =
     (let (hit, path) = direct_eval a
      in if require_direct then (if hit then (1, DirectMatch) else (0, NoTreeMatch), [CallDirect])
         else
           let use_veto = (veto_enabled \<and> mode = Veto);
               fuzzy = (use_veto \<and> hit \<and> path = Fuzzy);
               hit' = (hit \<and> \<not> (fuzzy \<and> vetoed threshold a));
               c1 = [CallDirect] @ (if fuzzy then [CallSimilarity] else [])
           in if hit' then ((1, DirectMatch), c1)
              else
                let hm = fst (heuristic_eval a);
                    hm' = (hm \<and> \<not> (use_veto \<and> vetoed threshold a));
                    c2 = c1 @ [CallHeuristic] @ (if use_veto \<and> hm then [CallSimilarity] else [])
                in if hm' then ((8/10, HeuristicMatch), c2)
                   else if nlp_match a then ((7/10, NlpMatch), c2 @ [CallNlp])
                   else if 3/10 \<le> partial_similarity a
                        then ((partial_similarity a * (6/10), PartialMatch), c2 @ [CallNlp, CallPartial])
                        else ((0, NoTreeMatch), c2 @ [CallNlp, CallPartial]))"

section \<open>What the modes decide\<close>

lemmas layer_defs = evaluate_layers_def cascade_layers_def veto_layers_def veto_rest_def no_layer_def Let_def

text \<open>
  C16: the two modes. Cascade mode accepts a pair exactly when some layer does. Veto mode accepts no
  pair that cascade mode rejects: it accepts a strong direct hit, a fuzzy direct or a heuristic hit
  that the similarity does not contradict, or what the language layer accepts by itself. A similarity
  that cannot be computed vetoes nothing, and then the two modes agree on every pair with a named path.
\<close>

theorem veto_refines_cascade:
  fixes a :: layer_answers and threshold :: rat
  defines "hit \<equiv> fst (direct_eval a)" and "path \<equiv> snd (direct_eval a)" and "hm \<equiv> fst (heuristic_eval a)"
  shows "(le_matched (fst (evaluate_layers Cascade threshold a)) \<longleftrightarrow> hit \<or> hm \<or> nlp_match a) \<and>
    (le_matched (fst (evaluate_layers Veto threshold a)) \<longleftrightarrow>
       hit \<and> path = Strong \<or> hit \<and> path = Fuzzy \<and> \<not> vetoed threshold a \<or> hm \<and> \<not> vetoed threshold a \<or> nlp_match a) \<and>
    (le_matched (fst (evaluate_layers Veto threshold a)) \<le> le_matched (fst (evaluate_layers Cascade threshold a))) \<and>
    (case nlp_similarity a of Some s \<Rightarrow> True | None \<Rightarrow>
       if hit \<and> path = NoPath then True
       else le_layer (fst (evaluate_layers Veto threshold a)) = le_layer (fst (evaluate_layers Cascade threshold a)))"
  by (cases "direct_eval a"; cases "heuristic_eval a"; cases path; cases "nlp_similarity a")
    (auto simp: layer_defs hit_def path_def hm_def vetoed_def)

definition tree_kind :: "tree_match \<Rightarrow> layer_kind" where
  "tree_kind k = (case k of DirectMatch \<Rightarrow> DirectKind | HeuristicMatch \<Rightarrow> HeuristicKind | NlpMatch \<Rightarrow> NlpKind
     | PartialMatch \<Rightarrow> NoKind | NoTreeMatch \<Rightarrow> NoKind)"

text \<open>
  The scoring of supply trees and the evaluation of requirements go through the same layers: with
  the veto switched on for both, and a direct layer that names the path of every hit, they find the
  same layer and make the same calls, the supply tree's partial similarity being asked only when no
  layer answers.
\<close>

theorem cascades_agree:
  assumes path: "fst (direct_eval a) \<longleftrightarrow> snd (direct_eval a) \<noteq> NoPath"
  shows "tree_kind (snd (fst (evaluate_layers_supply_tree False mode threshold True a))) =
      le_layer (fst (evaluate_layers mode threshold a)) \<and>
    snd (evaluate_layers_supply_tree False mode threshold True a) =
      snd (evaluate_layers mode threshold a) @
        (if le_matched (fst (evaluate_layers mode threshold a)) then [] else [CallPartial])"
  using path
  by (cases "direct_eval a"; cases "heuristic_eval a"; cases mode; cases "snd (direct_eval a)")
    (auto simp: layer_defs evaluate_layers_supply_tree_def tree_kind_def)

theorem cascades_agree_witness:
  "snd (evaluate_layers_supply_tree False Veto (2/10) True
      \<lparr>direct_eval = (True, Fuzzy), heuristic_eval = (True, Some ''r1''), nlp_match = False,
       nlp_similarity = Some (1/10), partial_similarity = 0\<rparr>) =
   [CallDirect, CallSimilarity, CallHeuristic, CallSimilarity, CallNlp, CallPartial]"
  using cascades_agree[of "\<lparr>direct_eval = (True, Fuzzy), heuristic_eval = (True, Some ''r1''), nlp_match = False,
       nlp_similarity = Some (1/10), partial_similarity = 0\<rparr>" Veto "2/10"]
  by (simp add: layer_defs vetoed_def)

end
