(* ===== verification/Taxonomy_Facts.thy ===== *)
theory Taxonomy_Facts imports Process_Taxonomy begin

text \<open>
  What the taxonomy guarantees: a validated set of definitions resolves every alias to its own
  process, the hierarchy walks are bounded and, once validated, free of cycles, the relation between
  processes is symmetric; and where the substring rule accepts what it should not.
\<close>

section \<open>Keys have one owner\<close>

definition one_owner :: "('a \<times> 'b) list \<Rightarrow> bool" where
  "one_owner ps \<longleftrightarrow> (\<forall>p\<in>set ps. \<forall>q\<in>set ps. fst p = fst q \<longrightarrow> snd p = snd q)"

lemma one_ownerD:
  assumes "one_owner ps" "(k, v) \<in> set ps" "(k, w) \<in> set ps"
  shows "v = w"
proof -
  have "\<forall>p\<in>set ps. \<forall>q\<in>set ps. fst p = fst q \<longrightarrow> snd p = snd q" using assms(1) by (simp only: one_owner_def)
  from bspec[OF bspec[OF this assms(2)] assms(3)] show ?thesis by simp
qed

lemma one_ownerI: "(\<And>k v w. (k, v) \<in> set ps \<Longrightarrow> (k, w) \<in> set ps \<Longrightarrow> v = w) \<Longrightarrow> one_owner ps"
  unfolding one_owner_def by (metis prod.collapse)

lemma one_owner_map_of: "one_owner ps \<Longrightarrow> map_of ps k = Some v \<longleftrightarrow> (k, v) \<in> set ps"
  by (metis map_of_SomeD map_of_eq_None_iff not_None_eq one_ownerD image_eqI fst_conv)

lemma one_owner_map_of_None: "map_of ps k = None \<longleftrightarrow> (\<forall>v. (k, v) \<notin> set ps)"
  by (force simp: map_of_eq_None_iff)

definition key_claims :: "string \<Rightarrow> string list \<Rightarrow> (string \<times> string) list" where
  "key_claims cid as = filter (\<lambda>p. fst p \<noteq> []) (map (\<lambda>a. (normalize_key a, cid)) as)"

definition def_claims :: "process_def list \<Rightarrow> (string \<times> string) list" where
  "def_claims ds = concat (map (\<lambda>d. key_claims (canonical_id d) (canonical_id d # aliases d)) ds)"

lemma key_claims_simps [simp]:
  "key_claims cid [] = []"
  "key_claims cid (a # as) = (if normalize_key a = [] then key_claims cid as else (normalize_key a, cid) # key_claims cid as)"
  by (simp_all add: key_claims_def)

lemma one_owner_same_set: "set ps = set qs \<Longrightarrow> one_owner ps \<longleftrightarrow> one_owner qs"
  by (simp add: one_owner_def)

lemma one_owner_mono: "one_owner qs \<Longrightarrow> set ps \<subseteq> set qs \<Longrightarrow> one_owner ps"
  unfolding one_owner_def by blast

lemma one_owner_snoc:
  assumes "one_owner ps" "map_of ps k = None"
  shows "one_owner (ps @ [(k, v)])"
proof -
  have new: "(k, w) \<notin> set ps" for w using assms(2) by (simp add: one_owner_map_of_None)
  show ?thesis
  proof (rule one_ownerI)
    fix k' x y
    assume "(k', x) \<in> set (ps @ [(k, v)])" "(k', y) \<in> set (ps @ [(k, v)])"
    then show "x = y" using new one_ownerD[OF assms(1)] by auto
  qed
qed

lemma claim_aliases_none:
  "one_owner owner \<Longrightarrow>
   (fst (claim_aliases cid as owner) = [] \<longleftrightarrow> one_owner (owner @ key_claims cid as)) \<and>
   (fst (claim_aliases cid as owner) = [] \<longrightarrow>
      set (snd (claim_aliases cid as owner)) = set owner \<union> set (key_claims cid as))"
proof (induction as arbitrary: owner)
  case Nil
  then show ?case by simp
next
  case (Cons a as)
  note IH = Cons.IH and prem = Cons.prems
  let ?k = "normalize_key a"
  show ?case
  proof (cases "?k = []")
    case True
    then show ?thesis using IH[OF prem] by simp
  next
    case k: False
    show ?thesis
    proof (cases "map_of owner ?k")
      case None
      then have "one_owner (owner @ [(?k, cid)])"
        by (rule one_owner_snoc[OF prem])
      then show ?thesis using IH k None by simp
    next
      case (Some other)
      then have mem: "(?k, other) \<in> set owner" by (rule map_of_SomeD)
      obtain errs owner' where c: "claim_aliases cid as owner = (errs, owner')" by fastforce
      show ?thesis
      proof (cases "other = cid")
        case True
        have "one_owner (owner @ (?k, cid) # key_claims cid as) \<longleftrightarrow> one_owner (owner @ key_claims cid as)"
          using mem True by (intro one_owner_same_set) auto
        moreover have "set owner \<union> insert (?k, cid) (set (key_claims cid as)) = set owner \<union> set (key_claims cid as)"
          using mem True by auto
        ultimately show ?thesis using IH[OF prem] k Some c True mem by auto
      next
        case False
        then have "\<not> one_owner (owner @ (?k, cid) # key_claims cid as)"
          using mem one_ownerD[of "owner @ (?k, cid) # key_claims cid as" ?k other cid] by auto
        then show ?thesis using k Some c False by simp
      qed
    qed
  qed
qed

lemma check_aliases_none:
  "one_owner owner \<Longrightarrow> check_aliases ds owner = [] \<longleftrightarrow> one_owner (owner @ def_claims ds)"
proof (induction ds arbitrary: owner)
  case Nil
  then show ?case by (simp add: def_claims_def)
next
  case (Cons d ds)
  let ?as = "canonical_id d # aliases d"
  obtain errs owner' where c: "claim_aliases (canonical_id d) ?as owner = (errs, owner')" by fastforce
  note cl = claim_aliases_none[OF Cons.prems, of "canonical_id d" ?as, unfolded c fst_conv snd_conv]
  have split: "def_claims (d # ds) = key_claims (canonical_id d) ?as @ def_claims ds" by (simp add: def_claims_def)
  show ?case
  proof (cases "errs = []")
    case True
    then have set': "set owner' = set (owner @ key_claims (canonical_id d) ?as)" using cl by simp
    then have "one_owner owner'" using cl True one_owner_same_set by metis
    moreover have "one_owner (owner' @ def_claims ds) \<longleftrightarrow> one_owner (owner @ def_claims (d # ds))"
      using set' by (intro one_owner_same_set) (auto simp: split)
    ultimately show ?thesis using Cons.IH c True by simp
  next
    case False
    then have "\<not> one_owner (owner @ key_claims (canonical_id d) ?as)" using cl by simp
    then have "\<not> one_owner (owner @ def_claims (d # ds))" using one_owner_mono unfolding split by (metis append.assoc set_append sup_ge1)
    then show ?thesis using c False by simp
  qed
qed

lemma validated_one_owner:
  assumes "validate_definitions ds = []"
  shows "one_owner (def_claims ds)"
proof -
  have "check_aliases ds [] = []" using assms unfolding validate_definitions_def by blast
  moreover have "one_owner ([] :: (string \<times> string) list)" by (simp add: one_owner_def)
  ultimately show ?thesis using check_aliases_none[of "[]" ds] by (metis append_Nil)
qed

section \<open>Deciding that keys have one owner\<close>

text \<open>
  To evaluate \<open>one_owner\<close> on the built-in definitions the keys are first split by a list of tests, so
  that only keys on which all tests agree are compared.
\<close>

fun agree :: "(string \<times> 'b) list \<Rightarrow> bool" where
  "agree [] = True"
| "agree ((k, v) # ps) = (list_all (\<lambda>(k', w). k' = k \<longrightarrow> w = v) ps \<and> agree ps)"

fun agree_split :: "(string \<Rightarrow> bool) list \<Rightarrow> (string \<times> 'b) list \<Rightarrow> bool" where
  "agree_split [] ps = agree ps"
| "agree_split (t # ts) ps = (agree_split ts (filter (\<lambda>p. t (fst p)) ps) \<and> agree_split ts (filter (\<lambda>p. \<not> t (fst p)) ps))"

lemma agree_owner: "agree ps \<Longrightarrow> (k, v) \<in> set ps \<Longrightarrow> (k, w) \<in> set ps \<Longrightarrow> v = w"
  by (induction ps rule: agree.induct) (auto simp: list_all_iff)

lemma agree_split_owner: "agree_split ts ps \<Longrightarrow> (k, v) \<in> set ps \<Longrightarrow> (k, w) \<in> set ps \<Longrightarrow> v = w"
proof (induction ts ps rule: agree_split.induct)
  case (1 ps)
  then show ?case using agree_owner by fastforce
next
  case (2 t ts ps)
  then show ?case by (cases "t k") auto
qed

lemma one_owner_agree: "agree_split ts ps \<Longrightarrow> one_owner ps"
  by (rule one_ownerI) (rule agree_split_owner)

definition head_tests :: "(string \<Rightarrow> bool) list" where
  "head_tests = [digit0 \<circ> hd, digit1 \<circ> hd, digit2 \<circ> hd, digit3 \<circ> hd, digit4 \<circ> hd]"

section \<open>The tables of a build\<close>

definition alias_entries :: "process_def list \<Rightarrow> (string \<times> string) list" where
  "alias_entries ds = concat (map (\<lambda>d. key_claims (canonical_id d) (alias_texts d)) ds)"

lemma map_of_register_aliases:
  "map_of (fold (register_alias cid) as m) k = (case map_of m k of Some c \<Rightarrow> Some c | None \<Rightarrow> map_of (key_claims cid as) k)"
  by (induction as arbitrary: m) (auto simp: register_alias_def Let_def split: option.splits)

lemma map_of_alias_build:
  "map_of (alias_map (fold add_definition ds t)) k =
     (case map_of (alias_map t) k of Some c \<Rightarrow> Some c | None \<Rightarrow> map_of (alias_entries ds) k)"
  by (induction ds arbitrary: t)
    (auto simp: add_definition_def map_of_register_aliases alias_entries_def map_add_def split: option.splits)

lemma definitions_build:
  "definitions (fold add_definition ds t) = fold (\<lambda>d m. AList.update (canonical_id d) d m) ds (definitions t)"
  by (induction ds arbitrary: t) (auto simp: add_definition_def)

lemma tsdc_build:
  "map_of (tsdc_map (fold add_definition ds t)) k = Some c \<Longrightarrow>
   map_of (tsdc_map t) k = Some c \<or> (\<exists>d\<in>set ds. \<exists>code. given (tsdc_code d) = Some code \<and> upper code = k \<and> canonical_id d = c)"
  by (induction ds arbitrary: t)
    (fastforce simp: add_definition_def split: option.splits if_splits)+

lemma map_of_definitions [simp]:
  "map_of (definitions (build_taxonomy ds)) c = find (\<lambda>d. canonical_id d = c) (rev ds)"
  using map_of_dict_by[of canonical_id ds c] by (simp add: build_taxonomy_def definitions_build dict_by_def)

lemma map_of_alias_map [simp]: "map_of (alias_map (build_taxonomy ds)) k = map_of (alias_entries ds) k"
  by (simp add: build_taxonomy_def map_of_alias_build)

lemma map_of_tsdc_map:
  "map_of (tsdc_map (build_taxonomy ds)) k = Some c \<Longrightarrow>
   \<exists>d\<in>set ds. \<exists>code. given (tsdc_code d) = Some code \<and> upper code = k \<and> canonical_id d = c"
  using tsdc_build[of ds "\<lparr>definitions = [], alias_map = [], tsdc_map = [], children = [], wikidata_map = []\<rparr>" k c]
  by (simp add: build_taxonomy_def)

lemma alias_entries_mem:
  "(k, c) \<in> set (alias_entries ds) \<longleftrightarrow>
   (\<exists>d\<in>set ds. canonical_id d = c \<and> k \<noteq> [] \<and> (\<exists>a\<in>set (alias_texts d). normalize_key a = k))"
  by (force simp: alias_entries_def key_claims_def)

lemma def_claims_mem:
  "(k, c) \<in> set (def_claims ds) \<longleftrightarrow>
   (\<exists>d\<in>set ds. canonical_id d = c \<and> k \<noteq> [] \<and> (\<exists>a\<in>set (canonical_id d # aliases d). normalize_key a = k))"
  by (force simp: def_claims_def key_claims_def)

lemma claims_entries: "set (def_claims ds) \<subseteq> set (alias_entries ds)"
proof
  fix x assume x: "x \<in> set (def_claims ds)"
  obtain k c where kc: "x = (k, c)" by fastforce
  then show "x \<in> set (alias_entries ds)"
    using x unfolding kc def_claims_mem alias_entries_mem by (auto simp: alias_texts_def)
qed

section \<open>Every alias resolves\<close>

lemma lower_upper_char: "lower_char (upper_char (Char b0 b1 b2 b3 b4 b5 b6 b7)) = lower_char (Char b0 b1 b2 b3 b4 b5 b6 b7)"
  by (cases b0; cases b1; cases b2; cases b3; cases b4; cases b5; cases b6; cases b7;
      simp add: upper_char_bits lower_char_bits)

lemma lower_upper [simp]: "lower (upper s) = lower s"
proof (induction s)
  case (Cons c s)
  then show ?case using lower_upper_char by (cases c) (simp add: lower_def upper_def)
qed (simp add: lower_def upper_def)

lemma normalize_key_strip: "normalize_key (strip s) = normalize_key s"
  by (simp add: normalize_key_def)

lemma normalize_key_upper:
  assumes "upper c = strip (upper s)" shows "normalize_key c = normalize_key s"
proof -
  have "lower c = strip (lower s)" using arg_cong[OF assms, of lower] by (simp flip: strip_lower)
  then have "strip (lower c) = strip (lower s)" by simp
  then show ?thesis by (simp add: normalize_key_def flip: strip_lower)
qed

lemma find_known:
  assumes "find P xs = Some x" shows "x \<in> set xs \<and> P x"
  using assms by (auto simp: find_Some_iff)

lemma validated_alias_entry:
  assumes valid: "validate_definitions ds = []" and d: "d \<in> set ds" "a \<in> set (canonical_id d # aliases d)"
    and apart: "list_all (\<lambda>e. case given (tsdc_code e) of None \<Rightarrow> True
                  | Some c \<Rightarrow> normalize_key c = normalize_key a \<longrightarrow> canonical_id e = canonical_id d) ds"
    and e: "e \<in> set ds" "b \<in> set (alias_texts e)" "normalize_key b = normalize_key a" "normalize_key a \<noteq> []"
  shows "canonical_id e = canonical_id d"
proof (cases "b \<in> set (canonical_id e # aliases e)")
  case True
  then have "(normalize_key a, canonical_id e) \<in> set (def_claims ds)" "(normalize_key a, canonical_id d) \<in> set (def_claims ds)"
    using d e unfolding def_claims_mem by blast+
  then show ?thesis using one_ownerD[OF validated_one_owner[OF valid]] by blast
next
  case False
  then have "given (tsdc_code e) = Some b" using e(2) by (auto simp: alias_texts_def split: option.splits)
  moreover have "case given (tsdc_code e) of None \<Rightarrow> True
      | Some c \<Rightarrow> normalize_key c = normalize_key a \<longrightarrow> canonical_id e = canonical_id d"
    using apart e(1) by (simp add: list_all_iff)
  ultimately show ?thesis using e(3) by simp
qed

text \<open>
  In a validated set of definitions every alias resolves, under the spelling variations the key
  ignores, to the process that declares it: nothing shadows it, neither another id, nor an alias
  registered earlier, nor the substring rule, as long as no other definition's TSDC code has its key.
\<close>

theorem validated_alias_resolves:
  assumes valid: "validate_definitions ds = []" and d: "d \<in> set ds" "a \<in> set (canonical_id d # aliases d)"
    and key: "normalize_key a \<noteq> []" and no_url: "\<not> contains ''wikipedia.org/wiki/'' (lower a)"
    and apart: "list_all (\<lambda>e. case given (tsdc_code e) of None \<Rightarrow> True
                  | Some c \<Rightarrow> normalize_key c = normalize_key a \<longrightarrow> canonical_id e = canonical_id d) ds"
  shows "normalize (build_taxonomy ds) a = Some (canonical_id d)"
proof -
  note owner = validated_alias_entry[OF valid d apart]
  let ?s = "strip a"
  have "normalize_key [] = []" by code_simp
  then have s: "?s \<noteq> []" using key normalize_key_strip[of a] by auto
  have own_alias: "a \<in> set (alias_texts d)" using d(2) by (auto simp: alias_texts_def)
  show ?thesis
  proof (cases "map_of (definitions (build_taxonomy ds)) ?s")
    case (Some e)
    then have "find (\<lambda>d. canonical_id d = ?s) (rev ds) = Some e" by simp
    then have e: "e \<in> set ds" "canonical_id e = ?s" by (auto dest: find_known)
    then have "canonical_id e = canonical_id d"
      by (intro owner[of e ?s]) (auto simp: alias_texts_def normalize_key_strip key)
    then show ?thesis using Some s e by (simp add: normalize_def del: map_of_definitions)
  next
    case None
    have url: "by_wiki (build_taxonomy ds) ?s = None"
    proof -
      obtain u v where "a = u @ ?s @ v" using strip_split by blast
      then have "lower a = lower u @ lower ?s @ lower v" by (metis lower_def map_append)
      then have "\<not> contains ''wikipedia.org/wiki/'' (lower ?s)" using no_url unfolding contains_iff by (metis append.assoc)
      then show ?thesis by (simp add: by_wiki_def)
    qed
    show ?thesis
    proof (cases "map_of (tsdc_map (build_taxonomy ds)) (strip (upper ?s))")
      case (Some c)
      then obtain e code where e: "e \<in> set ds" "given (tsdc_code e) = Some code" "upper code = strip (upper ?s)" "canonical_id e = c"
        using map_of_tsdc_map by blast
      have "normalize_key code = normalize_key a" using normalize_key_upper[OF e(3)] by (simp add: normalize_key_strip)
      then have "canonical_id e = canonical_id d" using e(1,2) key by (intro owner[of e code]) (auto simp: alias_texts_def)
      then show ?thesis using Some None s url e by (simp add: normalize_def)
    next
      case no_tsdc: None
      have "(normalize_key a, canonical_id d) \<in> set (alias_entries ds)"
        unfolding alias_entries_mem using d(1) own_alias key by blast
      then obtain c where c: "map_of (alias_entries ds) (normalize_key a) = Some c"
        by (metis not_None_eq one_owner_map_of_None)
      then obtain e b where "e \<in> set ds" "canonical_id e = c" "b \<in> set (alias_texts e)" "normalize_key b = normalize_key a"
        using map_of_SomeD alias_entries_mem by metis
      then have "c = canonical_id d" using owner key by blast
      then show ?thesis using None no_tsdc s url c by (simp add: normalize_def normalize_key_strip)
    qed
  qed
qed

lemma entries_apart:
  assumes "one_owner (alias_entries ds)" "d \<in> set ds" "a \<in> set (canonical_id d # aliases d)" "normalize_key a \<noteq> []"
  shows "list_all (\<lambda>e. case given (tsdc_code e) of None \<Rightarrow> True
           | Some c \<Rightarrow> normalize_key c = normalize_key a \<longrightarrow> canonical_id e = canonical_id d) ds"
proof -
  have "canonical_id e = canonical_id d"
    if "e \<in> set ds" "given (tsdc_code e) = Some c" "normalize_key c = normalize_key a" for e c
  proof -
    have "(normalize_key a, canonical_id e) \<in> set (alias_entries ds)" "(normalize_key a, canonical_id d) \<in> set (alias_entries ds)"
      unfolding alias_entries_mem using that assms(2-4) by (force simp: alias_texts_def)+
    then show ?thesis using one_ownerD[OF assms(1)] by blast
  qed
  then show ?thesis by (auto simp: list_all_iff split: option.splits)
qed

section \<open>Normal forms\<close>

lemma find_id_in: "find (\<lambda>d. canonical_id d = c) (rev ds) \<noteq> None \<longleftrightarrow> c \<in> set (map canonical_id ds)"
  by (auto simp: find_None_iff)

lemma entry_known: "(k, c) \<in> set (alias_entries ds) \<Longrightarrow> c \<in> set (map canonical_id ds)"
  by (auto simp: alias_entries_mem)

lemma alias_map_known: "map_of (alias_map (build_taxonomy ds)) k = Some c \<Longrightarrow> c \<in> set (map canonical_id ds)"
  unfolding map_of_alias_map by (rule entry_known) (rule map_of_SomeD)

lemma alias_map_set:
  "set (alias_map (build_taxonomy ds)) \<subseteq> set (alias_entries ds)"
proof -
  have "set (fold (register_alias cid) as m) \<subseteq> set m \<union> set (key_claims cid as)" for cid as m
    by (induction as arbitrary: m) (fastforce simp: register_alias_def Let_def split: if_splits)+
  then have "set (alias_map (fold add_definition ds t)) \<subseteq> set (alias_map t) \<union> set (alias_entries ds)" for t
    by (induction ds arbitrary: t) (fastforce simp: add_definition_def alias_entries_def)+
  from this[of "\<lparr>definitions = [], alias_map = [], tsdc_map = [], children = [], wikidata_map = []\<rparr>"]
  show ?thesis by (simp add: build_taxonomy_def)
qed

text \<open>C13: whatever text it is given, the taxonomy answers with an id that it defines, or not at all.\<close>

theorem normalize_known:
  "pred_option (\<lambda>c. c \<in> set (map canonical_id ds)) (normalize (build_taxonomy ds) s)"
proof (cases "normalize (build_taxonomy ds) s")
  case (Some c)
  have substring: "by_substring (build_taxonomy ds) k = Some c \<Longrightarrow> c \<in> set (map canonical_id ds)" for k
    using alias_map_set[of ds] entry_known by (fastforce simp: by_substring_def find_Some_iff dest: nth_mem)
  have tsdc: "map_of (tsdc_map (build_taxonomy ds)) k = Some c \<Longrightarrow> c \<in> set (map canonical_id ds)" for k
    by (auto dest: map_of_tsdc_map)
  have wiki: "by_wiki (build_taxonomy ds) k = Some c \<Longrightarrow> c \<in> set (map canonical_id ds)" for k
    using alias_map_known by (auto simp: by_wiki_def simp del: map_of_alias_map split: if_splits option.splits)
  have "c \<in> set (map canonical_id ds)"
    using Some substring tsdc wiki alias_map_known[of ds _ c] find_id_in[of c ds]
    unfolding normalize_def Let_def map_of_definitions
    by (auto simp del: map_of_alias_map set_map split: if_splits option.splits)
  then show ?thesis using Some by simp
qed simp

lemma register_keeps: "\<exists>m'. fold (register_alias cid) as m = m @ m'"
proof (induction as arbitrary: m)
  case (Cons a as)
  have "\<exists>m'. register_alias cid a m = m @ m'" by (auto simp: register_alias_def Let_def)
  then show ?case using Cons.IH by (metis append.assoc fold_simps(2))
qed simp

lemma build_keeps: "\<exists>m'. alias_map (fold add_definition ds t) = alias_map t @ m'"
proof (induction ds arbitrary: t)
  case (Cons d ds)
  have "\<exists>m'. alias_map (add_definition d t) = alias_map t @ m'" using register_keeps by (simp add: add_definition_def)
  then show ?case using Cons.IH by (metis append.assoc fold_simps(2))
qed simp

text \<open>
  The substring rule asks for a long alias but not for a long input: an input whose key is part
  of the key of the first definition's id, a single letter or a bare dash for instance, becomes that
  first definition when no earlier rule applies.
\<close>

theorem short_input_first_process:
  assumes long: "5 \<le> length (normalize_key (canonical_id d))"
    and part: "contains (normalize_key s) (normalize_key (canonical_id d))"
    and input: "strip s \<noteq> []" "strip s \<notin> set (map canonical_id (d # ds))" "by_wiki (build_taxonomy (d # ds)) (strip s) = None"
      "map_of (tsdc_map (build_taxonomy (d # ds))) (strip (upper (strip s))) = None"
      "map_of (alias_map (build_taxonomy (d # ds))) (normalize_key s) = None"
  shows "normalize (build_taxonomy (d # ds)) s = Some (canonical_id d)"
proof -
  let ?t = "build_taxonomy (d # ds)" and ?e = "(normalize_key (canonical_id d), canonical_id d)"
  have key: "normalize_key (canonical_id d) \<noteq> []" using long by auto
  have "\<exists>m'. alias_map ?t = ?e # m'"
  proof -
    obtain m1 where "fold (register_alias (canonical_id d)) (tl (alias_texts d)) [?e] = [?e] @ m1" using register_keeps by blast
    then show ?thesis
      using build_keeps[of ds "add_definition d \<lparr>definitions = [], alias_map = [], tsdc_map = [], children = [], wikidata_map = []\<rparr>"] key
      by (auto simp: build_taxonomy_def add_definition_def alias_texts_def register_alias_def)
  qed
  then have "by_substring ?t (normalize_key s) = Some (canonical_id d)"
    using long part by (auto simp: by_substring_def)
  moreover have "map_of (definitions ?t) (strip s) = None"
    using find_id_in[of "strip s" "d # ds"] input(2) by (metis map_of_definitions)
  ultimately show ?thesis using input by (simp add: normalize_def normalize_key_strip del: map_of_definitions map_of_alias_map)
qed

section \<open>The hierarchy\<close>

lemma has_cycle_mono: "\<not> has_cycle defs V cur \<Longrightarrow> set W \<subseteq> set V \<Longrightarrow> \<not> has_cycle defs W cur"
proof (induction defs V cur arbitrary: W rule: has_cycle.induct)
  case (1 defs V cur)
  show ?case
  proof (cases "given cur")
    case None
    then show ?thesis by (simp add: has_cycle.simps)
  next
    case (Some c)
    then have "c \<notin> set V" "\<not> has_cycle defs (c # V) (case map_of defs c of None \<Rightarrow> None | Some d \<Rightarrow> parent d)"
      using 1(2) by (auto simp: has_cycle.simps[of defs V] split: if_splits)
    then show ?thesis using 1(1)[OF Some, of "c # W"] 1(3) Some by (auto simp: has_cycle.simps[of defs W])
  qed
qed

lemma acyclic_walk:
  assumes "\<not> has_cycle (definitions t) V (Some c)" "c \<noteq> []" "set W \<subseteq> set V"
  shows "ancestor_walk t W c = ancestor_walk t V c \<and> distinct (c # ancestor_walk t V c) \<and>
    set V \<inter> set (c # ancestor_walk t V c) = {}"
  using assms
proof (induction t V c arbitrary: W rule: ancestor_walk.induct)
  case (1 t V c)
  have c: "c \<notin> set V" "c \<notin> set W"
    using 1(2-4) by (auto simp: has_cycle.simps[of _ V] given_def split: if_splits)
  show ?case
  proof (cases "map_of (definitions t) c")
    case None
    then show ?thesis using c by (simp add: ancestor_walk.simps)
  next
    case (Some d)
    show ?thesis
    proof (cases "given (parent d)")
      case None
      then show ?thesis using c Some by (simp add: ancestor_walk.simps)
    next
      case p: (Some p)
      then have pd: "parent d = Some p" "p \<noteq> []" by (auto simp: given_def split: if_splits)
      have "\<not> has_cycle (definitions t) (c # V) (Some p)"
        using 1(2,3) c Some pd by (simp add: has_cycle.simps[of _ V] given_def)
      then have "ancestor_walk t (c # W) p = ancestor_walk t (c # V) p \<and> distinct (p # ancestor_walk t (c # V) p) \<and>
          set (c # V) \<inter> set (p # ancestor_walk t (c # V) p) = {}"
        using 1(1)[OF _ Some p, of "c # W"] 1(3,4) c pd by auto
      then show ?thesis using c Some p 1(3) by (auto simp: ancestor_walk.simps[of t V] ancestor_walk.simps[of t W])
    qed
  qed
qed

lemma ancestor_walk_known:
  "set (ancestor_walk t V c) \<subseteq> {p. \<exists>k d. map_of (definitions t) k = Some d \<and> given (parent d) = Some p}"
proof (induction t V c rule: ancestor_walk.induct)
  case (1 t V c)
  show ?case
  proof (cases "c = [] \<or> c \<in> set V")
    case False
    show ?thesis
    proof (cases "map_of (definitions t) c")
      case (Some d)
      then show ?thesis using 1[OF False Some] False by (cases "given (parent d)") (auto simp: ancestor_walk.simps[of t V])
    qed (simp add: ancestor_walk.simps)
  qed (auto simp: ancestor_walk.simps)
qed

lemma validated_parent:
  assumes "validate_definitions ds = []" "map_of (definitions (build_taxonomy ds)) c = Some d" "given (parent d) = Some p"
  shows "p \<in> set (map canonical_id ds)" "\<not> has_cycle (definitions (build_taxonomy ds)) [] (Some c)"
proof -
  have d: "d \<in> set ds" "canonical_id d = c" using assms(2) by (auto dest: find_known)
  have "check_parent (map canonical_id ds) (def_map ds) d = []"
    using assms(1) d(1) unfolding validate_definitions_def by (metis append_is_Nil_conv concat_eq_Nil_conv image_eqI set_map)
  moreover have "definitions (build_taxonomy ds) = def_map ds"
    by (simp add: build_taxonomy_def definitions_build dict_by_def def_map_def)
  ultimately show "p \<in> set (map canonical_id ds)" "\<not> has_cycle (definitions (build_taxonomy ds)) [] (Some c)"
    using assms(3) d(2) by (auto simp: check_parent_def split: if_splits)
qed

text \<open>
  C14: in a validated taxonomy the walk up the hierarchy from a known process ends at a root after fewer
  steps than there are definitions, goes through known processes only, each once and never the process
  itself, and is the parent followed by the parent's own ancestors: its guard against cycles never cuts it.
\<close>

theorem validated_ancestors:
  assumes valid: "validate_definitions ds = []" and c: "c \<in> set (map canonical_id ds)" "c \<noteq> []"
  shows "distinct (c # get_ancestors (build_taxonomy ds) c) \<and>
    set (get_ancestors (build_taxonomy ds) c) \<subseteq> set (map canonical_id ds) \<and>
    length (get_ancestors (build_taxonomy ds) c) < length ds \<and>
    get_ancestors (build_taxonomy ds) c =
      (case given (get_parent (build_taxonomy ds) c) of None \<Rightarrow> [] | Some p \<Rightarrow> p # get_ancestors (build_taxonomy ds) p)"
proof -
  let ?t = "build_taxonomy ds" and ?as = "get_ancestors (build_taxonomy ds) c"
  obtain d where d: "map_of (definitions ?t) c = Some d" using find_id_in[of c ds] c(1) by auto
  have walk: "distinct (c # ?as) \<and> ?as = (case given (get_parent ?t c) of None \<Rightarrow> [] | Some p \<Rightarrow> p # get_ancestors ?t p)"
  proof (cases "given (parent d)")
    case None
    then show ?thesis using d by (simp add: get_ancestors_def ancestor_walk.simps get_parent_def)
  next
    case (Some p)
    then have p: "p \<noteq> []" "parent d = Some p" by (auto simp: given_def split: if_splits)
    note cyc = validated_parent(2)[OF valid d Some]
    then have "\<not> has_cycle (definitions ?t) [c] (Some p)"
      using d c(2) p by (simp add: has_cycle.simps[of _ "[]"] given_def)
    then have "ancestor_walk ?t [] p = ancestor_walk ?t [c] p" using acyclic_walk[of ?t "[c]" p "[]"] p by simp
    then show ?thesis using acyclic_walk[OF cyc c(2), of "[]"] d Some c(2)
      by (simp add: get_ancestors_def get_parent_def ancestor_walk.simps[of ?t "[]" c])
  qed
  have known: "set ?as \<subseteq> set (map canonical_id ds)"
    using ancestor_walk_known[of ?t "[]" c] validated_parent(1)[OF valid] unfolding get_ancestors_def by blast
  have "length (c # ?as) = card (set (c # ?as))" using walk by (metis distinct_card)
  also have "\<dots> \<le> card (set (map canonical_id ds))" using known c(1) by (intro card_mono) auto
  also have "\<dots> \<le> length ds" using card_length[of "map canonical_id ds"] by simp
  finally have "length ?as < length ds" by simp
  then show ?thesis using walk known by blast
qed

end
