(* ===== verification/Process_Match.thy ===== *)
theory Process_Match imports Capability_Rules Layer_Cascade Taxonomy_Facts begin

text \<open>
  How \<open>MatchingService\<close> compares one required with one offered process
  (\<open>services/matching_service.py\<close>): the direct, the rule and the language layer as the cascade calls
  them. The language matcher of a domain is a parameter: its results and its similarity, each \<open>None\<close>
  where the call times out or raises.
\<close>

record nlp_layer =
  nlp_results :: "string \<Rightarrow> string \<Rightarrow> (bool \<times> rat) list option"
  nlp_sim :: "string \<Rightarrow> string \<Rightarrow> rat option"

record match_config =
  mc_taxonomy :: taxonomy
  mc_rules :: "rule_manager option"
  mc_nlp :: "string \<Rightarrow> nlp_layer option"
  veto_enabled :: bool
  veto_threshold :: rat

section \<open>Similarity of two process names\<close>

text \<open>\<open>s.split(c)\<close> and \<open>s.split()\<close>.\<close>

fun split_on :: "char \<Rightarrow> string \<Rightarrow> string list" where
  "split_on c [] = [[]]"
| "split_on c (x # s) = (if x = c then [] # split_on c s else (x # hd (split_on c s)) # tl (split_on c s))"

function split_space :: "string \<Rightarrow> string list" where
  "split_space s =
     (case dropWhile is_space s of
        [] \<Rightarrow> []
      | c # t \<Rightarrow> takeWhile (\<lambda>x. \<not> is_space x) (c # t) # split_space (dropWhile (\<lambda>x. \<not> is_space x) (c # t)))"
  by pat_completeness auto
termination
proof (relation "measure length", goal_cases)
  case (2 s c t)
  have "\<not> is_space c" using 2 hd_dropWhile[of is_space s] by simp
  then have "length (dropWhile (\<lambda>x. \<not> is_space x) (c # t)) \<le> length t" by (simp add: length_dropWhile_le)
  also have "\<dots> < length s" using 2 length_dropWhile_le[of is_space s] by simp
  finally show ?case by simp
qed simp

declare split_space.simps [simp del]

definition process_words :: "string \<Rightarrow> string list" where
  "process_words s = remdups (if CHR ''_'' \<in> set s then split_on (CHR ''_'') s else split_space s)"

definition jaccard :: "string list \<Rightarrow> string list \<Rightarrow> rat" where
  "jaccard xs ys = of_nat (length (filter (\<lambda>x. x \<in> set ys) xs)) / of_nat (length (xs @ filter (\<lambda>y. y \<notin> set xs) ys))"

definition calculate_process_similarity :: "taxonomy \<Rightarrow> string \<Rightarrow> string \<Rightarrow> rat" where
  "calculate_process_similarity t p q =
     (if p = [] \<or> q = [] then 0
      else let a = normalize_process_name t p; b = normalize_process_name t q
           in if a = b then 1
              else if are_related t a b then 85/100
              else if contains a b \<or> contains b a then 7/10
              else if process_words a = [] \<or> process_words b = [] then 0
              else jaccard (process_words a) (process_words b))"

section \<open>The layers\<close>

definition is_uri :: "string \<Rightarrow> bool" where
  "is_uri s \<longleftrightarrow> starts_with ''http://'' s \<or> starts_with ''https://'' s"

definition direct_match_evaluate :: "taxonomy \<Rightarrow> string \<Rightarrow> string \<Rightarrow> bool \<times> direct_path" where
  "direct_match_evaluate t req cap =
     (let a = normalize_process_name t req; b = normalize_process_name t cap
      in if a = [] \<or> b = [] then (False, NoPath)
         else if a = b then (True, Strong)
         else if strip (lower req) = strip (lower cap) then (True, Strong)
         else if is_uri req \<or> is_uri cap then (False, NoPath)
         else if contains a b \<or> contains b a then (True, Fuzzy)
         else if 3/10 \<le> calculate_process_similarity t req cap then (True, Fuzzy)
         else (False, NoPath))"

definition heuristic_match_with_rule :: "match_config \<Rightarrow> string \<Rightarrow> string \<Rightarrow> string \<Rightarrow> bool \<times> string option" where
  "heuristic_match_with_rule g dmn req cap =
     (case mc_rules g of
        None \<Rightarrow> (False, None)
      | Some m \<Rightarrow>
          (let t = mc_taxonomy g;
               res = match_requirements_to_capabilities m [[(''process_name'', normalize_process_name t req)]]
                       [[(''process_name'', normalize_process_name t cap)]] dmn ''process_name'' ''process_name''
           in case find (\<lambda>r. cm_matched r \<and> 7/10 \<le> cm_confidence r) res of
             None \<Rightarrow> (False, None)
           | Some r \<Rightarrow> (True, map_option rule_id (cm_rule r))))"

text \<open>A text that is a URI is given to the language matcher by its normal form.\<close>

definition nlp_text :: "taxonomy \<Rightarrow> string \<Rightarrow> string" where
  "nlp_text t s = (if is_uri s then normalize_process_name t s else s)"

definition nlp_semantic_similarity :: "match_config \<Rightarrow> string \<Rightarrow> string \<Rightarrow> string \<Rightarrow> rat option" where
  "nlp_semantic_similarity g dmn req cap =
     (if is_uri req \<and> is_uri cap then None
      else case mc_nlp g dmn of
        None \<Rightarrow> None
      | Some n \<Rightarrow> nlp_sim n (nlp_text (mc_taxonomy g) req) (nlp_text (mc_taxonomy g) cap))"

definition nlp_layer_match :: "match_config \<Rightarrow> string \<Rightarrow> string \<Rightarrow> string \<Rightarrow> bool" where
  "nlp_layer_match g dmn req cap =
     (if is_uri req \<and> is_uri cap then False
      else case mc_nlp g dmn of
        None \<Rightarrow> False
      | Some n \<Rightarrow>
          (case nlp_results n (nlp_text (mc_taxonomy g) req) (nlp_text (mc_taxonomy g) cap) of
             None \<Rightarrow> False
           | Some rs \<Rightarrow>
               (if list_ex (\<lambda>(ok, c). ok \<and> 7/10 \<le> c) rs
                then (case (given (normalize (mc_taxonomy g) req), given (normalize (mc_taxonomy g) cap)) of
                        (Some a, Some b) \<Rightarrow> are_related (mc_taxonomy g) a b
                      | _ \<Rightarrow> True)
                else False)))"

text \<open>The answers the cascade gets for one pair, and the evaluation of the pair.\<close>

definition pair_answers :: "match_config \<Rightarrow> string \<Rightarrow> string \<Rightarrow> string \<Rightarrow> layer_answers" where
  "pair_answers g dmn req cap = \<lparr>
     direct_eval = direct_match_evaluate (mc_taxonomy g) req cap,
     heuristic_eval = heuristic_match_with_rule g dmn req cap,
     nlp_match = nlp_layer_match g dmn req cap,
     nlp_similarity = nlp_semantic_similarity g dmn req cap,
     partial_similarity = calculate_process_similarity (mc_taxonomy g) req cap\<rparr>"

definition pair_mode :: "match_config \<Rightarrow> cascade_mode" where
  "pair_mode g = (if veto_enabled g then Veto else Cascade)"

definition evaluate_pair :: "match_config \<Rightarrow> string \<Rightarrow> string \<Rightarrow> string \<Rightarrow> layer_evaluation" where
  "evaluate_pair g dmn req cap = fst (evaluate_layers (pair_mode g) (veto_threshold g) (pair_answers g dmn req cap))"

section \<open>The direct layer on known processes\<close>

lemma check_ids_mem: "check_ids ds seen = [] \<Longrightarrow> d \<in> set ds \<Longrightarrow> lower (canonical_id d) = canonical_id d \<and> snake_case (canonical_id d)"
  by (induction ds arbitrary: seen) (auto simp: Let_def split: if_splits)

lemma validated_id:
  assumes "validate_definitions ds = []" "c \<in> set (map canonical_id ds)"
  shows "lower c = c" "snake_case c" "map_of (definitions (build_taxonomy ds)) c \<noteq> None"
proof -
  have "check_ids ds [] = []" using assms(1) unfolding validate_definitions_def by blast
  then show "lower c = c" "snake_case c" using assms(2) check_ids_mem by auto
  show "map_of (definitions (build_taxonomy ds)) c \<noteq> None" using assms(2) find_id_in[of c ds] by simp
qed

lemma snake_case_head: "snake_case c \<Longrightarrow> c \<noteq> [] \<and> \<not> is_uri c"
proof -
  assume s: "snake_case c"
  then have ne: "c \<noteq> []" by (auto simp: snake_case_def Let_def)
  moreover have "\<not> starts_with p c" if "p = ''http://'' \<or> p = ''https://''" for p
  proof
    assume "starts_with p c"
    then obtain t where c: "c = p @ t" by (auto elim: starts_withE)
    let ?b = "if c \<noteq> [] \<and> last c = CHR 0x0A then butlast c else c"
    have "CHR '':'' \<in> set (tl ?b)"
    proof (cases t rule: rev_cases)
      case Nil
      then show ?thesis using c that by auto
    next
      case (snoc u x)
      then show ?thesis using c that by (auto simp: butlast_append)
    qed
    moreover have "list_all (\<lambda>c. is_id_char c \<or> c = CHR ''_'') (tl ?b)" using s by (simp add: snake_case_def Let_def)
    ultimately have "is_id_char (CHR '':'')" by (auto simp: list_all_iff)
    then show False by (simp add: is_id_char_def)
  qed
  ultimately show ?thesis by (auto simp: is_uri_def)
qed

lemma known_normal: "map_of (definitions t) c \<noteq> None \<Longrightarrow> strip c = c \<Longrightarrow> c \<noteq> [] \<Longrightarrow> normalize_process_name t c = c"
  by (simp add: normalize_process_name_def normalize_def)

text \<open>
  The direct layer on two processes the taxonomy knows. Distinct processes are accepted, with a fuzzy
  hit, when one id contains the other, when they are related in the hierarchy, or merely when the words
  of their ids overlap by three tenths, whether the taxonomy relates them or not.
\<close>

theorem direct_layer_known:
  assumes valid: "validate_definitions ds = []"
    and known: "a \<in> set (map canonical_id ds)" "b \<in> set (map canonical_id ds)" and trim: "strip a = a" "strip b = b"
  shows "direct_match_evaluate (build_taxonomy ds) a b =
    (if a = b then (True, Strong)
     else if contains a b \<or> contains b a \<or> are_related (build_taxonomy ds) a b \<or> 3 / 10 \<le> jaccard (process_words a) (process_words b)
     then (True, Fuzzy) else (False, NoPath))"
proof -
  note ia = validated_id[OF valid known(1)] and ib = validated_id[OF valid known(2)]
  have h: "a \<noteq> []" "b \<noteq> []" "\<not> is_uri a" "\<not> is_uri b" using snake_case_head ia(2) ib(2) by auto
  have n: "normalize_process_name (build_taxonomy ds) a = a" "normalize_process_name (build_taxonomy ds) b = b"
    using known_normal[OF ia(3) trim(1) h(1)] known_normal[OF ib(3) trim(2) h(2)] by auto
  have "process_words c \<noteq> []" if "c \<noteq> []" "strip c = c" for c
  proof (cases "CHR ''_'' \<in> set c")
    case True
    have "split_on x s \<noteq> []" for x s by (induction x s rule: split_on.induct) auto
    then show ?thesis using True by (simp add: process_words_def)
  next
    case False
    have "dropWhile is_space c \<noteq> []"
    proof
      assume "dropWhile is_space c = []"
      then have "strip c = []" by (simp only: strip_def rstrip_by_def lstrip_by_def) simp
      then show False using that by simp
    qed
    then show ?thesis using False by (auto simp: process_words_def split_space.simps[of c] split: list.splits)
  qed
  then have w: "process_words a \<noteq> []" "process_words b \<noteq> []" using h trim by auto
  show ?thesis
    using h n w ia(1) ib(1) trim by (auto simp: direct_match_evaluate_def calculate_process_similarity_def Let_def)
qed

end
