(* ===== verification/Process_Data.thy ===== *)
theory Process_Data imports Taxonomy_Facts begin

text \<open>
  The built-in process definitions (\<open>PROCESS_DEFINITIONS\<close> of \<open>taxonomy/process_taxonomy.py\<close>), which
  the program uses when the taxonomy file is missing or invalid, and what the taxonomy makes of them.
\<close>

definition printing_processes :: "process_def list" where
  "printing_processes = [
    \<lparr>canonical_id = ''3d_printing'', display_name = ''3D Printing'', tsdc_code = Some ''3DP'',
      parent = None, aliases =
      [''3d print'', ''3d printing'', ''3d_printing'', ''3dp'', ''additive manufacturing'',
       ''am'', ''print'', ''printing''],
      wikidata_qid = Some ''Q229367''\<rparr>,
    \<lparr>canonical_id = ''3d_printing_fdm'', display_name = ''FDM 3D Printing'', tsdc_code = None,
      parent = Some ''3d_printing'', aliases =
      [''fdm'', ''fdm printing'', ''fff'', ''fused deposition modeling'',
       ''fused deposition modelling'', ''fused filament fabrication'',
       ''fused_filament_fabrication''],
      wikidata_qid = None\<rparr>,
    \<lparr>canonical_id = ''3d_printing_sla'', display_name = ''SLA 3D Printing'', tsdc_code = None,
      parent = Some ''3d_printing'', aliases =
      [''sla'', ''sla printer'', ''sla printing'', ''stereolithography''],
      wikidata_qid = None\<rparr>,
    \<lparr>canonical_id = ''3d_printing_sls'', display_name = ''SLS 3D Printing'', tsdc_code = None,
      parent = Some ''3d_printing'', aliases =
      [''selective laser sintering'', ''sls'', ''sls printing''],
      wikidata_qid = None\<rparr>,
    \<lparr>canonical_id = ''3d_printing_dlp'', display_name = ''DLP 3D Printing'', tsdc_code = None,
      parent = Some ''3d_printing'', aliases =
      [''digital light processing'', ''dlp'', ''dlp printing''],
      wikidata_qid = None\<rparr>]"

definition machining_processes :: "process_def list" where
  "machining_processes = [
    \<lparr>canonical_id = ''cnc_machining'', display_name = ''CNC Machining'', tsdc_code = Some ''CNC'',
      parent = None, aliases =
      [''cnc'', ''cnc machining'', ''cnc_machining'', ''computer numerical control'',
       ''machining'', ''subtractive manufacturing''],
      wikidata_qid = Some ''Q174689''\<rparr>,
    \<lparr>canonical_id = ''cnc_milling'', display_name = ''CNC Milling'', tsdc_code = None,
      parent = Some ''cnc_machining'', aliases =
      [''cnc mill'', ''cnc milling'', ''cnc_mill'', ''cnc_milling'', ''milling''],
      wikidata_qid = Some ''Q179507''\<rparr>,
    \<lparr>canonical_id = ''cnc_turning'', display_name = ''CNC Turning'', tsdc_code = None,
      parent = Some ''cnc_machining'', aliases =
      [''cnc lathe'', ''cnc turning'', ''cnc_lathe'', ''cnc_turning'', ''turning''],
      wikidata_qid = Some ''Q1260093''\<rparr>,
    \<lparr>canonical_id = ''laser_cutting'', display_name = ''Laser Cutting'', tsdc_code = Some ''LAS'',
      parent = None, aliases =
      [''las'', ''laser'', ''laser cut'', ''laser cutting'', ''laser_cutting''],
      wikidata_qid = Some ''Q3062349''\<rparr>,
    \<lparr>canonical_id = ''vinyl_cutting'', display_name = ''Vinyl Cutting'', tsdc_code = None,
      parent = None, aliases =
      [''d'' @ CHR 0xE9 # ''coupe vinyle'', ''plotter'', ''sticker cutting'', ''vinyl cutter'',
       ''vinyl cutting'', ''vinyl_cutting''],
      wikidata_qid = None\<rparr>,
    \<lparr>canonical_id = ''pcb_fabrication'', display_name = ''PCB Fabrication'', tsdc_code = Some ''PCB'',
      parent = None, aliases =
      [''circuit board'', ''pcb'', ''pcb fabrication'', ''pcb_fabrication'',
       ''printed circuit board'', ''printed_circuit_board''],
      wikidata_qid = Some ''Q1047286''\<rparr>]"

definition joining_processes :: "process_def list" where
  "joining_processes = [
    \<lparr>canonical_id = ''assembly'', display_name = ''Assembly'', tsdc_code = Some ''ASM'',
      parent = None, aliases =
      [''asm'', ''assemble'', ''assembling'', ''assembly'', ''assembly line'',
       ''assembly_line'', ''attach'', ''attaching'', ''component assembly'', ''install'',
       ''installing'', ''mount'', ''mounting''],
      wikidata_qid = None\<rparr>,
    \<lparr>canonical_id = ''mechanical_assembly'', display_name = ''Mechanical Assembly'', tsdc_code = Some ''MEC'',
      parent = Some ''assembly'', aliases =
      [''mec'', ''mechanical assembly'', ''mechanical_assembly''],
      wikidata_qid = None\<rparr>,
    \<lparr>canonical_id = ''electronics_assembly'', display_name = ''Electronics Assembly'', tsdc_code = None,
      parent = Some ''assembly'', aliases =
      [''electronics assembly'', ''electronics manufacturing'', ''electronics_assembly'',
       ''electronics_manufacturing''],
      wikidata_qid = Some ''Q11650''\<rparr>,
    \<lparr>canonical_id = ''pcb_assembly'', display_name = ''PCB Assembly'', tsdc_code = None,
      parent = Some ''assembly'', aliases =
      [''clean room assembly'', ''clean_room_assembly'', ''pcb assembly'', ''pcb_assembly''],
      wikidata_qid = None\<rparr>,
    \<lparr>canonical_id = ''welding'', display_name = ''Welding'', tsdc_code = Some ''WEL'',
      parent = None, aliases =
      [''wel'', ''weld'', ''welder'', ''welding''],
      wikidata_qid = Some ''Q12544''\<rparr>,
    \<lparr>canonical_id = ''tig_welding'', display_name = ''TIG Welding'', tsdc_code = None,
      parent = Some ''welding'', aliases =
      [''tig'', ''tig welding'', ''tig_welding''],
      wikidata_qid = None\<rparr>,
    \<lparr>canonical_id = ''mig_welding'', display_name = ''MIG Welding'', tsdc_code = None,
      parent = Some ''welding'', aliases =
      [''mig'', ''mig welding'', ''mig_welding''],
      wikidata_qid = None\<rparr>,
    \<lparr>canonical_id = ''arc_welding'', display_name = ''Arc Welding'', tsdc_code = None,
      parent = Some ''welding'', aliases =
      [''arc welding'', ''arc_welding''],
      wikidata_qid = None\<rparr>,
    \<lparr>canonical_id = ''brazing'', display_name = ''Brazing'', tsdc_code = None,
      parent = None, aliases =
      [''braze'', ''brazing'', ''silver brazing'', ''torch brazing''],
      wikidata_qid = None\<rparr>]"

definition forming_processes :: "process_def list" where
  "forming_processes = [
    \<lparr>canonical_id = ''sheet_metal_forming'', display_name = ''Sheet Metal Forming'', tsdc_code = Some ''SHEET'',
      parent = None, aliases =
      [''sheet'', ''sheet metal'', ''sheet metal forming'', ''sheet_metal'',
       ''sheet_metal_forming''],
      wikidata_qid = None\<rparr>,
    \<lparr>canonical_id = ''injection_molding'', display_name = ''Injection Molding'', tsdc_code = None,
      parent = None, aliases =
      [''injection molding'', ''injection moulding'', ''injection_molding''],
      wikidata_qid = None\<rparr>,
    \<lparr>canonical_id = ''water_jet_cutting'', display_name = ''Water Jet Cutting'', tsdc_code = None,
      parent = None, aliases =
      [''water jet'', ''water jet cutting'', ''water_jet_cutting'', ''waterjet''],
      wikidata_qid = None\<rparr>,
    \<lparr>canonical_id = ''casting'', display_name = ''Casting'', tsdc_code = None,
      parent = None, aliases =
      [''cast'', ''casting''],
      wikidata_qid = None\<rparr>,
    \<lparr>canonical_id = ''forging'', display_name = ''Forging'', tsdc_code = None,
      parent = None, aliases =
      [''forge'', ''forging''],
      wikidata_qid = None\<rparr>,
    \<lparr>canonical_id = ''soldering'', display_name = ''Soldering'', tsdc_code = None,
      parent = None, aliases =
      [''solder'', ''soldering''],
      wikidata_qid = None\<rparr>,
    \<lparr>canonical_id = ''drilling'', display_name = ''Drilling'', tsdc_code = None,
      parent = None, aliases =
      [''drill'', ''drilling''],
      wikidata_qid = None\<rparr>,
    \<lparr>canonical_id = ''bending'', display_name = ''Bending'', tsdc_code = None,
      parent = None, aliases =
      [''bend'', ''bending''],
      wikidata_qid = None\<rparr>,
    \<lparr>canonical_id = ''grinding'', display_name = ''Grinding'', tsdc_code = None,
      parent = None, aliases =
      [''grind'', ''grinding''],
      wikidata_qid = None\<rparr>,
    \<lparr>canonical_id = ''polishing'', display_name = ''Polishing'', tsdc_code = None,
      parent = None, aliases =
      [''polish'', ''polishing''],
      wikidata_qid = None\<rparr>]"

definition treatment_processes :: "process_def list" where
  "treatment_processes = [
    \<lparr>canonical_id = ''sanding'', display_name = ''Sanding'', tsdc_code = None,
      parent = None, aliases =
      [''sand'', ''sanding''],
      wikidata_qid = None\<rparr>,
    \<lparr>canonical_id = ''coating'', display_name = ''Coating'', tsdc_code = None,
      parent = None, aliases =
      [''coat'', ''coating''],
      wikidata_qid = None\<rparr>,
    \<lparr>canonical_id = ''anodizing'', display_name = ''Anodizing'', tsdc_code = None,
      parent = None, aliases =
      [''anodising'', ''anodize'', ''anodizing''],
      wikidata_qid = None\<rparr>,
    \<lparr>canonical_id = ''electroplating'', display_name = ''Electroplating'', tsdc_code = None,
      parent = None, aliases =
      [''chrome plating'', ''electroplate'', ''electroplating'', ''nickel plating'',
       ''plating'', ''zinc plating''],
      wikidata_qid = None\<rparr>,
    \<lparr>canonical_id = ''heat_treatment'', display_name = ''Heat Treatment'', tsdc_code = None,
      parent = None, aliases =
      [''heat treat'', ''heat treatment'', ''heat_treatment''],
      wikidata_qid = None\<rparr>,
    \<lparr>canonical_id = ''annealing'', display_name = ''Annealing'', tsdc_code = None,
      parent = Some ''heat_treatment'', aliases =
      [''anneal'', ''annealing''],
      wikidata_qid = None\<rparr>,
    \<lparr>canonical_id = ''tempering'', display_name = ''Tempering'', tsdc_code = None,
      parent = Some ''heat_treatment'', aliases =
      [''temper'', ''tempering''],
      wikidata_qid = None\<rparr>,
    \<lparr>canonical_id = ''quenching'', display_name = ''Quenching'', tsdc_code = None,
      parent = Some ''heat_treatment'', aliases =
      [''quench'', ''quenching''],
      wikidata_qid = None\<rparr>,
    \<lparr>canonical_id = ''plasma_cutting'', display_name = ''Plasma Cutting'', tsdc_code = None,
      parent = None, aliases =
      [''cnc plasma'', ''cnc plasma cutting'', ''plasma cut'', ''plasma cutting'',
       ''plasma_cutting''],
      wikidata_qid = None\<rparr>,
    \<lparr>canonical_id = ''surface_finishing'', display_name = ''Surface Finishing'', tsdc_code = None,
      parent = None, aliases =
      [''surface finish'', ''surface finishing'', ''surface treatment'', ''surface_finish'',
       ''surface_finishing'', ''surface_treatment''],
      wikidata_qid = None\<rparr>]"

definition finishing_processes :: "process_def list" where
  "finishing_processes = [
    \<lparr>canonical_id = ''post_processing'', display_name = ''Post-Processing'', tsdc_code = Some ''POST'',
      parent = None, aliases =
      [''post'', ''post processing'', ''post-processing'', ''post_processing'',
       ''postprocessing''],
      wikidata_qid = None\<rparr>,
    \<lparr>canonical_id = ''deburring'', display_name = ''Deburring'', tsdc_code = None,
      parent = None, aliases =
      [''deburr'', ''deburring''],
      wikidata_qid = None\<rparr>,
    \<lparr>canonical_id = ''painting'', display_name = ''Painting'', tsdc_code = None,
      parent = None, aliases =
      [''paint'', ''painting''],
      wikidata_qid = Some ''Q11629''\<rparr>,
    \<lparr>canonical_id = ''cutting'', display_name = ''Cutting'', tsdc_code = None,
      parent = None, aliases =
      [''cut'', ''cutting''],
      wikidata_qid = None\<rparr>,
    \<lparr>canonical_id = ''sawing'', display_name = ''Sawing'', tsdc_code = None,
      parent = Some ''cutting'', aliases =
      [''saw'', ''sawing''],
      wikidata_qid = None\<rparr>,
    \<lparr>canonical_id = ''shearing'', display_name = ''Shearing'', tsdc_code = None,
      parent = Some ''cutting'', aliases =
      [''shear'', ''shearing''],
      wikidata_qid = None\<rparr>,
    \<lparr>canonical_id = ''sewing'', display_name = ''Sewing'', tsdc_code = None,
      parent = None, aliases =
      [''cut and sew'', ''garment construction'', ''sew'', ''sewing'', ''sewn'', ''stitch'',
       ''stitching'', ''textile''],
      wikidata_qid = Some ''Q652122''\<rparr>,
    \<lparr>canonical_id = ''testing'', display_name = ''Testing'', tsdc_code = None,
      parent = None, aliases =
      [''quality control'', ''quality_control'', ''test equipment'', ''test_equipment'',
       ''testing''],
      wikidata_qid = None\<rparr>,
    \<lparr>canonical_id = ''packaging'', display_name = ''Packaging'', tsdc_code = None,
      parent = None, aliases =
      [''packaging'', ''packaging and labeling'', ''packaging_and_labeling''],
      wikidata_qid = None\<rparr>,
    \<lparr>canonical_id = ''precision_machining'', display_name = ''Precision Machining'', tsdc_code = None,
      parent = Some ''cnc_machining'', aliases =
      [''precision machining'', ''precision_machining''],
      wikidata_qid = None\<rparr>,
    \<lparr>canonical_id = ''electronic_circuitry'', display_name = ''Electronic Circuitry'', tsdc_code = Some ''CIR'',
      parent = None, aliases =
      [''cir'', ''circuitry'', ''electronic circuitry''],
      wikidata_qid = None\<rparr>]"

definition process_definitions :: "process_def list" where
  "process_definitions = printing_processes @ machining_processes @ joining_processes @ forming_processes @ treatment_processes @ finishing_processes"

section \<open>What the taxonomy makes of them\<close>

lemma builtin_ids: "check_ids process_definitions [] = []"
  by code_simp

lemma builtin_parents:
  "concat (map (check_parent (map canonical_id process_definitions) (def_map process_definitions)) process_definitions) = []"
  by code_simp

lemma builtin_entries: "one_owner (alias_entries process_definitions)"
  by (rule one_owner_agree[of head_tests]) code_simp

lemma builtin_valid: "validate_definitions process_definitions = []"
proof -
  have "one_owner ([] @ def_claims process_definitions)"
    using one_owner_mono[OF builtin_entries claims_entries] by simp
  moreover have "one_owner ([] :: (string \<times> string) list)" by (simp add: one_owner_def)
  ultimately have "check_aliases process_definitions [] = []" by (metis check_aliases_none)
  then show ?thesis unfolding validate_definitions_def builtin_ids builtin_parents by simp
qed

lemma builtin_texts:
  "list_all (\<lambda>d. list_all (\<lambda>a. normalize_key a \<noteq> [] \<and> \<not> contains ''wikipedia.org/wiki/'' (lower a))
     (canonical_id d # aliases d)) process_definitions"
  by code_simp

theorem validated_alias_resolves_witness:
  "list_all (\<lambda>d. list_all (\<lambda>a. normalize (build_taxonomy process_definitions) a = Some (canonical_id d))
     (canonical_id d # aliases d)) process_definitions"
  using builtin_texts entries_apart[OF builtin_entries]
    validated_alias_resolves[of process_definitions, OF builtin_valid]
  unfolding list_all_iff by blast

theorem validated_ancestors_witness:
  "length (get_ancestors (build_taxonomy process_definitions) ''mig_welding'') < length process_definitions"
proof -
  have "list_ex (\<lambda>d. canonical_id d = ''mig_welding'') process_definitions" by code_simp
  then obtain d where "d \<in> set process_definitions" "canonical_id d = ''mig_welding''"
    unfolding list_ex_iff by metis
  then have "''mig_welding'' \<in> set (map canonical_id process_definitions)" by (metis image_eqI set_map)
  then show ?thesis using validated_ancestors[OF builtin_valid, of "''mig_welding''"] by blast
qed

lemma builtin_head: "process_definitions = hd process_definitions # tl process_definitions"
  by (simp add: process_definitions_def printing_processes_def)

lemma builtin_head_id: "canonical_id (hd process_definitions) = ''3d_printing''"
  by (simp add: process_definitions_def printing_processes_def)

lemma builtin_unknown_D:
  "\<not> list_ex (\<lambda>d. canonical_id d = ''D'') process_definitions"
  "list_all (\<lambda>d. case given (tsdc_code d) of None \<Rightarrow> True | Some c \<Rightarrow> upper c \<noteq> ''D'') process_definitions"
  "list_all (\<lambda>(k, c). k \<noteq> ''d'') (alias_entries process_definitions)"
  by code_simp+

theorem short_input_first_process_witness:
  "normalize (build_taxonomy process_definitions) ''D'' = Some ''3d_printing''"
proof -
  let ?d = "hd process_definitions" and ?ds = "tl process_definitions"
  have "map_of (tsdc_map (build_taxonomy process_definitions)) (strip (upper (strip ''D''))) = None"
  proof -
    have "strip (upper (strip ''D'')) = ''D''" by code_simp
    then show ?thesis
      using map_of_tsdc_map[of process_definitions "''D''"] builtin_unknown_D(2)
      by (cases "map_of (tsdc_map (build_taxonomy process_definitions)) ''D''") (force simp: list_all_iff)+
  qed
  moreover have "normalize_key ''D'' = ''d''" by code_simp
  then have "map_of (alias_map (build_taxonomy process_definitions)) (normalize_key ''D'') = None"
    using builtin_unknown_D(3) by (auto simp: list_all_iff one_owner_map_of_None)
  moreover have "by_wiki (build_taxonomy process_definitions) (strip ''D'') = None"
  proof -
    have "\<not> contains ''wikipedia.org/wiki/'' (lower (strip ''D''))" by code_simp
    then show ?thesis by (simp add: by_wiki_def)
  qed
  moreover have "strip ''D'' = ''D''" by code_simp
  then have "strip ''D'' \<notin> set (map canonical_id process_definitions)" using builtin_unknown_D(1) by (auto simp: list_ex_iff)
  moreover have "strip ''D'' \<noteq> []" "5 \<le> length (normalize_key ''3d_printing'')"
    "contains (normalize_key ''D'') (normalize_key ''3d_printing'')" by code_simp+
  ultimately have "normalize (build_taxonomy (?d # ?ds)) ''D'' = Some (canonical_id ?d)"
    using builtin_head builtin_head_id by (intro short_input_first_process) simp_all
  then show ?thesis using builtin_head builtin_head_id by simp
qed

end
