(* ===== verification/Process_Match_Data.thy ===== *)
theory Process_Match_Data imports Process_Match Process_Data begin

text \<open>The direct layer on the built-in taxonomy.\<close>

lemma pcb_definitions:
  "map_of (definitions (build_taxonomy process_definitions)) ''pcb_fabrication'' =
     Some (machining_processes ! 5)"
  "map_of (definitions (build_taxonomy process_definitions)) ''pcb_assembly'' = Some (joining_processes ! 3)"
  "map_of (definitions (build_taxonomy process_definitions)) ''assembly'' = Some (joining_processes ! 0)"
  unfolding map_of_definitions by code_simp+

lemma pcb_unrelated: "\<not> are_related (build_taxonomy process_definitions) ''pcb_fabrication'' ''pcb_assembly''"
proof -
  let ?t = "build_taxonomy process_definitions"
  have "get_ancestors ?t ''pcb_fabrication'' = []" "get_ancestors ?t ''pcb_assembly'' = [''assembly'']"
    "get_parent ?t ''pcb_fabrication'' = None"
    by (simp_all add: get_ancestors_def get_parent_def ancestor_walk.simps pcb_definitions machining_processes_def
        joining_processes_def given_def del: map_of_definitions)
  then show ?thesis
    by (simp add: are_related_def resolve_id_def pcb_definitions given_def del: map_of_definitions)
qed

theorem direct_layer_known_witness:
  "direct_match_evaluate (build_taxonomy process_definitions) ''pcb_fabrication'' ''pcb_assembly'' = (True, Fuzzy) \<and>
   \<not> are_related (build_taxonomy process_definitions) ''pcb_fabrication'' ''pcb_assembly''"
proof -
  have "c \<in> set (map canonical_id process_definitions)" if "c = ''pcb_fabrication'' \<or> c = ''pcb_assembly''" for c
    using that pcb_definitions find_id_in[of c process_definitions] by force
  moreover have "strip ''pcb_fabrication'' = ''pcb_fabrication''" "strip ''pcb_assembly'' = ''pcb_assembly''"
    "\<not> contains ''pcb_fabrication'' ''pcb_assembly''" "\<not> contains ''pcb_assembly'' ''pcb_fabrication''" by code_simp+
  moreover have "3 / 10 \<le> jaccard (process_words ''pcb_fabrication'') (process_words ''pcb_assembly'')"
  proof -
    have "process_words ''pcb_fabrication'' = [''pcb'', ''fabrication'']" "process_words ''pcb_assembly'' = [''pcb'', ''assembly'']"
      by code_simp+
    then show ?thesis by (simp add: jaccard_def)
  qed
  ultimately show ?thesis using direct_layer_known[OF builtin_valid, of "''pcb_fabrication''" "''pcb_assembly''"] pcb_unrelated
    by simp
qed

end
