(* ===== verification/Matching_Service.thy ===== *)
theory Matching_Service imports Process_Match begin

text \<open>
  The matching service over lists of requirements and capabilities
  (\<open>services/matching_service.py\<close>): the verdict on a facility, its explanation, the coverage, the score
  of a supply tree, the search over facilities and designs, and the greedy combination of facilities.
  The domain's extractor is a parameter. Explanation texts are left out; the confidence of an
  explanation is not rounded.
\<close>

section \<open>Requirements and capabilities\<close>

record process_item =
  process_name :: string
  item_source :: "string option"
  item_part :: "string option"

text \<open>A dict, an object with its \<open>process_name\<close> and \<open>type\<close> attributes where it has them, or another value.\<close>

datatype raw_item = DictItem process_item | ObjectItem "string option" "string option" | OtherItem

definition plain_item :: "string \<Rightarrow> process_item" where
  "plain_item p = \<lparr>process_name = p, item_source = None, item_part = None\<rparr>"

fun requirement_item :: "raw_item \<Rightarrow> process_item option" where
  "requirement_item (DictItem d) = Some d"
| "requirement_item (ObjectItem (Some p) _) = Some (plain_item p)"
| "requirement_item _ = None"

fun capability_item :: "raw_item \<Rightarrow> process_item option" where
  "capability_item (DictItem d) = Some d"
| "capability_item (ObjectItem None None) = None"
| "capability_item (ObjectItem p t) =
     Some (plain_item (case given p of Some s \<Rightarrow> s | None \<Rightarrow> (case t of Some s \<Rightarrow> s | None \<Rightarrow> [])))"
| "capability_item OtherItem = None"

definition normalize_requirement_list :: "raw_item list \<Rightarrow> process_item list" where
  "normalize_requirement_list xs = List.map_filter requirement_item xs"

definition normalize_capability_list :: "raw_item list \<Rightarrow> process_item list" where
  "normalize_capability_list xs = List.map_filter capability_item xs"

definition normalize_req_cap_lists :: "raw_item list \<Rightarrow> raw_item list \<Rightarrow> (process_item list \<times> process_item list) option" where
  "normalize_req_cap_lists rs cs =
     (let rl = normalize_requirement_list rs; cl = normalize_capability_list cs
      in if rl = [] \<or> cl = [] then None else Some (rl, cl))"

definition item_process :: "taxonomy \<Rightarrow> process_item \<Rightarrow> string" where
  "item_process t i = strip (lower (normalize_process_name t (strip (process_name i))))"

text \<open>The first capability that the layers accept for a process; a capability without a process is skipped.\<close>

definition pick_capability :: "match_config \<Rightarrow> string \<Rightarrow> process_item list \<Rightarrow> string \<Rightarrow> process_item option" where
  "pick_capability g dmn caps rp =
     find (\<lambda>c. item_process (mc_taxonomy g) c \<noteq> [] \<and> le_matched (evaluate_pair g dmn rp (item_process (mc_taxonomy g) c))) caps"

section \<open>The verdict on a facility\<close>

fun count_satisfied :: "match_config \<Rightarrow> string \<Rightarrow> process_item list \<Rightarrow> process_item list \<Rightarrow> nat \<Rightarrow> nat \<Rightarrow> nat \<times> nat" where
  "count_satisfied g dmn caps [] tot sat = (tot, sat)"
| "count_satisfied g dmn caps (r # rs) tot sat =
     (let rp = item_process (mc_taxonomy g) r
      in if rp = [] then count_satisfied g dmn caps rs tot sat
         else count_satisfied g dmn caps rs (Suc tot) (if pick_capability g dmn caps rp \<noteq> None then Suc sat else sat))"

definition can_satisfy_requirements :: "match_config \<Rightarrow> string \<Rightarrow> raw_item list \<Rightarrow> raw_item list \<Rightarrow> bool" where
  "can_satisfy_requirements g dmn reqs caps =
     (let rl = normalize_requirement_list reqs; cl = normalize_capability_list caps
      in if rl = [] then False
         else if cl = [] then False
         else let (tot, sat) = count_satisfied g dmn cl rl 0 0
              in if tot = 0 then False else (6/10 :: rat) \<le> of_nat sat / of_nat tot)"

section \<open>Explanations\<close>

datatype match_status = Matched | NotMatched

record match_detail =
  requirement_text :: string
  detail_status :: match_status
  detail_confidence :: rat
  matched_capability :: "string option"
  detail_layer :: "layer_kind option"
  detail_rule :: "string option"
  requirement_source :: "string option"
  requirement_part :: "string option"

definition matched_detail :: "match_config \<Rightarrow> string \<Rightarrow> process_item \<Rightarrow> process_item \<Rightarrow> match_detail" where
  "matched_detail g dmn r c =
     (let t = mc_taxonomy g; rp = item_process t r; cp = item_process t c;
          ev = evaluate_pair g dmn rp cp;
          raw_req = strip (process_name r); raw_cap = strip (process_name c)
      in \<lparr>requirement_text = (if raw_req \<noteq> [] then raw_req else rp), detail_status = Matched,
          detail_confidence = (if le_layer ev = DirectKind then 95/100 else if le_layer ev = HeuristicKind then 9/10 else 7/10),
          matched_capability = Some (if raw_cap \<noteq> [] then raw_cap else cp),
          detail_layer = Some (if le_layer ev = DirectKind then DirectKind else if le_layer ev = HeuristicKind then HeuristicKind else NlpKind),
          detail_rule = (if le_layer ev = HeuristicKind then le_rule ev else None),
          requirement_source = item_source r, requirement_part = item_part r\<rparr>)"

definition unmatched_detail :: "match_config \<Rightarrow> process_item \<Rightarrow> match_detail" where
  "unmatched_detail g r =
     (let raw_req = strip (process_name r)
      in \<lparr>requirement_text = (if raw_req \<noteq> [] then raw_req else item_process (mc_taxonomy g) r), detail_status = NotMatched,
          detail_confidence = 0, matched_capability = None, detail_layer = None, detail_rule = None,
          requirement_source = item_source r, requirement_part = item_part r\<rparr>)"

text \<open>The loop over the requirements; it returns at the first one without a capability.\<close>

fun explain_loop :: "match_config \<Rightarrow> string \<Rightarrow> process_item list \<Rightarrow> process_item list \<Rightarrow> match_detail list \<Rightarrow> bool \<times> match_detail list" where
  "explain_loop g dmn caps [] details = (True, details)"
| "explain_loop g dmn caps (r # rs) details =
     (let rp = item_process (mc_taxonomy g) r
      in if rp = [] then explain_loop g dmn caps rs details
         else case pick_capability g dmn caps rp of
           None \<Rightarrow> (False, details @ [unmatched_detail g r])
         | Some c \<Rightarrow> explain_loop g dmn caps rs (details @ [matched_detail g dmn r c]))"

definition can_satisfy_with_details :: "match_config \<Rightarrow> string \<Rightarrow> raw_item list \<Rightarrow> raw_item list \<Rightarrow> bool \<times> match_detail list" where
  "can_satisfy_with_details g dmn reqs caps =
     (case normalize_req_cap_lists reqs caps of
        None \<Rightarrow> (False, [])
      | Some (rl, cl) \<Rightarrow> explain_loop g dmn cl rl [])"

record match_explanation =
  overall_status :: match_status
  overall_confidence :: rat
  requirement_matches :: "match_detail list"
  layers_used :: "layer_kind list"
  missing_capabilities :: "string list"

definition get_match_explanation :: "match_config \<Rightarrow> string \<Rightarrow> raw_item list \<Rightarrow> raw_item list \<Rightarrow> match_explanation" where
  "get_match_explanation g dmn reqs caps =
     (let (ok, details) = can_satisfy_with_details g dmn reqs caps
      in \<lparr>overall_status = (if ok then Matched else NotMatched),
          overall_confidence = (if details = [] then 0 else sum_list (map detail_confidence details) / of_nat (length details)),
          requirement_matches = details,
          layers_used = remdups (List.map_filter detail_layer details),
          missing_capabilities =
            (if ok then [] else map requirement_text (filter (\<lambda>d. detail_status d = NotMatched) details))\<rparr>)"

section \<open>Coverage\<close>

definition covered_requirement_indices :: "match_config \<Rightarrow> string \<Rightarrow> process_item list \<Rightarrow> process_item list \<Rightarrow> nat list" where
  "covered_requirement_indices g dmn rl cl =
     filter (\<lambda>i. let rp = item_process (mc_taxonomy g) (rl ! i) in rp \<noteq> [] \<and> pick_capability g dmn cl rp \<noteq> None) [0..<length rl]"

section \<open>The score of a supply tree\<close>

record equipment =
  equipment_process :: "string list"
  equipment_processes :: "string list"

record facility =
  fac_id :: string
  fac_name :: string
  fac_processes :: "string list"
  fac_equipment :: "equipment list"

definition facility_capabilities :: "facility \<Rightarrow> string list" where
  "facility_capabilities f =
     fac_processes f @ concat (map (\<lambda>e. equipment_process e @ equipment_processes e) (fac_equipment f))"

definition normal_process :: "taxonomy \<Rightarrow> string \<Rightarrow> string" where
  "normal_process t p = strip (lower (normalize_process_name t p))"

definition score_capability :: "match_config \<Rightarrow> string \<Rightarrow> string \<Rightarrow> string \<Rightarrow> rat \<times> tree_match" where
  "score_capability g dmn np cap =
     (let nc = normal_process (mc_taxonomy g) cap
      in fst (evaluate_layers_supply_tree (is_uri np \<or> is_uri nc) (pair_mode g) (veto_threshold g) (veto_enabled g)
                (pair_answers g dmn np nc)))"

text \<open>The best capability for one process; \<open>None\<close> is the match type \<open>unknown\<close>.\<close>

fun best_capability :: "match_config \<Rightarrow> string \<Rightarrow> string \<Rightarrow> string list \<Rightarrow> rat \<times> tree_match option \<Rightarrow> rat \<times> tree_match option" where
  "best_capability g dmn np [] best = best"
| "best_capability g dmn np (c # cs) best =
     (let (conf, kind) = score_capability g dmn np c
      in best_capability g dmn np cs (if fst best < conf then (conf, Some kind) else best))"

fun score_processes :: "match_config \<Rightarrow> string \<Rightarrow> string list \<Rightarrow> string list \<Rightarrow> rat \<times> tree_match option \<Rightarrow> rat \<times> tree_match option" where
  "score_processes g dmn caps [] acc = acc"
| "score_processes g dmn caps (p # ps) (tot, kind) =
     (let (conf, k) = best_capability g dmn (normal_process (mc_taxonomy g) p) caps (0, None)
      in score_processes g dmn caps ps
           (if 0 < conf
            then (tot + conf, if kind = None \<or> k \<in> {Some DirectMatch, Some HeuristicMatch, Some NlpMatch} then k else kind)
            else (tot, kind)))"

text \<open>The confidence and the match type of \<open>_generate_supply_tree\<close>.\<close>

definition generate_supply_tree :: "match_config \<Rightarrow> string \<Rightarrow> string list \<Rightarrow> facility \<Rightarrow> rat \<times> tree_match option" where
  "generate_supply_tree g dmn processes f =
     (let (tot, kind) = score_processes g dmn (facility_capabilities f) processes (0, None)
      in (if processes \<noteq> [] then max 0 (min 1 (tot / of_nat (length processes)))
          else if dmn = ''cooking'' then 7/10 else 0, kind))"

section \<open>The search over facilities\<close>

record solution =
  sol_facility :: string
  sol_score :: rat
  sol_kind :: "tree_match option"

text \<open>The loop of \<open>find_matches_with_manifest\<close>; \<open>seen\<close> is \<open>processed_facility_ids\<close>.\<close>

fun find_loop ::
  "match_config \<Rightarrow> string \<Rightarrow> (facility \<Rightarrow> raw_item list) \<Rightarrow> raw_item list \<Rightarrow> string list \<Rightarrow> nat option \<Rightarrow>
   facility list \<Rightarrow> string list \<Rightarrow> solution list \<Rightarrow> solution list" where
  "find_loop g dmn extract reqs processes limit [] seen sols = sols"
| "find_loop g dmn extract reqs processes limit (f # fs) seen sols =
     (if fac_id f \<in> set seen then find_loop g dmn extract reqs processes limit fs seen sols
      else if can_satisfy_requirements g dmn reqs (extract f)
      then let (score, kind) = generate_supply_tree g dmn processes f;
               sols' = sols @ [\<lparr>sol_facility = fac_id f, sol_score = score, sol_kind = kind\<rparr>]
           in if (case limit of None \<Rightarrow> False | Some n \<Rightarrow> n \<le> length sols') then sols'
              else find_loop g dmn extract reqs processes limit fs (fac_id f # seen) sols'
      else find_loop g dmn extract reqs processes limit fs (fac_id f # seen) sols)"

definition find_matches_with_manifest ::
  "match_config \<Rightarrow> string \<Rightarrow> (facility \<Rightarrow> raw_item list) \<Rightarrow> raw_item list \<Rightarrow> string list \<Rightarrow> nat option \<Rightarrow> facility list \<Rightarrow> solution list" where
  "find_matches_with_manifest g dmn extract reqs processes limit fs = find_loop g dmn extract reqs processes limit fs [] []"

text \<open>
  The reverse search: for each design its id and the scores its matching yields, \<open>None\<close> where it
  raised. The result is ranked; Python's sort with \<open>reverse\<close> keeps the order of equal scores.
\<close>

definition find_designs_for_facility :: "rat \<Rightarrow> nat option \<Rightarrow> (string \<times> rat list option) list \<Rightarrow> (string \<times> rat \<times> nat) list" where
  "find_designs_for_facility min_confidence limit designs =
     (let found = [(i, Max (set ss)). (i, Some ss) \<leftarrow> designs, ss \<noteq> [], min_confidence \<le> Max (set ss)];
          ranked = sort_key (\<lambda>(i, s). - s) found;
          cut = (case limit of None \<Rightarrow> ranked | Some n \<Rightarrow> take n ranked)
      in map (\<lambda>((i, s), k). (i, s, k)) (zip cut [1..<Suc (length cut)]))"

section \<open>Verdict and explanation\<close>

definition met :: "match_config \<Rightarrow> string \<Rightarrow> process_item list \<Rightarrow> process_item \<Rightarrow> bool" where
  "met g dmn caps r \<longleftrightarrow> pick_capability g dmn caps (item_process (mc_taxonomy g) r) \<noteq> None"

definition named_items :: "match_config \<Rightarrow> process_item list \<Rightarrow> process_item list" where
  "named_items g rs = filter (\<lambda>r. item_process (mc_taxonomy g) r \<noteq> []) rs"

lemma count_satisfied_eq:
  "count_satisfied g dmn caps rs n s =
     (n + length (named_items g rs), s + length (filter (met g dmn caps) (named_items g rs)))"
  by (induction rs arbitrary: n s) (auto simp: named_items_def met_def Let_def)

definition met_detail :: "match_config \<Rightarrow> string \<Rightarrow> process_item list \<Rightarrow> process_item \<Rightarrow> match_detail" where
  "met_detail g dmn caps r = matched_detail g dmn r (the (pick_capability g dmn caps (item_process (mc_taxonomy g) r)))"

lemma explain_loop_eq:
  "explain_loop g dmn caps rs details =
     (case dropWhile (met g dmn caps) (named_items g rs) of
        [] \<Rightarrow> (True, details @ map (met_detail g dmn caps) (named_items g rs))
      | r # _ \<Rightarrow> (False, details @ map (met_detail g dmn caps) (takeWhile (met g dmn caps) (named_items g rs)) @ [unmatched_detail g r]))"
proof (induction rs arbitrary: details)
  case (Cons a rs)
  show ?case
  proof (cases "item_process (mc_taxonomy g) a = []")
    case True
    then have n: "named_items g (a # rs) = named_items g rs" by (simp add: named_items_def)
    show ?thesis using True Cons.IH[of details] unfolding n by simp
  next
    case named: False
    then have n: "named_items g (a # rs) = a # named_items g rs" by (simp add: named_items_def)
    show ?thesis
    proof (cases "pick_capability g dmn caps (item_process (mc_taxonomy g) a)")
      case None
      then have "\<not> met g dmn caps a" by (simp add: met_def)
      then show ?thesis using None named by (simp add: n)
    next
      case (Some c)
      then have "met g dmn caps a" "met_detail g dmn caps a = matched_detail g dmn a c" by (simp_all add: met_def met_detail_def)
      then show ?thesis using Some named Cons.IH[of "details @ [matched_detail g dmn a c]"]
        by (simp add: n del: dropWhile_eq_Nil_conv split: list.split)
    qed
  qed
qed (simp add: named_items_def)

lemma detail_status_met [simp]: "detail_status (met_detail g dmn caps r) = Matched"
  by (simp add: met_detail_def matched_detail_def Let_def)

lemma detail_status_simps [simp]:
  "detail_status (matched_detail g dmn r c) = Matched" "detail_status (unmatched_detail g r) = NotMatched"
  by (simp_all add: matched_detail_def unmatched_detail_def Let_def)

text \<open>
  C17: the verdict on a facility and its explanation follow different rules. The facility is accepted when
  three fifths of the named requirements are met; the explanation says so only when all of them are,
  and otherwise names the first unmet requirement as the only missing one, whatever comes after it.
\<close>

theorem verdict_and_explanation:
  fixes g :: match_config and dmn :: string and reqs caps :: "raw_item list"
  defines "named \<equiv> named_items g (normalize_requirement_list reqs)"
    and "cl \<equiv> normalize_capability_list caps" and "ex \<equiv> get_match_explanation g dmn reqs caps"
  assumes lists: "normalize_requirement_list reqs \<noteq> []" "normalize_capability_list caps \<noteq> []"
  shows "(can_satisfy_requirements g dmn reqs caps \<longleftrightarrow>
       named \<noteq> [] \<and> 3 * length named \<le> 5 * length (filter (met g dmn cl) named)) \<and>
    (overall_status ex = Matched \<longleftrightarrow> list_all (met g dmn cl) named) \<and>
    missing_capabilities ex =
      (case find (\<lambda>r. \<not> met g dmn cl r) named of None \<Rightarrow> [] | Some r \<Rightarrow> [requirement_text (unmatched_detail g r)])"
proof -
  have frac: "(6 / 10 :: rat) \<le> of_nat m / of_nat n \<longleftrightarrow> 3 * n \<le> 5 * m" if "n \<noteq> 0" for m n :: nat
  proof -
    have "(6 / 10 :: rat) \<le> of_nat m / of_nat n \<longleftrightarrow> of_nat (3 * n) \<le> (of_nat (5 * m) :: rat)"
      using that by (simp add: field_simps)
    then show ?thesis by (simp only: of_nat_le_iff)
  qed
  have verdict: "can_satisfy_requirements g dmn reqs caps \<longleftrightarrow>
      named \<noteq> [] \<and> 3 * length named \<le> 5 * length (filter (met g dmn cl) named)"
    using lists frac[of "length named" "length (filter (met g dmn cl) named)"]
    by (cases named) (simp_all add: can_satisfy_requirements_def count_satisfied_eq named_def cl_def Let_def)
  have ex: "explain_loop g dmn cl (normalize_requirement_list reqs) [] = can_satisfy_with_details g dmn reqs caps"
    using lists by (simp add: can_satisfy_with_details_def normalize_req_cap_lists_def cl_def Let_def)
  show ?thesis
  proof (cases "dropWhile (met g dmn cl) named")
    case Nil
    then have all: "\<forall>r\<in>set named. met g dmn cl r" by (simp add: dropWhile_eq_Nil_conv)
    then have "find (\<lambda>r. \<not> met g dmn cl r) named = None" by (simp add: find_None_iff)
    moreover have "can_satisfy_with_details g dmn reqs caps = (True, map (met_detail g dmn cl) named)"
      unfolding ex[symmetric] explain_loop_eq named_def[symmetric] Nil by simp
    ultimately show ?thesis
      using verdict all by (simp add: ex_def get_match_explanation_def list_all_iff)
  next
    case (Cons r rest)
    then have split: "named = takeWhile (met g dmn cl) named @ r # rest" and r: "\<not> met g dmn cl r"
      using takeWhile_dropWhile_id[of "met g dmn cl" named] hd_dropWhile[of "met g dmn cl" named] by auto
    have "find (\<lambda>r. \<not> met g dmn cl r) named = Some r"
    proof -
      have "find (\<lambda>r. \<not> P r) (xs @ r # rest) = Some r" if "\<forall>x\<in>set xs. P x" "\<not> P r" for P :: "process_item \<Rightarrow> bool" and xs
        using that by (induction xs) auto
      then show ?thesis using split r set_takeWhileD by metis
    qed
    moreover have "\<not> list_all (met g dmn cl) named" using r by (subst split) simp
    moreover have "can_satisfy_with_details g dmn reqs caps =
        (False, map (met_detail g dmn cl) (takeWhile (met g dmn cl) named) @ [unmatched_detail g r])"
      unfolding ex[symmetric] explain_loop_eq named_def[symmetric] Cons by simp
    ultimately show ?thesis
      using verdict by (simp add: ex_def get_match_explanation_def)
  qed
qed

definition plain_config :: match_config where
  "plain_config = \<lparr>mc_taxonomy = build_taxonomy [], mc_rules = None, mc_nlp = (\<lambda>_. None),
     veto_enabled = False, veto_threshold = 2/10\<rparr>"

definition five_requirements :: "raw_item list" where
  "five_requirements = map (DictItem \<circ> plain_item) [''Milling'', ''Sewing'', ''Welding'', ''Plating'', ''Glazing'']"

definition three_capabilities :: "raw_item list" where
  "three_capabilities = map (DictItem \<circ> plain_item) [''welding'', ''milling'', ''sewing'']"

lemma five_named: "named_items plain_config (normalize_requirement_list five_requirements) =
    map plain_item [''Milling'', ''Sewing'', ''Welding'', ''Plating'', ''Glazing'']"
  by code_simp

lemma five_met:
  "map (met plain_config ''manufacturing'' (normalize_capability_list three_capabilities))
     (map plain_item [''Milling'', ''Sewing'', ''Welding'', ''Plating'', ''Glazing'']) = [True, True, True, False, False]"
  by code_simp

theorem verdict_and_explanation_witness:
  "can_satisfy_requirements plain_config ''manufacturing'' five_requirements three_capabilities \<and>
   overall_status (get_match_explanation plain_config ''manufacturing'' five_requirements three_capabilities) = NotMatched \<and>
   missing_capabilities (get_match_explanation plain_config ''manufacturing'' five_requirements three_capabilities) = [''Plating'']"
proof -
  have lists: "normalize_requirement_list five_requirements \<noteq> []" "normalize_capability_list three_capabilities \<noteq> []"
    by code_simp+
  have t: "requirement_text (unmatched_detail plain_config (plain_item ''Plating'')) = ''Plating''" by code_simp
  have "overall_status ex = Matched \<or> overall_status ex = NotMatched" for ex :: match_explanation
    using match_status.exhaust by blast
  then show ?thesis
    using verdict_and_explanation[OF lists, where g = plain_config and dmn = "''manufacturing''"] five_met t
    unfolding five_named by (auto simp del: map_map)
qed

end
