(* ===== verification/Composite_Match.thy ===== *)
theory Composite_Match imports Matching_Service begin

text \<open>
  Combinations of facilities (\<open>find_composite_matches_with_manifest\<close> of
  \<open>services/matching_service.py\<close>): a greedy set cover of the requirements, started without a seed and
  from the three widest candidates. A candidate is a facility with the sorted list of the requirement
  indices it covers. The ratio of the coverage is not rounded.
\<close>

type_synonym candidate = "facility \<times> nat list"

definition composite_requirements :: "raw_item list \<Rightarrow> string list \<Rightarrow> process_item list" where
  "composite_requirements reqs processes =
     normalize_requirement_list
       (if reqs = [] then map (DictItem \<circ> plain_item) (filter (\<lambda>p. strip p \<noteq> []) processes) else reqs)"

definition composite_capabilities :: "(facility \<Rightarrow> raw_item list) \<Rightarrow> facility \<Rightarrow> process_item list" where
  "composite_capabilities extract f =
     normalize_capability_list
       (if extract f = [] then map (DictItem \<circ> plain_item) (filter (\<lambda>p. strip p \<noteq> []) (fac_processes f)) else extract f)"

definition composite_candidates ::
  "match_config \<Rightarrow> string \<Rightarrow> (facility \<Rightarrow> raw_item list) \<Rightarrow> process_item list \<Rightarrow> facility list \<Rightarrow> candidate list" where
  "composite_candidates g dmn extract rl fs =
     filter (\<lambda>c. snd c \<noteq> []) (map (\<lambda>f. (f, covered_requirement_indices g dmn rl (composite_capabilities extract f))) fs)"

definition gain :: "candidate \<Rightarrow> nat list \<Rightarrow> nat" where
  "gain c u = length (filter (\<lambda>i. i \<in> set u) (snd c))"

text \<open>The inner loop: the best candidate so far, its gain and its whole coverage.\<close>

fun pick_best :: "candidate list \<Rightarrow> candidate list \<Rightarrow> nat list \<Rightarrow> candidate option \<times> nat \<times> nat \<Rightarrow> candidate option \<times> nat \<times> nat" where
  "pick_best [] sel u acc = acc"
| "pick_best (c # cs) sel u (best, bg, bt) =
     (if c \<in> set sel then pick_best cs sel u (best, bg, bt)
      else if bg < gain c u \<or> (gain c u = bg \<and> bt < length (snd c))
      then pick_best cs sel u (Some c, gain c u, length (snd c))
      else pick_best cs sel u (best, bg, bt))"

definition uncover :: "candidate \<Rightarrow> nat list \<Rightarrow> nat list" where
  "uncover c u = filter (\<lambda>i. i \<notin> set (snd c)) u"

function greedy_loop :: "candidate list \<Rightarrow> nat \<Rightarrow> candidate list \<Rightarrow> nat list \<Rightarrow> candidate list" where
  "greedy_loop cs k sel u =
     (if u \<noteq> [] \<and> length sel < k
      then case pick_best cs sel u (None, 0, 0) of
        (None, bg, bt) \<Rightarrow> sel
      | (Some w, bg, bt) \<Rightarrow> if bg = 0 then sel else greedy_loop cs k (sel @ [w]) (uncover w u)
      else sel)"
  by pat_completeness auto
termination
  by (relation "measure (\<lambda>(cs, k, sel, u). k - length sel)") auto

declare greedy_loop.simps [simp del]

definition select_candidates :: "candidate list \<Rightarrow> nat \<Rightarrow> nat \<Rightarrow> nat option \<Rightarrow> candidate list" where
  "select_candidates cs n k seed =
     (let u = [0..<n]
      in case seed of
        None \<Rightarrow> greedy_loop cs k [] u
      | Some i \<Rightarrow>
          if i < length cs \<and> 0 < gain (cs ! i) u then greedy_loop cs k [cs ! i] (uncover (cs ! i) u)
          else greedy_loop cs k [] u)"

definition covered_union :: "candidate list \<Rightarrow> nat list" where
  "covered_union sel = remdups (concat (map snd sel))"

record composite =
  comp_facilities :: "string list"
  comp_covered :: "nat list list"
  coverage_ratio :: rat
  coverage_gaps :: "string list"
  coverage_complete :: bool
  comp_score :: rat

definition build_solution :: "(facility \<Rightarrow> rat) \<Rightarrow> process_item list \<Rightarrow> candidate list \<Rightarrow> nat \<Rightarrow> nat option \<Rightarrow> composite option" where
  "build_solution score rl cs k seed =
     (let sel = select_candidates cs (length rl) k seed;
          cov = covered_union sel;
          gaps = filter (\<lambda>s. s \<noteq> []) (map (\<lambda>i. process_name (rl ! i)) (filter (\<lambda>i. i \<notin> set cov) [0..<length rl]))
      in if sel = [] then None
         else Some \<lparr>comp_facilities = map (fac_id \<circ> fst) sel, comp_covered = map (sort \<circ> snd) sel,
                coverage_ratio = (if rl = [] then 0 else of_nat (length cov) / of_nat (length rl)),
                coverage_gaps = gaps, coverage_complete = (gaps = []),
                comp_score = sum_list (map (score \<circ> fst) sel) / of_nat (length sel)\<rparr>)"

definition composite_seeds :: "candidate list \<Rightarrow> bool \<Rightarrow> nat option list" where
  "composite_seeds cs alternatives =
     None # (if alternatives then map Some (take 3 (sort_key (\<lambda>i. - int (length (snd (cs ! i)))) [0..<length cs])) else [])"

text \<open>The loop over the seeds keeps one solution per set of facilities.\<close>

fun collect_solutions :: "composite option list \<Rightarrow> string list list \<Rightarrow> composite list" where
  "collect_solutions [] seen = []"
| "collect_solutions (None # xs) seen = collect_solutions xs seen"
| "collect_solutions (Some s # xs) seen =
     (let signature = sort (comp_facilities s)
      in if signature \<in> set seen then collect_solutions xs seen
         else s # collect_solutions xs (signature # seen))"

definition find_composite_matches ::
  "match_config \<Rightarrow> string \<Rightarrow> (facility \<Rightarrow> raw_item list) \<Rightarrow> raw_item list \<Rightarrow> string list \<Rightarrow> int \<Rightarrow> bool \<Rightarrow> facility list \<Rightarrow>
   solution list + composite list" where
  "find_composite_matches g dmn extract reqs processes limit alternatives fs =
     (let k = nat (if limit < 1 then 1 else limit)
      in if fs = [] then Inr []
         else if dmn \<noteq> ''manufacturing'' then Inl (find_matches_with_manifest g dmn extract reqs processes None fs)
         else
           let rl = composite_requirements reqs processes
           in if rl = [] then Inr []
              else
                let cs = composite_candidates g dmn extract rl fs
                in if cs = [] then Inr []
                   else Inr (collect_solutions
                     (map (build_solution (\<lambda>f. fst (generate_supply_tree g dmn processes f)) rl cs k)
                        (composite_seeds cs alternatives)) []))"

section \<open>The greedy choice\<close>

definition well_covered :: "nat \<Rightarrow> candidate list \<Rightarrow> bool" where
  "well_covered n cs \<longleftrightarrow> list_all (\<lambda>c. distinct (snd c) \<and> list_all (\<lambda>i. i < n) (snd c)) cs"

lemma composite_candidates_well_covered:
  "well_covered (length rl) (composite_candidates g dmn extract rl fs)"
  by (auto simp: well_covered_def composite_candidates_def covered_requirement_indices_def list_all_iff)

lemma gain_card: "distinct (snd c) \<Longrightarrow> gain c u = card (set (snd c) \<inter> set u)"
proof -
  assume d: "distinct (snd c)"
  have "set (filter (\<lambda>i. i \<in> set u) (snd c)) = set (snd c) \<inter> set u" by auto
  then show ?thesis using d by (metis distinct_card distinct_filter gain_def)
qed

lemma pick_best_gain:
  "pick_best cs sel u (best, bg, bt) = (best', bg', bt') \<Longrightarrow>
   bg \<le> bg' \<and> (\<forall>c\<in>set cs. c \<notin> set sel \<longrightarrow> gain c u \<le> bg') \<and>
   (best' = best \<and> bg' = bg \<or> (\<exists>w\<in>set cs. best' = Some w \<and> w \<notin> set sel \<and> gain w u = bg'))"
proof (induction cs arbitrary: best bg bt)
  case (Cons c cs)
  show ?case
  proof (cases "c \<notin> set sel \<and> (bg < gain c u \<or> (gain c u = bg \<and> bt < length (snd c)))")
    case True
    then have "pick_best cs sel u (Some c, gain c u, length (snd c)) = (best', bg', bt')" using Cons.prems by (auto split: if_splits)
    from Cons.IH[OF this] True show ?thesis by auto
  next
    case False
    then have "pick_best cs sel u (best, bg, bt) = (best', bg', bt')" using Cons.prems by (auto split: if_splits)
    from Cons.IH[OF this] False show ?thesis by auto
  qed
qed simp

lemma greedy_loop_step:
  "pick_best cs sel u (None, 0, 0) = (b, bg, bt) \<Longrightarrow>
   greedy_loop cs k sel u =
     (if u \<noteq> [] \<and> length sel < k \<and> b \<noteq> None \<and> bg \<noteq> 0 then greedy_loop cs k (sel @ [the b]) (uncover (the b) u) else sel)"
  by (subst greedy_loop.simps) (auto split: option.split)

text \<open>Induction over the rounds of the loop.\<close>

lemma greedy_loop_induct:
  assumes stop: "\<And>sel. P sel sel"
    and step: "\<And>sel w r. w \<in> set cs \<Longrightarrow> P (sel @ [w]) r \<Longrightarrow> P sel r"
  shows "P sel (greedy_loop cs k sel u)"
proof (induction cs \<equiv> cs k sel u rule: greedy_loop.induct)
  case (1 k sel u)
  obtain b bg bt where p: "pick_best cs sel u (None, 0, 0) = (b, bg, bt)" by (metis prod_cases3)
  show ?case
  proof (cases "u \<noteq> [] \<and> length sel < k \<and> b \<noteq> None \<and> bg \<noteq> 0")
    case True
    then obtain w where w: "b = Some w" "w \<in> set cs" using pick_best_gain[OF p] by auto
    have "P (sel @ [w]) (greedy_loop cs k (sel @ [w]) (uncover w u))" using 1 True p w by auto
    then show ?thesis using step[OF w(2)] greedy_loop_step[OF p, of k] True w by simp
  next
    case False
    then have "greedy_loop cs k sel u = sel" using greedy_loop_step[OF p, of k] by (simp only: if_False)
    then show ?thesis using stop by simp
  qed
qed

lemma greedy_loop_keeps: "set sel \<subseteq> set (greedy_loop cs k sel u)"
  by (rule greedy_loop_induct) auto

lemma greedy_loop_in: "set (greedy_loop cs k sel u) \<subseteq> set sel \<union> set cs"
  by (rule greedy_loop_induct) auto

lemma greedy_step:
  fixes cs :: "candidate list"
  assumes wc: "well_covered n cs" and T: "T \<subseteq> set cs" "card T \<le> k"
    and u: "set u \<subseteq> {..<n}" and sel: "\<forall>s\<in>set sel. set (snd s) \<inter> set u = {}"
    and p: "pick_best cs sel u (None, 0, 0) = (b, bg, bt)"
  shows "card (set u) + card (\<Union>c\<in>T. set (snd c)) \<le> n + k * bg"
proof -
  let ?C = "\<Union>c\<in>T. set (snd c)"
  have fin: "finite T" using T(1) finite_subset by blast
  have le: "card (set (snd c) \<inter> set u) \<le> bg" if "c \<in> T" for c
  proof (cases "c \<in> set sel")
    case False
    have "distinct (snd c)" using wc that T(1) by (auto simp: well_covered_def list_all_iff)
    then have "gain c u = card (set (snd c) \<inter> set u)" by (rule gain_card)
    moreover have "gain c u \<le> bg" using pick_best_gain[OF p] False that T(1) by blast
    ultimately show ?thesis by simp
  qed (use sel in simp)
  have "card (?C \<inter> set u) = card (\<Union>c\<in>T. set (snd c) \<inter> set u)" by (simp only: Int_UN_distrib2 UN_simps)
  also have "\<dots> \<le> (\<Sum>c\<in>T. card (set (snd c) \<inter> set u))" using fin by (rule card_UN_le)
  also have "\<dots> \<le> card T * bg" using sum_bounded_above[of T _ bg] le by simp
  also have "\<dots> \<le> k * bg" using T(2) by simp
  finally have inter: "card (?C \<inter> set u) \<le> k * bg" .
  have C: "?C \<subseteq> {..<n}" using wc T(1) by (fastforce simp: well_covered_def list_all_iff)
  have "card (?C \<union> set u) \<le> n" using C u card_mono[of "{..<n}" "?C \<union> set u"] by simp
  moreover have "card ?C + card (set u) = card (?C \<union> set u) + card (?C \<inter> set u)"
    using C by (intro card_Un_Int) (auto intro: finite_subset)
  ultimately show ?thesis using inter by simp
qed

lemma uncover_card:
  assumes "distinct (snd w)"
  shows "card (set (uncover w u)) + gain w u = card (set u)"
proof -
  have "set (uncover w u) = set u - set (snd w) \<inter> set u" by (auto simp: uncover_def)
  then have "card (set (uncover w u)) = card (set u) - card (set (snd w) \<inter> set u)" by (simp add: card_Diff_subset)
  moreover have "card (set (snd w) \<inter> set u) \<le> card (set u)" by (simp add: card_mono)
  ultimately show ?thesis using gain_card[OF assms] by simp
qed

lemma greedy_loop_bound:
  fixes cs :: "candidate list" and T :: "candidate set" and n k :: nat and d q :: rat
  defines "d \<equiv> of_nat n - of_nat (card (\<Union>c\<in>T. set (snd c)))" and "q \<equiv> 1 - 1 / of_nat k"
  assumes wc: "well_covered n cs" and T: "T \<subseteq> set cs" "card T \<le> k" and k: "1 \<le> k"
    and u: "set u \<subseteq> {..<n}" and sel: "\<forall>s\<in>set sel. set (snd s) \<inter> set u = {}"
  shows "of_nat (card (set u - (\<Union>s\<in>set (greedy_loop cs k sel u). set (snd s)))) - d
    \<le> q ^ (k - length sel) * max 0 (of_nat (card (set u)) - d)"
  using u sel
proof (induction "k - length sel" arbitrary: sel u)
  case 0
  then have "greedy_loop cs k sel u = sel" by (subst greedy_loop.simps) simp
  moreover have "card (set u - (\<Union>s\<in>set sel. set (snd s))) \<le> card (set u)" by (simp add: card_mono)
  then have "(of_nat (card (set u - (\<Union>s\<in>set sel. set (snd s)))) :: rat) \<le> of_nat (card (set u))"
    by (simp only: of_nat_le_iff)
  ultimately show ?case using 0 by simp
next
  case (Suc m)
  let ?sel' = "greedy_loop cs k sel u"
  have q: "0 \<le> q" using k by (simp add: q_def field_simps)
  have d: "0 \<le> d"
  proof -
    have "(\<Union>c\<in>T. set (snd c)) \<subseteq> {..<n}" using wc T(1) by (fastforce simp: well_covered_def list_all_iff)
    then have "card (\<Union>c\<in>T. set (snd c)) \<le> n" using card_mono[of "{..<n}"] by fastforce
    then show ?thesis by (simp add: d_def)
  qed
  have mono: "(of_nat (card (set u - X)) :: rat) \<le> of_nat (card (set u))" for X
    by (simp add: card_mono)
  obtain b bg bt where p: "pick_best cs sel u (None, 0, 0) = (b, bg, bt)" by (metis prod_cases3)
  have "card (set u) + card (\<Union>c\<in>T. set (snd c)) \<le> n + k * bg"
    using greedy_step[OF wc T Suc.prems p] .
  then have "(of_nat (card (set u) + card (\<Union>c\<in>T. set (snd c))) :: rat) \<le> of_nat (n + k * bg)" by (simp only: of_nat_le_iff)
  then have step: "of_nat (card (set u)) - d \<le> of_nat k * of_nat bg" by (simp add: d_def)
  show ?case
  proof (cases "u \<noteq> [] \<and> bg \<noteq> 0")
    case False
    have "of_nat (card (set u)) - d \<le> 0" using False step d by auto
    then have "of_nat (card (set u - (\<Union>s\<in>set ?sel'. set (snd s)))) - d \<le> 0" using mono[of "\<Union>s\<in>set ?sel'. set (snd s)"] by simp
    moreover have "0 \<le> q ^ (k - length sel) * max 0 (of_nat (card (set u)) - d)" using q by simp
    ultimately show ?thesis by linarith
  next
    case True
    then obtain w where w: "w \<in> set cs" "b = Some w" "gain w u = bg" using pick_best_gain[OF p] by auto
    let ?u1 = "uncover w u"
    have dw: "distinct (snd w)" using wc w(1) by (auto simp: well_covered_def list_all_iff)
    have loop: "?sel' = greedy_loop cs k (sel @ [w]) ?u1"
      using True p w Suc.hyps(2) by (subst greedy_loop.simps) auto
    have "w \<in> set ?sel'" using greedy_loop_keeps[of "sel @ [w]" cs k ?u1] loop by auto
    then have diff: "set u - (\<Union>s\<in>set ?sel'. set (snd s)) = set ?u1 - (\<Union>s\<in>set ?sel'. set (snd s))"
      by (auto simp: uncover_def)
    have m: "m = k - length (sel @ [w])" using Suc.hyps(2) by simp
    have "set ?u1 \<subseteq> {..<n}" "\<forall>s\<in>set (sel @ [w]). set (snd s) \<inter> set ?u1 = {}"
      using Suc.prems by (auto simp: uncover_def)
    note IH = Suc.hyps(1)[OF m this]
    have "of_nat (card (set ?u1)) + of_nat bg = (of_nat (card (set u)) :: rat)"
      using uncover_card[OF dw, of u] w(3) by (metis of_nat_add)
    moreover have "(of_nat (card (set u)) - d) / of_nat k \<le> of_nat bg" using step k by (simp add: field_simps)
    ultimately have "of_nat (card (set ?u1)) - d \<le> q * (of_nat (card (set u)) - d)" 
      by (simp add: q_def algebra_simps diff_divide_distrib)
    also have "\<dots> \<le> q * max 0 (of_nat (card (set u)) - d)" using q by (intro mult_left_mono) auto
    finally have "max 0 (of_nat (card (set ?u1)) - d) \<le> q * max 0 (of_nat (card (set u)) - d)" using q by simp
    then have "q ^ m * max 0 (of_nat (card (set ?u1)) - d) \<le> q ^ m * (q * max 0 (of_nat (card (set u)) - d))"
      using q by (intro mult_left_mono) auto
    also have "\<dots> = q ^ (k - length sel) * max 0 (of_nat (card (set u)) - d)"
      using Suc.hyps(2) by (metis (no_types) mult.assoc power_Suc2)
    finally show ?thesis using IH unfolding diff[unfolded loop] loop m[symmetric] by linarith
  qed
qed

text \<open>
  C18: how good the greedy combination is. The unseeded solution with at most \<open>k\<close> facilities covers at least
  the fraction \<open>1 - (1 - 1/k)\<^sup>k\<close> of the requirements that any other choice of \<open>k\<close> facilities from the
  same pool covers; for one facility it is the best one.
\<close>

theorem greedy_cover_bound:
  fixes rl :: "process_item list" and T :: "candidate set" and k :: nat
  assumes sol: "build_solution score rl (composite_candidates g dmn extract rl fs) k None = Some s"
    and T: "T \<subseteq> set (composite_candidates g dmn extract rl fs)" "card T \<le> k" and k: "1 \<le> k"
  shows "(1 - (1 - 1 / of_nat k) ^ k) * (of_nat (card (\<Union>c\<in>T. set (snd c))) / of_nat (length rl)) \<le> coverage_ratio s"
proof -
  let ?cs = "composite_candidates g dmn extract rl fs" and ?n = "length rl" and ?C = "\<Union>c\<in>T. set (snd c)"
  let ?sel = "greedy_loop ?cs k [] [0..<?n]" and ?q = "1 - 1 / of_nat k :: rat"
  let ?cov = "\<Union>c\<in>set ?sel. set (snd c)"
  note wc = composite_candidates_well_covered[of rl g dmn "extract" fs]
  have sel: "select_candidates ?cs ?n k None = ?sel" by (simp add: select_candidates_def)
  have len: "length (covered_union ?sel) = card ?cov" by (simp add: covered_union_def length_remdups_card_conv)
  have R: "?cov \<subseteq> {..<?n}"
    using wc greedy_loop_in[of ?cs k "[]" "[0..<?n]"] by (fastforce simp: well_covered_def list_all_iff)
  have C: "?C \<subseteq> {..<?n}" using wc T(1) by (fastforce simp: well_covered_def list_all_iff)
  then have Cn: "card ?C \<le> ?n" using card_mono[of "{..<?n}" ?C] by simp
  have "set [0..<?n] - ?cov = {..<?n} - ?cov" by auto
  then have "card (set [0..<?n] - ?cov) + card ?cov = ?n"
    using R card_Diff_subset[of ?cov "{..<?n}"] card_mono[of "{..<?n}" ?cov] finite_subset[OF R] by simp
  then have "of_nat (card (set [0..<?n] - ?cov)) + of_nat (card ?cov) = (of_nat ?n :: rat)" by (metis of_nat_add)
  moreover have "of_nat (card (set [0..<?n] - ?cov)) - (of_nat ?n - of_nat (card ?C)) \<le> ?q ^ k * of_nat (card ?C)"
    using greedy_loop_bound[OF wc T k, where u = "[0..<?n]" and sel = "[]"] by (auto simp: lessThan_atLeast0)
  ultimately have bound: "(1 - ?q ^ k) * of_nat (card ?C) \<le> of_nat (card ?cov)" by (simp add: algebra_simps)
  show ?thesis
  proof (cases "rl = []")
    case False
    then have "coverage_ratio s = of_nat (card ?cov) / of_nat ?n"
      using sol sel len by (auto simp: build_solution_def Let_def split: if_splits)
    then show ?thesis using bound by (simp add: divide_right_mono)
  next
    case True
    then have "coverage_ratio s = 0" using sol by (auto simp: build_solution_def Let_def split: if_splits)
    then show ?thesis using True by simp
  qed
qed

definition shop :: "string \<Rightarrow> string list \<Rightarrow> facility" where
  "shop i ps = \<lparr>fac_id = i, fac_name = i, fac_processes = ps, fac_equipment = []\<rparr>"

definition three_shops :: "facility list" where
  "three_shops = [shop ''a'' [''milling'', ''sewing''], shop ''b'' [''sewing'', ''welding''], shop ''c'' [''welding'']]"

lemma three_candidates:
  "composite_candidates plain_config ''manufacturing'' (\<lambda>_. []) (map plain_item [''milling'', ''sewing'', ''welding'']) three_shops =
   [(shop ''a'' [''milling'', ''sewing''], [0, 1]), (shop ''b'' [''sewing'', ''welding''], [1, 2]), (shop ''c'' [''welding''], [2])]"
  by code_simp

theorem greedy_cover_bound_witness:
  "\<exists>s. build_solution (\<lambda>_. 1) (map plain_item [''milling'', ''sewing'', ''welding''])
       (composite_candidates plain_config ''manufacturing'' (\<lambda>_. []) (map plain_item [''milling'', ''sewing'', ''welding'']) three_shops) 1 None = Some s \<and>
     2 / 3 \<le> coverage_ratio s"
proof -
  let ?rl = "map plain_item [''milling'', ''sewing'', ''welding'']"
  let ?cs = "composite_candidates plain_config ''manufacturing'' (\<lambda>_. []) ?rl three_shops"
  let ?T = "{(shop ''b'' [''sewing'', ''welding''], [1, 2 :: nat])}"
  have "select_candidates ?cs (length ?rl) 1 None \<noteq> []"
    unfolding three_candidates by code_simp
  then obtain s where s: "build_solution (\<lambda>_. 1) ?rl ?cs 1 None = Some s"
    by (auto simp: build_solution_def Let_def simp del: map_map)
  have "?T \<subseteq> set ?cs" unfolding three_candidates by simp
  then have "2 / 3 \<le> coverage_ratio s"
    using greedy_cover_bound[OF s, of ?T] by simp
  then show ?thesis using s by blast
qed

end
