(* ===== verification/Disclosure.thy ===== *)
theory Disclosure imports Signing begin

text \<open>
  What may leave the node: visibility levels (\<open>models/visibility.py\<close>), disclosure profiles
  (\<open>models/disclosure.py\<close>), and the provenance that travels with a record
  (\<open>models/provenance.py\<close>). A facility in dict form is a list of keys with JSON values.
\<close>

section \<open>Visibility\<close>

datatype visibility_level = PRIVATE | FOLLOWERS | PUBLIC

fun visibility_value :: "visibility_level \<Rightarrow> string" where
  "visibility_value PRIVATE = ''private''"
| "visibility_value FOLLOWERS = ''followers''"
| "visibility_value PUBLIC = ''public''"

definition parse_visibility :: "string \<Rightarrow> visibility_level option" where
  "parse_visibility s = find (\<lambda>v. visibility_value v = s) [PRIVATE, FOLLOWERS, PUBLIC]"

definition default_visibility :: visibility_level where "default_visibility = PRIVATE"

definition legacy_visibility :: visibility_level where "legacy_visibility = FOLLOWERS"

definition is_shareable :: "visibility_level option \<Rightarrow> bool" where
  "is_shareable level = (case level of None \<Rightarrow> False | Some v \<Rightarrow> v \<in> {FOLLOWERS, PUBLIC})"

section \<open>Disclosure profiles\<close>

datatype disclosure_audience = FollowersAudience | PublicAudience

datatype disclosure_group = IdentityGroup | LocationGroup | EquipmentGroup | OperationsGroup | SupplyGroup

record disclosure_profile =
  for_followers :: "disclosure_group list"
  for_public :: "disclosure_group list"

definition default_disclosure_profile :: disclosure_profile where
  "default_disclosure_profile = \<lparr>for_followers = [IdentityGroup], for_public = [IdentityGroup]\<rparr>"

fun group_keys :: "disclosure_group \<Rightarrow> string list" where
  "group_keys LocationGroup = [''location'', ''wheelchair_accessibility'', ''road_access'', ''loading_dock'']"
| "group_keys EquipmentGroup = [''equipment'']"
| "group_keys OperationsGroup =
     [''opening_hours'', ''access_type'', ''manufacturing_processes'', ''typical_batch_size'', ''floor_size'',
      ''storage_capacity'', ''certifications'', ''backup_generator'', ''uninterrupted_power_supply'',
      ''maintenance_schedule'', ''human_capacity'', ''innovation_space'', ''circular_economy'', ''contact'']"
| "group_keys SupplyGroup = [''typical_materials'', ''typical_products'']"
| "group_keys IdentityGroup =
     [''id'', ''name'', ''description'', ''date_founded'', ''facility_status'', ''owner'', ''affiliations'',
      ''partners_funders'', ''customer_reviews'', ''domain'', ''record_data'']"

definition groups_for_audience :: "disclosure_profile option \<Rightarrow> disclosure_audience \<Rightarrow> disclosure_group list" where
  "groups_for_audience profile audience =
     (let p = (case profile of None \<Rightarrow> default_disclosure_profile | Some p \<Rightarrow> p);
          gs = (case audience of FollowersAudience \<Rightarrow> for_followers p | PublicAudience \<Rightarrow> for_public p)
      in remdups (gs @ [IdentityGroup]))"

definition allowed_keys :: "disclosure_group list \<Rightarrow> string list" where
  "allowed_keys groups = [''id'', ''name'', ''facility_status''] @ concat (map group_keys groups)"

definition project_facility :: "doc \<Rightarrow> disclosure_group list \<Rightarrow> doc" where
  "project_facility d groups = filter (\<lambda>(k, v). k \<in> set (allowed_keys groups)) d"

section \<open>Provenance\<close>

record credit =
  subject_did :: "string option"
  external_id :: "string option"
  credit_role :: "string option"

text \<open>The validator of \<open>Credit\<close>: exactly one identifier, an empty one counting as absent.\<close>

definition absent :: "string option \<Rightarrow> bool" where
  "absent x \<longleftrightarrow> x = None \<or> x = Some []"

definition valid_credit :: "credit \<Rightarrow> bool" where
  "valid_credit c \<longleftrightarrow> absent (subject_did c) \<noteq> absent (external_id c)"

record record_provenance =
  authored_by :: "credit list"
  published_by :: "string option"
  on_behalf_of :: "string option"
  signed_by :: "string option"
  rp_signature :: string

definition credit_json :: "credit \<Rightarrow> json" where
  "credit_json c = JObj [(''subject_did'', opt_json JStr (subject_did c)), (''external_id'', opt_json JStr (external_id c)),
     (''role'', opt_json JStr (credit_role c))]"

definition provenance_payload :: "record_provenance \<Rightarrow> json" where
  "provenance_payload p = JObj [(''authored_by'', JList (map credit_json (authored_by p))),
     (''published_by'', opt_json JStr (published_by p)), (''on_behalf_of'', opt_json JStr (on_behalf_of p))]"

definition sign_provenance :: "ed25519 \<Rightarrow> record_provenance \<Rightarrow> byte list \<Rightarrow> did \<Rightarrow> record_provenance" where
  "sign_provenance ed p sk signer =
     p\<lparr>signed_by := Some signer, rp_signature := sign_payload ed sk (provenance_payload p)\<rparr>"

definition verify_provenance :: "ed25519 \<Rightarrow> record_provenance \<Rightarrow> bool" where
  "verify_provenance ed p \<longleftrightarrow>
     (if absent (signed_by p) \<or> rp_signature p = [] then False
      else verify_payload ed (the (signed_by p)) (provenance_payload p) (rp_signature p))"

text \<open>
  \<open>apply_ohm_metadata\<close>: keys of the source dict with the prefix are carried over; \<open>None\<close> is a source
  that is no dict.
\<close>

definition apply_ohm_metadata :: "doc \<Rightarrow> doc option \<Rightarrow> string option \<Rightarrow> doc" where
  "apply_ohm_metadata payload source created_by =
     (let carried = (case source of None \<Rightarrow> payload
            | Some s \<Rightarrow> fold (\<lambda>(k, v) p. if starts_with ''ohm_'' k then AList.update k v p else p) s payload)
      in if absent created_by then carried else AList.update ''ohm_created_by'' (JStr (the created_by)) carried)"

section \<open>Facts\<close>

lemma project_facility_keys: "set (keys (project_facility d groups)) \<subseteq> set (allowed_keys groups)"
  by (auto simp: project_facility_def)

lemma identity_always: "IdentityGroup \<in> set (groups_for_audience p a)"
  by (auto simp: groups_for_audience_def Let_def)

lemma sign_provenance_verifies:
  assumes "ed_sound ed"
  shows "verify_provenance ed (sign_provenance ed p sk (key_did ed sk)) \<longleftrightarrow> sign_payload ed sk (provenance_payload p) \<noteq> []"
proof -
  have "provenance_payload (sign_provenance ed p sk (key_did ed sk)) = provenance_payload p"
    by (simp add: provenance_payload_def sign_provenance_def)
  then show ?thesis
    using verify_own_signature[OF assms] key_did_not_Nil[of ed sk] by (auto simp: verify_provenance_def sign_provenance_def absent_def)
qed

end
