(* ===== verification/Okw_Service.thy ===== *)
theory Okw_Service imports Disclosure begin

text \<open>
  The facility service (\<open>services/okw_service.py\<close>) over the object store, with the stores of
  visibility, disclosure and provenance beside it (\<open>storage/visibility_store.py\<close>,
  \<open>storage/disclosure_store.py\<close>, \<open>storage/provenance_store.py\<close>). The facility class
  (\<open>ManufacturingFacility\<close>, with the repair of ids before it is read) is the parameter \<open>fm\<close>. Storage is
  configured. An object that cannot be read, or a policy object that cannot be parsed, is \<open>None\<close>.
\<close>

record 'f facility_model =
  fm_id :: "'f \<Rightarrow> string"
  fm_name :: "'f \<Rightarrow> string"
  fm_from :: "doc \<Rightarrow> 'f option"
  fm_to :: "'f \<Rightarrow> doc"
  fm_fix :: "doc \<Rightarrow> doc option"
  fm_cooking :: "doc \<Rightarrow> bool"

record okw_store =
  okw_files :: "(string \<times> doc option \<times> nat) list"
  okw_visibility :: "(string \<times> visibility_level option) list"
  okw_disclosure :: "(string \<times> disclosure_profile option) list"
  okw_provenance :: "(string \<times> record_provenance option) list"

datatype okw_error = InvalidFacility | FacilityNotFound string

definition empty_okw :: okw_store where
  "empty_okw = \<lparr>okw_files = [], okw_visibility = [], okw_disclosure = [], okw_provenance = []\<rparr>"

section \<open>Reading facilities\<close>

definition okw_key :: "string \<Rightarrow> string" where
  "okw_key i = ''okw/'' @ i @ ''.json''"

definition read_facility :: "'f facility_model \<Rightarrow> doc option \<Rightarrow> 'f option" where
  "read_facility fm content = Option.bind (Option.bind content (fm_fix fm)) (fm_from fm)"

text \<open>The head of a list sorted by time, latest first: the first of the latest.\<close>

fun newest :: "(nat \<times> 'f) list \<Rightarrow> 'f option" where
  "newest [] = None"
| "newest (x # xs) = Some (snd (fold (\<lambda>y b. if fst b < fst y then y else b) xs x))"

definition okw_get :: "'f facility_model \<Rightarrow> okw_store \<Rightarrow> string \<Rightarrow> 'f option" where
  "okw_get fm st i =
     newest (List.map_filter (\<lambda>(k, content, m). case read_facility fm content of
        None \<Rightarrow> None | Some f \<Rightarrow> if fm_id fm f = i then Some (m, f) else None) (okw_files st))"

text \<open>One file of \<open>list\<close>: kitchens are skipped, a later version of a facility replaces an earlier one.\<close>

definition list_file :: "'f facility_model \<Rightarrow> string \<times> doc option \<times> nat \<Rightarrow> (string \<times> nat \<times> 'f) list \<Rightarrow> (string \<times> nat \<times> 'f) list" where
  "list_file fm file acc =
     (case file of (k, content, m) \<Rightarrow>
        case content of
          None \<Rightarrow> acc
        | Some d \<Rightarrow>
            if fm_cooking fm d then acc
            else case read_facility fm content of
              None \<Rightarrow> acc
            | Some f \<Rightarrow>
                (case map_of acc (fm_id fm f) of
                   None \<Rightarrow> AList.update (fm_id fm f) (m, f) acc
                 | Some (m0, f0) \<Rightarrow> if m0 < m then AList.update (fm_id fm f) (m, f) acc else acc))"

definition okw_list_all :: "'f facility_model \<Rightarrow> okw_store \<Rightarrow> 'f list" where
  "okw_list_all fm st = map snd (vals (fold (list_file fm) (okw_files st) []))"

definition okw_list :: "'f facility_model \<Rightarrow> okw_store \<Rightarrow> nat \<Rightarrow> nat \<Rightarrow> 'f list \<times> nat" where
  "okw_list fm st page page_size =
     (let fs = okw_list_all fm st in (take page_size (drop ((page - 1) * page_size) fs), length fs))"

definition list_facilities :: "'f facility_model \<Rightarrow> okw_store \<Rightarrow> nat \<Rightarrow> nat \<Rightarrow> 'f list" where
  "list_facilities fm st limit offset = fst (okw_list fm st (offset div limit + 1) limit)"

definition find_key_for_id :: "okw_store \<Rightarrow> string \<Rightarrow> string option" where
  "find_key_for_id st i =
     map_option fst (find (\<lambda>(k, content, m). case content of None \<Rightarrow> False | Some d \<Rightarrow> map_of d ''id'' = Some (JStr i)) (okw_files st))"

section \<open>Policy objects\<close>

definition get_visibility :: "okw_store \<Rightarrow> string \<Rightarrow> visibility_level" where
  "get_visibility st i =
     (case Option.bind (map_of (okw_visibility st) i) id of None \<Rightarrow> legacy_visibility | Some v \<Rightarrow> v)"

definition save_visibility :: "string \<Rightarrow> visibility_level \<Rightarrow> okw_store \<Rightarrow> okw_store" where
  "save_visibility i v st = st\<lparr>okw_visibility := AList.update i (Some v) (okw_visibility st)\<rparr>"

definition get_disclosure :: "okw_store \<Rightarrow> string \<Rightarrow> disclosure_profile" where
  "get_disclosure st i =
     (case Option.bind (map_of (okw_disclosure st) i) id of None \<Rightarrow> default_disclosure_profile | Some p \<Rightarrow> p)"

definition save_disclosure :: "string \<Rightarrow> disclosure_profile \<Rightarrow> okw_store \<Rightarrow> okw_store" where
  "save_disclosure i p st = st\<lparr>okw_disclosure := AList.update i (Some p) (okw_disclosure st)\<rparr>"

definition get_provenance :: "okw_store \<Rightarrow> string \<Rightarrow> record_provenance option" where
  "get_provenance st i = Option.bind (map_of (okw_provenance st) i) id"

definition save_provenance :: "string \<Rightarrow> record_provenance \<Rightarrow> okw_store \<Rightarrow> okw_store" where
  "save_provenance i p st = st\<lparr>okw_provenance := AList.update i (Some p) (okw_provenance st)\<rparr>"

definition set_visibility :: "'f facility_model \<Rightarrow> string \<Rightarrow> visibility_level \<Rightarrow> okw_store \<Rightarrow> (okw_error + visibility_level) \<times> okw_store" where
  "set_visibility fm i v st =
     (if okw_get fm st i = None then (Inl (FacilityNotFound i), st) else (Inr v, save_visibility i v st))"

definition set_disclosure :: "'f facility_model \<Rightarrow> string \<Rightarrow> disclosure_profile \<Rightarrow> okw_store \<Rightarrow> (okw_error + disclosure_profile) \<times> okw_store" where
  "set_disclosure fm i p st =
     (if okw_get fm st i = None then (Inl (FacilityNotFound i), st) else (Inr p, save_disclosure i p st))"

section \<open>Projections\<close>

definition audience_of :: "visibility_level \<Rightarrow> disclosure_audience" where
  "audience_of v = (if v = PUBLIC then PublicAudience else FollowersAudience)"

definition project_for_visibility :: "'f facility_model \<Rightarrow> okw_store \<Rightarrow> 'f \<Rightarrow> doc" where
  "project_for_visibility fm st f =
     (let v = get_visibility st (fm_id fm f)
      in if v = PRIVATE then []
         else project_facility (fm_to fm f)
                (groups_for_audience (Some (get_disclosure st (fm_id fm f))) (audience_of v)))"

record disclosure_preview =
  preview_visibility :: visibility_level
  preview_exported :: bool
  preview_groups :: "disclosure_group list"
  preview_facility :: doc

text \<open>The groups are listed here in the order in which they are collected, there by name.\<close>

definition preview_disclosure :: "'f facility_model \<Rightarrow> okw_store \<Rightarrow> string \<Rightarrow> disclosure_audience \<Rightarrow> okw_error + disclosure_preview" where
  "preview_disclosure fm st i a =
     (case okw_get fm st i of
        None \<Rightarrow> Inl (FacilityNotFound i)
      | Some f \<Rightarrow>
          (let v = get_visibility st i; gs = groups_for_audience (Some (get_disclosure st i)) a
           in Inr \<lparr>preview_visibility = v,
                preview_exported = (v = FOLLOWERS \<and> a = FollowersAudience \<or> v = PUBLIC \<and> a = PublicAudience),
                preview_groups = gs, preview_facility = project_facility (fm_to fm f) gs\<rparr>))"

section \<open>Writing facilities\<close>

definition put_file :: "string \<Rightarrow> doc \<Rightarrow> nat \<Rightarrow> okw_store \<Rightarrow> okw_store" where
  "put_file k d now st = st\<lparr>okw_files := AList.update k (Some d, now) (okw_files st)\<rparr>"

definition okw_create ::
  "'f facility_model \<Rightarrow> nat \<Rightarrow> doc \<Rightarrow> string option \<Rightarrow> record_provenance option \<Rightarrow> okw_store \<Rightarrow> (okw_error + 'f) \<times> okw_store" where
  "okw_create fm now data created_by provenance st =
     (case fm_from fm data of
        None \<Rightarrow> (Inl InvalidFacility, st)
      | Some f \<Rightarrow>
          (let i = fm_id fm f;
               st1 = put_file (okw_key i) (apply_ohm_metadata (fm_to fm f) (Some data) created_by) now st;
               st2 = (case provenance of None \<Rightarrow> st1 | Some p \<Rightarrow> save_provenance i p st1)
           in (Inr f, save_visibility i default_visibility st2)))"

definition okw_update :: "'f facility_model \<Rightarrow> nat \<Rightarrow> string \<Rightarrow> doc \<Rightarrow> okw_store \<Rightarrow> (okw_error + 'f) \<times> okw_store" where
  "okw_update fm now i data st =
     (case fm_from fm data of
        None \<Rightarrow> (Inl InvalidFacility, st)
      | Some f \<Rightarrow>
          (Inr f, put_file (case find_key_for_id st i of None \<Rightarrow> okw_key i | Some k \<Rightarrow> k) (fm_to fm f) now st))"

definition okw_delete :: "string \<Rightarrow> okw_store \<Rightarrow> bool \<times> okw_store" where
  "okw_delete i st =
     (case find_key_for_id st i of
        None \<Rightarrow> (False, st)
      | Some k \<Rightarrow> (True, st\<lparr>okw_files := AList.delete k (okw_files st)\<rparr>))"

end
