(* ===== verification/Okw_Federation.thy ===== *)
theory Okw_Federation imports Okw_Service Peer_Store Rate_Limit Merkle_Root begin

text \<open>
  The federation of facilities: the signed catalog (\<open>federation/okw_catalog.py\<close>), the digest of the
  anti-entropy exchange (\<open>federation/sync.py\<close>), the ingest of a peer's record
  (\<open>federation/okw_ingest.py\<close>) and the sync with a peer (\<open>federation/okw_sync.py\<close>). SHA-256 is the
  parameter \<open>sha\<close> (text to hex text), Ed25519 the parameter \<open>ed\<close>; the peer's HTTP answers are
  arguments.
\<close>

section \<open>The catalog\<close>

record okw_catalog_record =
  cr_facility_id :: string
  cr_content_hash :: string
  cr_name :: string
  cr_updated_at :: datetime
  cr_publisher :: did
  cr_visibility :: string
  cr_signature :: string

definition okw_record_payload :: "okw_catalog_record \<Rightarrow> json" where
  "okw_record_payload r = JObj [(''facility_id'', JStr (cr_facility_id r)), (''content_hash'', JStr (cr_content_hash r)),
     (''name'', JStr (cr_name r)), (''updated_at'', JStr (isoformat (cr_updated_at r))),
     (''publisher_did'', JStr (cr_publisher r)), (''visibility'', JStr (cr_visibility r))]"

record signed_okw_record =
  catalog_record :: okw_catalog_record
  signed_facility :: doc
  facility_signature :: string

record okw_catalog_index =
  ix_records :: "okw_catalog_record list"
  ix_signed :: "(string \<times> signed_okw_record) list"
  ix_root :: string
  ix_count :: nat

definition manifest_content_hash :: "(string \<Rightarrow> string) \<Rightarrow> doc \<Rightarrow> string" where
  "manifest_content_hash sha d = ''sha256:'' @ sha (canonical_json (JObj d))"

definition sign_okw_record :: "ed25519 \<Rightarrow> node_identity \<Rightarrow> okw_catalog_record \<Rightarrow> okw_catalog_record" where
  "sign_okw_record ed me r = r\<lparr>cr_signature := hex (sign_json ed me (okw_record_payload r))\<rparr>"

text \<open>One facility of the loop; a falsy name of the projection is replaced by the facility's.\<close>

definition catalog_entry ::
  "(string \<Rightarrow> string) \<Rightarrow> ed25519 \<Rightarrow> node_identity \<Rightarrow> datetime \<Rightarrow> 'f facility_model \<Rightarrow> okw_store \<Rightarrow> 'f \<Rightarrow> signed_okw_record option" where
  "catalog_entry sha ed me now fm st f =
     (let v = get_visibility st (fm_id fm f)
      in if \<not> is_shareable (Some v) then None
         else let d = project_for_visibility fm st f
              in if d = [] then None
                 else
                   let h = manifest_content_hash sha d;
                       r = \<lparr>cr_facility_id = fm_id fm f, cr_content_hash = h,
                            cr_name = (case jget d ''name'' of JStr s \<Rightarrow> if s = [] then fm_name fm f else s | _ \<Rightarrow> fm_name fm f),
                            cr_updated_at = now, cr_publisher = ni_did me, cr_visibility = visibility_value v, cr_signature = []\<rparr>
                   in Some \<lparr>catalog_record = sign_okw_record ed me r, signed_facility = d,
                            facility_signature = hex (sign_json ed me (JObj d))\<rparr>)"

definition build_okw_catalog_index ::
  "(string \<Rightarrow> string) \<Rightarrow> ed25519 \<Rightarrow> node_identity \<Rightarrow> datetime \<Rightarrow> 'f facility_model \<Rightarrow> okw_store \<Rightarrow> okw_catalog_index" where
  "build_okw_catalog_index sha ed me now fm st =
     (let entries = List.map_filter (catalog_entry sha ed me now fm st) (fst (okw_list fm st 1 10000));
          records = map catalog_record entries
      in \<lparr>ix_records = records, ix_signed = dict_by (\<lambda>s. cr_content_hash (catalog_record s)) entries,
          ix_root = merkle_root sha (map cr_content_hash records), ix_count = length records\<rparr>)"

definition get_signed_record :: "okw_catalog_index \<Rightarrow> string \<Rightarrow> signed_okw_record option" where
  "get_signed_record ix h = map_of (ix_signed ix) h"

section \<open>The digest\<close>

record sync_digest =
  dg_root :: string
  dg_count :: nat
  dg_publisher :: did
  dg_leaves :: "string list"

definition compute_missing_hashes :: "string list \<Rightarrow> string list \<Rightarrow> string list" where
  "compute_missing_hashes ours theirs = sort (remdups (filter (\<lambda>h. h \<notin> set theirs) ours))"

text \<open>\<open>ours\<close> is a set in the code: its size is that of the list without repetitions.\<close>

definition respond_to_sync_digest :: "sync_digest \<Rightarrow> string \<Rightarrow> string list \<Rightarrow> string list" where
  "respond_to_sync_digest digest mine ours =
     (if dg_root digest = mine \<and> dg_count digest = length (remdups ours) then []
      else compute_missing_hashes ours (dg_leaves digest))"

definition build_sync_digest :: "okw_catalog_index \<Rightarrow> did \<Rightarrow> sync_digest" where
  "build_sync_digest ix me =
     \<lparr>dg_root = ix_root ix, dg_count = ix_count ix, dg_publisher = me, dg_leaves = sort (remdups (map cr_content_hash (ix_records ix)))\<rparr>"

section \<open>Ingest\<close>

text \<open>
  What can go wrong: an \<open>OkwIngestError\<close>, which the sync records, or an error it does not expect and
  which ends it (a malformed DID or signature text, a facility that cannot be built).
\<close>

datatype ingest_error = NotFollowed did | BadCatalogSignature | BadFacilitySignature | HashMismatch

datatype ingest_failure = IngestError ingest_error | Unexpected

datatype ingest_reason = AlreadyPresent | IdConflict

datatype ingest_result = Stored string | Skipped string ingest_reason

text \<open>The check of one signature against a key: the text must be hex, then the signature must verify.\<close>

definition check_signature :: "ed25519 \<Rightarrow> byte list \<Rightarrow> string \<Rightarrow> json \<Rightarrow> ingest_error \<Rightarrow> ingest_failure option" where
  "check_signature ed pk sig payload e =
     (case fromhex sig of
        None \<Rightarrow> Some Unexpected
      | Some bs \<Rightarrow> if ed_verify ed pk bs (canonical_json payload) then None else Some (IngestError e))"

definition verify_signed_okw_record :: "(string \<Rightarrow> string) \<Rightarrow> ed25519 \<Rightarrow> signed_okw_record \<Rightarrow> ingest_failure option" where
  "verify_signed_okw_record sha ed r =
     (case did_to_public_key (cr_publisher (catalog_record r)) of
        Inl e \<Rightarrow> Some Unexpected
      | Inr pk \<Rightarrow>
          (case check_signature ed pk (cr_signature (catalog_record r)) (okw_record_payload (catalog_record r)) BadCatalogSignature of
             Some e \<Rightarrow> Some e
           | None \<Rightarrow>
               (case check_signature ed pk (facility_signature r) (JObj (signed_facility r)) BadFacilitySignature of
                  Some e \<Rightarrow> Some e
                | None \<Rightarrow>
                    if manifest_content_hash sha (signed_facility r) \<noteq> cr_content_hash (catalog_record r)
                    then Some (IngestError HashMismatch) else None)))"

definition synced_provenance :: "did \<Rightarrow> record_provenance" where
  "synced_provenance d = \<lparr>authored_by = [\<lparr>subject_did = Some d, external_id = None, credit_role = Some ''synced_from''\<rparr>],
     published_by = Some d, on_behalf_of = None, signed_by = None, rp_signature = []\<rparr>"

definition verify_and_store_okw ::
  "(string \<Rightarrow> string) \<Rightarrow> ed25519 \<Rightarrow> 'f facility_model \<Rightarrow> nat \<Rightarrow> federation_store \<Rightarrow> string list \<Rightarrow> signed_okw_record \<Rightarrow> okw_store \<Rightarrow>
   (ingest_failure + ingest_result) \<times> okw_store" where
  "verify_and_store_okw sha ed fm now fs local_hashes r st =
     (let publisher = cr_publisher (catalog_record r); h = cr_content_hash (catalog_record r); i = cr_facility_id (catalog_record r)
      in if \<not> is_followed fs publisher then (Inl (IngestError (NotFollowed publisher)), st)
         else case verify_signed_okw_record sha ed r of
           Some e \<Rightarrow> (Inl e, st)
         | None \<Rightarrow>
             if h \<in> set local_hashes then (Inr (Skipped h AlreadyPresent), st)
             else case okw_get fm st i of
               Some f \<Rightarrow>
                 (let p = project_for_visibility fm st f;
                      local_hash = manifest_content_hash sha (if p \<noteq> [] then p else fm_to fm f)
                  in (Inr (Skipped h (if local_hash = h then AlreadyPresent else IdConflict)), st))
             | None \<Rightarrow>
                 (case okw_create fm now (signed_facility r) None (Some (synced_provenance publisher)) st of
                    (Inl e, st') \<Rightarrow> (Inl Unexpected, st')
                  | (Inr f, st') \<Rightarrow> (Inr (Stored h), st')))"

section \<open>Sync with a peer\<close>

datatype fetched = FetchFailed | NoRecord | Fetched signed_okw_record

datatype sync_error = PeerNotFollowed | OutboundLimited | DigestFailed | FetchError string | RecordError string ingest_error

record sync_result =
  sr_pulled :: nat
  sr_skipped :: nat
  sr_errors :: "sync_error list"

text \<open>
  The loop over the missing hashes. \<open>FetchFailed\<close> is an HTTP error, \<open>NoRecord\<close> a body that is no
  record; \<open>None\<close> for the result is an error that leaves the loop and the function.
\<close>

fun okw_sync_loop ::
  "(string \<Rightarrow> string) \<Rightarrow> ed25519 \<Rightarrow> 'f facility_model \<Rightarrow> nat \<Rightarrow> federation_store \<Rightarrow> (string \<Rightarrow> fetched) \<Rightarrow> string list \<Rightarrow>
   string list \<Rightarrow> sync_result \<Rightarrow> okw_store \<Rightarrow> sync_result option \<times> okw_store" where
  "okw_sync_loop sha ed fm now fs fetch [] local_hashes res st = (Some res, st)"
| "okw_sync_loop sha ed fm now fs fetch (h # hs) local_hashes res st =
     (case fetch h of
        FetchFailed \<Rightarrow> okw_sync_loop sha ed fm now fs fetch hs local_hashes (res\<lparr>sr_errors := sr_errors res @ [FetchError h]\<rparr>) st
      | NoRecord \<Rightarrow> (None, st)
      | Fetched r \<Rightarrow>
          (case verify_and_store_okw sha ed fm now fs local_hashes r st of
             (Inl Unexpected, st') \<Rightarrow> (None, st')
           | (Inl (IngestError e), st') \<Rightarrow>
               okw_sync_loop sha ed fm now fs fetch hs local_hashes (res\<lparr>sr_errors := sr_errors res @ [RecordError h e]\<rparr>) st'
           | (Inr (Stored _), st') \<Rightarrow>
               okw_sync_loop sha ed fm now fs fetch hs (h # local_hashes) (res\<lparr>sr_pulled := sr_pulled res + 1\<rparr>) st'
           | (Inr (Skipped _ _), st') \<Rightarrow>
               okw_sync_loop sha ed fm now fs fetch hs local_hashes (res\<lparr>sr_skipped := sr_skipped res + 1\<rparr>) st'))"

text \<open>
  \<open>sync_okw_with_peer\<close>: \<open>allowed\<close> is the verdict of the rate limiter, \<open>answer\<close> the peer's list of hashes
  for a digest, \<open>None\<close> for any failure to get one.
\<close>

definition sync_okw_with_peer ::
  "(string \<Rightarrow> string) \<Rightarrow> ed25519 \<Rightarrow> node_identity \<Rightarrow> datetime \<Rightarrow> 'f facility_model \<Rightarrow> nat \<Rightarrow> bool \<Rightarrow>
   (sync_digest \<Rightarrow> string list option) \<Rightarrow> (string \<Rightarrow> fetched) \<Rightarrow> peer_state \<Rightarrow> federation_store \<Rightarrow> okw_store \<Rightarrow>
   sync_result option \<times> federation_store \<times> okw_store" where
  "sync_okw_with_peer sha ed me now fm tick allowed answer fetch peer fs st =
     (let res = \<lparr>sr_pulled = 0, sr_skipped = 0, sr_errors = []\<rparr>
      in if \<not> ps_followed peer \<and> \<not> is_followed fs (ps_did peer) then (Some (res\<lparr>sr_errors := [PeerNotFollowed]\<rparr>), fs, st)
         else
           let ix = build_okw_catalog_index sha ed me now fm st;
               digest = build_sync_digest ix (ni_did me)
           in if \<not> allowed then (Some (res\<lparr>sr_errors := [OutboundLimited]\<rparr>), fs, st)
              else case answer digest of
                None \<Rightarrow> (Some (res\<lparr>sr_errors := [DigestFailed]\<rparr>), fs, st)
              | Some hs \<Rightarrow>
                  (case okw_sync_loop sha ed fm tick fs fetch hs (map cr_content_hash (ix_records ix)) res st of
                     (None, st') \<Rightarrow> (None, fs, st')
                   | (Some res', st') \<Rightarrow> (Some res', upsert_peer (peer\<lparr>last_sync_at := Some now\<rparr>) fs, st')))"

end
