(* ===== verification/Okw_Facts.thy ===== *)
theory Okw_Facts imports Okw_Federation begin

text \<open>
  What the federation of facilities guarantees: what leaves the node, that an honest peer's catalog is
  taken over by one sync, and what an ingest can overwrite.
\<close>

section \<open>Stores\<close>

lemma newest_None [simp]: "newest xs = None \<longleftrightarrow> xs = []"
  by (cases xs) auto

lemma map_filter_Nil: "List.map_filter f xs = [] \<longleftrightarrow> (\<forall>x\<in>set xs. f x = None)"
  by (induction xs) (auto split: option.splits)

lemma okw_get_known:
  "okw_get fm st i \<noteq> None \<longleftrightarrow>
   (\<exists>(k, c, m) \<in> set (okw_files st). \<exists>f. read_facility fm c = Some f \<and> fm_id fm f = i)"
  unfolding okw_get_def newest_None map_filter_Nil not_None_eq [symmetric]
  by (force split: option.splits if_splits)

lemma set_update_other: "x \<in> set xs \<Longrightarrow> fst x \<noteq> k \<Longrightarrow> x \<in> set (AList.update k v xs)"
  by (induction xs) auto

lemma set_update_new: "(k, v) \<in> set (AList.update k v xs)"
  by (induction xs) auto

lemma okw_key_inj [simp]: "okw_key i = okw_key j \<longleftrightarrow> i = j"
  by (simp add: okw_key_def)

text \<open>Every facility is in the file named after its id, which is how the service names new files.\<close>

definition files_named :: "'f facility_model \<Rightarrow> okw_store \<Rightarrow> bool" where
  "files_named fm st = list_all (\<lambda>(k, c, m). case read_facility fm c of None \<Rightarrow> True | Some f \<Rightarrow> k = okw_key (fm_id fm f)) (okw_files st)"

text \<open>
  What the facility class promises of a document with the id \<open>i\<close>: it can be built, and what is written
  for it reads back, both with that id.
\<close>

definition facility_reads_back :: "'f facility_model \<Rightarrow> string \<Rightarrow> doc \<Rightarrow> bool" where
  "facility_reads_back fm i d =
     (case fm_from fm d of
        None \<Rightarrow> False
      | Some f \<Rightarrow> fm_id fm f = i \<and>
          (case read_facility fm (Some (apply_ohm_metadata (fm_to fm f) (Some d) None)) of
             None \<Rightarrow> False
           | Some g \<Rightarrow> fm_id fm g = i))"

lemma okw_create_result:
  assumes "facility_reads_back fm i d"
  obtains f st' where "okw_create fm now d None p st = (Inr f, st')" "fm_id fm f = i" "okw_get fm st' i \<noteq> None"
    "files_named fm st \<Longrightarrow> files_named fm st'" "\<And>j. files_named fm st \<Longrightarrow> okw_get fm st j \<noteq> None \<Longrightarrow> okw_get fm st' j \<noteq> None"
proof -
  from assms obtain f g where f: "fm_from fm d = Some f" "fm_id fm f = i"
    and g: "read_facility fm (Some (apply_ohm_metadata (fm_to fm f) (Some d) None)) = Some g" "fm_id fm g = i"
    by (auto simp: facility_reads_back_def split: option.splits)
  define st' where "st' = snd (okw_create fm now d None p st)"
  have res: "okw_create fm now d None p st = (Inr f, st')"
    by (simp add: st'_def okw_create_def f Let_def)
  have files: "okw_files st' = AList.update (okw_key i) (Some (apply_ohm_metadata (fm_to fm f) (Some d) None), now) (okw_files st)"
    by (simp add: st'_def okw_create_def f Let_def save_visibility_def save_provenance_def put_file_def split: option.splits)
  have new: "okw_get fm st' i \<noteq> None"
    unfolding okw_get_known files using set_update_new[of "okw_key i"] g by force
  have named: "files_named fm st'" if "files_named fm st"
    using that set_update_subset [of "okw_key i"] g unfolding files_named_def files list_all_iff by fastforce
  have old: "okw_get fm st' j \<noteq> None" if "files_named fm st" "okw_get fm st j \<noteq> None" for j
  proof (cases "j = i")
    case False
    from that(2) obtain k c m h where x: "(k, c, m) \<in> set (okw_files st)" "read_facility fm c = Some h" "fm_id fm h = j"
      unfolding okw_get_known by auto
    with that(1) have "k = okw_key j" by (auto simp: files_named_def list_all_iff)
    with False x show ?thesis unfolding okw_get_known files
      by (intro bexI[of _ "(k, c, m)"] set_update_other) auto
  qed (use new in simp)
  show thesis by (rule that[OF res f(2) new named old])
qed

section \<open>The catalog\<close>

lemma check_own_signature:
  "ed_sound ed \<Longrightarrow> check_signature ed (ed_pub ed sk) (hex (ed_sign ed sk (canonical_json p))) p e = None"
  by (simp add: check_signature_def fromhex_hex ed_sound_def)

lemma check_own_record:
  assumes "ed_sound ed" and "did_to_public_key (ni_did me) = Inr (ed_pub ed (private_key me))"
    and "cr_publisher r = ni_did me" and "cr_content_hash r = manifest_content_hash sha d"
  shows "verify_signed_okw_record sha ed
     \<lparr>catalog_record = sign_okw_record ed me r, signed_facility = d, facility_signature = hex (ed_sign ed (private_key me) (canonical_json (JObj d)))\<rparr> = None"
proof -
  have "okw_record_payload (sign_okw_record ed me r) = okw_record_payload r"
    by (simp add: okw_record_payload_def sign_okw_record_def)
  then show ?thesis
    using assms check_own_signature [OF assms(1)] by (simp add: verify_signed_okw_record_def sign_okw_record_def sign_json_def del: canonical_json.simps)
qed

lemma catalog_entry_facts:
  assumes "catalog_entry sha ed me now fm st f = Some s"
  shows "cr_facility_id (catalog_record s) = fm_id fm f" "cr_publisher (catalog_record s) = ni_did me"
    "is_shareable (Some (get_visibility st (fm_id fm f)))"
    "cr_visibility (catalog_record s) = visibility_value (get_visibility st (fm_id fm f))"
    "signed_facility s = project_for_visibility fm st f"
    "ed_sound ed \<Longrightarrow> wf_identity ed me \<Longrightarrow> verify_signed_okw_record sha ed s = None"
proof -
  show "verify_signed_okw_record sha ed s = None" if "ed_sound ed" "wf_identity ed me"
  proof -
    have pk: "did_to_public_key (ni_did me) = Inr (ed_pub ed (private_key me))"
      using that by (simp add: wf_identity_def key_did_def did_to_public_key_did ed_sound_def)
    show ?thesis
      using assms check_own_record [OF that(1) pk] by (auto simp: catalog_entry_def Let_def sign_json_def split: if_splits)
  qed
qed (use assms in \<open>auto simp: catalog_entry_def Let_def sign_okw_record_def split: if_splits\<close>)

lemma index_entries:
  assumes "(h, s) \<in> set (ix_signed (build_okw_catalog_index sha ed me now fm st))"
  shows "\<exists>f\<in>set (fst (okw_list fm st 1 10000)). catalog_entry sha ed me now fm st f = Some s" "cr_content_hash (catalog_record s) = h"
proof -
  let ?es = "List.map_filter (catalog_entry sha ed me now fm st) (fst (okw_list fm st 1 10000))"
  have "map_of (dict_by (\<lambda>s. cr_content_hash (catalog_record s)) ?es) h = Some s"
    using assms by (auto simp: build_okw_catalog_index_def Let_def intro: map_of_is_SomeI)
  then have "find (\<lambda>s. cr_content_hash (catalog_record s) = h) (rev ?es) = Some s" by (simp add: map_of_dict_by)
  then have "s \<in> set ?es" "cr_content_hash (catalog_record s) = h"
    by (auto simp: find_Some_iff) (metis length_rev nth_mem set_rev)
  then show "\<exists>f\<in>set (fst (okw_list fm st 1 10000)). catalog_entry sha ed me now fm st f = Some s" "cr_content_hash (catalog_record s) = h"
    by (auto simp: List.map_filter_def)
qed

lemma listed_record_found:
  assumes "h \<in> set (map cr_content_hash (ix_records (build_okw_catalog_index sha ed me now fm st)))"
  obtains s where "get_signed_record (build_okw_catalog_index sha ed me now fm st) h = Some s"
    "(h, s) \<in> set (ix_signed (build_okw_catalog_index sha ed me now fm st))"
proof -
  let ?es = "List.map_filter (catalog_entry sha ed me now fm st) (fst (okw_list fm st 1 10000))"
  have "h \<in> set (keys (dict_by (\<lambda>s. cr_content_hash (catalog_record s)) ?es))"
    using assms unfolding keys_dict_by by (auto simp: build_okw_catalog_index_def Let_def)
  then obtain s where "map_of (dict_by (\<lambda>s. cr_content_hash (catalog_record s)) ?es) h = Some s"
    by (metis domD dom_map_of_conv_image_fst set_map)
  then show thesis using that by (auto simp: get_signed_record_def build_okw_catalog_index_def Let_def dest: map_of_SomeD)
qed

text \<open>
  C19: what the catalog lets out. Every record of it is of a facility whose visibility is followers or
  public, says that visibility, shows only keys of the groups disclosed to that audience (identity
  keys always among them), and is filed under its own hash; and a facility just created, here or by
  an ingest, is not in the catalog.
\<close>

theorem catalog_discloses:
  "list_all (\<lambda>(h, s). cr_content_hash (catalog_record s) = h \<and>
      (let i = cr_facility_id (catalog_record s); v = get_visibility st i
       in v \<noteq> PRIVATE \<and> cr_visibility (catalog_record s) = visibility_value v \<and>
          set (keys (signed_facility s)) \<subseteq>
            set (allowed_keys (groups_for_audience (Some (get_disclosure st i)) (audience_of v)))))
     (ix_signed (build_okw_catalog_index sha ed me now fm st)) \<and>
   (case okw_create fm tick d by p st of
      (Inl e, st') \<Rightarrow> st' = st
    | (Inr f, st') \<Rightarrow>
        fm_id fm f \<notin> set (map cr_facility_id (ix_records (build_okw_catalog_index sha ed me now' fm st'))))"
proof
  have "cr_content_hash (catalog_record s) = h \<and>
      (let i = cr_facility_id (catalog_record s); v = get_visibility st i
       in v \<noteq> PRIVATE \<and> cr_visibility (catalog_record s) = visibility_value v \<and>
          set (keys (signed_facility s)) \<subseteq> set (allowed_keys (groups_for_audience (Some (get_disclosure st i)) (audience_of v))))"
    if hs: "(h, s) \<in> set (ix_signed (build_okw_catalog_index sha ed me now fm st))" for h s
  proof -
    obtain f where "catalog_entry sha ed me now fm st f = Some s" using index_entries(1) [OF hs] by blast
    note facts = catalog_entry_facts [OF this]
    have np: "get_visibility st (fm_id fm f) \<noteq> PRIVATE" using facts(3) by (auto simp: is_shareable_def)
    show ?thesis
      using index_entries(2) [OF hs] facts(1,4,5) np project_facility_keys by (simp add: Let_def project_for_visibility_def)
  qed
  then show "list_all (\<lambda>(h, s). cr_content_hash (catalog_record s) = h \<and>
      (let i = cr_facility_id (catalog_record s); v = get_visibility st i
       in v \<noteq> PRIVATE \<and> cr_visibility (catalog_record s) = visibility_value v \<and>
          set (keys (signed_facility s)) \<subseteq>
            set (allowed_keys (groups_for_audience (Some (get_disclosure st i)) (audience_of v)))))
     (ix_signed (build_okw_catalog_index sha ed me now fm st))"
    by (auto simp: list_all_iff simp del: set_map)
  show "case okw_create fm tick d by p st of
      (Inl e, st') \<Rightarrow> st' = st
    | (Inr f, st') \<Rightarrow>
        fm_id fm f \<notin> set (map cr_facility_id (ix_records (build_okw_catalog_index sha ed me now' fm st')))"
  proof (cases "fm_from fm d")
    case (Some f)
    define st' where "st' = snd (okw_create fm tick d by p st)"
    have c: "okw_create fm tick d by p st = (Inr f, st')" by (simp add: st'_def okw_create_def Some Let_def)
    have priv: "get_visibility st' (fm_id fm f) = PRIVATE"
      by (simp add: st'_def okw_create_def Some Let_def save_visibility_def get_visibility_def update_conv' default_visibility_def)
    have ne: "cr_facility_id (catalog_record s) \<noteq> fm_id fm f" if "catalog_entry sha ed me now' fm st' g = Some s" for g s
      using catalog_entry_facts(1,3) [OF that] priv by (auto simp: is_shareable_def)
    show ?thesis unfolding c by (auto dest: ne [symmetric] simp: build_okw_catalog_index_def Let_def List.map_filter_def)
  qed (simp add: okw_create_def)
qed

section \<open>Sync with an honest peer\<close>

lemma store_good_record:
  assumes "is_followed fs (cr_publisher (catalog_record r))" and "verify_signed_okw_record sha ed r = None"
    and "cr_content_hash (catalog_record r) \<notin> set local_hashes"
    and "facility_reads_back fm (cr_facility_id (catalog_record r)) (signed_facility r)"
    and "files_named fm st"
  obtains res st' where "verify_and_store_okw sha ed fm now fs local_hashes r st = (Inr res, st')"
    "files_named fm st'" "okw_get fm st' (cr_facility_id (catalog_record r)) \<noteq> None"
    "\<And>j. okw_get fm st j \<noteq> None \<Longrightarrow> okw_get fm st' j \<noteq> None"
proof (cases "okw_get fm st (cr_facility_id (catalog_record r))")
  case None
  obtain f st' where c: "okw_create fm now (signed_facility r) None (Some (synced_provenance (cr_publisher (catalog_record r)))) st = (Inr f, st')"
    "okw_get fm st' (cr_facility_id (catalog_record r)) \<noteq> None" "files_named fm st'"
    "\<And>j. okw_get fm st j \<noteq> None \<Longrightarrow> okw_get fm st' j \<noteq> None"
    using okw_create_result [OF assms(4)] assms(5) by metis
  show thesis by (rule that [OF _ c(3,2,4)]) (use assms None c(1) in \<open>simp add: verify_and_store_okw_def Let_def\<close>)
next
  case (Some f)
  show thesis by (rule that [OF _ assms(5)]) (use assms Some in \<open>simp_all add: verify_and_store_okw_def Let_def\<close>)
qed

lemma honest_loop:
  assumes "\<forall>h\<in>set hs. \<exists>r. fetch h = Fetched r \<and> cr_content_hash (catalog_record r) = h \<and>
       is_followed fs (cr_publisher (catalog_record r)) \<and> verify_signed_okw_record sha ed r = None \<and>
       facility_reads_back fm (cr_facility_id (catalog_record r)) (signed_facility r)"
    and "distinct hs" and "set hs \<inter> set local_hashes = {}" and "files_named fm st"
  shows "\<exists>res' st'. okw_sync_loop sha ed fm now fs fetch hs local_hashes res st = (Some res', st') \<and>
     sr_errors res' = sr_errors res \<and> sr_pulled res' + sr_skipped res' = sr_pulled res + sr_skipped res + length hs \<and>
     (\<forall>j. okw_get fm st j \<noteq> None \<longrightarrow> okw_get fm st' j \<noteq> None) \<and>
     (\<forall>h\<in>set hs. \<forall>r. fetch h = Fetched r \<longrightarrow> okw_get fm st' (cr_facility_id (catalog_record r)) \<noteq> None)"
  using assms
proof (induction hs arbitrary: local_hashes res st)
  case (Cons h hs)
  from Cons.prems(1) obtain r where r: "fetch h = Fetched r" "cr_content_hash (catalog_record r) = h"
    "is_followed fs (cr_publisher (catalog_record r))" "verify_signed_okw_record sha ed r = None"
    "facility_reads_back fm (cr_facility_id (catalog_record r)) (signed_facility r)" by auto
  have fresh: "cr_content_hash (catalog_record r) \<notin> set local_hashes" using r(2) Cons.prems(3) by auto
  obtain x st1 where s: "verify_and_store_okw sha ed fm now fs local_hashes r st = (Inr x, st1)" "files_named fm st1"
    "okw_get fm st1 (cr_facility_id (catalog_record r)) \<noteq> None" "\<And>j. okw_get fm st j \<noteq> None \<Longrightarrow> okw_get fm st1 j \<noteq> None"
    using store_good_record [OF r(3,4) fresh r(5) Cons.prems(4)] by metis
  define res1 where "res1 = (case x of Stored _ \<Rightarrow> res\<lparr>sr_pulled := sr_pulled res + 1\<rparr> | Skipped _ _ \<Rightarrow> res\<lparr>sr_skipped := sr_skipped res + 1\<rparr>)"
  define lh1 where "lh1 = (case x of Stored _ \<Rightarrow> h # local_hashes | Skipped _ _ \<Rightarrow> local_hashes)"
  have "okw_sync_loop sha ed fm now fs fetch (h # hs) local_hashes res st = okw_sync_loop sha ed fm now fs fetch hs lh1 res1 st1"
    by (simp add: r(1) s(1) res1_def lh1_def split: ingest_result.split)
  moreover have "sr_errors res1 = sr_errors res" "sr_pulled res1 + sr_skipped res1 = sr_pulled res + sr_skipped res + 1"
    by (auto simp: res1_def split: ingest_result.split)
  moreover have "set hs \<inter> set lh1 = {}" using Cons.prems(2,3) by (auto simp: lh1_def split: ingest_result.split)
  ultimately show ?case
    using Cons.IH [of lh1 st1 res1] Cons.prems(1,2) s(2-4) r(1) by (simp, metis fetched.inject)
qed simp

lemma honest_sync:
  assumes "ed_sound ed" and "wf_identity ed you" and "ps_followed peer" and "is_followed fs (ni_did you)"
    and ix: "ix = build_okw_catalog_index sha ed you published fm theirs"
    and "list_all (\<lambda>(h, r). facility_reads_back fm (cr_facility_id (catalog_record r)) (signed_facility r)) (ix_signed ix)"
    and "files_named fm st"
    and answer: "answer = (\<lambda>d. respond_to_sync_digest d (ix_root ix) (map cr_content_hash (ix_records ix)))"
    and missing: "missing = answer (build_sync_digest (build_okw_catalog_index sha ed me now fm st) (ni_did me))"
  shows "\<exists>res st'. sync_okw_with_peer sha ed me now fm tick True (\<lambda>d. Some (answer d))
       (\<lambda>h. case get_signed_record ix h of None \<Rightarrow> FetchFailed | Some r \<Rightarrow> Fetched r) peer fs st =
       (Some res, upsert_peer (peer\<lparr>last_sync_at := Some now\<rparr>) fs, st') \<and>
     sr_errors res = [] \<and> sr_pulled res + sr_skipped res = length missing \<and>
     (\<forall>j. okw_get fm st j \<noteq> None \<longrightarrow> okw_get fm st' j \<noteq> None) \<and>
     (\<forall>h\<in>set missing. \<exists>r. get_signed_record ix h = Some r \<and> okw_get fm st' (cr_facility_id (catalog_record r)) \<noteq> None)"
proof -
  let ?fetch = "\<lambda>h. case get_signed_record ix h of None \<Rightarrow> FetchFailed | Some r \<Rightarrow> Fetched r"
  let ?mine = "map cr_content_hash (ix_records (build_okw_catalog_index sha ed me now fm st))"
  have miss: "distinct missing" "set missing \<subseteq> set (map cr_content_hash (ix_records ix))" "set missing \<inter> set ?mine = {}"
    by (auto simp: missing answer respond_to_sync_digest_def compute_missing_hashes_def build_sync_digest_def)
  have good: "\<exists>r. get_signed_record ix h = Some r \<and> cr_content_hash (catalog_record r) = h \<and>
       is_followed fs (cr_publisher (catalog_record r)) \<and> verify_signed_okw_record sha ed r = None \<and>
       facility_reads_back fm (cr_facility_id (catalog_record r)) (signed_facility r)" if "h \<in> set missing" for h
  proof -
    have "h \<in> set (map cr_content_hash (ix_records ix))" using miss(2) that by blast
    from listed_record_found [OF this [unfolded ix]] obtain s where s: "get_signed_record ix h = Some s" "(h, s) \<in> set (ix_signed ix)"
      unfolding ix .
    obtain f where f: "catalog_entry sha ed you published fm theirs f = Some s" using index_entries(1) s(2) ix by blast
    show ?thesis
      using s index_entries(2) [of h s] ix catalog_entry_facts(2) [OF f] catalog_entry_facts(6) [OF f assms(1,2)] assms(4,6)
      by (auto simp: list_all_iff)
  qed
  have fetches: "\<forall>h\<in>set missing. \<exists>r. ?fetch h = Fetched r \<and> cr_content_hash (catalog_record r) = h \<and>
       is_followed fs (cr_publisher (catalog_record r)) \<and> verify_signed_okw_record sha ed r = None \<and>
       facility_reads_back fm (cr_facility_id (catalog_record r)) (signed_facility r)"
  proof
    fix h assume "h \<in> set missing"
    from good [OF this] show "\<exists>r. ?fetch h = Fetched r \<and> cr_content_hash (catalog_record r) = h \<and>
       is_followed fs (cr_publisher (catalog_record r)) \<and> verify_signed_okw_record sha ed r = None \<and>
       facility_reads_back fm (cr_facility_id (catalog_record r)) (signed_facility r)" by fastforce
  qed
  note h = honest_loop [OF fetches miss(1,3) assms(7), of tick "\<lparr>sr_pulled = 0, sr_skipped = 0, sr_errors = []\<rparr>"]
  obtain res' st' where l: "okw_sync_loop sha ed fm tick fs ?fetch missing ?mine \<lparr>sr_pulled = 0, sr_skipped = 0, sr_errors = []\<rparr> st = (Some res', st')"
    "sr_errors res' = []" "sr_pulled res' + sr_skipped res' = length missing"
    "\<forall>j. okw_get fm st j \<noteq> None \<longrightarrow> okw_get fm st' j \<noteq> None"
    "\<forall>h\<in>set missing. \<forall>r. ?fetch h = Fetched r \<longrightarrow> okw_get fm st' (cr_facility_id (catalog_record r)) \<noteq> None"
    using h by auto
  have "sync_okw_with_peer sha ed me now fm tick True (\<lambda>d. Some (answer d)) ?fetch peer fs st =
      (Some res', upsert_peer (peer\<lparr>last_sync_at := Some now\<rparr>) fs, st')"
    using assms(3) l(1) by (simp add: sync_okw_with_peer_def Let_def missing)
  moreover have "\<exists>r. get_signed_record ix h = Some r \<and> okw_get fm st' (cr_facility_id (catalog_record r)) \<noteq> None"
    if "h \<in> set missing" for h using good [OF that] l(5) that by fastforce
  ultimately show ?thesis using l(2-4) by blast
qed

text \<open>
  One sync takes over an honest peer's catalog. If the peer is followed, signs with the key of its
  DID and answers digest and record requests from its catalog as the code does, if its facilities can
  be built and read back here, and if the local facilities are in the files named after their ids,
  then the sync ends, reports no error, handles every hash the peer reports as missing, leaves every
  local facility in place, and afterwards every facility it asked for is known here; the facility
  class is the only thing besides signatures that the peer's good will does not cover.
\<close>

theorem sync_takes_over_catalog:
  assumes "ed_sound ed" and "wf_identity ed you" and "ps_followed peer" and "is_followed fs (ni_did you)"
    and ix: "ix = build_okw_catalog_index sha ed you published fm theirs"
    and "list_all (\<lambda>(h, r). facility_reads_back fm (cr_facility_id (catalog_record r)) (signed_facility r)) (ix_signed ix)"
    and "files_named fm st"
    and answer: "answer = (\<lambda>d. respond_to_sync_digest d (ix_root ix) (map cr_content_hash (ix_records ix)))"
    and missing: "missing = answer (build_sync_digest (build_okw_catalog_index sha ed me now fm st) (ni_did me))"
  shows "\<exists>res st'. sync_okw_with_peer sha ed me now fm tick True (\<lambda>d. Some (answer d))
       (\<lambda>h. case get_signed_record ix h of None \<Rightarrow> FetchFailed | Some r \<Rightarrow> Fetched r) peer fs st =
       (Some res, upsert_peer (peer\<lparr>last_sync_at := Some now\<rparr>) fs, st') \<and>
     sr_errors res = [] \<and> sr_pulled res + sr_skipped res = length missing \<and>
     (\<forall>j. okw_get fm st j \<noteq> None \<longrightarrow> okw_get fm st' j \<noteq> None) \<and>
     (\<forall>h\<in>set missing. \<exists>r. get_signed_record ix h = Some r \<and> okw_get fm st' (cr_facility_id (catalog_record r)) \<noteq> None)"
  by (rule honest_sync [OF assms])

text \<open>A facility class of documents as they are, and a node with one public facility.\<close>

definition toy_facilities :: "doc facility_model" where
  "toy_facilities = \<lparr>fm_id = (\<lambda>d. case map_of d ''id'' of Some (JStr s) \<Rightarrow> s | _ \<Rightarrow> []), fm_name = (\<lambda>d. []),
     fm_from = Some, fm_to = (\<lambda>d. d), fm_fix = Some, fm_cooking = (\<lambda>d. False)\<rparr>"

definition toy_lab :: doc where "toy_lab = [(''id'', JStr ''f1''), (''name'', JStr ''Lab'')]"

definition toy_node :: okw_store where
  "toy_node = save_visibility ''f1'' PUBLIC (put_file (okw_key ''f1'') toy_lab 1 empty_okw)"

definition toy_key :: node_identity where "toy_key = generate_identity toy_ed (replicate 32 7) ''Lab''"

definition toy_peer :: peer_state where
  "toy_peer = \<lparr>ps_did = ni_did toy_key, ps_base_url = ''http://lab'', ps_display_name = None, ps_source = ''manual'',
     ps_followed = True, last_seen_at = None, last_sync_at = None, records_synced = 0\<rparr>"

lemma toy_node_facts:
  "fst (okw_list toy_facilities toy_node 1 10000) = [toy_lab]" "fm_id toy_facilities toy_lab = ''f1''"
  "get_visibility toy_node ''f1'' = PUBLIC" "project_for_visibility toy_facilities toy_node toy_lab = toy_lab"
  "facility_reads_back toy_facilities ''f1'' toy_lab" "map_option (map fst) (okw_get toy_facilities toy_node ''f1'') = Some [''id'', ''name'']"
  by code_simp+

lemma toy_key_wf: "wf_identity toy_ed toy_key"
  by (simp add: wf_identity_def toy_key_def generate_identity_def)

abbreviation toy_index :: "datetime \<Rightarrow> okw_catalog_index" where
  "toy_index t \<equiv> build_okw_catalog_index (\<lambda>s. s) toy_ed toy_key t toy_facilities toy_node"

theorem sync_takes_over_catalog_witness:
  "\<forall>t. \<exists>res st'. sync_okw_with_peer (\<lambda>s. s) toy_ed toy_key t toy_facilities 1 True
       (\<lambda>d. Some (respond_to_sync_digest d (ix_root (toy_index t)) (map cr_content_hash (ix_records (toy_index t)))))
       (\<lambda>h. case get_signed_record (toy_index t) h of None \<Rightarrow> FetchFailed | Some r \<Rightarrow> Fetched r)
       toy_peer (save_follows [ni_did toy_key] empty_federation_store) empty_okw =
         (Some res, upsert_peer (toy_peer\<lparr>last_sync_at := Some t\<rparr>) (save_follows [ni_did toy_key] empty_federation_store), st') \<and>
     sr_errors res = [] \<and> sr_pulled res + sr_skipped res = 1"
proof
  fix t
  let ?fs = "save_follows [ni_did toy_key] empty_federation_store"
  let ?answer = "\<lambda>d. respond_to_sync_digest d (ix_root (toy_index t)) (map cr_content_hash (ix_records (toy_index t)))"
  let ?mine = "build_okw_catalog_index (\<lambda>s. s) toy_ed toy_key t toy_facilities empty_okw"
  have reads: "facility_reads_back toy_facilities (cr_facility_id (catalog_record r)) (signed_facility r)"
    if hr: "(h, r) \<in> set (ix_signed (toy_index t))" for h r
  proof -
    from index_entries(1) [OF hr] toy_node_facts(1) have "catalog_entry (\<lambda>s. s) toy_ed toy_key t toy_facilities toy_node toy_lab = Some r" by simp
    from catalog_entry_facts(1,5) [OF this] show ?thesis using toy_node_facts by simp
  qed
  have "is_followed ?fs (ni_did toy_key)" by (simp add: is_followed_def save_follows_def)
  then have s: "\<exists>res st'. sync_okw_with_peer (\<lambda>s. s) toy_ed toy_key t toy_facilities 1 True (\<lambda>d. Some (?answer d))
       (\<lambda>h. case get_signed_record (toy_index t) h of None \<Rightarrow> FetchFailed | Some r \<Rightarrow> Fetched r) toy_peer ?fs empty_okw =
       (Some res, upsert_peer (toy_peer\<lparr>last_sync_at := Some t\<rparr>) ?fs, st') \<and>
     sr_errors res = [] \<and> sr_pulled res + sr_skipped res = length (?answer (build_sync_digest ?mine (ni_did toy_key))) \<and>
     (\<forall>j. okw_get toy_facilities empty_okw j \<noteq> None \<longrightarrow> okw_get toy_facilities st' j \<noteq> None) \<and>
     (\<forall>h\<in>set (?answer (build_sync_digest ?mine (ni_did toy_key))). \<exists>r. get_signed_record (toy_index t) h = Some r \<and>
        okw_get toy_facilities st' (cr_facility_id (catalog_record r)) \<noteq> None)"
    using reads
    by (intro sync_takes_over_catalog [where you = toy_key and theirs = toy_node and published = t, OF toy_ed_sound toy_key_wf])
      (auto simp: toy_peer_def list_all_iff files_named_def empty_okw_def)
  have "length (?answer (build_sync_digest ?mine (ni_did toy_key))) = 1"
  proof -
    have "\<exists>c. ix_records (toy_index t) = [c]"
      using toy_node_facts(1-4) by (simp add: build_okw_catalog_index_def Let_def List.map_filter_def catalog_entry_def is_shareable_def toy_lab_def)
    then obtain c where c: "ix_records (toy_index t) = [c]" by blast
    have "ix_records ?mine = []" "ix_count ?mine = 0"
      by (simp_all add: build_okw_catalog_index_def Let_def okw_list_def okw_list_all_def empty_okw_def List.map_filter_def)
    then show ?thesis by (simp add: c respond_to_sync_digest_def compute_missing_hashes_def build_sync_digest_def)
  qed
  with s show "\<exists>res st'. sync_okw_with_peer (\<lambda>s. s) toy_ed toy_key t toy_facilities 1 True (\<lambda>d. Some (?answer d))
       (\<lambda>h. case get_signed_record (toy_index t) h of None \<Rightarrow> FetchFailed | Some r \<Rightarrow> Fetched r) toy_peer ?fs empty_okw =
         (Some res, upsert_peer (toy_peer\<lparr>last_sync_at := Some t\<rparr>) ?fs, st') \<and>
     sr_errors res = [] \<and> sr_pulled res + sr_skipped res = 1" by auto
qed

section \<open>What an ingest can overwrite\<close>

text \<open>
  The check for a facility of the same id looks at the id of the catalog record, but the facility
  is stored under the id in its own document, which nobody compares with it. So a followed publisher
  whose record names an unknown id writes the file of whatever facility its document names, one of this
  node's own included, and resets its visibility and provenance. The witness has a node lose its
  public facility to the document of a peer.
\<close>

theorem ingest_writes_any_id:
  assumes "is_followed fs (cr_publisher (catalog_record r))" and "verify_signed_okw_record sha ed r = None"
    and "cr_content_hash (catalog_record r) \<notin> set local_hashes"
    and "okw_get fm st (cr_facility_id (catalog_record r)) = None" and "fm_from fm (signed_facility r) = Some f"
  shows "\<exists>st'. verify_and_store_okw sha ed fm now fs local_hashes r st = (Inr (Stored (cr_content_hash (catalog_record r))), st') \<and>
     map_of (okw_files st') (okw_key (fm_id fm f)) =
       Some (Some (apply_ohm_metadata (fm_to fm f) (Some (signed_facility r)) None), now) \<and>
     get_visibility st' (fm_id fm f) = PRIVATE \<and>
     get_provenance st' (fm_id fm f) = Some (synced_provenance (cr_publisher (catalog_record r)))"
  using assms
  by (simp add: verify_and_store_okw_def Let_def okw_create_def put_file_def save_visibility_def save_provenance_def
      get_visibility_def get_provenance_def default_visibility_def update_conv')

definition toy_intruder :: signed_okw_record where
  "toy_intruder =
     (let d = [(''id'', JStr ''f1''), (''name'', JStr ''Theirs'')]
      in \<lparr>catalog_record = \<lparr>cr_facility_id = ''f2'', cr_content_hash = manifest_content_hash (\<lambda>s. s) d, cr_name = ''Theirs'',
             cr_updated_at = \<lparr>dt_year = 2026, dt_month = 1, dt_day = 1, dt_hour = 0, dt_minute = 0, dt_second = 0, dt_micro = 0, dt_offset = Some 0\<rparr>,
             cr_publisher = ni_did toy_key, cr_visibility = ''public'', cr_signature = ''00''\<rparr>,
          signed_facility = d, facility_signature = ''00''\<rparr>)"

theorem ingest_writes_any_id_witness:
  "\<exists>st'. verify_and_store_okw (\<lambda>s. s) toy_ed toy_facilities 2 (save_follows [ni_did toy_key] empty_federation_store) []
       toy_intruder toy_node = (Inr (Stored (cr_content_hash (catalog_record toy_intruder))), st') \<and>
     map_of (okw_files toy_node) (okw_key ''f1'') = Some (Some toy_lab, 1) \<and> get_visibility toy_node ''f1'' = PUBLIC \<and>
     map_of (okw_files st') (okw_key ''f1'') = Some (Some [(''id'', JStr ''f1''), (''name'', JStr ''Theirs'')], 2) \<and>
     get_visibility st' ''f1'' = PRIVATE"
proof -
  let ?fs = "save_follows [ni_did toy_key] empty_federation_store" and ?d = "[(''id'', JStr ''f1''), (''name'', JStr ''Theirs'')]"
  have i: "signed_facility toy_intruder = ?d" "cr_facility_id (catalog_record toy_intruder) = ''f2''"
    "cr_publisher (catalog_record toy_intruder) = ni_did toy_key" "cr_signature (catalog_record toy_intruder) = ''00''"
    "facility_signature toy_intruder = ''00''"
    "cr_content_hash (catalog_record toy_intruder) = manifest_content_hash (\<lambda>s. s) (signed_facility toy_intruder)"
    by (simp_all add: toy_intruder_def Let_def)
  have followed: "is_followed ?fs (cr_publisher (catalog_record toy_intruder))"
    by (simp add: i is_followed_def save_follows_def)
  have zero: "fromhex ''00'' = Some [0]" by code_simp
  have "did_to_public_key (ni_did toy_key) = Inr (ed_pub toy_ed (private_key toy_key))"
    using toy_ed_sound by (simp add: toy_key_def generate_identity_def key_did_def did_to_public_key_did ed_sound_def)
  then have verified: "verify_signed_okw_record (\<lambda>s. s) toy_ed toy_intruder = None"
    unfolding verify_signed_okw_record_def check_signature_def i(3-6) zero by (simp add: toy_ed_def)
  have fresh: "okw_get toy_facilities toy_node (cr_facility_id (catalog_record toy_intruder)) = None"
    unfolding i by code_simp
  have f: "fm_from toy_facilities (signed_facility toy_intruder) = Some ?d" by (simp add: i toy_facilities_def)
  have "cr_content_hash (catalog_record toy_intruder) \<notin> set []" by simp
  from ingest_writes_any_id [OF followed verified this fresh f, of 2]
  obtain st' where st': "verify_and_store_okw (\<lambda>s. s) toy_ed toy_facilities 2 ?fs [] toy_intruder toy_node =
       (Inr (Stored (cr_content_hash (catalog_record toy_intruder))), st')"
    "map_of (okw_files st') (okw_key (fm_id toy_facilities ?d)) = Some (Some (apply_ohm_metadata (fm_to toy_facilities ?d) (Some ?d) None), 2)"
    "get_visibility st' (fm_id toy_facilities ?d) = PRIVATE"
    by (auto simp: i(1))
  have d: "fm_id toy_facilities ?d = ''f1''" "apply_ohm_metadata (fm_to toy_facilities ?d) (Some ?d) None = ?d"
    "map_of (okw_files toy_node) (okw_key ''f1'') = Some (Some toy_lab, 1)" by code_simp+
  show ?thesis using st' d toy_node_facts(3) by auto
qed

end
