(* ===== verification/Bill_Of_Materials.thy ===== *)
theory Bill_Of_Materials imports Supply_Tree "HOL-Library.Monad_Syntax" begin

text \<open>
  Bills of materials (\<open>models/bom.py\<close>) and their resolution from a manifest
  (\<open>services/bom_resolution_service.py\<close>): embedded parts, an external file, references to other
  manifests, and the explosion of the component tree. Quantities are exact rationals; float texts
  with infinities, NaN or underscores are not read. Fields declared as text are text: another value
  there is an error in the model. \<open>None\<close> is a raised error.
\<close>

section \<open>Numbers\<close>

definition digits_value :: "string \<Rightarrow> rat option" where
  "digits_value s = (if is_digits s then Some (of_nat (int_of_digits s)) else None)"

definition signed :: "string \<Rightarrow> bool \<times> string" where
  "signed s = (case s of [] \<Rightarrow> (False, []) | c # r \<Rightarrow> if c = CHR ''-'' then (True, r) else if c = CHR ''+'' then (False, r) else (False, s))"

definition power10 :: "string \<Rightarrow> rat option" where
  "power10 s =
     (let (neg, ds) = signed s
      in if is_digits ds then Some (if neg then 1 / 10 ^ int_of_digits ds else 10 ^ int_of_digits ds) else None)"

text \<open>\<open>float(text)\<close>.\<close>

definition float_value :: "string \<Rightarrow> rat option" where
  "float_value text0 =
     (let (neg, body) = signed (lower (strip text0));
          (mant, ex) = (case split_once ''e'' body of None \<Rightarrow> (body, Some 1) | Some (m, e) \<Rightarrow> (m, power10 e));
          (ip, fp) = (case split_once ''.'' mant of None \<Rightarrow> (mant, []) | Some (a, b) \<Rightarrow> (a, b))
      in do { x \<leftarrow> digits_value (ip @ fp); k \<leftarrow> ex;
              Some ((if neg then -1 else 1) * x * k / 10 ^ length fp) })"

text \<open>A JSON number, as \<open><=\<close> compares it; and \<open>float()\<close> of a JSON value.\<close>

fun number_value :: "json \<Rightarrow> rat option" where
  "number_value (JInt i) = Some (of_int i)"
| "number_value (JFloat s) = float_value s"
| "number_value (JBool b) = Some (if b then 1 else 0)"
| "number_value _ = None"

fun to_float :: "json \<Rightarrow> rat option" where
  "to_float (JStr s) = float_value s"
| "to_float j = number_value j"

section \<open>Components\<close>

datatype component = Component (cp_id: string) (cp_name: string) (cp_quantity: rat) (cp_unit: string)
  (cp_subs: "component list") (cp_reference: json) (cp_requirements: json) (cp_metadata: json)

text \<open>\<open>Component(...)\<close> with its \<open>__post_init__\<close>; \<open>new\<close> is the id drawn for an empty one.\<close>

definition make_component ::
  "string \<Rightarrow> string \<Rightarrow> string \<Rightarrow> rat \<Rightarrow> string \<Rightarrow> component list \<Rightarrow> json \<Rightarrow> json \<Rightarrow> json \<Rightarrow> component option" where
  "make_component new i n q u subs r rq md =
     (if n = [] \<or> q \<le> 0 \<or> u = [] then None
      else Some (Component (if i = [] then new else i) n q u subs r rq md))"

fun text_of :: "json \<Rightarrow> string option" where
  "text_of (JStr s) = Some s"
| "text_of _ = None"

text \<open>\<open>d.get(k, default)\<close>.\<close>

definition get_or :: "(string \<times> json) list \<Rightarrow> string \<Rightarrow> json \<Rightarrow> json" where
  "get_or d k x = (case map_of d k of None \<Rightarrow> x | Some v \<Rightarrow> v)"

text \<open>An \<open>id\<close> may be absent or falsy: one is drawn.\<close>

definition id_text :: "(string \<times> json) list \<Rightarrow> string option" where
  "id_text d = (let j = jget d ''id'' in if truthy j then text_of j else Some [])"

text \<open>The elements a loop over the value visits; iterating a string or a dict fails in the body.\<close>

fun loop_items :: "json \<Rightarrow> json list option" where
  "loop_items (JList xs) = Some xs"
| "loop_items (JStr s) = (if s = [] then Some [] else None)"
| "loop_items (JObj d) = (if d = [] then Some [] else None)"
| "loop_items _ = None"

definition sub_components_of :: "(string \<times> json) list \<Rightarrow> json list option" where
  "sub_components_of d = (case map_of d ''sub_components'' of None \<Rightarrow> Some [] | Some j \<Rightarrow> loop_items j)"

definition sub_parts_of :: "(string \<times> json) list \<Rightarrow> json list option" where
  "sub_parts_of d = (let j = jget d ''sub_parts'' in if truthy j then loop_items j else Some [])"

lemma size_map_of: "map_of d k = Some v \<Longrightarrow> size v < size (JObj d)"
  by (induction d) (auto split: if_splits)

lemma size_loop_items: "loop_items j = Some xs \<Longrightarrow> size_list size xs \<le> size j"
  by (cases j) (auto split: if_splits)

lemma size_sub_components: "sub_components_of d = Some xs \<Longrightarrow> size_list size xs < Suc (size (JObj d))"
  using size_map_of size_loop_items by (fastforce simp: sub_components_of_def split: option.splits)

lemma size_sub_parts: "sub_parts_of d = Some xs \<Longrightarrow> size_list size xs < Suc (size (JObj d))"
  using size_map_of size_loop_items by (fastforce simp: sub_parts_of_def jget_def Let_def split: option.splits if_splits)

text \<open>
  \<open>Component.from_dict\<close>; \<open>fresh p\<close> is the \<open>uuid4()\<close> drawn for the component at the position \<open>p\<close> of
  the tree (its index at every level, innermost first).
\<close>

function component_from_dict :: "(nat list \<Rightarrow> string) \<Rightarrow> nat list \<Rightarrow> json \<Rightarrow> component option"
  and components_from_dicts :: "(nat list \<Rightarrow> string) \<Rightarrow> nat list \<Rightarrow> nat \<Rightarrow> json list \<Rightarrow> component list option" where
  "component_from_dict fresh p j =
     (case j of
        JObj d \<Rightarrow>
          (case sub_components_of d of
             None \<Rightarrow> None
           | Some xs \<Rightarrow>
               do { subs \<leftarrow> components_from_dicts fresh p 0 xs;
                    i \<leftarrow> id_text d; n \<leftarrow> text_of (jget d ''name''); q \<leftarrow> number_value (jget d ''quantity''); u \<leftarrow> text_of (jget d ''unit'');
                    make_component (fresh p) i n q u subs (jget d ''reference'')
                      (get_or d ''requirements'' (JObj [])) (get_or d ''metadata'' (JObj [])) })
      | _ \<Rightarrow> None)"
| "components_from_dicts fresh p k [] = Some []"
| "components_from_dicts fresh p k (x # xs) =
     do { c \<leftarrow> component_from_dict fresh (k # p) x; cs \<leftarrow> components_from_dicts fresh p (Suc k) xs; Some (c # cs) }"
  by pat_completeness auto
termination
  by (relation "measure (\<lambda>x. case x of Inl (_, _, j) \<Rightarrow> Suc (2 * size j) | Inr (_, _, _, xs) \<Rightarrow> 2 * size_list size xs)")
    (auto dest: size_sub_components)

text \<open>\<open>_sub_part_to_component\<close>: defaults for what is absent, the other keys become metadata.\<close>

definition own_keys :: "string list" where
  "own_keys = [''name'', ''quantity'', ''unit'', ''id'', ''sub_parts'', ''reference'', ''requirements'']"

function sub_part_to_component :: "(nat list \<Rightarrow> string) \<Rightarrow> nat list \<Rightarrow> json \<Rightarrow> component option"
  and sub_parts_to_components :: "(nat list \<Rightarrow> string) \<Rightarrow> nat list \<Rightarrow> nat \<Rightarrow> json list \<Rightarrow> component list option" where
  "sub_part_to_component fresh p j =
     (case j of
        JObj d \<Rightarrow>
          (case sub_parts_of d of
             None \<Rightarrow> None
           | Some xs \<Rightarrow>
               do { subs \<leftarrow> sub_parts_to_components fresh p 0 xs;
                    i \<leftarrow> id_text d; n \<leftarrow> text_of (get_or d ''name'' (JStr ''Unknown''));
                    q \<leftarrow> number_value (get_or d ''quantity'' (JInt 1)); u \<leftarrow> text_of (get_or d ''unit'' (JStr ''pieces''));
                    make_component (fresh p) i n q u subs (jget d ''reference'')
                      (get_or d ''requirements'' (JObj [])) (JObj (filter (\<lambda>(k, v). k \<notin> set own_keys) d)) })
      | _ \<Rightarrow> None)"
| "sub_parts_to_components fresh p k [] = Some []"
| "sub_parts_to_components fresh p k (x # xs) =
     do { c \<leftarrow> sub_part_to_component fresh (k # p) x; cs \<leftarrow> sub_parts_to_components fresh p (Suc k) xs; Some (c # cs) }"
  by pat_completeness auto
termination
  by (relation "measure (\<lambda>x. case x of Inl (_, _, j) \<Rightarrow> Suc (2 * size j) | Inr (_, _, _, xs) \<Rightarrow> 2 * size_list size xs)")
    (auto dest: size_sub_parts)

end
