(* ===== verification/Bom_Resolution.thy ===== *)
theory Bom_Resolution imports Bill_Of_Materials Doc_Fields begin

text \<open>
  Finding the bill of materials of a manifest and exploding it into a list of components
  (\<open>services/bom_resolution_service.py\<close>, \<open>models/component_match.py\<close>). What lies outside is the
  record \<open>bom_world\<close>: the parsed content of a file, a manifest loaded from a file, the lookup of a
  manifest by id, and the resolution of a relative path. The OKH service has no \<open>load_file\<close> and no
  \<open>get_manifest_path\<close>, so the branches that ask for them are not there. The id of a bill is left out.
\<close>

section \<open>Manifests\<close>

text \<open>\<open>part_export\<close> and \<open>part_source\<close> are lists: a single text is a list of one.\<close>

record part_spec =
  part_id :: string
  part_name :: string
  part_source :: "string list"
  part_export :: "string list"
  part_tsdc :: "string list"
  part_material :: "string option"
  outer_dimensions :: json
  part_mass :: json
  manufacturing_params :: "(string \<times> json) list"

record bom_manifest =
  mf_id :: string
  mf_title :: string
  mf_bom :: json
  mf_parts :: "part_spec list"
  mf_sub_parts :: "json list"
  mf_processes :: "string list"
  mf_materials :: "string list"

record bill =
  bill_name :: string
  bill_components :: "component list"
  bill_metadata :: "(string \<times> json) list"

text \<open>
  \<open>parsed_file path\<close>: the parsed content of a file, \<open>None\<close> if it is not there or does not parse.
  \<open>okh_lookup\<close>: the outer \<open>None\<close> is an error of the service other than a malformed id, which reads as
  an unknown one.
\<close>

record bom_world =
  parsed_file :: "string \<Rightarrow> json option"
  manifest_file :: "json \<Rightarrow> bom_manifest option"
  okh_lookup :: "json \<Rightarrow> bom_manifest option option"
  relative_to :: "string \<Rightarrow> string \<Rightarrow> string"

section \<open>The kind of bill\<close>

datatype bom_kind = EmbeddedBom | ExternalBom | NoBom

definition bom_file_name :: "json \<Rightarrow> string option" where
  "bom_file_name bom =
     (case bom of
        JStr s \<Rightarrow> Some s
      | JObj d \<Rightarrow> (case jget d ''external_file'' of JStr s \<Rightarrow> Some s | _ \<Rightarrow> None)
      | _ \<Rightarrow> None)"

definition has_parts :: "bom_manifest \<Rightarrow> bool" where
  "has_parts m \<longleftrightarrow> mf_parts m \<noteq> [] \<or> mf_sub_parts m \<noteq> []"

definition detect_bom_type :: "bom_manifest \<Rightarrow> bom_kind" where
  "detect_bom_type m =
     (case bom_file_name (mf_bom m) of
        Some s \<Rightarrow> if strip s \<noteq> [] then ExternalBom else if has_parts m then EmbeddedBom else NoBom
      | None \<Rightarrow> if has_parts m then EmbeddedBom else NoBom)"

definition get_external_bom_path :: "bom_manifest \<Rightarrow> string option" where
  "get_external_bom_path m =
     (case bom_file_name (mf_bom m) of None \<Rightarrow> None | Some s \<Rightarrow> if s = [] then None else Some (strip s))"

definition resolve_bom_path :: "bom_world \<Rightarrow> string \<Rightarrow> string option \<Rightarrow> string" where
  "resolve_bom_path w bom_path manifest_path =
     (if starts_with ''/'' bom_path then bom_path
      else case manifest_path of None \<Rightarrow> bom_path | Some mp \<Rightarrow> if mp = [] then bom_path else relative_to w mp bom_path)"

text \<open>\<open>Path(p).suffix.lower()\<close>.\<close>

definition path_suffix :: "string \<Rightarrow> string" where
  "path_suffix p =
     (let parts = filter (\<lambda>s. s \<noteq> [] \<and> s \<noteq> ''.'') (split_char (CHR ''/'') p);
          nm = (if parts = [] then [] else last parts);
          ext = rev (takeWhile (\<lambda>c. c \<noteq> CHR ''.'') (rev nm))
      in if CHR ''.'' \<in> set nm \<and> ext \<noteq> [] \<and> length ext + 1 < length nm then lower (CHR ''.'' # ext) else [])"

section \<open>Loading a bill\<close>

text \<open>\<open>BillOfMaterials.from_dict\<close>.\<close>

definition bill_from_dict :: "(nat list \<Rightarrow> string) \<Rightarrow> (string \<times> json) list \<Rightarrow> bill option" where
  "bill_from_dict fresh d =
     do { xs \<leftarrow> (case map_of d ''components'' of None \<Rightarrow> Some [] | Some j \<Rightarrow> loop_items j);
          cs \<leftarrow> components_from_dicts fresh [] 0 xs;
          n \<leftarrow> text_of (jget d ''name'');
          md \<leftarrow> (case get_or d ''metadata'' (JObj []) of JObj m \<Rightarrow> Some m | _ \<Rightarrow> None);
          Some \<lparr>bill_name = n, bill_components = cs, bill_metadata = md\<rparr> }"

definition load_external_bom :: "bom_world \<Rightarrow> (nat list \<Rightarrow> string) \<Rightarrow> bom_manifest \<Rightarrow> string option \<Rightarrow> bill option" where
  "load_external_bom w fresh m manifest_path =
     (case get_external_bom_path m of
        None \<Rightarrow> None
      | Some bp \<Rightarrow>
          if bp = [] then None
          else (let rp = resolve_bom_path w bp manifest_path
                in if path_suffix rp \<notin> {''.json'', ''.yaml'', ''.yml''} then None
                   else case parsed_file w rp of
                     Some (JObj d) \<Rightarrow> if ''components'' \<in> set (keys d) \<or> ''name'' \<in> set (keys d) then bill_from_dict fresh d else None
                   | _ \<Rightarrow> None))"

definition optional_entry :: "bool \<Rightarrow> string \<Rightarrow> json \<Rightarrow> (string \<times> json) list" where
  "optional_entry present k v = (if present then [(k, v)] else [])"

definition part_to_component :: "string \<Rightarrow> part_spec \<Rightarrow> component option" where
  "part_to_component new p =
     do { q \<leftarrow> (case map_of (manufacturing_params p) ''quantity'' of None \<Rightarrow> Some 1 | Some j \<Rightarrow> to_float j);
          u \<leftarrow> (case map_of (manufacturing_params p) ''unit'' of None \<Rightarrow> Some ''pieces'' | Some j \<Rightarrow> py_str j);
          make_component new (part_id p) (part_name p) q u [] JNull
            (JObj (optional_entry (part_material p \<noteq> None \<and> part_material p \<noteq> Some []) ''material'' (opt_json JStr (part_material p)) @
                   optional_entry (truthy (outer_dimensions p)) ''dimensions'' (outer_dimensions p) @
                   optional_entry (truthy (part_mass p)) ''mass'' (part_mass p)))
            (JObj (optional_entry (part_tsdc p \<noteq> []) ''tsdc'' (JList (map JStr (part_tsdc p))) @
                   optional_entry (part_source p \<noteq> []) ''source'' (JList (map JStr (part_source p))) @
                   optional_entry (part_export p \<noteq> []) ''export'' (JList (map JStr (part_export p))))) }"

fun parts_to_components :: "(nat list \<Rightarrow> string) \<Rightarrow> nat \<Rightarrow> part_spec list \<Rightarrow> component list option" where
  "parts_to_components fresh k [] = Some []"
| "parts_to_components fresh k (p # ps) =
     do { c \<leftarrow> part_to_component (fresh [k, 0]) p; cs \<leftarrow> parts_to_components fresh (Suc k) ps; Some (c # cs) }"

definition bill_title :: "bom_manifest \<Rightarrow> string" where
  "bill_title m = (if mf_title m = [] then ''Unknown'' else mf_title m)"

definition load_embedded_bom :: "(nat list \<Rightarrow> string) \<Rightarrow> bom_manifest \<Rightarrow> bill option" where
  "load_embedded_bom fresh m =
     do { ps \<leftarrow> parts_to_components fresh 0 (mf_parts m);
          ss \<leftarrow> sub_parts_to_components fresh [1] 0 (mf_sub_parts m);
          Some \<lparr>bill_name = bill_title m, bill_components = ps @ ss, bill_metadata = []\<rparr> }"

text \<open>The merge of two component lists: the first component of every id stays.\<close>

fun first_by_id :: "string list \<Rightarrow> component list \<Rightarrow> component list" where
  "first_by_id seen [] = []"
| "first_by_id seen (c # cs) = (if cp_id c \<in> set seen then first_by_id seen cs else c # first_by_id (cp_id c # seen) cs)"

definition merge_bills :: "bill \<Rightarrow> bill \<Rightarrow> bill" where
  "merge_bills emb ext =
     \<lparr>bill_name = bill_name ext, bill_components = first_by_id [] (bill_components emb @ bill_components ext),
      bill_metadata =
        AList.update ''embedded_component_count'' (JInt (int (length (bill_components emb))))
          (AList.update ''external_component_count'' (JInt (int (length (bill_components ext))))
            (AList.update ''source'' (JStr ''external_and_embedded'') (bill_metadata ext)))\<rparr>"

text \<open>
  \<open>resolve_bom\<close>. An error while merging is caught like one while loading, and leads to the embedded
  parts again; an error in those is raised.
\<close>

definition fall_back_bom :: "(nat list \<Rightarrow> string) \<Rightarrow> bom_manifest \<Rightarrow> bill option" where
  "fall_back_bom fresh m =
     (if has_parts m then load_embedded_bom fresh m
      else Some \<lparr>bill_name = bill_title m, bill_components = [], bill_metadata = []\<rparr>)"

definition resolve_bom :: "bom_world \<Rightarrow> (nat list \<Rightarrow> string) \<Rightarrow> bom_manifest \<Rightarrow> string option \<Rightarrow> bill option" where
  "resolve_bom w fresh m manifest_path =
     (case detect_bom_type m of
        EmbeddedBom \<Rightarrow> load_embedded_bom (\<lambda>p. fresh (p @ [0])) m
      | ExternalBom \<Rightarrow>
          (case load_external_bom w (\<lambda>p. fresh (p @ [1])) m manifest_path of
             None \<Rightarrow> fall_back_bom (\<lambda>p. fresh (p @ [0])) m
           | Some ext \<Rightarrow>
               if bill_components ext = [] then fall_back_bom (\<lambda>p. fresh (p @ [0])) m
               else if \<not> has_parts m then Some ext
               else case load_embedded_bom (\<lambda>p. fresh (p @ [0])) m of
                 None \<Rightarrow> fall_back_bom (\<lambda>p. fresh (p @ [0])) m
               | Some emb \<Rightarrow> Some (merge_bills emb ext))
      | NoBom \<Rightarrow> Some \<lparr>bill_name = bill_title m, bill_components = [], bill_metadata = []\<rparr>)"

section \<open>References\<close>

definition load_referenced_file :: "bom_world \<Rightarrow> (string \<times> json) list \<Rightarrow> bom_manifest option" where
  "load_referenced_file w d =
     (case map_of d ''path'' of None \<Rightarrow> None | Some p \<Rightarrow> manifest_file w p)"

text \<open>\<open>resolve_component_reference\<close> with a service at hand and no base path; the outer \<open>None\<close> is an error.\<close>

definition resolve_component_reference :: "bom_world \<Rightarrow> json \<Rightarrow> bom_manifest option option" where
  "resolve_component_reference w reference =
     (case reference of
        JObj d \<Rightarrow>
          if d = [] then Some None
          else (case map_of d ''okh_id'' of
                  None \<Rightarrow> Some (load_referenced_file w d)
                | Some i \<Rightarrow>
                    (case okh_lookup w i of
                       None \<Rightarrow> None
                     | Some (Some m) \<Rightarrow> Some (Some m)
                     | Some None \<Rightarrow> Some (load_referenced_file w d)))
      | _ \<Rightarrow> Some None)"

section \<open>The explosion\<close>

record component_match =
  cm_component :: component
  cm_depth :: nat
  cm_parent :: "string option"
  cm_manifest :: "bom_manifest option"
  cm_path :: "string list"
  cm_unresolved :: bool

definition reference_result :: "bom_world \<Rightarrow> bool \<Rightarrow> component \<Rightarrow> bom_manifest option option option" where
  "reference_result w has_service c =
     (if truthy (cp_reference c) \<and> has_service then Some (resolve_component_reference w (cp_reference c)) else None)"

definition referenced_manifest :: "bom_world \<Rightarrow> bool \<Rightarrow> component \<Rightarrow> bom_manifest option" where
  "referenced_manifest w has_service c = (case reference_result w has_service c of Some (Some m) \<Rightarrow> m | _ \<Rightarrow> None)"

text \<open>The components of the bill of the referenced manifest; an error there is caught.\<close>

definition referenced_components :: "bom_world \<Rightarrow> (nat list \<Rightarrow> string) \<Rightarrow> bool \<Rightarrow> component \<Rightarrow> component list" where
  "referenced_components w fresh has_service c =
     (case referenced_manifest w has_service c of
        None \<Rightarrow> []
      | Some m \<Rightarrow> (case resolve_bom w fresh m None of None \<Rightarrow> [] | Some b \<Rightarrow> bill_components b))"

definition match_of :: "bom_world \<Rightarrow> bool \<Rightarrow> nat \<Rightarrow> string option \<Rightarrow> string list \<Rightarrow> component \<Rightarrow> component_match" where
  "match_of w has_service level parent path c =
     \<lparr>cm_component = c, cm_depth = level, cm_parent = parent, cm_manifest = referenced_manifest w has_service c,
      cm_path = path @ [cp_name c], cm_unresolved = (reference_result w has_service c = Some (Some None))\<rparr>"

text \<open>
  \<open>explode\<close> is the loop of \<open>explode_bom\<close> at the depth \<open>level\<close>, where \<open>left\<close> more levels may follow
  (\<open>max_depth - current_depth - 1\<close>); the recursive calls are made only while a level is left, so only the
  outermost call can exceed the depth. \<open>has_service\<close> is whether there is a service for references, and
  \<open>fresh pos\<close> gives the ids drawn while the bill of the component at \<open>pos\<close> is resolved. Every
  sub-component is exploded as a bill of its own.
\<close>

function explode ::
  "bom_world \<Rightarrow> (nat list \<Rightarrow> nat list \<Rightarrow> string) \<Rightarrow> bool \<Rightarrow> nat \<Rightarrow> nat \<Rightarrow> string option \<Rightarrow> string list \<Rightarrow> nat list \<Rightarrow>
   component list \<Rightarrow> component_match list"
  and explode_subs ::
  "bom_world \<Rightarrow> (nat list \<Rightarrow> nat list \<Rightarrow> string) \<Rightarrow> bool \<Rightarrow> nat \<Rightarrow> nat \<Rightarrow> string option \<Rightarrow> string list \<Rightarrow> nat list \<Rightarrow>
   component list \<Rightarrow> component_match list" where
  "explode w fresh has_service left level parent path pos [] = []"
| "explode w fresh has_service 0 level parent path pos (c # cs) =
     match_of w has_service level parent path c # explode w fresh has_service 0 level parent path pos cs"
| "explode w fresh has_service (Suc left) level parent path pos (c # cs) =
     (let path' = path @ [cp_name c]; here = length cs # pos
      in explode w fresh has_service left (Suc level) (Some (cp_id c)) path' (0 # here)
           (referenced_components w (fresh here) has_service c) @
         explode_subs w fresh has_service left (Suc level) (Some (cp_id c)) path' (1 # here) (cp_subs c) @
         match_of w has_service level parent path c # explode w fresh has_service (Suc left) level parent path pos cs)"
| "explode_subs w fresh has_service left level parent path pos [] = []"
| "explode_subs w fresh has_service left level parent path pos (s # ss) =
     explode w fresh has_service left level parent path (length ss # pos) [s] @
     explode_subs w fresh has_service left level parent path pos ss"
  by pat_completeness auto
termination
  by (relation "measures [\<lambda>x. case x of Inl (w, fresh, hs, left, d, p, pa, pos, cs) \<Rightarrow> 2 * left | Inr (w, fresh, hs, left, d, p, pa, pos, cs) \<Rightarrow> Suc (2 * left),
       \<lambda>x. case x of Inl (w, fresh, hs, left, d, p, pa, pos, cs) \<Rightarrow> length cs | Inr (w, fresh, hs, left, d, p, pa, pos, cs) \<Rightarrow> length cs]") auto

text \<open>\<open>explode_bom\<close> from the root; \<open>None\<close> is the error of a depth below one.\<close>

definition explode_bom ::
  "bom_world \<Rightarrow> (nat list \<Rightarrow> nat list \<Rightarrow> string) \<Rightarrow> bool \<Rightarrow> nat \<Rightarrow> component list \<Rightarrow> component_match list option" where
  "explode_bom w fresh has_service max_depth cs =
     (case max_depth of 0 \<Rightarrow> None | Suc left \<Rightarrow> Some (explode w fresh has_service left 0 None [] [] cs))"

end
