(* ===== verification/Bom_Facts.thy ===== *)
theory Bom_Facts imports Bom_Resolution begin

text \<open>What the explosion of a bill of materials returns.\<close>

section \<open>The shape of the list\<close>

text \<open>\<open>m\<close> hangs below \<open>m'\<close>.\<close>

definition below :: "component_match \<Rightarrow> component_match \<Rightarrow> bool" where
  "below m m' \<longleftrightarrow> cm_parent m = Some (cp_id (cm_component m')) \<and> cm_path m' = butlast (cm_path m) \<and> cm_depth m = Suc (cm_depth m')"

definition placed :: "nat \<Rightarrow> nat \<Rightarrow> string option \<Rightarrow> string list \<Rightarrow> component_match list \<Rightarrow> component_match \<Rightarrow> bool" where
  "placed left level parent path ms m \<longleftrightarrow>
     cm_depth m \<le> level + left \<and> cm_path m \<noteq> [] \<and> last (cm_path m) = cp_name (cm_component m) \<and>
     length (cm_path m) + level = Suc (length path + cm_depth m) \<and>
     (if cm_depth m = level then cm_parent m = parent \<and> butlast (cm_path m) = path else level < cm_depth m \<and> (\<exists>m'\<in>set ms. below m m'))"

lemma placed_mono: "placed left level parent path ms m \<Longrightarrow> set ms \<subseteq> set ms' \<Longrightarrow> placed left level parent path ms' m"
  by (auto simp: placed_def split: if_splits)

text \<open>What is placed one level down, below \<open>m'\<close>, is placed.\<close>

lemma placed_down:
  assumes "placed left (Suc level) (Some (cp_id (cm_component m'))) (cm_path m') ms m"
    and "cm_depth m' = level" "length (cm_path m') = Suc (length path)" "set ms \<subseteq> set ms'" "m' \<in> set ms'"
  shows "placed (Suc left) level parent path ms' m"
proof (cases "cm_depth m = Suc level")
  case True
  then have "below m m'" using assms(1,2) by (simp add: placed_def below_def)
  then show ?thesis using True assms by (auto simp: placed_def)
next
  case False
  then show ?thesis using assms by (auto simp: placed_def)
qed

lemma explode_placed:
  "m \<in> set (explode w fresh hs left level parent path pos cs) \<Longrightarrow>
   placed left level parent path (explode w fresh hs left level parent path pos cs) m"
  "m \<in> set (explode_subs w fresh hs left level parent path pos cs) \<Longrightarrow>
   placed left level parent path (explode_subs w fresh hs left level parent path pos cs) m"
proof (induction w fresh hs left level parent path pos cs and w fresh hs left level parent path pos cs
    arbitrary: m and m rule: explode_explode_subs.induct)
  case (2 w fresh hs level parent path pos c cs)
  let ?m = "match_of w hs level parent path c" and ?rest = "explode w fresh hs 0 level parent path pos cs"
  have "placed 0 level parent path (?m # ?rest) ?m" by (simp add: placed_def match_of_def)
  moreover have "placed 0 level parent path (?m # ?rest) x" if "x \<in> set ?rest" for x
    by (rule placed_mono [OF "2.IH" [OF that]]) auto
  ultimately show ?case using "2.prems" by auto
next
  case (3 w fresh hs left level parent path pos c cs)
  let ?here = "length cs # pos" and ?path = "path @ [cp_name c]"
  let ?nested = "explode w fresh hs left (Suc level) (Some (cp_id c)) ?path (0 # ?here) (referenced_components w (fresh ?here) hs c)"
  let ?subs = "explode_subs w fresh hs left (Suc level) (Some (cp_id c)) ?path (1 # ?here) (cp_subs c)"
  let ?m = "match_of w hs level parent path c" and ?rest = "explode w fresh hs (Suc left) level parent path pos cs"
  let ?all = "?nested @ ?subs @ ?m # ?rest"
  have m: "cp_id (cm_component ?m) = cp_id c" "cm_path ?m = ?path" "cm_depth ?m = level" by (simp_all add: match_of_def)
  have own: "placed (Suc left) level parent path ?all ?m" by (simp add: placed_def match_of_def)
  have down: "placed (Suc left) level parent path ?all x"
    if "placed left (Suc level) (Some (cp_id c)) ?path xs x" "set xs \<subseteq> set ?all" for x xs
    by (rule placed_down [where m' = ?m and ms = xs]) (use that m in auto)
  have rest: "placed (Suc left) level parent path ?all x" if "x \<in> set ?rest" for x
    by (rule placed_mono [OF "3.IH"(3) [OF refl refl that]]) auto
  have nested: "placed (Suc left) level parent path ?all x" if "x \<in> set ?nested" for x
    using "3.IH"(1) [OF refl refl that] by (rule down) auto
  have subs: "placed (Suc left) level parent path ?all x" if "x \<in> set ?subs" for x
    using "3.IH"(2) [OF refl refl that] by (rule down) auto
  show ?case using "3.prems" own rest nested subs by (auto simp: Let_def)
next
  case (5 w fresh hs left level parent path pos s ss)
  then show ?case by (auto intro: placed_mono [OF "5.IH"(1)] placed_mono [OF "5.IH"(2)] simp del: explode.simps)
qed auto

section \<open>Nothing is lost\<close>

text \<open>The components of the trees that lie above the depth \<open>n\<close>.\<close>

fun components_within :: "nat \<Rightarrow> component list \<Rightarrow> component list" where
  "components_within 0 cs = []"
| "components_within (Suc n) cs = cs @ components_within n (concat (map cp_subs cs))"

lemma components_within_append: "mset (components_within n (xs @ ys)) = mset (components_within n xs) + mset (components_within n ys)"
  by (induction n arbitrary: xs ys) auto

lemma components_within_Nil [simp]: "components_within n [] = []"
  by (induction n) auto

lemma explode_complete:
  "mset (components_within (Suc left) cs) \<subseteq># mset (map cm_component (explode w fresh hs left level parent path pos cs)) \<and>
   (\<not> hs \<longrightarrow> mset (components_within (Suc left) cs) = mset (map cm_component (explode w fresh hs left level parent path pos cs)))"
  "mset (components_within (Suc left) cs) \<subseteq># mset (map cm_component (explode_subs w fresh hs left level parent path pos cs)) \<and>
   (\<not> hs \<longrightarrow> mset (components_within (Suc left) cs) = mset (map cm_component (explode_subs w fresh hs left level parent path pos cs)))"
proof (induction w fresh hs left level parent path pos cs and w fresh hs left level parent path pos cs rule: explode_explode_subs.induct)
  case (3 w fresh hs left level parent path pos c cs)
  let ?here = "length cs # pos" and ?path = "path @ [cp_name c]"
  define N where "N = explode w fresh hs left (Suc level) (Some (cp_id c)) ?path (0 # ?here) (referenced_components w (fresh ?here) hs c)"
  define S where "S = explode_subs w fresh hs left (Suc level) (Some (cp_id c)) ?path (1 # ?here) (cp_subs c)"
  define R where "R = explode w fresh hs (Suc left) level parent path pos cs"
  have all: "mset (map cm_component (explode w fresh hs (Suc left) level parent path pos (c # cs))) =
      mset (map cm_component N) + (mset (map cm_component S) + (mset (map cm_component R) + {#c#}))"
    by (simp add: Let_def N_def S_def R_def match_of_def)
  have within: "mset (components_within (Suc (Suc left)) (c # cs)) =
      mset (components_within (Suc left) (cp_subs c)) + (mset (components_within (Suc (Suc left)) cs) + {#c#})"
    using components_within_append [of "Suc left" "cp_subs c" "concat (map cp_subs cs)"]
    by (simp only: components_within.simps list.map concat.simps) (simp add: ac_simps)
  have none: "\<not> hs \<Longrightarrow> N = []" by (simp add: N_def referenced_components_def referenced_manifest_def reference_result_def)
  have IH: "mset (components_within (Suc left) (cp_subs c)) \<subseteq># mset (map cm_component S)"
    "\<not> hs \<Longrightarrow> mset (components_within (Suc left) (cp_subs c)) = mset (map cm_component S)"
    "mset (components_within (Suc (Suc left)) cs) \<subseteq># mset (map cm_component R)"
    "\<not> hs \<Longrightarrow> mset (components_within (Suc (Suc left)) cs) = mset (map cm_component R)"
    using "3.IH"(2) [OF refl refl] "3.IH"(3) [OF refl refl] unfolding S_def R_def by blast+
  show ?case unfolding all within
  proof (intro conjI impI)
    show "mset (components_within (Suc left) (cp_subs c)) + (mset (components_within (Suc (Suc left)) cs) + {#c#})
        \<subseteq># mset (map cm_component N) + (mset (map cm_component S) + (mset (map cm_component R) + {#c#}))"
      by (rule subset_mset.order_trans [OF subset_mset.add_mono [OF IH(1) subset_mset.add_mono [OF IH(3) subset_mset.order_refl]] mset_subset_eq_add_right])
  next
    assume "\<not> hs"
    then show "mset (components_within (Suc left) (cp_subs c)) + (mset (components_within (Suc (Suc left)) cs) + {#c#})
        = mset (map cm_component N) + (mset (map cm_component S) + (mset (map cm_component R) + {#c#}))"
      using IH(2,4) none by simp
  qed
next
  case (5 w fresh hs left level parent path pos s ss)
  have split: "mset (components_within (Suc left) (s # ss)) = mset (components_within (Suc left) [s]) + mset (components_within (Suc left) ss)"
    using components_within_append [of "Suc left" "[s]" ss] by simp
  show ?case unfolding split explode_subs.simps map_append mset_append
    using "5.IH" by (simp del: components_within.simps explode.simps add: subset_mset.add_mono)
qed (auto simp: match_of_def)


end
