(* ===== verification/Nested_Match.thy ===== *)
theory Nested_Match imports Matching_Service Bom_Facts begin

text \<open>
  Matching the components of a design to facilities (\<open>match_with_nested_components\<close> and its helpers in
  \<open>services/matching_service.py\<close>, \<open>SupplyTree.from_facility_and_manifest\<close>). Supply trees are shared
  and mutated, so they live in a store and are named by their place in it. The ids drawn for trees are
  \<open>new k j\<close> (the \<open>j\<close>-th facility of the \<open>k\<close>-th component), \<open>now\<close> is the clock.
\<close>

section \<open>Requirements of a component\<close>

text \<open>\<open>_tsdc_to_process_uri\<close>; a value that is no text stays one, and is dropped by the validation.\<close>

definition tsdc_to_process :: "taxonomy \<Rightarrow> json \<Rightarrow> string option" where
  "tsdc_to_process t j = (case j of JStr s \<Rightarrow> Some (case normalize t s of Some i \<Rightarrow> i | None \<Rightarrow> s) | _ \<Rightarrow> None)"

text \<open>The values the loops visit; \<open>None\<close> is an error.\<close>

definition requirement_processes :: "json \<Rightarrow> json list option" where
  "requirement_processes rq =
     (if \<not> truthy rq then Some []
      else case rq of
        JObj d \<Rightarrow> (case get_or d ''process'' (JList []) of
                     JStr s \<Rightarrow> Some [JStr s]
                   | JList xs \<Rightarrow> Some xs
                   | JObj e \<Rightarrow> Some (map (\<lambda>(k, v). JStr k) e)
                   | _ \<Rightarrow> None)
      | _ \<Rightarrow> None)"

definition tsdc_codes :: "json \<Rightarrow> json list option" where
  "tsdc_codes md =
     (if \<not> truthy md then Some []
      else case md of
        JObj d \<Rightarrow> (case jget d ''tsdc'' of JList xs \<Rightarrow> Some xs | _ \<Rightarrow> Some [])
      | JStr s \<Rightarrow> if contains ''tsdc'' s then None else Some []
      | JList xs \<Rightarrow> if JStr ''tsdc'' \<in> set xs then None else Some []
      | _ \<Rightarrow> None)"

definition component_processes :: "taxonomy \<Rightarrow> component \<Rightarrow> string list option" where
  "component_processes t c =
     do { a \<leftarrow> requirement_processes (cp_requirements c); b \<leftarrow> tsdc_codes (cp_metadata c);
          Some (filter (\<lambda>s. strip s \<noteq> []) (dedup [] (List.map_filter (tsdc_to_process t) (a @ b)))) }"

definition create_component_manifest :: "taxonomy \<Rightarrow> bom_manifest \<Rightarrow> component \<Rightarrow> bom_manifest option" where
  "create_component_manifest t base c = map_option (\<lambda>ps. base\<lparr>mf_processes := ps\<rparr>) (component_processes t c)"

section \<open>Supply trees\<close>

fun tree_match_text :: "tree_match option \<Rightarrow> string" where
  "tree_match_text None = ''unknown''"
| "tree_match_text (Some DirectMatch) = ''direct''"
| "tree_match_text (Some HeuristicMatch) = ''heuristic''"
| "tree_match_text (Some NlpMatch) = ''nlp''"
| "tree_match_text (Some PartialMatch) = ''partial''"
| "tree_match_text (Some NoTreeMatch) = ''no_match''"

definition shown_name :: "facility \<Rightarrow> string" where
  "shown_name f = (if fac_name f = [] then ''Facility '' @ take 8 (fac_id f) else fac_name f)"

text \<open>\<open>from_facility_and_manifest\<close>; \<open>dmn_of\<close> is the facility's own domain, \<open>manufacturing\<close> by default.\<close>

definition tree_from_facility :: "(facility \<Rightarrow> string) \<Rightarrow> pytime \<Rightarrow> uuid \<Rightarrow> facility \<Rightarrow> bom_manifest \<Rightarrow> rat \<Rightarrow> string \<Rightarrow> supply_tree" where
  "tree_from_facility dmn_of now new f m conf kind = tree_post_init
     \<lparr>facility_name = shown_name f, okh_reference = mf_id m, confidence_score = conf, okw_reference = Some (fac_id f),
      tree_id = new, estimated_cost = None, estimated_time = None, materials_required = mf_materials m,
      capabilities_used = concat (map (\<lambda>e. equipment_process e @ equipment_processes e) (fac_equipment f)), match_type = kind,
      tree_metadata = [(''okh_title'', JStr (mf_title m)), (''facility_name'', JStr (shown_name f)),
        (''generation_method'', JStr ''simplified_matching''), (''domain'', JStr (dmn_of f)),
        (''equipment_count'', JInt (int (length (fac_equipment f)))), (''process_count'', JInt (int (length (mf_processes m))))],
      creation_time = now, parent_tree_id = None, child_tree_ids = [], component_id = None, component_name = None,
      component_quantity = None, component_unit = None, depends_on = [], required_by = [], production_stage = ''final'',
      assembly_location = None, depth = 0, component_path = []\<rparr>"

record nested_env =
  ne_config :: match_config
  ne_domain :: string
  ne_domain_of :: "facility \<Rightarrow> string"
  ne_now :: pytime
  ne_new :: "nat \<Rightarrow> nat \<Rightarrow> uuid"

definition generate_tree :: "nested_env \<Rightarrow> uuid \<Rightarrow> bom_manifest \<Rightarrow> facility \<Rightarrow> supply_tree" where
  "generate_tree e new m f =
     (let (conf, kind) = generate_supply_tree (ne_config e) (ne_domain e) (mf_processes m) f
      in tree_from_facility (ne_domain_of e) (ne_now e) new f m conf (tree_match_text kind))"

definition enhance_tree :: "component_match \<Rightarrow> supply_tree \<Rightarrow> supply_tree" where
  "enhance_tree cm t =
     (let c = cm_component cm;
          md1 = (if truthy (cp_requirements c) then AList.update ''component_requirements'' (cp_requirements c) (tree_metadata t) else tree_metadata t);
          md2 = (if truthy (cp_metadata c) then AList.update ''component_metadata'' (cp_metadata c) md1 else md1)
      in t\<lparr>component_id := Some (cp_id c), component_name := Some (cp_name c), component_quantity := Some (cp_quantity c),
           component_unit := Some (cp_unit c), depth := int (cm_depth cm), component_path := cm_path cm,
           production_stage := (if 0 < cm_depth cm then ''component'' else ''final''), tree_metadata := md2\<rparr>)"

text \<open>\<open>_match_component_to_facilities\<close> with the threshold it is called with; \<open>None\<close> is an error.\<close>

definition match_component_to_facilities ::
  "nested_env \<Rightarrow> nat \<Rightarrow> rat \<Rightarrow> component_match \<Rightarrow> bom_manifest \<Rightarrow> facility list \<Rightarrow> supply_tree list option" where
  "match_component_to_facilities e k min_confidence cm m fs =
     map_option (\<lambda>cmf. map (enhance_tree cm) (filter (\<lambda>t. \<not> confidence_score t < min_confidence)
         (map (\<lambda>(j, f). generate_tree e (ne_new e k j) cmf f) (enumerate 0 fs))))
       (create_component_manifest (mc_taxonomy (ne_config e)) m (cm_component cm))"

section \<open>Links\<close>

definition add_id :: "uuid \<Rightarrow> uuid list \<Rightarrow> uuid list" where
  "add_id i ids = (if i \<in> set ids then ids else ids @ [i])"

definition link_pair :: "nat \<Rightarrow> nat \<Rightarrow> supply_tree list \<Rightarrow> supply_tree list" where
  "link_pair p ch h =
     (let h1 = h[ch := (h ! ch)\<lparr>parent_tree_id := Some (tree_id (h ! p))\<rparr>];
          i = tree_id (h1 ! ch);
          h2 = h1[p := (h1 ! p)\<lparr>child_tree_ids := add_id i (child_tree_ids (h1 ! p)), depends_on := add_id i (depends_on (h1 ! p))\<rparr>]
      in h2[ch := (h2 ! ch)\<lparr>required_by := add_id (tree_id (h2 ! p)) (required_by (h2 ! ch))\<rparr>])"

text \<open>\<open>_link_parent_child_relationships\<close>; \<open>trees\<close> is \<open>component_supply_trees\<close>.\<close>

definition link_parent_child :: "string \<Rightarrow> nat list \<Rightarrow> (string \<times> nat list) list \<Rightarrow> supply_tree list \<Rightarrow> supply_tree list" where
  "link_parent_child pid refs trees h =
     (case map_of trees pid of
        None \<Rightarrow> h
      | Some ps \<Rightarrow> fold (\<lambda>p. fold (\<lambda>ch. link_pair p ch) refs) ps h)"

section \<open>The loop over components\<close>

record nested_state =
  ns_store :: "supply_tree list"
  ns_trees :: "(string \<times> nat list) list"
  ns_last :: "nat list option"
  ns_matched :: nat
  ns_unmatched :: nat

text \<open>
  The matching of one component: its trees, or none when it failed. \<open>ns_last\<close> is the variable
  \<open>component_trees\<close>, which keeps its value when the matching of a component fails, and has none before
  the first success.
\<close>

definition match_step :: "nested_env \<Rightarrow> bom_manifest \<Rightarrow> facility list \<Rightarrow> nat \<Rightarrow> component_match \<Rightarrow> nested_state \<Rightarrow> nested_state" where
  "match_step e design fs k cm st =
     (let i = cp_id (cm_component cm); m = (case cm_manifest cm of None \<Rightarrow> design | Some m \<Rightarrow> m)
      in case match_component_to_facilities e k 0 cm m fs of
           None \<Rightarrow> st\<lparr>ns_trees := AList.update i [] (ns_trees st), ns_unmatched := ns_unmatched st + 1\<rparr>
         | Some ts \<Rightarrow>
             (let refs = [length (ns_store st)..<length (ns_store st) + length ts]
              in st\<lparr>ns_store := ns_store st @ ts, ns_trees := AList.update i refs (ns_trees st), ns_last := Some refs,
                    ns_matched := ns_matched st + (if ts = [] then 0 else 1), ns_unmatched := ns_unmatched st + (if ts = [] then 1 else 0)\<rparr>))"

text \<open>\<open>None\<close>: the unset variable is read.\<close>

definition link_step :: "component_match \<Rightarrow> nested_state \<Rightarrow> nested_state option" where
  "link_step cm st =
     (if cm_parent cm = None \<or> cm_parent cm = Some [] then Some st
      else case ns_last st of
        None \<Rightarrow> None
      | Some refs \<Rightarrow> Some (st\<lparr>ns_store := link_parent_child (the (cm_parent cm)) refs (ns_trees st) (ns_store st)\<rparr>))"

fun match_loop :: "nested_env \<Rightarrow> bom_manifest \<Rightarrow> facility list \<Rightarrow> nat \<Rightarrow> component_match list \<Rightarrow> nested_state \<Rightarrow> nested_state option" where
  "match_loop e design fs k [] st = Some st"
| "match_loop e design fs k (cm # cms) st =
     Option.bind (link_step cm (match_step e design fs k cm st)) (match_loop e design fs (Suc k) cms)"

definition deepest_first :: "component_match list \<Rightarrow> component_match list" where
  "deepest_first ms = sort_key (\<lambda>m. - int (cm_depth m)) ms"

section \<open>The solution\<close>

text \<open>
  \<open>match_with_nested_components\<close>. \<open>describe\<close> gives the text and the type name of the error that ended
  the matching; \<open>NoSupplyTrees\<close> is the one the solution class raises when there is no tree.
\<close>

datatype nested_failure = BillFailed | DepthFailed | UnsetTrees | NoSupplyTrees solution_error

definition nested_metadata :: "bom_manifest \<Rightarrow> nat \<Rightarrow> string \<Rightarrow> nat \<Rightarrow> nat \<Rightarrow> nested_state \<Rightarrow> (string \<times> json) list" where
  "nested_metadata design max_depth dmn nfac ncomp st =
     [(''okh_id'', JStr (mf_id design)), (''okh_title'', JStr (mf_title design)), (''max_depth'', JInt (int max_depth)),
      (''domain'', JStr dmn), (''facility_count'', JInt (int nfac)), (''component_count'', JInt (int ncomp)),
      (''matched_components'', JInt (int (ns_matched st))), (''unmatched_components'', JInt (int (ns_unmatched st))),
      (''warnings'', JList (if ns_unmatched st = 0 then []
         else [JStr (nat_text (ns_unmatched st) @ '' component(s) could not be matched to facilities'')]))]"

definition assemble_solution ::
  "nested_env \<Rightarrow> bom_manifest \<Rightarrow> nat \<Rightarrow> nat \<Rightarrow> nat \<Rightarrow> nested_state \<Rightarrow> (solution_error + Supply_Tree.solution) option" where
  "assemble_solution e design max_depth nfac ncomp st =
     (let mapping = map (\<lambda>(i, refs). (i, map ((!) (ns_store st)) refs)) (ns_trees st);
          ts = concat (vals mapping)
      in from_nested_trees ts (filter (\<lambda>t. depth t = 0) ts) mapping (Some (if ts = [] then 0 else mean_confidence ts))
           (Some [(''facility_count'', JInt (int nfac)), (''component_count'', JInt (int ncomp)), (''total_trees'', JInt (int (length ts)))])
           (Some (nested_metadata design max_depth (ne_domain e) nfac ncomp st)))"

definition warning_solution :: "(solution_error + Supply_Tree.solution) option" where
  "warning_solution = from_nested_trees [] [] [] (Some 0) (Some [])
     (Some [(''matching_mode'', JStr ''nested''), (''warning'', JStr ''No components found in BOM for nested matching''),
            (''suggestion'', JStr ''Try single-level matching (max_depth=0) or ensure BOM has components'')])"

definition error_solution :: "(nested_failure \<Rightarrow> string \<times> string) \<Rightarrow> nested_failure \<Rightarrow> (solution_error + Supply_Tree.solution) option" where
  "error_solution describe x = from_nested_trees [] [] [] (Some 0) (Some [])
     (Some [(''matching_mode'', JStr ''nested''), (''error'', JStr (fst (describe x))), (''error_type'', JStr (snd (describe x))),
            (''suggestion'', JStr ''Try single-level matching (max_depth=0) or check BOM data availability'')])"

definition empty_nested :: nested_state where
  "empty_nested = \<lparr>ns_store = [], ns_trees = [], ns_last = None, ns_matched = 0, ns_unmatched = 0\<rparr>"

definition match_with_nested_components ::
  "bom_world \<Rightarrow> (nat list \<Rightarrow> nat list \<Rightarrow> string) \<Rightarrow> bool \<Rightarrow> nested_env \<Rightarrow> (nested_failure \<Rightarrow> string \<times> string) \<Rightarrow>
   bom_manifest \<Rightarrow> facility list \<Rightarrow> nat \<Rightarrow> string option \<Rightarrow> (solution_error + Supply_Tree.solution) option" where
  "match_with_nested_components w fresh has_service e describe design fs max_depth manifest_path =
     (case resolve_bom w (fresh []) design manifest_path of
        None \<Rightarrow> error_solution describe BillFailed
      | Some b \<Rightarrow>
          if bill_components b = [] then warning_solution
          else case explode_bom w (\<lambda>pos. fresh (0 # pos)) has_service max_depth (bill_components b) of
            None \<Rightarrow> error_solution describe DepthFailed
          | Some ms \<Rightarrow>
              (case match_loop e design fs 0 (deepest_first ms) empty_nested of
                 None \<Rightarrow> error_solution describe UnsetTrees
               | Some st \<Rightarrow>
                   (case assemble_solution e design max_depth (length fs) (length ms) st of
                      Some (Inl x) \<Rightarrow> error_solution describe (NoSupplyTrees x)
                    | r \<Rightarrow> r)))"

end
