(* ===== verification/Nested_Facts.thy ===== *)
theory Nested_Facts imports Nested_Match Supply_Tree_Facts begin

text \<open>What the matching of nested components returns, whatever the facilities can do.\<close>

section \<open>Every facility matches every component\<close>

lemma round2_nonneg: "0 \<le> x \<Longrightarrow> 0 \<le> round2 x"
proof -
  assume "0 \<le> x"
  then have "0 \<le> \<lfloor>100 * x\<rfloor>" by (metis zero_le_floor mult_nonneg_nonneg zero_le_numeral)
  then show ?thesis by (simp add: round2_def Let_def)
qed

lemma generate_supply_tree_nonneg: "0 \<le> fst (generate_supply_tree g dmn ps f)"
  by (auto simp: generate_supply_tree_def Let_def split: prod.split)

lemma generated_confidence: "confidence_score (generate_tree e new m f) = round2 (fst (generate_supply_tree (ne_config e) (ne_domain e) (mf_processes m) f))"
  by (simp add: generate_tree_def tree_from_facility_def tree_post_init_def split: prod.split)

definition unlinked :: "supply_tree \<Rightarrow> bool" where
  "unlinked t \<longleftrightarrow> parent_tree_id t = None \<and> child_tree_ids t = [] \<and> depends_on t = [] \<and> required_by t = []"

lemma enhanced_tree_simps:
  "okw_reference (enhance_tree cm (generate_tree e new m f)) = Some (fac_id f)"
  "confidence_score (enhance_tree cm (generate_tree e new m f)) = confidence_score (generate_tree e new m f)"
  "unlinked (enhance_tree cm (generate_tree e new m f))"
  by (simp_all add: enhance_tree_def generate_tree_def tree_from_facility_def tree_post_init_def unlinked_def Let_def split: prod.split)

lemma match_component_all:
  "match_component_to_facilities e k 0 cm m fs =
     map_option (\<lambda>ps. map (\<lambda>(j, f). enhance_tree cm (generate_tree e (ne_new e k j) (m\<lparr>mf_processes := ps\<rparr>) f)) (enumerate 0 fs))
       (component_processes (mc_taxonomy (ne_config e)) (cm_component cm))"
proof -
  have "\<not> confidence_score (generate_tree e n mf f) < 0" for n mf f
    using round2_nonneg [OF generate_supply_tree_nonneg] by (simp add: generated_confidence not_less)
  then have "filter (\<lambda>t. \<not> confidence_score t < 0) (map (\<lambda>(j, f). generate_tree e (ne_new e k j) mf f) xs) =
      map (\<lambda>(j, f). generate_tree e (ne_new e k j) mf f) xs" for mf xs
    by (intro filter_True) auto
  then show ?thesis
    by (cases "component_processes (mc_taxonomy (ne_config e)) (cm_component cm)")
      (simp_all add: match_component_to_facilities_def create_component_manifest_def comp_def split_def)
qed

text \<open>
  A component matches every facility. Matching fails only when the component's requirements cannot
  be read; otherwise there is one tree for each facility, whatever it can do, because the threshold is
  zero. A component without processes of its own gets trees of confidence zero (outside cooking).
\<close>

theorem component_matches_every_facility:
  "case match_component_to_facilities e k 0 cm m fs of
     None \<Rightarrow> component_processes (mc_taxonomy (ne_config e)) (cm_component cm) = None
   | Some ts \<Rightarrow>
       map okw_reference ts = map (\<lambda>f. Some (fac_id f)) fs \<and>
       (if component_processes (mc_taxonomy (ne_config e)) (cm_component cm) = Some [] \<and> ne_domain e \<noteq> ''cooking''
        then list_all (\<lambda>t. confidence_score t = 0) ts else True)"
proof (cases "component_processes (mc_taxonomy (ne_config e)) (cm_component cm)")
  case (Some ps)
  have m: "match_component_to_facilities e k 0 cm m fs =
      Some (map (\<lambda>(j, f). enhance_tree cm (generate_tree e (ne_new e k j) (m\<lparr>mf_processes := ps\<rparr>) f)) (enumerate 0 fs))"
    by (simp add: match_component_all Some)
  have refs: "map okw_reference (map (\<lambda>(j, f). enhance_tree cm (generate_tree e (ne_new e k j) mf f)) (enumerate n fs)) =
      map (\<lambda>f. Some (fac_id f)) fs" for n mf
    by (induction fs arbitrary: n) (simp_all add: enhanced_tree_simps)
  have zero: "confidence_score (generate_tree e n (m\<lparr>mf_processes := []\<rparr>) f) = 0" if "ne_domain e \<noteq> ''cooking''" for n f
    using that by (simp add: generated_confidence generate_supply_tree_def round2_def)
  show ?thesis
  proof (cases "ps = [] \<and> ne_domain e \<noteq> ''cooking''")
    case True
    then show ?thesis unfolding m using refs zero by (auto simp: Some list_all_iff enhanced_tree_simps simp del: map_map)
  next
    case False
    then show ?thesis unfolding m using refs by (auto simp: Some simp del: map_map)
  qed
qed (simp add: match_component_all)

section \<open>Nothing is linked\<close>

fun parents_later :: "string set \<Rightarrow> component_match list \<Rightarrow> bool" where
  "parents_later S [] \<longleftrightarrow> True"
| "parents_later S (m # ms) \<longleftrightarrow>
     (case cm_parent m of None \<Rightarrow> True | Some p \<Rightarrow> p \<notin> insert (cp_id (cm_component m)) S) \<and>
     parents_later (insert (cp_id (cm_component m)) S) ms"

text \<open>Every component named as a parent is at a smaller depth than what hangs below it.\<close>

definition ids_by_depth :: "component_match list \<Rightarrow> bool" where
  "ids_by_depth ms = list_all (\<lambda>m. list_all (\<lambda>m'. if cm_parent m = Some (cp_id (cm_component m')) then cm_depth m' < cm_depth m else True) ms) ms"

lemma parents_later_sorted:
  "sorted_wrt (\<lambda>a b. cm_depth b \<le> cm_depth a) ms \<Longrightarrow>
   \<forall>m\<in>set ms. \<forall>m'\<in>set ms. cm_parent m = Some (cp_id (cm_component m')) \<longrightarrow> cm_depth m' < cm_depth m \<Longrightarrow>
   \<forall>m\<in>set ms. \<forall>i\<in>S. cm_parent m \<noteq> Some i \<Longrightarrow> parents_later S ms"
proof (induction ms arbitrary: S)
  case (Cons m ms)
  have "cm_parent m' \<noteq> Some (cp_id (cm_component m))" if "m' \<in> set (m # ms)" for m'
    using Cons.prems(1,2) that by (force dest: leD)
  then show ?case using Cons.prems by (intro parents_later.simps(2) [THEN iffD2] conjI Cons.IH) (auto split: option.splits)
qed simp

lemma deepest_first_parents: "ids_by_depth ms \<Longrightarrow> parents_later {} (deepest_first ms)"
proof (rule parents_later_sorted)
  show "sorted_wrt (\<lambda>a b. cm_depth b \<le> cm_depth a) (deepest_first ms)"
    using sorted_sort_key [of "\<lambda>m. - int (cm_depth m)" ms] by (simp add: deepest_first_def sorted_map)
qed (auto simp: ids_by_depth_def deepest_first_def list_all_iff split: if_splits)

definition nested_inv :: "nested_state \<Rightarrow> bool" where
  "nested_inv st \<longleftrightarrow> list_all unlinked (ns_store st) \<and> list_all (\<lambda>(i, refs). list_all (\<lambda>r. r < length (ns_store st)) refs) (ns_trees st)"

lemma match_step_keys: "set (keys (ns_trees (match_step e d fs k cm st))) = insert (cp_id (cm_component cm)) (set (keys (ns_trees st)))"
  by (auto simp: match_step_def Let_def dom_update keys_update split: option.splits simp del: set_map)

lemma match_step_inv:
  assumes "nested_inv st" shows "nested_inv (match_step e d fs k cm st)"
proof (cases "match_component_to_facilities e k 0 cm (case cm_manifest cm of None \<Rightarrow> d | Some m \<Rightarrow> m) fs")
  case None
  then show ?thesis using assms set_update_subset [of "cp_id (cm_component cm)" "[]" "ns_trees st"]
    by (fastforce simp: nested_inv_def match_step_def Let_def list_all_iff)
next
  case (Some ts)
  have un: "list_all unlinked ts"
    using Some by (auto simp: match_component_all list_all_iff enhanced_tree_simps split: option.splits)
  let ?n = "length (ns_store st)" and ?refs = "[length (ns_store st)..<length (ns_store st) + length ts]"
  have "r < ?n + length ts" if "(i, refs) \<in> set (AList.update (cp_id (cm_component cm)) ?refs (ns_trees st))" "r \<in> set refs" for i refs r
    using that assms set_update_subset [of "cp_id (cm_component cm)" ?refs "ns_trees st"]
    by (fastforce simp: nested_inv_def list_all_iff)
  then show ?thesis using assms un Some by (auto simp: nested_inv_def match_step_def Let_def list_all_iff)
qed

lemma link_step_idle:
  assumes "case cm_parent cm of None \<Rightarrow> True | Some p \<Rightarrow> p \<notin> set (keys (ns_trees st))"
  shows "link_step cm st = (if (cm_parent cm = None \<or> cm_parent cm = Some []) \<or> ns_last st \<noteq> None then Some st else None)"
proof -
  have "map_of (ns_trees st) p = None" if "cm_parent cm = Some p" for p
    using assms that by (simp add: map_of_eq_None_iff)
  then show ?thesis by (auto simp: link_step_def link_parent_child_def split: option.splits)
qed

lemma match_loop_inv:
  assumes "parents_later (set (keys (ns_trees st))) cms" and "nested_inv st" and "match_loop e d fs k cms st = Some st'"
  shows "nested_inv st'"
  using assms
proof (induction cms arbitrary: st k)
  case (Cons cm cms)
  let ?st = "match_step e d fs k cm st"
  have idle: "case cm_parent cm of None \<Rightarrow> True | Some p \<Rightarrow> p \<notin> set (keys (ns_trees ?st))"
    using Cons.prems(1) by (simp add: match_step_keys del: set_map split: option.splits)
  then have "match_loop e d fs (Suc k) cms ?st = Some st'"
    using Cons.prems(3) by (auto simp: link_step_idle split: if_splits)
  then show ?case using Cons.IH [of ?st] Cons.prems(1,2) by (simp add: match_step_keys match_step_inv del: set_map)
qed simp

text \<open>When every component's requirements can be read and there is a facility, every component is matched.\<close>

lemma match_loop_all:
  assumes "parents_later (set (keys (ns_trees st))) cms" and "fs \<noteq> []"
    and "\<forall>cm\<in>set cms. component_processes (mc_taxonomy (ne_config e)) (cm_component cm) \<noteq> None"
    and "\<forall>(i, refs)\<in>set (ns_trees st). refs \<noteq> []"
  shows "\<exists>st'. match_loop e d fs k cms st = Some st' \<and> (\<forall>(i, refs)\<in>set (ns_trees st'). refs \<noteq> []) \<and>
     set (keys (ns_trees st')) = set (keys (ns_trees st)) \<union> (cp_id \<circ> cm_component) ` set cms \<and>
     ns_matched st' = ns_matched st + length cms \<and> ns_unmatched st' = ns_unmatched st"
  using assms
proof (induction cms arbitrary: st k)
  case (Cons cm cms)
  let ?st = "match_step e d fs k cm st"
  let ?ts = "\<lambda>ps. map (\<lambda>(j, f). enhance_tree cm (generate_tree e (ne_new e k j)
      ((case cm_manifest cm of None \<Rightarrow> d | Some m \<Rightarrow> m)\<lparr>mf_processes := ps\<rparr>) f)) (enumerate 0 fs)"
  obtain ps where ps: "component_processes (mc_taxonomy (ne_config e)) (cm_component cm) = Some ps" using Cons.prems(3) by auto
  let ?refs = "[length (ns_store st)..<length (ns_store st) + length fs]"
  have en: "enumerate 0 fs \<noteq> []" using Cons.prems(2) by (cases fs) simp_all
  have st: "ns_trees ?st = AList.update (cp_id (cm_component cm)) ?refs (ns_trees st)" "ns_last ?st \<noteq> None"
    "ns_matched ?st = Suc (ns_matched st)" "ns_unmatched ?st = ns_unmatched st"
    using en by (simp_all add: match_step_def Let_def match_component_all ps)
  have "\<forall>(i, refs)\<in>set (ns_trees ?st). refs \<noteq> []"
  proof
    fix x assume "x \<in> set (ns_trees ?st)"
    then have "x = (cp_id (cm_component cm), ?refs) \<or> x \<in> set (ns_trees st)"
      unfolding st(1) using set_update_subset [of "cp_id (cm_component cm)" ?refs "ns_trees st"] by blast
    then show "case x of (i, refs) \<Rightarrow> refs \<noteq> []" using Cons.prems(2,4) by (auto dest: sym [of "[]"])
  qed
  moreover have "case cm_parent cm of None \<Rightarrow> True | Some p \<Rightarrow> p \<notin> set (keys (ns_trees ?st))"
    using Cons.prems(1) by (simp add: match_step_keys del: set_map split: option.splits)
  then have "match_loop e d fs k (cm # cms) st = match_loop e d fs (Suc k) cms ?st"
    using st(2) by (simp add: link_step_idle)
  moreover have "parents_later (set (keys (ns_trees ?st))) cms"
    using Cons.prems(1) by (simp add: match_step_keys del: set_map)
  moreover have "\<forall>cm\<in>set cms. component_processes (mc_taxonomy (ne_config e)) (cm_component cm) \<noteq> None"
    using Cons.prems(3) by simp
  ultimately obtain st' where st': "match_loop e d fs k (cm # cms) st = Some st'" "\<forall>(i, refs)\<in>set (ns_trees st'). refs \<noteq> []"
    "set (keys (ns_trees st')) = set (keys (ns_trees ?st)) \<union> (cp_id \<circ> cm_component) ` set cms"
    "ns_matched st' = ns_matched ?st + length cms" "ns_unmatched st' = ns_unmatched ?st"
    using Cons.IH [of ?st "Suc k"] Cons.prems(2) by metis
  have "set (keys (ns_trees st')) = set (keys (ns_trees st)) \<union> (cp_id \<circ> cm_component) ` set (cm # cms)"
    unfolding st'(3) match_step_keys by auto
  with st' st(3,4) show ?case by (intro exI [of _ st']) simp
qed simp

section \<open>The solution\<close>

lemma build_graph_mem: "(n, ds) \<in> set (build_graph ts) \<Longrightarrow> \<exists>t\<in>set ts. n = tree_id t \<and> ds = tree_dependencies t"
proof -
  have "(n, ds) \<in> set (fold (\<lambda>t g. AList.update (tree_id t) (tree_dependencies t) g) ts g) \<Longrightarrow>
      (n, ds) \<in> set g \<or> (\<exists>t\<in>set ts. n = tree_id t \<and> ds = tree_dependencies t)" for g
    by (induction ts arbitrary: g) (use set_update_subset in fastforce)+
  then show "(n, ds) \<in> set (build_graph ts) \<Longrightarrow> \<exists>t\<in>set ts. n = tree_id t \<and> ds = tree_dependencies t"
    by (force simp: build_graph_def)
qed

lemma unlinked_graph: "list_all unlinked ts \<Longrightarrow> list_all (\<lambda>(n, ds). ds = []) (build_graph ts)"
  using build_graph_mem by (fastforce simp: list_all_iff unlinked_def tree_dependencies_def)

lemma marked_solution:
  assumes "error_fallback md"
  obtains s where "from_nested_trees [] [] [] (Some 0) (Some []) (Some md) = Some (Inr s)" "all_trees s = []"
    "dependency_graph s = Some []"
proof -
  have "build_graph [] = []" by (simp add: build_graph_def)
  then show thesis using from_nested_trees_result [of "[]" "[]" "[]" "Some 0" "Some []" "Some md"] assms that by auto
qed

lemma warning_solution_result: obtains s where "warning_solution = Some (Inr s)" "all_trees s = []" "dependency_graph s = Some []"
  unfolding warning_solution_def by (rule marked_solution [rotated -1]) (auto simp: error_fallback_def jget_def)

lemma error_solution_result:
  assumes "fst (describe x) \<noteq> []"
  obtains s where "error_solution describe x = Some (Inr s)" "all_trees s = []" "dependency_graph s = Some []"
  unfolding error_solution_def
  by (rule marked_solution [rotated -1]) (use assms in \<open>auto simp: error_fallback_def jget_def\<close>)

lemma assembled:
  assumes "nested_inv st"
  defines "mapping \<equiv> map (\<lambda>(i, refs). (i, map ((!) (ns_store st)) refs)) (ns_trees st)"
  defines "ts \<equiv> concat (vals mapping)"
  shows "list_all unlinked ts" "\<exists>s. assemble_solution e d max_depth nf nc st = Some (if ts = [] then Inl NoTrees else Inr s) \<and>
     all_trees s = ts \<and> component_mapping s = Some mapping \<and> dependency_graph s = Some (build_graph ts) \<and>
     validation s = validate_solution s \<and> validation s \<noteq> None"
proof -
  show "list_all unlinked ts"
    using assms(1) by (fastforce simp: ts_def mapping_def nested_inv_def list_all_iff)
  have "\<not> error_fallback (nested_metadata d max_depth (ne_domain e) nf nc st)"
    by (simp add: error_fallback_def nested_metadata_def jget_def)
  then show "\<exists>s. assemble_solution e d max_depth nf nc st = Some (if ts = [] then Inl NoTrees else Inr s) \<and>
     all_trees s = ts \<and> component_mapping s = Some mapping \<and> dependency_graph s = Some (build_graph ts) \<and>
     validation s = validate_solution s \<and> validation s \<noteq> None"
    unfolding assemble_solution_def Let_def mapping_def [symmetric] ts_def [symmetric]
    using from_nested_trees_result [of ts "filter (\<lambda>t. depth t = 0) ts" mapping "Some (if ts = [] then 0 else mean_confidence ts)"
        "Some [(''facility_count'', JInt (int nf)), (''component_count'', JInt (int nc)), (''total_trees'', JInt (int (length ts)))]"
        "Some (nested_metadata d max_depth (ne_domain e) nf nc st)"] by auto
qed


lemma explode_not_Nil: "cs \<noteq> [] \<Longrightarrow> explode w fresh hs left level up path pos cs \<noteq> []"
  by (cases cs; cases left) (simp_all add: Let_def)

text \<open>
  Nested matching reports a valid solution whatever the facilities can do. With one facility or more
  and a bill whose components' requirements can be read, every component of the bill has trees in the
  solution, and the validation finds neither an unmatched component nor a missing dependency.
\<close>

theorem nested_match_always_valid:
  assumes "resolve_bom w (fresh []) design manifest_path = Some b" and "bill_components b \<noteq> []"
    and "explode_bom w (\<lambda>pos. fresh (0 # pos)) has_service max_depth (bill_components b) = Some ms"
    and "ids_by_depth ms" and "fs \<noteq> []"
    and "list_all (\<lambda>m. component_processes (mc_taxonomy (ne_config e)) (cm_component m) \<noteq> None) ms"
  shows "\<exists>sol v m. match_with_nested_components w fresh has_service e describe design fs max_depth manifest_path = Some (Inr sol) \<and>
     validation sol = Some v \<and> is_valid v \<and> component_mapping sol = Some m \<and>
     set (keys m) = (cp_id \<circ> cm_component) ` set ms \<and> list_all (\<lambda>(i, ts). ts \<noteq> []) m"
proof -
  have dms: "set (deepest_first ms) = set ms" by (simp add: deepest_first_def)
  obtain st where st: "match_loop e design fs 0 (deepest_first ms) empty_nested = Some st"
    "\<forall>(i, refs)\<in>set (ns_trees st). refs \<noteq> []" "set (keys (ns_trees st)) = (cp_id \<circ> cm_component) ` set ms"
    using match_loop_all [of empty_nested "deepest_first ms" fs e design 0] deepest_first_parents [OF assms(4)] assms(5,6)
    by (auto simp: empty_nested_def dms list_all_iff)
  have inv: "nested_inv st"
    by (rule match_loop_inv [OF _ _ st(1)]) (use deepest_first_parents [OF assms(4)] in \<open>simp_all add: empty_nested_def nested_inv_def\<close>)
  define mapping where "mapping = map (\<lambda>(i, refs). (i, map ((!) (ns_store st)) refs)) (ns_trees st)"
  have keys: "set (keys mapping) = (cp_id \<circ> cm_component) ` set ms"
    unfolding st(3) [symmetric] by (force simp: mapping_def)
  have full: "list_all (\<lambda>(i, ts). ts \<noteq> []) mapping" using st(2) by (auto simp: mapping_def list_all_iff)
  have "ms \<noteq> []" using assms(2,3) explode_not_Nil by (auto simp: explode_bom_def split: nat.splits)
  then have "mapping \<noteq> []" using keys by auto
  with full have ne: "concat (vals mapping) \<noteq> []" by (cases mapping) auto
  note a = assembled [OF inv, folded mapping_def]
  obtain sol where s: "assemble_solution e design max_depth (length fs) (length ms) st =
      Some (if concat (vals mapping) = [] then Inl NoTrees else Inr sol)"
    "all_trees sol = concat (vals mapping)" "component_mapping sol = Some mapping" "validation sol = validate_solution sol" "validation sol \<noteq> None"
    using a(2) [of e design max_depth "length fs" "length ms"] by blast
  with a(1) ne have sol: "assemble_solution e design max_depth (length fs) (length ms) st = Some (Inr sol)"
    "all_trees sol = concat (vals mapping)" "component_mapping sol = Some mapping" "validation sol = validate_solution sol" "validation sol \<noteq> None"
    "list_all unlinked (concat (vals mapping))" by simp_all
  then obtain v where v: "validate_solution sol = Some v" by auto
  have "is_valid v"
    unfolding validate_solution_is_valid [OF v] using full sol(2,3,6) by (auto simp: list_all_iff unlinked_def)
  moreover have "match_with_nested_components w fresh has_service e describe design fs max_depth manifest_path = Some (Inr sol)"
    using assms(1-3) st(1) sol(1) by (simp add: match_with_nested_components_def)
  ultimately show ?thesis using sol v keys full by metis
qed

text \<open>A device of a housing to be printed and a screw in it, and a shop that can only sew.\<close>

definition lone_world :: bom_world where
  "lone_world = \<lparr>parsed_file = (\<lambda>p. None), manifest_file = (\<lambda>p. None), okh_lookup = (\<lambda>i. Some None), relative_to = (\<lambda>m p. p)\<rparr>"

definition device :: bom_manifest where
  "device = \<lparr>mf_id = ''d1'', mf_title = ''Device'', mf_bom = JNull, mf_parts = [],
     mf_sub_parts = [JObj [(''id'', JStr ''h''), (''name'', JStr ''Housing''), (''tsdc'', JList [JStr ''3DP'']),
        (''sub_parts'', JList [JObj [(''id'', JStr ''s''), (''name'', JStr ''Screw'')]])]],
     mf_processes = [''3DP''], mf_materials = []\<rparr>"

definition sewing_shop :: facility where
  "sewing_shop = \<lparr>fac_id = ''f1'', fac_name = ''Shop'', fac_processes = [''sewing''], fac_equipment = []\<rparr>"

definition plain_env :: nested_env where
  "plain_env = \<lparr>ne_config = plain_config, ne_domain = ''manufacturing'', ne_domain_of = (\<lambda>f. ''manufacturing''), ne_now = 0,
     ne_new = (\<lambda>k j. if k = 0 then ''t0'' else ''t1'')\<rparr>"

definition screw :: component where
  "screw = Component ''s'' ''Screw'' 1 ''pieces'' [] JNull (JObj []) (JObj [])"

definition housing :: component where
  "housing = Component ''h'' ''Housing'' 1 ''pieces'' [screw] JNull (JObj []) (JObj [(''tsdc'', JList [JStr ''3DP''])])"

definition device_bill :: bill where
  "device_bill = \<lparr>bill_name = ''Device'', bill_components = [housing], bill_metadata = []\<rparr>"

definition device_matches :: "component_match list" where
  "device_matches =
     [\<lparr>cm_component = screw, cm_depth = 1, cm_parent = Some ''h'', cm_manifest = None, cm_path = [''Housing'', ''Screw''], cm_unresolved = False\<rparr>,
      \<lparr>cm_component = housing, cm_depth = 0, cm_parent = None, cm_manifest = None, cm_path = [''Housing''], cm_unresolved = False\<rparr>]"

lemma device_resolves: "resolve_bom lone_world (\<lambda>p. ''u'') device None = Some device_bill"
  by code_simp

lemma device_explodes:
  "explode_bom lone_world (\<lambda>pos p. ''u'') True 5 (bill_components device_bill) = Some device_matches"
  by code_simp

lemma device_ids: "ids_by_depth device_matches"
  by code_simp

lemma device_readable:
  "list_all (\<lambda>m. component_processes (mc_taxonomy (ne_config plain_env)) (cm_component m) \<noteq> None) device_matches"
  by code_simp

lemma device_shape:
  "bill_components device_bill \<noteq> []"
  "map (\<lambda>m. (cp_name (cm_component m), cm_depth m, cm_parent m)) device_matches = [(''Screw'', 1, Some ''h''), (''Housing'', 0, None)]"
  "(cp_id \<circ> cm_component) ` set device_matches = {''s'', ''h''}"
  by (simp_all add: device_bill_def device_matches_def screw_def housing_def)


theorem nested_match_always_valid_witness:
  "\<exists>sol v m. match_with_nested_components lone_world (\<lambda>pos p. ''u'') True plain_env (\<lambda>x. (''error'', ''ValueError'')) device [sewing_shop] 5 None = Some (Inr sol) \<and>
     validation sol = Some v \<and> is_valid v \<and> component_mapping sol = Some m \<and> set (keys m) = {''s'', ''h''}"
proof -
  let ?run = "match_with_nested_components lone_world (\<lambda>pos p. ''u'') True plain_env (\<lambda>x. (''error'', ''ValueError'')) device [sewing_shop] 5 None"
  have "[sewing_shop] \<noteq> []" by simp
  from nested_match_always_valid [where w = lone_world and fresh = "\<lambda>pos p. ''u''" and has_service = True and e = plain_env
      and describe = "\<lambda>x. (''error'', ''ValueError'')" and max_depth = 5,
      OF device_resolves device_shape(1) device_explodes device_ids this device_readable]
  obtain sol v m where "?run = Some (Inr sol)" "validation sol = Some v" "is_valid v" "component_mapping sol = Some m"
    "set (keys m) = (cp_id \<circ> cm_component) ` set device_matches"
    by (elim exE conjE) (rule that)
  then show ?thesis unfolding device_shape(3) by (intro exI conjI)
qed

end
