(* ===== verification/Uuid_Repair.thy ===== *)
theory Uuid_Repair imports Doc_Fields begin

text \<open>
  The repair of record ids (\<open>validation/uuid_validator.py\<close>). MD5 is the parameter \<open>md5\<close> (the
  hexadecimal digest of a text), \<open>rnd\<close> the text of the random UUID the call draws if it needs one.
  \<open>None\<close> is an exception: an id that is no string has no \<open>strip\<close>.
\<close>

definition is_valid_uuid :: "json \<Rightarrow> bool" where
  "is_valid_uuid j = (case j of JStr s \<Rightarrow> parse_uuid s \<noteq> None | _ \<Rightarrow> False)"

definition generate_uuid_from_string :: "(string \<Rightarrow> string) \<Rightarrow> uuid \<Rightarrow> string \<Rightarrow> string" where
  "generate_uuid_from_string md5 rnd s =
     (let u = dashed (take 32 (md5 s)) in if is_valid_uuid (JStr u) then u else rnd)"

text \<open>The two substitutions of the words in front of and behind an id; the longest match wins.\<close>

definition id_words :: "string list" where
  "id_words = [''id'', ''uuid'', ''guid'']"

definition is_separator :: "char \<Rightarrow> bool" where
  "is_separator c \<longleftrightarrow> c = CHR ''-'' \<or> c = CHR ''_''"

definition drop_id_prefix :: "string \<Rightarrow> string" where
  "drop_id_prefix s =
     (case find (\<lambda>w. starts_with w s) id_words of
        None \<Rightarrow> s
      | Some w \<Rightarrow> (let t = drop (length w) s in if t \<noteq> [] \<and> is_separator (hd t) then tl t else t))"

definition ends_with :: "string \<Rightarrow> string \<Rightarrow> bool" where
  "ends_with p s \<longleftrightarrow> starts_with (rev p) (rev s)"

definition drop_id_suffix :: "string \<Rightarrow> string" where
  "drop_id_suffix s =
     (case find (\<lambda>w. ends_with w s) [''uuid'', ''guid'', ''id''] of
        None \<Rightarrow> s
      | Some w \<Rightarrow>
          (let t = take (length s - length w) s in if t \<noteq> [] \<and> is_separator (last t) then butlast t else t))"

text \<open>Every run of underscores and white space becomes one dash.\<close>

fun dash_runs :: "bool \<Rightarrow> string \<Rightarrow> string" where
  "dash_runs inside [] = []"
| "dash_runs inside (c # s) =
     (if c = CHR ''_'' \<or> is_space c then (if inside then dash_runs True s else CHR ''-'' # dash_runs True s)
      else c # dash_runs False s)"

text \<open>\<open>^[0-9]+$\<close>, where \<open>$\<close> also stands before a final line break.\<close>

definition all_digits :: "string \<Rightarrow> bool" where
  "all_digits s \<longleftrightarrow>
     (let t = (if s \<noteq> [] \<and> last s = char_of (10 :: nat) then butlast s else s)
      in t \<noteq> [] \<and> list_all (\<lambda>c. (48 :: nat) \<le> of_char c \<and> (of_char c :: nat) \<le> 57) t)"

definition cleaned_id :: "string \<Rightarrow> string" where
  "cleaned_id s = dash_runs False (drop_id_suffix (drop_id_prefix (lower (strip s))))"

definition fix_invalid_uuid :: "(string \<Rightarrow> string) \<Rightarrow> uuid \<Rightarrow> json \<Rightarrow> bool \<Rightarrow> string option" where
  "fix_invalid_uuid md5 rnd j fallback_to_random =
     (case j of
        JStr s \<Rightarrow>
          (if is_valid_uuid j then Some s
           else
             let h = filter (\<lambda>c. c \<noteq> CHR ''-'') (cleaned_id s)
             in if length h = 32 \<and> list_all is_hex h \<and> is_valid_uuid (JStr (dashed h)) then Some (dashed h)
                else if 3 < length s \<and> \<not> all_digits s then Some (generate_uuid_from_string md5 rnd s)
                else if fallback_to_random then Some rnd
                else Some s)
      | _ \<Rightarrow> None)"

text \<open>\<open>validate_and_fix_okh_data\<close> and \<open>validate_and_fix_okw_data\<close>, which differ in their log lines only.\<close>

definition validate_and_fix_data :: "(string \<Rightarrow> string) \<Rightarrow> uuid \<Rightarrow> doc \<Rightarrow> doc option" where
  "validate_and_fix_data md5 rnd d =
     (case map_of d ''id'' of
        None \<Rightarrow> Some d
      | Some j \<Rightarrow>
          if is_valid_uuid j then Some d
          else map_option (\<lambda>s. AList.update ''id'' (JStr s) d) (fix_invalid_uuid md5 rnd j True))"

text \<open>The id \<open>from_dict\<close> reads: \<open>UUID(x)\<close>, or \<open>UUID\<close> of the repaired text when that fails.\<close>

definition coerce_uuid :: "(string \<Rightarrow> string) \<Rightarrow> uuid \<Rightarrow> json \<Rightarrow> uuid option" where
  "coerce_uuid md5 rnd j =
     (case j of
        JStr s \<Rightarrow>
          (case parse_uuid s of
             Some u \<Rightarrow> Some u
           | None \<Rightarrow> Option.bind (fix_invalid_uuid md5 rnd j True) parse_uuid)
      | _ \<Rightarrow> None)"

section \<open>What the repair gives\<close>

lemma parse_is_uuid: "is_uuid u \<Longrightarrow> parse_uuid u = Some u"
  by (simp add: is_uuid_def)

lemma uuid_not_Nil: "is_uuid u \<Longrightarrow> u \<noteq> []"
proof -
  assume "is_uuid u"
  then have "\<exists>h. dashed h = u" unfolding is_uuid_def parse_uuid_def Let_def by (auto split: if_splits)
  then show ?thesis by (auto simp: dashed_def)
qed

lemma is_valid_uuid_str [simp]: "is_valid_uuid (JStr s) \<longleftrightarrow> parse_uuid s \<noteq> None"
  by (simp add: is_valid_uuid_def)

lemma fix_valid: "is_uuid rnd \<Longrightarrow> fix_invalid_uuid md5 rnd j True = Some s \<Longrightarrow> parse_uuid s \<noteq> None"
  by (auto simp: fix_invalid_uuid_def generate_uuid_from_string_def Let_def is_uuid_def
      split: json.splits if_splits)

lemma fix_total: "is_uuid rnd \<Longrightarrow> \<exists>s u. fix_invalid_uuid md5 rnd (JStr t) True = Some s \<and> parse_uuid s = Some u"
proof -
  assume r: "is_uuid rnd"
  have "fix_invalid_uuid md5 rnd (JStr t) True \<noteq> None" by (simp add: fix_invalid_uuid_def Let_def)
  then obtain s where s: "fix_invalid_uuid md5 rnd (JStr t) True = Some s" by auto
  with fix_valid [OF r s] show ?thesis by auto
qed

lemma coerce_uuid_str: "is_uuid rnd \<Longrightarrow> \<exists>u. coerce_uuid md5 rnd (JStr t) = Some u \<and> is_uuid u"
  using fix_total [of rnd md5 t] is_uuid_parsed
  by (auto simp: coerce_uuid_def split: option.splits)

lemma coerce_uuid_is_uuid: "coerce_uuid md5 rnd j = Some u \<Longrightarrow> is_uuid u"
  by (auto simp: coerce_uuid_def is_uuid_parsed split: json.splits option.splits bind_splits)

lemma coerce_uuid_of_uuid [simp]: "is_uuid u \<Longrightarrow> coerce_uuid md5 rnd (JStr u) = Some u"
  by (simp add: coerce_uuid_def is_uuid_def)

text \<open>The repair is idempotent: a repaired document is left alone.\<close>

lemma validate_and_fix_idem:
  assumes "is_uuid rnd" and "validate_and_fix_data md5 rnd d = Some d'"
  shows "validate_and_fix_data md5 rnd' d' = Some d'"
  using assms(2) fix_valid [OF assms(1)]
  by (auto simp: validate_and_fix_data_def split: option.splits if_splits)

end
