(* ===== verification/Py_Date.thy ===== *)
theory Py_Date imports Py_Time begin

text \<open>
  Python's \<open>date\<close> as the sources use it: \<open>isoformat\<close>, and \<open>fromisoformat\<close> on the four forms Python 3.12
  reads (with and without dashes, calendar and week dates).
\<close>

record pydate =
  date_year :: nat
  date_month :: nat
  date_day :: nat

definition midnight :: "pydate \<Rightarrow> datetime" where
  "midnight d = \<lparr>dt_year = date_year d, dt_month = date_month d, dt_day = date_day d, dt_hour = 0, dt_minute = 0,
     dt_second = 0, dt_micro = 0, dt_offset = None\<rparr>"

definition date_of :: "datetime \<Rightarrow> pydate" where
  "date_of t = \<lparr>date_year = dt_year t, date_month = dt_month t, date_day = dt_day t\<rparr>"

definition make_date :: "nat \<Rightarrow> nat \<Rightarrow> nat \<Rightarrow> pydate option" where
  "make_date y m d =
     (let r = \<lparr>date_year = y, date_month = m, date_day = d\<rparr> in if valid_datetime (midnight r) then Some r else None)"

definition date_isoformat :: "pydate \<Rightarrow> string" where
  "date_isoformat d = fixed 4 (date_year d) @ CHR ''-'' # fixed 2 (date_month d) @ CHR ''-'' # fixed 2 (date_day d)"

text \<open>Monday of the first week that has a Thursday of the year, counted from the first of January.\<close>

definition week_shift :: "nat \<Rightarrow> int" where
  "week_shift y = (let w = int (days_of_date y 1 1 + 6) mod 7 in if 3 < w then 7 - w else - w)"

definition week_date :: "nat \<Rightarrow> nat \<Rightarrow> nat \<Rightarrow> pydate option" where
  "week_date y w d =
     (let first = (days_of_date y 1 1 + 6) mod 7;
          weeks = (if first = 3 \<or> first = 2 \<and> is_leap y then 53 else 52)
      in if 1 \<le> y \<and> 1 \<le> w \<and> w \<le> weeks \<and> 1 \<le> d \<and> d \<le> 7
         then map_option date_of
                (add_days (week_shift y + int ((w - 1) * 7 + (d - 1))) (midnight \<lparr>date_year = y, date_month = 1, date_day = 1\<rparr>))
         else None)"

definition opt_dash :: "bool \<Rightarrow> string \<Rightarrow> string option" where
  "opt_dash sep s = (if sep then expect (CHR ''-'') s else Some s)"

definition date_fromisoformat :: "string \<Rightarrow> pydate option" where
  "date_fromisoformat s =
     do { (y, s1) \<leftarrow> scan 4 s;
          let sep = (s1 \<noteq> [] \<and> hd s1 = CHR ''-'');
          s2 \<leftarrow> opt_dash sep s1;
          if s2 \<noteq> [] \<and> hd s2 = CHR ''W'' then
            do { (w, s3) \<leftarrow> scan 2 (tl s2);
                 if s3 = [] then week_date y w 1
                 else do { s4 \<leftarrow> opt_dash sep s3; (d, s5) \<leftarrow> scan 1 s4; if s5 = [] then week_date y w d else None } }
          else
            do { (m, s3) \<leftarrow> scan 2 s2; s4 \<leftarrow> opt_dash sep s3; (d, s5) \<leftarrow> scan 2 s4;
                 if s5 = [] then make_date y m d else None } }"

lemma hd_fixed: "0 < w \<Longrightarrow> is_digit (hd (fixed w n))"
  using digits_fixed [of w n] by (simp add: list_all_iff)

lemma make_date_fields: "make_date y m d = Some r \<longleftrightarrow> valid_datetime (midnight r) \<and> date_year r = y \<and> date_month r = m \<and> date_day r = d"
  by (cases r) (auto simp: make_date_def Let_def)

lemma date_roundtrip: "valid_datetime (midnight d) \<Longrightarrow> date_fromisoformat (date_isoformat d) = Some d"
proof -
  assume v: "valid_datetime (midnight d)"
  then have "date_day d \<le> 31"
    by (auto simp: valid_datetime_def month_lengths_def midnight_def nth_Cons' split: if_splits)
  with v have b: "date_year d < 10 ^ 4" "date_month d < 10 ^ 2" "date_day d < 10 ^ 2"
    by (auto simp: valid_datetime_def midnight_def)
  have "hd (fixed 2 (date_month d) @ s) \<noteq> CHR ''W''" for s
    using hd_fixed [of 2 "date_month d"] by (auto simp: is_digit_def)
  moreover have "scan 2 (fixed 2 (date_day d)) = Some (date_day d, [])"
    using scan_fixed [of 2 "date_day d" "[]"] b by simp
  ultimately show ?thesis using v b
    by (cases d) (simp add: date_fromisoformat_def date_isoformat_def opt_dash_def make_date_def Let_def)
qed

definition month_day_ok :: "datetime \<Rightarrow> bool" where
  "month_day_ok d \<longleftrightarrow> 1 \<le> dt_month d \<and> dt_month d \<le> 12 \<and> 1 \<le> dt_day d \<and> dt_day d \<le> month_lengths (dt_year d) ! (dt_month d - 1)"

lemma month_lengths_ends: "month_lengths y ! 0 = 31" "month_lengths y ! 11 = 31"
  by (simp_all add: month_lengths_def nth_Cons')

lemma month_day_next: "month_day_ok d \<Longrightarrow> month_day_ok (next_day d)"
  using month_length_pos [of "dt_month d + 1" "dt_year d"]
  by (auto simp: month_day_ok_def next_day_def month_lengths_ends)

lemma month_day_prev: "month_day_ok d \<Longrightarrow> month_day_ok (prev_day d)"
  using month_length_pos [of "dt_month d - 1" "dt_year d"]
  by (auto simp: month_day_ok_def prev_day_def month_lengths_ends numeral_2_eq_2)

lemma month_day_funpow: "(\<And>d. month_day_ok d \<Longrightarrow> month_day_ok (f d)) \<Longrightarrow> month_day_ok d \<Longrightarrow> month_day_ok ((f ^^ n) d)"
  by (induction n) auto

lemma add_days_month_day: "month_day_ok d \<Longrightarrow> add_days n d = Some r \<Longrightarrow> month_day_ok r \<and> 1 \<le> dt_year r \<and> dt_year r \<le> 9999"
  by (auto simp: add_days_def Let_def month_day_funpow month_day_next month_day_prev split: if_splits)

lemma valid_midnight: "month_day_ok r \<and> 1 \<le> dt_year r \<and> dt_year r \<le> 9999 \<Longrightarrow> valid_datetime (midnight (date_of r))"
  by (simp add: valid_datetime_def midnight_def date_of_def month_day_ok_def)

lemma week_date_valid:
  assumes "week_date y w d = Some r"
  shows "valid_datetime (midnight r)"
proof -
  obtain n r' where "add_days n (midnight \<lparr>date_year = y, date_month = 1, date_day = 1\<rparr>) = Some r'" "r = date_of r'"
    using assms unfolding week_date_def Let_def by (auto split: if_split_asm)
  moreover have "month_day_ok (midnight \<lparr>date_year = y, date_month = 1, date_day = 1\<rparr>)"
    by (simp add: month_day_ok_def midnight_def month_lengths_ends)
  ultimately show ?thesis using add_days_month_day valid_midnight by blast
qed

lemma date_fromisoformat_valid: "date_fromisoformat s = Some d \<Longrightarrow> valid_datetime (midnight d)"
  by (auto simp: date_fromisoformat_def Let_def week_date_valid make_date_fields split: bind_splits if_splits)

end
