(* ===== verification/Okh_Manifest.thy ===== *)
theory Okh_Manifest imports Uuid_Repair Py_Date begin

text \<open>
  The manifest of a design (\<open>models/okh.py\<close>): its data, the agents and documents it names, and its
  dict form. Fields the code neither parses nor checks hold the JSON value they were given. A
  function is \<open>None\<close> where the source raises.
\<close>

section \<open>Text of a Python value\<close>

text \<open>\<open>repr\<close> of a decoded value; \<open>str\<close> differs on strings only.\<close>

definition repr_char :: "char \<Rightarrow> char \<Rightarrow> string" where
  "repr_char q c =
     (let n = of_char c :: nat in
      if c = q \<or> n = 92 then [char_of (92 :: nat), c]
      else if n = 9 then [char_of (92 :: nat), CHR ''t'']
      else if n = 10 then [char_of (92 :: nat), CHR ''n'']
      else if n = 13 then [char_of (92 :: nat), CHR ''r'']
      else if n < 32 \<or> (127 \<le> n \<and> n \<le> 160) \<or> n = 173
        then [char_of (92 :: nat), CHR ''x'', hex_digit (n div 16), hex_digit (n mod 16)]
      else [c])"

definition repr_string :: "string \<Rightarrow> string" where
  "repr_string s =
     (let single = char_of (39 :: nat); double = char_of (34 :: nat);
          q = (if single \<in> set s \<and> double \<notin> set s then double else single)
      in q # concat (map (repr_char q) s) @ [q])"

fun py_repr :: "json \<Rightarrow> string" where
  "py_repr JNull = ''None''"
| "py_repr (JBool b) = (if b then ''True'' else ''False'')"
| "py_repr (JInt i) = int_text i"
| "py_repr (JFloat s) = s"
| "py_repr (JStr s) = repr_string s"
| "py_repr (JList xs) = ''['' @ join '', '' (map py_repr xs) @ '']''"
| "py_repr (JObj d) = ''{'' @ join '', '' (map (\<lambda>(k, v). repr_string k @ '': '' @ py_repr v) d) @ ''}''"

definition str_of :: "json \<Rightarrow> string" where
  "str_of j = (case j of JStr s \<Rightarrow> s | _ \<Rightarrow> py_repr j)"

text \<open>\<open>d.get(k, default)\<close>, and a field that is set when it is there and not \<open>None\<close>.\<close>

definition get_default :: "doc \<Rightarrow> string \<Rightarrow> json \<Rightarrow> json" where
  "get_default d k dflt = (case map_of d k of None \<Rightarrow> dflt | Some v \<Rightarrow> v)"

definition field_or :: "doc \<Rightarrow> string \<Rightarrow> json \<Rightarrow> json" where
  "field_or d k dflt = (if jget d k = JNull then dflt else jget d k)"

text \<open>The items of \<open>for x in value\<close>.\<close>

fun items_of :: "json \<Rightarrow> json list option" where
  "items_of (JList xs) = Some xs"
| "items_of (JStr s) = Some (map (\<lambda>c. JStr [c]) s)"
| "items_of (JObj d) = Some (map (\<lambda>(k, v). JStr k) d)"
| "items_of _ = None"

text \<open>\<open>[f(x) for x in xs]\<close> where \<open>f\<close> may raise.\<close>

fun map_opt :: "('a \<Rightarrow> 'b option) \<Rightarrow> 'a list \<Rightarrow> 'b list option" where
  "map_opt f [] = Some []"
| "map_opt f (x # xs) = do { y \<leftarrow> f x; ys \<leftarrow> map_opt f xs; Some (y # ys) }"

section \<open>Documents\<close>

datatype documentation_type =
    DESIGN_FILES | MANUFACTURING_FILES | MAINTENANCE_INSTRUCTIONS | DISPOSAL_INSTRUCTIONS | SOFTWARE
  | RISK_ASSESSMENT | SCHEMATICS | MAKING_INSTRUCTIONS | DOCUMENTATION_HOME | TECHNICAL_SPECIFICATIONS
  | OPERATING_INSTRUCTIONS | PUBLICATIONS | REPAIR_GUIDE | DISASSEMBLY_GUIDE | PARTS_CATALOG
  | SERVICE_MANUAL | TROUBLESHOOTING_GUIDE | OPERATIONS_MANUAL

fun doc_type_value :: "documentation_type \<Rightarrow> string" where
  "doc_type_value DESIGN_FILES = ''design-files''"
| "doc_type_value MANUFACTURING_FILES = ''manufacturing-files''"
| "doc_type_value MAINTENANCE_INSTRUCTIONS = ''maintenance-instructions''"
| "doc_type_value DISPOSAL_INSTRUCTIONS = ''disposal-instructions''"
| "doc_type_value SOFTWARE = ''software''"
| "doc_type_value RISK_ASSESSMENT = ''risk-assessment''"
| "doc_type_value SCHEMATICS = ''schematics''"
| "doc_type_value MAKING_INSTRUCTIONS = ''making-instructions''"
| "doc_type_value DOCUMENTATION_HOME = ''documentation-home''"
| "doc_type_value TECHNICAL_SPECIFICATIONS = ''technical-specifications''"
| "doc_type_value OPERATING_INSTRUCTIONS = ''operating-instructions''"
| "doc_type_value PUBLICATIONS = ''publications''"
| "doc_type_value REPAIR_GUIDE = ''repair-guide''"
| "doc_type_value DISASSEMBLY_GUIDE = ''disassembly-guide''"
| "doc_type_value PARTS_CATALOG = ''parts-catalog''"
| "doc_type_value SERVICE_MANUAL = ''service-manual''"
| "doc_type_value TROUBLESHOOTING_GUIDE = ''troubleshooting-guide''"
| "doc_type_value OPERATIONS_MANUAL = ''operations-manual''"

definition doc_types :: "documentation_type list" where
  "doc_types = [DESIGN_FILES, MANUFACTURING_FILES, MAINTENANCE_INSTRUCTIONS, DISPOSAL_INSTRUCTIONS, SOFTWARE,
     RISK_ASSESSMENT, SCHEMATICS, MAKING_INSTRUCTIONS, DOCUMENTATION_HOME, TECHNICAL_SPECIFICATIONS,
     OPERATING_INSTRUCTIONS, PUBLICATIONS, REPAIR_GUIDE, DISASSEMBLY_GUIDE, PARTS_CATALOG, SERVICE_MANUAL,
     TROUBLESHOOTING_GUIDE, OPERATIONS_MANUAL]"

definition legacy_doc_type :: "string \<Rightarrow> documentation_type option" where
  "legacy_doc_type v = map_of
     [(''user-manual'', OPERATING_INSTRUCTIONS), (''tool-settings'', MAKING_INSTRUCTIONS),
      (''quality-instructions'', TECHNICAL_SPECIFICATIONS)] v"

definition doc_type_of :: "json \<Rightarrow> documentation_type option" where
  "doc_type_of j =
     (case j of
        JStr s \<Rightarrow> (case find (\<lambda>t. doc_type_value t = s) doc_types of None \<Rightarrow> legacy_doc_type s | Some t \<Rightarrow> Some t)
      | _ \<Rightarrow> None)"

record document_ref =
  dr_title :: json
  dr_path :: json
  dr_type :: documentation_type
  dr_metadata :: json

definition doc_ref_json :: "document_ref \<Rightarrow> json" where
  "doc_ref_json r = JObj [(''title'', dr_title r), (''path'', dr_path r), (''type'', JStr (doc_type_value (dr_type r))),
     (''metadata'', dr_metadata r)]"

text \<open>\<open>str.isalnum\<close> of one Latin-1 character.\<close>

definition is_alnum :: "char \<Rightarrow> bool" where
  "is_alnum c \<longleftrightarrow>
     (let n = of_char c :: nat in
        (48 \<le> n \<and> n \<le> 57) \<or> (65 \<le> n \<and> n \<le> 90) \<or> (97 \<le> n \<and> n \<le> 122) \<or>
        n \<in> {170, 178, 179, 181, 185, 186, 188, 189, 190} \<or> (192 \<le> n \<and> n \<noteq> 215 \<and> n \<noteq> 247))"

definition valid_extensions :: "string list" where
  "valid_extensions =
     [''.txt'', ''.md'', ''.pdf'', ''.doc'', ''.docx'', ''.rst'', ''.stl'', ''.obj'', ''.3mf'', ''.scad'', ''.step'', ''.stp'',
      ''.kicad_pcb'', ''.kicad_mod'', ''.sch'', ''.brd'', ''.py'', ''.js'', ''.cpp'', ''.c'', ''.h'', ''.json'', ''.yaml'',
      ''.yml'', ''.csv'', ''.tsv'', ''.jpg'', ''.jpeg'', ''.png'', ''.gif'', ''.svg'', ''.sh'', ''.bash'', ''.zsh'', ''.fish'',
      ''.ps1'', ''.bat'', ''.cmd'', ''.lock'', ''.toml'', ''.ini'', ''.conf'', ''.config'']"

definition common_filenames :: "string list" where
  "common_filenames =
     [''readme'', ''license'', ''copying'', ''authors'', ''contributors'', ''changelog'', ''version'', ''install'', ''build'',
      ''makefile'', ''startup'', ''setup'', ''configure'']"

text \<open>\<open>Path(p).stem\<close> of a path without separators.\<close>

definition path_stem :: "string \<Rightarrow> string" where
  "path_stem p =
     (if p = ''.'' then []
      else let tail = takeWhile (\<lambda>c. c \<noteq> CHR ''.'') (rev p); i = length p - Suc (length tail)
           in if CHR ''.'' \<in> set p \<and> 0 < i \<and> tail \<noteq> [] then take i p else p)"

text \<open>
  \<open>DocumentRef.validate\<close> on a path that is a string; \<open>exists\<close> is \<open>os.path.exists\<close> at that moment.
\<close>

definition validate_path :: "(string \<Rightarrow> bool) \<Rightarrow> string \<Rightarrow> bool" where
  "validate_path exists p =
     (let isabs = starts_with ''/'' p
      in if starts_with ''http://'' p \<or> starts_with ''https://'' p then True
         else if isabs \<and> exists p then True
         else if exists p then True
         else if \<not> isabs \<and> CHR ''/'' \<in> set p then True
         else if \<not> isabs \<and> CHR ''/'' \<notin> set p \<and> list_ex exists [p, ''docs/'' @ p, ''documentation/'' @ p, ''manual/'' @ p] then True
         else if \<not> isabs \<and>
           (list_ex (\<lambda>e. ends_with e (lower p)) valid_extensions \<or> lower (path_stem p) \<in> set common_filenames \<or>
            CHR ''/'' \<notin> set p \<and> CHR ''.'' \<in> set p) then True
         else \<not> isabs \<and> p \<noteq> [] \<and> strip p \<noteq> [] \<and> list_ex is_alnum p)"

definition doc_ref_validate :: "(string \<Rightarrow> bool) \<Rightarrow> document_ref \<Rightarrow> bool option" where
  "doc_ref_validate exists r = (case dr_path r of JStr p \<Rightarrow> Some (validate_path exists p) | _ \<Rightarrow> None)"

text \<open>One entry of a document field; \<open>strict\<close> fields refuse what is neither a string nor a dict.\<close>

definition read_doc_ref :: "documentation_type \<Rightarrow> json \<Rightarrow> document_ref option" where
  "read_doc_ref t j =
     (case j of
        JStr s \<Rightarrow> Some \<lparr>dr_title = JStr s, dr_path = JStr [], dr_type = t, dr_metadata = JObj []\<rparr>
      | JObj d \<Rightarrow>
          map_option (\<lambda>t'. \<lparr>dr_title = get_default d ''title'' (JStr []), dr_path = get_default d ''path'' (JStr []), dr_type = t',
                          dr_metadata = get_default d ''metadata'' (JObj [])\<rparr>)
            (doc_type_of (get_default d ''type'' (JStr (doc_type_value t))))
      | _ \<Rightarrow> None)"

definition read_guide_ref :: "json \<Rightarrow> document_ref option" where
  "read_guide_ref j =
     (case j of
        JStr s \<Rightarrow> Some \<lparr>dr_title = JStr s, dr_path = JStr [], dr_type = DISASSEMBLY_GUIDE, dr_metadata = JObj []\<rparr>
      | JObj d \<Rightarrow>
          Some \<lparr>dr_title = get_default d ''title'' (JStr []), dr_path = get_default d ''path'' (JStr []), dr_type = DISASSEMBLY_GUIDE,
                dr_metadata = get_default d ''metadata'' (JObj [])\<rparr>
      | _ \<Rightarrow> None)"

end
