(* ===== verification/Okh_Agents.thy ===== *)
theory Okh_Agents imports Okh_Manifest begin

text \<open>
  Licences, people and organisations of a manifest (\<open>models/okh.py\<close>): how \<open>_parse_person\<close> and
  \<open>_parse_agent\<close> read them, with the regular expression of a person's text as the backtracking
  match it is, and how \<open>_convert_agent_to_dict\<close> writes them.
\<close>

section \<open>Licences\<close>

record license_data =
  li_hardware :: json
  li_documentation :: json
  li_software :: json

definition license_json :: "license_data \<Rightarrow> json" where
  "license_json l = JObj [(''hardware'', li_hardware l), (''documentation'', li_documentation l), (''software'', li_software l)]"

definition license_validate :: "license_data \<Rightarrow> bool" where
  "license_validate l = list_ex truthy [li_hardware l, li_documentation l, li_software l]"

definition read_license :: "json \<Rightarrow> license_data" where
  "read_license j =
     (case j of
        JStr s \<Rightarrow> \<lparr>li_hardware = j, li_documentation = j, li_software = j\<rparr>
      | JObj d \<Rightarrow> \<lparr>li_hardware = jget d ''hardware'', li_documentation = jget d ''documentation'', li_software = jget d ''software''\<rparr>
      | _ \<Rightarrow> \<lparr>li_hardware = JNull, li_documentation = JNull, li_software = JNull\<rparr>)"

section \<open>People\<close>

record person =
  pn_name :: json
  pn_email :: json
  pn_affiliation :: json
  pn_social :: json

definition person_json :: "person \<Rightarrow> json" where
  "person_json p = JObj [(''name'', pn_name p), (''email'', pn_email p), (''affiliation'', pn_affiliation p), (''social'', pn_social p)]"

definition person_of_dict :: "doc \<Rightarrow> person" where
  "person_of_dict d = \<lparr>pn_name = get_default d ''name'' (JStr []), pn_email = jget d ''email'', pn_affiliation = jget d ''affiliation'',
     pn_social = get_default d ''social'' (JList [])\<rparr>"

text \<open>
  The expression \<open>(.*?)(?:\s+\((.*?)\))?\s*(?:<(.+?)>)?$\<close>, piece by piece from the right. Each
  function tries the alternatives in the order of the matcher; a dot does not match a line break and
  \<open>$\<close> also stands before a final one.
\<close>

definition newline :: char where "newline = char_of (10 :: nat)"

definition at_end :: "string \<Rightarrow> bool" where
  "at_end s \<longleftrightarrow> s = [] \<or> s = [newline]"

fun first_some :: "('a \<Rightarrow> 'b option) \<Rightarrow> 'a list \<Rightarrow> 'b option" where
  "first_some f [] = None"
| "first_some f (x # xs) = (case f x of None \<Rightarrow> first_some f xs | Some y \<Rightarrow> Some y)"

text \<open>The lengths a lazy run of dots can take, shortest first.\<close>

definition dots :: "string \<Rightarrow> nat list" where
  "dots s = [0..<Suc (length (takeWhile (\<lambda>c. c \<noteq> newline) s))]"

definition match_angle :: "string \<Rightarrow> string option option" where
  "match_angle s =
     (case (if s \<noteq> [] \<and> hd s = CHR ''<'' then
              first_some (\<lambda>j. let t = drop j (tl s) in
                  if 1 \<le> j \<and> t \<noteq> [] \<and> hd t = CHR ''>'' \<and> at_end (tl t) then Some (Some (take j (tl s))) else None)
                (dots (tl s))
            else None) of
        Some g \<Rightarrow> Some g
      | None \<Rightarrow> if at_end s then Some None else None)"

definition spaces_down :: "nat \<Rightarrow> string \<Rightarrow> nat list" where
  "spaces_down k s = rev [k..<Suc (length (takeWhile is_space s))]"

definition match_spaces :: "string \<Rightarrow> string option option" where
  "match_spaces s = first_some (\<lambda>k. match_angle (drop k s)) (spaces_down 0 s)"

definition match_paren :: "string \<Rightarrow> (string option \<times> string option) option" where
  "match_paren s =
     (case first_some (\<lambda>k. let t = drop k s in
             if t \<noteq> [] \<and> hd t = CHR ''('' then
               first_some (\<lambda>j. let u = drop j (tl t) in
                   if u \<noteq> [] \<and> hd u = CHR '')'' then map_option (\<lambda>e. (Some (take j (tl t)), e)) (match_spaces (tl u)) else None)
                 (dots (tl t))
             else None) (spaces_down 1 s) of
        Some g \<Rightarrow> Some g
      | None \<Rightarrow> map_option (\<lambda>e. (None, e)) (match_spaces s))"

definition match_person :: "string \<Rightarrow> (string \<times> string option \<times> string option) option" where
  "match_person s = first_some (\<lambda>i. map_option (\<lambda>g. (take i s, g)) (match_paren (drop i s))) (dots s)"

definition person_of_text :: "string \<Rightarrow> person option" where
  "person_of_text s =
     map_option (\<lambda>(name, affiliation, email).
         \<lparr>pn_name = JStr (strip name), pn_email = opt_json JStr email, pn_affiliation = opt_json JStr affiliation,
          pn_social = JList []\<rparr>) (match_person s)"

definition parse_person :: "json \<Rightarrow> person option" where
  "parse_person j =
     (if \<not> truthy j then None
      else case j of JObj d \<Rightarrow> Some (person_of_dict d) | JStr s \<Rightarrow> person_of_text s | _ \<Rightarrow> None)"

section \<open>Agents\<close>

record organization =
  og_name :: json
  og_url :: json
  og_email :: json

definition organization_json :: "organization \<Rightarrow> json" where
  "organization_json o' = JObj [(''name'', og_name o'), (''url'', og_url o'), (''email'', og_email o')]"

datatype agent = AgPerson person | AgOrg organization | AgList "agent list" | AgRaw json

fun parse_agent :: "json \<Rightarrow> agent" where
  "parse_agent (JList xs) = (if xs = [] then AgRaw JNull else AgList (map parse_agent xs))"
| "parse_agent (JObj d) =
     (if d = [] then AgRaw JNull
      else if ''name'' \<in> set (keys d) then
        (if list_ex (\<lambda>k. k \<in> set (keys d)) [''email'', ''affiliation'', ''social''] then AgPerson (person_of_dict d)
         else AgOrg \<lparr>og_name = get_default d ''name'' (JStr []), og_url = jget d ''url'', og_email = jget d ''email''\<rparr>)
      else AgRaw (JObj d))"
| "parse_agent (JStr s) =
     (if s = [] then AgRaw JNull
      else case person_of_text s of Some p \<Rightarrow> AgPerson p | None \<Rightarrow> AgOrg \<lparr>og_name = JStr s, og_url = JNull, og_email = JNull\<rparr>)"
| "parse_agent j = (if truthy j then AgRaw j else AgRaw JNull)"

definition agent_truthy :: "agent \<Rightarrow> bool" where
  "agent_truthy a = (case a of AgPerson p \<Rightarrow> True | AgOrg o' \<Rightarrow> True | AgList xs \<Rightarrow> xs \<noteq> [] | AgRaw j \<Rightarrow> truthy j)"

text \<open>
  What \<open>json.dumps\<close> with \<open>default=str\<close> makes of agents that \<open>_convert_agent_to_dict\<close> leaves as
  objects: those of a list inside the list.
\<close>

definition field_texts :: "(string \<times> json) list \<Rightarrow> string" where
  "field_texts fs = join '', '' (map (\<lambda>(k, v). k @ ''='' @ py_repr v) fs)"

fun agent_dump :: "agent \<Rightarrow> json" where
  "agent_dump (AgPerson p) = JStr (''Person('' @ field_texts
     [(''name'', pn_name p), (''email'', pn_email p), (''affiliation'', pn_affiliation p), (''social'', pn_social p)] @ '')'')"
| "agent_dump (AgOrg o') = JStr (''Organization('' @ field_texts
     [(''name'', og_name o'), (''url'', og_url o'), (''email'', og_email o')] @ '')'')"
| "agent_dump (AgList xs) = JList (map agent_dump xs)"
| "agent_dump (AgRaw j) = j"

definition agent_item_json :: "agent \<Rightarrow> json" where
  "agent_item_json a = (case a of AgPerson p \<Rightarrow> person_json p | AgOrg o' \<Rightarrow> organization_json o' | _ \<Rightarrow> agent_dump a)"

definition agent_json :: "agent \<Rightarrow> json" where
  "agent_json a =
     (case a of
        AgPerson p \<Rightarrow> person_json p
      | AgOrg o' \<Rightarrow> organization_json o'
      | AgList xs \<Rightarrow> JList (map agent_item_json xs)
      | AgRaw (JStr s) \<Rightarrow> JStr s
      | AgRaw (JList xs) \<Rightarrow> JList xs
      | AgRaw _ \<Rightarrow> JNull)"

section \<open>Reading back what was written\<close>

lemma get_default_simps [simp]: "get_default ((k, v) # d) k' dflt = (if k = k' then v else get_default d k' dflt)" "get_default [] k' dflt = dflt"
  by (auto simp: get_default_def)

lemma jget_simps [simp]: "jget ((k, v) # d) k' = (if k = k' then v else jget d k')" "jget [] k' = JNull"
  by (auto simp: jget_def)

lemma read_license_json [simp]: "read_license (license_json l) = l"
  by (simp add: read_license_def license_json_def)

lemma parse_person_json [simp]: "parse_person (person_json p) = Some p"
  by (simp add: parse_person_def person_json_def person_of_dict_def)

lemma parse_agent_person [simp]: "parse_agent (person_json p) = AgPerson p"
  by (simp add: person_json_def person_of_dict_def)

text \<open>An organisation is written with its \<open>email\<close> key, and a dict with that key is read as a person.\<close>

lemma parse_agent_organization [simp]:
  "parse_agent (organization_json o') =
     AgPerson \<lparr>pn_name = og_name o', pn_email = og_email o', pn_affiliation = JNull, pn_social = JList []\<rparr>"
  by (simp add: organization_json_def person_of_dict_def)

lemma first_some_not_None: "x \<in> set xs \<Longrightarrow> f x \<noteq> None \<Longrightarrow> first_some f xs \<noteq> None"
  by (induction xs) (auto split: option.splits)

text \<open>A licensor given as one line of text is always a person.\<close>

lemma person_of_line:
  assumes "newline \<notin> set s"
  shows "person_of_text s \<noteq> None"
proof -
  have e: "match_paren [] = Some (None, None)"
    by (simp add: match_paren_def spaces_down_def match_spaces_def match_angle_def at_end_def)
  have "takeWhile (\<lambda>c. c \<noteq> newline) s = s" using assms by (auto simp: takeWhile_eq_all_conv)
  then have "dots s = [0..<Suc (length s)]" by (simp only: dots_def)
  then have "length s \<in> set (dots s)" by simp
  with e have "match_person s \<noteq> None"
    unfolding match_person_def by (intro first_some_not_None [of "length s"]) simp_all
  then show ?thesis by (auto simp: person_of_text_def)
qed

end
