(* ===== verification/Okh_Record.thy ===== *)
theory Okh_Record imports Okh_Agents begin

text \<open>
  The manifest record of \<open>models/okh.py\<close> with the records it is made of, \<open>OKHManifest.from_dict\<close>,
  \<open>to_dict\<close>, \<open>validate\<close>, and the process requirements matching reads off it. MD5 is \<open>md5\<close>; \<open>fresh k\<close> is
  the random UUID drawn at place \<open>k\<close> of the document: 0 is the manifest, \<open>Suc n\<close> its \<open>n\<close>-th part.
\<close>

section \<open>Materials, processes and standards\<close>

record material_spec =
  mt_id :: json
  mt_name :: json
  mt_quantity :: json
  mt_unit :: json
  mt_notes :: json

definition material_json :: "material_spec \<Rightarrow> json" where
  "material_json m = JObj [(''material_id'', mt_id m), (''name'', mt_name m), (''quantity'', mt_quantity m), (''unit'', mt_unit m),
     (''notes'', mt_notes m)]"

text \<open>The outer \<open>None\<close> would be an exception; an entry that is neither text nor a dict is skipped.\<close>

definition read_material :: "json \<Rightarrow> material_spec option" where
  "read_material j =
     (case j of
        JStr s \<Rightarrow> Some \<lparr>mt_id = JStr [], mt_name = j, mt_quantity = JNull, mt_unit = JNull, mt_notes = JNull\<rparr>
      | JObj d \<Rightarrow> Some \<lparr>mt_id = get_default d ''material_id'' (JStr []), mt_name = get_default d ''name'' (JStr []),
          mt_quantity = jget d ''quantity'', mt_unit = jget d ''unit'', mt_notes = jget d ''notes''\<rparr>
      | _ \<Rightarrow> None)"

record okh_process =
  rq_name :: json
  rq_parameters :: json
  rq_criteria :: json
  rq_tools :: json
  rq_notes :: json

definition process_json :: "okh_process \<Rightarrow> json" where
  "process_json r = JObj [(''process_name'', rq_name r), (''parameters'', rq_parameters r), (''validation_criteria'', rq_criteria r),
     (''required_tools'', rq_tools r), (''notes'', rq_notes r)]"

definition read_process :: "json \<Rightarrow> okh_process option" where
  "read_process j =
     (case j of
        JObj d \<Rightarrow> Some \<lparr>rq_name = get_default d ''process_name'' (JStr []), rq_parameters = get_default d ''parameters'' (JObj []),
          rq_criteria = get_default d ''validation_criteria'' (JObj []), rq_tools = get_default d ''required_tools'' (JList []),
          rq_notes = get_default d ''notes'' (JStr [])\<rparr>
      | _ \<Rightarrow> None)"

record manufacturing_spec =
  ms_joining :: json
  ms_dimensions :: json
  ms_requirements :: "okh_process list"
  ms_quality :: json
  ms_notes :: json

definition spec_json :: "manufacturing_spec \<Rightarrow> json" where
  "spec_json s = JObj [(''joining_processes'', ms_joining s), (''outer_dimensions'', ms_dimensions s),
     (''process_requirements'', JList (map process_json (ms_requirements s))), (''quality_standards'', ms_quality s),
     (''notes'', ms_notes s)]"

definition read_spec :: "json \<Rightarrow> manufacturing_spec option" where
  "read_spec j =
     (case j of
        JObj d \<Rightarrow>
          do { xs \<leftarrow> items_of (get_default d ''process_requirements'' (JList []));
               rs \<leftarrow> map_opt read_process xs;
               Some \<lparr>ms_joining = get_default d ''joining_processes'' (JList []), ms_dimensions = jget d ''outer_dimensions'',
                  ms_requirements = rs, ms_quality = get_default d ''quality_standards'' (JList []), ms_notes = get_default d ''notes'' (JStr [])\<rparr> }
      | _ \<Rightarrow> None)"

record standard_ref =
  sd_title :: json
  sd_publisher :: json
  sd_reference :: json
  sd_certifications :: json

definition standard_json :: "standard_ref \<Rightarrow> json" where
  "standard_json s = JObj [(''standard_title'', sd_title s), (''publisher'', sd_publisher s), (''reference'', sd_reference s),
     (''certifications'', sd_certifications s)]"

definition read_standard :: "json \<Rightarrow> standard_ref option" where
  "read_standard j =
     (case j of
        JStr s \<Rightarrow> Some \<lparr>sd_title = j, sd_publisher = JNull, sd_reference = JNull, sd_certifications = JList []\<rparr>
      | JObj d \<Rightarrow> Some \<lparr>sd_title = get_default d ''standard_title'' (JStr []), sd_publisher = jget d ''publisher'',
          sd_reference = jget d ''reference'', sd_certifications = get_default d ''certifications'' (JList [])\<rparr>
      | _ \<Rightarrow> None)"

record software_ref =
  so_release :: json
  so_guide :: json

definition software_json :: "software_ref \<Rightarrow> json" where
  "software_json s = JObj [(''release'', so_release s), (''installation_guide'', so_guide s)]"

definition read_software :: "json \<Rightarrow> software_ref option" where
  "read_software j =
     (case j of
        JObj d \<Rightarrow> Some \<lparr>so_release = get_default d ''release'' (JStr []), so_guide = jget d ''installation_guide''\<rparr>
      | _ \<Rightarrow> None)"

section \<open>Parts, components and guides\<close>

record okh_part =
  pt_name :: json
  pt_id :: uuid
  pt_source :: json
  pt_export :: json
  pt_auxiliary :: json
  pt_image :: json
  pt_tsdc :: json
  pt_material :: json
  pt_dimensions :: json
  pt_mass :: json
  pt_params :: json

definition as_list :: "json \<Rightarrow> json" where
  "as_list j = (case j of JStr s \<Rightarrow> JList [j] | _ \<Rightarrow> j)"

definition part_json :: "okh_part \<Rightarrow> json" where
  "part_json p = JObj [(''name'', pt_name p), (''id'', JStr (pt_id p)), (''source'', as_list (pt_source p)),
     (''export'', as_list (pt_export p)), (''auxiliary'', as_list (pt_auxiliary p)), (''image'', pt_image p), (''tsdc'', pt_tsdc p),
     (''material'', pt_material p), (''outer_dimensions'', pt_dimensions p), (''mass'', pt_mass p),
     (''manufacturing_params'', pt_params p)]"

definition read_part :: "(string \<Rightarrow> string) \<Rightarrow> uuid \<Rightarrow> json \<Rightarrow> okh_part option" where
  "read_part md5 rnd j =
     (case j of
        JObj d \<Rightarrow>
          do { i \<leftarrow> (case map_of d ''id'' of None \<Rightarrow> Some rnd | Some v \<Rightarrow> coerce_uuid md5 rnd v);
               Some \<lparr>pt_name = get_default d ''name'' (JStr []), pt_id = i, pt_source = get_default d ''source'' (JList []),
                  pt_export = get_default d ''export'' (JList []), pt_auxiliary = get_default d ''auxiliary'' (JList []),
                  pt_image = jget d ''image'', pt_tsdc = get_default d ''tsdc'' (JList []), pt_material = jget d ''material'',
                  pt_dimensions = jget d ''outer_dimensions'', pt_mass = jget d ''mass'',
                  pt_params = get_default d ''manufacturing_params'' (JObj [])\<rparr> }
      | _ \<Rightarrow> None)"

fun read_parts :: "(string \<Rightarrow> string) \<Rightarrow> (nat \<Rightarrow> uuid) \<Rightarrow> json list \<Rightarrow> okh_part list option" where
  "read_parts md5 fresh [] = Some []"
| "read_parts md5 fresh (x # xs) =
     do { p \<leftarrow> read_part md5 (fresh 0) x; ps \<leftarrow> read_parts md5 (\<lambda>n. fresh (Suc n)) xs; Some (p # ps) }"

record design_component =
  oc_name :: json
  oc_quantity :: json
  oc_replaceable :: json
  oc_salvageable :: json
  oc_consumable :: json
  oc_okh_ref :: json
  oc_product_url :: json
  oc_part_number :: json
  oc_notes :: json
  oc_failures :: json
  oc_codes :: json
  oc_repair_notes :: json

definition component_json :: "design_component \<Rightarrow> json" where
  "component_json c = JObj [(''name'', oc_name c), (''quantity'', oc_quantity c), (''replaceable'', oc_replaceable c),
     (''salvageable'', oc_salvageable c), (''consumable'', oc_consumable c), (''okh_ref'', oc_okh_ref c),
     (''product_url'', oc_product_url c), (''part_number'', oc_part_number c), (''notes'', oc_notes c),
     (''failure_modes'', oc_failures c), (''diagnostic_codes'', oc_codes c), (''repair_notes'', oc_repair_notes c)]"

definition plain_component :: "json \<Rightarrow> design_component" where
  "plain_component name = \<lparr>oc_name = name, oc_quantity = JInt 1, oc_replaceable = JBool False, oc_salvageable = JBool False,
     oc_consumable = JBool False, oc_okh_ref = JNull, oc_product_url = JNull, oc_part_number = JNull, oc_notes = JNull,
     oc_failures = JList [], oc_codes = JList [], oc_repair_notes = JNull\<rparr>"

definition read_component :: "json \<Rightarrow> design_component option" where
  "read_component j =
     (case j of
        JStr s \<Rightarrow> Some (plain_component j)
      | JObj d \<Rightarrow> Some \<lparr>oc_name = get_default d ''name'' (JStr []), oc_quantity = get_default d ''quantity'' (JInt 1),
          oc_replaceable = get_default d ''replaceable'' (JBool False), oc_salvageable = get_default d ''salvageable'' (JBool False),
          oc_consumable = get_default d ''consumable'' (JBool False), oc_okh_ref = jget d ''okh_ref'',
          oc_product_url = jget d ''product_url'', oc_part_number = jget d ''part_number'', oc_notes = jget d ''notes'',
          oc_failures = get_default d ''failure_modes'' (JList []), oc_codes = get_default d ''diagnostic_codes'' (JList []),
          oc_repair_notes = jget d ''repair_notes''\<rparr>
      | _ \<Rightarrow> None)"

record repair_guide =
  rg_title :: json
  rg_path :: json
  rg_source :: json
  rg_author :: json
  rg_skill :: json
  rg_minutes :: json
  rg_tools :: json
  rg_safety :: json
  rg_components :: json
  rg_models :: json
  rg_metadata :: json

definition guide_json :: "repair_guide \<Rightarrow> json" where
  "guide_json g = JObj [(''title'', rg_title g), (''path'', rg_path g), (''source'', rg_source g), (''author'', rg_author g),
     (''skill_level'', rg_skill g), (''estimated_time_minutes'', rg_minutes g), (''tools_required'', rg_tools g),
     (''safety_prerequisites'', rg_safety g), (''applies_to_components'', rg_components g), (''applies_to_models'', rg_models g),
     (''metadata'', rg_metadata g)]"

definition read_guide :: "json \<Rightarrow> repair_guide option" where
  "read_guide j =
     (case j of
        JObj g \<Rightarrow> Some \<lparr>rg_title = get_default g ''title'' (JStr []), rg_path = get_default g ''path'' (JStr []), rg_source = jget g ''source'',
          rg_author = jget g ''author'', rg_skill = jget g ''skill_level'', rg_minutes = jget g ''estimated_time_minutes'',
          rg_tools = get_default g ''tools_required'' (JList []), rg_safety = get_default g ''safety_prerequisites'' (JList []),
          rg_components = get_default g ''applies_to_components'' (JList []), rg_models = get_default g ''applies_to_models'' (JList []),
          rg_metadata = get_default g ''metadata'' (JObj [])\<rparr>
      | _ \<Rightarrow> None)"

end
