(* ===== verification/Okh_Dict.thy ===== *)
theory Okh_Dict imports Okh_Record begin

text \<open>
  \<open>OKHManifest\<close> of \<open>models/okh.py\<close>: the record, \<open>from_dict\<close>, \<open>to_dict\<close>, \<open>validate\<close>, and what the
  other services read off it.
\<close>

record design_manifest =
  om_title :: json
  om_version :: json
  om_license :: license_data
  om_licensor :: agent
  om_language :: json
  om_function :: json
  om_repo :: json
  om_id :: uuid
  om_okhv :: json
  om_data_source :: json
  om_description :: json
  om_intended_use :: json
  om_keywords :: "string list"
  om_project_link :: json
  om_health_safety :: json
  om_contact :: "person option"
  om_contributors :: "person option list"
  om_organization :: agent
  om_image :: json
  om_version_date :: "pydate option"
  om_readme :: json
  om_contribution_guide :: json
  om_stage :: json
  om_attestation :: json
  om_technology_level :: json
  om_documentation_level :: json
  om_manufacturing_files :: "document_ref list"
  om_documentation_home :: json
  om_archive :: json
  om_design_files :: "document_ref list"
  om_making :: "document_ref list"
  om_operating :: "document_ref list"
  om_specifications :: "document_ref list"
  om_publications :: "document_ref list"
  om_tool_list :: "string list"
  om_processes :: "string list"
  om_materials :: "material_spec list"
  om_specs :: "manufacturing_spec option"
  om_bom :: json
  om_standards :: "standard_ref list"
  om_patent_class :: json
  om_tsdc :: json
  om_parts :: "okh_part list"
  om_components :: "design_component list"
  om_repair_guides :: "repair_guide list"
  om_disassembly :: "document_ref list"
  om_compatible :: "string list"
  om_derivative_of :: json
  om_variant_of :: json
  om_sub_parts :: json
  om_software :: "software_ref list"
  om_metadata :: json
  om_domain :: json

section \<open>Lists of text\<close>

definition coerce_entry :: "string list \<Rightarrow> json \<Rightarrow> string option" where
  "coerce_entry ks j =
     (case j of
        JStr s \<Rightarrow> (if strip s \<noteq> [] then Some (strip s) else None)
      | JObj d \<Rightarrow> first_some (\<lambda>k. case jget d k of JStr s \<Rightarrow> if strip s \<noteq> [] then Some (strip s) else None | _ \<Rightarrow> None) ks
      | _ \<Rightarrow> None)"

definition coerce_tool_list_entry :: "json \<Rightarrow> string option" where
  "coerce_tool_list_entry = coerce_entry [''title'', ''name'', ''path'', ''tool'', ''label'']"

definition coerce_process_list_entry :: "json \<Rightarrow> string option" where
  "coerce_process_list_entry = coerce_entry [''process_name'', ''name'', ''title'', ''uri'', ''id'']"

definition coerce_keyword_entry :: "json \<Rightarrow> string option" where
  "coerce_keyword_entry = coerce_entry [''keyword'', ''name'', ''title'', ''label'', ''text'']"

definition normalize_string_list :: "(json \<Rightarrow> string option) \<Rightarrow> json \<Rightarrow> string list" where
  "normalize_string_list f j =
     (case j of JList xs \<Rightarrow> List.map_filter (\<lambda>x. case f x of Some s \<Rightarrow> if s = [] then None else Some s | None \<Rightarrow> None) xs | _ \<Rightarrow> [])"

section \<open>Reading a manifest\<close>

text \<open>A list field: absent or \<open>None\<close> leaves the default, the empty list.\<close>

definition read_list :: "doc \<Rightarrow> string \<Rightarrow> (json list \<Rightarrow> 'a list option) \<Rightarrow> 'a list option" where
  "read_list d k f = (if jget d k = JNull then Some [] else Option.bind (items_of (jget d k)) f)"

definition only_list :: "json \<Rightarrow> json" where
  "only_list j = (case j of JList xs \<Rightarrow> j | _ \<Rightarrow> JList [])"

definition read_version_date :: "json \<Rightarrow> pydate option option" where
  "read_version_date j =
     (if \<not> truthy j then Some None
      else case j of JStr s \<Rightarrow> map_option Some (date_fromisoformat s) | _ \<Rightarrow> None)"

definition read_manifest_id :: "(string \<Rightarrow> string) \<Rightarrow> uuid \<Rightarrow> doc \<Rightarrow> uuid option" where
  "read_manifest_id md5 rnd d = (if truthy (jget d ''id'') then coerce_uuid md5 rnd (jget d ''id'') else Some rnd)"

definition read_compatible :: "json \<Rightarrow> string list" where
  "read_compatible j = (case j of JList xs \<Rightarrow> map str_of (filter truthy xs) | _ \<Rightarrow> [])"

definition doc_refs_of :: "doc \<Rightarrow> string \<Rightarrow> documentation_type \<Rightarrow> document_ref list option" where
  "doc_refs_of d k t = read_list d k (map_opt (read_doc_ref t))"

text \<open>The instance with its fields set, from the dict and the values that were parsed before.\<close>

definition manifest_of ::
  "doc \<Rightarrow> uuid \<Rightarrow> person option list \<Rightarrow> pydate option \<Rightarrow> document_ref list \<Rightarrow> document_ref list \<Rightarrow> document_ref list \<Rightarrow>
   document_ref list \<Rightarrow> document_ref list \<Rightarrow> document_ref list \<Rightarrow> material_spec list \<Rightarrow> manufacturing_spec option \<Rightarrow>
   okh_part list \<Rightarrow> design_component list \<Rightarrow> standard_ref list \<Rightarrow> software_ref list \<Rightarrow> repair_guide list \<Rightarrow> document_ref list \<Rightarrow> design_manifest" where
  "manifest_of d i contributors version_date manufacturing design making operating technical publications materials specs parts components standards software guides disassembly =
     \<lparr>om_title = get_default d ''title'' (JStr []), om_version = get_default d ''version'' (JStr []),
     om_license = read_license (get_default d ''license'' (JObj [])), om_licensor = parse_agent (jget d ''licensor''),
     om_language = get_default d ''documentation_language'' (JStr []), om_function = get_default d ''function'' (JStr []),
     om_repo = jget d ''repo'', om_id = i, om_okhv = field_or d ''okhv'' (JStr ''OKH-LOSHv1.0''),
     om_data_source = jget d ''data_source'', om_description = jget d ''description'',
     om_intended_use = jget d ''intended_use'',
     om_keywords = normalize_string_list coerce_keyword_entry (jget d ''keywords''),
     om_project_link = jget d ''project_link'', om_health_safety = jget d ''health_safety_notice'',
     om_contact = parse_person (jget d ''contact''), om_contributors = contributors,
     om_organization = parse_agent (jget d ''organization''), om_image = jget d ''image'',
     om_version_date = version_date, om_readme = jget d ''readme'',
     om_contribution_guide = jget d ''contribution_guide'', om_stage = jget d ''development_stage'',
     om_attestation = jget d ''attestation'', om_technology_level = jget d ''technology_readiness_level'',
     om_documentation_level = jget d ''documentation_readiness_level'', om_manufacturing_files = manufacturing,
     om_documentation_home = jget d ''documentation_home'', om_archive = jget d ''archive_download'',
     om_design_files = design, om_making = making, om_operating = operating, om_specifications = technical,
     om_publications = publications, om_tool_list = normalize_string_list coerce_tool_list_entry (jget d ''tool_list''),
     om_processes = normalize_string_list coerce_process_list_entry (jget d ''manufacturing_processes''),
     om_materials = materials, om_specs = specs, om_bom = jget d ''bom'', om_standards = standards,
     om_patent_class = jget d ''cpc_patent_class'', om_tsdc = only_list (jget d ''tsdc''), om_parts = parts,
     om_components = components, om_repair_guides = guides, om_disassembly = disassembly,
     om_compatible = read_compatible (jget d ''compatible_manifest_ids''),
     om_derivative_of = jget d ''derivative_of'', om_variant_of = jget d ''variant_of'',
     om_sub_parts = only_list (jget d ''sub_parts''), om_software = software,
     om_metadata = field_or d ''metadata'' (JObj []), om_domain = jget d ''domain''\<rparr>"

definition manifest_from_dict :: "(string \<Rightarrow> string) \<Rightarrow> (nat \<Rightarrow> uuid) \<Rightarrow> doc \<Rightarrow> design_manifest option" where
  "manifest_from_dict md5 fresh d =
     do { i \<leftarrow> read_manifest_id md5 (fresh 0) d;
          contributors \<leftarrow> read_list d ''contributors'' (\<lambda>xs. Some (map parse_person xs));
          version_date \<leftarrow> read_version_date (jget d ''version_date'');
          manufacturing \<leftarrow> doc_refs_of d ''manufacturing_files'' MANUFACTURING_FILES;
          design \<leftarrow> doc_refs_of d ''design_files'' DESIGN_FILES;
          making \<leftarrow> doc_refs_of d ''making_instructions'' MAKING_INSTRUCTIONS;
          operating \<leftarrow> doc_refs_of d ''operating_instructions'' OPERATING_INSTRUCTIONS;
          technical \<leftarrow> doc_refs_of d ''technical_specifications'' TECHNICAL_SPECIFICATIONS;
          publications \<leftarrow> doc_refs_of d ''publications'' PUBLICATIONS;
          materials \<leftarrow> read_list d ''materials'' (\<lambda>xs. Some (List.map_filter read_material xs));
          specs \<leftarrow> (if jget d ''manufacturing_specs'' = JNull then Some None
                   else map_option Some (read_spec (jget d ''manufacturing_specs'')));
          parts \<leftarrow> read_list d ''parts'' (read_parts md5 (\<lambda>n. fresh (Suc n)));
          components \<leftarrow> read_list d ''components'' (\<lambda>xs. Some (List.map_filter read_component xs));
          standards \<leftarrow> read_list d ''standards_used'' (map_opt read_standard);
          software \<leftarrow> read_list d ''software'' (map_opt read_software);
          guides \<leftarrow> read_list d ''repair_guides'' (\<lambda>xs. Some (List.map_filter read_guide xs));
          disassembly \<leftarrow> read_list d ''disassembly_guides'' (\<lambda>xs. Some (List.map_filter read_guide_ref xs));
          Some (manifest_of d i contributors version_date manufacturing design
            making operating technical publications materials
            specs parts components standards software guides disassembly) }"

section \<open>Writing a manifest\<close>

definition text_list :: "string list \<Rightarrow> json" where
  "text_list xs = JList (map JStr xs)"

text \<open>A contributor that could not be read is \<open>None\<close>, which has no \<open>to_dict\<close>.\<close>

definition contributors_json :: "person option list \<Rightarrow> json option" where
  "contributors_json cs =
     (if cs = [] then Some JNull else map_option (\<lambda>ps. JList (map person_json ps)) (map_opt id cs))"

definition doc_list :: "document_ref list \<Rightarrow> json" where
  "doc_list rs = JList (map doc_ref_json rs)"

definition manifest_fields :: "design_manifest \<Rightarrow> json \<Rightarrow> doc" where
  "manifest_fields m contributors =
     [(''okhv'', om_okhv m), (''id'', JStr (om_id m)), (''title'', om_title m), (''repo'', om_repo m), (''version'', om_version m),
      (''license'', license_json (om_license m)), (''licensor'', agent_json (om_licensor m)),
      (''documentation_language'', om_language m), (''function'', om_function m),
      (''description'', om_description m), (''intended_use'', om_intended_use m), (''keywords'', text_list (om_keywords m)),
      (''project_link'', om_project_link m), (''health_safety_notice'', om_health_safety m),
      (''contact'', opt_json person_json (om_contact m)), (''contributors'', contributors),
      (''organization'', if agent_truthy (om_organization m) then agent_json (om_organization m) else JNull),
      (''image'', om_image m), (''version_date'', opt_json (\<lambda>d. JStr (date_isoformat d)) (om_version_date m)),
      (''readme'', om_readme m), (''contribution_guide'', om_contribution_guide m), (''development_stage'', om_stage m),
      (''attestation'', om_attestation m), (''technology_readiness_level'', om_technology_level m),
      (''documentation_readiness_level'', om_documentation_level m), (''manufacturing_files'', doc_list (om_manufacturing_files m)),
      (''documentation_home'', om_documentation_home m), (''archive_download'', om_archive m),
      (''design_files'', doc_list (om_design_files m)), (''making_instructions'', doc_list (om_making m)),
      (''operating_instructions'', doc_list (om_operating m)), (''technical_specifications'', doc_list (om_specifications m)),
      (''publications'', doc_list (om_publications m)), (''tool_list'', text_list (om_tool_list m)),
      (''manufacturing_processes'', text_list (om_processes m)), (''materials'', JList (map material_json (om_materials m))),
      (''manufacturing_specs'', opt_json spec_json (om_specs m)), (''bom'', om_bom m),
      (''standards_used'', JList (map standard_json (om_standards m))), (''cpc_patent_class'', om_patent_class m),
      (''tsdc'', om_tsdc m), (''parts'', JList (map part_json (om_parts m))),
      (''components'', JList (map component_json (om_components m))),
      (''repair_guides'', JList (map guide_json (om_repair_guides m))), (''disassembly_guides'', doc_list (om_disassembly m)),
      (''compatible_manifest_ids'', text_list (om_compatible m)), (''derivative_of'', om_derivative_of m),
      (''variant_of'', om_variant_of m), (''sub_parts'', om_sub_parts m),
      (''software'', JList (map software_json (om_software m))), (''metadata'', om_metadata m), (''domain'', om_domain m)]"

definition manifest_to_dict :: "design_manifest \<Rightarrow> doc option" where
  "manifest_to_dict m =
     map_option (\<lambda>cs. filter (\<lambda>(k, v). v \<noteq> JNull) (manifest_fields m cs)) (contributors_json (om_contributors m))"

section \<open>Validation\<close>

datatype manifest_error = MissingFields "string list" | LicenseFailed | InvalidDocument string | BadDocument

definition required_values :: "design_manifest \<Rightarrow> (string \<times> bool) list" where
  "required_values m = [(''title'', truthy (om_title m)), (''version'', truthy (om_version m)), (''license'', True),
     (''licensor'', agent_truthy (om_licensor m)), (''documentation_language'', truthy (om_language m)),
     (''function'', truthy (om_function m))]"

text \<open>\<open>BadDocument\<close> is the \<open>AttributeError\<close> or \<open>TypeError\<close> of a path or title that is no string.\<close>

definition manifest_validate :: "(string \<Rightarrow> bool) \<Rightarrow> design_manifest \<Rightarrow> manifest_error + bool" where
  "manifest_validate exists m =
     (let missing = map fst (filter (\<lambda>(k, b). \<not> b) (required_values m))
      in if missing \<noteq> [] then Inl (MissingFields missing)
         else if \<not> license_validate (om_license m) then Inl LicenseFailed
         else
           let docs = om_manufacturing_files m @ om_design_files m @ om_making m @ om_operating m @ om_specifications m @ om_publications m
           in case map_opt (doc_ref_validate exists) docs of
                None \<Rightarrow> Inl BadDocument
              | Some oks \<Rightarrow>
                  (case map_opt (\<lambda>(ok, r). read_str (dr_title r)) (filter (\<lambda>(ok, r). \<not> ok) (zip oks docs)) of
                     None \<Rightarrow> Inl BadDocument
                   | Some [] \<Rightarrow> Inr True
                   | Some (t # ts) \<Rightarrow>
                       if list_ex (\<lambda>s. CHR ''.'' \<in> set s \<or> list_ex is_alnum s) (t # ts) then Inr True
                       else Inl (InvalidDocument t)))"

section \<open>Requirements\<close>

text \<open>
  \<open>part.manufacturing_params.copy()\<close> needs a dict; the material is set in the copy. \<open>for tsdc in part.tsdc\<close>
  iterates whatever the field holds.
\<close>

definition part_requirements :: "okh_part \<Rightarrow> okh_process list option" where
  "part_requirements p =
     do { codes \<leftarrow> items_of (pt_tsdc p);
          map_opt (\<lambda>c. case pt_params p of
              JObj d \<Rightarrow> Some \<lparr>rq_name = c, rq_parameters = JObj (AList.update ''material'' (pt_material p) d), rq_criteria = JObj [],
                 rq_tools = JList [], rq_notes = JStr []\<rparr>
            | _ \<Rightarrow> None) codes }"

definition plain_process :: "string \<Rightarrow> okh_process" where
  "plain_process s = \<lparr>rq_name = JStr s, rq_parameters = JObj [], rq_criteria = JObj [], rq_tools = JList [], rq_notes = JStr []\<rparr>"

definition okh_requirements :: "design_manifest \<Rightarrow> okh_process list option" where
  "okh_requirements m =
     do { ps \<leftarrow> map_opt part_requirements (om_parts m);
          Some ((case om_specs m of None \<Rightarrow> [] | Some s \<Rightarrow> ms_requirements s) @ map plain_process (om_processes m) @ concat ps) }"

text \<open>\<open>code in value\<close> for the field of a manifest or a part.\<close>

definition code_in :: "string \<Rightarrow> json \<Rightarrow> bool option" where
  "code_in c j =
     (case j of JList xs \<Rightarrow> Some (JStr c \<in> set xs) | JStr s \<Rightarrow> Some (contains c s) | JObj d \<Rightarrow> Some (c \<in> set (keys d)) | _ \<Rightarrow> None)"

fun any_part :: "string \<Rightarrow> okh_part list \<Rightarrow> bool option" where
  "any_part c [] = Some False"
| "any_part c (p # ps) = (case code_in c (pt_tsdc p) of None \<Rightarrow> None | Some True \<Rightarrow> Some True | Some False \<Rightarrow> any_part c ps)"

definition has_tsdc :: "string \<Rightarrow> design_manifest \<Rightarrow> bool option" where
  "has_tsdc c m =
     (case code_in c (om_tsdc m) of None \<Rightarrow> None | Some True \<Rightarrow> Some True | Some False \<Rightarrow> any_part c (om_parts m))"

end
