(* ===== verification/Smart_Discovery.thy ===== *)
theory Smart_Discovery imports Uuid_Repair begin

text \<open>
  Finding files in the object store (\<open>storage/smart_discovery.py\<close>). A listing yields objects and may
  then raise: \<open>ls prefix\<close> is what it yields and whether it raises, \<open>None\<close> the listing of the whole
  store. The content of an object is its decoded JSON, \<open>None\<close> when it cannot be read or parsed.
\<close>

record blob =
  bl_key :: string
  bl_size :: int
  bl_modified :: int
  bl_metadata :: doc
  bl_content :: "json option"

type_synonym listing = "string option \<Rightarrow> blob list \<times> bool"

record file_info =
  fi_key :: string
  fi_type :: string
  fi_size :: int
  fi_modified :: int
  fi_metadata :: doc
  fi_validated :: bool

definition file_info_of :: "string \<Rightarrow> bool \<Rightarrow> blob \<Rightarrow> file_info" where
  "file_info_of t validated b = \<lparr>fi_key = bl_key b, fi_type = t, fi_size = bl_size b, fi_modified = bl_modified b,
     fi_metadata = bl_metadata b, fi_validated = validated\<rparr>"

definition base_name :: "string \<Rightarrow> string" where
  "base_name k = rev (takeWhile (\<lambda>c. c \<noteq> CHR ''/'') (rev k))"

definition is_okh_bom_sidecar_storage_key :: "string \<Rightarrow> bool" where
  "is_okh_bom_sidecar_storage_key k =
     (let base = lower (base_name k)
      in if base = ''bom.json'' then True
         else if ends_with ''-bom.json'' base then True
         else starts_with ''bom_'' base \<and> ends_with ''.json'' base)"

section \<open>Content\<close>

definition text_field :: "doc \<Rightarrow> string \<Rightarrow> bool" where
  "text_field d k = (case jget d k of JStr s \<Rightarrow> strip s \<noteq> [] | _ \<Rightarrow> False)"

definition validate_okh_content :: "doc \<Rightarrow> bool" where
  "validate_okh_content d =
     (if \<not> list_all (\<lambda>k. k \<in> set (keys d)) [''title'', ''version'', ''license'', ''function''] then False
      else text_field d ''title'' \<and> text_field d ''version'' \<and>
        (case jget d ''license'' of JObj l \<Rightarrow> l \<noteq> [] | JStr s \<Rightarrow> s \<noteq> [] | _ \<Rightarrow> False) \<and>
        text_field d ''function'' \<and>
        (case jget d ''licensor'' of JStr s \<Rightarrow> strip s \<noteq> [] | JObj l \<Rightarrow> l \<noteq> [] | JList xs \<Rightarrow> xs \<noteq> [] | _ \<Rightarrow> False) \<and>
        (case jget d ''documentation_language'' of
           JStr s \<Rightarrow> strip s \<noteq> []
         | JList xs \<Rightarrow> xs \<noteq> [] \<and> list_ex (\<lambda>x. case x of JStr s \<Rightarrow> strip s \<noteq> [] | JObj l \<Rightarrow> l \<noteq> [] | _ \<Rightarrow> False) xs
         | _ \<Rightarrow> False))"

definition canonical_statuses :: "string list" where
  "canonical_statuses = [''active'', ''inactive'', ''maintenance'', ''planned'', ''temporary_closure'', ''closed'']"

definition validate_okw_content :: "doc \<Rightarrow> bool" where
  "validate_okw_content d =
     (if \<not> text_field d ''id'' then False
      else if ''facility_status'' \<in> set (keys d) then
        (case jget d ''facility_status'' of
           JStr s \<Rightarrow>
             (if map (\<lambda>c. if c = CHR '' '' then CHR ''_'' else c) (lower s) \<notin> set canonical_statuses then False
              else list_ex (\<lambda>k. k \<in> set (keys d)) [''manufacturing_processes'', ''equipment'', ''location'', ''name''])
         | _ \<Rightarrow> False)
      else if list_ex (\<lambda>k. k \<in> set (keys d)) [''appliances'', ''tools'', ''ingredients''] then
        (case jget d ''name'' of JStr s \<Rightarrow> s \<noteq> [] | _ \<Rightarrow> False)
      else False)"

definition validate_supply_tree_content :: "doc \<Rightarrow> bool" where
  "validate_supply_tree_content d =
     (case (jget d ''workflows'', jget d ''connections'') of (JList ws, JList cs) \<Rightarrow> True | _ \<Rightarrow> False)"

text \<open>What is no object fails every validator, or makes one raise, which ends the search.\<close>

definition identify_file_type :: "json option \<Rightarrow> string option" where
  "identify_file_type content =
     (case content of
        Some (JObj d) \<Rightarrow>
          map_option fst (find (\<lambda>(t, v). v d)
            [(''okh'', validate_okh_content), (''okw'', validate_okw_content), (''supply-tree'', validate_supply_tree_content)])
      | _ \<Rightarrow> None)"

section \<open>Strategies\<close>

text \<open>\<open>None\<close> is an exception of the strategy.\<close>

definition directory_prefix :: "string \<Rightarrow> string option" where
  "directory_prefix t = map_of [(''okh'', ''okh/''), (''okw'', ''okw/''), (''supply-tree'', ''supply-trees/''), (''asset'', ''asset/'')] t"

definition discover_by_directory_structure :: "listing \<Rightarrow> string \<Rightarrow> file_info list option" where
  "discover_by_directory_structure ls t =
     (case directory_prefix t of
        None \<Rightarrow> Some []
      | Some prefix \<Rightarrow>
          (case ls (Some prefix) of (objs, raises) \<Rightarrow>
             if raises then None
             else Some (map (file_info_of t False)
                    (filter (\<lambda>b. \<not> (t = ''okh'' \<and> is_okh_bom_sidecar_storage_key (bl_key b))) objs))))"

definition discover_by_metadata :: "listing \<Rightarrow> string \<Rightarrow> file_info list option" where
  "discover_by_metadata ls t =
     Some (map (file_info_of t False)
       (filter (\<lambda>b. list_ex (\<lambda>k. jget (bl_metadata b) k = JStr t) [''file-type'', ''domain'', ''type'']) (fst (ls None))))"

definition discover_by_content_validation :: "listing \<Rightarrow> string \<Rightarrow> file_info list option" where
  "discover_by_content_validation ls t =
     Some (map (file_info_of t True) (filter (\<lambda>b. identify_file_type (bl_content b) = Some t) (fst (ls None))))"

definition filename_patterns :: "string \<Rightarrow> string list" where
  "filename_patterns t =
     (case map_of [(''okh'', [''-okh.json'', ''-okh.yaml'', ''-okh.yml'']), (''okw'', [''-okw.json'', ''-okw.yaml'', ''-okw.yml'']),
        (''supply-tree'', [''-supply-tree.json'', ''-tree.json''])] t of None \<Rightarrow> [] | Some ps \<Rightarrow> ps)"

definition discover_by_filename_convention :: "listing \<Rightarrow> string \<Rightarrow> file_info list option" where
  "discover_by_filename_convention ls t =
     (if filename_patterns t = [] then Some []
      else Some (map (file_info_of t False) (filter (\<lambda>b. list_ex (\<lambda>p. ends_with p (bl_key b)) (filename_patterns t)) (fst (ls None)))))"

fun try_strategies :: "(listing \<Rightarrow> string \<Rightarrow> file_info list option) list \<Rightarrow> listing \<Rightarrow> string \<Rightarrow> file_info list" where
  "try_strategies [] ls t = []"
| "try_strategies (s # ss) ls t = (case s ls t of Some files \<Rightarrow> files | None \<Rightarrow> try_strategies ss ls t)"

definition discover_files :: "listing \<Rightarrow> string \<Rightarrow> file_info list" where
  "discover_files ls t = try_strategies
     [discover_by_directory_structure, discover_by_metadata, discover_by_content_validation, discover_by_filename_convention] ls t"

definition discover_all_files :: "listing \<Rightarrow> file_info list" where
  "discover_all_files ls = concat (map (discover_files ls) [''okh'', ''okw'', ''supply-tree''])"

text \<open>\<open>read\<close> is \<open>get_object\<close> followed by decoding, at that moment.\<close>

definition validate_file_content :: "(string \<Rightarrow> json option) \<Rightarrow> file_info \<Rightarrow> bool" where
  "validate_file_content read fi = (identify_file_type (read (fi_key fi)) = Some (fi_type fi))"

section \<open>The cascade\<close>

lemma discovery_stops:
  "discover_files ls t =
     (case directory_prefix t of
        None \<Rightarrow> []
      | Some prefix \<Rightarrow>
          if snd (ls (Some prefix))
          then map (file_info_of t False)
                 (filter (\<lambda>b. list_ex (\<lambda>k. jget (bl_metadata b) k = JStr t) [''file-type'', ''domain'', ''type'']) (fst (ls None)))
          else map (file_info_of t False)
                 (filter (\<lambda>b. \<not> (t = ''okh'' \<and> is_okh_bom_sidecar_storage_key (bl_key b))) (fst (ls (Some prefix)))))"
  by (auto simp: discover_files_def discover_by_directory_structure_def discover_by_metadata_def split: option.split prod.split)

text \<open>
  The fallbacks of discovery beyond the second do nothing. When the prefix listing raises, the
  scan of the metadata decides, and since it swallows its own exceptions neither the content scan nor
  the file-name scan is ever reached, whatever the store does.
\<close>

theorem discovery_stops_at_metadata:
  "discover_files ls t =
     (case directory_prefix t of
        None \<Rightarrow> []
      | Some prefix \<Rightarrow>
          if snd (ls (Some prefix))
          then map (file_info_of t False)
                 (filter (\<lambda>b. list_ex (\<lambda>k. jget (bl_metadata b) k = JStr t) [''file-type'', ''domain'', ''type'']) (fst (ls None)))
          else map (file_info_of t False)
                 (filter (\<lambda>b. \<not> (t = ''okh'' \<and> is_okh_bom_sidecar_storage_key (bl_key b))) (fst (ls (Some prefix)))))"
  by (rule discovery_stops)

end
