(* ===== verification/Okh_Service.thy ===== *)
theory Okh_Service imports Okh_Dict Smart_Discovery Disclosure Memory_Cache Okw_Service begin

text \<open>
  The design service (\<open>services/okh_service.py\<close>) over the object store, the catalogue cache and the
  stores of visibility and provenance. Storage is configured and its listings do not raise; objects are
  listed in the order in which they were first written. MD5 is \<open>md5\<close>; \<open>fr key k\<close> is the random UUID
  drawn at place \<open>k\<close> while the object at \<open>key\<close> is read, \<open>fr []\<close> those drawn for the argument of a call.
  Times are microseconds; the clock readings of one operation count as one instant \<open>now\<close>.
\<close>

record okh_state =
  os_blobs :: "blob list"
  os_visibility :: "(string \<times> visibility_level option) list"
  os_provenance :: "(string \<times> record_provenance option) list"
  os_cache :: cache_service

datatype okh_error = InvalidManifest | UnwritableManifest | BadTitle | ManifestNotFound uuid | CacheFailed | BadPage

type_synonym draws = "string \<Rightarrow> nat \<Rightarrow> uuid"

definition okh_listing :: "okh_state \<Rightarrow> listing" where
  "okh_listing st prefix =
     ((case prefix of None \<Rightarrow> os_blobs st | Some p \<Rightarrow> filter (\<lambda>b. starts_with p (bl_key b)) (os_blobs st)), False)"

definition read_object :: "okh_state \<Rightarrow> string \<Rightarrow> json option" where
  "read_object st k = Option.bind (find (\<lambda>b. bl_key b = k) (os_blobs st)) bl_content"

section \<open>The catalogue\<close>

text \<open>The dict of one file after the repair of its id; \<open>None\<close> is any exception on the way.\<close>

definition fixed_dict :: "(string \<Rightarrow> string) \<Rightarrow> draws \<Rightarrow> okh_state \<Rightarrow> string \<Rightarrow> doc option" where
  "fixed_dict md5 fr st k =
     (case read_object st k of Some (JObj d) \<Rightarrow> validate_and_fix_data md5 (fr k 0) d | _ \<Rightarrow> None)"

definition load_entry :: "(string \<Rightarrow> string) \<Rightarrow> draws \<Rightarrow> okh_state \<Rightarrow> file_info \<Rightarrow> (file_info \<times> uuid \<times> doc) option" where
  "load_entry md5 fr st fi =
     (case fixed_dict md5 fr st (fi_key fi) of
        None \<Rightarrow> None
      | Some d \<Rightarrow>
          if \<not> validate_okh_content d then None
          else map_option (\<lambda>m. (fi, om_id m, d)) (manifest_from_dict md5 (fr (fi_key fi)) d))"

text \<open>One step of the loop that keeps the newest file of an id.\<close>

definition keep_newest :: "file_info \<times> uuid \<times> doc \<Rightarrow> (uuid \<times> file_info \<times> doc) list \<Rightarrow> (uuid \<times> file_info \<times> doc) list" where
  "keep_newest e winners =
     (case e of (fi, i, raw) \<Rightarrow>
        case map_of winners i of
          None \<Rightarrow> AList.update i (fi, raw) winners
        | Some (fi0, raw0) \<Rightarrow> if fi_modified fi0 < fi_modified fi then AList.update i (fi, raw) winners else winners)"

definition catalog_winners :: "(string \<Rightarrow> string) \<Rightarrow> draws \<Rightarrow> okh_state \<Rightarrow> (uuid \<times> file_info \<times> doc) list" where
  "catalog_winners md5 fr st =
     fold keep_newest (List.map_filter (load_entry md5 fr st) (discover_files (okh_listing st) ''okh'')) []"

definition entry_json :: "string \<times> doc \<Rightarrow> json" where
  "entry_json e = JObj [(''key'', JStr (fst e)), (''manifest'', JObj (snd e))]"

definition assemble_okh_catalog :: "(string \<Rightarrow> string) \<Rightarrow> draws \<Rightarrow> okh_state \<Rightarrow> json" where
  "assemble_okh_catalog md5 fr st =
     JList (map (\<lambda>(i, fi, raw). entry_json (fi_key fi, raw)) (catalog_winners md5 fr st))"

text \<open>\<open>entry["key"]\<close> and \<open>entry["manifest"]\<close> of the cached list.\<close>

definition json_entry :: "json \<Rightarrow> (string \<times> doc) option" where
  "json_entry j =
     (case j of
        JObj d \<Rightarrow> (case (jget d ''key'', jget d ''manifest'') of (JStr k, JObj m) \<Rightarrow> Some (k, m) | _ \<Rightarrow> None)
      | _ \<Rightarrow> None)"

definition json_entries :: "json \<Rightarrow> (string \<times> doc) list" where
  "json_entries j = (case j of JList xs \<Rightarrow> List.map_filter json_entry xs | _ \<Rightarrow> [])"

definition catalog_entries ::
  "(string \<Rightarrow> string) \<Rightarrow> draws \<Rightarrow> pytime \<Rightarrow> okh_state \<Rightarrow> ((string \<times> doc) list \<times> okh_state) option" where
  "catalog_entries md5 fr now st =
     map_option (\<lambda>(j, c). (json_entries j, st\<lparr>os_cache := c\<rparr>))
       (cached now now ''okh'' ''catalog'' ''all'' 120 (assemble_okh_catalog md5 fr st) (os_cache st))"

definition catalog_key :: "cache_service \<Rightarrow> string" where
  "catalog_key c = namespaced_key (key_prefix c) ''okh'' ''catalog'' ''all''"

definition invalidate_catalog_cache :: "okh_state \<Rightarrow> okh_state" where
  "invalidate_catalog_cache st = st\<lparr>os_cache := service_delete (catalog_key (os_cache st)) (os_cache st)\<rparr>"

section \<open>Reading designs\<close>

text \<open>The scan: the first file whose repaired id is the one asked for and which can be read.\<close>

definition scan_for :: "(string \<Rightarrow> string) \<Rightarrow> draws \<Rightarrow> okh_state \<Rightarrow> uuid \<Rightarrow> design_manifest option" where
  "scan_for md5 fr st i =
     first_some (\<lambda>fi. case fixed_dict md5 fr st (fi_key fi) of
         None \<Rightarrow> None
       | Some d \<Rightarrow> if jget d ''id'' = JStr i then manifest_from_dict md5 (fr (fi_key fi)) d else None)
       (discover_files (okh_listing st) ''okh'')"

definition design_get ::
  "(string \<Rightarrow> string) \<Rightarrow> draws \<Rightarrow> pytime \<Rightarrow> uuid \<Rightarrow> okh_state \<Rightarrow> (okh_error + design_manifest option) \<times> okh_state" where
  "design_get md5 fr now i st =
     (case catalog_entries md5 fr now st of
        None \<Rightarrow> (Inl CacheFailed, st)
      | Some (es, st1) \<Rightarrow>
          (case find (\<lambda>(k, d). jget d ''id'' = JStr i) es of
             Some (k, d) \<Rightarrow>
               (case manifest_from_dict md5 (fr k) d of None \<Rightarrow> (Inl InvalidManifest, st1) | Some m \<Rightarrow> (Inr (Some m), st1))
           | None \<Rightarrow> (Inr (scan_for md5 fr st1 i), st1)))"

definition okh_find_key ::
  "(string \<Rightarrow> string) \<Rightarrow> draws \<Rightarrow> pytime \<Rightarrow> uuid \<Rightarrow> okh_state \<Rightarrow> (string option \<times> okh_state) option" where
  "okh_find_key md5 fr now i st =
     map_option (\<lambda>(es, st1).
         (case find (\<lambda>(k, d). jget d ''id'' = JStr i) es of
            Some (k, d) \<Rightarrow> Some k
          | None \<Rightarrow>
              map_option fi_key (find (\<lambda>fi. case read_object st1 (fi_key fi) of Some (JObj d) \<Rightarrow> jget d ''id'' = JStr i | _ \<Rightarrow> False)
                (discover_files (okh_listing st1) ''okh'')), st1))
       (catalog_entries md5 fr now st)"

text \<open>Pages count from 1.\<close>

definition okh_list ::
  "(string \<Rightarrow> string) \<Rightarrow> draws \<Rightarrow> pytime \<Rightarrow> nat \<Rightarrow> nat \<Rightarrow> okh_state \<Rightarrow> (okh_error + design_manifest list \<times> nat) \<times> okh_state" where
  "okh_list md5 fr now page page_size st =
     (case catalog_entries md5 fr now st of
        None \<Rightarrow> (Inl CacheFailed, st)
      | Some (es, st1) \<Rightarrow>
          (case map_opt (\<lambda>(k, d). manifest_from_dict md5 (fr k) d) es of
             None \<Rightarrow> (Inl InvalidManifest, st1)
           | Some ms \<Rightarrow> (Inr (take page_size (drop ((page - 1) * page_size) ms), length ms), st1)))"

definition list_manifests ::
  "(string \<Rightarrow> string) \<Rightarrow> draws \<Rightarrow> pytime \<Rightarrow> nat \<Rightarrow> nat \<Rightarrow> okh_state \<Rightarrow> (okh_error + design_manifest list) \<times> okh_state" where
  "list_manifests md5 fr now limit offset st =
     (if limit = 0 then (Inl BadPage, st)
      else case okh_list md5 fr now (offset div limit + 1) limit st of
        (Inl e, st1) \<Rightarrow> (Inl e, st1)
      | (Inr (ms, n), st1) \<Rightarrow> (Inr ms, st1))"

definition extract_requirements ::
  "(string \<Rightarrow> string) \<Rightarrow> draws \<Rightarrow> pytime \<Rightarrow> uuid \<Rightarrow> okh_state \<Rightarrow> (okh_error + okh_process list) \<times> okh_state" where
  "extract_requirements md5 fr now i st =
     (case design_get md5 fr now i st of
        (Inl e, st1) \<Rightarrow> (Inl e, st1)
      | (Inr None, st1) \<Rightarrow> (Inr [], st1)
      | (Inr (Some m), st1) \<Rightarrow> (case okh_requirements m of None \<Rightarrow> (Inl InvalidManifest, st1) | Some rs \<Rightarrow> (Inr rs, st1)))"

section \<open>Policy objects\<close>

definition okh_get_visibility :: "okh_state \<Rightarrow> uuid \<Rightarrow> visibility_level" where
  "okh_get_visibility st i = (case Option.bind (map_of (os_visibility st) i) id of None \<Rightarrow> legacy_visibility | Some v \<Rightarrow> v)"

definition okh_get_provenance :: "okh_state \<Rightarrow> uuid \<Rightarrow> record_provenance option" where
  "okh_get_provenance st i = Option.bind (map_of (os_provenance st) i) id"

definition okh_save_visibility :: "uuid \<Rightarrow> visibility_level \<Rightarrow> okh_state \<Rightarrow> okh_state" where
  "okh_save_visibility i v st = st\<lparr>os_visibility := AList.update i (Some v) (os_visibility st)\<rparr>"

definition okh_save_provenance :: "uuid \<Rightarrow> record_provenance \<Rightarrow> okh_state \<Rightarrow> okh_state" where
  "okh_save_provenance i p st = st\<lparr>os_provenance := AList.update i (Some p) (os_provenance st)\<rparr>"

definition okh_set_visibility ::
  "(string \<Rightarrow> string) \<Rightarrow> draws \<Rightarrow> pytime \<Rightarrow> uuid \<Rightarrow> visibility_level \<Rightarrow> okh_state \<Rightarrow> (okh_error + visibility_level) \<times> okh_state" where
  "okh_set_visibility md5 fr now i v st =
     (case design_get md5 fr now i st of
        (Inl e, st1) \<Rightarrow> (Inl e, st1)
      | (Inr None, st1) \<Rightarrow> (Inl (ManifestNotFound i), st1)
      | (Inr (Some m), st1) \<Rightarrow> (Inr v, okh_save_visibility i v st1))"

section \<open>Writing designs\<close>

fun put_blob :: "string \<Rightarrow> doc \<Rightarrow> pytime \<Rightarrow> blob list \<Rightarrow> blob list" where
  "put_blob k d now [] = [\<lparr>bl_key = k, bl_size = 0, bl_modified = now, bl_metadata = [], bl_content = Some (JObj d)\<rparr>]"
| "put_blob k d now (b # bs) =
     (if bl_key b = k then b\<lparr>bl_modified := now, bl_content := Some (JObj d)\<rparr> # bs else b # put_blob k d now bs)"

definition put_object :: "string \<Rightarrow> doc \<Rightarrow> pytime \<Rightarrow> okh_state \<Rightarrow> okh_state" where
  "put_object k d now st = st\<lparr>os_blobs := put_blob k d now (os_blobs st)\<rparr>"

text \<open>
  The pieces of a title that go into the file name: of a text its characters, of a list its items, which
  must be texts. \<open>None\<close> where a piece has no \<open>isalnum\<close> or the title cannot be iterated.
\<close>

definition safe_title :: "json \<Rightarrow> string option" where
  "safe_title title =
     do { parts \<leftarrow> items_of title;
          texts \<leftarrow> map_opt read_str parts;
          let kept = concat (filter (\<lambda>s. s \<noteq> [] \<and> list_all is_alnum s \<or> s \<in> {'' '', ''-'', ''_''}) texts);
          Some (lower (map (\<lambda>c. if c = CHR '' '' then CHR ''-'' else c) (rstrip_by is_space kept))) }"

definition design_key :: "string \<Rightarrow> uuid \<Rightarrow> string" where
  "design_key safe i = ''okh/'' @ safe @ ''-'' @ take 8 i @ ''-okh.json''"

text \<open>\<open>create\<close> after the manifest is built; \<open>source\<close> is the dict it was built from, \<open>None\<close> for a manifest passed as it is.\<close>

definition okh_store ::
  "pytime \<Rightarrow> design_manifest \<Rightarrow> doc option \<Rightarrow> string option \<Rightarrow> record_provenance option \<Rightarrow> okh_state \<Rightarrow> (okh_error + design_manifest) \<times> okh_state" where
  "okh_store now m source created_by provenance st =
     (case safe_title (om_title m) of
        None \<Rightarrow> (Inl BadTitle, st)
      | Some safe \<Rightarrow>
          (case manifest_to_dict m of
             None \<Rightarrow> (Inl UnwritableManifest, st)
           | Some d \<Rightarrow>
               (let st1 = put_object (design_key safe (om_id m)) (apply_ohm_metadata d source created_by) now st;
                    st2 = (case provenance of None \<Rightarrow> st1 | Some p \<Rightarrow> okh_save_provenance (om_id m) p st1);
                    st3 = okh_save_visibility (om_id m) default_visibility st2
                in (Inr m, invalidate_catalog_cache st3))))"

definition okh_create ::
  "(string \<Rightarrow> string) \<Rightarrow> draws \<Rightarrow> pytime \<Rightarrow> doc \<Rightarrow> string option \<Rightarrow> record_provenance option \<Rightarrow> okh_state \<Rightarrow> (okh_error + design_manifest) \<times> okh_state" where
  "okh_create md5 fr now data created_by provenance st =
     (case manifest_from_dict md5 (fr []) data of
        None \<Rightarrow> (Inl InvalidManifest, st)
      | Some m \<Rightarrow> okh_store now m (Some data) created_by provenance st)"

definition okh_update ::
  "(string \<Rightarrow> string) \<Rightarrow> draws \<Rightarrow> pytime \<Rightarrow> uuid \<Rightarrow> doc \<Rightarrow> okh_state \<Rightarrow> (okh_error + design_manifest) \<times> okh_state" where
  "okh_update md5 fr now i data st =
     (case manifest_from_dict md5 (fr []) data of
        None \<Rightarrow> (Inl InvalidManifest, st)
      | Some m \<Rightarrow>
          (case okh_find_key md5 fr now i st of
             None \<Rightarrow> (Inl CacheFailed, st)
           | Some (k, st1) \<Rightarrow>
               (case manifest_to_dict m of
                  None \<Rightarrow> (Inl UnwritableManifest, st1)
                | Some d \<Rightarrow>
                    (Inr m, invalidate_catalog_cache
                       (put_object (case k of None \<Rightarrow> ''okh/'' @ i @ ''.json'' | Some k' \<Rightarrow> k') d now st1)))))"

definition okh_delete ::
  "(string \<Rightarrow> string) \<Rightarrow> draws \<Rightarrow> pytime \<Rightarrow> uuid \<Rightarrow> okh_state \<Rightarrow> (okh_error + bool) \<times> okh_state" where
  "okh_delete md5 fr now i st =
     (case okh_find_key md5 fr now i st of
        None \<Rightarrow> (Inl CacheFailed, st)
      | Some (None, st1) \<Rightarrow> (Inr False, st1)
      | Some (Some k, st1) \<Rightarrow>
          (Inr True, invalidate_catalog_cache (st1\<lparr>os_blobs := filter (\<lambda>b. bl_key b \<noteq> k) (os_blobs st1)\<rparr>)))"

end
