(* ===== verification/Okh_Catalog.thy ===== *)
theory Okh_Catalog imports Okh_Service begin

text \<open>
  The catalogue cache of the design service against the store: after any run of service operations the
  catalogue the service answers from is an assembly of the files as they are.
\<close>

section \<open>What a cached value may be\<close>

definition holds_value :: "'v memory_cache \<Rightarrow> string \<Rightarrow> ('v \<Rightarrow> bool) \<Rightarrow> bool" where
  "holds_value c k P \<longleftrightarrow> (case map_of (entries c) k of None \<Rightarrow> True | Some e \<Rightarrow> P (entry_value e))"

lemma holds_value_step:
  assumes w: "cache_wf c" and h: "holds_value c k P" and s: "cache_step (now, op) c = Some c'"
    and op: "case op of Set k' v t \<Rightarrow> k' = k \<and> P v | _ \<Rightarrow> True"
  shows "holds_value c' k P"
proof -
  let ?m = "\<lambda>k. map_option (\<lambda>e. (entry_value e, entry_expires e)) (map_of (entries c) k)"
  have "holds_latest c ?m" by (simp add: holds_latest_def)
  then have "holds_latest c' (latest_step (now, op) ?m)" using cache_step_latest [OF w _ s] by blast
  then have l: "\<And>e. map_of (entries c') k = Some e \<Longrightarrow> latest_step (now, op) ?m k = Some (entry_value e, entry_expires e)"
    by (simp add: holds_latest_def)
  show ?thesis
  proof (cases "map_of (entries c') k")
    case (Some e)
    with l [OF Some] h op show ?thesis
      by (cases op) (auto simp: holds_value_def split: option.splits if_splits)
  qed (simp add: holds_value_def)
qed

lemma holds_value_get: "cache_wf c \<Longrightarrow> holds_value c k P \<Longrightarrow> holds_value (snd (cache_get now k' c)) k P"
  using holds_value_step [of c k P now "Get k'"] by simp

lemma holds_value_set: "cache_wf c \<Longrightarrow> holds_value c k P \<Longrightarrow> cache_set now k v t c = Some c' \<Longrightarrow> P v \<Longrightarrow> holds_value c' k P"
  using holds_value_step [of c k P now "Set k v t"] by simp

lemma holds_value_delete: "holds_value (cache_delete k c) k P"
  by (simp add: holds_value_def cache_delete_def)

lemma cached_get_value: "cache_wf c \<Longrightarrow> holds_value c k P \<Longrightarrow> fst (cache_get now k c) = Some v \<Longrightarrow> P v"
  by (auto simp: cache_get_hit holds_value_def dest!: cleanup_some)

lemma get_wf: "cache_wf c \<Longrightarrow> cache_wf (snd (cache_get now k c))"
  using cache_step_wf [of c now "Get k"] by auto

lemma set_wf: "cache_wf c \<Longrightarrow> \<exists>c'. cache_set now k v t c = Some c' \<and> cache_wf c'"
  using cache_step_wf [of c now "Set k v t"] by auto

section \<open>The service in front of it\<close>

text \<open>A disabled service never answers from its backend.\<close>

definition service_holds :: "cache_service \<Rightarrow> string \<Rightarrow> (json \<Rightarrow> bool) \<Rightarrow> bool" where
  "service_holds s k P \<longleftrightarrow> cache_wf (backend s) \<and> (cs_enabled s \<longrightarrow> holds_value (backend s) (full_key s k) P)"

lemma full_key_cong: "key_prefix s = key_prefix s' \<Longrightarrow> full_key s k = full_key s' k"
  by (simp add: full_key_def)

lemma service_get_holds:
  assumes "service_holds s k P" and "service_get now k s = (v, s')"
  shows "service_holds s' k P \<and> key_prefix s' = key_prefix s \<and> (v \<noteq> JNull \<longrightarrow> P v)"
proof (cases "cs_enabled s")
  case False
  then show ?thesis using assms by (simp add: service_get_def)
next
  case True
  let ?r = "cache_get now (full_key s k) (backend s)"
  have w: "cache_wf (backend s)" and h: "holds_value (backend s) (full_key s k) P"
    using assms(1) True by (simp_all add: service_holds_def)
  have "backend s' = snd ?r" "key_prefix s' = key_prefix s" "v = (case fst ?r of None \<Rightarrow> JNull | Some v \<Rightarrow> v)"
    using assms(2) True by (auto simp: service_get_def Let_def split: prod.splits if_splits)
  then show ?thesis using get_wf [OF w] holds_value_get [OF w h] cached_get_value [OF w h] full_key_cong [of s' s k]
    by (auto simp: service_holds_def split: option.splits)
qed

lemma service_set_holds:
  assumes "service_holds s k P" and "P v"
  shows "\<exists>s'. service_set now k v t s = Some s' \<and> service_holds s' k P \<and> key_prefix s' = key_prefix s"
proof (cases "cs_enabled s")
  case False
  then show ?thesis using assms by (simp add: service_set_def)
next
  case True
  have w: "cache_wf (backend s)" and h: "holds_value (backend s) (full_key s k) P"
    using assms(1) True by (simp_all add: service_holds_def)
  obtain c where c: "cache_set now (full_key s k) v t (backend s) = Some c" "cache_wf c" using set_wf [OF w] by blast
  have "full_key (s\<lparr>backend := c, sets := sets s + 1\<rparr>) k = full_key s k" by (simp add: full_key_def)
  then show ?thesis using True c holds_value_set [OF w h c(1) assms(2)] by (auto simp: service_set_def service_holds_def)
qed

lemma service_delete_holds:
  "service_holds s k Q \<Longrightarrow> service_holds (service_delete k s) k P \<and> key_prefix (service_delete k s) = key_prefix s"
  using holds_value_delete delete_wf
  by (auto simp: service_delete_def service_holds_def full_key_def cache_delete_def Let_def)

section \<open>The catalogue is that of the current files\<close>

definition catalog_coherent :: "(string \<Rightarrow> string) \<Rightarrow> okh_state \<Rightarrow> bool" where
  "catalog_coherent md5 st \<longleftrightarrow>
     service_holds (os_cache st) (catalog_key (os_cache st)) (\<lambda>v. \<exists>fr. v = assemble_okh_catalog md5 fr st)"

lemma catalog_key_cong: "key_prefix c = key_prefix c' \<Longrightarrow> catalog_key c = catalog_key c'"
  by (simp add: catalog_key_def)

lemma discover_cong: "os_blobs st = os_blobs st' \<Longrightarrow> discover_files (okh_listing st) t = discover_files (okh_listing st') t"
proof -
  assume "os_blobs st = os_blobs st'"
  then have "okh_listing st = okh_listing st'" by (simp add: fun_eq_iff okh_listing_def split: option.split)
  then show ?thesis by simp
qed

lemma fixed_dict_cong: "os_blobs st = os_blobs st' \<Longrightarrow> fixed_dict md5 fr st k = fixed_dict md5 fr st' k"
  by (simp add: fixed_dict_def read_object_def)

lemma assemble_cong: "os_blobs st = os_blobs st' \<Longrightarrow> assemble_okh_catalog md5 fr st = assemble_okh_catalog md5 fr st'"
  using discover_cong [of st st' "''okh''"] fixed_dict_cong [of st st']
  by (simp add: assemble_okh_catalog_def catalog_winners_def load_entry_def [abs_def])

lemma coherent_cong:
  "os_blobs st = os_blobs st' \<Longrightarrow> os_cache st = os_cache st' \<Longrightarrow> catalog_coherent md5 st = catalog_coherent md5 st'"
  using assemble_cong [of st st' md5] by (simp add: catalog_coherent_def)

lemma assemble_not_null: "assemble_okh_catalog md5 fr st \<noteq> JNull"
  by (simp add: assemble_okh_catalog_def)

text \<open>Reading the catalogue: what is answered and what is cached is what was cached or a new assembly.\<close>

lemma catalog_entries_holds:
  assumes h: "service_holds (os_cache st) (catalog_key (os_cache st)) P" and n: "P (assemble_okh_catalog md5 fr st)"
  shows "\<exists>v c. catalog_entries md5 fr now st = Some (json_entries v, st\<lparr>os_cache := c\<rparr>) \<and> P v \<and>
    service_holds c (catalog_key c) P \<and> key_prefix c = key_prefix (os_cache st)"
proof -
  let ?k = "catalog_key (os_cache st)"
  obtain v c1 where g: "service_get now ?k (os_cache st) = (v, c1)" by fastforce
  have c1: "service_holds c1 ?k P" "key_prefix c1 = key_prefix (os_cache st)" "v \<noteq> JNull \<Longrightarrow> P v"
    using service_get_holds [OF h g] by auto
  show ?thesis
  proof (cases "v = JNull")
    case False
    then show ?thesis using c1 g catalog_key_cong [OF c1(2)]
      by (intro exI [of _ v] exI [of _ c1]) (auto simp: catalog_entries_def cached_def catalog_key_def [symmetric] Let_def)
  next
    case True
    obtain c2 where c2: "service_set now ?k (assemble_okh_catalog md5 fr st) 120 c1 = Some c2" "service_holds c2 ?k P"
      "key_prefix c2 = key_prefix c1"
      using service_set_holds [OF c1(1) n] by blast
    then show ?thesis using True g n c1(2) catalog_key_cong [OF trans [OF c2(3) c1(2)]]
      by (intro exI [of _ "assemble_okh_catalog md5 fr st"] exI [of _ c2]) (auto simp: catalog_entries_def cached_def catalog_key_def [symmetric] Let_def)
  qed
qed

lemma catalog_entries_coherent:
  assumes "catalog_coherent md5 st"
  shows "\<exists>fr' c. catalog_entries md5 fr now st = Some (json_entries (assemble_okh_catalog md5 fr' st), st\<lparr>os_cache := c\<rparr>) \<and>
    catalog_coherent md5 (st\<lparr>os_cache := c\<rparr>)"
proof -
  let ?P = "\<lambda>v. \<exists>fr. v = assemble_okh_catalog md5 fr st"
  obtain v c where c: "catalog_entries md5 fr now st = Some (json_entries v, st\<lparr>os_cache := c\<rparr>)" "?P v"
    "service_holds c (catalog_key c) ?P"
    using catalog_entries_holds [of st ?P md5 fr now] assms by (auto simp: catalog_coherent_def)
  then have "catalog_coherent md5 (st\<lparr>os_cache := c\<rparr>)"
    using assemble_cong [of "st\<lparr>os_cache := c\<rparr>" st md5] by (simp add: catalog_coherent_def)
  with c show ?thesis by blast
qed

text \<open>Right after an invalidation the catalogue is assembled anew.\<close>

lemma catalog_entries_fresh:
  assumes "service_holds (os_cache st) (catalog_key (os_cache st)) (\<lambda>v. False)"
  shows "\<exists>c. catalog_entries md5 fr now st = Some (json_entries (assemble_okh_catalog md5 fr st), st\<lparr>os_cache := c\<rparr>)"
proof -
  have "service_holds (os_cache st) (catalog_key (os_cache st)) (\<lambda>v. v = assemble_okh_catalog md5 fr st)"
    using assms by (auto simp: service_holds_def holds_value_def split: option.splits)
  then show ?thesis using catalog_entries_holds [of st _ md5 fr now] by blast
qed

lemma invalidate_coherent:
  assumes "service_holds (os_cache st) (catalog_key (os_cache st)) Q"
  shows "catalog_coherent md5 (invalidate_catalog_cache st)"
  using service_delete_holds [OF assms, of "\<lambda>v. \<exists>fr. v = assemble_okh_catalog md5 fr (invalidate_catalog_cache st)"]
  by (simp add: catalog_coherent_def invalidate_catalog_cache_def catalog_key_def)

lemma invalidate_empty:
  assumes "service_holds (os_cache st) (catalog_key (os_cache st)) Q"
  shows "service_holds (os_cache (invalidate_catalog_cache st)) (catalog_key (os_cache (invalidate_catalog_cache st))) (\<lambda>v. False)"
  using service_delete_holds [OF assms, of "\<lambda>v. False"] by (simp add: invalidate_catalog_cache_def catalog_key_def)

section \<open>Runs of the service\<close>

datatype okh_op =
    CreateOp doc "string option" "record_provenance option" | UpdateOp uuid doc | DeleteOp uuid | GetOp uuid
  | ListOp nat nat | SetVisibilityOp uuid visibility_level

fun okh_step :: "(string \<Rightarrow> string) \<Rightarrow> draws \<times> pytime \<times> okh_op \<Rightarrow> okh_state \<Rightarrow> okh_state" where
  "okh_step md5 (fr, now, CreateOp d by' p) st = snd (okh_create md5 fr now d by' p st)"
| "okh_step md5 (fr, now, UpdateOp i d) st = snd (okh_update md5 fr now i d st)"
| "okh_step md5 (fr, now, DeleteOp i) st = snd (okh_delete md5 fr now i st)"
| "okh_step md5 (fr, now, GetOp i) st = snd (design_get md5 fr now i st)"
| "okh_step md5 (fr, now, ListOp p n) st = snd (okh_list md5 fr now p n st)"
| "okh_step md5 (fr, now, SetVisibilityOp i v) st = snd (okh_set_visibility md5 fr now i v st)"

definition okh_run :: "(string \<Rightarrow> string) \<Rightarrow> (draws \<times> pytime \<times> okh_op) list \<Rightarrow> okh_state \<Rightarrow> okh_state" where
  "okh_run md5 ops st = fold (okh_step md5) ops st"

definition okh_start :: "blob list \<Rightarrow> bool \<Rightarrow> string \<Rightarrow> int \<Rightarrow> int \<Rightarrow> pytime \<Rightarrow> okh_state" where
  "okh_start blobs enabled prefix n interval t0 =
     \<lparr>os_blobs = blobs, os_visibility = [], os_provenance = [],
      os_cache = \<lparr>cs_enabled = enabled, key_prefix = prefix, backend = new_cache n interval t0, hits = 0, misses = 0, sets = 0, deletes = 0\<rparr>\<rparr>"

lemma okh_get_coherent:
  assumes "catalog_coherent md5 st"
  shows "catalog_coherent md5 (snd (design_get md5 fr now i st))"
  using catalog_entries_coherent [OF assms, of fr now] by (auto simp: design_get_def split: option.split)

lemma okh_list_coherent:
  assumes "catalog_coherent md5 st"
  shows "catalog_coherent md5 (snd (okh_list md5 fr now p n st))"
  using catalog_entries_coherent [OF assms, of fr now] by (auto simp: okh_list_def split: option.split)

lemma okh_find_key_coherent:
  assumes "catalog_coherent md5 st"
  shows "\<exists>k c. okh_find_key md5 fr now i st = Some (k, st\<lparr>os_cache := c\<rparr>) \<and> catalog_coherent md5 (st\<lparr>os_cache := c\<rparr>)"
  using catalog_entries_coherent [OF assms, of fr now] by (auto simp: okh_find_key_def)

text \<open>A write invalidates, so whatever it changed the cache is coherent after it.\<close>

lemma write_coherent:
  "catalog_coherent md5 st \<Longrightarrow> os_cache st' = os_cache st \<Longrightarrow> catalog_coherent md5 (invalidate_catalog_cache st')"
  using invalidate_coherent [of st'] unfolding catalog_coherent_def by metis

lemma okh_store_coherent:
  assumes "catalog_coherent md5 st"
  shows "catalog_coherent md5 (snd (okh_store now m source by' p st))"
  using assms
  by (auto simp: okh_store_def put_object_def okh_save_provenance_def okh_save_visibility_def Let_def split: option.split
      intro!: write_coherent [OF assms])

lemma okh_update_coherent:
  assumes "catalog_coherent md5 st"
  shows "catalog_coherent md5 (snd (okh_update md5 fr now i d st))"
proof -
  obtain k c where k: "okh_find_key md5 fr now i st = Some (k, st\<lparr>os_cache := c\<rparr>)" and c: "catalog_coherent md5 (st\<lparr>os_cache := c\<rparr>)"
    using okh_find_key_coherent [OF assms] by blast
  show ?thesis using assms c
    by (auto simp: okh_update_def k put_object_def split: option.split intro!: write_coherent [OF c])
qed

lemma okh_delete_coherent:
  assumes "catalog_coherent md5 st"
  shows "catalog_coherent md5 (snd (okh_delete md5 fr now i st))"
proof -
  obtain k c where k: "okh_find_key md5 fr now i st = Some (k, st\<lparr>os_cache := c\<rparr>)" and c: "catalog_coherent md5 (st\<lparr>os_cache := c\<rparr>)"
    using okh_find_key_coherent [OF assms] by blast
  show ?thesis using c by (auto simp: okh_delete_def k split: option.split intro!: write_coherent [OF c])
qed

lemma okh_set_visibility_coherent:
  assumes "catalog_coherent md5 st"
  shows "catalog_coherent md5 (snd (okh_set_visibility md5 fr now i v st))"
proof -
  obtain r st1 where r: "design_get md5 fr now i st = (r, st1)" by fastforce
  have "catalog_coherent md5 st1" using okh_get_coherent [OF assms, of fr now i] r by simp
  moreover have "catalog_coherent md5 (okh_save_visibility i v st1) = catalog_coherent md5 st1"
    by (rule coherent_cong) (simp_all add: okh_save_visibility_def)
  ultimately show ?thesis by (simp add: okh_set_visibility_def r split: sum.split option.split)
qed

lemma okh_step_coherent:
  assumes "catalog_coherent md5 st"
  shows "catalog_coherent md5 (okh_step md5 e st)"
proof -
  obtain fr now op where e: "e = (fr, now, op)" using prod_cases3 by blast
  show ?thesis using assms unfolding e
    by (cases op) (auto simp: okh_get_coherent okh_list_coherent okh_update_coherent okh_delete_coherent okh_set_visibility_coherent
        okh_create_def okh_store_coherent split: option.split)
qed

lemma okh_run_coherent: "catalog_coherent md5 st \<Longrightarrow> catalog_coherent md5 (okh_run md5 ops st)"
  by (induction ops arbitrary: st) (auto simp: okh_run_def okh_step_coherent)

lemma okh_start_coherent: "1 \<le> n \<Longrightarrow> catalog_coherent md5 (okh_start blobs enabled prefix n interval t0)"
  by (simp add: catalog_coherent_def okh_start_def service_holds_def cache_wf_def holds_value_def new_cache_def)

lemma map_filter_map_some: "(\<And>x. f (g x) = Some (h x)) \<Longrightarrow> List.map_filter f (map g xs) = map h xs"
  by (induction xs) (auto simp: List.map_filter_simps)

lemma json_entries_assemble:
  "json_entries (assemble_okh_catalog md5 fr st) = map (\<lambda>(i, fi, raw). (fi_key fi, raw)) (catalog_winners md5 fr st)"
  unfolding json_entries_def assemble_okh_catalog_def json.case
  by (rule map_filter_map_some) (auto simp: json_entry_def entry_json_def split: prod.split)

text \<open>
  C23: the catalogue is never stale against the service's own writes. After any sequence of creates,
  updates, deletes, look-ups, listings and changes of visibility, at whatever times, the catalogue the
  service answers from is what an assembly of the files as they are now gives; only objects written past
  the service can be missed.
\<close>

theorem okh_catalog_current:
  assumes "1 \<le> n"
  shows "\<exists>fr' c. catalog_entries md5 fr now (okh_run md5 ops (okh_start blobs enabled prefix n interval t0)) =
     Some (map (\<lambda>(i, fi, raw). (fi_key fi, raw)) (catalog_winners md5 fr' (okh_run md5 ops (okh_start blobs enabled prefix n interval t0))),
       (okh_run md5 ops (okh_start blobs enabled prefix n interval t0))\<lparr>os_cache := c\<rparr>)"
  using catalog_entries_coherent [OF okh_run_coherent [OF okh_start_coherent [OF assms]]] json_entries_assemble by metis

definition stored_file :: blob where
  "stored_file = \<lparr>bl_key = ''okh/a.json'', bl_size = 2, bl_modified = 0, bl_metadata = [], bl_content = Some (JObj [(''id'', JStr ''x'')])\<rparr>"

theorem okh_catalog_current_witness:
  "\<exists>fr' c. catalog_entries id (\<lambda>k n. []) 5 (okh_run id [(\<lambda>k n. [], 1, ListOp 1 10), (\<lambda>k n. [], 2, DeleteOp ''x'')] (okh_start [stored_file] True [] 2 60 0)) =
     Some (map (\<lambda>(i, fi, raw). (fi_key fi, raw)) (catalog_winners id fr'
         (okh_run id [(\<lambda>k n. [], 1, ListOp 1 10), (\<lambda>k n. [], 2, DeleteOp ''x'')] (okh_start [stored_file] True [] 2 60 0))),
       (okh_run id [(\<lambda>k n. [], 1, ListOp 1 10), (\<lambda>k n. [], 2, DeleteOp ''x'')] (okh_start [stored_file] True [] 2 60 0))\<lparr>os_cache := c\<rparr>)"
  by (rule okh_catalog_current) simp

end
