(* ===== verification/Okh_Facts.thy ===== *)
theory Okh_Facts imports Okh_Dict begin

text \<open>
  What becomes of a manifest that is read, written and read again: the round trip of every record it
  is made of, and the changes the trip makes.
\<close>

section \<open>Records\<close>

lemma jget_filter: "distinct (keys l) \<Longrightarrow> jget (filter (\<lambda>(k, v). v \<noteq> JNull) l) k = jget l k"
  by (auto simp: jget_def map_of_filter_key split: option.splits)

lemma get_default_filter: "distinct (keys l) \<Longrightarrow> get_default (filter (\<lambda>(k, v). v \<noteq> JNull) l) k dflt = field_or l k dflt"
  by (auto simp: get_default_def field_or_def jget_def map_of_filter_key split: option.splits)

lemma field_or_filter: "distinct (keys l) \<Longrightarrow> field_or (filter (\<lambda>(k, v). v \<noteq> JNull) l) k dflt = field_or l k dflt"
  by (simp add: field_or_def jget_filter)

lemma map_opt_map: "(\<And>x. x \<in> set xs \<Longrightarrow> f (g x) = Some (h x)) \<Longrightarrow> map_opt f (map g xs) = Some (map h xs)"
  by (induction xs) auto

lemma map_opt_id: "(\<And>x. x \<in> set xs \<Longrightarrow> f (g x) = Some x) \<Longrightarrow> map_opt f (map g xs) = Some xs"
  using map_opt_map [of xs f g "\<lambda>x. x"] by simp

lemma map_opt_set: "map_opt f xs = Some ys \<Longrightarrow> y \<in> set ys \<Longrightarrow> \<exists>x\<in>set xs. f x = Some y"
  by (induction xs arbitrary: ys) (auto split: bind_splits)

lemma map_filter_some: "(\<And>x. x \<in> set xs \<Longrightarrow> f (g x) = Some x) \<Longrightarrow> List.map_filter f (map g xs) = xs"
  by (induction xs) (auto simp: List.map_filter_simps)

lemma map_filter_set: "y \<in> set (List.map_filter f xs) \<Longrightarrow> \<exists>x\<in>set xs. f x = Some y"
  by (induction xs) (auto simp: List.map_filter_simps split: option.splits)

lemma find_doc_type: "find (\<lambda>u. doc_type_value u = doc_type_value t) doc_types = Some t"
  by (cases t) (simp_all add: doc_types_def)

lemma doc_type_of_value [simp]: "doc_type_of (JStr (doc_type_value t)) = Some t"
  by (simp add: doc_type_of_def find_doc_type)

lemma read_doc_ref_json [simp]: "read_doc_ref t (doc_ref_json r) = Some r"
  by (simp add: read_doc_ref_def doc_ref_json_def)

lemma read_guide_ref_json: "dr_type r = DISASSEMBLY_GUIDE \<Longrightarrow> read_guide_ref (doc_ref_json r) = Some r"
  by (simp add: read_guide_ref_def doc_ref_json_def)

lemma read_material_json [simp]: "read_material (material_json m) = Some m"
  by (simp add: read_material_def material_json_def)

lemma read_process_json [simp]: "read_process (process_json r) = Some r"
  by (simp add: read_process_def process_json_def)

lemma read_spec_json [simp]: "read_spec (spec_json s) = Some s"
  by (simp add: read_spec_def spec_json_def map_opt_id)

lemma read_standard_json [simp]: "read_standard (standard_json s) = Some s"
  by (simp add: read_standard_def standard_json_def)

lemma read_software_json [simp]: "read_software (software_json s) = Some s"
  by (simp add: read_software_def software_json_def)

lemma read_component_json [simp]: "read_component (component_json c) = Some c"
  by (simp add: read_component_def component_json_def)

lemma read_guide_json [simp]: "read_guide (guide_json g) = Some g"
  by (simp add: read_guide_def guide_json_def)

definition part_form :: "okh_part \<Rightarrow> okh_part" where
  "part_form p = p\<lparr>pt_source := as_list (pt_source p), pt_export := as_list (pt_export p), pt_auxiliary := as_list (pt_auxiliary p)\<rparr>"

lemma read_part_json: "is_uuid (pt_id p) \<Longrightarrow> read_part md5 rnd (part_json p) = Some (part_form p)"
  by (simp add: read_part_def part_json_def part_form_def)

lemma read_parts_json:
  "\<forall>p\<in>set ps. is_uuid (pt_id p) \<Longrightarrow> read_parts md5 fresh (map part_json ps) = Some (map part_form ps)"
  by (induction ps arbitrary: fresh) (auto simp: read_part_json)

section \<open>Lists of text\<close>

definition stripped :: "string \<Rightarrow> bool" where
  "stripped s \<longleftrightarrow> s \<noteq> [] \<and> strip s = s"

lemma coerce_entry_stripped: "coerce_entry ks j = Some s \<Longrightarrow> stripped s"
  by (induction ks) (auto simp: coerce_entry_def stripped_def split: json.splits if_splits option.splits)

lemma coerce_entry_id: "stripped s \<Longrightarrow> coerce_entry ks (JStr s) = Some s"
  by (simp add: coerce_entry_def stripped_def)

lemma normalize_stripped: "s \<in> set (normalize_string_list (coerce_entry ks) j) \<Longrightarrow> stripped s"
  by (auto simp: normalize_string_list_def coerce_entry_stripped split: json.splits option.splits if_splits dest!: map_filter_set)

lemma normalize_text_list:
  "\<forall>s\<in>set xs. stripped s \<Longrightarrow> normalize_string_list (coerce_entry ks) (text_list xs) = xs"
  unfolding normalize_string_list_def text_list_def
  by (simp, rule map_filter_some) (auto simp: coerce_entry_id stripped_def)

lemmas coercers = coerce_tool_list_entry_def coerce_process_list_entry_def coerce_keyword_entry_def

section \<open>Manifests\<close>

text \<open>What every manifest read from a dict satisfies.\<close>

definition manifest_wf :: "design_manifest \<Rightarrow> bool" where
  "manifest_wf m \<longleftrightarrow>
     is_uuid (om_id m) \<and> om_okhv m \<noteq> JNull \<and> om_metadata m \<noteq> JNull \<and>
     (\<forall>s\<in>set (om_keywords m) \<union> set (om_tool_list m) \<union> set (om_processes m). stripped s) \<and>
     (case om_version_date m of None \<Rightarrow> True | Some d \<Rightarrow> valid_datetime (midnight d)) \<and>
     (\<forall>p\<in>set (om_parts m). is_uuid (pt_id p)) \<and> only_list (om_tsdc m) = om_tsdc m \<and>
     only_list (om_sub_parts m) = om_sub_parts m \<and> (\<forall>r\<in>set (om_disassembly m). dr_type r = DISASSEMBLY_GUIDE)"

text \<open>The manifest after the trip.\<close>

definition or_empty :: "json \<Rightarrow> json" where
  "or_empty j = (if j = JNull then JStr [] else j)"

definition saved_form :: "design_manifest \<Rightarrow> design_manifest" where
  "saved_form m = m\<lparr>om_title := or_empty (om_title m), om_version := or_empty (om_version m), om_language := or_empty (om_language m),
     om_function := or_empty (om_function m), om_licensor := parse_agent (agent_json (om_licensor m)),
     om_organization := (if agent_truthy (om_organization m) then parse_agent (agent_json (om_organization m)) else AgRaw JNull),
     om_data_source := JNull, om_parts := map part_form (om_parts m), om_compatible := filter (\<lambda>s. s \<noteq> []) (om_compatible m)\<rparr>"

lemma only_list_idem [simp]: "only_list (only_list j) = only_list j"
  by (auto simp: only_list_def split: json.splits)

lemma only_list_not_null [simp]: "only_list j \<noteq> JNull"
  by (auto simp: only_list_def split: json.splits)

lemma field_or_not_null [simp]: "dflt \<noteq> JNull \<Longrightarrow> field_or d k dflt \<noteq> JNull"
  by (simp add: field_or_def)

lemma read_version_date_valid: "read_version_date j = Some (Some d) \<Longrightarrow> valid_datetime (midnight d)"
  by (auto simp: read_version_date_def date_fromisoformat_valid split: if_splits json.splits)

lemma read_part_uuid: "is_uuid rnd \<Longrightarrow> read_part md5 rnd j = Some p \<Longrightarrow> is_uuid (pt_id p)"
  by (auto simp: read_part_def coerce_uuid_is_uuid split: bind_splits json.splits option.splits)

lemma read_parts_uuid:
  "\<forall>n. is_uuid (fresh n) \<Longrightarrow> read_parts md5 fresh xs = Some ps \<Longrightarrow> p \<in> set ps \<Longrightarrow> is_uuid (pt_id p)"
proof (induction xs arbitrary: fresh ps)
  case (Cons x xs)
  then obtain q qs where "read_part md5 (fresh 0) x = Some q" "read_parts md5 (\<lambda>n. fresh (Suc n)) xs = Some qs" "ps = q # qs"
    by (auto split: bind_splits)
  moreover have "\<forall>n. is_uuid (fresh (Suc n))" using Cons.prems(1) by simp
  ultimately show ?case using Cons.IH [of "\<lambda>n. fresh (Suc n)" qs] Cons.prems(1,3) read_part_uuid [OF spec [OF Cons.prems(1), of 0]] by auto
qed simp

lemma read_guide_ref_type: "read_guide_ref j = Some r \<Longrightarrow> dr_type r = DISASSEMBLY_GUIDE"
  by (auto simp: read_guide_ref_def split: json.splits)

lemma guide_refs_type: "r \<in> set (List.map_filter read_guide_ref xs) \<Longrightarrow> dr_type r = DISASSEMBLY_GUIDE"
  by (auto dest!: map_filter_set read_guide_ref_type)

lemma from_dict_fields:
  assumes "manifest_from_dict md5 fresh d = Some m"
  shows "read_manifest_id md5 (fresh 0) d = Some (om_id m)"
    and "om_okhv m = field_or d ''okhv'' (JStr ''OKH-LOSHv1.0'')" and "om_metadata m = field_or d ''metadata'' (JObj [])"
    and "om_keywords m = normalize_string_list coerce_keyword_entry (jget d ''keywords'')"
    and "om_tool_list m = normalize_string_list coerce_tool_list_entry (jget d ''tool_list'')"
    and "om_processes m = normalize_string_list coerce_process_list_entry (jget d ''manufacturing_processes'')"
    and "read_version_date (jget d ''version_date'') = Some (om_version_date m)"
    and "read_list d ''parts'' (read_parts md5 (\<lambda>n. fresh (Suc n))) = Some (om_parts m)"
    and "om_tsdc m = only_list (jget d ''tsdc'')" and "om_sub_parts m = only_list (jget d ''sub_parts'')"
    and "read_list d ''disassembly_guides'' (\<lambda>xs. Some (List.map_filter read_guide_ref xs)) = Some (om_disassembly m)"
  using assms unfolding manifest_from_dict_def
  by - (elim bind_someE, drule option.inject [THEN iffD1], hypsubst, simp only: manifest_of_def design_manifest.select_convs)+

lemma from_dict_wf:
  assumes f: "\<forall>n. is_uuid (fresh n)" and m: "manifest_from_dict md5 fresh d = Some m"
  shows "manifest_wf m"
proof -
  note F = from_dict_fields [OF m]
  have "is_uuid (om_id m)"
    using F(1) spec [OF f, of 0] by (auto simp: read_manifest_id_def coerce_uuid_is_uuid split: if_splits)
  moreover have "\<forall>s\<in>set (om_keywords m) \<union> set (om_tool_list m) \<union> set (om_processes m). stripped s"
    unfolding F(4-6) coercers using normalize_stripped by blast
  moreover have "case om_version_date m of None \<Rightarrow> True | Some v \<Rightarrow> valid_datetime (midnight v)"
    using F(7) by (auto split: option.split dest: read_version_date_valid)
  moreover have "\<forall>p\<in>set (om_parts m). is_uuid (pt_id p)"
    using F(8) read_parts_uuid [of "\<lambda>n. fresh (Suc n)"] f by (auto simp: read_list_def split: if_splits bind_splits)
  moreover have "\<forall>r\<in>set (om_disassembly m). dr_type r = DISASSEMBLY_GUIDE"
    using F(11) by (simp add: read_list_def split: if_split_asm bind_split_asm) (metis guide_refs_type)
  ultimately show ?thesis using F(2,3,9,10) by (simp add: manifest_wf_def)
qed

lemma distinct_fields: "distinct (keys (manifest_fields m cs))"
  by (simp add: manifest_fields_def)

lemma fields_values:
  shows "jget (manifest_fields m cs) ''data_source'' = JNull"
    and "jget (manifest_fields m cs) ''okhv'' = om_okhv m"
    and "jget (manifest_fields m cs) ''id'' = JStr (om_id m)"
    and "jget (manifest_fields m cs) ''title'' = om_title m"
    and "jget (manifest_fields m cs) ''repo'' = om_repo m"
    and "jget (manifest_fields m cs) ''version'' = om_version m"
    and "jget (manifest_fields m cs) ''license'' = license_json (om_license m)"
    and "jget (manifest_fields m cs) ''licensor'' = agent_json (om_licensor m)"
    and "jget (manifest_fields m cs) ''documentation_language'' = om_language m"
    and "jget (manifest_fields m cs) ''function'' = om_function m"
    and "jget (manifest_fields m cs) ''description'' = om_description m"
    and "jget (manifest_fields m cs) ''intended_use'' = om_intended_use m"
    and "jget (manifest_fields m cs) ''keywords'' = text_list (om_keywords m)"
    and "jget (manifest_fields m cs) ''project_link'' = om_project_link m"
    and "jget (manifest_fields m cs) ''health_safety_notice'' = om_health_safety m"
    and "jget (manifest_fields m cs) ''contact'' = opt_json person_json (om_contact m)"
    and "jget (manifest_fields m cs) ''contributors'' = cs"
    and "jget (manifest_fields m cs) ''organization'' = (if agent_truthy (om_organization m) then agent_json (om_organization m) else JNull)"
    and "jget (manifest_fields m cs) ''image'' = om_image m"
    and "jget (manifest_fields m cs) ''version_date'' = opt_json (\<lambda>d. JStr (date_isoformat d)) (om_version_date m)"
    and "jget (manifest_fields m cs) ''readme'' = om_readme m"
    and "jget (manifest_fields m cs) ''contribution_guide'' = om_contribution_guide m"
    and "jget (manifest_fields m cs) ''development_stage'' = om_stage m"
    and "jget (manifest_fields m cs) ''attestation'' = om_attestation m"
    and "jget (manifest_fields m cs) ''technology_readiness_level'' = om_technology_level m"
    and "jget (manifest_fields m cs) ''documentation_readiness_level'' = om_documentation_level m"
    and "jget (manifest_fields m cs) ''manufacturing_files'' = doc_list (om_manufacturing_files m)"
    and "jget (manifest_fields m cs) ''documentation_home'' = om_documentation_home m"
    and "jget (manifest_fields m cs) ''archive_download'' = om_archive m"
    and "jget (manifest_fields m cs) ''design_files'' = doc_list (om_design_files m)"
    and "jget (manifest_fields m cs) ''making_instructions'' = doc_list (om_making m)"
    and "jget (manifest_fields m cs) ''operating_instructions'' = doc_list (om_operating m)"
    and "jget (manifest_fields m cs) ''technical_specifications'' = doc_list (om_specifications m)"
    and "jget (manifest_fields m cs) ''publications'' = doc_list (om_publications m)"
    and "jget (manifest_fields m cs) ''tool_list'' = text_list (om_tool_list m)"
    and "jget (manifest_fields m cs) ''manufacturing_processes'' = text_list (om_processes m)"
    and "jget (manifest_fields m cs) ''materials'' = JList (map material_json (om_materials m))"
    and "jget (manifest_fields m cs) ''manufacturing_specs'' = opt_json spec_json (om_specs m)"
    and "jget (manifest_fields m cs) ''bom'' = om_bom m"
    and "jget (manifest_fields m cs) ''standards_used'' = JList (map standard_json (om_standards m))"
    and "jget (manifest_fields m cs) ''cpc_patent_class'' = om_patent_class m"
    and "jget (manifest_fields m cs) ''tsdc'' = om_tsdc m"
    and "jget (manifest_fields m cs) ''parts'' = JList (map part_json (om_parts m))"
    and "jget (manifest_fields m cs) ''components'' = JList (map component_json (om_components m))"
    and "jget (manifest_fields m cs) ''repair_guides'' = JList (map guide_json (om_repair_guides m))"
    and "jget (manifest_fields m cs) ''disassembly_guides'' = doc_list (om_disassembly m)"
    and "jget (manifest_fields m cs) ''compatible_manifest_ids'' = text_list (om_compatible m)"
    and "jget (manifest_fields m cs) ''derivative_of'' = om_derivative_of m"
    and "jget (manifest_fields m cs) ''variant_of'' = om_variant_of m"
    and "jget (manifest_fields m cs) ''sub_parts'' = om_sub_parts m"
    and "jget (manifest_fields m cs) ''software'' = JList (map software_json (om_software m))"
    and "jget (manifest_fields m cs) ''metadata'' = om_metadata m"
    and "jget (manifest_fields m cs) ''domain'' = om_domain m"
  by (simp_all only: manifest_fields_def jget_simps list.inject char.inject simp_thms if_True if_False list.distinct)

lemma read_list_list: "jget d k = JList xs \<Longrightarrow> read_list d k f = f xs"
  by (simp add: read_list_def)

lemma json_not_null [simp]:
  "license_json l \<noteq> JNull" "text_list xs \<noteq> JNull" "spec_json s \<noteq> JNull" "doc_list rs \<noteq> JNull"
  by (simp_all add: license_json_def text_list_def spec_json_def doc_list_def)

lemma map_opt_id_some: "map_opt id cs = Some ps \<Longrightarrow> cs = map Some ps"
  by (induction cs arbitrary: ps) (auto split: bind_splits)

lemma read_contributors:
  assumes "contributors_json cs = Some j" and "jget d ''contributors'' = j"
  shows "read_list d ''contributors'' (\<lambda>xs. Some (map parse_person xs)) = Some cs"
proof (cases "cs = []")
  case True
  then show ?thesis using assms by (simp add: contributors_json_def read_list_def)
next
  case False
  then obtain ps where "map_opt id cs = Some ps" "j = JList (map person_json ps)"
    using assms(1) by (auto simp: contributors_json_def)
  then show ?thesis using assms(2) map_opt_id_some [of cs ps] by (simp add: read_list_def comp_def)
qed

lemma read_version_date_json:
  "(case v of None \<Rightarrow> True | Some d \<Rightarrow> valid_datetime (midnight d)) \<Longrightarrow>
   read_version_date (opt_json (\<lambda>d. JStr (date_isoformat d)) v) = Some v"
proof (cases v)
  case (Some d)
  have "date_isoformat d \<noteq> []" by (simp add: date_isoformat_def)
  then show "(case v of None \<Rightarrow> True | Some d \<Rightarrow> valid_datetime (midnight d)) \<Longrightarrow> ?thesis"
    using Some by (simp add: read_version_date_def opt_json_def date_roundtrip)
qed (simp add: read_version_date_def opt_json_def)

lemma read_contact: "parse_person (opt_json person_json c) = c"
  by (cases c) (simp_all add: opt_json_def, simp add: parse_person_def)

lemma read_compatible_text: "read_compatible (text_list xs) = filter (\<lambda>s. s \<noteq> []) xs"
  by (induction xs) (auto simp: read_compatible_def text_list_def str_of_def)

lemma doc_refs_json: "jget d k = doc_list rs \<Longrightarrow> doc_refs_of d k t = Some rs"
  by (simp add: doc_refs_of_def doc_list_def read_list_list map_opt_id)

lemma read_specs_json:
  "(if opt_json spec_json s = JNull then Some None else map_option Some (read_spec (opt_json spec_json s))) = Some s"
  by (cases s) (simp_all add: opt_json_def)

text \<open>
  Writing a manifest and reading it gives its saved form, whatever random ids are drawn. The fields
  not named in \<open>saved_form\<close> are what they were.
\<close>

lemma manifest_resave:
  assumes wf: "manifest_wf m" and d: "manifest_to_dict m = Some d"
  shows "manifest_from_dict md5 fresh d = Some (saved_form m)"
proof -
  obtain cs where cs: "contributors_json (om_contributors m) = Some cs"
    and d: "d = filter (\<lambda>(k, v). v \<noteq> JNull) (manifest_fields m cs)"
    using d by (auto simp: manifest_to_dict_def)
  have J: "jget d k = jget (manifest_fields m cs) k" "get_default d k e = field_or (manifest_fields m cs) k e"
    "field_or d k e = field_or (manifest_fields m cs) k e" for k e
    unfolding d by (simp_all add: jget_filter get_default_filter field_or_filter distinct_fields)
  note V = fields_values [of m cs]
  have i: "read_manifest_id md5 (fresh 0) d = Some (om_id m)"
  proof -
    have "is_uuid (om_id m)" using wf by (simp add: manifest_wf_def)
    then show ?thesis using uuid_not_Nil by (simp add: read_manifest_id_def J(1) V)
  qed
  have l: "read_list d ''contributors'' (\<lambda>xs. Some (map parse_person xs)) = Some (om_contributors m)"
    "read_list d ''materials'' (\<lambda>xs. Some (List.map_filter read_material xs)) = Some (om_materials m)"
    "read_list d ''parts'' (read_parts md5 (\<lambda>n. fresh (Suc n))) = Some (map part_form (om_parts m))"
    "read_list d ''components'' (\<lambda>xs. Some (List.map_filter read_component xs)) = Some (om_components m)"
    "read_list d ''standards_used'' (map_opt read_standard) = Some (om_standards m)"
    "read_list d ''software'' (map_opt read_software) = Some (om_software m)"
    "read_list d ''repair_guides'' (\<lambda>xs. Some (List.map_filter read_guide xs)) = Some (om_repair_guides m)"
    "read_list d ''disassembly_guides'' (\<lambda>xs. Some (List.map_filter read_guide_ref xs)) = Some (om_disassembly m)"
    using wf by (simp_all add: read_contributors [OF cs] read_list_list [OF trans [OF J(1)]] V doc_list_def map_filter_some map_opt_id
        read_parts_json read_guide_ref_json manifest_wf_def J(1))
  have v: "read_version_date (jget d ''version_date'') = Some (om_version_date m)"
    using wf by (simp add: J(1) V read_version_date_json manifest_wf_def)
  have r: "doc_refs_of d ''manufacturing_files'' MANUFACTURING_FILES = Some (om_manufacturing_files m)"
    "doc_refs_of d ''design_files'' DESIGN_FILES = Some (om_design_files m)"
    "doc_refs_of d ''making_instructions'' MAKING_INSTRUCTIONS = Some (om_making m)"
    "doc_refs_of d ''operating_instructions'' OPERATING_INSTRUCTIONS = Some (om_operating m)"
    "doc_refs_of d ''technical_specifications'' TECHNICAL_SPECIFICATIONS = Some (om_specifications m)"
    "doc_refs_of d ''publications'' PUBLICATIONS = Some (om_publications m)"
    by (simp_all add: doc_refs_json J(1) V)
  have s: "(if jget d ''manufacturing_specs'' = JNull then Some None else map_option Some (read_spec (jget d ''manufacturing_specs''))) =
      Some (om_specs m)"
    unfolding J(1) V by (rule read_specs_json)
  have t: "normalize_string_list coerce_keyword_entry (text_list (om_keywords m)) = om_keywords m"
    "normalize_string_list coerce_tool_list_entry (text_list (om_tool_list m)) = om_tool_list m"
    "normalize_string_list coerce_process_list_entry (text_list (om_processes m)) = om_processes m"
    using wf by (simp_all add: coercers normalize_text_list manifest_wf_def)
  have w: "om_okhv m \<noteq> JNull" "om_metadata m \<noteq> JNull" "only_list (om_tsdc m) = om_tsdc m" "only_list (om_sub_parts m) = om_sub_parts m"
    using wf by (simp_all add: manifest_wf_def)
  have "manifest_of d (om_id m) (om_contributors m) (om_version_date m) (om_manufacturing_files m) (om_design_files m) (om_making m)
      (om_operating m) (om_specifications m) (om_publications m) (om_materials m) (om_specs m) (map part_form (om_parts m))
      (om_components m) (om_standards m) (om_software m) (om_repair_guides m) (om_disassembly m) = saved_form m"
    unfolding manifest_of_def saved_form_def J field_or_def V t
    by (rule design_manifest.equality; simp add: w or_empty_def read_contact read_compatible_text)
  then show ?thesis unfolding manifest_from_dict_def by (simp add: i l v r s del: not_None_eq)
qed

section \<open>Requirements survive\<close>

lemma part_requirements_form [simp]: "part_requirements (part_form p) = part_requirements p"
  by (cases "pt_params p") (simp_all add: part_requirements_def part_form_def)

lemma any_part_form [simp]: "any_part c (map part_form ps) = any_part c ps"
  by (induction ps) (simp_all add: part_form_def split: option.split bool.split)

lemma map_opt_comp: "(\<And>x. f (g x) = f x) \<Longrightarrow> map_opt f (map g xs) = map_opt f xs"
  by (induction xs) simp_all

lemma requirements_saved: "okh_requirements (saved_form m) = okh_requirements m" "has_tsdc c (saved_form m) = has_tsdc c m"
  by (simp_all add: okh_requirements_def has_tsdc_def saved_form_def map_opt_comp split: option.split bool.split)

section \<open>Agents after the trip\<close>

definition saved_licensor :: "agent \<Rightarrow> agent" where
  "saved_licensor a =
     (case a of
        AgPerson p \<Rightarrow> AgPerson p
      | AgOrg o' \<Rightarrow> AgPerson \<lparr>pn_name = og_name o', pn_email = og_email o', pn_affiliation = JNull, pn_social = JList []\<rparr>
      | AgRaw (JObj d) \<Rightarrow> AgRaw JNull
      | _ \<Rightarrow> parse_agent (agent_json a))"

lemma saved_licensor_eq: "parse_agent (agent_json a) = saved_licensor a"
  by (auto simp: saved_licensor_def agent_json_def split: agent.split json.split)

text \<open>
  C22: the dict form of a manifest is a faithful copy. A manifest that was read and can be written
  is read back as its saved form: the same but for a missing title, version, language or function, which
  becomes the empty text, part files given as one text, which become a list, the licensor and the
  organisation (an organisation comes back as a person without a URL), and \<open>data_source\<close>, which is
  dropped. The process requirements matching uses are unchanged.
\<close>

theorem okh_manifest_roundtrip:
  assumes "\<forall>n. is_uuid (fresh n)" and "manifest_from_dict md5 fresh d = Some m" and "manifest_to_dict m = Some d'"
  shows "manifest_from_dict md5 fresh' d' = Some (saved_form m) \<and> om_id (saved_form m) = om_id m \<and>
    om_licensor (saved_form m) = saved_licensor (om_licensor m) \<and>
    okh_requirements (saved_form m) = okh_requirements m \<and> has_tsdc c (saved_form m) = has_tsdc c m"
  using manifest_resave [OF from_dict_wf [OF assms(1,2)] assms(3)] requirements_saved
  by (simp add: saved_form_def saved_licensor_eq)

definition lamp_dict :: doc where
  "lamp_dict = [(''id'', JStr ''12345678-1234-1234-1234-123456789abc''), (''title'', JStr ''Lamp''), (''version'', JStr ''1.0''),
     (''license'', JStr ''MIT''), (''licensor'', JObj [(''name'', JStr ''ACME''), (''url'', JStr ''https://acme'')]),
     (''documentation_language'', JStr ''en''), (''function'', JStr ''Light''), (''data_source'', JStr ''github''),
     (''manufacturing_processes'', JList [JStr '' Milling ''])]"

definition lamp :: design_manifest where
  "lamp = manifest_of lamp_dict ''12345678-1234-1234-1234-123456789abc'' [] None [] [] [] [] [] [] [] None [] [] [] [] [] []"

lemma lamp_read: "manifest_from_dict id (\<lambda>n. ''12345678-1234-1234-1234-123456789abc'') lamp_dict = Some lamp"
  by code_simp

lemma lamp_written: "manifest_to_dict lamp = Some (filter (\<lambda>(k, v). v \<noteq> JNull) (manifest_fields lamp JNull))"
  by (simp add: manifest_to_dict_def contributors_json_def lamp_def manifest_of_def)

lemma lamp_uuid: "is_uuid ''12345678-1234-1234-1234-123456789abc''"
  by code_simp

lemma lamp_agents:
  "om_licensor lamp = AgOrg \<lparr>og_name = JStr ''ACME'', og_url = JStr ''https://acme'', og_email = JNull\<rparr>"
  "om_data_source lamp = JStr ''github''"
  by code_simp+

theorem okh_manifest_roundtrip_witness:
  "manifest_from_dict id (\<lambda>n. []) (filter (\<lambda>(k, v). v \<noteq> JNull) (manifest_fields lamp JNull)) = Some (saved_form lamp) \<and>
   om_licensor lamp = AgOrg \<lparr>og_name = JStr ''ACME'', og_url = JStr ''https://acme'', og_email = JNull\<rparr> \<and>
   om_licensor (saved_form lamp) = AgPerson \<lparr>pn_name = JStr ''ACME'', pn_email = JNull, pn_affiliation = JNull, pn_social = JList []\<rparr>"
  using okh_manifest_roundtrip [of "\<lambda>n. ''12345678-1234-1234-1234-123456789abc''" id lamp_dict lamp _ "\<lambda>n. []"]
    lamp_uuid lamp_read lamp_written lamp_agents
  by (simp add: saved_licensor_def)

lemma okh_unwritable: "manifest_to_dict m = None \<longleftrightarrow> None \<in> set (om_contributors m)"
proof -
  have "map_opt id cs = None \<longleftrightarrow> None \<in> set cs" for cs :: "person option list"
    by (induction cs) (auto split: bind_splits)
  then show ?thesis by (auto simp: manifest_to_dict_def contributors_json_def)
qed

text \<open>
  A manifest can be written exactly when every contributor could be read. A contributor given as
  an empty text, a number or a text of several lines is kept as \<open>None\<close>, and \<open>to_dict\<close> raises on it, so the
  record can be loaded but neither saved, updated nor returned.
\<close>

theorem okh_unwritable_contributor: "manifest_to_dict m = None \<longleftrightarrow> None \<in> set (om_contributors m)"
  by (rule okh_unwritable)

section \<open>Document paths\<close>

lemma is_alnum_lower [simp]: "is_alnum (lower_char c) = is_alnum c"
  by (auto simp: is_alnum_def lower_char_def Let_def)

lemma alnum_not_space: "is_alnum c \<Longrightarrow> \<not> is_space c"
  by (auto simp: is_alnum_def is_space_def Let_def)

lemma alnum_strip:
  assumes "list_ex is_alnum p"
  shows "strip p \<noteq> []"
proof -
  let ?t = "dropWhile is_space p"
  have "?t \<noteq> []" using assms alnum_not_space by (auto simp: dropWhile_eq_Nil_conv list_ex_iff)
  then have "hd ?t \<in> set ?t" "\<not> is_space (hd ?t)" using hd_dropWhile [of is_space p] by simp_all
  then show ?thesis by (auto simp: strip_def rstrip_by_def lstrip_by_def dropWhile_eq_Nil_conv)
qed

lemma lower_char_dot: "lower_char c = CHR ''.'' \<Longrightarrow> c = CHR ''.''"
  by (cases c) (simp add: lower_char_bits split: if_splits)

lemma path_stem_subset: "set (path_stem p) \<subseteq> set p"
  by (auto simp: path_stem_def Let_def dest: in_set_takeD)

lemma common_filename_alnum: "lower (path_stem p) \<in> set common_filenames \<Longrightarrow> list_ex is_alnum p"
proof -
  assume a: "lower (path_stem p) \<in> set common_filenames"
  have "\<forall>w\<in>set common_filenames. list_ex is_alnum w" by (simp add: common_filenames_def is_alnum_def)
  with a have "list_ex is_alnum (lower (path_stem p))" by blast
  then show ?thesis using path_stem_subset [of p] by (auto simp: list_ex_iff lower_def)
qed

lemma ends_with_dot: "ends_with (CHR ''.'' # e) p \<Longrightarrow> CHR ''.'' \<in> set p"
  by (auto simp: ends_with_def elim!: starts_withE) (metis in_set_conv_decomp set_rev)

lemma extension_dot:
  assumes "list_ex (\<lambda>e. ends_with e (lower p)) valid_extensions"
  shows "CHR ''.'' \<in> set p"
proof -
  have "\<forall>e\<in>set valid_extensions. hd e = CHR ''.'' \<and> e \<noteq> []" by (simp add: valid_extensions_def)
  with assms have "CHR ''.'' \<in> set (lower p)"
    by (auto simp: list_ex_iff) (metis ends_with_dot list.collapse)
  then obtain c where "c \<in> set p" "lower_char c = CHR ''.''" by (auto simp: lower_def)
  then show ?thesis using lower_char_dot by metis
qed

text \<open>
  The document check refuses next to nothing. An absolute path must exist; a relative one is valid
  as soon as it holds a slash, a dot, a letter or a digit, so the lists of extensions and of file names
  in the code decide nothing.
\<close>

theorem document_path_check:
  "validate_path exists p \<longleftrightarrow>
     (if starts_with ''/'' p then exists p
      else CHR ''/'' \<in> set p \<or> CHR ''.'' \<in> set p \<or> list_ex is_alnum p \<or>
        list_ex exists [p, ''docs/'' @ p, ''documentation/'' @ p, ''manual/'' @ p])"
proof (cases "starts_with ''/'' p")
  case True
  then have "\<not> starts_with ''http://'' p" "\<not> starts_with ''https://'' p" by (auto elim!: starts_withE)
  with True show ?thesis by (simp add: validate_path_def)
next
  case False
  have h: "starts_with ''http://'' p \<Longrightarrow> CHR ''/'' \<in> set p" "starts_with ''https://'' p \<Longrightarrow> CHR ''/'' \<in> set p"
    by (auto elim!: starts_withE)
  have a: "list_ex is_alnum p \<Longrightarrow> p \<noteq> []" by auto
  show ?thesis using False h a alnum_strip [of p] common_filename_alnum [of p] extension_dot [of p]
    unfolding validate_path_def Let_def by auto
qed

end
