(* ===== verification/Okh_Service_Facts.thy ===== *)
theory Okh_Service_Facts imports Okh_Catalog Okh_Facts begin

text \<open>
  What a design service call can find of what an earlier one stored: a created design is found again
  as it was saved, unless its title makes the file look like a bill of materials.
\<close>

section \<open>The extra keys of a stored payload\<close>

definition same_fields :: "doc \<Rightarrow> doc \<Rightarrow> bool" where
  "same_fields d d' \<longleftrightarrow> (\<forall>k. \<not> starts_with ''ohm_'' k \<longrightarrow> map_of d' k = map_of d k)"

lemma carried_same:
  "\<not> starts_with ''ohm_'' k \<Longrightarrow>
   map_of (fold (\<lambda>(k, v) p. if starts_with ''ohm_'' k then AList.update k v p else p) s d) k = map_of d k"
  by (induction s arbitrary: d) auto

lemma apply_ohm_same: "same_fields d (apply_ohm_metadata d source by')"
proof -
  have "\<not> starts_with ''ohm_'' k \<Longrightarrow> k \<noteq> ''ohm_created_by''" for k by (auto simp: starts_with_def)
  then show ?thesis by (auto simp: same_fields_def apply_ohm_metadata_def Let_def carried_same split: option.split)
qed

lemma same_fields_get:
  assumes "same_fields d d'" and "\<not> starts_with ''ohm_'' k"
  shows "jget d' k = jget d k" and "get_default d' k e = get_default d k e" and "field_or d' k e = field_or d k e"
    and "read_list d' k f = read_list d k f" and "doc_refs_of d' k t = doc_refs_of d k t"
  using assms by (simp_all add: same_fields_def jget_def get_default_def field_or_def read_list_def doc_refs_of_def)

lemma from_dict_same:
  assumes "same_fields d d'"
  shows "manifest_from_dict md5 fresh d' = manifest_from_dict md5 fresh d"
  unfolding manifest_from_dict_def manifest_of_def read_manifest_id_def
  by (simp add: same_fields_get [OF assms] starts_with_def)

section \<open>Storing and listing\<close>

lemma find_put:
  "Option.bind (find (\<lambda>b. bl_key b = k') (put_blob k d now bs)) bl_content =
     (if k' = k then Some (JObj d) else Option.bind (find (\<lambda>b. bl_key b = k') bs) bl_content)"
  by (induction bs) auto

lemma read_put [simp]: "read_object (put_object k d now st) k' = (if k' = k then Some (JObj d) else read_object st k')"
  by (simp add: read_object_def put_object_def find_put)

lemma keys_put: "bl_key ` set (put_blob k d now bs) = insert k (bl_key ` set bs)"
  by (induction bs) auto

definition listed :: "string \<Rightarrow> bool" where
  "listed k \<longleftrightarrow> starts_with ''okh/'' k \<and> \<not> is_okh_bom_sidecar_storage_key k"

lemma okh_files:
  "discover_files (okh_listing st) ''okh'' = map (file_info_of ''okh'' False) (filter (\<lambda>b. listed (bl_key b)) (os_blobs st))"
  by (simp add: discovery_stops directory_prefix_def okh_listing_def listed_def conj_commute)

lemma okh_file_keys: "fi_key ` set (discover_files (okh_listing st) ''okh'') = {k \<in> bl_key ` set (os_blobs st). listed k}"
  by (force simp: okh_files file_info_of_def)

section \<open>The winners of the catalogue\<close>

lemma winner_loaded:
  "(i, fi, raw) \<in> set (fold keep_newest es ws) \<Longrightarrow> (fi, i, raw) \<in> set es \<or> (i, fi, raw) \<in> set ws"
proof (induction es arbitrary: ws)
  case (Cons e es)
  obtain fi' i' raw' where e: "e = (fi', i', raw')" using prod_cases3 by blast
  have "set (keep_newest e ws) \<subseteq> insert (i', fi', raw') (set ws)"
    using set_update_subset [of i' "(fi', raw')" ws] by (auto simp: keep_newest_def e split: option.split)
  with Cons show ?case by (auto simp: e)
qed simp

lemma catalog_winner:
  assumes "(i, fi, raw) \<in> set (catalog_winners md5 fr st)"
  shows "fi \<in> set (discover_files (okh_listing st) ''okh'') \<and> fixed_dict md5 fr st (fi_key fi) = Some raw \<and>
    (\<exists>m. manifest_from_dict md5 (fr (fi_key fi)) raw = Some m \<and> om_id m = i)"
proof -
  have "(fi, i, raw) \<in> set (List.map_filter (load_entry md5 fr st) (discover_files (okh_listing st) ''okh''))"
    using assms winner_loaded [of i fi raw _ "[]"] unfolding catalog_winners_def by auto
  then show ?thesis by (auto simp: load_entry_def dest!: map_filter_set split: option.splits if_splits)
qed

text \<open>The id of the design a file holds.\<close>

definition design_id :: "(string \<Rightarrow> string) \<Rightarrow> draws \<Rightarrow> okh_state \<Rightarrow> string \<Rightarrow> uuid option" where
  "design_id md5 fr st k = map_option om_id (Option.bind (fixed_dict md5 fr st k) (manifest_from_dict md5 (fr k)))"

lemma from_dict_id:
  assumes "is_uuid i" and "jget d ''id'' = JStr i" and "manifest_from_dict md5 fresh d = Some m"
  shows "om_id m = i"
  using from_dict_fields(1) [OF assms(3)] assms(1,2) uuid_not_Nil [OF assms(1)] by (simp add: read_manifest_id_def)

lemma first_some_unique:
  "\<forall>x\<in>set xs. f x = None \<or> f x = Some y \<Longrightarrow> first_some f xs = (if \<exists>x\<in>set xs. f x \<noteq> None then Some y else None)"
  by (induction xs) (auto, blast+)

text \<open>A look-up when at most one file, \<open>k\<close>, holds the id.\<close>

lemma get_unique:
  assumes i: "is_uuid i" and e: "catalog_entries md5 fr now st = Some (json_entries (assemble_okh_catalog md5 fr st), st\<lparr>os_cache := c\<rparr>)"
    and u: "\<forall>k'\<in>bl_key ` set (os_blobs st). k' = k \<or> design_id md5 fr st k' \<noteq> Some i"
    and k: "fixed_dict md5 fr st k = Some d" "jget d ''id'' = JStr i" "manifest_from_dict md5 (fr k) d = Some m" "k \<in> bl_key ` set (os_blobs st)"
  shows "fst (design_get md5 fr now i st) = Inr (if listed k then Some m else None)"
proof -
  let ?files = "discover_files (okh_listing st) ''okh''"
  have same: "k' = k" if "fixed_dict md5 fr st k' = Some d'" "jget d' ''id'' = JStr i"
    "manifest_from_dict md5 (fr k') d' = Some m'" "k' \<in> fi_key ` set ?files" for k' d' m'
  proof -
    have "design_id md5 fr st k' = Some i" using that from_dict_id [OF i] by (simp add: design_id_def)
    moreover have "k' \<in> bl_key ` set (os_blobs st)" using that(4) unfolding okh_file_keys by blast
    ultimately show ?thesis using u by blast
  qed
  let ?es = "json_entries (assemble_okh_catalog md5 fr st)"
  show ?thesis
  proof (cases "find (\<lambda>(k, d). jget d ''id'' = JStr i) ?es")
    case (Some p)
    obtain k' d' where p: "p = (k', d')" by fastforce
    from Some have "(k', d') \<in> set ?es" and id: "jget d' ''id'' = JStr i" using find_mem p by fast+
    then obtain j fi where w: "(j, fi, d') \<in> set (catalog_winners md5 fr st)" "k' = fi_key fi" by (auto simp: json_entries_assemble)
    note W = catalog_winner [OF w(1)]
    then obtain m' where "fixed_dict md5 fr st k' = Some d'" "manifest_from_dict md5 (fr k') d' = Some m'" "k' \<in> fi_key ` set ?files"
      using w(2) by auto
    then have kk: "k' = k" using id by (intro same)
    with W w(2) k(1) have "d' = d" by simp
    moreover have "listed k" using W w(2) kk okh_file_keys [of st] by auto
    ultimately show ?thesis using Some e k(3) kk by (simp add: design_get_def p)
  next
    case None
    let ?f = "\<lambda>fi. case fixed_dict md5 fr st (fi_key fi) of
         None \<Rightarrow> None
       | Some d \<Rightarrow> if jget d ''id'' = JStr i then manifest_from_dict md5 (fr (fi_key fi)) d else None"
    have st: "scan_for md5 fr (st\<lparr>os_cache := c\<rparr>) i = first_some ?f ?files"
      using discover_cong [of "st\<lparr>os_cache := c\<rparr>" st] fixed_dict_cong [of "st\<lparr>os_cache := c\<rparr>" st] by (simp add: scan_for_def)
    have f: "?f fi = (if fi_key fi = k then Some m else None)" if "fi \<in> set ?files" for fi
    proof (cases "?f fi")
      case None
      then show ?thesis using k by auto
    next
      case (Some m')
      then have "fi_key fi = k" using that by (auto split: option.splits if_splits intro: same)
      then show ?thesis using k by simp
    qed
    then have "first_some ?f ?files = (if k \<in> fi_key ` set ?files then Some m else None)"
      by (subst first_some_unique [where y = m]) auto
    then show ?thesis using None e k(4) unfolding okh_file_keys by (simp add: design_get_def st)
  qed
qed

section \<open>File names\<close>

lemma uuid_chars:
  assumes "is_uuid u"
  shows "CHR ''/'' \<notin> set u"
proof -
  have "\<exists>h. dashed (lower h) = u \<and> list_all is_hex h"
    using assms unfolding is_uuid_def parse_uuid_def Let_def by (auto split: if_splits)
  then obtain h where "u = dashed (lower h)" "list_all is_hex h" by blast
  moreover have "\<not> is_hex (CHR ''/'')" by (simp add: is_hex_def lower_char_def)
  moreover have "list_all is_hex (lower h)" using calculation(2) by (simp add: lower_def list_all_iff)
  ultimately show ?thesis using set_dashed [of "lower h"] by (auto simp: list_all_iff)
qed

lemma lower_char_slash: "lower_char c = CHR ''/'' \<Longrightarrow> c = CHR ''/''"
  by (cases c) (simp add: lower_char_bits split: if_splits)

lemma set_rstrip_by: "set (rstrip_by P xs) \<subseteq> set xs"
  by (auto simp: rstrip_by_def dest: set_dropWhileD)

lemma safe_title_form:
  assumes "safe_title t = Some safe"
  shows "lower safe = safe \<and> CHR ''/'' \<notin> set safe"
proof -
  define kept where "kept texts = concat (filter (\<lambda>s. s \<noteq> [] \<and> list_all is_alnum s \<or> s \<in> {'' '', ''-'', ''_''}) texts)" for texts
  obtain texts where s: "safe = lower (map (\<lambda>c. if c = CHR '' '' then CHR ''-'' else c) (rstrip_by is_space (kept texts)))"
    using assms by (auto simp: safe_title_def Let_def kept_def split: bind_splits)
  have "\<not> is_alnum (CHR ''/'')" by (simp add: is_alnum_def)
  then have "CHR ''/'' \<notin> set (kept texts)" by (auto simp: list_all_iff kept_def)
  then have n: "CHR ''/'' \<notin> set (rstrip_by is_space (kept texts))" using set_rstrip_by by blast
  have "CHR ''/'' \<notin> set safe"
  proof
    assume "CHR ''/'' \<in> set safe"
    then obtain c where "c \<in> set (rstrip_by is_space (kept texts))" "lower_char (if c = CHR '' '' then CHR ''-'' else c) = CHR ''/''"
      unfolding s lower_def by auto
    then show False using n lower_char_slash by (auto split: if_splits)
  qed
  then show ?thesis unfolding s by simp
qed

lemma base_name_key: "CHR ''/'' \<notin> set w \<Longrightarrow> base_name (''okh/'' @ w) = w"
  by (auto simp: base_name_def takeWhile_append)

lemma starts_with_safe:
  "CHR ''-'' \<notin> set p \<Longrightarrow> starts_with p (s @ CHR ''-'' # t) \<longleftrightarrow> starts_with p s"
proof (induction p arbitrary: s)
  case (Cons c p)
  then show ?case by (cases s) (auto simp: starts_with_def)
qed (simp add: starts_with_def)

lemma design_key_sidecar:
  assumes "safe_title t = Some safe" and "is_uuid i"
  shows "listed (design_key safe i) \<longleftrightarrow> \<not> starts_with ''bom_'' safe"
proof -
  let ?w = "safe @ ''-'' @ take 8 i @ ''-okh.json''"
  have "CHR ''/'' \<notin> set ?w" using safe_title_form [OF assms(1)] uuid_chars [OF assms(2)] by (auto dest: in_set_takeD)
  then have "base_name (design_key safe i) = ?w" unfolding design_key_def by (rule base_name_key)
  moreover have "lower ?w = safe @ CHR ''-'' # lower (take 8 i) @ ''-okh.json''"
    using safe_title_form [OF assms(1)] by (simp add: lower_def lower_char_def)
  ultimately show ?thesis
    by (auto simp: listed_def is_okh_bom_sidecar_storage_key_def Let_def starts_with_safe ends_with_def)
      (auto simp: starts_with_def design_key_def)
qed

section \<open>Created designs\<close>

lemma stored_payload:
  assumes f: "\<forall>n. is_uuid (fresh n)" and m: "manifest_from_dict md5 fresh data = Some m" and d: "manifest_to_dict m = Some d"
  shows "jget (apply_ohm_metadata d source by') ''id'' = JStr (om_id m) \<and>
    manifest_from_dict md5 fresh' (apply_ohm_metadata d source by') = Some (saved_form m) \<and> is_uuid (om_id m)"
proof -
  obtain cs where "d = filter (\<lambda>(k, v). v \<noteq> JNull) (manifest_fields m cs)" using d by (auto simp: manifest_to_dict_def)
  then have "jget d ''id'' = JStr (om_id m)" by (simp add: jget_filter distinct_fields fields_values)
  then show ?thesis
    using same_fields_get(1) [OF apply_ohm_same, of "''id''" d source by'] from_dict_same [OF apply_ohm_same, of md5 fresh' d source by']
      manifest_resave [OF from_dict_wf [OF f m] d] from_dict_wf [OF f m]
    by (simp add: starts_with_def manifest_wf_def)
qed

lemma fixed_dict_put:
  assumes "jget d ''id'' = JStr i" and "is_uuid i"
  shows "fixed_dict md5 fr (put_object k d now st) k' = (if k' = k then Some d else fixed_dict md5 fr st k')"
  using assms by (auto simp: fixed_dict_def validate_and_fix_data_def jget_def is_uuid_def split: option.splits)

lemma created_then_get:
  assumes f: "\<forall>n. is_uuid (fr [] n)" and coh: "catalog_coherent md5 st"
    and c: "okh_create md5 fr now data by' p st = (Inr m, st')" and s: "safe_title (om_title m) = Some safe"
    and u: "list_all (\<lambda>b. bl_key b = design_key safe (om_id m) \<or> design_id md5 fr' st (bl_key b) \<noteq> Some (om_id m)) (os_blobs st)"
  shows "fst (design_get md5 fr' now' (om_id m) st') = Inr (if starts_with ''bom_'' safe then None else Some (saved_form m)) \<and>
    okh_get_visibility st' (om_id m) = PRIVATE"
proof -
  let ?k = "design_key safe (om_id m)"
  have m: "manifest_from_dict md5 (fr []) data = Some m"
    using c by (auto simp: okh_create_def okh_store_def Let_def split: option.splits)
  obtain d where d: "manifest_to_dict m = Some d"
    using c m s by (auto simp: okh_create_def okh_store_def split: option.splits)
  let ?d = "apply_ohm_metadata d (Some data) by'"
  have P: "jget ?d ''id'' = JStr (om_id m)" "manifest_from_dict md5 (fr' ?k) ?d = Some (saved_form m)" "is_uuid (om_id m)"
    using stored_payload [OF f m d] by blast+
  define st2 where "st2 = (case p of None \<Rightarrow> put_object ?k ?d now st | Some q \<Rightarrow> okh_save_provenance (om_id m) q (put_object ?k ?d now st))"
  define st3 where "st3 = okh_save_visibility (om_id m) default_visibility st2"
  have st': "st' = invalidate_catalog_cache st3"
    using c m s d by (simp add: okh_create_def okh_store_def Let_def st2_def st3_def)
  have b: "os_blobs st' = os_blobs (put_object ?k ?d now st)" and k3: "os_cache st3 = os_cache st"
    by (simp_all add: st' st3_def st2_def invalidate_catalog_cache_def okh_save_visibility_def okh_save_provenance_def put_object_def
        split: option.split)
  have "\<exists>c. catalog_entries md5 fr' now' st' = Some (json_entries (assemble_okh_catalog md5 fr' st'), st'\<lparr>os_cache := c\<rparr>)"
    using coh k3 unfolding st' catalog_coherent_def by (intro catalog_entries_fresh invalidate_empty) simp
  then obtain c' where e: "catalog_entries md5 fr' now' st' = Some (json_entries (assemble_okh_catalog md5 fr' st'), st'\<lparr>os_cache := c'\<rparr>)"
    by blast
  have fd: "fixed_dict md5 fr' st' k = (if k = ?k then Some ?d else fixed_dict md5 fr' st k)" for k
    using fixed_dict_cong [OF b] fixed_dict_put [OF P(1,3)] by simp
  have "\<forall>k\<in>bl_key ` set (os_blobs st'). k = ?k \<or> design_id md5 fr' st' k \<noteq> Some (om_id m)"
    using u unfolding b put_object_def by (auto simp: keys_put design_id_def fd list_all_iff)
  moreover have "?k \<in> bl_key ` set (os_blobs st')" unfolding b by (simp add: put_object_def keys_put)
  ultimately have "fst (design_get md5 fr' now' (om_id m) st') = Inr (if listed ?k then Some (saved_form m) else None)"
    using get_unique [OF P(3) e, of ?k ?d "saved_form m"] fd [of ?k] P(1,2) by simp
  moreover have "okh_get_visibility st' (om_id m) = PRIVATE"
    by (simp add: st' st3_def okh_get_visibility_def invalidate_catalog_cache_def okh_save_visibility_def default_visibility_def)
  ultimately show ?thesis using design_key_sidecar [OF s P(3)] by simp
qed

text \<open>
  C24: a created design can be looked up at once, and the look-up returns the manifest as it is saved,
  provided no other file holds its id. The exception is a title that begins with \<open>bom_\<close> once it is made
  into a file name: the file is then taken for a bill of materials, no look-up finds the design, and
  \<open>create\<close> reports success all the same.
\<close>

theorem okh_create_then_get:
  assumes f: "\<forall>n. is_uuid (fr [] n)" and coh: "catalog_coherent md5 st"
    and c: "okh_create md5 fr now data by' p st = (Inr m, st')" and s: "safe_title (om_title m) = Some safe"
    and u: "list_all (\<lambda>b. bl_key b = design_key safe (om_id m) \<or> design_id md5 fr' st (bl_key b) \<noteq> Some (om_id m)) (os_blobs st)"
  shows "fst (design_get md5 fr' now' (om_id m) st') = Inr (if starts_with ''bom_'' safe then None else Some (saved_form m)) \<and>
    okh_get_visibility st' (om_id m) = PRIVATE"
  by (rule created_then_get [OF assms])

definition reader_dict :: doc where
  "reader_dict = [(''id'', JStr ''12345678-1234-1234-1234-123456789abc''), (''title'', JStr ''BOM_Reader''), (''version'', JStr ''1.0''),
     (''license'', JStr ''MIT''), (''licensor'', JStr ''Ada''), (''documentation_language'', JStr ''en''), (''function'', JStr ''Reads'')]"

definition reader :: design_manifest where
  "reader = manifest_of reader_dict ''12345678-1234-1234-1234-123456789abc'' [] None [] [] [] [] [] [] [] None [] [] [] [] [] []"

lemma reader_read: "manifest_from_dict id (\<lambda>n. ''12345678-1234-1234-1234-123456789abc'') reader_dict = Some reader"
  by code_simp

lemma reader_written: "\<exists>d. manifest_to_dict reader = Some d"
  by (simp add: manifest_to_dict_def contributors_json_def reader_def manifest_of_def)

lemma reader_title: "safe_title (om_title reader) = Some ''bom_reader''"
  by code_simp

lemma reader_created:
  "fst (okh_create id (\<lambda>k n. ''12345678-1234-1234-1234-123456789abc'') 0 reader_dict None None (okh_start [] True [] 5 60 0)) = Inr reader"
proof -
  obtain d where "manifest_to_dict reader = Some d" using reader_written by blast
  then show ?thesis by (simp add: okh_create_def okh_store_def reader_read reader_title Let_def)
qed

theorem okh_create_then_get_witness:
  "fst (okh_create id (\<lambda>k n. ''12345678-1234-1234-1234-123456789abc'') 0 reader_dict None None (okh_start [] True [] 5 60 0)) = Inr reader \<and>
   fst (design_get id (\<lambda>k n. []) 1 (om_id reader)
     (snd (okh_create id (\<lambda>k n. ''12345678-1234-1234-1234-123456789abc'') 0 reader_dict None None (okh_start [] True [] 5 60 0)))) = Inr None"
proof -
  let ?fr = "\<lambda>k n. ''12345678-1234-1234-1234-123456789abc''" and ?st = "okh_start [] True [] 5 60 0"
  have "okh_create id ?fr 0 reader_dict None None ?st = (Inr reader, snd (okh_create id ?fr 0 reader_dict None None ?st))"
    using reader_created by (simp add: prod_eq_iff)
  from okh_create_then_get [OF _ okh_start_coherent this reader_title, of "\<lambda>k n. []" 1]
  show ?thesis using reader_created lamp_uuid by (simp add: okh_start_def starts_with_def)
qed

section \<open>Updates without an id\<close>

lemma find_key_listed:
  assumes "catalog_coherent md5 st" and "okh_find_key md5 fr now i st = Some (Some k, st1)"
  shows "k \<in> bl_key ` set (os_blobs st) \<and> listed k \<and> (\<exists>c. st1 = st\<lparr>os_cache := c\<rparr> \<and> catalog_coherent md5 st1)"
proof -
  obtain fr' c where e: "catalog_entries md5 fr now st = Some (json_entries (assemble_okh_catalog md5 fr' st), st\<lparr>os_cache := c\<rparr>)"
    and c: "catalog_coherent md5 (st\<lparr>os_cache := c\<rparr>)" using catalog_entries_coherent [OF assms(1)] by blast
  let ?files = "discover_files (okh_listing st) ''okh''"
  have st1: "st1 = st\<lparr>os_cache := c\<rparr>" using assms(2) e by (simp add: okh_find_key_def)
  have "k \<in> fi_key ` set ?files"
  proof (cases "find (\<lambda>(k, d). jget d ''id'' = JStr i) (json_entries (assemble_okh_catalog md5 fr' st))")
    case (Some p)
    then have "k = fst p" "p \<in> set (json_entries (assemble_okh_catalog md5 fr' st))"
      using assms(2) e find_mem [OF Some] by (auto simp: okh_find_key_def split: prod.splits)
    then obtain j fi raw where "(j, fi, raw) \<in> set (catalog_winners md5 fr' st)" "k = fi_key fi" by (auto simp: json_entries_assemble)
    then show ?thesis using catalog_winner by blast
  next
    case None
    have "discover_files (okh_listing (st\<lparr>os_cache := c\<rparr>)) ''okh'' = ?files" by (rule discover_cong) simp
    then obtain fi where "k = fi_key fi" "find (\<lambda>fi. case read_object st1 (fi_key fi) of Some (JObj d) \<Rightarrow> jget d ''id'' = JStr i | _ \<Rightarrow> False) ?files = Some fi"
      using assms(2) e None st1 by (auto simp: okh_find_key_def)
    then show ?thesis using find_mem by fastforce
  qed
  then show ?thesis using c st1 unfolding okh_file_keys by blast
qed

text \<open>
  An update whose payload has no id moves the design to a new identity. The stored file is
  overwritten with a manifest under a fresh random id, which has no visibility of its own: the design is
  found under the new id with the visibility of old records, which followers may see, even if it was
  private before.
\<close>

theorem okh_update_without_id:
  assumes f: "\<forall>n. is_uuid (fr [] n)" and coh: "catalog_coherent md5 st" and n: "\<not> truthy (jget data ''id'')"
    and k: "okh_find_key md5 fr now i st = Some (Some k, st1)"
    and m: "manifest_from_dict md5 (fr []) data = Some m" and d: "manifest_to_dict m = Some d"
    and v: "map_of (os_visibility st) (fr [] 0) = None"
    and u: "list_all (\<lambda>b. bl_key b = k \<or> design_id md5 fr' st (bl_key b) \<noteq> Some (fr [] 0)) (os_blobs st)"
  shows "case okh_update md5 fr now i data st of (r, st') \<Rightarrow>
    r = Inr m \<and> om_id m = fr [] 0 \<and> fst (design_get md5 fr' now' (fr [] 0) st') = Inr (Some (saved_form m)) \<and>
    okh_get_visibility st' (fr [] 0) = FOLLOWERS"
proof -
  have i: "om_id m = fr [] 0" using from_dict_fields(1) [OF m] n by (simp add: read_manifest_id_def)
  obtain c where st1: "st1 = st\<lparr>os_cache := c\<rparr>" and c: "catalog_coherent md5 st1" and l: "listed k" "k \<in> bl_key ` set (os_blobs st)"
    using find_key_listed [OF coh k] by blast
  define st2 where "st2 = put_object k d now st1"
  have s: "okh_update md5 fr now i data st = (Inr m, invalidate_catalog_cache st2)" by (simp add: okh_update_def m k d st2_def)
  let ?st = "invalidate_catalog_cache st2"
  have b: "os_blobs ?st = os_blobs (put_object k d now st)"
    by (simp add: invalidate_catalog_cache_def st2_def put_object_def st1)
  have P: "jget d ''id'' = JStr (om_id m)" "manifest_from_dict md5 (fr' k) d = Some (saved_form m)" "is_uuid (om_id m)"
    using stored_payload [OF f m d, where source = None and by' = None] by (simp_all add: apply_ohm_metadata_def absent_def)
  have "\<exists>c. catalog_entries md5 fr' now' ?st = Some (json_entries (assemble_okh_catalog md5 fr' ?st), ?st\<lparr>os_cache := c\<rparr>)"
    using c unfolding catalog_coherent_def st2_def by (intro catalog_entries_fresh invalidate_empty) (simp add: put_object_def)
  then obtain c' where e: "catalog_entries md5 fr' now' ?st = Some (json_entries (assemble_okh_catalog md5 fr' ?st), ?st\<lparr>os_cache := c'\<rparr>)"
    by blast
  have fd: "fixed_dict md5 fr' ?st k' = (if k' = k then Some d else fixed_dict md5 fr' st k')" for k'
    using fixed_dict_cong [OF b] fixed_dict_put [OF P(1,3)] by simp
  have "\<forall>k'\<in>bl_key ` set (os_blobs ?st). k' = k \<or> design_id md5 fr' ?st k' \<noteq> Some (om_id m)"
    using u unfolding b put_object_def i by (auto simp: keys_put design_id_def fd list_all_iff)
  moreover have "k \<in> bl_key ` set (os_blobs ?st)" unfolding b by (simp add: put_object_def keys_put)
  ultimately have "fst (design_get md5 fr' now' (om_id m) ?st) = Inr (Some (saved_form m))"
    using get_unique [OF P(3) e, of k d "saved_form m"] fd [of k] P(1,2) l(1) by simp
  moreover have "okh_get_visibility ?st (fr [] 0) = FOLLOWERS"
    using v by (simp add: okh_get_visibility_def invalidate_catalog_cache_def st2_def put_object_def st1 legacy_visibility_def)
  ultimately show ?thesis by (simp add: s i)
qed

definition shelf :: okh_state where
  "shelf = (okh_start [\<lparr>bl_key = ''okh/lamp.json'', bl_size = 0, bl_modified = 0, bl_metadata = [], bl_content = Some (JObj lamp_dict)\<rparr>]
     False [] 5 60 0)\<lparr>os_visibility := [(''12345678-1234-1234-1234-123456789abc'', Some PRIVATE)]\<rparr>"

definition renamed_dict :: doc where
  "renamed_dict = tl lamp_dict"

definition renamed :: design_manifest where
  "renamed = manifest_of renamed_dict ''00000000-0000-0000-0000-00000000000f'' [] None [] [] [] [] [] [] [] None [] [] [] [] [] []"

lemma renamed_read: "manifest_from_dict id (\<lambda>n. ''00000000-0000-0000-0000-00000000000f'') renamed_dict = Some renamed"
  by code_simp

lemma renamed_written: "\<exists>d. manifest_to_dict renamed = Some d"
  by (simp add: manifest_to_dict_def contributors_json_def renamed_def manifest_of_def)

lemma shelf_key:
  "okh_find_key id (\<lambda>k n. ''00000000-0000-0000-0000-00000000000f'') 0 ''12345678-1234-1234-1234-123456789abc'' shelf =
     Some (Some ''okh/lamp.json'', shelf)"
  by code_simp

lemma shelf_coherent: "catalog_coherent id shelf"
  using okh_start_coherent [of 5 id "os_blobs shelf" False "[]" 60 0]
  by (simp add: shelf_def catalog_coherent_def okh_start_def service_holds_def)

lemma renamed_uuid: "is_uuid ''00000000-0000-0000-0000-00000000000f''"
  by code_simp

theorem okh_update_without_id_witness:
  "okh_get_visibility shelf ''12345678-1234-1234-1234-123456789abc'' = PRIVATE \<and>
   (case okh_update id (\<lambda>k n. ''00000000-0000-0000-0000-00000000000f'') 0 ''12345678-1234-1234-1234-123456789abc'' renamed_dict shelf of (r, st') \<Rightarrow>
      r = Inr renamed \<and> okh_get_visibility st' ''00000000-0000-0000-0000-00000000000f'' = FOLLOWERS)"
proof -
  obtain d where d: "manifest_to_dict renamed = Some d" using renamed_written by blast
  have n: "\<not> truthy (jget renamed_dict ''id'')" by (simp add: renamed_dict_def lamp_dict_def)
  have v: "okh_get_visibility shelf ''12345678-1234-1234-1234-123456789abc'' = PRIVATE"
    "map_of (os_visibility shelf) ''00000000-0000-0000-0000-00000000000f'' = None"
    by (simp_all add: okh_get_visibility_def shelf_def)
  have u: "list_all (\<lambda>b. bl_key b = ''okh/lamp.json'' \<or> Q b) (os_blobs shelf)" for Q by (simp add: shelf_def okh_start_def)
  have f: "\<forall>n. is_uuid ((\<lambda>k n. ''00000000-0000-0000-0000-00000000000f'') [] n)" using renamed_uuid by simp
  obtain r st' where e: "okh_update id (\<lambda>k n. ''00000000-0000-0000-0000-00000000000f'') 0 ''12345678-1234-1234-1234-123456789abc'' renamed_dict shelf = (r, st')"
    by fastforce
  show ?thesis
    using okh_update_without_id [OF f shelf_coherent n shelf_key renamed_read d v(2) u, of "\<lambda>k n. []" 1] v(1)
    unfolding e prod.case by blast
qed

end
