(* ===== verification/Okw_Model.thy ===== *)
theory Okw_Model imports Okh_Manifest begin

text \<open>
  The facility of \<open>models/okw.py\<close> with the records it is made of, and their dict forms. Fields the code
  does not parse hold the JSON value they were given. Python's \<open>float\<close> on a text is the parameter \<open>fl\<close>:
  its value and its \<open>repr\<close>, \<open>None\<close> when it raises or the value is not finite.
\<close>

datatype facility_status = ACTIVE | PLANNED | TEMPORARY_CLOSURE | CLOSED

fun facility_status_value :: "facility_status \<Rightarrow> string" where
  "facility_status_value ACTIVE = ''Active''"
| "facility_status_value PLANNED = ''Planned''"
| "facility_status_value TEMPORARY_CLOSURE = ''Temporary Closure''"
| "facility_status_value CLOSED = ''Closed''"

datatype access_type = RESTRICTED | RESTRICTED_PUBLIC | SHARED | PUBLIC_ACCESS | MEMBERSHIP

fun access_value :: "access_type \<Rightarrow> string" where
  "access_value RESTRICTED = ''Restricted''"
| "access_value RESTRICTED_PUBLIC = ''Restricted with public hours''"
| "access_value SHARED = ''Shared space''"
| "access_value PUBLIC_ACCESS = ''Public''"
| "access_value MEMBERSHIP = ''Membership''"

datatype batch_size = SMALL | MEDIUM | LARGE | XLARGE

fun batch_value :: "batch_size \<Rightarrow> string" where
  "batch_value SMALL = ''0 -- 50 units''"
| "batch_value MEDIUM = ''50 -- 500 units''"
| "batch_value LARGE = ''500 -- 5000 units''"
| "batch_value XLARGE = ''5000 + units''"

text \<open>The member of an enumeration with a value; \<open>None\<close> is the \<open>ValueError\<close>.\<close>

definition enum_of :: "('e \<Rightarrow> string) \<Rightarrow> 'e list \<Rightarrow> json \<Rightarrow> 'e option" where
  "enum_of value members j = (case j of JStr s \<Rightarrow> find (\<lambda>e. value e = s) members | _ \<Rightarrow> None)"

definition statuses :: "facility_status list" where "statuses = [ACTIVE, PLANNED, TEMPORARY_CLOSURE, CLOSED]"

definition access_types :: "access_type list" where
  "access_types = [RESTRICTED, RESTRICTED_PUBLIC, SHARED, PUBLIC_ACCESS, MEMBERSHIP]"

definition batch_sizes :: "batch_size list" where "batch_sizes = [SMALL, MEDIUM, LARGE, XLARGE]"

text \<open>Dict entries that are written when the value is not \<open>None\<close>, or when it is true.\<close>

definition unless_none :: "(string \<times> json) list \<Rightarrow> doc" where
  "unless_none kvs = filter (\<lambda>(k, v). v \<noteq> JNull) kvs"

definition when_true :: "(string \<times> json) list \<Rightarrow> doc" where
  "when_true kvs = filter (\<lambda>(k, v). truthy v) kvs"

section \<open>Places\<close>

record address =
  ad_number :: json
  ad_street :: json
  ad_district :: json
  ad_city :: json
  ad_region :: json
  ad_country :: json
  ad_postcode :: json

definition address_json :: "address \<Rightarrow> doc" where
  "address_json a = unless_none [(''number'', ad_number a), (''street'', ad_street a), (''district'', ad_district a),
     (''city'', ad_city a), (''region'', ad_region a), (''country'', ad_country a), (''postcode'', ad_postcode a)]"

type_synonym float_reader = "string \<Rightarrow> (rat \<times> string) option"

definition parse_decimal_degrees :: "float_reader \<Rightarrow> json \<Rightarrow> (string \<times> string) option" where
  "parse_decimal_degrees fl j =
     (case j of
        JStr s \<Rightarrow>
          (case split_char (CHR '','') s of
             [a, b] \<Rightarrow>
               (case (fl (strip a), fl (strip b)) of
                  (Some (lat, lat_text), Some (lon, lon_text)) \<Rightarrow>
                    if - 90 \<le> lat \<and> lat \<le> 90 \<and> - 180 \<le> lon \<and> lon \<le> 180 then Some (lat_text, lon_text) else None
                | _ \<Rightarrow> None)
           | _ \<Rightarrow> None)
      | _ \<Rightarrow> None)"

definition coordinates_json :: "string \<times> string \<Rightarrow> json" where
  "coordinates_json c = JObj [(''lat'', JFloat (fst c)), (''lon'', JFloat (snd c))]"

record what3words =
  w3_words :: json
  w3_language :: json

record location =
  lc_address :: "address option"
  lc_gps :: json
  lc_directions :: json
  lc_what3words :: "what3words option"
  lc_city :: json
  lc_region :: json
  lc_country :: json

definition location_json :: "float_reader \<Rightarrow> location \<Rightarrow> doc" where
  "location_json fl l =
     (case lc_address l of None \<Rightarrow> [] | Some a \<Rightarrow> if address_json a = [] then [] else [(''address'', JObj (address_json a))]) @
     (if truthy (lc_gps l) then
        (''gps_coordinates'', lc_gps l) #
          (case parse_decimal_degrees fl (lc_gps l) of None \<Rightarrow> [] | Some c \<Rightarrow> [(''coordinates'', coordinates_json c)])
      else []) @
     when_true [(''directions'', lc_directions l)] @
     (case lc_what3words l of None \<Rightarrow> [] | Some w \<Rightarrow> [(''what3words'', JObj [(''words'', w3_words w), (''language'', w3_language w)])]) @
     when_true [(''city'', lc_city l), (''region'', lc_region l), (''country'', lc_country l)]"

definition location_entry :: "float_reader \<Rightarrow> string \<Rightarrow> location option \<Rightarrow> doc" where
  "location_entry fl k l = (case l of None \<Rightarrow> [] | Some p \<Rightarrow> [(k, JObj (location_json fl p))])"

section \<open>People and materials\<close>

record contact_info =
  ct_landline :: json
  ct_mobile :: json
  ct_fax :: json
  ct_email :: json
  ct_whatsapp :: json

definition contact_json :: "contact_info \<Rightarrow> doc" where
  "contact_json c = unless_none [(''landline'', ct_landline c), (''mobile'', ct_mobile c), (''fax'', ct_fax c),
     (''email'', ct_email c), (''whatsapp'', ct_whatsapp c)]"

definition no_contact :: contact_info where
  "no_contact = \<lparr>ct_landline = JNull, ct_mobile = JNull, ct_fax = JNull, ct_email = JNull, ct_whatsapp = JNull\<rparr>"

record social_media =
  smd_facebook :: json
  smd_twitter :: json
  smd_instagram :: json
  smd_urls :: json

definition social_json :: "social_media \<Rightarrow> doc" where
  "social_json s = unless_none [(''facebook'', smd_facebook s), (''twitter'', smd_twitter s), (''instagram'', smd_instagram s)] @
     when_true [(''other_urls'', smd_urls s)]"

definition no_social :: social_media where
  "no_social = \<lparr>smd_facebook = JNull, smd_twitter = JNull, smd_instagram = JNull, smd_urls = JList []\<rparr>"

record okw_agent =
  ag_name :: json
  ag_location :: "location option"
  ag_contact_person :: json
  ag_bio :: json
  ag_website :: json
  ag_languages :: json
  ag_mailing_list :: json
  ag_images :: json
  ag_contact :: "contact_info option"
  ag_social :: "social_media option"

definition nonempty_entry :: "string \<Rightarrow> doc option \<Rightarrow> doc" where
  "nonempty_entry k d = (case d of None \<Rightarrow> [] | Some e \<Rightarrow> if e = [] then [] else [(k, JObj e)])"

definition okw_agent_json :: "float_reader \<Rightarrow> okw_agent \<Rightarrow> doc" where
  "okw_agent_json fl a =
     [(''name'', ag_name a)] @
     location_entry fl ''location'' (ag_location a) @
     when_true [(''contact_person'', ag_contact_person a), (''bio'', ag_bio a), (''website'', ag_website a),
       (''languages'', ag_languages a), (''mailing_list'', ag_mailing_list a), (''images'', ag_images a)] @
     nonempty_entry ''contact'' (map_option contact_json (ag_contact a)) @
     nonempty_entry ''social_media'' (map_option social_json (ag_social a))"

record circular_economy =
  ce_applies :: json
  ce_description :: json
  ce_by_products :: json

definition circular_json :: "circular_economy \<Rightarrow> doc" where
  "circular_json c =
     (if \<not> truthy (ce_applies c) then []
      else (''applies_principles'', JBool True) # when_true [(''description'', ce_description c), (''by_products'', ce_by_products c)])"

definition no_circular :: circular_economy where
  "no_circular = \<lparr>ce_applies = JBool False, ce_description = JNull, ce_by_products = JList []\<rparr>"

definition capacity_json :: "json \<Rightarrow> doc" where
  "capacity_json headcount = unless_none [(''headcount'', headcount)]"

record innovation_space =
  isp_staff :: json
  isp_resources :: json
  isp_services :: json
  isp_footfall :: json
  isp_residencies :: json

definition innovation_json :: "innovation_space \<Rightarrow> doc" where
  "innovation_json s = unless_none [(''staff'', isp_staff s)] @
     when_true [(''learning_resources'', isp_resources s), (''services'', isp_services s)] @
     unless_none [(''footfall'', isp_footfall s)] @
     (if truthy (isp_residencies s) then [(''residencies'', JBool True)] else [])"

definition no_innovation :: innovation_space where
  "no_innovation = \<lparr>isp_staff = JNull, isp_resources = JList [], isp_services = JList [], isp_footfall = JNull, isp_residencies = JBool False\<rparr>"

record worked_material =
  wm_type :: json
  wm_manufacturer :: json
  wm_brand :: json
  wm_supplier :: "location option"

definition worked_json :: "float_reader \<Rightarrow> worked_material \<Rightarrow> json" where
  "worked_json fl m = JObj ([(''material_type'', wm_type m)] @ when_true [(''manufacturer'', wm_manufacturer m), (''brand'', wm_brand m)] @
     location_entry fl ''supplier_location'' (wm_supplier m))"

section \<open>Equipment and record data\<close>

definition agent_entry :: "float_reader \<Rightarrow> string \<Rightarrow> okw_agent option \<Rightarrow> doc" where
  "agent_entry fl k a = (case a of None \<Rightarrow> [] | Some p \<Rightarrow> [(k, JObj (okw_agent_json fl p))])"

definition list_entry :: "string \<Rightarrow> json list \<Rightarrow> doc" where
  "list_entry k xs = (if xs = [] then [] else [(k, JList xs)])"

record okw_equipment =
  eqp_type :: json
  eqp_process :: json
  eqp_make :: json
  eqp_model :: json
  eqp_serial :: json
  eqp_location :: "location option"
  eqp_condition :: json
  eqp_notes :: json
  eqp_owner :: "okw_agent option"
  eqp_quantity :: json
  eqp_throughput :: json
  eqp_power :: json
  eqp_materials :: "worked_material list"
  eqp_schedule :: json
  eqp_usage :: json
  eqp_tolerance :: json
  eqp_firmware :: json
  eqp_ups :: json
  eqp_axes :: json
  eqp_bed :: json
  eqp_volume :: json
  eqp_computer :: json
  eqp_extraction :: json
  eqp_laser :: json
  eqp_nozzle :: json
  eqp_surface :: json
  eqp_x :: json
  eqp_y :: json
  eqp_z :: json
  eqp_extra :: doc

definition equipment_fields :: "float_reader \<Rightarrow> okw_equipment \<Rightarrow> doc" where
  "equipment_fields fl e =
     [(''equipment_type'', eqp_type e), (''manufacturing_process'', eqp_process e)] @
     unless_none [(''make'', eqp_make e), (''model'', eqp_model e), (''serial_number'', eqp_serial e),
       (''condition'', eqp_condition e), (''notes'', eqp_notes e), (''quantity'', eqp_quantity e),
       (''throughput'', eqp_throughput e), (''power_rating'', eqp_power e), (''maintenance_schedule'', eqp_schedule e),
       (''usage_levels'', eqp_usage e), (''tolerance_class'', eqp_tolerance e), (''current_firmware'', eqp_firmware e)] @
     when_true [(''uninterrupted_power_supply'', eqp_ups e), (''computer_controlled'', eqp_computer e),
       (''extraction_system'', eqp_extraction e)] @
     location_entry fl ''location'' (eqp_location e) @
     agent_entry fl ''owner'' (eqp_owner e) @
     list_entry ''materials_worked'' (map (worked_json fl) (eqp_materials e)) @
     unless_none [(''axes'', eqp_axes e), (''bed_size'', eqp_bed e), (''build_volume'', eqp_volume e),
       (''laser_power'', eqp_laser e), (''nozzle_size'', eqp_nozzle e), (''working_surface'', eqp_surface e),
       (''x_travel'', eqp_x e), (''y_travel'', eqp_y e), (''z_travel'', eqp_z e)]"

definition equipment_json :: "float_reader \<Rightarrow> okw_equipment \<Rightarrow> json" where
  "equipment_json fl e = JObj (fold (\<lambda>(k, v) d. AList.update k v d) (eqp_extra e) (equipment_fields fl e))"

record facility_record_data =
  frd_created :: datetime
  frd_created_by :: okw_agent
  frd_updated :: "datetime option"
  frd_updated_by :: "okw_agent option"
  frd_verified :: "datetime option"
  frd_verified_by :: "okw_agent option"
  frd_method :: json

definition time_entry :: "string \<Rightarrow> datetime option \<Rightarrow> doc" where
  "time_entry k t = (case t of None \<Rightarrow> [] | Some d \<Rightarrow> [(k, JStr (isoformat d))])"

definition record_data_json :: "float_reader \<Rightarrow> facility_record_data \<Rightarrow> doc" where
  "record_data_json fl r =
     [(''date_created'', JStr (isoformat (frd_created r))), (''created_by'', JObj (okw_agent_json fl (frd_created_by r)))] @
     time_entry ''last_updated'' (frd_updated r) @ agent_entry fl ''updated_by'' (frd_updated_by r) @
     time_entry ''date_verified'' (frd_verified r) @ agent_entry fl ''verified_by'' (frd_verified_by r) @
     when_true [(''data_collection_method'', frd_method r)]"

section \<open>Facilities\<close>

record manufacturing_facility =
  mf_name :: json
  mf_location :: location
  mf_status :: facility_status
  mf_id :: uuid
  mf_owner :: "okw_agent option"
  mf_contact :: "okw_agent option"
  mf_affiliations :: "okw_agent list"
  mf_hours :: json
  mf_description :: json
  mf_founded :: "pydate option"
  mf_access :: access_type
  mf_wheelchair :: json
  mf_equipment :: "okw_equipment list"
  mf_processes :: json
  mf_batch :: "batch_size option"
  mf_floor :: json
  mf_storage :: json
  mf_materials :: "worked_material list"
  mf_certifications :: json
  mf_generator :: json
  mf_ups :: json
  mf_road :: json
  mf_dock :: json
  mf_schedule :: json
  mf_products :: json
  mf_partners :: "okw_agent list"
  mf_reviews :: json
  mf_circular :: circular_economy
  mf_headcount :: json
  mf_innovation :: innovation_space
  mf_record :: "facility_record_data option"
  mf_domain :: json

definition flag_entries :: "(string \<times> json) list \<Rightarrow> doc" where
  "flag_entries kvs = map (\<lambda>(k, v). (k, JBool True)) (when_true kvs)"

definition agent_list :: "float_reader \<Rightarrow> okw_agent list \<Rightarrow> json list" where
  "agent_list fl as = map (\<lambda>a. JObj (okw_agent_json fl a)) as"

definition facility_to_dict :: "float_reader \<Rightarrow> manufacturing_facility \<Rightarrow> doc" where
  "facility_to_dict fl f =
     [(''id'', JStr (mf_id f)), (''name'', mf_name f), (''location'', JObj (location_json fl (mf_location f))),
      (''facility_status'', JStr (facility_status_value (mf_status f)))] @
     agent_entry fl ''owner'' (mf_owner f) @ agent_entry fl ''contact'' (mf_contact f) @
     list_entry ''affiliations'' (agent_list fl (mf_affiliations f)) @
     when_true [(''opening_hours'', mf_hours f), (''description'', mf_description f)] @
     (case mf_founded f of None \<Rightarrow> [] | Some d \<Rightarrow> [(''date_founded'', JStr (date_isoformat d))]) @
     [(''access_type'', JStr (access_value (mf_access f)))] @
     when_true [(''wheelchair_accessibility'', mf_wheelchair f)] @
     [(''equipment'', JList (map (equipment_json fl) (mf_equipment f)))] @
     unless_none [(''manufacturing_processes'', mf_processes f)] @
     (case mf_batch f of None \<Rightarrow> [] | Some b \<Rightarrow> [(''typical_batch_size'', JStr (batch_value b))]) @
     when_true [(''floor_size'', mf_floor f), (''storage_capacity'', mf_storage f)] @
     [(''typical_materials'', JList (map (worked_json fl) (mf_materials f)))] @
     unless_none [(''certifications'', mf_certifications f)] @
     flag_entries [(''backup_generator'', mf_generator f), (''uninterrupted_power_supply'', mf_ups f),
       (''road_access'', mf_road f), (''loading_dock'', mf_dock f)] @
     when_true [(''maintenance_schedule'', mf_schedule f), (''typical_products'', mf_products f)] @
     list_entry ''partners_funders'' (agent_list fl (mf_partners f)) @
     when_true [(''customer_reviews'', mf_reviews f)] @
     nonempty_entry ''circular_economy'' (Some (circular_json (mf_circular f))) @
     nonempty_entry ''human_capacity'' (Some (capacity_json (mf_headcount f))) @
     nonempty_entry ''innovation_space'' (Some (innovation_json (mf_innovation f))) @
     (case mf_record f of None \<Rightarrow> [] | Some r \<Rightarrow> [(''record_data'', JObj (record_data_json fl r))]) @
     when_true [(''domain'', mf_domain f)]"

end
