(* ===== verification/Okw_Parse.thy ===== *)
theory Okw_Parse imports Okw_Model Process_Taxonomy begin

text \<open>
  Reading a facility from a dict (\<open>ManufacturingFacility.from_dict\<close>), its validation, its processes and
  its SpaceAPI form. \<open>None\<close> stands for the exceptions the source raises; \<open>fresh\<close> is the random id a new
  facility is given before its own is read.
\<close>

section \<open>Parts\<close>

text \<open>A value on which the source calls \<open>get\<close>.\<close>

definition as_dict :: "json \<Rightarrow> doc option" where
  "as_dict j = (case j of JObj d \<Rightarrow> Some d | _ \<Rightarrow> None)"

definition read_address :: "doc \<Rightarrow> address option" where
  "read_address l =
     do { d \<leftarrow> as_dict (get_default l ''address'' (JObj []));
          Some \<lparr>ad_number = jget d ''number'', ad_street = jget d ''street'', ad_district = jget d ''district'',
            ad_city = jget d ''city'', ad_region = jget d ''region'', ad_country = jget d ''country'',
            ad_postcode = jget d ''postcode''\<rparr> }"

text \<open>\<open>"words" in value\<close>, which raises on a number.\<close>

definition holds_words :: "json \<Rightarrow> bool option" where
  "holds_words j =
     (case j of
        JObj d \<Rightarrow> Some (map_of d ''words'' \<noteq> None)
      | JStr s \<Rightarrow> Some (contains ''words'' s)
      | JList xs \<Rightarrow> Some (JStr ''words'' \<in> set xs)
      | _ \<Rightarrow> None)"

definition read_what3words :: "doc \<Rightarrow> what3words option option" where
  "read_what3words l =
     (let j = get_default l ''what3words'' (JObj [])
      in if \<not> truthy j then Some None
         else do { b \<leftarrow> holds_words j;
                   if b then do { d \<leftarrow> as_dict j;
                                  Some (Some \<lparr>w3_words = get_default d ''words'' (JStr []), w3_language = get_default d ''language'' (JStr [])\<rparr>) }
                   else Some None })"

text \<open>The place of a facility, and the shorter form read for equipment and suppliers.\<close>

definition read_location :: "json \<Rightarrow> location option" where
  "read_location j =
     do { d \<leftarrow> as_dict j; a \<leftarrow> read_address d; w \<leftarrow> read_what3words d;
          Some \<lparr>lc_address = Some a, lc_gps = jget d ''gps_coordinates'', lc_directions = jget d ''directions'', lc_what3words = w,
            lc_city = jget d ''city'', lc_region = jget d ''region'', lc_country = jget d ''country''\<rparr> }"

definition read_short_location :: "json \<Rightarrow> location option" where
  "read_short_location j =
     do { d \<leftarrow> as_dict j; a \<leftarrow> read_address d;
          Some \<lparr>lc_address = Some a, lc_gps = jget d ''gps_coordinates'', lc_directions = jget d ''directions'', lc_what3words = None,
            lc_city = jget d ''city'', lc_region = JNull, lc_country = jget d ''country''\<rparr> }"

definition optional_location :: "doc \<Rightarrow> string \<Rightarrow> location option option" where
  "optional_location d k =
     (case map_of d k of None \<Rightarrow> Some None | Some j \<Rightarrow> map_option Some (read_short_location j))"

text \<open>The dicts among the items of a value.\<close>

definition dict_items :: "json \<Rightarrow> doc list option" where
  "dict_items j = map_option (List.map_filter as_dict) (items_of j)"

definition read_dicts :: "(doc \<Rightarrow> 'a option) \<Rightarrow> json \<Rightarrow> 'a list option" where
  "read_dicts f j = (if truthy j then do { ds \<leftarrow> dict_items j; map_opt f ds } else Some [])"

definition worked_of :: "location option \<Rightarrow> doc \<Rightarrow> worked_material" where
  "worked_of l d = \<lparr>wm_type = get_default d ''material_type'' (JStr []), wm_manufacturer = jget d ''manufacturer'',
     wm_brand = jget d ''brand'', wm_supplier = l\<rparr>"

definition read_typical :: "doc \<Rightarrow> worked_material option" where
  "read_typical d = do { l \<leftarrow> optional_location d ''supplier_location''; Some (worked_of l d) }"

definition read_equipment :: "doc \<Rightarrow> okw_equipment option" where
  "read_equipment d =
     do { l \<leftarrow> optional_location d ''location'';
          ms \<leftarrow> (case map_of d ''materials_worked'' of None \<Rightarrow> Some [] | Some j \<Rightarrow> dict_items j);
          Some \<lparr>eqp_type = get_default d ''equipment_type'' (JStr []),
            eqp_process = get_default d ''manufacturing_process'' (JStr []),
            eqp_make = jget d ''make'', eqp_model = jget d ''model'', eqp_serial = jget d ''serial_number'', eqp_location = l,
            eqp_condition = jget d ''condition'', eqp_notes = jget d ''notes'', eqp_owner = None,
            eqp_quantity = jget d ''quantity'', eqp_throughput = jget d ''throughput'', eqp_power = jget d ''power_rating'',
            eqp_materials = map (worked_of None) ms, eqp_schedule = jget d ''maintenance_schedule'',
            eqp_usage = JNull, eqp_tolerance = JNull, eqp_firmware = JNull, eqp_ups = JBool False,
            eqp_axes = JNull, eqp_bed = JNull, eqp_volume = JNull, eqp_computer = JBool False, eqp_extraction = JBool False,
            eqp_laser = JNull, eqp_nozzle = JNull, eqp_surface = JNull, eqp_x = JNull, eqp_y = JNull, eqp_z = JNull,
            eqp_extra = []\<rparr> }"

definition plain_agent :: "doc \<Rightarrow> okw_agent" where
  "plain_agent d = \<lparr>ag_name = get_default d ''name'' (JStr []), ag_location = None,
     ag_contact_person = jget d ''contact_person'', ag_bio = jget d ''bio'', ag_website = jget d ''website'',
     ag_languages = get_default d ''languages'' (JList []), ag_mailing_list = jget d ''mailing_list'', ag_images = JList [],
     ag_contact = Some no_contact, ag_social = Some no_social\<rparr>"

definition read_contact_info :: "doc \<Rightarrow> contact_info option" where
  "read_contact_info d =
     (if truthy (jget d ''contact'') then
        do { c \<leftarrow> as_dict (jget d ''contact'');
             Some \<lparr>ct_landline = jget c ''landline'', ct_mobile = jget c ''mobile'', ct_fax = jget c ''fax'',
               ct_email = jget c ''email'', ct_whatsapp = jget c ''whatsapp''\<rparr> }
      else Some no_contact)"

definition read_social :: "doc \<Rightarrow> social_media option" where
  "read_social d =
     (if truthy (jget d ''social_media'') then
        do { c \<leftarrow> as_dict (jget d ''social_media'');
             Some \<lparr>smd_facebook = jget c ''facebook'', smd_twitter = jget c ''twitter'', smd_instagram = jget c ''instagram'',
               smd_urls = get_default c ''other_urls'' (JList [])\<rparr> }
      else Some no_social)"

text \<open>\<open>owner\<close> and \<open>contact\<close>: a value that is not a dict is passed over.\<close>

definition read_agent :: "doc \<Rightarrow> string \<Rightarrow> okw_agent option option" where
  "read_agent d k =
     (case jget d k of
        JObj (x # xs) \<Rightarrow>
          do { c \<leftarrow> read_contact_info (x # xs); s \<leftarrow> read_social (x # xs);
               Some (Some (plain_agent (x # xs)\<lparr>ag_contact := Some c, ag_social := Some s\<rparr>)) }
      | _ \<Rightarrow> Some None)"

definition read_circular :: "doc \<Rightarrow> circular_economy option" where
  "read_circular d =
     (let j = get_default d ''circular_economy'' (JObj [])
      in if truthy j then
           do { c \<leftarrow> as_dict j;
                Some \<lparr>ce_applies = get_default c ''applies_principles'' (JBool False), ce_description = jget c ''description'',
                  ce_by_products = get_default c ''by_products'' (JList [])\<rparr> }
         else Some no_circular)"

definition read_headcount :: "doc \<Rightarrow> json option" where
  "read_headcount d =
     (let j = get_default d ''human_capacity'' (JObj [])
      in if truthy j then do { c \<leftarrow> as_dict j; Some (jget c ''headcount'') } else Some JNull)"

definition read_innovation :: "doc \<Rightarrow> innovation_space option" where
  "read_innovation d =
     (let j = get_default d ''innovation_space'' (JObj [])
      in if truthy j then
           do { c \<leftarrow> as_dict j;
                Some \<lparr>isp_staff = jget c ''staff'', isp_resources = get_default c ''learning_resources'' (JList []),
                  isp_services = get_default c ''services'' (JList []), isp_footfall = jget c ''footfall'',
                  isp_residencies = get_default c ''residencies'' (JBool False)\<rparr> }
         else Some no_innovation)"

section \<open>Facilities\<close>

definition read_facility_id :: "uuid \<Rightarrow> doc \<Rightarrow> uuid option" where
  "read_facility_id fresh d =
     (case map_of d ''id'' of None \<Rightarrow> Some fresh | Some (JStr s) \<Rightarrow> parse_uuid s | Some _ \<Rightarrow> None)"

definition read_founded :: "doc \<Rightarrow> pydate option option" where
  "read_founded d =
     (case jget d ''date_founded'' of
        JStr s \<Rightarrow> if s = [] then Some None else map_option Some (date_fromisoformat s)
      | j \<Rightarrow> if truthy j then None else Some None)"

definition read_batch :: "doc \<Rightarrow> batch_size option option" where
  "read_batch d =
     (if jget d ''typical_batch_size'' = JNull then Some None
      else map_option Some (enum_of batch_value batch_sizes (jget d ''typical_batch_size'')))"

definition facility_from_dict :: "uuid \<Rightarrow> doc \<Rightarrow> manufacturing_facility option" where
  "facility_from_dict fresh d =
     do { location \<leftarrow> read_location (get_default d ''location'' (JObj []));
          status \<leftarrow> enum_of facility_status_value statuses (get_default d ''facility_status'' (JStr ''Active''));
          i \<leftarrow> read_facility_id fresh d;
          founded \<leftarrow> read_founded d;
          access \<leftarrow> enum_of access_value access_types (get_default d ''access_type'' (JStr ''Restricted''));
          batch \<leftarrow> read_batch d;
          circular \<leftarrow> read_circular d;
          headcount \<leftarrow> read_headcount d;
          innovation \<leftarrow> read_innovation d;
          equipment \<leftarrow> read_dicts read_equipment (jget d ''equipment'');
          materials \<leftarrow> read_dicts read_typical (jget d ''typical_materials'');
          owner \<leftarrow> read_agent d ''owner'';
          contact \<leftarrow> read_agent d ''contact'';
          affiliations \<leftarrow> read_dicts (\<lambda>a. Some (plain_agent a)) (jget d ''affiliations'');
          Some \<lparr>mf_name = get_default d ''name'' (JStr []), mf_location = location, mf_status = status, mf_id = i,
            mf_owner = owner, mf_contact = contact, mf_affiliations = affiliations, mf_hours = jget d ''opening_hours'',
            mf_description = jget d ''description'', mf_founded = founded, mf_access = access,
            mf_wheelchair = jget d ''wheelchair_accessibility'', mf_equipment = equipment,
            mf_processes = get_default d ''manufacturing_processes'' (JList []), mf_batch = batch,
            mf_floor = jget d ''floor_size'', mf_storage = jget d ''storage_capacity'', mf_materials = materials,
            mf_certifications = get_default d ''certifications'' (JList []),
            mf_generator = get_default d ''backup_generator'' (JBool False),
            mf_ups = get_default d ''uninterrupted_power_supply'' (JBool False),
            mf_road = get_default d ''road_access'' (JBool False), mf_dock = get_default d ''loading_dock'' (JBool False),
            mf_schedule = jget d ''maintenance_schedule'', mf_products = get_default d ''typical_products'' (JList []),
            mf_partners = [], mf_reviews = JList [], mf_circular = circular, mf_headcount = headcount,
            mf_innovation = innovation, mf_record = None, mf_domain = jget d ''domain''\<rparr> }"

text \<open>\<open>validate\<close> on a built facility, whose place and status are always there: the first missing field.\<close>

definition facility_validate :: "manufacturing_facility \<Rightarrow> string list + unit" where
  "facility_validate f = (if truthy (mf_name f) then Inr () else Inl [''name''])"

section \<open>Processes and the SpaceAPI form\<close>

definition process_known :: "taxonomy \<Rightarrow> string \<Rightarrow> string \<Rightarrow> bool" where
  "process_known t name u =
     ((case given (normalize t name) of
         None \<Rightarrow> False
       | Some req \<Rightarrow> (case given (normalize t u) of None \<Rightarrow> False | Some cap \<Rightarrow> req = cap \<or> req \<in> set (get_ancestors t cap))) \<or>
      contains (lower name) (lower u))"

text \<open>The first item that answers decides; an item that is no text raises.\<close>

fun any_text :: "(string \<Rightarrow> bool) \<Rightarrow> json list \<Rightarrow> bool option" where
  "any_text p [] = Some False"
| "any_text p (j # js) = (case j of JStr s \<Rightarrow> if p s then Some True else any_text p js | _ \<Rightarrow> None)"

definition facility_has_process :: "taxonomy \<Rightarrow> manufacturing_facility \<Rightarrow> string \<Rightarrow> bool option" where
  "facility_has_process t f name =
     do { us \<leftarrow> items_of (mf_processes f);
          b \<leftarrow> any_text (process_known t name) us;
          if b then Some True
          else any_text (\<lambda>s. contains (lower name) (lower s)) (concat (map (\<lambda>e. [eqp_type e, eqp_process e]) (mf_equipment f))) }"

definition to_spaceapi_json :: "float_reader \<Rightarrow> manufacturing_facility \<Rightarrow> doc" where
  "to_spaceapi_json fl f =
     [(''space'', mf_name f), (''state'', JObj [(''open'', JBool (mf_status f = ACTIVE))])] @
     (case parse_decimal_degrees fl (lc_gps (mf_location f)) of None \<Rightarrow> [] | Some c \<Rightarrow> [(''location'', coordinates_json c)]) @
     when_true [(''description'', mf_description f)] @
     (if truthy (mf_processes f) then [(''ext_fablab'', JObj [(''capabilities'', mf_processes f)])] else [])"

end
