(* ===== verification/Facility_Facts.thy ===== *)
theory Facility_Facts imports Okw_Parse begin

text \<open>
  What becomes of a facility that is written and read again: the form every part comes back in, and
  the fields that the trip loses.
\<close>

section \<open>Reading written entries\<close>

lemma map_of_unless_none [simp]:
  "map_of (unless_none []) x = None"
  "map_of (unless_none ((k, v) # l)) x = (if k = x \<and> v \<noteq> JNull then Some v else map_of (unless_none l) x)"
  by (auto simp: unless_none_def)

lemma map_of_when_true [simp]:
  "map_of (when_true []) x = None"
  "map_of (when_true ((k, v) # l)) x = (if k = x \<and> truthy v then Some v else map_of (when_true l) x)"
  by (auto simp: when_true_def)

lemma map_of_flag_entries [simp]:
  "map_of (flag_entries []) x = None"
  "map_of (flag_entries ((k, v) # l)) x = (if k = x \<and> truthy v then Some (JBool True) else map_of (flag_entries l) x)"
  by (auto simp: flag_entries_def when_true_def)

lemma map_of_entries [simp]:
  "map_of (location_entry fl k l) x = (if k = x then map_option (\<lambda>p. JObj (location_json fl p)) l else None)"
  "map_of (agent_entry fl k a) x = (if k = x then map_option (\<lambda>p. JObj (okw_agent_json fl p)) a else None)"
  "map_of (list_entry k xs) x = (if k = x \<and> xs \<noteq> [] then Some (JList xs) else None)"
  "map_of (nonempty_entry k d) x = (if k = x then Option.bind d (\<lambda>e. if e = [] then None else Some (JObj e)) else None)"
  by (auto simp: location_entry_def agent_entry_def list_entry_def nonempty_entry_def split: option.splits)

lemma truthy_not_null [simp]: "truthy v \<Longrightarrow> v \<noteq> JNull"
  by auto

lemmas reading = jget_def get_default_def map_add_def

definition truthy_or :: "json \<Rightarrow> json \<Rightarrow> json" where
  "truthy_or dflt j = (if truthy j then j else dflt)"

lemma as_dict_JObj [simp]: "as_dict (JObj d) = Some d"
  by (simp add: as_dict_def)

section \<open>Places\<close>

definition no_address :: address where
  "no_address = \<lparr>ad_number = JNull, ad_street = JNull, ad_district = JNull, ad_city = JNull, ad_region = JNull,
     ad_country = JNull, ad_postcode = JNull\<rparr>"

definition location_form :: "location \<Rightarrow> location" where
  "location_form l = l\<lparr>lc_address := Some (case lc_address l of None \<Rightarrow> no_address | Some a \<Rightarrow> a),
     lc_gps := truthy_or JNull (lc_gps l), lc_directions := truthy_or JNull (lc_directions l),
     lc_city := truthy_or JNull (lc_city l), lc_region := truthy_or JNull (lc_region l),
     lc_country := truthy_or JNull (lc_country l)\<rparr>"

definition short_location_form :: "location \<Rightarrow> location" where
  "short_location_form l = (location_form l)\<lparr>lc_what3words := None, lc_region := JNull\<rparr>"

lemma address_entry:
  "get_default (location_json fl l) ''address'' (JObj []) = JObj (case lc_address l of None \<Rightarrow> [] | Some a \<Rightarrow> address_json a)"
  by (auto simp: reading location_json_def split: option.splits)

lemma jget_address:
  "jget (address_json a) ''number'' = ad_number a" "jget (address_json a) ''street'' = ad_street a"
  "jget (address_json a) ''district'' = ad_district a" "jget (address_json a) ''city'' = ad_city a"
  "jget (address_json a) ''region'' = ad_region a" "jget (address_json a) ''country'' = ad_country a"
  "jget (address_json a) ''postcode'' = ad_postcode a"
  by (simp_all add: address_json_def jget_def)

lemma jget_Nil [simp]: "jget [] k = JNull"
  by (simp add: jget_def)

lemma read_address_json:
  "read_address (location_json fl l) = Some (case lc_address l of None \<Rightarrow> no_address | Some a \<Rightarrow> a)"
  by (cases "lc_address l") (simp_all add: read_address_def address_entry jget_address no_address_def)

lemma jget_location:
  "jget (location_json fl l) ''gps_coordinates'' = truthy_or JNull (lc_gps l)"
  "jget (location_json fl l) ''directions'' = truthy_or JNull (lc_directions l)"
  "jget (location_json fl l) ''city'' = truthy_or JNull (lc_city l)"
  "jget (location_json fl l) ''region'' = truthy_or JNull (lc_region l)"
  "jget (location_json fl l) ''country'' = truthy_or JNull (lc_country l)"
  by (auto simp: reading location_json_def truthy_or_def split: option.splits)

lemma read_what3words_json: "read_what3words (location_json fl l) = Some (lc_what3words l)"
proof -
  have "get_default (location_json fl l) ''what3words'' (JObj []) =
      JObj (case lc_what3words l of None \<Rightarrow> [] | Some w \<Rightarrow> [(''words'', w3_words w), (''language'', w3_language w)])"
    by (auto simp: reading location_json_def split: option.splits)
  then show ?thesis by (auto simp: read_what3words_def Let_def holds_words_def get_default_def split: option.splits)
qed

lemma read_location_json [simp]: "read_location (JObj (location_json fl l)) = Some (location_form l)"
  by (simp add: read_location_def read_address_json read_what3words_json jget_location location_form_def)

lemma read_short_location_json [simp]: "read_short_location (JObj (location_json fl l)) = Some (short_location_form l)"
  by (simp add: read_short_location_def read_address_json jget_location short_location_form_def location_form_def)

section \<open>People, materials, equipment\<close>

definition contact_form :: "contact_info option \<Rightarrow> contact_info" where
  "contact_form c = (case c of None \<Rightarrow> no_contact | Some x \<Rightarrow> x)"

definition social_form :: "social_media option \<Rightarrow> social_media" where
  "social_form s = (case s of None \<Rightarrow> no_social | Some x \<Rightarrow> x\<lparr>smd_urls := truthy_or (JList []) (smd_urls x)\<rparr>)"

definition plain_form :: "okw_agent \<Rightarrow> okw_agent" where
  "plain_form a = \<lparr>ag_name = ag_name a, ag_location = None, ag_contact_person = truthy_or JNull (ag_contact_person a),
     ag_bio = truthy_or JNull (ag_bio a), ag_website = truthy_or JNull (ag_website a),
     ag_languages = truthy_or (JList []) (ag_languages a), ag_mailing_list = truthy_or JNull (ag_mailing_list a),
     ag_images = JList [], ag_contact = Some no_contact, ag_social = Some no_social\<rparr>"

definition agent_form :: "okw_agent \<Rightarrow> okw_agent" where
  "agent_form a = (plain_form a)\<lparr>ag_contact := Some (contact_form (ag_contact a)), ag_social := Some (social_form (ag_social a))\<rparr>"

lemma plain_agent_json [simp]: "plain_agent (okw_agent_json fl a) = plain_form a"
  by (simp add: plain_agent_def plain_form_def okw_agent_json_def reading truthy_or_def)

lemma read_contact_json [simp]: "read_contact_info (okw_agent_json fl a) = Some (contact_form (ag_contact a))"
proof -
  have "jget (okw_agent_json fl a) ''contact'' =
      (case ag_contact a of None \<Rightarrow> JNull | Some c \<Rightarrow> if contact_json c = [] then JNull else JObj (contact_json c))"
    by (simp add: okw_agent_json_def reading split: option.split)
  moreover have "contact_json c = [] \<Longrightarrow> c = no_contact" for c
    by (auto simp: contact_json_def unless_none_def no_contact_def split: if_splits)
  moreover have "jget (contact_json c) ''landline'' = ct_landline c" "jget (contact_json c) ''mobile'' = ct_mobile c"
      "jget (contact_json c) ''fax'' = ct_fax c" "jget (contact_json c) ''email'' = ct_email c"
      "jget (contact_json c) ''whatsapp'' = ct_whatsapp c" for c
    by (simp_all add: contact_json_def jget_def)
  ultimately show ?thesis by (auto simp: read_contact_info_def contact_form_def split: option.split)
qed

lemma read_social_json [simp]: "read_social (okw_agent_json fl a) = Some (social_form (ag_social a))"
proof -
  have "jget (okw_agent_json fl a) ''social_media'' =
      (case ag_social a of None \<Rightarrow> JNull | Some s \<Rightarrow> if social_json s = [] then JNull else JObj (social_json s))"
    by (simp add: okw_agent_json_def reading split: option.split)
  moreover have "social_json s = [] \<Longrightarrow> s\<lparr>smd_urls := truthy_or (JList []) (smd_urls s)\<rparr> = no_social" for s
    by (auto simp: social_json_def unless_none_def when_true_def no_social_def truthy_or_def split: if_splits)
  moreover have "jget (social_json s) ''facebook'' = smd_facebook s" "jget (social_json s) ''twitter'' = smd_twitter s"
      "jget (social_json s) ''instagram'' = smd_instagram s"
      "get_default (social_json s) ''other_urls'' (JList []) = truthy_or (JList []) (smd_urls s)" for s
    by (simp_all add: social_json_def reading truthy_or_def)
  ultimately show ?thesis by (auto simp: read_social_def social_form_def split: option.split)
qed

lemma read_agent_json:
  assumes "jget d k = (case a of None \<Rightarrow> JNull | Some x \<Rightarrow> JObj (okw_agent_json fl x))"
  shows "read_agent d k = Some (map_option agent_form a)"
proof (cases a)
  case (Some x)
  obtain y ys where e: "okw_agent_json fl x = y # ys" by (cases "okw_agent_json fl x") (auto simp: okw_agent_json_def)
  have "read_contact_info (y # ys) = Some (contact_form (ag_contact x))" "read_social (y # ys) = Some (social_form (ag_social x))"
    "plain_agent (y # ys) = plain_form x"
    using read_contact_json [of fl x] read_social_json [of fl x] plain_agent_json [of fl x] by (simp_all only: e)
  with Some assms e show ?thesis by (simp add: read_agent_def agent_form_def)
qed (use assms in \<open>simp add: read_agent_def\<close>)


definition worked_form :: "worked_material \<Rightarrow> worked_material" where
  "worked_form m = m\<lparr>wm_manufacturer := truthy_or JNull (wm_manufacturer m), wm_brand := truthy_or JNull (wm_brand m),
     wm_supplier := map_option short_location_form (wm_supplier m)\<rparr>"

lemma worked_of_json [simp]: "worked_json fl m = JObj d \<Longrightarrow> worked_of l d = (worked_form m)\<lparr>wm_supplier := l\<rparr>"
  by (auto simp: worked_json_def worked_of_def worked_form_def reading truthy_or_def)

lemma read_typical_json:
  obtains d where "worked_json fl m = JObj d" "read_typical d = Some (worked_form m)" "worked_of None d = (worked_form m)\<lparr>wm_supplier := None\<rparr>"
proof -
  obtain d where d: "worked_json fl m = JObj d" by (simp add: worked_json_def)
  then have "map_of d ''supplier_location'' = map_option (\<lambda>p. JObj (location_json fl p)) (wm_supplier m)"
    by (auto simp: worked_json_def map_add_def split: option.split)
  then have "read_typical d = Some (worked_form m)"
    using worked_of_json [OF d]
    by (cases "wm_supplier m") (auto simp: read_typical_def optional_location_def worked_form_def)
  with d show thesis using that by simp
qed


definition equipment_form :: "okw_equipment \<Rightarrow> okw_equipment" where
  "equipment_form e = e\<lparr>eqp_location := map_option short_location_form (eqp_location e), eqp_owner := None,
     eqp_materials := map (\<lambda>m. (worked_form m)\<lparr>wm_supplier := None\<rparr>) (eqp_materials e),
     eqp_usage := JNull, eqp_tolerance := JNull, eqp_firmware := JNull, eqp_ups := JBool False, eqp_axes := JNull, eqp_bed := JNull,
     eqp_volume := JNull, eqp_computer := JBool False, eqp_extraction := JBool False, eqp_laser := JNull, eqp_nozzle := JNull,
     eqp_surface := JNull, eqp_x := JNull, eqp_y := JNull, eqp_z := JNull, eqp_extra := []\<rparr>"

definition equipment_keys :: "string list" where
  "equipment_keys = [''equipment_type'', ''manufacturing_process'', ''make'', ''model'', ''serial_number'', ''location'', ''condition'',
     ''notes'', ''quantity'', ''throughput'', ''power_rating'', ''materials_worked'', ''maintenance_schedule'']"

lemma map_of_extra:
  "k \<notin> set (keys xs) \<Longrightarrow> map_of (fold (\<lambda>(k, v) d. AList.update k v d) xs d) k = map_of d k"
  by (induction xs arbitrary: d) (auto simp: update_conv')

text \<open>The dict a value was written as.\<close>

definition dict_of :: "json \<Rightarrow> doc" where
  "dict_of j = (case j of JObj d \<Rightarrow> d | _ \<Rightarrow> [])"

lemma dict_items_map: "(\<And>x. x \<in> set xs \<Longrightarrow> \<exists>d. g x = JObj d) \<Longrightarrow> dict_items (JList (map g xs)) = Some (map (\<lambda>x. dict_of (g x)) xs)"
proof (induction xs)
  case (Cons x xs)
  obtain d where "g x = JObj d" using Cons.prems by auto
  with Cons show ?case by (auto simp: dict_items_def dict_of_def)
qed (simp add: dict_items_def)

lemma worked_items: "dict_items (JList (map (worked_json fl) ms)) = Some (map (\<lambda>m. dict_of (worked_json fl m)) ms)"
  by (rule dict_items_map) (simp add: worked_json_def)

lemma worked_of_dict: "worked_of None (dict_of (worked_json fl m)) = (worked_form m)\<lparr>wm_supplier := None\<rparr>"
  by (rule worked_of_json) (simp add: dict_of_def worked_json_def)

lemma jget_equipment:
  assumes "\<forall>k\<in>set (keys (eqp_extra e)). k \<notin> set equipment_keys" and "k \<in> set equipment_keys" and "equipment_json fl e = JObj d"
  shows "map_of d k = map_of (equipment_fields fl e) k"
  using assms map_of_extra [of k "eqp_extra e"] by (auto simp: equipment_json_def)

lemma equipment_entries:
  "map_of (equipment_fields fl e) ''equipment_type'' = Some (eqp_type e)"
  "map_of (equipment_fields fl e) ''manufacturing_process'' = Some (eqp_process e)"
  "map_of (equipment_fields fl e) ''make'' = (if eqp_make e = JNull then None else Some (eqp_make e))"
  "map_of (equipment_fields fl e) ''model'' = (if eqp_model e = JNull then None else Some (eqp_model e))"
  "map_of (equipment_fields fl e) ''serial_number'' = (if eqp_serial e = JNull then None else Some (eqp_serial e))"
  "map_of (equipment_fields fl e) ''condition'' = (if eqp_condition e = JNull then None else Some (eqp_condition e))"
  "map_of (equipment_fields fl e) ''notes'' = (if eqp_notes e = JNull then None else Some (eqp_notes e))"
  "map_of (equipment_fields fl e) ''quantity'' = (if eqp_quantity e = JNull then None else Some (eqp_quantity e))"
  "map_of (equipment_fields fl e) ''throughput'' = (if eqp_throughput e = JNull then None else Some (eqp_throughput e))"
  "map_of (equipment_fields fl e) ''power_rating'' = (if eqp_power e = JNull then None else Some (eqp_power e))"
  "map_of (equipment_fields fl e) ''maintenance_schedule'' = (if eqp_schedule e = JNull then None else Some (eqp_schedule e))"
  "map_of (equipment_fields fl e) ''materials_worked'' =
     (if eqp_materials e = [] then None else Some (JList (map (worked_json fl) (eqp_materials e))))"
  by (simp_all add: equipment_fields_def map_add_def)

lemma equipment_location: "map_of (equipment_fields fl e) ''location'' = map_option (\<lambda>p. JObj (location_json fl p)) (eqp_location e)"
  by (cases "eqp_location e") (simp_all add: equipment_fields_def map_add_def)

lemma read_equipment_json:
  assumes "\<forall>k\<in>set (keys (eqp_extra e)). k \<notin> set equipment_keys"
  shows "read_equipment (dict_of (equipment_json fl e)) = Some (equipment_form e)"
proof -
  obtain d where d: "equipment_json fl e = JObj d" by (simp add: equipment_json_def)
  have "list_all (\<lambda>k. map_of d k = map_of (equipment_fields fl e) k) equipment_keys"
    unfolding list_all_iff using jget_equipment [OF assms _ d] by blast
  note f = this [unfolded equipment_keys_def list.pred_inject simp_thms equipment_entries equipment_location]
  have l: "optional_location d ''location'' = Some (map_option short_location_form (eqp_location e))"
    by (cases "eqp_location e") (simp_all add: optional_location_def f)
  have m: "(case map_of d ''materials_worked'' of None \<Rightarrow> Some [] | Some j \<Rightarrow> dict_items j) =
      Some (map (\<lambda>m. dict_of (worked_json fl m)) (eqp_materials e))"
    by (simp add: f worked_items)
  have "dict_of (equipment_json fl e) = d" by (simp add: d dict_of_def)
  then show ?thesis
    by (simp add: read_equipment_def l worked_items jget_def get_default_def f equipment_form_def worked_of_dict comp_def)
qed

section \<open>Facilities\<close>

lemma map_of_case_option [simp]:
  "map_of (case a of None \<Rightarrow> [] | Some x \<Rightarrow> [(k, g x)]) j = (if k = j then map_option g a else None)"
  by (cases a) auto

lemma facility_entries:
  "map_of (facility_to_dict fl f) ''id'' = Some (JStr (mf_id f))"
  "map_of (facility_to_dict fl f) ''name'' = Some (mf_name f)"
  "map_of (facility_to_dict fl f) ''location'' = Some (JObj (location_json fl (mf_location f)))"
  "map_of (facility_to_dict fl f) ''facility_status'' = Some (JStr (facility_status_value (mf_status f)))"
  "map_of (facility_to_dict fl f) ''access_type'' = Some (JStr (access_value (mf_access f)))"
  "map_of (facility_to_dict fl f) ''equipment'' = Some (JList (map (equipment_json fl) (mf_equipment f)))"
  "map_of (facility_to_dict fl f) ''typical_materials'' = Some (JList (map (worked_json fl) (mf_materials f)))"
  "map_of (facility_to_dict fl f) ''opening_hours'' = (if truthy (mf_hours f) then Some (mf_hours f) else None)"
  "map_of (facility_to_dict fl f) ''description'' = (if truthy (mf_description f) then Some (mf_description f) else None)"
  "map_of (facility_to_dict fl f) ''wheelchair_accessibility'' = (if truthy (mf_wheelchair f) then Some (mf_wheelchair f) else None)"
  "map_of (facility_to_dict fl f) ''floor_size'' = (if truthy (mf_floor f) then Some (mf_floor f) else None)"
  "map_of (facility_to_dict fl f) ''storage_capacity'' = (if truthy (mf_storage f) then Some (mf_storage f) else None)"
  "map_of (facility_to_dict fl f) ''maintenance_schedule'' = (if truthy (mf_schedule f) then Some (mf_schedule f) else None)"
  "map_of (facility_to_dict fl f) ''typical_products'' = (if truthy (mf_products f) then Some (mf_products f) else None)"
  "map_of (facility_to_dict fl f) ''domain'' = (if truthy (mf_domain f) then Some (mf_domain f) else None)"
  "map_of (facility_to_dict fl f) ''manufacturing_processes'' = (if mf_processes f = JNull then None else Some (mf_processes f))"
  "map_of (facility_to_dict fl f) ''certifications'' = (if mf_certifications f = JNull then None else Some (mf_certifications f))"
  "map_of (facility_to_dict fl f) ''backup_generator'' = (if truthy (mf_generator f) then Some (JBool True) else None)"
  "map_of (facility_to_dict fl f) ''uninterrupted_power_supply'' = (if truthy (mf_ups f) then Some (JBool True) else None)"
  "map_of (facility_to_dict fl f) ''road_access'' = (if truthy (mf_road f) then Some (JBool True) else None)"
  "map_of (facility_to_dict fl f) ''loading_dock'' = (if truthy (mf_dock f) then Some (JBool True) else None)"
  "map_of (facility_to_dict fl f) ''affiliations'' = (if mf_affiliations f = [] then None else Some (JList (agent_list fl (mf_affiliations f))))"
  "map_of (facility_to_dict fl f) ''circular_economy'' = (if circular_json (mf_circular f) = [] then None else Some (JObj (circular_json (mf_circular f))))"
  "map_of (facility_to_dict fl f) ''human_capacity'' = (if capacity_json (mf_headcount f) = [] then None else Some (JObj (capacity_json (mf_headcount f))))"
  "map_of (facility_to_dict fl f) ''innovation_space'' = (if innovation_json (mf_innovation f) = [] then None else Some (JObj (innovation_json (mf_innovation f))))"
  by (simp_all add: facility_to_dict_def map_add_def agent_list_def)

lemma facility_owner_entry:
  "map_of (facility_to_dict fl f) ''owner'' = map_option (\<lambda>p. JObj (okw_agent_json fl p)) (mf_owner f)"
  by (cases "mf_owner f") (simp_all add: facility_to_dict_def map_add_def)

lemma facility_contact_entry:
  "map_of (facility_to_dict fl f) ''contact'' = map_option (\<lambda>p. JObj (okw_agent_json fl p)) (mf_contact f)"
  by (cases "mf_contact f") (simp_all add: facility_to_dict_def map_add_def)

lemma facility_date_founded_entry:
  "map_of (facility_to_dict fl f) ''date_founded'' = map_option (\<lambda>d. JStr (date_isoformat d)) (mf_founded f)"
  by (cases "mf_founded f") (simp_all add: facility_to_dict_def map_add_def)

lemma facility_typical_batch_size_entry:
  "map_of (facility_to_dict fl f) ''typical_batch_size'' = map_option (\<lambda>b. JStr (batch_value b)) (mf_batch f)"
  by (cases "mf_batch f") (simp_all add: facility_to_dict_def map_add_def)

lemmas facility_gets = facility_entries facility_owner_entry facility_contact_entry facility_date_founded_entry facility_typical_batch_size_entry

definition circular_form :: "circular_economy \<Rightarrow> circular_economy" where
  "circular_form c =
     (if truthy (ce_applies c)
      then \<lparr>ce_applies = JBool True, ce_description = truthy_or JNull (ce_description c), ce_by_products = truthy_or (JList []) (ce_by_products c)\<rparr>
      else no_circular)"

definition innovation_form :: "innovation_space \<Rightarrow> innovation_space" where
  "innovation_form s = s\<lparr>isp_resources := truthy_or (JList []) (isp_resources s), isp_services := truthy_or (JList []) (isp_services s),
     isp_residencies := JBool (truthy (isp_residencies s))\<rparr>"

definition null_or :: "json \<Rightarrow> json \<Rightarrow> json" where
  "null_or dflt j = (if j = JNull then dflt else j)"

text \<open>What a facility comes back as.\<close>

definition facility_form :: "manufacturing_facility \<Rightarrow> manufacturing_facility" where
  "facility_form f = f\<lparr>mf_location := location_form (mf_location f), mf_owner := map_option agent_form (mf_owner f),
     mf_contact := map_option agent_form (mf_contact f), mf_affiliations := map plain_form (mf_affiliations f),
     mf_hours := truthy_or JNull (mf_hours f), mf_description := truthy_or JNull (mf_description f),
     mf_wheelchair := truthy_or JNull (mf_wheelchair f), mf_equipment := map equipment_form (mf_equipment f),
     mf_processes := null_or (JList []) (mf_processes f), mf_floor := truthy_or JNull (mf_floor f),
     mf_storage := truthy_or JNull (mf_storage f), mf_materials := map worked_form (mf_materials f),
     mf_certifications := null_or (JList []) (mf_certifications f), mf_generator := JBool (truthy (mf_generator f)),
     mf_ups := JBool (truthy (mf_ups f)), mf_road := JBool (truthy (mf_road f)), mf_dock := JBool (truthy (mf_dock f)),
     mf_schedule := truthy_or JNull (mf_schedule f), mf_products := truthy_or (JList []) (mf_products f),
     mf_partners := [], mf_reviews := JList [], mf_circular := circular_form (mf_circular f),
     mf_innovation := innovation_form (mf_innovation f), mf_record := None, mf_domain := truthy_or JNull (mf_domain f)\<rparr>"

lemma read_circular_json [simp]: "read_circular (facility_to_dict fl f) = Some (circular_form (mf_circular f))"
proof -
  have "get_default (facility_to_dict fl f) ''circular_economy'' (JObj []) = JObj (circular_json (mf_circular f))"
    by (simp add: get_default_def facility_gets)
  then show ?thesis
    by (auto simp: read_circular_def circular_form_def circular_json_def get_default_def jget_def truthy_or_def)
qed

lemma read_headcount_json [simp]: "read_headcount (facility_to_dict fl f) = Some (mf_headcount f)"
proof -
  have "get_default (facility_to_dict fl f) ''human_capacity'' (JObj []) = JObj (capacity_json (mf_headcount f))"
    by (simp add: get_default_def facility_gets)
  then show ?thesis by (auto simp: read_headcount_def capacity_json_def unless_none_def jget_def)
qed

lemma read_innovation_json [simp]: "read_innovation (facility_to_dict fl f) = Some (innovation_form (mf_innovation f))"
proof -
  let ?s = "mf_innovation f"
  have "get_default (facility_to_dict fl f) ''innovation_space'' (JObj []) = JObj (innovation_json ?s)"
    by (simp add: get_default_def facility_gets)
  moreover have "innovation_json ?s = [] \<Longrightarrow> innovation_form ?s = no_innovation"
    by (auto simp: innovation_json_def unless_none_def when_true_def innovation_form_def no_innovation_def truthy_or_def split: if_splits)
  moreover have "jget (innovation_json ?s) ''staff'' = isp_staff ?s" "jget (innovation_json ?s) ''footfall'' = isp_footfall ?s"
      "get_default (innovation_json ?s) ''learning_resources'' (JList []) = truthy_or (JList []) (isp_resources ?s)"
      "get_default (innovation_json ?s) ''services'' (JList []) = truthy_or (JList []) (isp_services ?s)"
      "get_default (innovation_json ?s) ''residencies'' (JBool False) = JBool (truthy (isp_residencies ?s))"
    by (simp_all add: innovation_json_def reading truthy_or_def)
  ultimately show ?thesis by (simp add: read_innovation_def innovation_form_def)
qed

lemma enum_of_status: "enum_of facility_status_value statuses (JStr (facility_status_value s)) = Some s"
  by (cases s) (simp_all add: enum_of_def statuses_def)

lemma enum_of_access: "enum_of access_value access_types (JStr (access_value a)) = Some a"
  by (cases a) (simp_all add: enum_of_def access_types_def)

lemma enum_of_batch: "enum_of batch_value batch_sizes (JStr (batch_value b)) = Some b"
  by (cases b) (simp_all add: enum_of_def batch_sizes_def)

lemmas enum_of_value = enum_of_status enum_of_access enum_of_batch

lemma map_opt_map_some: "(\<And>x. x \<in> set xs \<Longrightarrow> f (g x) = Some (h x)) \<Longrightarrow> map_opt f (map g xs) = Some (map h xs)"
  by (induction xs) auto

lemma read_dicts_json:
  assumes "\<And>x. x \<in> set xs \<Longrightarrow> (\<exists>d. g x = JObj d) \<and> f (dict_of (g x)) = Some (h x)"
    and "j = JList (map g xs) \<or> j = JNull \<and> xs = []"
  shows "read_dicts f j = Some (map h xs)"
proof -
  have "dict_items (JList (map g xs)) = Some (map (\<lambda>x. dict_of (g x)) xs)" by (rule dict_items_map) (use assms(1) in blast)
  then show ?thesis using assms map_opt_map_some [of xs f "\<lambda>x. dict_of (g x)" h] by (auto simp: read_dicts_def)
qed

lemma read_typical_dict: "read_typical (dict_of (worked_json fl m)) = Some (worked_form m)"
proof -
  obtain d where "worked_json fl m = JObj d" "read_typical d = Some (worked_form m)" by (rule read_typical_json)
  then show ?thesis by (simp add: dict_of_def)
qed

definition facility_wf :: "manufacturing_facility \<Rightarrow> bool" where
  "facility_wf f \<longleftrightarrow> is_uuid (mf_id f) \<and> (case mf_founded f of None \<Rightarrow> True | Some d \<Rightarrow> valid_datetime (midnight d)) \<and>
     (\<forall>e\<in>set (mf_equipment f). \<forall>k\<in>set (keys (eqp_extra e)). k \<notin> set equipment_keys)"

lemma read_written_facility:
  assumes "facility_wf f"
  shows "facility_from_dict fresh (facility_to_dict fl f) = Some (facility_form f)"
proof -
  let ?d = "facility_to_dict fl f"
  have i: "read_facility_id fresh ?d = Some (mf_id f)"
    using assms by (simp add: read_facility_id_def facility_gets facility_wf_def is_uuid_def)
  have "date_isoformat d \<noteq> []" for d by (simp add: date_isoformat_def)
  then have founded: "read_founded ?d = Some (mf_founded f)"
    using assms by (cases "mf_founded f") (simp_all add: read_founded_def jget_def facility_gets facility_wf_def date_roundtrip)
  have batch: "read_batch ?d = Some (mf_batch f)"
    by (cases "mf_batch f") (simp_all add: read_batch_def jget_def facility_gets enum_of_value)
  have obj: "\<exists>d. equipment_json fl e = JObj d" for e by (simp add: equipment_json_def)
  have eqs: "read_dicts read_equipment (jget ?d ''equipment'') = Some (map equipment_form (mf_equipment f))"
    by (rule read_dicts_json [where g = "equipment_json fl"])
      (use assms in \<open>auto simp: facility_wf_def jget_def facility_gets read_equipment_json obj\<close>)
  have wobj: "\<exists>d. worked_json fl m = JObj d" for m by (simp add: worked_json_def)
  have ms: "read_dicts read_typical (jget ?d ''typical_materials'') = Some (map worked_form (mf_materials f))"
    by (rule read_dicts_json [where g = "worked_json fl"]) (auto simp: jget_def facility_gets read_typical_dict wobj)
  have affs: "read_dicts (\<lambda>a. Some (plain_agent a)) (jget ?d ''affiliations'') = Some (map plain_form (mf_affiliations f))"
    by (rule read_dicts_json [where g = "\<lambda>a. JObj (okw_agent_json fl a)"]) (auto simp: jget_def facility_gets agent_list_def dict_of_def)
  have owner: "read_agent ?d ''owner'' = Some (map_option agent_form (mf_owner f))"
    by (rule read_agent_json [where fl = fl]) (simp add: jget_def facility_gets split: option.split)
  have contact: "read_agent ?d ''contact'' = Some (map_option agent_form (mf_contact f))"
    by (rule read_agent_json [where fl = fl]) (simp add: jget_def facility_gets split: option.split)
  show ?thesis
    unfolding facility_from_dict_def i founded batch eqs ms affs owner contact facility_form_def
    by (simp add: get_default_def jget_def facility_gets enum_of_value truthy_or_def null_or_def)
qed

section \<open>Writing what was read\<close>

lemma when_true_form [simp]:
  "\<not> truthy dflt \<Longrightarrow> when_true ((k, truthy_or dflt v) # l) = when_true ((k, v) # l)"
  "when_true [] = []"
  by (simp_all add: when_true_def truthy_or_def)

lemma when_true_Cons: "when_true ((k, v) # l) = (if truthy v then [(k, v)] else []) @ when_true l"
  by (simp add: when_true_def)

lemma truthy_or_truthy [simp]: "\<not> truthy dflt \<Longrightarrow> truthy (truthy_or dflt v) = truthy v" "truthy v \<Longrightarrow> truthy_or dflt v = v"
  by (auto simp: truthy_or_def)

lemma no_address_json [simp]: "address_json no_address = []"
  by (simp add: address_json_def no_address_def unless_none_def)

lemma location_json_form: "location_json fl (location_form l) = location_json fl l"
  by (auto simp: location_json_def location_form_def when_true_Cons split: option.split)

definition short_read :: "location option \<Rightarrow> bool" where
  "short_read l = (case l of None \<Rightarrow> True | Some p \<Rightarrow> lc_what3words p = None \<and> lc_region p = JNull)"

lemma short_location_json:
  assumes "short_read l"
  shows "location_entry fl k (map_option short_location_form l) = location_entry fl k l"
proof (cases l)
  case (Some p)
  with assms have "short_location_form p = location_form p"
    by (simp add: short_read_def short_location_form_def location_form_def truthy_or_def)
  with Some show ?thesis by (simp add: location_entry_def location_json_form)
qed simp

lemma worked_json_form: "short_read (wm_supplier m) \<Longrightarrow> worked_json fl (worked_form m) = worked_json fl m"
  by (simp add: worked_json_def worked_form_def short_location_json when_true_Cons)

definition agent_read :: "okw_agent \<Rightarrow> bool" where
  "agent_read a \<longleftrightarrow> ag_location a = None \<and> ag_images a = JList [] \<and> ag_contact a \<noteq> None \<and> ag_social a \<noteq> None"

lemma agent_json_form: "agent_read a \<Longrightarrow> okw_agent_json fl (agent_form a) = okw_agent_json fl a"
  by (auto simp: agent_read_def okw_agent_json_def agent_form_def plain_form_def contact_form_def social_form_def
      social_json_def when_true_Cons)

lemma plain_json_form:
  "agent_read a \<Longrightarrow> ag_contact a = Some no_contact \<Longrightarrow> ag_social a = Some no_social \<Longrightarrow>
   okw_agent_json fl (plain_form a) = okw_agent_json fl a"
  using agent_json_form [of a fl] by (simp add: agent_form_def contact_form_def social_form_def plain_form_def no_social_def truthy_or_def)

lemma short_read_location: "optional_location d k = Some l \<Longrightarrow> short_read l"
  by (auto simp: optional_location_def read_short_location_def short_read_def split: option.splits bind_splits)

lemma equipment_json_form:
  assumes "read_equipment d = Some e"
  shows "equipment_json fl (equipment_form e) = equipment_json fl e" and "eqp_extra e = []"
proof -
  have l: "short_read (eqp_location e)" and m: "\<forall>m\<in>set (eqp_materials e). wm_supplier m = None"
    and lost: "eqp_extra e = []" "eqp_owner e = None" "eqp_usage e = JNull" "eqp_tolerance e = JNull" "eqp_firmware e = JNull" "eqp_ups e = JBool False"
      "eqp_axes e = JNull" "eqp_bed e = JNull" "eqp_volume e = JNull" "eqp_computer e = JBool False" "eqp_extraction e = JBool False"
      "eqp_laser e = JNull" "eqp_nozzle e = JNull" "eqp_surface e = JNull" "eqp_x e = JNull" "eqp_y e = JNull" "eqp_z e = JNull"
    using assms by (auto simp: read_equipment_def short_read_location worked_of_def split: bind_splits)
  have w: "\<forall>m\<in>set (eqp_materials e). worked_json fl ((worked_form m)\<lparr>wm_supplier := None\<rparr>) = worked_json fl m"
    using m by (auto simp: worked_json_def worked_form_def when_true_Cons)
  show "equipment_json fl (equipment_form e) = equipment_json fl e"
    by (simp add: equipment_json_def equipment_fields_def equipment_form_def short_location_json [OF l] lost)
      (intro arg_cong [where f = "list_entry ''materials_worked''"], use w in simp)
  show "eqp_extra e = []" by (rule lost(1))
qed

lemma read_dicts_set: "read_dicts f j = Some xs \<Longrightarrow> x \<in> set xs \<Longrightarrow> \<exists>d. f d = Some x"
proof -
  have "map_opt f ds = Some xs \<Longrightarrow> x \<in> set xs \<Longrightarrow> \<exists>d. f d = Some x" for ds
    by (induction ds arbitrary: xs) (auto split: bind_splits)
  then show "read_dicts f j = Some xs \<Longrightarrow> x \<in> set xs \<Longrightarrow> \<exists>d. f d = Some x"
    by (auto simp: read_dicts_def split: if_splits bind_splits)
qed

lemma read_agent_read: "read_agent d k = Some (Some a) \<Longrightarrow> agent_read a"
  by (auto simp: read_agent_def agent_read_def plain_agent_def split: json.splits list.splits bind_splits)

lemma plain_agent_read: "agent_read (plain_agent d)" "ag_contact (plain_agent d) = Some no_contact" "ag_social (plain_agent d) = Some no_social"
  by (simp_all add: plain_agent_def agent_read_def)

lemma circular_json_form [simp]: "circular_json (circular_form c) = circular_json c"
  by (simp add: circular_json_def circular_form_def no_circular_def when_true_Cons)

lemma innovation_json_form [simp]: "innovation_json (innovation_form s) = innovation_json s"
  by (simp add: innovation_json_def innovation_form_def when_true_Cons)

lemma flag_entries_Cons: "flag_entries ((k, v) # l) = (if truthy v then [(k, JBool True)] else []) @ flag_entries l"
  by (simp add: flag_entries_def when_true_def)

definition facility_parts :: "manufacturing_facility \<Rightarrow> bool" where
  "facility_parts f \<longleftrightarrow>
     (case mf_owner f of None \<Rightarrow> True | Some a \<Rightarrow> agent_read a) \<and> (case mf_contact f of None \<Rightarrow> True | Some a \<Rightarrow> agent_read a) \<and>
     (\<forall>a\<in>set (mf_affiliations f). \<exists>d. a = plain_agent d) \<and> (\<forall>e\<in>set (mf_equipment f). \<exists>d. read_equipment d = Some e) \<and>
     (\<forall>m\<in>set (mf_materials f). short_read (wm_supplier m)) \<and> mf_partners f = [] \<and> mf_reviews f = JList [] \<and> mf_record f = None"

lemma read_typical_short: "read_typical d = Some m \<Longrightarrow> short_read (wm_supplier m)"
  by (auto simp: read_typical_def worked_of_def short_read_location split: bind_splits)

lemma facility_read:
  assumes "facility_from_dict fresh d = Some f"
  shows "facility_parts f" and "is_uuid fresh \<Longrightarrow> facility_wf f"
proof -
  have a: "read_agent d ''owner'' = Some (mf_owner f)" "read_agent d ''contact'' = Some (mf_contact f)"
      "read_dicts (\<lambda>a. Some (plain_agent a)) (jget d ''affiliations'') = Some (mf_affiliations f)"
      "read_dicts read_equipment (jget d ''equipment'') = Some (mf_equipment f)"
      "read_dicts read_typical (jget d ''typical_materials'') = Some (mf_materials f)"
      "mf_partners f = [] \<and> mf_reviews f = JList [] \<and> mf_record f = None"
      "read_facility_id fresh d = Some (mf_id f)" "read_founded d = Some (mf_founded f)"
    using assms unfolding facility_from_dict_def
    by - (elim bind_someE, drule option.inject [THEN iffD1], hypsubst, simp)+
  show "facility_parts f"
    using a(1,2) read_agent_read read_dicts_set [OF a(3)] read_dicts_set [OF a(4)] read_dicts_set [OF a(5)] read_typical_short
    by (fastforce simp: facility_parts_def a(6) split: option.split)
  have "read_founded d = Some (Some x) \<Longrightarrow> valid_datetime (midnight x)" for x
    by (auto simp: read_founded_def date_fromisoformat_valid split: json.splits if_splits)
  moreover have "is_uuid fresh \<Longrightarrow> is_uuid (mf_id f)"
    using a(7) by (auto simp: read_facility_id_def is_uuid_parsed split: option.splits json.splits)
  ultimately show "is_uuid fresh \<Longrightarrow> facility_wf f"
    using a(8) read_dicts_set [OF a(4)] equipment_json_form(2) by (fastforce simp: facility_wf_def split: option.split)
qed

lemma agent_entry_form: "(case a of None \<Rightarrow> True | Some x \<Rightarrow> agent_read x) \<Longrightarrow> agent_entry fl k (map_option agent_form a) = agent_entry fl k a"
  by (cases a) (simp_all add: agent_entry_def agent_json_form)

lemma rewrite_read_facility:
  assumes "facility_parts f" and "mf_processes f \<noteq> JNull" and "mf_certifications f \<noteq> JNull"
  shows "facility_to_dict fl (facility_form f) = facility_to_dict fl f"
proof -
  have affs: "agent_list fl (map plain_form (mf_affiliations f)) = agent_list fl (mf_affiliations f)"
    using assms(1) plain_json_form [OF plain_agent_read] by (auto simp: agent_list_def facility_parts_def)
  have eqs: "map (equipment_json fl) (map equipment_form (mf_equipment f)) = map (equipment_json fl) (mf_equipment f)"
    using assms(1) equipment_json_form(1) by (fastforce simp: facility_parts_def)
  have ms: "map (worked_json fl) (map worked_form (mf_materials f)) = map (worked_json fl) (mf_materials f)"
    using assms(1) by (auto simp: facility_parts_def worked_json_form)
  have as: "agent_entry fl ''owner'' (map_option agent_form (mf_owner f)) = agent_entry fl ''owner'' (mf_owner f)"
      "agent_entry fl ''contact'' (map_option agent_form (mf_contact f)) = agent_entry fl ''contact'' (mf_contact f)"
    using assms(1) by (simp_all add: agent_entry_form facility_parts_def)
  have "mf_partners f = []" "mf_reviews f = JList []" "mf_record f = None" using assms(1) by (simp_all add: facility_parts_def)
  then show ?thesis
    using assms(2,3)
    by (simp del: map_map add: facility_to_dict_def facility_form_def affs eqs ms as when_true_Cons flag_entries_Cons location_json_form null_or_def)
qed

end
