(* ===== verification/Kitchen_Model.thy ===== *)
theory Kitchen_Model imports Okh_Manifest begin

text \<open>
  Kitchens and recipes (\<open>domains/cooking/models.py\<close>): the records, how they are read from simple
  files and from design manifests, and the tests that tell their files from facilities and designs.
  A function is \<open>None\<close> where the source raises.
\<close>

record kitchen =
  kt_id :: uuid
  kt_name :: string
  kt_appliances :: "json list"
  kt_tools :: "json list"
  kt_ingredients :: "json list"
  kt_domain :: string

definition kitchen_from_dict :: "doc \<Rightarrow> kitchen option" where
  "kitchen_from_dict d =
     do { i \<leftarrow> map_of d ''id''; n \<leftarrow> map_of d ''name''; u \<leftarrow> parse_uuid (str_of i);
          as \<leftarrow> items_of (get_default d ''appliances'' (JList []));
          ts \<leftarrow> items_of (get_default d ''tools'' (JList []));
          gs \<leftarrow> items_of (get_default d ''ingredients'' (JList []));
          Some \<lparr>kt_id = u, kt_name = str_of n, kt_appliances = as, kt_tools = ts, kt_ingredients = gs,
            kt_domain = str_of (get_default d ''domain'' (JStr ''cooking''))\<rparr> }"

definition kitchen_to_dict :: "kitchen \<Rightarrow> doc" where
  "kitchen_to_dict k =
     [(''id'', JStr (kt_id k)), (''name'', JStr (kt_name k)), (''appliances'', JList (kt_appliances k)),
      (''tools'', JList (kt_tools k)), (''ingredients'', JList (kt_ingredients k)), (''domain'', JStr (kt_domain k))]"

definition has_key :: "doc \<Rightarrow> string \<Rightarrow> bool" where
  "has_key d k \<longleftrightarrow> map_of d k \<noteq> None"

definition is_kitchen_data :: "doc \<Rightarrow> bool" where
  "is_kitchen_data d \<longleftrightarrow> d \<noteq> [] \<and> \<not> has_key d ''facility_status'' \<and> list_ex (has_key d) [''appliances'', ''tools'', ''ingredients'']"

text \<open>The value of \<open>domain\<close> decides, where it is one of the two names.\<close>

definition domain_first :: "(doc \<Rightarrow> bool) \<Rightarrow> doc \<Rightarrow> bool" where
  "domain_first shape d \<longleftrightarrow>
     d \<noteq> [] \<and> jget d ''domain'' \<noteq> JStr ''manufacturing'' \<and> (jget d ''domain'' = JStr ''cooking'' \<or> shape d)"

definition is_cooking_capability :: "doc \<Rightarrow> bool" where
  "is_cooking_capability d = domain_first is_kitchen_data d"

section \<open>Recipes\<close>

definition cooking_verbs :: "string list" where
  "cooking_verbs = [''bake'', ''boil'', ''braise'', ''broil'', ''chill'', ''cook'', ''ferment'', ''freeze'', ''fry'', ''grill'', ''knead'',
     ''marinate'', ''mix'', ''poach'', ''roast'', ''saute'', ''saut'' @ [char_of (233 :: nat)], ''simmer'', ''steam'', ''stir'', ''whisk'']"

definition has_okh_cooking_process :: "doc \<Rightarrow> bool" where
  "has_okh_cooking_process d =
     (case jget d ''manufacturing_processes'' of
        JList ps \<Rightarrow> list_ex (\<lambda>p. case p of JStr s \<Rightarrow> lower (strip s) \<in> set cooking_verbs | _ \<Rightarrow> False) ps
      | _ \<Rightarrow> False)"

text \<open>\<open>a or b\<close>, and the items of \<open>value or []\<close>.\<close>

definition py_or :: "json \<Rightarrow> json \<Rightarrow> json" where
  "py_or a b = (if truthy a then a else b)"

definition items_or_none :: "json \<Rightarrow> json list option" where
  "items_or_none j = (if truthy j then items_of j else Some [])"

text \<open>The texts of a list of strings and dicts, a dict by the first of some of its values that is true.\<close>

definition entry_name :: "(doc \<Rightarrow> json) \<Rightarrow> json \<Rightarrow> string option" where
  "entry_name f j =
     (case j of
        JStr s \<Rightarrow> if s = [] then None else Some s
      | JObj d \<Rightarrow> if truthy (f d) then Some (str_of (f d)) else None
      | _ \<Rightarrow> None)"

definition entry_names :: "(doc \<Rightarrow> json) \<Rightarrow> json \<Rightarrow> string list option" where
  "entry_names f j = map_option (List.map_filter (entry_name f)) (items_or_none j)"

definition okh_material_names :: "doc \<Rightarrow> string list option" where
  "okh_material_names d =
     entry_names (\<lambda>m. py_or (py_or (jget m ''name'') (jget m ''material_type'')) (jget m ''identifier'')) (jget d ''materials'')"

definition okh_tool_names :: "doc \<Rightarrow> string list option" where
  "okh_tool_names d =
     entry_names (\<lambda>m. py_or (py_or (jget m ''name'') (jget m ''tool'')) (jget m ''identifier'')) (jget d ''tool_list'')"

definition okh_instructions :: "doc \<Rightarrow> string list option" where
  "okh_instructions d =
     do { steps \<leftarrow> entry_names (\<lambda>m. py_or (jget m ''title'') (jget m ''path'')) (jget d ''making_instructions'');
          if steps \<noteq> [] then Some steps
          else map_option (List.map_filter (\<lambda>p. case p of JStr s \<Rightarrow> Some s | _ \<Rightarrow> None)) (items_or_none (jget d ''manufacturing_processes'')) }"

record recipe =
  rc_id :: uuid
  rc_name :: string
  rc_ingredients :: "json list"
  rc_instructions :: "json list"
  rc_equipment :: "json list"
  rc_domain :: string

text \<open>A field of the simple format, or the texts of its counterpart in a manifest.\<close>

definition simple_or :: "doc \<Rightarrow> string \<Rightarrow> (doc \<Rightarrow> string list option) \<Rightarrow> json list option" where
  "simple_or d k f = (if truthy (jget d k) then items_of (jget d k) else map_option (map JStr) (f d))"

definition recipe_from_dict :: "doc \<Rightarrow> recipe option" where
  "recipe_from_dict d =
     do { i \<leftarrow> map_of d ''id'';
          let n = py_or (jget d ''name'') (jget d ''title'');
          if truthy n then
            do { u \<leftarrow> parse_uuid (str_of i);
                 gs \<leftarrow> simple_or d ''ingredients'' okh_material_names;
                 is \<leftarrow> simple_or d ''instructions'' okh_instructions;
                 es \<leftarrow> simple_or d ''equipment'' okh_tool_names;
                 Some \<lparr>rc_id = u, rc_name = str_of n, rc_ingredients = gs, rc_instructions = is, rc_equipment = es,
                   rc_domain = str_of (get_default d ''domain'' (JStr ''cooking''))\<rparr> }
          else None }"

definition recipe_to_dict :: "recipe \<Rightarrow> doc" where
  "recipe_to_dict r =
     [(''id'', JStr (rc_id r)), (''name'', JStr (rc_name r)), (''ingredients'', JList (rc_ingredients r)),
      (''instructions'', JList (rc_instructions r)), (''equipment'', JList (rc_equipment r)), (''domain'', JStr (rc_domain r))]"

definition is_recipe_data :: "doc \<Rightarrow> bool" where
  "is_recipe_data d \<longleftrightarrow>
     d \<noteq> [] \<and> (list_ex (has_key d) [''ingredients'', ''instructions'', ''equipment''] \<or>
                has_key d ''license'' \<and> has_okh_cooking_process d)"

definition is_cooking_recipe :: "doc \<Rightarrow> bool" where
  "is_cooking_recipe d = domain_first is_recipe_data d"

section \<open>Listing them\<close>

text \<open>The loop that keeps the newest file of every id: a file is its content and its time.\<close>

definition keep_latest :: "('a \<Rightarrow> uuid) \<Rightarrow> 'a \<times> nat \<Rightarrow> (uuid \<times> nat \<times> 'a) list \<Rightarrow> (uuid \<times> nat \<times> 'a) list" where
  "keep_latest id_of x acc =
     (case x of (a, m) \<Rightarrow>
        case map_of acc (id_of a) of
          None \<Rightarrow> AList.update (id_of a) (m, a) acc
        | Some (m0, a0) \<Rightarrow> if m0 < m then AList.update (id_of a) (m, a) acc else acc)"

definition list_records :: "(doc \<Rightarrow> bool) \<Rightarrow> (doc \<Rightarrow> 'a option) \<Rightarrow> ('a \<Rightarrow> uuid) \<Rightarrow> (doc option \<times> nat) list \<Rightarrow> 'a list" where
  "list_records test read id_of files =
     map (\<lambda>(i, m, a). a) (fold (keep_latest id_of)
       (List.map_filter (\<lambda>(c, m). case c of None \<Rightarrow> None | Some d \<Rightarrow> if test d then map_option (\<lambda>a. (a, m)) (read d) else None) files) [])"

definition list_kitchens :: "(doc option \<times> nat) list \<Rightarrow> kitchen list" where
  "list_kitchens files = list_records is_cooking_capability kitchen_from_dict kt_id files"

definition list_recipes :: "(doc option \<times> nat) list \<Rightarrow> recipe list" where
  "list_recipes files = list_records is_cooking_recipe recipe_from_dict rc_id files"

end
