(* ===== verification/Okw_Class.thy ===== *)
theory Okw_Class imports Facility_Facts Kitchen_Model Okw_Facts Okh_Service_Facts begin

text \<open>
  The facility service and the federation over the real facility class: what a node publishes of a
  facility can always be built and stored by the node that receives it.
\<close>

text \<open>The class as the facility service uses it; \<open>rnd\<close> and \<open>fresh\<close> are the random ids a repair and a new facility draw.\<close>

definition facility_class :: "float_reader \<Rightarrow> (string \<Rightarrow> string) \<Rightarrow> uuid \<Rightarrow> uuid \<Rightarrow> manufacturing_facility facility_model" where
  "facility_class fl md5 rnd fresh =
     \<lparr>fm_id = mf_id, fm_name = (\<lambda>f. str_of (mf_name f)), fm_from = facility_from_dict fresh, fm_to = facility_to_dict fl,
      fm_fix = validate_and_fix_data md5 rnd, fm_cooking = is_cooking_capability\<rparr>"

lemmas facility_readers = read_agent_def read_circular_def read_headcount_def read_innovation_def read_facility_id_def
  read_founded_def read_batch_def

lemma facility_same:
  assumes "same_fields d d'"
  shows "facility_from_dict fresh d' = facility_from_dict fresh d"
proof -
  have k: "map_of d' k = map_of d k" if "\<not> starts_with ''ohm_'' k" for k using assms that by (simp add: same_fields_def)
  show ?thesis
    unfolding facility_from_dict_def facility_readers
    by (simp add: same_fields_get [OF assms] k starts_with_def)
qed

section \<open>Projected facilities\<close>

lemma map_of_projected: "map_of (filter (\<lambda>(k, v). k \<in> S) d) k = (if k \<in> S then map_of d k else None)"
  by (induction d) auto

abbreviation proj :: "string set \<Rightarrow> doc \<Rightarrow> doc" where
  "proj S d \<equiv> filter (\<lambda>(k, v). k \<in> S) d"

lemma get_projected:
  "jget (proj S d) k = (if k \<in> S then jget d k else JNull)"
  "get_default (proj S d) k e = (if k \<in> S then get_default d k e else e)"
  by (simp_all add: jget_def get_default_def map_of_projected)

lemma read_projected:
  "read_circular (proj S d) = (if ''circular_economy'' \<in> S then read_circular d else Some no_circular)"
  "read_headcount (proj S d) = (if ''human_capacity'' \<in> S then read_headcount d else Some JNull)"
  "read_innovation (proj S d) = (if ''innovation_space'' \<in> S then read_innovation d else Some no_innovation)"
  "read_founded (proj S d) = (if ''date_founded'' \<in> S then read_founded d else Some None)"
  "read_batch (proj S d) = (if ''typical_batch_size'' \<in> S then read_batch d else Some None)"
  "read_agent (proj S d) k = (if k \<in> S then read_agent d k else Some None)"
  by (simp_all add: facility_readers get_projected)

lemma read_default_location: "\<exists>l. read_location (JObj []) = Some l"
  by (simp add: read_location_def read_address_def read_what3words_def get_default_def)

lemma read_default_enums:
  "enum_of facility_status_value statuses (JStr ''Active'') = Some ACTIVE"
  "enum_of access_value access_types (JStr ''Restricted'') = Some RESTRICTED"
  by (simp_all add: enum_of_def statuses_def access_types_def)

lemma read_dicts_null [simp]: "read_dicts f JNull = Some []"
  by (simp add: read_dicts_def)

lemma facility_readable:
  "(\<exists>f. facility_from_dict fresh d = Some f) \<longleftrightarrow>
     read_location (get_default d ''location'' (JObj [])) \<noteq> None \<and>
     enum_of facility_status_value statuses (get_default d ''facility_status'' (JStr ''Active'')) \<noteq> None \<and>
     read_facility_id fresh d \<noteq> None \<and> read_founded d \<noteq> None \<and>
     enum_of access_value access_types (get_default d ''access_type'' (JStr ''Restricted'')) \<noteq> None \<and>
     read_batch d \<noteq> None \<and> read_circular d \<noteq> None \<and> read_headcount d \<noteq> None \<and> read_innovation d \<noteq> None \<and>
     read_dicts read_equipment (jget d ''equipment'') \<noteq> None \<and> read_dicts read_typical (jget d ''typical_materials'') \<noteq> None \<and>
     read_agent d ''owner'' \<noteq> None \<and> read_agent d ''contact'' \<noteq> None \<and>
     read_dicts (\<lambda>a. Some (plain_agent a)) (jget d ''affiliations'') \<noteq> None"
  unfolding facility_from_dict_def by (auto simp: bind_eq_Some_conv)

lemma facility_id_read: "facility_from_dict fresh d = Some f \<Longrightarrow> read_facility_id fresh d = Some (mf_id f)"
  unfolding facility_from_dict_def by - (elim bind_someE, drule option.inject [THEN iffD1], hypsubst, simp)

lemma read_projected_facility:
  assumes f: "facility_from_dict fresh d = Some f" and "''id'' \<in> S"
  shows "\<exists>g. facility_from_dict fresh (proj S d) = Some g \<and> mf_id g = mf_id f"
proof -
  have i: "read_facility_id fresh (proj S d) = read_facility_id fresh d"
    using assms(2) by (simp add: read_facility_id_def map_of_projected)
  have "\<exists>f. facility_from_dict fresh d = Some f" using f by blast
  then have "\<exists>g. facility_from_dict fresh (proj S d) = Some g"
    unfolding facility_readable read_projected get_projected i
    using read_default_location by (auto simp: read_default_enums)
  then obtain g where g: "facility_from_dict fresh (proj S d) = Some g" by blast
  from facility_id_read [OF f] facility_id_read [OF g] i have "mf_id g = mf_id f" by simp
  with g show ?thesis by blast
qed

section \<open>The class keeps its promises\<close>

lemma class_reads_back:
  assumes "is_uuid fresh" and f: "facility_from_dict fresh d = Some f"
  shows "facility_reads_back (facility_class fl md5 rnd fresh) (mf_id f) d"
proof -
  have wf: "facility_wf f" by (rule facility_read(2) [OF f assms(1)])
  let ?d = "apply_ohm_metadata (facility_to_dict fl f) (Some d) None"
  have same: "same_fields (facility_to_dict fl f) ?d" by (rule apply_ohm_same)
  then have "map_of ?d ''id'' = Some (JStr (mf_id f))" by (simp add: same_fields_def starts_with_def facility_gets)
  then have "validate_and_fix_data md5 rnd ?d = Some ?d"
    using wf by (simp add: validate_and_fix_data_def facility_wf_def is_uuid_def)
  moreover have "facility_from_dict fresh ?d = Some (facility_form f)"
    unfolding facility_same [OF same] by (rule read_written_facility [OF wf])
  ultimately show ?thesis
    by (simp add: facility_reads_back_def f facility_class_def read_facility_def facility_form_def)
qed

lemma list_file_cases:
  "list_file fm x acc = acc \<or>
   (\<exists>d m g. \<not> fm_cooking fm d \<and> read_facility fm (Some d) = Some g \<and> list_file fm x acc = AList.update (fm_id fm g) (m, g) acc)"
proof -
  obtain k c m where fields: "x = (k, c, m)" by (cases x) auto
  show ?thesis
  proof (cases "c = None \<or> read_facility fm c = None \<or> (\<exists>d. c = Some d \<and> fm_cooking fm d)")
    case True
    then show ?thesis by (auto simp: list_file_def fields split: option.split)
  next
    case False
    then obtain d g where "c = Some d" "read_facility fm c = Some g" "\<not> fm_cooking fm d" by auto
    then show ?thesis by (simp add: list_file_def fields split: option.split) blast
  qed
qed

lemma listed_all:
  assumes new: "\<And>d g. \<not> fm_cooking fm d \<Longrightarrow> read_facility fm (Some d) = Some g \<Longrightarrow> P g"
    and "f \<in> set (okw_list_all fm st)"
  shows "P f"
proof -
  have "\<forall>x\<in>set acc. P (snd (snd x)) \<Longrightarrow> \<forall>x\<in>set (fold (list_file fm) files acc). P (snd (snd x))" for files acc
  proof (induction files arbitrary: acc)
    case (Cons x xs)
    have upd: "\<forall>y\<in>set (AList.update i v acc). P (snd (snd y))" if "P (snd v)" for i v
      using set_update_subset [of i v acc] Cons.prems that by fastforce
    have "\<forall>y\<in>set (list_file fm x acc). P (snd (snd y))"
      using list_file_cases [of fm x acc] Cons.prems
    proof (elim disjE exE conjE)
      fix d m g assume "\<not> fm_cooking fm d" "read_facility fm (Some d) = Some g" "list_file fm x acc = AList.update (fm_id fm g) (m, g) acc"
      then show ?thesis using upd [of "(m, g)" "fm_id fm g"] new by simp
    qed simp
    then show ?case using Cons.IH by simp
  qed simp
  from this [of "[]" "okw_files st"] assms(2) show ?thesis by (auto simp: okw_list_all_def)
qed

lemma stored_facility_wf:
  assumes "is_uuid fresh" and "f \<in> set (okw_list_all (facility_class fl md5 rnd fresh) st)"
  shows "facility_wf f"
  by (rule listed_all [OF _ assms(2)])
    (use facility_read(2) [OF _ assms(1)] in \<open>auto simp: read_facility_def facility_class_def split: bind_splits\<close>)

lemma published_reads_back:
  assumes "is_uuid fresh" and "(h, r) \<in> set (ix_signed (build_okw_catalog_index sha ed you published (facility_class fl md5 rnd fresh) theirs))"
  shows "facility_reads_back (facility_class fl md5 rnd fresh) (cr_facility_id (catalog_record r)) (signed_facility r)"
proof -
  let ?fm = "facility_class fl md5 rnd fresh"
  from index_entries(1) [OF assms(2)] obtain f where f: "f \<in> set (fst (okw_list ?fm theirs 1 10000))"
    "catalog_entry sha ed you published ?fm theirs f = Some r" by blast
  have "facility_wf f" by (rule stored_facility_wf [OF assms(1)]) (use f(1) in \<open>auto simp: okw_list_def Let_def dest: in_set_takeD\<close>)
  then have w: "facility_from_dict fresh (facility_to_dict fl f) = Some (facility_form f)" by (rule read_written_facility)
  define S where "S = set (allowed_keys (groups_for_audience (Some (get_disclosure theirs (mf_id f))) (audience_of (get_visibility theirs (mf_id f)))))"
  have p: "signed_facility r = proj S (facility_to_dict fl f)"
    using catalog_entry_facts(3,5) [OF f(2)]
    by (auto simp: S_def project_for_visibility_def Let_def project_facility_def facility_class_def is_shareable_def)
  obtain g where g: "facility_from_dict fresh (signed_facility r) = Some g" "mf_id g = mf_id f"
    using read_projected_facility [OF w, of S] unfolding p by (auto simp: S_def allowed_keys_def facility_form_def)
  have "cr_facility_id (catalog_record r) = mf_id g" using catalog_entry_facts(1) [OF f(2)] g(2) by (simp add: facility_class_def)
  then show ?thesis using class_reads_back [OF assms(1) g(1)] by simp
qed

section \<open>Properties\<close>


definition lab_id :: uuid where "lab_id = ''11111111-1111-4111-8111-111111111111''"

definition demo_lab :: doc where
  "demo_lab = [(''id'', JStr lab_id), (''name'', JStr ''Lab''), (''location'', JObj [(''city'', JStr ''Bern'')]),
     (''owner'', JObj [(''name'', JStr ''Ada''), (''contact'', JObj [(''mobile'', JStr ''555'')])]),
     (''equipment'', JList [JObj [(''equipment_type'', JStr ''mill''), (''axes'', JInt 5)]]),
     (''partners_funders'', JList [JObj [(''name'', JStr ''Fund'')]])]"

definition no_floats :: float_reader where "no_floats s = None"

lemma demo_read: "is_uuid lab_id" "facility_from_dict lab_id demo_lab \<noteq> None"
  "mf_processes (the (facility_from_dict lab_id demo_lab)) \<noteq> JNull"
  "mf_certifications (the (facility_from_dict lab_id demo_lab)) \<noteq> JNull"
  by code_simp+


lemma lost_entries:
  "map_of (facility_to_dict fl f) ''partners_funders'' = (if mf_partners f = [] then None else Some (JList (agent_list fl (mf_partners f))))"
  "map_of (facility_to_dict fl f) ''customer_reviews'' = (if truthy (mf_reviews f) then Some (mf_reviews f) else None)"
  by (simp_all add: facility_to_dict_def map_add_def agent_list_def)

lemma lost_record: "map_of (facility_to_dict fl f) ''record_data'' = map_option (\<lambda>r. JObj (record_data_json fl r)) (mf_record f)"
  by (cases "mf_record f") (simp_all add: facility_to_dict_def map_add_def)

lemma written_keys:
  "fst ` set (unless_none []) = {}" "fst ` set (when_true []) = {}"
  "fst ` set (unless_none ((k, v) # l)) = (if v = JNull then {} else {k}) \<union> fst ` set (unless_none l)"
  "fst ` set (when_true ((k, v) # l)) = (if truthy v then {k} else {}) \<union> fst ` set (when_true l)"
  "fst ` set (location_entry fl k p) \<subseteq> {k}" "fst ` set (list_entry k xs) \<subseteq> {k}"
  by (auto simp: unless_none_def when_true_def location_entry_def list_entry_def split: option.splits if_splits)

lemma equipment_key_members:
  "''equipment_type'' \<in> set equipment_keys"
  "''manufacturing_process'' \<in> set equipment_keys"
  "''make'' \<in> set equipment_keys"
  "''model'' \<in> set equipment_keys"
  "''serial_number'' \<in> set equipment_keys"
  "''location'' \<in> set equipment_keys"
  "''condition'' \<in> set equipment_keys"
  "''notes'' \<in> set equipment_keys"
  "''quantity'' \<in> set equipment_keys"
  "''throughput'' \<in> set equipment_keys"
  "''power_rating'' \<in> set equipment_keys"
  "''materials_worked'' \<in> set equipment_keys"
  "''maintenance_schedule'' \<in> set equipment_keys"
  by (simp_all add: equipment_keys_def)

lemma equipment_form_keys: "\<exists>d. equipment_json fl (equipment_form e) = JObj d \<and> set (keys d) \<subseteq> set equipment_keys"
proof -
  let ?e = "equipment_form e"
  have lost: "agent_entry fl k (eqp_owner ?e) = []" "eqp_usage ?e = JNull" "eqp_tolerance ?e = JNull" "eqp_firmware ?e = JNull"
    "eqp_ups ?e = JBool False" "eqp_axes ?e = JNull" "eqp_bed ?e = JNull" "eqp_volume ?e = JNull" "eqp_computer ?e = JBool False"
    "eqp_extraction ?e = JBool False" "eqp_laser ?e = JNull" "eqp_nozzle ?e = JNull" "eqp_surface ?e = JNull" "eqp_x ?e = JNull"
    "eqp_y ?e = JNull" "eqp_z ?e = JNull" for k
    by (simp_all add: equipment_form_def agent_entry_def)
  have entries: "fst ` set (location_entry fl ''location'' p) \<subseteq> set equipment_keys"
      "fst ` set (list_entry ''materials_worked'' xs) \<subseteq> set equipment_keys" for p xs
    using written_keys(5) [of fl "''location''" p] written_keys(6) [of "''materials_worked''" xs] equipment_key_members(6,12)
    by (auto simp del: written_keys)
  have "fst ` set (equipment_fields fl ?e) \<subseteq> set equipment_keys"
    unfolding equipment_fields_def set_append image_Un lost written_keys(1-4) list.set image_insert image_empty fst_conv
    by (intro Un_least entries) (simp_all add: equipment_key_members)
  moreover have "equipment_json fl ?e = JObj (equipment_fields fl ?e)" by (simp add: equipment_json_def, simp add: equipment_form_def)
  ultimately show ?thesis by (simp only: set_map) blast
qed

text \<open>
  C26: what a save loses. The partners and funders, the customer reviews and the record data of a
  facility are written but never read, and of a piece of equipment only thirteen fields come back:
  after one more load they are gone, and the next save writes a document without them.
\<close>

theorem facility_save_loses:
  assumes "facility_wf f" and "facility_from_dict fresh (facility_to_dict fl f) = Some g"
  shows "list_all (\<lambda>k. map_of (facility_to_dict fl g) k = None) [''partners_funders'', ''customer_reviews'', ''record_data''] \<and>
     length (mf_equipment g) = length (mf_equipment f) \<and>
     list_all (\<lambda>e. \<exists>d. equipment_json fl e = JObj d \<and> set (keys d) \<subseteq> set equipment_keys) (mf_equipment g)"
proof -
  have g: "g = facility_form f" using assms read_written_facility [OF assms(1), of fresh fl] by simp
  have "list_all (\<lambda>k. map_of (facility_to_dict fl g) k = None) [''partners_funders'', ''customer_reviews'', ''record_data'']"
    by (simp add: lost_entries lost_record g facility_form_def)
  then show ?thesis using equipment_form_keys by (auto simp: list_all_iff g facility_form_def)
qed

text \<open>A laboratory with a partner, a review and a mill with five axes.\<close>

definition rich_lab :: manufacturing_facility where
  "rich_lab = (the (facility_from_dict lab_id demo_lab))\<lparr>
     mf_partners := [plain_agent [(''name'', JStr ''Fund'')]], mf_reviews := JList [JStr ''good''],
     mf_equipment := map (\<lambda>e. e\<lparr>eqp_axes := JInt 5\<rparr>) (mf_equipment (the (facility_from_dict lab_id demo_lab)))\<rparr>"

theorem facility_save_loses_witness:
  "facility_wf rich_lab \<and> map_of (facility_to_dict no_floats rich_lab) ''partners_funders'' \<noteq> None \<and>
   (\<exists>g. facility_from_dict lab_id (facility_to_dict no_floats rich_lab) = Some g \<and>
      map_of (facility_to_dict no_floats g) ''partners_funders'' = None \<and>
      map (\<lambda>e. eqp_axes e) (mf_equipment rich_lab) = [JInt 5] \<and> map (\<lambda>e. eqp_axes e) (mf_equipment g) = [JNull])"
proof -
  have w: "facility_wf rich_lab" by code_simp
  have out: "map_of (facility_to_dict no_floats rich_lab) ''partners_funders'' \<noteq> None" by code_simp
  have rd: "facility_from_dict lab_id (facility_to_dict no_floats rich_lab) \<noteq> None" by code_simp
  then obtain g where g: "facility_from_dict lab_id (facility_to_dict no_floats rich_lab) = Some g" by blast
  have "map (\<lambda>e. eqp_axes e) (mf_equipment rich_lab) = [JInt 5]" by code_simp
  moreover have "map (\<lambda>e. eqp_axes e) (mf_equipment (the (facility_from_dict lab_id (facility_to_dict no_floats rich_lab)))) = [JNull]" by code_simp
  ultimately show ?thesis using w out g facility_save_loses [OF w g] by auto
qed


abbreviation demo_class :: "manufacturing_facility facility_model" where
  "demo_class \<equiv> facility_class no_floats (\<lambda>s. s) lab_id lab_id"

definition lab_node :: okw_store where
  "lab_node = save_visibility lab_id PUBLIC (put_file (okw_key lab_id) demo_lab 1 empty_okw)"

abbreviation demo_index :: "datetime \<Rightarrow> okw_catalog_index" where
  "demo_index t \<equiv> build_okw_catalog_index (\<lambda>s. s) toy_ed toy_key t demo_class lab_node"

lemma lab_node_facts:
  "fst (okw_list demo_class lab_node 1 10000) = [the (facility_from_dict lab_id demo_lab)]"
  "get_visibility lab_node (fm_id demo_class (the (facility_from_dict lab_id demo_lab))) = PUBLIC"
  "project_for_visibility demo_class lab_node (the (facility_from_dict lab_id demo_lab)) \<noteq> []"
  by code_simp+


text \<open>
  The owner of a facility goes out with every record of it. Whatever groups its disclosure profile
  lists, the published document carries the owner's full entry, telephone numbers and mail address
  included, though the group that holds the contact of the facility was not disclosed.
\<close>

theorem owner_always_published:
  "list_all (\<lambda>(h, r). \<exists>f\<in>set (fst (okw_list (facility_class fl md5 rnd fresh) st 1 10000)).
      mf_id f = cr_facility_id (catalog_record r) \<and>
      map_of (signed_facility r) ''owner'' = map_option (\<lambda>a. JObj (okw_agent_json fl a)) (mf_owner f) \<and>
      (OperationsGroup \<in> set (groups_for_audience (Some (get_disclosure st (mf_id f))) (audience_of (get_visibility st (mf_id f)))) \<or>
         map_of (signed_facility r) ''contact'' = None))
     (ix_signed (build_okw_catalog_index sha ed me now (facility_class fl md5 rnd fresh) st))"
proof -
  let ?fm = "facility_class fl md5 rnd fresh"
  have "\<exists>f\<in>set (fst (okw_list ?fm st 1 10000)). mf_id f = cr_facility_id (catalog_record r) \<and>
      map_of (signed_facility r) ''owner'' = map_option (\<lambda>a. JObj (okw_agent_json fl a)) (mf_owner f) \<and>
      (OperationsGroup \<in> set (groups_for_audience (Some (get_disclosure st (mf_id f))) (audience_of (get_visibility st (mf_id f)))) \<or>
         map_of (signed_facility r) ''contact'' = None)"
    if hr: "(h, r) \<in> set (ix_signed (build_okw_catalog_index sha ed me now ?fm st))" for h r
  proof -
    from index_entries(1) [OF hr] obtain f where f: "f \<in> set (fst (okw_list ?fm st 1 10000))" "catalog_entry sha ed me now ?fm st f = Some r" by blast
    define G where "G = groups_for_audience (Some (get_disclosure st (mf_id f))) (audience_of (get_visibility st (mf_id f)))"
    have p: "signed_facility r = proj (set (allowed_keys G)) (facility_to_dict fl f)"
      using catalog_entry_facts(3,5) [OF f(2)]
      by (auto simp: G_def project_for_visibility_def Let_def project_facility_def facility_class_def is_shareable_def)
    have "IdentityGroup \<in> set G" unfolding G_def by (rule identity_always)
    then have "''owner'' \<in> set (allowed_keys G)" by (force simp: allowed_keys_def)
    moreover have "''contact'' \<in> set (group_keys g) \<Longrightarrow> g = OperationsGroup" for g by (cases g) simp_all
    then have "OperationsGroup \<in> set G \<or> ''contact'' \<notin> set (allowed_keys G)" by (auto simp: allowed_keys_def)
    ultimately show ?thesis
      using f(1) catalog_entry_facts(1) [OF f(2)] unfolding p map_of_projected G_def [symmetric]
      by (intro bexI [of _ f]) (auto simp: facility_class_def facility_gets G_def)
  qed
  then show ?thesis by (auto simp: list_all_iff)
qed

end
