(* ===== verification/Domain_Extract.thy ===== *)
theory Domain_Extract imports Kitchen_Model Okh_Dict begin

text \<open>
  The extractors that normalise designs and facilities for matching: the frame
  (\<open>models/base/base_extractors.py\<close>), the cooking domain (\<open>domains/cooking/extractors.py\<close>) and the
  manufacturing domain (\<open>domains/manufacturing/okh_extractor.py\<close>). \<open>None\<close> is an exception.
\<close>

section \<open>The frame\<close>

datatype extraction_quality = Complete | Partial | Insufficient | RequiresReview

datatype extraction_flag =
  AmbiguousContent | PotentialStandardDeviation | MissingCriticalField | RequiresHumanVerification

text \<open>The time stamp and the source document, which nothing reads, are left out.\<close>

record extraction_metadata =
  em_quality :: extraction_quality
  em_flags :: "extraction_flag list"
  em_scores :: "(string \<times> rat) list"
  em_logs :: "string list"

definition new_metadata :: extraction_metadata where
  "new_metadata = \<lparr>em_quality = Insufficient, em_flags = [], em_scores = [], em_logs = []\<rparr>"

record normalized_data =
  nd_content :: doc
  nd_domain :: json

record extraction_result =
  er_data :: normalized_data
  er_metadata :: extraction_metadata

definition mark_as_reviewed :: "extraction_result \<Rightarrow> extraction_result" where
  "mark_as_reviewed r =
     (if RequiresHumanVerification \<in> set (em_flags (er_metadata r)) then r
      else r\<lparr>er_metadata := (er_metadata r)\<lparr>em_flags := em_flags (er_metadata r) @ [RequiresHumanVerification]\<rparr>\<rparr>)"

definition update_confidence :: "string \<Rightarrow> rat \<Rightarrow> extraction_result \<Rightarrow> extraction_result" where
  "update_confidence k s r =
     r\<lparr>er_metadata := (er_metadata r)\<lparr>em_scores := AList.update k (max 0 (min 1 s)) (em_scores (er_metadata r))\<rparr>\<rparr>"

definition low_fields :: "string list \<Rightarrow> (string \<times> rat) list \<Rightarrow> string list" where
  "low_fields critical scores = map fst (filter (\<lambda>(k, s). s < 7/10 \<and> k \<in> set critical) scores)"

definition assess_extraction_quality :: "string list \<Rightarrow> extraction_metadata \<Rightarrow> extraction_metadata" where
  "assess_extraction_quality critical m =
     (let low = low_fields critical (em_scores m)
      in if low = [] then m\<lparr>em_quality := Complete\<rparr>
         else if 2 * length low < length critical
           then m\<lparr>em_quality := Partial, em_flags := em_flags m @ [MissingCriticalField]\<rparr>
         else m\<lparr>em_quality := Insufficient, em_flags := em_flags m @ [RequiresHumanVerification]\<rparr>)"

text \<open>\<open>extract_requirements\<close> and \<open>extract_capabilities\<close>, which differ in their stages only.\<close>

definition extract_with :: "(doc \<Rightarrow> doc) list \<Rightarrow> (doc \<Rightarrow> normalized_data option) \<Rightarrow> string list \<Rightarrow> doc \<Rightarrow> extraction_result option" where
  "extract_with preprocessors stages critical content =
     map_option (\<lambda>n. \<lparr>er_data = n, er_metadata = assess_extraction_quality critical new_metadata\<rparr>)
       (stages (fold (\<lambda>p d. p d) preprocessors content))"

section \<open>The cooking domain\<close>

definition cooking_material :: "json \<Rightarrow> json list" where
  "cooking_material j =
     (case j of
        JObj d \<Rightarrow> (let n = py_or (py_or (jget d ''name'') (jget d ''material_type'')) (get_default d ''identifier'' (JStr []))
                  in if truthy n then [n] else [])
      | JStr s \<Rightarrow> [j]
      | _ \<Rightarrow> [])"

definition cooking_tool :: "json \<Rightarrow> json list" where
  "cooking_tool j =
     (case j of
        JStr s \<Rightarrow> if s = [] then [] else [j]
      | JObj d \<Rightarrow> (let n = py_or (py_or (jget d ''name'') (jget d ''tool'')) (get_default d ''identifier'' (JStr []))
                  in if truthy n then [n] else [])
      | _ \<Rightarrow> [])"

definition cooking_step :: "json \<Rightarrow> json list" where
  "cooking_step j =
     (case j of
        JObj d \<Rightarrow> (let title = get_default d ''title'' (JStr []); path = get_default d ''path'' (JStr [])
                  in if truthy title then [title] else if truthy path then [path] else [])
      | JStr s \<Rightarrow> [j]
      | _ \<Rightarrow> [])"

definition add_technique :: "json \<Rightarrow> json list \<Rightarrow> json list" where
  "add_technique p steps =
     (case p of JStr s \<Rightarrow> if s = [] \<or> p \<in> set steps then steps else steps @ [p] | _ \<Rightarrow> steps)"

definition list_field :: "doc \<Rightarrow> string \<Rightarrow> json list option" where
  "list_field d k = items_of (get_default d k (JList []))"

definition cooking_requirements :: "doc \<Rightarrow> normalized_data option" where
  "cooking_requirements d =
     map_option (\<lambda>c. \<lparr>nd_content = c, nd_domain = JStr ''cooking''\<rparr>)
       (if has_key d ''tool_list'' \<or> has_key d ''making_instructions'' then
          do { ms \<leftarrow> list_field d ''materials''; ts \<leftarrow> list_field d ''tool_list''; is \<leftarrow> list_field d ''making_instructions'';
               ps \<leftarrow> list_field d ''manufacturing_processes'';
               Some [(''ingredients'', JList (concat (map cooking_material ms))),
                 (''steps'', JList (fold add_technique ps (concat (map cooking_step is)))),
                 (''tools'', JList (concat (map cooking_tool ts))), (''time'', get_default d ''totalTime'' (JStr []))] }
        else Some [(''ingredients'', get_default d ''ingredients'' (JList [])), (''steps'', get_default d ''instructions'' (JList [])),
               (''tools'', get_default d ''equipment'' (JList [])), (''time'', get_default d ''totalTime'' (JStr []))])"

text \<open>\<open>v and v.strip()\<close> of a field: a value that is true but no text raises.\<close>

definition nonblank :: "json \<Rightarrow> json list option" where
  "nonblank j =
     (if \<not> truthy j then Some []
      else case j of JStr s \<Rightarrow> Some (if strip s = [] then [] else [j]) | _ \<Rightarrow> None)"

definition available_material :: "json \<Rightarrow> json list option" where
  "available_material j =
     (case j of
        JObj d \<Rightarrow> nonblank (get_default d ''material_type'' (JStr []))
      | JStr s \<Rightarrow> nonblank j
      | _ \<Rightarrow> Some [])"

text \<open>What one piece of equipment gives: tools and appliances.\<close>

definition available_equipment :: "json \<Rightarrow> (json list \<times> json list) option" where
  "available_equipment j =
     (case j of
        JObj d \<Rightarrow> do { ts \<leftarrow> nonblank (get_default d ''equipment_type'' (JStr []));
                       as \<leftarrow> nonblank (get_default d ''manufacturing_process'' (JStr [])); Some (ts, as) }
      | JStr s \<Rightarrow> map_option (\<lambda>ts. (ts, [])) (nonblank j)
      | _ \<Rightarrow> Some ([], []))"

definition process_texts :: "json list \<Rightarrow> json list" where
  "process_texts ps = filter (\<lambda>p. case p of JStr s \<Rightarrow> s \<noteq> [] | _ \<Rightarrow> False) ps"

definition cooking_capabilities :: "doc \<Rightarrow> normalized_data option" where
  "cooking_capabilities d =
     map_option (\<lambda>c. \<lparr>nd_content = c, nd_domain = JStr ''cooking''\<rparr>)
       (if has_key d ''typical_materials'' \<or> has_key d ''equipment'' then
          do { ms \<leftarrow> list_field d ''typical_materials''; gs \<leftarrow> map_opt available_material ms;
               es \<leftarrow> list_field d ''equipment''; tas \<leftarrow> map_opt available_equipment es;
               ps \<leftarrow> list_field d ''manufacturing_processes'';
               Some [(''available_ingredients'', JList (concat gs)), (''available_tools'', JList (concat (map fst tas))),
                 (''appliances'', JList (concat (map snd tas) @ process_texts ps))] }
        else Some [(''available_ingredients'', get_default d ''ingredients'' (JList [])),
               (''available_tools'', get_default d ''tools'' (JList [])), (''appliances'', get_default d ''appliances'' (JList []))])"

definition cooking_extract_requirements :: "(doc \<Rightarrow> doc) list \<Rightarrow> doc \<Rightarrow> extraction_result option" where
  "cooking_extract_requirements pre d = extract_with pre cooking_requirements [''ingredients'', ''steps''] d"

definition cooking_extract_capabilities :: "(doc \<Rightarrow> doc) list \<Rightarrow> doc \<Rightarrow> extraction_result option" where
  "cooking_extract_capabilities pre d = extract_with pre cooking_capabilities [''available_ingredients'', ''available_tools''] d"

end
