(* ===== verification/Okh_Extract.thy ===== *)
theory Okh_Extract imports Domain_Extract begin

text \<open>
  The manufacturing extractor (\<open>domains/manufacturing/okh_extractor.py\<close>): what a design requires and
  what a facility offers, in the form the matching layers take. Python's \<open>urlparse\<close> is modelled as far
  as the code uses it; \<open>host_ok\<close> tells which hosts with both brackets it accepts.
\<close>

section \<open>URLs\<close>

definition is_scheme_char :: "char \<Rightarrow> bool" where
  "is_scheme_char c \<longleftrightarrow>
     (let n = of_char c :: nat in (48 \<le> n \<and> n \<le> 57) \<or> (65 \<le> n \<and> n \<le> 90) \<or> (97 \<le> n \<and> n \<le> 122) \<or> n = 43 \<or> n = 45 \<or> n = 46)"

definition is_letter :: "char \<Rightarrow> bool" where
  "is_letter c \<longleftrightarrow> (let n = of_char c :: nat in (65 \<le> n \<and> n \<le> 90) \<or> (97 \<le> n \<and> n \<le> 122))"

text \<open>Leading control characters and blanks are cut, tabs and line breaks removed everywhere.\<close>

definition clean_url :: "string \<Rightarrow> string" where
  "clean_url s = filter (\<lambda>c. (of_char c :: nat) \<notin> {9, 10, 13}) (dropWhile (\<lambda>c. (of_char c :: nat) \<le> 32) s)"

definition url_scheme :: "string \<Rightarrow> string \<times> string" where
  "url_scheme s =
     (case split_once '':'' s of
        None \<Rightarrow> ([], s)
      | Some (a, b) \<Rightarrow> if a \<noteq> [] \<and> is_letter (hd a) \<and> list_all is_scheme_char a then (lower a, b) else ([], s))"

definition before :: "string \<Rightarrow> string \<Rightarrow> string" where
  "before seps s = takeWhile (\<lambda>c. c \<notin> set seps) s"

text \<open>Scheme, host and path; \<open>None\<close> is the \<open>ValueError\<close> for a bad host.\<close>

definition parse_url :: "(string \<Rightarrow> bool) \<Rightarrow> string \<Rightarrow> (string \<times> string \<times> string) option" where
  "parse_url host_ok u =
     (let (scheme, rest) = url_scheme (clean_url u);
          (host, tail) = (if starts_with ''//'' rest
                          then (before ''/?#'' (drop 2 rest), dropWhile (\<lambda>c. c \<notin> set ''/?#'') (drop 2 rest)) else ([], rest));
          opening = (CHR ''['' \<in> set host); closing = (CHR '']'' \<in> set host)
      in if opening \<noteq> closing \<or> opening \<and> closing \<and> \<not> host_ok host then None
         else Some (scheme, host, before ''?'' (before ''#'' tail)))"

text \<open>The parameters of the last segment, behind a semicolon, are no part of the path.\<close>

definition last_segment :: "string \<Rightarrow> string" where
  "last_segment s = last (split_char (CHR ''/'') s)"

definition article :: "string \<Rightarrow> string" where
  "article path = map (\<lambda>c. if c = CHR ''_'' then CHR '' '' else c) (last_segment path)"

definition drop_parameters :: "string \<Rightarrow> string" where
  "drop_parameters path =
     (if CHR '';'' \<in> set (last_segment path)
      then take (length path - length (last_segment path)) path @ before '';'' (last_segment path) else path)"

definition normalize_process :: "(string \<Rightarrow> bool) \<Rightarrow> json \<Rightarrow> json" where
  "normalize_process host_ok j =
     (case j of
        JStr s \<Rightarrow>
          (case parse_url host_ok s of
             Some (scheme, host, path) \<Rightarrow>
               if s \<noteq> [] \<and> (scheme = ''http'' \<or> scheme = ''https'') \<and> host \<noteq> []
               then JStr (article (rstrip_by (\<lambda>c. c = CHR ''/'') (drop_parameters path))) else j
           | None \<Rightarrow> j)
      | _ \<Rightarrow> j)"

section \<open>Facilities\<close>

text \<open>Values that \<open>dict.fromkeys\<close> takes for one key: a truth value is a number there.\<close>

definition dict_key :: "json \<Rightarrow> json option" where
  "dict_key j =
     (case j of JList xs \<Rightarrow> None | JObj d \<Rightarrow> None | JBool b \<Rightarrow> Some (JInt (if b then 1 else 0)) | _ \<Rightarrow> Some j)"

fun dedupe :: "json list \<Rightarrow> json list \<Rightarrow> json list option" where
  "dedupe seen [] = Some []"
| "dedupe seen (j # js) =
     do { k \<leftarrow> dict_key j;
          if k \<in> set seen then dedupe seen js else map_option (\<lambda>r. j # r) (dedupe (k # seen) js) }"

definition listed_or_one :: "json \<Rightarrow> json list" where
  "listed_or_one j = (if \<not> truthy j then [] else case j of JList xs \<Rightarrow> xs | _ \<Rightarrow> [j])"

definition equipment_processes :: "json \<Rightarrow> json list" where
  "equipment_processes j =
     (case j of
        JObj d \<Rightarrow> (let p = jget d ''manufacturing_process'' in if truthy p then [p] else []) @ listed_or_one (jget d ''manufacturing_processes'')
      | _ \<Rightarrow> [])"

definition capability_entry :: "json \<Rightarrow> json" where
  "capability_entry p = JObj [(''process_name'', p), (''parameters'', JObj []), (''validation_criteria'', JObj []),
     (''required_tools'', JList []), (''notes'', JStr [])]"

definition facility_processes :: "(string \<Rightarrow> bool) \<Rightarrow> doc \<Rightarrow> json list option" where
  "facility_processes host_ok d =
     do { es \<leftarrow> list_field d ''equipment'';
          dedupe [] (map (normalize_process host_ok) (listed_or_one (jget d ''manufacturing_processes'') @ concat (map equipment_processes es))) }"

definition domain_or_manufacturing :: "json \<Rightarrow> json" where
  "domain_or_manufacturing j = (if truthy j then j else JStr ''manufacturing'')"

definition okh_capabilities :: "(string \<Rightarrow> bool) \<Rightarrow> doc \<Rightarrow> normalized_data option" where
  "okh_capabilities host_ok d =
     map_option (\<lambda>ps. \<lparr>nd_content =
         [(''id'', get_default d ''id'' (JStr [])), (''name'', get_default d ''name'' (JStr [])), (''processes'', JList ps),
          (''capabilities'', JList (map capability_entry ps)), (''equipment'', get_default d ''equipment'' (JList [])),
          (''materials'', get_default d ''typical_materials'' (JList [])), (''access_type'', get_default d ''access_type'' (JStr [])),
          (''facility_status'', get_default d ''facility_status'' (JStr []))],
        nd_domain = domain_or_manufacturing (jget d ''domain'')\<rparr>) (facility_processes host_ok d)"

section \<open>Designs\<close>

definition requirement_entry :: "string \<Rightarrow> doc \<Rightarrow> okh_process \<Rightarrow> doc" where
  "requirement_entry source extra r =
     (case process_json r of JObj d \<Rightarrow> d | _ \<Rightarrow> []) @ [(''source'', JStr source)] @ extra"

definition part_entries :: "okh_part \<Rightarrow> doc list option" where
  "part_entries p =
     map_option (map (requirement_entry ''part'' [(''part_name'', py_or (pt_name p) (JStr []))])) (part_requirements p)"

definition requirement_entries :: "design_manifest \<Rightarrow> doc list option" where
  "requirement_entries m =
     do { ps \<leftarrow> map_opt part_entries (om_parts m);
          Some ((case om_specs m of None \<Rightarrow> [] | Some s \<Rightarrow> map (requirement_entry ''process_requirements'' []) (ms_requirements s)) @
                map (\<lambda>p. requirement_entry ''manufacturing_processes'' [] (plain_process p)) (om_processes m) @ concat ps) }"

definition okh_content :: "design_manifest \<Rightarrow> doc list \<Rightarrow> doc" where
  "okh_content m entries =
     [(''id'', JStr (om_id m)), (''name'', om_title m), (''version'', om_version m),
      (''processes'', JList (map (\<lambda>d. jget d ''process_name'') entries)), (''materials'', JList (map mt_id (om_materials m))),
      (''tools'', text_list (om_tool_list m)), (''process_requirements'', JList (map JObj entries)),
      (''tsdcs'', if truthy (om_tsdc m) then om_tsdc m else JList []), (''parts'', JList (map part_json (om_parts m)))] @
     (case om_specs m of None \<Rightarrow> [] | Some s \<Rightarrow> if truthy (ms_dimensions s) then [(''outer_dimensions'', ms_dimensions s)] else [])"

text \<open>A manifest that cannot be read counts as one without a title or anything else; \<open>fresh 0\<close> is its id.\<close>

definition no_content :: "uuid \<Rightarrow> doc" where
  "no_content i =
     [(''id'', JStr i), (''name'', JStr []), (''version'', JStr []), (''processes'', JList []), (''materials'', JList []),
      (''tools'', JList []), (''process_requirements'', JList []), (''tsdcs'', JList []), (''parts'', JList [])]"

definition okh_requirements_data :: "(string \<Rightarrow> string) \<Rightarrow> (nat \<Rightarrow> uuid) \<Rightarrow> doc \<Rightarrow> normalized_data option" where
  "okh_requirements_data md5 fresh d =
     (case manifest_from_dict md5 fresh d of
        None \<Rightarrow> Some \<lparr>nd_content = no_content (fresh 0), nd_domain = JStr ''manufacturing''\<rparr>
      | Some m \<Rightarrow>
          map_option (\<lambda>es. \<lparr>nd_content = okh_content m es, nd_domain = domain_or_manufacturing (om_domain m)\<rparr>) (requirement_entries m))"

definition okh_extract_requirements ::
  "(string \<Rightarrow> string) \<Rightarrow> (nat \<Rightarrow> uuid) \<Rightarrow> (doc \<Rightarrow> doc) list \<Rightarrow> doc \<Rightarrow> extraction_result option" where
  "okh_extract_requirements md5 fresh pre d =
     extract_with pre (okh_requirements_data md5 fresh) [''name'', ''processes'', ''materials'', ''tools'', ''tsdcs''] d"

definition okh_extract_capabilities :: "(string \<Rightarrow> bool) \<Rightarrow> (doc \<Rightarrow> doc) list \<Rightarrow> doc \<Rightarrow> extraction_result option" where
  "okh_extract_capabilities host_ok pre d = extract_with pre (okh_capabilities host_ok) [] d"

end
