(* ===== verification/Cooking_Match.thy ===== *)
theory Cooking_Match imports Domain_Extract Supply_Tree begin

text \<open>
  The matcher of the cooking domain (\<open>domains/cooking/matchers.py\<close>): how well a kitchen suits a recipe,
  and the match of generic requirements. Scores are rationals; \<open>None\<close> is an exception.
\<close>

section \<open>Requirements and capabilities\<close>

text \<open>A requirement is hashed by its type and name and compared field by field.\<close>

record base_requirement =
  br_name :: string
  br_type :: string
  br_parameters :: doc
  br_constraints :: doc
  br_required :: bool

record base_capability =
  bc_name :: string
  bc_type :: string
  bc_parameters :: doc
  bc_limitations :: doc

record match_outcome =
  mo_confidence :: rat
  mo_matched :: "(base_requirement \<times> base_capability) list"
  mo_missing :: "base_requirement list"

definition cooking_satisfies :: "base_requirement \<Rightarrow> base_capability \<Rightarrow> bool" where
  "cooking_satisfies r c \<longleftrightarrow> lower (br_name r) = lower (bc_name c)"

definition cooking_match_step ::
  "base_capability list \<Rightarrow> base_requirement \<Rightarrow>
   (base_requirement \<times> base_capability) list \<times> base_requirement list \<Rightarrow>
   (base_requirement \<times> base_capability) list \<times> base_requirement list" where
  "cooking_match_step caps r acc =
     (case find (cooking_satisfies r) caps of
        Some c \<Rightarrow> (AList.update r c (fst acc), snd acc)
      | None \<Rightarrow> (fst acc, snd acc @ [r]))"

definition cooking_match :: "base_requirement list \<Rightarrow> base_capability list \<Rightarrow> match_outcome" where
  "cooking_match reqs caps =
     (let (m, missing) = fold (cooking_match_step caps) reqs ([], [])
      in \<lparr>mo_confidence = (if 0 < length reqs then of_nat (length m) / of_nat (length reqs) else 0),
          mo_matched = m, mo_missing = missing\<rparr>)"

section \<open>Recipes and kitchens\<close>

definition fuzzy_match :: "string \<Rightarrow> string \<Rightarrow> bool" where
  "fuzzy_match a b \<longleftrightarrow> contains (lower (strip a)) (lower (strip b)) \<or> contains (lower (strip b)) (lower (strip a))"

definition fuzzy_split :: "json list \<Rightarrow> string list \<Rightarrow> string list \<times> string list" where
  "fuzzy_split items available =
     (filter (\<lambda>s. list_ex (fuzzy_match s) available) (map str_of items),
      filter (\<lambda>s. \<not> list_ex (fuzzy_match s) available) (map str_of items))"

definition share :: "string list \<Rightarrow> json list \<Rightarrow> rat" where
  "share found items = (if items = [] then 0 else of_nat (length found) / of_nat (length items))"

definition lower_texts :: "json list \<Rightarrow> string list" where
  "lower_texts js = map (\<lambda>j. lower (str_of j)) js"

text \<open>The tools and the appliances of a kitchen are one set in the code; a list of both has the same members.\<close>

definition cooking_confidence :: "json list \<Rightarrow> json list \<Rightarrow> json list \<Rightarrow> json list \<Rightarrow> json list \<Rightarrow> rat" where
  "cooking_confidence ingredients tools available_ingredients available_tools appliances =
     (let food = lower_texts available_ingredients; kit = lower_texts available_tools @ lower_texts appliances
      in if food = [] \<and> kit = [] then 1/2
         else share (fst (fuzzy_split ingredients food)) ingredients * (6/10) + share (fst (fuzzy_split tools kit)) tools * (4/10))"

text \<open>The arguments with which the tree is made; the score is rounded as every tree's is.\<close>

record cooking_tree =
  ck_facility :: string
  ck_recipe :: string
  ck_confidence :: rat
  ck_materials :: "json list"
  ck_capabilities :: "json list"
  ck_match_type :: string
  ck_metadata :: doc

definition count_json :: "'a list \<Rightarrow> json" where
  "count_json xs = JInt (int (length xs))"

definition texts_json :: "string list \<Rightarrow> json" where
  "texts_json ss = JList (map JStr ss)"

definition cooking_supply_tree :: "doc \<Rightarrow> doc \<Rightarrow> string \<Rightarrow> string \<Rightarrow> cooking_tree option" where
  "cooking_supply_tree req cap kitchen_name recipe_name =
     do { steps \<leftarrow> list_field req ''steps''; gs \<leftarrow> list_field req ''ingredients''; ts \<leftarrow> list_field req ''tools'';
          ag \<leftarrow> list_field cap ''available_ingredients''; tl \<leftarrow> list_field cap ''available_tools''; ap \<leftarrow> list_field cap ''appliances'';
          let food = fuzzy_split gs (lower_texts ag);
          let kit = fuzzy_split ts (lower_texts tl @ lower_texts ap);
          Some \<lparr>ck_facility = kitchen_name, ck_recipe = recipe_name, ck_confidence = round2 (cooking_confidence gs ts ag tl ap),
            ck_materials = gs, ck_capabilities = tl @ ap, ck_match_type = ''cooking'',
            ck_metadata = [(''domain'', JStr ''cooking''), (''step_count'', count_json steps), (''ingredient_count'', count_json gs),
              (''tool_count'', count_json ts), (''ingredient_overlap'', count_json (fst food)), (''tool_overlap'', count_json (fst kit)),
              (''matched_ingredients'', texts_json (fst food)), (''missing_ingredients'', texts_json (snd food)),
              (''matched_tools'', texts_json (fst kit)), (''missing_tools'', texts_json (snd kit)),
              (''generation_method'', JStr ''simplified_cooking_matcher'')]\<rparr> }"

text \<open>From a recipe's and a kitchen's document to the tree, as the service and the command line chain them.\<close>

definition match_recipe :: "doc \<Rightarrow> doc \<Rightarrow> string \<Rightarrow> string \<Rightarrow> cooking_tree option" where
  "match_recipe recipe_doc kitchen_doc kitchen_name recipe_name =
     do { r \<leftarrow> cooking_extract_requirements [] recipe_doc; k \<leftarrow> cooking_extract_capabilities [] kitchen_doc;
          cooking_supply_tree (nd_content (er_data r)) (nd_content (er_data k)) kitchen_name recipe_name }"

end
