(* ===== verification/Domain_Adjust.thy ===== *)
theory Domain_Adjust imports Direct_Matcher begin

text \<open>
  The direct matchers of the two domains (\<open>domains/cooking/direct_matcher.py\<close> and
  \<open>domains/manufacturing/direct_matcher.py\<close>): their keywords, the adjustment of a confidence, and the one
  of their matching methods that awaits its base class. A keyword counts wherever it occurs in a text.
\<close>

section \<open>Cooking\<close>

definition ingredient_keywords :: "string list" where
  "ingredient_keywords =
    [''flour'', ''sugar'', ''salt'', ''pepper'', ''butter'', ''oil'', ''garlic'', ''onion'', ''tomato'',
     ''cheese'', ''milk'', ''egg'', ''eggs'', ''chicken'', ''beef'', ''pork'', ''fish'', ''rice'', ''pasta'',
     ''bread'', ''herbs'', ''spices'', ''vegetables'', ''fruits'', ''nuts'', ''seeds'', ''cream'', ''yogurt'',
     ''honey'', ''vinegar'', ''soy sauce'', ''olive oil'', ''coconut oil'', ''sesame oil'', ''lemon'', ''lime'',
     ''ginger'', ''basil'', ''oregano'', ''thyme'', ''rosemary'', ''parsley'', ''cilantro'', ''mint'', ''chives'',
     ''dill'', ''sage'', ''bay leaves'']"

definition equipment_keywords :: "string list" where
  "equipment_keywords =
    [''knife'', ''cutting board'', ''pan'', ''pot'', ''skillet'', ''wok'', ''oven'', ''stove'', ''microwave'',
     ''blender'', ''food processor'', ''mixer'', ''whisk'', ''spatula'', ''tongs'', ''ladle'', ''spoon'',
     ''fork'', ''grater'', ''peeler'', ''measuring cup'', ''measuring spoon'', ''scale'', ''thermometer'',
     ''timer'', ''baking sheet'', ''muffin tin'', ''cake pan'', ''loaf pan'', ''casserole dish'', ''dutch oven'',
     ''slow cooker'', ''pressure cooker'', ''grill'', ''toaster'', ''coffee maker'', ''tea kettle'', ''colander'',
     ''strainer'', ''sieve'']"

definition technique_keywords :: "string list" where
  "technique_keywords =
    [''chop'', ''dice'', ''mince'', ''slice'', ''grate'', ''peel'', ''cut'', ''trim'', ''saute'', ''fry'',
     ''deep fry'', ''stir fry'', ''boil'', ''simmer'', ''steam'', ''bake'', ''roast'', ''grill'', ''broil'',
     ''braise'', ''stew'', ''poach'', ''blanch'', ''sear'', ''caramelize'', ''reduce'', ''thicken'', ''emulsify'',
     ''whisk'', ''beat'', ''fold'', ''knead'', ''mix'', ''stir'', ''combine'', ''marinate'', ''season'',
     ''taste'', ''adjust'', ''garnish'', ''plate'']"

definition measurement_units :: "string list" where
  "measurement_units =
    [''cup'', ''cups'', ''tablespoon'', ''tablespoons'', ''tbsp'', ''tsp'', ''teaspoon'', ''teaspoons'',
     ''ounce'', ''ounces'', ''oz'', ''pound'', ''pounds'', ''lb'', ''lbs'', ''gram'', ''grams'', ''g'',
     ''kilogram'', ''kilograms'', ''kg'', ''milliliter'', ''milliliters'', ''ml'', ''liter'', ''liters'', ''l'',
     ''pint'', ''pints'', ''pt'', ''quart'', ''quarts'', ''qt'', ''gallon'', ''gallons'', ''gal'', ''pinch'',
     ''dash'', ''handful'', ''bunch'', ''clove'', ''cloves'', ''slice'', ''slices'', ''piece'', ''pieces'',
     ''can'', ''cans'', ''bottle'', ''bottles'', ''package'', ''packages'']"

text \<open>\<open>any(keyword in text for keyword in keywords)\<close>.\<close>

definition mentions :: "string list \<Rightarrow> string \<Rightarrow> bool" where
  "mentions ks s \<longleftrightarrow> list_ex (\<lambda>k. contains k s) ks"

definition both_mention :: "string list \<Rightarrow> string \<Rightarrow> string \<Rightarrow> bool" where
  "both_mention ks r c \<longleftrightarrow> mentions ks r \<and> mentions ks c"

definition crossed :: "string list \<Rightarrow> string list \<Rightarrow> string \<Rightarrow> string \<Rightarrow> bool" where
  "crossed ks ls r c \<longleftrightarrow> mentions ks r \<and> mentions ls c \<or> mentions ls r \<and> mentions ks c"

definition boost :: "bool \<Rightarrow> rat \<Rightarrow> rat" where
  "boost b x = (if b then x else 0)"

definition cooking_adjustment :: "string \<Rightarrow> string \<Rightarrow> rat" where
  "cooking_adjustment req cap =
     (let r = lower req; c = lower cap;
          a = 1 + boost (both_mention ingredient_keywords r c) (5/100) + boost (both_mention equipment_keywords r c) (5/100) +
              boost (both_mention technique_keywords r c) (5/100) + boost (both_mention measurement_units r c) (3/100) -
              boost (crossed ingredient_keywords equipment_keywords r c) (1/10)
      in max 0 (min 1 a))"

section \<open>Manufacturing\<close>

definition mfg_material_keywords :: "string list" where
  "mfg_material_keywords =
    [''steel'', ''aluminum'', ''copper'', ''brass'', ''bronze'', ''iron'', ''titanium'', ''stainless'',
     ''carbon'', ''alloy'', ''plastic'', ''polymer'', ''ceramic'', ''composite'', ''wood'', ''glass'', ''rubber'',
     ''fiber'', ''fabric'', ''leather'', ''paper'', ''cardboard'', ''foam'', ''foil'', ''sheet'', ''plate'',
     ''rod'', ''tube'', ''wire'', ''cable'', ''thread'', ''yarn'', ''filament'', ''powder'', ''granule'',
     ''pellet'', ''chip'', ''flake'', ''resin'', ''adhesive'', ''coating'', ''paint'', ''varnish'', ''lacquer'',
     ''primer'', ''sealant'', ''lubricant'', ''coolant'']"

definition mfg_component_keywords :: "string list" where
  "mfg_component_keywords =
    [''bolt'', ''screw'', ''nut'', ''washer'', ''rivet'', ''pin'', ''clip'', ''bracket'', ''mount'', ''bracket'',
     ''hinge'', ''latch'', ''handle'', ''knob'', ''button'', ''switch'', ''connector'', ''plug'', ''socket'',
     ''jack'', ''port'', ''terminal'', ''contact'', ''spring'', ''bearing'', ''gear'', ''pulley'', ''belt'',
     ''chain'', ''shaft'', ''coupling'', ''joint'', ''flange'', ''gasket'', ''seal'', ''o-ring'', ''valve'',
     ''pump'', ''motor'', ''actuator'', ''sensor'', ''transducer'', ''relay'', ''fuse'', ''circuit'', ''board'',
     ''chip'', ''module'', ''assembly'', ''subassembly'']"

definition mfg_tool_keywords :: "string list" where
  "mfg_tool_keywords =
    [''drill'', ''mill'', ''lathe'', ''grinder'', ''sander'', ''polisher'', ''cutter'', ''saw'', ''shear'',
     ''press'', ''punch'', ''die'', ''mold'', ''fixture'', ''jig'', ''clamp'', ''vise'', ''chuck'', ''collet'',
     ''mandrel'', ''reamer'', ''tap'', ''die'', ''reamer'', ''counterbore'', ''countersink'', ''end mill'',
     ''face mill'', ''ball mill'', ''slot mill'', ''keyway cutter'', ''broach'', ''hob'', ''gear cutter'',
     ''thread mill'', ''chamfer mill'', ''corner rounder'', ''engraver'', ''router'', ''plasma cutter'',
     ''laser cutter'', ''water jet'', ''edm'', ''wire edm'']"

definition mfg_process_keywords :: "string list" where
  "mfg_process_keywords =
    [''machining'', ''turning'', ''milling'', ''drilling'', ''boring'', ''reaming'', ''tapping'', ''threading'',
     ''grinding'', ''honing'', ''lapping'', ''polishing'', ''buffing'', ''sanding'', ''cutting'', ''shearing'',
     ''punching'', ''stamping'', ''forming'', ''bending'', ''rolling'', ''drawing'', ''extruding'', ''forging'',
     ''casting'', ''molding'', ''injection'', ''compression'', ''transfer'', ''blow'', ''rotational'',
     ''thermoforming'', ''welding'', ''brazing'', ''soldering'', ''adhesive'', ''bonding'', ''assembly'',
     ''disassembly'', ''inspection'', ''testing'', ''quality'', ''control'', ''measurement'', ''calibration'',
     ''alignment'']"

definition mfg_specification_keywords :: "string list" where
  "mfg_specification_keywords =
    [''tolerance'', ''dimension'', ''specification'', ''standard'', ''grade'', ''class'', ''type'', ''size'',
     ''diameter'', ''length'', ''width'', ''height'', ''thickness'', ''radius'', ''angle'', ''surface'',
     ''finish'', ''roughness'', ''hardness'', ''strength'', ''tensile'', ''yield'', ''elastic'', ''modulus'',
     ''density'', ''conductivity'', ''thermal'', ''electrical'', ''magnetic'', ''corrosion'', ''resistance'',
     ''durability'', ''fatigue'', ''creep'', ''impact'', ''temperature'', ''pressure'', ''vacuum'', ''humidity'',
     ''environment'', ''atmosphere'', ''coating'', ''treatment'', ''annealing'', ''quenching'', ''tempering'',
     ''normalizing'']"

definition mfg_adjustment :: "string \<Rightarrow> string \<Rightarrow> rat" where
  "mfg_adjustment req cap =
     (let r = lower req; c = lower cap;
          a = 1 + boost (both_mention mfg_material_keywords r c) (5/100) + boost (both_mention mfg_component_keywords r c) (5/100) +
              boost (both_mention mfg_tool_keywords r c) (5/100) + boost (both_mention mfg_process_keywords r c) (5/100) +
              boost (both_mention mfg_specification_keywords r c) (3/100) - boost (crossed mfg_material_keywords mfg_tool_keywords r c) (1/10)
      in max 0 (min 1 a))"

text \<open>\<open>match_processes\<close>: every required process on its own against the processes available.\<close>

definition adjust_result :: "(string \<Rightarrow> string \<Rightarrow> rat) \<Rightarrow> matching_result \<Rightarrow> matching_result" where
  "adjust_result adjust r = r\<lparr>confidence := confidence r * adjust (requirement r) (capability r), reasons := reasons r @ [ProcessNote]\<rparr>"

definition match_processes :: "nat \<Rightarrow> string list \<Rightarrow> string option list option \<Rightarrow> matching_result list" where
  "match_processes threshold required available =
     concat (map (\<lambda>r. map (adjust_result mfg_adjustment) (fst (direct_match threshold (Some [Some r]) available))) required)"

end
