(* ===== verification/Domain_Facts.thy ===== *)
theory Domain_Facts imports Okw_Class Okh_Extract Cooking_Match Domain_Adjust begin

text \<open>
  Which of the files under one prefix are facilities and which are kitchens.
\<close>

section \<open>Kitchens among the files\<close>

lemma facility_domain: "facility_from_dict fresh d = Some f \<Longrightarrow> mf_domain f = jget d ''domain''"
  unfolding facility_from_dict_def by - (elim bind_someE, drule option.inject [THEN iffD1], hypsubst, simp)

lemma fixed_domain: "validate_and_fix_data md5 rnd d = Some e \<Longrightarrow> jget e ''domain'' = jget d ''domain''"
  by (auto simp: validate_and_fix_data_def jget_def update_conv' split: option.splits if_splits)

lemma not_cooking_domain: "\<not> is_cooking_capability d \<Longrightarrow> jget d ''domain'' \<noteq> JStr ''cooking''"
  by (cases "d = []") (auto simp: is_cooking_capability_def domain_first_def)

lemma listed_not_cooking:
  assumes "f \<in> set (okw_list_all (facility_class fl md5 rnd fresh) st)"
  shows "mf_domain f \<noteq> JStr ''cooking''"
proof (rule listed_all [OF _ assms])
  fix d g assume "\<not> fm_cooking (facility_class fl md5 rnd fresh) d" "read_facility (facility_class fl md5 rnd fresh) (Some d) = Some g"
  then obtain e where "\<not> is_cooking_capability d" "validate_and_fix_data md5 rnd d = Some e" "facility_from_dict fresh e = Some g"
    by (auto simp: read_facility_def facility_class_def split: bind_splits)
  then show "mf_domain g \<noteq> JStr ''cooking''" using not_cooking_domain facility_domain fixed_domain by metis
qed

text \<open>
  The facilities that \<open>list\<close> returns are never of the cooking domain, whatever is in the store, and
  a facility that is written out is taken for a kitchen's file exactly when its domain is cooking. So a
  caller that looks for kitchens in this list finds none.
\<close>

theorem list_has_no_kitchens:
  "list_all (\<lambda>f. mf_domain f \<noteq> JStr ''cooking'') (okw_list_all (facility_class fl md5 rnd fresh) st) \<and>
   is_cooking_capability (facility_to_dict fl f) = (mf_domain f = JStr ''cooking'')"
proof
  show "is_cooking_capability (facility_to_dict fl f) = (mf_domain f = JStr ''cooking'')"
  proof -
    have "facility_to_dict fl f \<noteq> []" by (simp add: facility_to_dict_def)
    then show ?thesis
      by (auto simp: is_cooking_capability_def domain_first_def is_kitchen_data_def has_key_def jget_def facility_gets)
  qed
qed (use listed_not_cooking in \<open>auto simp: list_all_iff\<close>)

end
