(* ===== verification/Cooking_Facts.thy ===== *)
theory Cooking_Facts imports Okh_Extract Cooking_Match Domain_Adjust begin

text \<open>
  What the domains promise of an extraction, of the score of a recipe in a kitchen, and of the
  adjustments of the direct matchers.
\<close>

section \<open>Extraction\<close>

lemma extract_with_complete: "extract_with pre f critical d = Some r \<Longrightarrow> er_metadata r = new_metadata\<lparr>em_quality := Complete\<rparr>"
  by (auto simp: extract_with_def assess_extraction_quality_def low_fields_def new_metadata_def)

definition warns :: "extraction_result option \<Rightarrow> bool" where
  "warns x = (case x of None \<Rightarrow> False | Some r \<Rightarrow> em_quality (er_metadata r) \<noteq> Complete \<or> em_flags (er_metadata r) \<noteq> [])"

lemma extract_with_silent: "\<not> warns (extract_with pre f critical d)"
  by (auto simp: warns_def new_metadata_def dest: extract_with_complete split: option.split)

text \<open>
  No extraction ever reports a problem. Whatever the document, the quality of the result is
  complete and no flag is set, in both domains and for requirements and capabilities; a design that
  cannot be read is extracted as complete with no name and no process.
\<close>

theorem extraction_never_warns:
  "\<not> warns (okh_extract_requirements md5 fresh pre d) \<and> \<not> warns (okh_extract_capabilities host_ok pre d) \<and>
   \<not> warns (cooking_extract_requirements pre d) \<and> \<not> warns (cooking_extract_capabilities pre d) \<and>
   (case manifest_from_dict md5 fresh d of
      Some m \<Rightarrow> True
    | None \<Rightarrow>
        (case okh_extract_requirements md5 fresh [] d of
           None \<Rightarrow> False
         | Some r \<Rightarrow> em_quality (er_metadata r) = Complete \<and> jget (nd_content (er_data r)) ''name'' = JStr [] \<and>
             jget (nd_content (er_data r)) ''processes'' = JList []))"
proof -
  have "\<not> warns (okh_extract_requirements md5 fresh pre d)" "\<not> warns (okh_extract_capabilities host_ok pre d)"
    "\<not> warns (cooking_extract_requirements pre d)" "\<not> warns (cooking_extract_capabilities pre d)"
    by (simp_all add: extract_with_silent okh_extract_requirements_def okh_extract_capabilities_def
        cooking_extract_requirements_def cooking_extract_capabilities_def)
  then show ?thesis
    by (simp add: okh_extract_requirements_def extract_with_def okh_requirements_data_def no_content_def jget_def
        assess_extraction_quality_def low_fields_def new_metadata_def split: option.split)
qed

section \<open>Processes of a facility\<close>

lemma dedupe_texts:
  assumes "list_all (\<lambda>j. \<exists>s. j = JStr s) js"
  shows "\<exists>r. dedupe seen js = Some r \<and> distinct r \<and> set r = set js - set seen"
  using assms
proof (induction js arbitrary: seen)
  case (Cons j js)
  then obtain s where j: "j = JStr s" by auto
  show ?case
  proof (cases "j \<in> set seen")
    case True
    with Cons j show ?thesis by (auto simp: dict_key_def)
  next
    case False
    from Cons.IH [of "j # seen"] Cons.prems obtain r where "dedupe (j # seen) js = Some r" "distinct r" "set r = set js - set (j # seen)" by auto
    with False j show ?thesis by (intro exI [of _ "j # r"]) (auto simp: dict_key_def)
  qed
qed simp

definition text_entries :: "doc \<Rightarrow> bool" where
  "text_entries d \<longleftrightarrow> list_all (\<lambda>j. \<exists>s. j = JStr s) (listed_or_one (jget d ''manufacturing_processes'') @
     concat (map equipment_processes (case list_field d ''equipment'' of None \<Rightarrow> [] | Some es \<Rightarrow> es)))"

lemma normalize_text: "\<exists>t. normalize_process host_ok (JStr s) = JStr t"
  by (auto simp: normalize_process_def split: option.split)

lemma normalize_texts: "list_all (\<lambda>j. \<exists>s. j = JStr s) js \<Longrightarrow> list_all (\<lambda>j. \<exists>s. j = JStr s) (map (normalize_process host_ok) js)"
  by (induction js) (auto simp: normalize_text)

lemma facility_processes_set:
  assumes "list_field d ''equipment'' = Some es" and "text_entries d"
  shows "\<exists>ps. facility_processes host_ok d = Some ps \<and> distinct ps \<and>
     set ps = normalize_process host_ok ` (set (listed_or_one (jget d ''manufacturing_processes'')) \<union> (\<Union>e\<in>set es. set (equipment_processes e)))"
proof -
  let ?js = "listed_or_one (jget d ''manufacturing_processes'') @ concat (map equipment_processes es)"
  have "list_all (\<lambda>j. \<exists>s. j = JStr s) ?js" using assms by (simp add: text_entries_def)
  then have "list_all (\<lambda>j. \<exists>s. j = JStr s) (map (normalize_process host_ok) ?js)"
    by (rule normalize_texts)
  from dedupe_texts [OF this, of "[]"] obtain ps where
    ps: "dedupe [] (map (normalize_process host_ok) ?js) = Some ps" "distinct ps" "set ps = set (map (normalize_process host_ok) ?js)" by auto
  have "facility_processes host_ok d = Some ps" using ps(1) by (simp add: facility_processes_def assms(1))
  moreover have "set ps = normalize_process host_ok ` (set (listed_or_one (jget d ''manufacturing_processes'')) \<union> (\<Union>e\<in>set es. set (equipment_processes e)))"
    unfolding ps(3) by (simp add: image_Un)
  ultimately show ?thesis using ps(2) by blast
qed

text \<open>The article behind a Wikipedia address.\<close>

definition plain_title :: "string \<Rightarrow> bool" where
  "plain_title t \<longleftrightarrow> t \<noteq> [] \<and> list_all (\<lambda>c. c \<notin> set ''/?#;:'' \<and> 32 < (of_char c :: nat)) t"

definition wiki_url :: "string \<Rightarrow> string" where
  "wiki_url t = ''https://en.wikipedia.org/wiki/'' @ t"

lemma split_char_none: "c \<notin> set s \<Longrightarrow> split_char c s = [s]"
  by (induction s) auto

lemma wiki_parse:
  assumes "plain_title t"
  shows "parse_url host_ok (wiki_url t) = Some (''https'', ''en.wikipedia.org'', ''/wiki/'' @ t)"
proof -
  have c: "c \<notin> set ''/?#;:'' \<and> 32 < (of_char c :: nat)" if "c \<in> set t" for c
    using assms that unfolding plain_title_def list_all_iff by blast
  have "n \<notin> {9, 10, 13}" if "32 < n" for n :: nat using that by auto
  with c have t: "\<forall>c\<in>set t. (of_char c :: nat) \<notin> {9, 10, 13}" by blast
  have b: "before ''#'' t = t" "before ''?'' t = t"
    unfolding before_def by (rule takeWhile_eq_all_conv [THEN iffD2], use c in force)+
  have f: "filter (\<lambda>c. (of_char c :: nat) \<notin> {9, 10, 13}) t = t"
    using t by (rule filter_True)
  have "clean_url (wiki_url t) = wiki_url t"
    using f by (simp add: clean_url_def wiki_url_def)
  moreover have "url_scheme (wiki_url t) = (''https'', ''//en.wikipedia.org/wiki/'' @ t)"
    by (simp add: url_scheme_def wiki_url_def starts_with_def is_letter_def is_scheme_char_def Let_def, simp add: lower_def lower_char_def)
  moreover have "before ''?'' (before ''#'' (''/wiki/'' @ t)) = ''/wiki/'' @ t"
  proof -
    have "before ''#'' (''/wiki/'' @ t) = ''/wiki/'' @ before ''#'' t" "before ''?'' (''/wiki/'' @ t) = ''/wiki/'' @ before ''?'' t"
      by (simp_all add: before_def)
    then show ?thesis by (simp only: b)
  qed
  ultimately show ?thesis
    by (simp add: parse_url_def Let_def starts_with_def before_def)
qed

text \<open>
  A process given as a Wikipedia address is taken for the title of the article, with blanks for
  underscores, and every other text without a colon for itself.
\<close>

theorem wiki_process_title:
  assumes "plain_title t" and "plain_title s"
  shows "normalize_process host_ok (JStr (wiki_url t)) = JStr (map (\<lambda>c. if c = CHR ''_'' then CHR '' '' else c) t) \<and>
     normalize_process host_ok (JStr s) = JStr s"
proof
  have t: "CHR ''/'' \<notin> set t" "CHR '';'' \<notin> set t" "t \<noteq> []" using assms(1) by (auto simp: plain_title_def list_all_iff)
  have "split_char (CHR ''/'') (''/wiki/'' @ t) = [[], ''wiki'', t]" using t(1) by (simp add: split_char_none)
  then have l: "last_segment (''/wiki/'' @ t) = t" by (simp add: last_segment_def)
  have "rstrip_by (\<lambda>c. c = CHR ''/'') (''/wiki/'' @ t) = ''/wiki/'' @ t"
  proof -
    obtain x xs where r: "rev t = x # xs" using t(3) by (cases "rev t") auto
    then have "x \<noteq> CHR ''/''" using t(1) by (metis list.set_intros(1) set_rev)
    with r show ?thesis by (simp add: rstrip_by_def)
  qed
  moreover have "drop_parameters (''/wiki/'' @ t) = ''/wiki/'' @ t" unfolding drop_parameters_def l using t(2) by simp
  ultimately have "article (rstrip_by (\<lambda>c. c = CHR ''/'') (drop_parameters (''/wiki/'' @ t))) = map (\<lambda>c. if c = CHR ''_'' then CHR '' '' else c) t"
    by (simp only: article_def l)
  then show "normalize_process host_ok (JStr (wiki_url t)) = JStr (map (\<lambda>c. if c = CHR ''_'' then CHR '' '' else c) t)"
    by (simp add: normalize_process_def wiki_parse [OF assms(1)]) (simp add: wiki_url_def)
  have "CHR '':'' \<notin> set (clean_url s)" using assms(2) by (auto simp: plain_title_def list_all_iff clean_url_def dest: set_dropWhileD)
  moreover have "split_once '':'' u = None" if "CHR '':'' \<notin> set u" for u using that by (induction u) (auto simp: starts_with_def)
  ultimately have "url_scheme (clean_url s) = ([], clean_url s)" by (simp add: url_scheme_def)
  then show "normalize_process host_ok (JStr s) = JStr s"
    by (simp add: normalize_process_def parse_url_def Let_def split: option.split prod.split)
qed

theorem wiki_process_title_witness:
  "normalize_process (\<lambda>h. False) (JStr (wiki_url ''Laser_cutting'')) = JStr ''Laser cutting'' \<and>
   normalize_process (\<lambda>h. False) (JStr ''CNC'') = JStr ''CNC''"
proof -
  have "plain_title ''Laser_cutting''" "plain_title ''CNC''" by code_simp+
  from wiki_process_title [OF this, of "\<lambda>h. False"] show ?thesis by simp
qed

section \<open>The score of a recipe\<close>

lemma share_bounds: "0 \<le> share (filter P (map f items)) items \<and> share (filter P (map f items)) items \<le> 1"
proof -
  have "length (filter P (map f items)) \<le> length items" by (metis length_filter_le length_map)
  then show ?thesis by (simp add: share_def divide_le_eq del: length_filter_le)
qed

lemma length_filter_all: "length (filter P xs) = length xs \<longleftrightarrow> (\<forall>x\<in>set xs. P x)"
  using length_filter_less [of _ xs P] by fastforce

lemma share_one: "share (filter P (map f items)) items = 1 \<longleftrightarrow> items \<noteq> [] \<and> (\<forall>x\<in>set items. P (f x))"
proof (cases "items = []")
  case False
  then have "share (filter P (map f items)) items = 1 \<longleftrightarrow> length (filter P (map f items)) = length (map f items)"
    by (auto simp: share_def)
  also have "\<dots> \<longleftrightarrow> (\<forall>x\<in>set items. P (f x))" unfolding length_filter_all by simp
  finally show ?thesis using False by simp
qed (simp add: share_def)

definition stocked :: "json list \<Rightarrow> json list \<Rightarrow> json list \<Rightarrow> bool" where
  "stocked food tools appliances \<longleftrightarrow> food \<noteq> [] \<or> tools \<noteq> [] \<or> appliances \<noteq> []"

lemma confidence_stocked:
  assumes "stocked ag kit ap"
  shows "cooking_confidence gs ts ag kit ap =
     share (filter (\<lambda>s. list_ex (fuzzy_match s) (lower_texts ag)) (map str_of gs)) gs * (6/10) +
     share (filter (\<lambda>s. list_ex (fuzzy_match s) (lower_texts kit @ lower_texts ap)) (map str_of ts)) ts * (4/10)"
  using assms by (auto simp: cooking_confidence_def stocked_def lower_texts_def fuzzy_split_def Let_def)

lemma confidence_unstocked: "cooking_confidence gs ts [] [] [] = 1/2"
  by (simp add: cooking_confidence_def lower_texts_def)

definition all_found :: "json list \<Rightarrow> string list \<Rightarrow> bool" where
  "all_found items available \<longleftrightarrow> items \<noteq> [] \<and> snd (fuzzy_split items available) = []"

text \<open>
  The score of a recipe in a kitchen lies between 0 and 1; it is 1 exactly when the kitchen lists
  something, the recipe lists ingredients and tools, and every one of them is found. So a recipe that
  names no tool scores at most 6/10, and a kitchen that lists nothing scores a half for every recipe.
\<close>

theorem cooking_score:
  "cooking_confidence gs ts ag kit ap \<in> {0..1} \<and>
   (cooking_confidence gs ts ag kit ap = 1) =
     (stocked ag kit ap \<and> all_found gs (lower_texts ag) \<and> all_found ts (lower_texts kit @ lower_texts ap)) \<and>
   cooking_confidence gs [] ag kit ap \<le> 6/10 \<and> cooking_confidence gs ts [] [] [] = 1/2"
proof (cases "stocked ag kit ap")
  case True
  note e = confidence_stocked [OF True]
  let ?a = "share (filter (\<lambda>s. list_ex (fuzzy_match s) (lower_texts ag)) (map str_of gs)) gs"
  let ?b = "share (filter (\<lambda>s. list_ex (fuzzy_match s) (lower_texts kit @ lower_texts ap)) (map str_of ts)) ts"
  have ab: "0 \<le> ?a" "?a \<le> 1" "0 \<le> ?b" "?b \<le> 1"
    using share_bounds [of "\<lambda>s. list_ex (fuzzy_match s) (lower_texts ag)" str_of gs]
      share_bounds [of "\<lambda>s. list_ex (fuzzy_match s) (lower_texts kit @ lower_texts ap)" str_of ts] by blast+
  have f: "all_found items av \<longleftrightarrow> share (filter (\<lambda>s. list_ex (fuzzy_match s) av) (map str_of items)) items = 1" for items av
    unfolding share_one by (auto simp: all_found_def fuzzy_split_def filter_empty_conv)
  have "?a * (6/10) + ?b * (4/10) = 1 \<longleftrightarrow> ?a = 1 \<and> ?b = 1" using ab by (auto simp: field_simps)
  then have "(cooking_confidence gs ts ag kit ap = 1) = (all_found gs (lower_texts ag) \<and> all_found ts (lower_texts kit @ lower_texts ap))"
    unfolding e f .
  moreover have "cooking_confidence gs ts ag kit ap \<in> {0..1}" unfolding e using ab by (simp add: field_simps)
  moreover have "cooking_confidence gs [] ag kit ap \<le> 6/10" unfolding e using ab(2) by (simp add: share_def field_simps)
  ultimately show ?thesis using True confidence_unstocked by blast
next
  case False
  then have "ag = []" "kit = []" "ap = []" by (simp_all add: stocked_def)
  then show ?thesis using False by (simp add: confidence_unstocked)
qed

text \<open>
  More stock never hurts a kitchen that lists something: adding ingredients, tools or appliances
  does not lower the score of any recipe. The first entry of a kitchen that lists nothing can, though:
  with a jar of salt its score for flour and a bowl falls from a half to nothing.
\<close>

theorem cooking_more_stock:
  assumes "stocked ag kit ap" and "set ag \<subseteq> set ag'" and "set kit \<subseteq> set kit'" and "set ap \<subseteq> set ap'"
  shows "cooking_confidence gs ts ag kit ap \<le> cooking_confidence gs ts ag' kit' ap'"
proof -
  have s: "stocked ag' kit' ap'" using assms by (auto simp: stocked_def)
  have mono: "share (filter P (map str_of items)) items \<le> share (filter Q (map str_of items)) items"
    if "\<And>x. P x \<Longrightarrow> Q x" for P Q items
  proof -
    have "length (filter P (map str_of items)) \<le> length (filter Q (map str_of items))"
      using that by (induction items) auto
    then show ?thesis by (simp add: share_def divide_right_mono del: length_filter_map)
  qed
  have "list_ex (fuzzy_match x) (lower_texts ag) \<Longrightarrow> list_ex (fuzzy_match x) (lower_texts ag')"
    "list_ex (fuzzy_match x) (lower_texts kit @ lower_texts ap) \<Longrightarrow> list_ex (fuzzy_match x) (lower_texts kit' @ lower_texts ap')" for x
  proof -
    have m: "list_ex P xs \<Longrightarrow> set xs \<subseteq> set ys \<Longrightarrow> list_ex P ys" for P :: "string \<Rightarrow> bool" and xs ys by (auto simp: list_ex_iff)
    have "set (lower_texts ag) \<subseteq> set (lower_texts ag')" "set (lower_texts kit @ lower_texts ap) \<subseteq> set (lower_texts kit' @ lower_texts ap')"
      using assms(2-4) by (auto simp: lower_texts_def)
    then show "list_ex (fuzzy_match x) (lower_texts ag) \<Longrightarrow> list_ex (fuzzy_match x) (lower_texts ag')"
      "list_ex (fuzzy_match x) (lower_texts kit @ lower_texts ap) \<Longrightarrow> list_ex (fuzzy_match x) (lower_texts kit' @ lower_texts ap')"
      using m by blast+
  qed
  then show ?thesis
    unfolding confidence_stocked [OF assms(1)] confidence_stocked [OF s] by (intro add_mono mult_right_mono mono) auto
qed

theorem cooking_more_stock_witness:
  "cooking_confidence [JStr ''flour''] [JStr ''bowl''] [JStr ''salt''] [] [] \<le>
     cooking_confidence [JStr ''flour''] [JStr ''bowl''] [JStr ''rice'', JStr ''salt''] [JStr ''Bowl''] [] \<and>
   cooking_confidence [JStr ''flour''] [JStr ''bowl''] [JStr ''salt''] [] [] = 0 \<and>
   cooking_confidence [JStr ''flour''] [JStr ''bowl''] [] [] [] = 1/2"
proof -
  have "cooking_confidence [JStr ''flour''] [JStr ''bowl''] [JStr ''salt''] [] [] = 0" by code_simp
  then show ?thesis
    using cooking_more_stock [of "[JStr ''salt'']" "[]" "[]" "[JStr ''rice'', JStr ''salt'']" "[JStr ''Bowl'']" "[]" "[JStr ''flour'']" "[JStr ''bowl'']"]
    by (simp add: stocked_def confidence_unstocked)
qed

section \<open>The adjustments\<close>

text \<open>
  What the adjustment of a domain can do. It never raises a confidence: it is 1 unless one text
  names a material (an ingredient) and the other a tool, and then at least 9/10; texts that differ in
  case only are never lowered. So each of the boosts can only soften that one penalty.
\<close>

theorem adjustments_only_lower:
  "mfg_adjustment r c \<in> {9/10..1} \<and> cooking_adjustment r c \<in> {9/10..1} \<and>
   (crossed mfg_material_keywords mfg_tool_keywords (lower r) (lower c) \<or> mfg_adjustment r c = 1) \<and>
   (crossed ingredient_keywords equipment_keywords (lower r) (lower c) \<or> cooking_adjustment r c = 1) \<and>
   mfg_adjustment r (lower r) = 1 \<and> cooking_adjustment r (lower r) = 1"
proof -
  have m: "mfg_adjustment r c \<in> {9/10..1}" "cooking_adjustment r c \<in> {9/10..1}"
    by (auto simp: mfg_adjustment_def cooking_adjustment_def boost_def Let_def)
  have n: "crossed mfg_material_keywords mfg_tool_keywords (lower r) (lower c) \<or> mfg_adjustment r c = 1"
    "crossed ingredient_keywords equipment_keywords (lower r) (lower c) \<or> cooking_adjustment r c = 1"
    by (auto simp: mfg_adjustment_def cooking_adjustment_def boost_def Let_def)
  have "mfg_adjustment r (lower r) = 1" "cooking_adjustment r (lower r) = 1"
    by (auto simp: mfg_adjustment_def cooking_adjustment_def boost_def Let_def both_mention_def crossed_def)
  with m n show ?thesis by blast
qed

end
