(* ===== verification/Okh_Match.thy ===== *)
theory Okh_Match imports Cooking_Match Okh_Extract begin

text \<open>
  The matcher of the manufacturing domain (\<open>domains/manufacturing/okh_matcher.py\<close>): which capability
  satisfies a requirement, which may stand in for it, and the confidence of the whole. \<open>fl\<close> reads the text
  of a float (\<open>None\<close> where Python raises); numbers are rationals; \<open>None\<close> is an exception.
\<close>

record okh_requirement =
  oq_base :: base_requirement
  oq_tools :: "string list"

text \<open>A loop that returns at the first success and ends at the first exception.\<close>

fun any_opt :: "('a \<Rightarrow> bool option) \<Rightarrow> 'a list \<Rightarrow> bool option" where
  "any_opt f [] = Some False"
| "any_opt f (x # xs) = (case f x of None \<Rightarrow> None | Some b \<Rightarrow> if b then Some True else any_opt f xs)"

fun or_else :: "bool option \<Rightarrow> bool option \<Rightarrow> bool option" where
  "or_else None b = None"
| "or_else (Some True) b = Some True"
| "or_else (Some False) b = b"

section \<open>Satisfaction\<close>

definition can_satisfy :: "okh_requirement \<Rightarrow> base_capability \<Rightarrow> bool option" where
  "can_satisfy r c =
     (if br_name (oq_base r) = bc_type c then Some True
      else case map_of (bc_parameters c) ''processes'' of None \<Rightarrow> Some False | Some j \<Rightarrow> code_in (br_name (oq_base r)) j)"

section \<open>Substitution\<close>

definition explicit_substitute :: "string \<Rightarrow> base_capability \<Rightarrow> bool" where
  "explicit_substitute name c =
     (case map_of (bc_parameters c) ''substitutes_for'' of
        Some (JList xs) \<Rightarrow> JStr name \<in> set xs
      | Some (JObj d) \<Rightarrow> map_of d name \<noteq> None
      | Some (JStr s) \<Rightarrow> name = s
      | _ \<Rightarrow> False)"

definition extract_materials :: "doc \<Rightarrow> json list" where
  "extract_materials parameters =
     (case map_of parameters ''materials'' of Some (JList xs) \<Rightarrow> xs | Some (JStr s) \<Rightarrow> [JStr s] | _ \<Rightarrow> [])"

definition material_compatibility :: "(string \<times> string list) list" where
  "material_compatibility =
     [(''steel'', [''stainless_steel'', ''carbon_steel'', ''alloy_steel'']),
      (''stainless_steel'', [''steel'', ''stainless_steel_304'', ''stainless_steel_316'']),
      (''carbon_steel'', [''steel'', ''mild_steel'']),
      (''aluminum'', [''aluminum_6061'', ''aluminum_7075'', ''aluminum_alloy'']),
      (''aluminum_6061'', [''aluminum'', ''aluminum_alloy'']),
      (''plastic'', [''abs'', ''pla'', ''petg'', ''nylon'']),
      (''abs'', [''plastic'', ''thermoplastic'']),
      (''pla'', [''plastic'', ''bioplastic''])]"

definition material_key :: "json \<Rightarrow> string option" where
  "material_key j = (case j of JStr s \<Rightarrow> Some (map (\<lambda>c. if c = CHR '' '' then CHR ''_'' else c) (lower s)) | _ \<Rightarrow> None)"

definition compatible_keys :: "string \<Rightarrow> string \<Rightarrow> bool" where
  "compatible_keys a b \<longleftrightarrow>
     (case map_of material_compatibility a of None \<Rightarrow> False | Some bs \<Rightarrow> b \<in> set bs)"

definition materials_match :: "string \<Rightarrow> string \<Rightarrow> bool" where
  "materials_match a b \<longleftrightarrow> a = b \<or> compatible_keys a b \<or> compatible_keys b a"

definition check_material_compatibility :: "okh_requirement \<Rightarrow> base_capability \<Rightarrow> bool option" where
  "check_material_compatibility r c =
     (let rs = extract_materials (br_parameters (oq_base r)); cs = extract_materials (bc_parameters c)
      in if cs = [] then Some False
         else any_opt (\<lambda>a. do { x \<leftarrow> material_key a; any_opt (\<lambda>b. map_option (materials_match x) (material_key b)) cs }) rs)"

definition process_groups :: "string list list" where
  "process_groups =
     [[''milling'', ''turning'', ''drilling'', ''cnc_machining'', ''machining''],
      [''cnc_milling'', ''manual_milling'', ''machining''],
      [''cnc_turning'', ''manual_turning'', ''lathe'', ''machining''],
      [''fdm'', ''sla'', ''sls'', ''additive_manufacturing'', ''3d_printing''],
      [''laser_cutting'', ''waterjet_cutting'', ''plasma_cutting'', ''cutting''],
      [''tig_welding'', ''mig_welding'', ''arc_welding'', ''welding'']]"

definition strip_suffix :: "string \<Rightarrow> string" where
  "strip_suffix name =
     (case find (\<lambda>w. ends_with w name) [''_capability'', ''_service'', ''_process''] of
        None \<Rightarrow> name
      | Some w \<Rightarrow> take (length name - length w) name)"

definition check_process_similarity :: "okh_requirement \<Rightarrow> base_capability \<Rightarrow> bool" where
  "check_process_similarity r c \<longleftrightarrow>
     (let p = lower (br_name (oq_base r)); q = lower (bc_name c); p' = strip_suffix p; q' = strip_suffix q
      in p \<noteq> [] \<and> q \<noteq> [] \<and>
         (list_ex (\<lambda>g. (p \<in> set g \<or> p' \<in> set g) \<and> (q \<in> set g \<or> q' \<in> set g)) process_groups \<or>
          contains p q \<or> contains q p \<or> (contains p' q' \<or> contains q' p') \<and> p' \<noteq> q'))"

definition capability_tools :: "doc \<Rightarrow> json" where
  "capability_tools parameters =
     (let j = (case map_of parameters ''tools'' of Some j \<Rightarrow> j
               | None \<Rightarrow> (case map_of parameters ''equipment'' of Some j \<Rightarrow> j | None \<Rightarrow> JList []))
      in case j of JStr s \<Rightarrow> JList [j] | _ \<Rightarrow> j)"

definition check_tool_compatibility :: "okh_requirement \<Rightarrow> base_capability \<Rightarrow> bool option" where
  "check_tool_compatibility r c =
     (let tools = oq_tools r; j = capability_tools (bc_parameters c)
      in if tools = [] \<or> \<not> truthy j then Some False
         else do { cs \<leftarrow> items_of j;
                   Some (list_ex (\<lambda>t. list_ex (\<lambda>k. contains (lower t) (lower (str_of k)) \<or> contains (lower (str_of k)) (lower t)) cs) tools) })"

text \<open>The first run of digits and dots, read as a decimal; \<open>None\<close> when there is none or it is no number.\<close>

definition is_decimal_char :: "char \<Rightarrow> bool" where
  "is_decimal_char c \<longleftrightarrow> c = CHR ''.'' \<or> is_digit c"

definition decimal_value :: "string \<Rightarrow> rat option" where
  "decimal_value s =
     (case split_char (CHR ''.'') s of
        [a] \<Rightarrow> if a = [] then None else Some (of_nat (int_of_digits a))
      | [a, b] \<Rightarrow> if a = [] \<and> b = [] then None else Some (of_nat (int_of_digits (a @ b)) / 10 ^ length b)
      | _ \<Rightarrow> None)"

definition parse_tolerance :: "json \<Rightarrow> rat option" where
  "parse_tolerance j = decimal_value (takeWhile is_decimal_char (dropWhile (\<lambda>c. \<not> is_decimal_char c) (str_of j)))"

definition tolerance_match :: "doc \<Rightarrow> doc \<Rightarrow> bool" where
  "tolerance_match req cap \<longleftrightarrow>
     (case (map_of req ''tolerance'', map_of cap ''tolerance'') of
        (Some a, Some b) \<Rightarrow>
          (case (parse_tolerance a, parse_tolerance b) of (Some x, Some y) \<Rightarrow> x \<noteq> 0 \<and> y \<noteq> 0 \<and> y \<le> x | _ \<Rightarrow> False)
      | _ \<Rightarrow> False)"

type_synonym number_reader = "string \<Rightarrow> rat option"

definition number_of :: "number_reader \<Rightarrow> json \<Rightarrow> rat option" where
  "number_of fl j =
     (case j of JInt i \<Rightarrow> Some (of_int i) | JBool b \<Rightarrow> Some (if b then 1 else 0) | JFloat s \<Rightarrow> fl s | JStr s \<Rightarrow> fl s | _ \<Rightarrow> None)"

text \<open>
  The loop over the dimensions: a value that is no number ends it with \<open>False\<close>, a largest value of
  zero raises a \<open>ZeroDivisionError\<close>, which is not caught.
\<close>

fun dimensions_loop :: "number_reader \<Rightarrow> doc \<Rightarrow> doc \<Rightarrow> string list \<Rightarrow> bool option" where
  "dimensions_loop fl rd cd [] = Some False"
| "dimensions_loop fl rd cd (k # ks) =
     (case (map_of rd k, map_of cd k) of
        (Some a, Some b) \<Rightarrow>
          (case (number_of fl a, number_of fl b) of
             (Some x, Some y) \<Rightarrow>
               if max x y = 0 then None
               else if \<bar>x - y\<bar> / max x y \<le> 1/10 then Some True else dimensions_loop fl rd cd ks
           | _ \<Rightarrow> Some False)
      | _ \<Rightarrow> dimensions_loop fl rd cd ks)"

definition dimensions_compatible :: "number_reader \<Rightarrow> json \<Rightarrow> json \<Rightarrow> bool option" where
  "dimensions_compatible fl a b =
     (case (a, b) of
        (JObj rd, JObj cd) \<Rightarrow> dimensions_loop fl rd cd [''width'', ''length'', ''height'', ''diameter'']
      | _ \<Rightarrow> Some False)"

definition check_specification_match :: "number_reader \<Rightarrow> okh_requirement \<Rightarrow> base_capability \<Rightarrow> bool option" where
  "check_specification_match fl r c =
     (let req = br_parameters (oq_base r); cap = bc_parameters c
      in if tolerance_match req cap then Some True
         else case (map_of req ''dimensions'', map_of cap ''dimensions'') of
           (Some a, Some b) \<Rightarrow> dimensions_compatible fl a b
         | _ \<Rightarrow> Some False)"

definition can_substitute :: "number_reader \<Rightarrow> okh_requirement \<Rightarrow> base_capability \<Rightarrow> bool option" where
  "can_substitute fl r c =
     (if explicit_substitute (br_name (oq_base r)) c then Some True
      else or_else (check_material_compatibility r c)
        (or_else (Some (check_process_similarity r c))
          (or_else (check_tool_compatibility r c) (check_specification_match fl r c))))"

section \<open>Substitutions\<close>

text \<open>The confidence is a number the code computes or the value the capability states.\<close>

record okh_substitution =
  su_original :: okh_requirement
  su_substitute :: base_capability
  su_confidence :: "rat + json"
  su_factors :: nat

definition boosted :: "rat \<Rightarrow> nat \<Rightarrow> rat" where
  "boosted c n =
     (if 3 \<le> n then min (95/100) (c + 15/100) else if 2 \<le> n then min (90/100) (c + 10/100)
      else if 1 \<le> n then min (85/100) (c + 5/100) else c)"

definition stated_confidence :: "string \<Rightarrow> base_capability \<Rightarrow> json option option" where
  "stated_confidence name c =
     (case map_of (bc_parameters c) ''substitutes_for'' of
        Some (JObj d) \<Rightarrow>
          (case map_of d name of
             None \<Rightarrow> Some None
           | Some v \<Rightarrow>
               do { b \<leftarrow> code_in ''confidence'' v;
                    if b then do { e \<leftarrow> (case v of JObj e \<Rightarrow> Some e | _ \<Rightarrow> None); map_option Some (map_of e ''confidence'') } else Some None })
      | _ \<Rightarrow> Some None)"

definition create_substitution :: "number_reader \<Rightarrow> okh_requirement \<Rightarrow> base_capability \<Rightarrow> okh_substitution option" where
  "create_substitution fl r c =
     do { m \<leftarrow> check_material_compatibility r c;
          t \<leftarrow> check_tool_compatibility r c;
          s \<leftarrow> check_specification_match fl r c;
          let n = length (filter id [m, check_process_similarity r c, t, s]);
          let base = (if map_of (bc_parameters c) ''substitutes_for'' \<noteq> None then 9/10 else 7/10);
          stated \<leftarrow> stated_confidence (br_name (oq_base r)) c;
          Some \<lparr>su_original = r, su_substitute = c,
            su_confidence = (case stated of None \<Rightarrow> Inl (boosted base n) | Some j \<Rightarrow> Inr j), su_factors = n\<rparr> }"

section \<open>Matching\<close>

text \<open>The capabilities for one requirement: the first that satisfies it, and the substitutes met before.\<close>

fun match_requirement ::
  "number_reader \<Rightarrow> okh_requirement \<Rightarrow> base_capability list \<Rightarrow> (base_capability option \<times> okh_substitution list) option" where
  "match_requirement fl r [] = Some (None, [])"
| "match_requirement fl r (c # cs) =
     do { sat \<leftarrow> can_satisfy r c;
          if sat then Some (Some c, [])
          else do { b \<leftarrow> can_substitute fl r c;
                    new \<leftarrow> (if b then map_option (\<lambda>s. [s]) (create_substitution fl r c) else Some []);
                    (found, subs) \<leftarrow> match_requirement fl r cs;
                    Some (found, new @ subs) } }"

record okh_outcome =
  oo_confidence :: rat
  oo_matched :: "(base_requirement \<times> base_capability) list"
  oo_missing :: "okh_requirement list"
  oo_substitutions :: "okh_substitution list"

definition overall_confidence :: "nat \<Rightarrow> okh_requirement list \<Rightarrow> nat \<Rightarrow> nat \<Rightarrow> rat" where
  "overall_confidence matched missing subs n =
     (if n = 0 then 0
      else let base = (of_nat matched + 7/10 * of_nat subs) / of_nat n
           in if list_ex (\<lambda>r. br_required (oq_base r)) missing then base * (1/2) else base)"

text \<open>The dict of matches is keyed by the compared fields, so equal requirements share one entry.\<close>

fun okh_match_loop ::
  "number_reader \<Rightarrow> base_capability list \<Rightarrow> okh_requirement list \<Rightarrow>
   ((base_requirement \<times> base_capability) list \<times> okh_requirement list \<times> okh_substitution list) \<Rightarrow>
   ((base_requirement \<times> base_capability) list \<times> okh_requirement list \<times> okh_substitution list) option" where
  "okh_match_loop fl caps [] acc = Some acc"
| "okh_match_loop fl caps (r # rs) (matched, missing, subs) =
     do { (found, new) \<leftarrow> match_requirement fl r caps;
          okh_match_loop fl caps rs
            (case found of
               Some c \<Rightarrow> (AList.update (oq_base r) c matched, missing, subs @ new)
             | None \<Rightarrow> (matched, missing @ [r], subs @ new)) }"

definition okh_match :: "number_reader \<Rightarrow> okh_requirement list \<Rightarrow> base_capability list \<Rightarrow> okh_outcome option" where
  "okh_match fl reqs caps =
     do { (matched, missing, subs) \<leftarrow> okh_match_loop fl caps reqs ([], [], []);
          Some \<lparr>oo_confidence = overall_confidence (length matched) missing (length subs) (length reqs),
            oo_matched = matched, oo_missing = missing, oo_substitutions = subs\<rparr> }"

definition find_capability :: "okh_requirement \<Rightarrow> base_capability list \<Rightarrow> base_capability option option" where
  "find_capability r caps = map_option (\<lambda>b. find (\<lambda>c. can_satisfy r c = Some True) caps) (any_opt (can_satisfy r) caps)"

end
