(* ===== verification/Okh_Match_Facts.thy ===== *)
theory Okh_Match_Facts imports Okh_Match begin

text \<open>What the matcher of the manufacturing domain promises of its matches and of its confidence.\<close>

section \<open>One requirement\<close>

definition stands_in :: "number_reader \<Rightarrow> okh_requirement \<Rightarrow> base_capability \<Rightarrow> bool" where
  "stands_in fl r c \<longleftrightarrow> can_satisfy r c = Some False \<and> can_substitute fl r c = Some True"

lemma create_substitution_ends:
  "create_substitution fl r c = Some s \<Longrightarrow> su_original s = r \<and> su_substitute s = c"
  by (auto simp: create_substitution_def Let_def elim!: bind_someE)

lemma match_requirement_sound:
  assumes "match_requirement fl r caps = Some (found, subs)"
  shows "(case found of Some c \<Rightarrow> c \<in> set caps \<and> can_satisfy r c = Some True
            | None \<Rightarrow> (\<forall>c\<in>set caps. can_satisfy r c = Some False)) \<and>
         (\<forall>s\<in>set subs. su_original s = r \<and> su_substitute s \<in> set caps \<and> stands_in fl r (su_substitute s))"
  using assms
proof (induction caps arbitrary: found subs)
  case (Cons c cs)
  from Cons.prems obtain sat where sat: "can_satisfy r c = Some sat" by (auto elim: bind_someE)
  show ?case
  proof (cases sat)
    case True
    with Cons.prems sat show ?thesis by auto
  next
    case False
    with Cons.prems sat obtain b new subs' where
      b: "can_substitute fl r c = Some b" and
      new: "(if b then map_option (\<lambda>s. [s]) (create_substitution fl r c) else Some []) = Some new" and
      rest: "match_requirement fl r cs = Some (found, subs')" and subs: "subs = new @ subs'"
      by (auto elim!: bind_someE)
    have "\<forall>s\<in>set new. su_original s = r \<and> su_substitute s = c \<and> stands_in fl r c"
      using new b sat False create_substitution_ends by (auto simp: stands_in_def split: if_splits)
    with Cons.IH [OF rest] subs sat False show ?thesis by (auto split: option.splits)
  qed
qed simp

section \<open>All requirements\<close>

lemma in_update: "(k, v) \<in> set (AList.update k' v' al) \<Longrightarrow> (k, v) \<in> set al \<or> k = k' \<and> v = v'"
  by (induction al) (auto split: if_splits)

lemma filed_keys: "fst ` set (AList.update k v al) = insert k (fst ` set al)"
  by (simp add: dom_map_of_conv_image_fst [symmetric] update_conv')

definition match_sound ::
  "number_reader \<Rightarrow> base_capability list \<Rightarrow> okh_requirement list \<Rightarrow>
   (base_requirement \<times> base_capability) list \<times> okh_requirement list \<times> okh_substitution list \<Rightarrow> bool" where
  "match_sound fl caps reqs acc = (case acc of (matched, missing, subs) \<Rightarrow>
     (\<forall>(q, c)\<in>set matched. c \<in> set caps \<and> (\<exists>r\<in>set reqs. oq_base r = q \<and> can_satisfy r c = Some True)) \<and>
     (\<forall>r\<in>set missing. r \<in> set reqs \<and> (\<forall>c\<in>set caps. can_satisfy r c = Some False)) \<and>
     (\<forall>r\<in>set reqs. oq_base r \<in> fst ` set matched \<or> r \<in> set missing) \<and>
     (\<forall>s\<in>set subs. su_original s \<in> set reqs \<and> su_substitute s \<in> set caps \<and> stands_in fl (su_original s) (su_substitute s)))"

lemma match_sound_step:
  assumes m: "match_requirement fl r caps = Some (found, new)" and s: "match_sound fl caps done_reqs (matched, missing, subs)"
  shows "match_sound fl caps (done_reqs @ [r])
    (case found of Some c \<Rightarrow> (AList.update (oq_base r) c matched, missing, subs @ new) | None \<Rightarrow> (matched, missing @ [r], subs @ new))"
proof (cases found)
  case None
  with s match_requirement_sound [OF m] show ?thesis unfolding match_sound_def by fastforce
next
  case (Some c)
  from match_requirement_sound [OF m] Some have c: "c \<in> set caps" "can_satisfy r c = Some True" by simp_all
  have "\<forall>(q, d)\<in>set (AList.update (oq_base r) c matched). d \<in> set caps \<and>
     (\<exists>r'\<in>set (done_reqs @ [r]). oq_base r' = q \<and> can_satisfy r' d = Some True)"
    using s c unfolding match_sound_def by (fastforce dest: in_update)
  with s match_requirement_sound [OF m] Some show ?thesis
    unfolding match_sound_def by (auto simp: filed_keys)
qed

lemma okh_match_loop_sound:
  assumes "okh_match_loop fl caps reqs acc = Some out" and "match_sound fl caps done_reqs acc"
  shows "match_sound fl caps (done_reqs @ reqs) out"
  using assms
proof (induction fl caps reqs acc arbitrary: done_reqs rule: okh_match_loop.induct)
  case (2 fl caps r rs matched missing subs)
  from "2.prems"(1) obtain found new where m: "match_requirement fl r caps = Some (found, new)" by (auto elim!: bind_someE)
  from "2.IH" [OF m refl _ match_sound_step [OF m "2.prems"(2)]] "2.prems"(1) m show ?case by simp
qed simp

text \<open>
  C28: when the manufacturing matcher answers, every reported match is a given capability that
  satisfies the requirement it is filed under, a requirement is reported missing only if no capability
  satisfies it, none is lost, and every substitution joins a requirement to a given capability that
  does not satisfy it but may stand in for it.
\<close>

theorem okh_match_sound:
  assumes "okh_match fl reqs caps = Some out"
  shows "match_sound fl caps reqs (oo_matched out, oo_missing out, oo_substitutions out)"
proof -
  from assms obtain matched missing subs where
    l: "okh_match_loop fl caps reqs ([], [], []) = Some (matched, missing, subs)" and
    o: "oo_matched out = matched" "oo_missing out = missing" "oo_substitutions out = subs"
    by (auto simp: okh_match_def elim!: bind_someE)
  have "match_sound fl caps [] ([], [], [])" by (simp add: match_sound_def)
  from okh_match_loop_sound [OF l this] o show ?thesis by simp
qed

definition milling_requirement :: okh_requirement where
  "milling_requirement = \<lparr>oq_base = \<lparr>br_name = ''milling'', br_type = ''process'', br_parameters = [], br_constraints = [], br_required = True\<rparr>, oq_tools = []\<rparr>"

definition named_shop :: "string \<Rightarrow> base_capability" where
  "named_shop name = \<lparr>bc_name = name, bc_type = ''service'', bc_parameters = [], bc_limitations = []\<rparr>"

text \<open>Three shops that turn: a requirement to mill is missing, and all three are its substitutes.\<close>

lemma turning_stands_in:
  "can_satisfy milling_requirement (named_shop ''turning'') = Some False"
  "can_substitute fl milling_requirement (named_shop ''turning'') = Some True"
  "create_substitution fl milling_requirement (named_shop ''turning'') =
     Some \<lparr>su_original = milling_requirement, su_substitute = named_shop ''turning'', su_confidence = Inl (75/100), su_factors = 1\<rparr>"
proof -
  have d: "lower ''milling'' = ''milling''" "lower ''turning'' = ''turning''" by (simp_all add: lower_def lower_char_def)
  have p: "check_process_similarity milling_requirement (named_shop ''turning'')"
    by (simp add: check_process_similarity_def milling_requirement_def named_shop_def d Let_def process_groups_def)
  have n: "check_material_compatibility milling_requirement (named_shop ''turning'') = Some False"
    "check_tool_compatibility milling_requirement (named_shop ''turning'') = Some False"
    "check_specification_match fl milling_requirement (named_shop ''turning'') = Some False"
    by (simp_all add: check_material_compatibility_def check_tool_compatibility_def check_specification_match_def
        tolerance_match_def extract_materials_def milling_requirement_def named_shop_def)
  show "can_satisfy milling_requirement (named_shop ''turning'') = Some False"
    by (simp add: can_satisfy_def milling_requirement_def named_shop_def)
  show "can_substitute fl milling_requirement (named_shop ''turning'') = Some True"
    unfolding can_substitute_def n by (simp add: p explicit_substitute_def)
  show "create_substitution fl milling_requirement (named_shop ''turning'') =
     Some \<lparr>su_original = milling_requirement, su_substitute = named_shop ''turning'', su_confidence = Inl (75/100), su_factors = 1\<rparr>"
    unfolding create_substitution_def n by (simp add: p Let_def) (simp add: stated_confidence_def boosted_def named_shop_def)
qed

theorem okh_match_sound_witness:
  "\<exists>out. okh_match (\<lambda>_. None) [milling_requirement] [named_shop ''turning''] = Some out \<and>
     match_sound (\<lambda>_. None) [named_shop ''turning''] [milling_requirement] (oo_matched out, oo_missing out, oo_substitutions out)"
proof -
  have "okh_match (\<lambda>_. None) [milling_requirement] [named_shop ''turning''] \<noteq> None"
    by (simp add: okh_match_def turning_stands_in)
  then obtain out where "okh_match (\<lambda>_. None) [milling_requirement] [named_shop ''turning''] = Some out" by blast
  with okh_match_sound [OF this] show ?thesis by blast
qed

section \<open>Confidence\<close>

definition substitutes_only :: "number_reader \<Rightarrow> okh_requirement \<Rightarrow> base_capability list \<Rightarrow> bool" where
  "substitutes_only fl r caps \<longleftrightarrow>
     list_all (\<lambda>c. can_satisfy r c = Some False \<and> can_substitute fl r c = Some True \<and> create_substitution fl r c \<noteq> None) caps"

lemma match_requirement_substitutes:
  "substitutes_only fl r caps \<Longrightarrow> \<exists>subs. match_requirement fl r caps = Some (None, subs) \<and> length subs = length caps"
  unfolding substitutes_only_def
proof (induction caps)
  case (Cons c cs)
  then obtain subs s where "match_requirement fl r cs = Some (None, subs)" "length subs = length cs" "create_substitution fl r c = Some s" by auto
  with Cons.prems show ?case by simp
qed simp

text \<open>
  The confidence counts substitutes, not requirements. A required requirement that nothing
  satisfies is reported missing, and each capability that may stand in for it adds 7/20 to the
  confidence, which passes 1 from the third on.
\<close>

theorem okh_match_overconfident:
  assumes "substitutes_only fl r caps" and "br_required (oq_base r)"
  shows "\<exists>out. okh_match fl [r] caps = Some out \<and> oo_missing out = [r] \<and> oo_matched out = [] \<and>
     oo_confidence out = 7/20 * of_nat (length caps) \<and> (1 < oo_confidence out) = (3 \<le> length caps)"
proof -
  obtain subs where m: "match_requirement fl r caps = Some (None, subs)" "length subs = length caps"
    using match_requirement_substitutes [OF assms(1)] by blast
  have n: "(20 < 7 * rat_of_nat k) = (3 \<le> k)" for k
  proof -
    have "(20 < 7 * rat_of_nat k) = (rat_of_nat 20 < rat_of_nat (7 * k))" by simp
    also have "\<dots> = (3 \<le> k)" unfolding of_nat_less_iff by linarith
    finally show ?thesis .
  qed
  show ?thesis by (simp add: okh_match_def m overall_confidence_def assms(2) n)
qed

theorem okh_match_overconfident_witness:
  "\<exists>out. okh_match (\<lambda>_. None) [milling_requirement] (replicate 3 (named_shop ''turning'')) = Some out \<and> oo_missing out = [milling_requirement] \<and>
     1 < oo_confidence out"
proof -
  have "substitutes_only (\<lambda>_. None) milling_requirement (replicate 3 (named_shop ''turning''))"
    by (simp add: substitutes_only_def turning_stands_in list_all_iff)
  from okh_match_overconfident [OF this] show ?thesis by (auto simp: milling_requirement_def)
qed

end
