(* ===== verification/Model_Validator.thy ===== *)
theory Model_Validator imports Okh_Dict Okw_Parse begin

text \<open>
  The validation of whole documents (\<open>validation/model_validator.py\<close>, \<open>utils/domain_detection.py\<close>) and
  the answers the design and facility services make of it. A message is a constructor with what the
  code puts into its text; scores are rationals. \<open>ex\<close> tells which paths exist, \<open>md5\<close>, \<open>fresh\<close> and \<open>fl\<close>
  are as in the readers.
\<close>

datatype validation_message =
    ParseFailed
  | ValidateFailed manifest_error
  | FieldMissing string
  | FieldRequired string string json
  | StrictRequired string
  | Unexpected_Error
  | NoLicenseGiven
  | FieldRecommended string string json
  | MetadataNote string string
  | ConsiderAdding string

record validation_report =
  vr_valid :: bool
  vr_errors :: "validation_message list"
  vr_warnings :: "validation_message list"
  vr_suggestions :: "validation_message list"
  vr_completeness :: "rat option"
  vr_presence :: "(string \<times> bool) list"
  vr_coverage :: "(rat \<times> rat) option"
  vr_counts :: "(nat \<times> nat \<times> nat) option"

definition empty_report :: validation_report where
  "empty_report = \<lparr>vr_valid = True, vr_errors = [], vr_warnings = [], vr_suggestions = [], vr_completeness = None,
     vr_presence = [], vr_coverage = None, vr_counts = None\<rparr>"

definition add_errors :: "validation_message list \<Rightarrow> validation_report \<Rightarrow> validation_report" where
  "add_errors es r = r\<lparr>vr_errors := vr_errors r @ es, vr_valid := vr_valid r \<and> es = []\<rparr>"

definition add_warnings :: "validation_message list \<Rightarrow> validation_report \<Rightarrow> validation_report" where
  "add_warnings ws r = r\<lparr>vr_warnings := vr_warnings r @ ws\<rparr>"

definition add_suggestions :: "validation_message list \<Rightarrow> validation_report \<Rightarrow> validation_report" where
  "add_suggestions ss r = r\<lparr>vr_suggestions := vr_suggestions r @ ss\<rparr>"

text \<open>The score of the external form.\<close>

definition report_score :: "validation_report \<Rightarrow> rat" where
  "report_score r =
     (if vr_errors r \<noteq> [] then max 0 (1 - of_nat (length (vr_errors r)) * (1/5))
      else if vr_warnings r \<noteq> [] then max (1/2) (1 - of_nat (length (vr_warnings r)) * (1/10)) else 1)"

section \<open>The domain of a document\<close>

definition cooking_content_keywords :: "string list" where
  "cooking_content_keywords = [''recipe'', ''cooking'', ''baking'', ''ingredient'', ''food'', ''meal'', ''kitchen'', ''oven'', ''stove'']"

text \<open>The explicit domain is returned as text; \<open>dflt\<close> is the last resort.\<close>

definition detect_domain :: "doc \<Rightarrow> string \<Rightarrow> string" where
  "detect_domain d dflt =
     (let has = (\<lambda>k. map_of d k \<noteq> None)
      in if truthy (jget d ''domain'') then str_of (jget d ''domain'')
         else if has ''title'' \<and> has ''version'' \<and> (has ''manufacturing_specs'' \<or> has ''manufacturing_processes'') then ''manufacturing''
         else if has ''name'' \<and> has ''ingredients'' \<and> has ''instructions'' then ''cooking''
         else
           let content = lower (join '' '' (map (\<lambda>k. str_of (get_default d k (JStr []))) [''function'', ''description'', ''title'', ''name'']))
           in if list_ex (\<lambda>w. contains w content) cooking_content_keywords then ''cooking'' else dflt)"

section \<open>The levels of a manifest\<close>

definition okh_base_fields :: "string list" where
  "okh_base_fields = [''title'', ''version'', ''license'', ''licensor'', ''documentation_language'', ''function'']"

definition cooking_level :: "string \<Rightarrow> string" where
  "cooking_level q =
     (if q = ''home'' then ''hobby'' else if q = ''commercial'' \<or> q = ''professional'' then ''professional'' else ''hobby'')"

definition mapped_level :: "json \<Rightarrow> string \<Rightarrow> string" where
  "mapped_level dmn q = (if dmn = JStr ''cooking'' then cooking_level q else q)"

definition okh_level_required :: "json \<Rightarrow> string \<Rightarrow> string list" where
  "okh_level_required dmn level =
     okh_base_fields @
     (if level = ''hobby'' then []
      else if level = ''medical'' then [''manufacturing_processes'', ''manufacturing_specs'', ''standards_used'']
      else if dmn = JStr ''manufacturing'' then [''manufacturing_processes''] else [''tool_list''])"

definition okh_level_recommended :: "json \<Rightarrow> string \<Rightarrow> string list" where
  "okh_level_recommended dmn level =
     (if level = ''hobby'' then
        (if dmn = JStr ''manufacturing'' then [''description'', ''manufacturing_processes''] else [''description'', ''tool_list''])
      else if level = ''medical'' then [''description'', ''materials'', ''parts'', ''attestation'', ''health_safety_notice'']
      else if dmn = JStr ''manufacturing'' then [''description'', ''manufacturing_specs'', ''materials'', ''parts'']
      else [''description'', ''materials'', ''making_instructions''])"

definition field_empty :: "doc \<Rightarrow> string \<Rightarrow> bool" where
  "field_empty d k \<longleftrightarrow> jget d k \<in> {JNull, JList [], JStr []}"

definition field_absent :: "doc \<Rightarrow> string \<Rightarrow> bool" where
  "field_absent d k \<longleftrightarrow> jget d k = JNull"

definition strict_errors :: "bool \<Rightarrow> doc \<Rightarrow> string list \<Rightarrow> validation_message list" where
  "strict_errors strict d ks = (if strict then map StrictRequired (filter (field_absent d) ks) else [])"

definition cooking_license_warnings :: "json \<Rightarrow> doc \<Rightarrow> validation_message list" where
  "cooking_license_warnings dmn d =
     (if dmn \<noteq> JStr ''cooking'' then []
      else case get_default d ''license'' (JObj []) of
        JObj l \<Rightarrow> if list_ex (\<lambda>k. truthy (jget l k)) [''hardware'', ''documentation'', ''software''] then [] else [NoLicenseGiven]
      | j \<Rightarrow> if truthy j then [] else [NoLicenseGiven])"

definition validate_okh_quality_level :: "doc \<Rightarrow> string \<Rightarrow> bool \<Rightarrow> json \<Rightarrow> validation_report \<Rightarrow> validation_report" where
  "validate_okh_quality_level d q strict dmn r =
     (let level = mapped_level dmn q;
          required = filter (\<lambda>k. \<not> (dmn = JStr ''cooking'' \<and> k = ''license'')) (okh_level_required dmn level);
          recommended = okh_level_recommended dmn level
      in add_errors (strict_errors strict d recommended)
           (add_warnings (map (\<lambda>k. FieldRecommended k q dmn) (filter (field_absent d) recommended))
              (add_errors (map (\<lambda>k. FieldRequired k q dmn) (filter (field_empty d) required))
                 (add_warnings (cooking_license_warnings dmn d) r))))"

section \<open>Scores of a manifest\<close>

definition okh_expected_fields :: "json \<Rightarrow> string \<Rightarrow> string list" where
  "okh_expected_fields dmn level =
     okh_base_fields @ [''description''] @
     (if level = ''hobby'' then []
      else if dmn = JStr ''cooking'' then
        (if level = ''medical'' then [''tool_list'', ''materials'', ''standards_used'', ''attestation''] else [''tool_list'', ''materials''])
      else if level = ''medical'' then [''manufacturing_processes'', ''manufacturing_specs'', ''standards_used'', ''attestation'']
      else [''manufacturing_processes'', ''manufacturing_specs''])"

definition share_of :: "('a \<Rightarrow> bool) \<Rightarrow> 'a list \<Rightarrow> rat" where
  "share_of P ks = (if ks = [] then 1 else of_nat (length (filter P ks)) / of_nat (length ks))"

definition okh_completeness :: "doc \<Rightarrow> string \<Rightarrow> json \<Rightarrow> rat" where
  "okh_completeness d q dmn = share_of (\<lambda>k. \<not> field_absent d k) (okh_expected_fields dmn (mapped_level dmn q))"

definition okh_optional_fields :: "string list" where
  "okh_optional_fields =
     [''description'', ''intended_use'', ''keywords'', ''project_link'', ''health_safety_notice'', ''contact'', ''contributors'',
      ''organization'', ''image'', ''version_date'', ''readme'', ''contribution_guide'', ''development_stage'', ''attestation'',
      ''technology_readiness_level'', ''documentation_readiness_level'', ''manufacturing_files'', ''documentation_home'',
      ''archive_download'', ''design_files'', ''making_instructions'', ''operating_instructions'', ''technical_specifications'',
      ''publications'', ''tool_list'', ''manufacturing_processes'', ''materials'', ''manufacturing_specs'', ''bom'',
      ''standards_used'', ''cpc_patent_class'', ''tsdc'', ''parts'', ''components'', ''derivative_of'', ''variant_of'', ''sub_parts'']"

definition field_is_present :: "json \<Rightarrow> bool" where
  "field_is_present j =
     (case j of JNull \<Rightarrow> False | JList xs \<Rightarrow> xs \<noteq> [] | JObj e \<Rightarrow> e \<noteq> [] | JStr s \<Rightarrow> strip s \<noteq> [] | _ \<Rightarrow> True)"

definition okh_field_presence :: "doc \<Rightarrow> (string \<times> bool) list" where
  "okh_field_presence d = map (\<lambda>k. (k, field_is_present (jget d k))) (okh_base_fields @ okh_optional_fields)"

definition okh_coverage :: "doc \<Rightarrow> rat \<times> rat" where
  "okh_coverage d = (share_of (\<lambda>k. field_is_present (jget d k)) okh_base_fields, share_of (\<lambda>k. field_is_present (jget d k)) okh_optional_fields)"

definition okh_suggestions :: "doc \<Rightarrow> string \<Rightarrow> json \<Rightarrow> validation_message list" where
  "okh_suggestions d q dmn =
     map ConsiderAdding (filter (\<lambda>k. \<not> truthy (jget d k))
       (''description'' #
        (if dmn = JStr ''cooking'' then [''tool_list'', ''materials'', ''making_instructions'']
         else ''manufacturing_processes'' #
           (if q \<in> {''professional'', ''medical''} then [''manufacturing_specs''] else []) @
           (if q = ''medical'' then [''standards_used''] else []))))"

section \<open>Metadata\<close>

text \<open>
  \<open>k in value\<close> followed by \<open>value[k]\<close>: \<open>None\<close> for the \<open>TypeError\<close> of either, \<open>Some None\<close> when the key is
  not there. A check yields its warnings and whether the checks go on.
\<close>

definition item_at :: "string \<Rightarrow> json \<Rightarrow> json option option" where
  "item_at k j =
     do { b \<leftarrow> code_in k j;
          if \<not> b then Some None else (case j of JObj d \<Rightarrow> map_option Some (map_of d k) | _ \<Rightarrow> None) }"

type_synonym noted = "validation_message list \<times> bool"

definition and_next :: "noted \<Rightarrow> noted \<Rightarrow> noted" where
  "and_next a b = (if snd a then (fst a @ fst b, snd b) else a)"

definition quiet :: noted where "quiet = ([], True)"

definition metadata_note :: "string \<Rightarrow> string \<Rightarrow> noted" where
  "metadata_note code about = ([MetadataNote code about], True)"

definition atoms_check :: "string \<Rightarrow> (json \<Rightarrow> nat option) \<Rightarrow> nat \<Rightarrow> json \<Rightarrow> noted" where
  "atoms_check k size_of listed original =
     (case item_at k original of
        None \<Rightarrow> ([], False)
      | Some None \<Rightarrow> quiet
      | Some (Some v) \<Rightarrow>
          (case size_of v of
             None \<Rightarrow> quiet
           | Some n \<Rightarrow> if n = 0 then quiet
                       else metadata_note (if listed = 0 then ''METADATA_MISPLACED_DATA'' else ''METADATA_DUPLICATE_DATA'') k))"

definition unclear_check :: "string \<Rightarrow> json \<Rightarrow> noted" where
  "unclear_check k original =
     (case code_in k original of
        None \<Rightarrow> ([], False)
      | Some False \<Rightarrow> quiet
      | Some True \<Rightarrow> and_next (metadata_note ''METADATA_UNKNOWN_FIELD'' k)
          (case item_at k original of
             None \<Rightarrow> ([], False)
           | Some (Some (JObj a)) \<Rightarrow>
               and_next (if map_of a ''descroption'' \<noteq> None then metadata_note ''METADATA_TYPO'' k else quiet)
                 (if map_of a ''Link'' \<noteq> None then metadata_note ''METADATA_FORMAT_ERROR'' k else quiet)
           | Some _ \<Rightarrow> quiet))"

definition misplaced_check :: "string \<Rightarrow> json \<Rightarrow> noted" where
  "misplaced_check k original =
     (case code_in k original of
        None \<Rightarrow> ([], False) | Some b \<Rightarrow> if b then metadata_note ''METADATA_MISPLACED_DATA'' k else quiet)"

definition dict_size :: "json \<Rightarrow> nat option" where
  "dict_size j = (case j of JObj d \<Rightarrow> Some (length d) | _ \<Rightarrow> None)"

definition list_size :: "json \<Rightarrow> nat option" where
  "list_size j = (case j of JList xs \<Rightarrow> Some (length xs) | _ \<Rightarrow> None)"

definition listed_count :: "doc \<Rightarrow> string \<Rightarrow> nat" where
  "listed_count d k = (case list_size (jget d k) of None \<Rightarrow> 0 | Some n \<Rightarrow> n)"

definition original_checks :: "doc \<Rightarrow> json \<Rightarrow> noted" where
  "original_checks d original =
     and_next (atoms_check ''bom_atoms'' dict_size (listed_count d ''materials'') original)
       (and_next (atoms_check ''tool_list_atoms'' list_size (listed_count d ''tool_list'') original)
         (and_next (unclear_check ''product_atom'' original)
           (and_next (unclear_check ''bom_output_atoms'' original)
             (and_next (misplaced_check ''maintenance_instructions'' original)
               (misplaced_check ''standards_used_original'' original)))))"

text \<open>The length of \<open>json.dumps\<close> with its default separators.\<close>

primrec dumps :: "json \<Rightarrow> string" where
  "dumps JNull = ''null''"
| "dumps (JBool b) = (if b then ''true'' else ''false'')"
| "dumps (JInt i) = int_text i"
| "dumps (JFloat s) = s"
| "dumps (JStr s) = quote s"
| "dumps (JList xs) = ''['' @ join '', '' (map dumps xs) @ '']''"
| "dumps (JObj d) = ''{'' @ join '', '' (map (\<lambda>(k, t). quote k @ '': '' @ t) (map (map_prod id dumps) d)) @ ''}''"

definition metadata_checks :: "doc \<Rightarrow> noted" where
  "metadata_checks d =
     (let j = get_default d ''metadata'' (JObj [])
      in if \<not> truthy j then quiet
         else and_next
           (case item_at ''original'' j of None \<Rightarrow> ([], False) | Some None \<Rightarrow> quiet | Some (Some original) \<Rightarrow> original_checks d original)
           (if 5000 < length (dumps j) then metadata_note ''METADATA_EXCESSIVE_SIZE'' [] else quiet))"

section \<open>Manifests\<close>

text \<open>
  A failing \<open>to_dict\<close> (a contributor that could not be read) or a crash of the metadata checks ends in the
  outer handler, which adds an error to what was collected so far.
\<close>

definition manifest_domain :: "string \<Rightarrow> design_manifest \<Rightarrow> doc \<Rightarrow> json" where
  "manifest_domain dmn m d =
     (if dmn \<noteq> [] then JStr dmn else if truthy (om_domain m) then om_domain m else JStr (detect_domain d ''manufacturing''))"

definition okh_report :: "(string \<Rightarrow> bool) \<Rightarrow> string \<Rightarrow> bool \<Rightarrow> string \<Rightarrow> design_manifest \<Rightarrow> validation_report" where
  "okh_report ex q strict dmn m =
     (case manifest_to_dict m of
        None \<Rightarrow> add_errors
          ((if dmn \<noteq> [] \<or> truthy (om_domain m)
            then (case manifest_validate ex m of Inl BadDocument \<Rightarrow> [] | Inl e \<Rightarrow> [ValidateFailed e] | Inr _ \<Rightarrow> []) else []) @ [Unexpected_Error]) empty_report
      | Some d \<Rightarrow>
          (let dm = manifest_domain dmn m d in
           case manifest_validate ex m of
             Inl BadDocument \<Rightarrow> add_errors [Unexpected_Error] empty_report
           | v \<Rightarrow>
               (let r0 = (case v of Inl e \<Rightarrow> add_errors [ValidateFailed e] empty_report | Inr _ \<Rightarrow> empty_report);
                    r1 = (validate_okh_quality_level d q strict dm r0)
                         \<lparr>vr_completeness := Some (okh_completeness d q dm), vr_presence := okh_field_presence d, vr_coverage := Some (okh_coverage d),
                          vr_counts := Some (length (om_components m), length (filter (\<lambda>c. truthy (oc_consumable c)) (om_components m)), length (om_repair_guides m))\<rparr>;
                    (ws, ok) = metadata_checks d;
                    r2 = add_warnings ws (add_suggestions (okh_suggestions d q dm) r1)
                in if ok then r2 else add_errors [Unexpected_Error] r2)))"

definition validate_okh_manifest ::
  "(string \<Rightarrow> bool) \<Rightarrow> (string \<Rightarrow> string) \<Rightarrow> (nat \<Rightarrow> uuid) \<Rightarrow> doc \<Rightarrow> string \<Rightarrow> bool \<Rightarrow> string \<Rightarrow> validation_report" where
  "validate_okh_manifest ex md5 fresh content q strict dmn =
     (case manifest_from_dict md5 fresh content of
        None \<Rightarrow> add_errors [ParseFailed] empty_report
      | Some m \<Rightarrow> okh_report ex q strict dmn m)"

section \<open>Facilities\<close>

definition okw_level_required :: "string \<Rightarrow> string list" where
  "okw_level_required q =
     [''name'', ''location'', ''facility_status''] @
     (if q = ''hobby'' then [] else if q = ''medical'' then [''equipment'', ''manufacturing_processes'', ''certifications'']
      else [''equipment'', ''manufacturing_processes''])"

definition okw_level_recommended :: "string \<Rightarrow> string list" where
  "okw_level_recommended q =
     (if q = ''hobby'' then [''equipment'', ''manufacturing_processes'']
      else if q = ''medical'' then [''typical_materials'', ''quality_standards'', ''regulatory_compliance'']
      else [''description'', ''typical_materials'', ''certifications'', ''contact''])"

text \<open>An empty list is a value for the array fields; the other fields must not be empty texts.\<close>

definition okw_field_missing :: "doc \<Rightarrow> string \<Rightarrow> bool" where
  "okw_field_missing d k \<longleftrightarrow>
     jget d k = JNull \<or>
     k \<notin> {''manufacturing_processes'', ''equipment'', ''typical_materials'', ''certifications''} \<and> jget d k = JStr []"

definition validate_okw_quality_level :: "doc \<Rightarrow> string \<Rightarrow> bool \<Rightarrow> validation_report \<Rightarrow> validation_report" where
  "validate_okw_quality_level d q strict r =
     (let recommended = okw_level_recommended q
      in add_errors (strict_errors strict d recommended)
           (add_warnings (map (\<lambda>k. FieldRecommended k q JNull) (filter (field_absent d) recommended))
              (add_errors (map (\<lambda>k. FieldRequired k q JNull) (filter (okw_field_missing d) (okw_level_required q))) r)))"

definition okw_expected_fields :: "string \<Rightarrow> string list" where
  "okw_expected_fields q =
     [''name'', ''location'', ''facility_status'', ''equipment''] @
     (if q = ''hobby'' then [] else if q = ''medical'' then [''manufacturing_processes'', ''certifications'', ''typical_materials'']
      else [''manufacturing_processes'', ''typical_materials''])"

definition okw_completeness :: "doc \<Rightarrow> string \<Rightarrow> rat" where
  "okw_completeness d q = share_of (\<lambda>k. \<not> field_absent d k) (okw_expected_fields q)"

definition okw_suggestions :: "doc \<Rightarrow> string \<Rightarrow> validation_message list" where
  "okw_suggestions d q =
     map ConsiderAdding (filter (\<lambda>k. \<not> truthy (jget d k))
       ([''description'', ''equipment''] @ (if q \<in> {''professional'', ''medical''} then [''certifications''] else []) @ [''contact'']))"

text \<open>The place and the status of a facility are objects, which are always true.\<close>

definition validate_okw_facility ::
  "float_reader \<Rightarrow> uuid \<Rightarrow> doc \<Rightarrow> string \<Rightarrow> bool \<Rightarrow> validation_report" where
  "validate_okw_facility fl fresh content q strict =
     (if \<not> truthy (jget content ''location'') then add_errors [FieldMissing ''location''] empty_report
      else case facility_from_dict fresh content of
        None \<Rightarrow> add_errors [ParseFailed] empty_report
      | Some f \<Rightarrow>
          (let d = facility_to_dict fl f;
               r0 = (if truthy (mf_name f) then empty_report else add_errors [FieldMissing ''name''] empty_report);
               r1 = (validate_okw_quality_level d q strict r0)\<lparr>vr_completeness := Some (okw_completeness d q)\<rparr>
           in add_suggestions (okw_suggestions d q) r1))"

section \<open>The answers of the services\<close>

record validation_answer =
  va_valid :: bool
  va_score :: rat
  va_issues :: "(string \<times> validation_message) list"
  va_suggestions :: "validation_message list"

definition answer_of :: "validation_report \<Rightarrow> validation_answer" where
  "answer_of r =
     \<lparr>va_valid = vr_valid r, va_score = (case vr_completeness r of None \<Rightarrow> 1 | Some c \<Rightarrow> c),
      va_issues = map (\<lambda>m. (''error'', m)) (vr_errors r) @ map (\<lambda>m. (''warning'', m)) (vr_warnings r), va_suggestions = vr_suggestions r\<rparr>"

definition known_level :: "string \<Rightarrow> string" where
  "known_level c = (if c \<in> {''hobby'', ''professional'', ''medical''} then c else ''professional'')"

text \<open>A domain of the content that is false or no text leaves the choice to the manifest.\<close>

definition okh_validate ::
  "(string \<Rightarrow> bool) \<Rightarrow> (string \<Rightarrow> string) \<Rightarrow> (nat \<Rightarrow> uuid) \<Rightarrow> doc \<Rightarrow> string \<Rightarrow> bool \<Rightarrow> validation_answer" where
  "okh_validate ex md5 fresh content context strict =
     answer_of (validate_okh_manifest ex md5 fresh content (known_level context) strict
       (case jget content ''domain'' of JStr s \<Rightarrow> s | _ \<Rightarrow> []))"

definition okw_validate :: "float_reader \<Rightarrow> uuid \<Rightarrow> doc \<Rightarrow> string \<Rightarrow> bool \<Rightarrow> validation_answer" where
  "okw_validate fl fresh content context strict = answer_of (validate_okw_facility fl fresh content (known_level context) strict)"

end
