(* ===== verification/Validator_Facts.thy ===== *)
theory Validator_Facts imports Model_Validator Facility_Facts Okh_Facts begin

text \<open>
  What the validation of documents promises: its verdicts in full, how its levels are nested, the range
  of its scores, and the level no facility can meet.
\<close>

section \<open>Reports\<close>

lemma add_simps [simp]:
  "vr_valid (add_errors es r) \<longleftrightarrow> vr_valid r \<and> es = []" "vr_valid (add_warnings ws r) = vr_valid r" "vr_valid (add_suggestions ss r) = vr_valid r"
  "vr_errors (add_errors es r) = vr_errors r @ es" "vr_errors (add_warnings ws r) = vr_errors r" "vr_errors (add_suggestions ss r) = vr_errors r"
  "vr_completeness (add_errors es r) = vr_completeness r" "vr_completeness (add_warnings ws r) = vr_completeness r"
  "vr_completeness (add_suggestions ss r) = vr_completeness r"
  "vr_coverage (add_errors es r) = vr_coverage r" "vr_coverage (add_warnings ws r) = vr_coverage r" "vr_coverage (add_suggestions ss r) = vr_coverage r"
  by (simp_all add: add_errors_def add_warnings_def add_suggestions_def)

lemma empty_report_simps [simp]:
  "vr_valid empty_report" "vr_errors empty_report = []" "vr_completeness empty_report = None" "vr_coverage empty_report = None"
  by (simp_all add: empty_report_def)

definition unit_score :: "rat \<Rightarrow> bool" where "unit_score x \<longleftrightarrow> 0 \<le> x \<and> x \<le> 1"

lemma share_of_unit [simp]: "unit_score (share_of P ks)"
proof -
  have "length (filter P ks) \<le> length ks" by simp
  then show ?thesis by (simp add: share_of_def unit_score_def divide_le_eq del: length_filter_le)
qed

definition report_wf :: "validation_report \<Rightarrow> bool" where
  "report_wf r \<longleftrightarrow> (vr_valid r = (vr_errors r = [])) \<and> pred_option unit_score (vr_completeness r) \<and>
     pred_option (pred_prod unit_score unit_score) (vr_coverage r)"

lemma report_wf_simps [simp]:
  "report_wf empty_report" "report_wf r \<Longrightarrow> report_wf (add_errors es r)" "report_wf r \<Longrightarrow> report_wf (add_warnings ws r)"
  "report_wf r \<Longrightarrow> report_wf (add_suggestions ss r)"
  by (simp_all add: report_wf_def)

lemma report_wf_quality [simp]:
  "report_wf r \<Longrightarrow> report_wf (validate_okh_quality_level d q strict dmn r)"
  "report_wf r \<Longrightarrow> report_wf (validate_okw_quality_level d q strict r)"
  by (simp_all add: validate_okh_quality_level_def validate_okw_quality_level_def Let_def)

lemma report_wf_scored [simp]:
  "report_wf r \<Longrightarrow> unit_score c \<Longrightarrow> report_wf (r\<lparr>vr_completeness := Some c\<rparr>)"
  "report_wf r \<Longrightarrow> unit_score c \<Longrightarrow> unit_score a \<Longrightarrow> unit_score b \<Longrightarrow>
     report_wf (r\<lparr>vr_completeness := Some c, vr_presence := p, vr_coverage := Some (a, b), vr_counts := n\<rparr>)"
  by (simp_all add: report_wf_def)

lemma okh_report_wf: "report_wf (okh_report ex q strict dmn m)"
  by (simp add: okh_report_def Let_def okh_completeness_def okh_coverage_def split: option.split sum.split manifest_error.split prod.split)

lemma okw_report_wf: "report_wf (validate_okw_facility fl fresh content q strict)"
  by (simp add: validate_okw_facility_def Let_def okw_completeness_def split: option.split)

lemma report_score_unit: "unit_score (report_score r)"
  by (auto simp: report_score_def unit_score_def max_def)

text \<open>
  Every report is consistent: it is valid exactly when it lists no error, and its scores lie between
  0 and 1. The answer of the services for content that cannot be read at all has the best score of all, 1.
\<close>

theorem validation_reports_consistent:
  "report_wf (validate_okh_manifest ex md5 fresh content q strict dmn) \<and> report_wf (validate_okw_facility fl u content q strict) \<and>
   unit_score (report_score r) \<and>
   unit_score (va_score (okh_validate ex md5 fresh content q strict)) \<and> unit_score (va_score (okw_validate fl u content q strict)) \<and>
   (case manifest_from_dict md5 fresh content of Some m \<Rightarrow> True
    | None \<Rightarrow> va_score (okh_validate ex md5 fresh content q strict) = 1 \<and> \<not> va_valid (okh_validate ex md5 fresh content q strict))"
proof -
  have w: "report_wf (validate_okh_manifest ex md5 fresh content q strict dmn)" for q dmn
    by (simp add: validate_okh_manifest_def okh_report_wf split: option.split)
  have a: "unit_score (va_score (answer_of r))" if "report_wf r" for r
    using that by (auto simp: answer_of_def report_wf_def unit_score_def split: option.split)
  show ?thesis
    using w a [OF w] a [OF okw_report_wf] okw_report_wf report_score_unit
    by (auto simp: okh_validate_def okw_validate_def answer_of_def validate_okh_manifest_def split: option.split)
qed

section \<open>Facilities\<close>

lemma facility_dict_gets:
  "jget (facility_to_dict fl f) ''name'' = mf_name f" "jget (facility_to_dict fl f) ''location'' = JObj (location_json fl (mf_location f))"
  "jget (facility_to_dict fl f) ''facility_status'' = JStr (facility_status_value (mf_status f))"
  "jget (facility_to_dict fl f) ''equipment'' = JList (map (equipment_json fl) (mf_equipment f))"
  "jget (facility_to_dict fl f) ''manufacturing_processes'' = mf_processes f"
  "jget (facility_to_dict fl f) ''certifications'' = mf_certifications f"
  by (simp_all add: jget_def facility_gets)

lemma no_quality_standards: "jget (facility_to_dict fl f) ''quality_standards'' = JNull"
  by (cases "mf_owner f"; cases "mf_contact f"; cases "mf_founded f"; cases "mf_batch f"; cases "mf_record f")
    (simp_all add: jget_def facility_to_dict_def map_add_def)

text \<open>
  What makes a facility valid. It has a place, can be read and has a name; the levels above hobby
  ask besides only that the processes, and for medical the certifications, are not an explicit null. In
  strict mode nothing is ever valid for medical, which then asks for two fields no facility has.
\<close>

theorem facility_verdict:
  "vr_valid (validate_okw_facility fl fresh content q False) =
     (truthy (jget content ''location'') \<and>
      (case facility_from_dict fresh content of
         None \<Rightarrow> False
       | Some f \<Rightarrow> truthy (mf_name f) \<and>
           (q = ''hobby'' \<or> mf_processes f \<noteq> JNull \<and> (if q = ''medical'' then mf_certifications f \<noteq> JNull else True)))) \<and>
   \<not> vr_valid (validate_okw_facility fl fresh content ''medical'' True)"
proof
  have s: "facility_status_value x \<noteq> []" for x by (cases x) simp_all
  show "vr_valid (validate_okw_facility fl fresh content q False) =
     (truthy (jget content ''location'') \<and>
      (case facility_from_dict fresh content of
         None \<Rightarrow> False
       | Some f \<Rightarrow> truthy (mf_name f) \<and>
           (q = ''hobby'' \<or> mf_processes f \<noteq> JNull \<and> (if q = ''medical'' then mf_certifications f \<noteq> JNull else True))))"
    by (auto simp: validate_okw_facility_def validate_okw_quality_level_def Let_def strict_errors_def okw_level_required_def
        okw_field_missing_def facility_dict_gets filter_empty_conv s split: option.split)
  show "\<not> vr_valid (validate_okw_facility fl fresh content ''medical'' True)"
    by (auto simp: validate_okw_facility_def validate_okw_quality_level_def Let_def strict_errors_def okw_level_recommended_def
        field_absent_def no_quality_standards split: option.split)
qed

section \<open>Manifests\<close>

lemma written_gets: "manifest_to_dict m = Some d \<Longrightarrow> \<exists>cs. \<forall>k. jget d k = jget (manifest_fields m cs) k"
  by (auto simp: manifest_to_dict_def jget_filter distinct_fields)

lemma licensor_entry: "agent_truthy a \<Longrightarrow> agent_json a \<in> {JNull, JList [], JStr []} \<longleftrightarrow> agent_json a = JNull"
  by (auto simp: agent_truthy_def agent_json_def person_json_def organization_json_def split: agent.splits json.splits)

lemma validate_truthy:
  "manifest_validate ex m = Inr b \<Longrightarrow>
     truthy (om_title m) \<and> truthy (om_version m) \<and> agent_truthy (om_licensor m) \<and> truthy (om_language m) \<and> truthy (om_function m)"
  by (auto simp: manifest_validate_def required_values_def Let_def split: if_splits)

lemma manufacturing_verdict:
  assumes d: "manifest_to_dict m = Some d"
  shows "vr_valid (okh_report ex q False ''manufacturing'' m) =
      (\<not> isl (manifest_validate ex m) \<and> snd (metadata_checks d) \<and> agent_json (om_licensor m) \<noteq> JNull \<and>
       (q = ''hobby'' \<or> om_processes m \<noteq> [] \<and> (q \<noteq> ''medical'' \<or> om_specs m \<noteq> None \<and> om_standards m \<noteq> [])))"
proof (cases "manifest_validate ex m")
  case (Inl e)
  then show ?thesis
    by (cases e) (simp_all add: okh_report_def d Let_def validate_okh_quality_level_def split: prod.split)
next
  case (Inr b)
  obtain cs where g: "\<And>k. jget d k = jget (manifest_fields m cs) k" using written_gets [OF d] by blast
  note t = validate_truthy [OF Inr]
  have n: "field_empty d ''title'' = False" "field_empty d ''version'' = False" "field_empty d ''documentation_language'' = False"
    "field_empty d ''function'' = False"
    using t by (auto simp: field_empty_def g fields_values)
  have l: "field_empty d ''license'' = False" "field_empty d ''licensor'' = (agent_json (om_licensor m) = JNull)"
    "field_empty d ''manufacturing_processes'' = (om_processes m = [])" "field_empty d ''standards_used'' = (om_standards m = [])"
    "field_empty d ''manufacturing_specs'' = (om_specs m = None)"
    using licensor_entry t
    by (simp_all add: field_empty_def g fields_values license_json_def text_list_def opt_json_def spec_json_def split: option.split)
  show ?thesis
    by (auto simp: okh_report_def d Inr Let_def validate_okh_quality_level_def manifest_domain_def mapped_level_def
        okh_level_required_def okh_base_fields_def strict_errors_def n l filter_empty_conv split: prod.split)
qed

lemma unwritable_invalid: "manifest_to_dict m = None \<Longrightarrow> \<not> vr_valid (okh_report ex q strict dmn m)"
  by (simp add: okh_report_def)

text \<open>
  C34: what makes a manifest valid for manufacturing: it can be read and written, its own check passes, its
  metadata has the expected shape, its licensor is more than a number, and above the hobby level it names
  a process, for medical also specifications and a standard. The levels are nested.
\<close>

theorem manifest_verdict:
  "vr_valid (validate_okh_manifest ex md5 fresh content q False ''manufacturing'') =
     (case manifest_from_dict md5 fresh content of
        None \<Rightarrow> False
      | Some m \<Rightarrow>
          (case manifest_to_dict m of
             None \<Rightarrow> False
           | Some d \<Rightarrow>
               \<not> isl (manifest_validate ex m) \<and> snd (metadata_checks d) \<and> agent_json (om_licensor m) \<noteq> JNull \<and>
               (q = ''hobby'' \<or> om_processes m \<noteq> [] \<and> (if q = ''medical'' then om_specs m \<noteq> None \<and> om_standards m \<noteq> [] else True))))"
  by (auto simp: validate_okh_manifest_def manufacturing_verdict unwritable_invalid split: option.split)

lemma shape_domain:
  assumes Some: "manifest_to_dict m = Some d"
  shows "detect_domain d dflt =
       (if truthy (om_domain m) then str_of (om_domain m)
        else if om_title m \<noteq> JNull \<and> om_version m \<noteq> JNull then ''manufacturing'' else detect_domain d dflt)"
proof -
  obtain cs where g: "\<And>k. jget d k = jget (manifest_fields m cs) k" using written_gets [OF Some] by blast
  have h: "map_of d k \<noteq> None" if "jget d k \<noteq> JNull" for k using that by (auto simp: jget_def split: option.splits)
  have "map_of d ''manufacturing_processes'' \<noteq> None" by (rule h) (simp add: g fields_values)
  moreover have "om_title m \<noteq> JNull \<Longrightarrow> map_of d ''title'' \<noteq> None" "om_version m \<noteq> JNull \<Longrightarrow> map_of d ''version'' \<noteq> None"
    by (rule h, simp add: g fields_values)+
  ultimately show ?thesis by (simp add: detect_domain_def Let_def g fields_values)
qed

text \<open>
  A manifest without a domain of its own that has a title and a version is taken for manufacturing,
  whatever it says: what is written always holds the list of processes, so the words for a recipe in its
  title, description or function are never looked at.
\<close>

theorem manifest_domain_by_shape:
  "case manifest_to_dict m of
     None \<Rightarrow> None \<in> set (om_contributors m)
   | Some d \<Rightarrow> detect_domain d dflt =
       (if truthy (om_domain m) then str_of (om_domain m)
        else if om_title m \<noteq> JNull \<and> om_version m \<noteq> JNull then ''manufacturing'' else detect_domain d dflt)"
proof (cases "manifest_to_dict m")
  case None
  then have "None \<in> set (om_contributors m)" using okh_unwritable by blast
  with None show ?thesis by (simp only: option.case)
next
  case (Some d)
  then show ?thesis using shape_domain [OF Some, of dflt] by simp
qed

end
