(* ===== verification/Okh_Federation.thy ===== *)
theory Okh_Federation imports Okh_Service Okw_Federation Identity_Models Model_Validator begin

text \<open>
  The federation of designs: the signed catalog (\<open>federation/catalog.py\<close>, \<open>federation/models.py\<close>), the
  ingest of a peer's record (\<open>federation/ingest.py\<close>), the sync with a peer (\<open>federation/sync.py\<close>), the
  metrics (\<open>federation/metrics.py\<close>) and the operations of \<open>FederationService\<close>. SHA-256, MD5 and Ed25519 are
  \<open>sha\<close>, \<open>md5\<close> and \<open>ed\<close>; \<open>pkg\<close> is the package found for a design on disk, \<open>ex\<close> tells which paths exist. The
  peers' HTTP answers are arguments. \<open>now\<close> is the aware clock, \<open>utcnow\<close> the naive one, \<open>tick\<close> the one in
  microseconds. A value \<open>None\<close> in place of a result is an exception that leaves the operation.
\<close>

section \<open>The catalog\<close>

record package_pointer =
  pp_bundle_hash :: string
  pp_byte_size :: int
  pp_filename :: "string option"

record design_record =
  cg_manifest_id :: uuid
  cg_content_hash :: string
  cg_title :: string
  cg_version :: string
  cg_updated_at :: datetime
  cg_publisher :: did
  cg_provenance :: "record_provenance option"
  cg_attestations :: "attestation list"
  cg_package :: "package_pointer option"
  cg_signature :: string

text \<open>The JSON dump of a model: as \<open>isoformat\<close>, but UTC is written \<open>Z\<close>.\<close>

definition dump_time :: "datetime \<Rightarrow> json" where
  "dump_time t = JStr (if dt_offset t = Some 0 then isoformat (t\<lparr>dt_offset := None\<rparr>) @ ''Z'' else isoformat t)"

definition dump_provenance :: "record_provenance \<Rightarrow> json" where
  "dump_provenance p = JObj [(''authored_by'', JList (map credit_json (authored_by p))), (''published_by'', opt_json JStr (published_by p)),
     (''on_behalf_of'', opt_json JStr (on_behalf_of p)), (''signed_by'', opt_json JStr (signed_by p)), (''signature'', JStr (rp_signature p))]"

definition dump_attestation :: "attestation \<Rightarrow> json" where
  "dump_attestation a = JObj
     [(''attestation_id'', JStr (attestation_id a)), (''type'', JStr (att_type a)), (''issuer_did'', JStr (att_issuer a)),
      (''subject_did'', JStr (att_subject a)), (''content_hash'', opt_json JStr (att_content_hash a)), (''claim'', JObj (att_claim a)),
      (''created_at'', dump_time (att_created_at a)), (''expires_at'', opt_json dump_time (att_expires_at a)),
      (''signature'', JStr (att_signature a))]"

definition dump_package :: "package_pointer \<Rightarrow> json" where
  "dump_package p = JObj [(''bundle_hash'', JStr (pp_bundle_hash p)), (''byte_size'', JInt (pp_byte_size p)),
     (''filename'', opt_json JStr (pp_filename p))]"

definition design_record_payload :: "design_record \<Rightarrow> json" where
  "design_record_payload r = JObj
     ([(''manifest_id'', JStr (cg_manifest_id r)), (''content_hash'', JStr (cg_content_hash r)), (''title'', JStr (cg_title r)),
       (''version'', JStr (cg_version r)), (''updated_at'', JStr (isoformat (cg_updated_at r))), (''publisher_did'', JStr (cg_publisher r))] @
      (case cg_provenance r of None \<Rightarrow> [] | Some p \<Rightarrow> [(''provenance'', dump_provenance p)]) @
      (if cg_attestations r = [] then [] else [(''attestations'', JList (map dump_attestation (cg_attestations r)))]) @
      (case cg_package r of None \<Rightarrow> [] | Some p \<Rightarrow> [(''package'', dump_package p)]))"

record signed_design =
  sd_record :: design_record
  sd_manifest :: doc
  sd_signature :: string

record design_index =
  di_records :: "design_record list"
  di_signed :: "(string \<times> signed_design) list"
  di_root :: string
  di_count :: nat

text \<open>The version date is written as an ISO date and read back as midnight UTC.\<close>

definition manifest_updated_at :: "datetime \<Rightarrow> design_manifest \<Rightarrow> datetime" where
  "manifest_updated_at now m = (case om_version_date m of None \<Rightarrow> now | Some d \<Rightarrow> (midnight d)\<lparr>dt_offset := Some 0\<rparr>)"

definition sign_catalog_record :: "ed25519 \<Rightarrow> node_identity \<Rightarrow> design_record \<Rightarrow> design_record" where
  "sign_catalog_record ed me r = r\<lparr>cg_signature := hex (sign_json ed me (design_record_payload r))\<rparr>"

text \<open>
  One manifest of the loop: nothing for a private one, an exception when it cannot be written or when its
  title or version is no text, which the record demands.
\<close>

definition design_entry ::
  "(string \<Rightarrow> string) \<Rightarrow> ed25519 \<Rightarrow> node_identity \<Rightarrow> datetime \<Rightarrow> (uuid \<Rightarrow> package_pointer option) \<Rightarrow> attestation_store \<Rightarrow> okh_state \<Rightarrow>
   design_manifest \<Rightarrow> signed_design option option" where
  "design_entry sha ed me now pkg atts st m =
     (if \<not> is_shareable (Some (okh_get_visibility st (om_id m))) then Some None
      else do { d \<leftarrow> manifest_to_dict m; title \<leftarrow> read_str (om_title m); version \<leftarrow> read_str (om_version m);
                let h = manifest_content_hash sha d;
                let r = \<lparr>cg_manifest_id = om_id m, cg_content_hash = h, cg_title = title, cg_version = version,
                         cg_updated_at = manifest_updated_at now m, cg_publisher = ni_did me,
                         cg_provenance = okh_get_provenance st (om_id m), cg_attestations = attestations_for_catalog h atts,
                         cg_package = pkg (om_id m), cg_signature = []\<rparr>;
                Some (Some \<lparr>sd_record = sign_catalog_record ed me r, sd_manifest = d, sd_signature = hex (sign_json ed me (JObj d))\<rparr>) })"

definition index_of_entries :: "(string \<Rightarrow> string) \<Rightarrow> signed_design list \<Rightarrow> design_index" where
  "index_of_entries sha es =
     \<lparr>di_records = map sd_record es, di_signed = dict_by (\<lambda>s. cg_content_hash (sd_record s)) es,
      di_root = merkle_root sha (map (\<lambda>s. cg_content_hash (sd_record s)) es), di_count = length es\<rparr>"

text \<open>What a node keeps: the designs and the attestations.\<close>

record design_node =
  dn_designs :: okh_state
  dn_attestations :: attestation_store

record federation_context =
  fx_sha :: "string \<Rightarrow> string"
  fx_md5 :: "string \<Rightarrow> string"
  fx_ed :: ed25519
  fx_me :: node_identity
  fx_draws :: draws
  fx_pkg :: "uuid \<Rightarrow> package_pointer option"
  fx_exists :: "string \<Rightarrow> bool"
  fx_now :: datetime
  fx_utcnow :: datetime
  fx_tick :: pytime

definition build_catalog_index :: "federation_context \<Rightarrow> design_node \<Rightarrow> design_index option \<times> design_node" where
  "build_catalog_index cx node =
     (case okh_list (fx_md5 cx) (fx_draws cx) (fx_tick cx) 1 10000 (dn_designs node) of
        (Inl e, st) \<Rightarrow> (None, node\<lparr>dn_designs := st\<rparr>)
      | (Inr (ms, n), st) \<Rightarrow>
          (map_option (\<lambda>es. index_of_entries (fx_sha cx) (List.map_filter id es))
             (map_opt (design_entry (fx_sha cx) (fx_ed cx) (fx_me cx) (fx_now cx) (fx_pkg cx) (dn_attestations node) st) ms),
           node\<lparr>dn_designs := st\<rparr>))"

definition signed_design_of :: "design_index \<Rightarrow> string \<Rightarrow> signed_design option" where
  "signed_design_of ix h = map_of (di_signed ix) h"

section \<open>Ingest\<close>

text \<open>An \<open>IngestError\<close>, which the sync records, or an exception it does not expect and which ends it.\<close>

datatype design_fault =
  UnfollowedPublisher did | RecordSignatureBad | ManifestSignatureBad | DesignHashMismatch | ProvenanceBad | AttestationBad | DesignInvalid

datatype design_failure = DesignFault design_fault | DesignCrash

definition check_design_signature :: "ed25519 \<Rightarrow> byte list \<Rightarrow> string \<Rightarrow> json \<Rightarrow> design_fault \<Rightarrow> design_failure option" where
  "check_design_signature ed pk sig payload e =
     (case fromhex sig of
        None \<Rightarrow> Some DesignCrash
      | Some bs \<Rightarrow> if ed_verify ed pk bs (canonical_json payload) then None else Some (DesignFault e))"

text \<open>Unsigned attestations are refused; one whose expiry cannot be compared with the clock raises.\<close>

fun check_attestations :: "ed25519 \<Rightarrow> datetime \<Rightarrow> attestation list \<Rightarrow> design_failure option" where
  "check_attestations ed utcnow [] = None"
| "check_attestations ed utcnow (a # as) =
     (if att_signature a = [] then Some (DesignFault AttestationBad)
      else case verify_attestation ed utcnow a of
        None \<Rightarrow> Some DesignCrash
      | Some ok \<Rightarrow> if ok then check_attestations ed utcnow as else Some (DesignFault AttestationBad))"

definition or_fail :: "'e option \<Rightarrow> 'e option \<Rightarrow> 'e option" where
  "or_fail a b = (case a of Some e \<Rightarrow> Some e | None \<Rightarrow> b)"

definition check_provenance :: "ed25519 \<Rightarrow> record_provenance option \<Rightarrow> design_failure option" where
  "check_provenance ed p =
     (case p of
        None \<Rightarrow> None
      | Some q \<Rightarrow> if \<not> absent (signed_by q) \<and> \<not> verify_provenance ed q then Some (DesignFault ProvenanceBad) else None)"

definition verify_signed_design :: "federation_context \<Rightarrow> signed_design \<Rightarrow> design_failure option" where
  "verify_signed_design cx r =
     (let c = sd_record r in
      case did_to_public_key (cg_publisher c) of
        Inl e \<Rightarrow> Some DesignCrash
      | Inr pk \<Rightarrow>
          or_fail (check_design_signature (fx_ed cx) pk (cg_signature c) (design_record_payload c) RecordSignatureBad)
            (or_fail (check_design_signature (fx_ed cx) pk (sd_signature r) (JObj (sd_manifest r)) ManifestSignatureBad)
              (or_fail (if manifest_content_hash (fx_sha cx) (sd_manifest r) = cg_content_hash c then None else Some (DesignFault DesignHashMismatch))
                (or_fail (check_provenance (fx_ed cx) (cg_provenance c))
                  (check_attestations (fx_ed cx) (fx_utcnow cx) (cg_attestations c))))))"

definition verify_and_store_design ::
  "federation_context \<Rightarrow> federation_store \<Rightarrow> string list \<Rightarrow> signed_design \<Rightarrow> design_node \<Rightarrow> (design_failure + ingest_result) \<times> design_node" where
  "verify_and_store_design cx fs local_hashes r node =
     (let c = sd_record r; h = cg_content_hash c in
      if \<not> is_followed fs (cg_publisher c) then (Inl (DesignFault (UnfollowedPublisher (cg_publisher c))), node)
      else case verify_signed_design cx r of
        Some e \<Rightarrow> (Inl e, node)
      | None \<Rightarrow>
          if h \<in> set local_hashes then (Inr (Skipped h AlreadyPresent), node)
          else case design_get (fx_md5 cx) (fx_draws cx) (fx_tick cx) (cg_manifest_id c) (dn_designs node) of
            (Inl e, st) \<Rightarrow> (Inl DesignCrash, node\<lparr>dn_designs := st\<rparr>)
          | (Inr (Some m), st) \<Rightarrow>
              (case manifest_to_dict m of
                 None \<Rightarrow> Inl DesignCrash
               | Some d \<Rightarrow> Inr (Skipped h (if manifest_content_hash (fx_sha cx) d = h then AlreadyPresent else IdConflict)),
               node\<lparr>dn_designs := st\<rparr>)
          | (Inr None, st) \<Rightarrow>
              if \<not> vr_valid (validate_okh_manifest (fx_exists cx) (fx_md5 cx) (fx_draws cx []) (sd_manifest r) ''professional'' False [])
              then (Inl (DesignFault DesignInvalid), node\<lparr>dn_designs := st\<rparr>)
              else case okh_create (fx_md5 cx) (fx_draws cx) (fx_tick cx) (sd_manifest r) None (cg_provenance c) st of
                (Inl e, st') \<Rightarrow> (Inl DesignCrash, node\<lparr>dn_designs := st'\<rparr>)
              | (Inr m, st') \<Rightarrow>
                  (Inr (Stored h), node\<lparr>dn_designs := st', dn_attestations := fold save_attestation (cg_attestations c) (dn_attestations node)\<rparr>))"

section \<open>Metrics\<close>

record sync_metrics =
  mt_pulled :: nat
  mt_skipped :: nat
  mt_runs :: nat
  mt_inbound :: nat
  mt_outbound :: nat
  mt_rejected :: nat
  mt_last :: "datetime option"
  mt_background :: "datetime option"
  mt_per_peer :: "(did \<times> nat) list"

definition count_of :: "(did \<times> nat) list \<Rightarrow> did \<Rightarrow> nat" where
  "count_of m d = (case map_of m d of None \<Rightarrow> 0 | Some n \<Rightarrow> n)"

definition record_sync_run :: "did \<Rightarrow> nat \<Rightarrow> nat \<Rightarrow> bool \<Rightarrow> datetime \<Rightarrow> sync_metrics \<Rightarrow> sync_metrics" where
  "record_sync_run d pulled skipped background when m =
     m\<lparr>mt_runs := mt_runs m + 1, mt_pulled := mt_pulled m + pulled, mt_skipped := mt_skipped m + skipped, mt_last := Some when,
       mt_background := (if background then Some when else mt_background m),
       mt_per_peer := (if pulled = 0 then mt_per_peer m else AList.update d (count_of (mt_per_peer m) d + pulled) (mt_per_peer m))\<rparr>"

definition record_inbound_digest :: "sync_metrics \<Rightarrow> sync_metrics" where
  "record_inbound_digest m = m\<lparr>mt_inbound := mt_inbound m + 1\<rparr>"

definition record_outbound_digest :: "sync_metrics \<Rightarrow> sync_metrics" where
  "record_outbound_digest m = m\<lparr>mt_outbound := mt_outbound m + 1\<rparr>"

definition record_rate_limit_rejection :: "sync_metrics \<Rightarrow> sync_metrics" where
  "record_rate_limit_rejection m = m\<lparr>mt_rejected := mt_rejected m + 1\<rparr>"

section \<open>Sync with a peer\<close>

datatype fetched_design = FetchBroken | NotARecord | FetchedDesign signed_design

datatype design_sync_error = NotFollowing | OverOutboundLimit | DigestBroken | FetchProblem string | RecordProblem string design_fault

record design_sync_result =
  dy_peer :: did
  dy_pulled :: nat
  dy_skipped :: nat
  dy_errors :: "design_sync_error list"
  dy_limited :: bool

definition sync_start :: "peer_state \<Rightarrow> design_sync_result" where
  "sync_start p = \<lparr>dy_peer = ps_did p, dy_pulled = 0, dy_skipped = 0, dy_errors = [], dy_limited = False\<rparr>"

definition sync_problem :: "design_sync_error \<Rightarrow> design_sync_result \<Rightarrow> design_sync_result" where
  "sync_problem e res = res\<lparr>dy_errors := dy_errors res @ [e]\<rparr>"

fun design_sync_loop ::
  "federation_context \<Rightarrow> federation_store \<Rightarrow> (string \<Rightarrow> fetched_design) \<Rightarrow> string list \<Rightarrow> string list \<Rightarrow> design_sync_result \<Rightarrow> design_node \<Rightarrow>
   design_sync_result option \<times> design_node" where
  "design_sync_loop cx fs fetch [] local_hashes res node = (Some res, node)"
| "design_sync_loop cx fs fetch (h # hs) local_hashes res node =
     (case fetch h of
        FetchBroken \<Rightarrow> design_sync_loop cx fs fetch hs local_hashes (sync_problem (FetchProblem h) res) node
      | NotARecord \<Rightarrow> (None, node)
      | FetchedDesign r \<Rightarrow>
          (case verify_and_store_design cx fs local_hashes r node of
             (Inl DesignCrash, node') \<Rightarrow> (None, node')
           | (Inl (DesignFault e), node') \<Rightarrow> design_sync_loop cx fs fetch hs local_hashes (sync_problem (RecordProblem h e) res) node'
           | (Inr (Stored _), node') \<Rightarrow> design_sync_loop cx fs fetch hs (h # local_hashes) (res\<lparr>dy_pulled := dy_pulled res + 1\<rparr>) node'
           | (Inr (Skipped _ _), node') \<Rightarrow> design_sync_loop cx fs fetch hs local_hashes (res\<lparr>dy_skipped := dy_skipped res + 1\<rparr>) node'))"

definition update_peer_sync_state :: "datetime \<Rightarrow> peer_state \<Rightarrow> design_sync_result \<Rightarrow> federation_store \<Rightarrow> federation_store" where
  "update_peer_sync_state now p res fs = upsert_peer (p\<lparr>last_sync_at := Some now, records_synced := records_synced p + int (dy_pulled res)\<rparr>) fs"

definition design_digest :: "design_index \<Rightarrow> did \<Rightarrow> sync_digest" where
  "design_digest ix me =
     \<lparr>dg_root = di_root ix, dg_count = di_count ix, dg_publisher = me, dg_leaves = sort (remdups (map cg_content_hash (di_records ix)))\<rparr>"

record federation_state =
  fn_node :: design_node
  fn_store :: federation_store
  fn_metrics :: sync_metrics

text \<open>\<open>allowed\<close> is the verdict of the rate limiter on this peer, \<open>answer\<close> the peer's reply to a digest.\<close>

definition sync_with_peer ::
  "federation_context \<Rightarrow> bool \<Rightarrow> (sync_digest \<Rightarrow> string list option) \<Rightarrow> (string \<Rightarrow> fetched_design) \<Rightarrow> peer_state \<Rightarrow> federation_state \<Rightarrow>
   design_sync_result option \<times> federation_state" where
  "sync_with_peer cx allowed answer fetch p s =
     (if \<not> ps_followed p \<and> \<not> is_followed (fn_store s) (ps_did p) then (Some (sync_problem NotFollowing (sync_start p)), s)
      else case build_catalog_index cx (fn_node s) of
        (None, node) \<Rightarrow> (None, s\<lparr>fn_node := node\<rparr>)
      | (Some ix, node) \<Rightarrow>
          if \<not> allowed then
            (Some ((sync_problem OverOutboundLimit (sync_start p))\<lparr>dy_limited := True\<rparr>),
             s\<lparr>fn_node := node, fn_metrics := record_rate_limit_rejection (fn_metrics s)\<rparr>)
          else
            let s1 = s\<lparr>fn_node := node, fn_metrics := record_outbound_digest (fn_metrics s)\<rparr> in
            case answer (design_digest ix (ni_did (fx_me cx))) of
              None \<Rightarrow> (Some (sync_problem DigestBroken (sync_start p)), s1)
            | Some hs \<Rightarrow>
                (case design_sync_loop cx (fn_store s) fetch hs (map cg_content_hash (di_records ix)) (sync_start p) node of
                   (None, node') \<Rightarrow> (None, s1\<lparr>fn_node := node'\<rparr>)
                 | (Some res, node') \<Rightarrow>
                     (Some res, s1\<lparr>fn_node := node', fn_store := update_peer_sync_state (fx_now cx) p res (fn_store s)\<rparr>)))"

section \<open>The service\<close>

text \<open>A digest from a peer; \<open>None\<close> also when the role of the node refuses it.\<close>

definition handle_sync_digest :: "federation_context \<Rightarrow> node_role \<Rightarrow> sync_digest \<Rightarrow> federation_state \<Rightarrow> string list option \<times> federation_state" where
  "handle_sync_digest cx role digest s =
     (if \<not> can_accept_inbound_sync (capabilities_for_role role) then (None, s)
      else case build_catalog_index cx (fn_node s) of
        (ix, node) \<Rightarrow>
          (map_option (\<lambda>i. respond_to_sync_digest digest (di_root i) (map cg_content_hash (di_records i))) ix,
           s\<lparr>fn_node := node, fn_metrics := record_inbound_digest (fn_metrics s)\<rparr>))"

definition record_sync_result :: "datetime \<Rightarrow> bool \<Rightarrow> design_sync_result \<Rightarrow> federation_state \<Rightarrow> federation_state" where
  "record_sync_result when background res s =
     s\<lparr>fn_metrics := record_sync_run (dy_peer res) (dy_pulled res) (dy_skipped res) background when (fn_metrics s)\<rparr>"

text \<open>Every known peer that is followed, in the order of the list read at the start; a crash ends the round.\<close>

record peer_channel =
  pc_allowed :: bool
  pc_answer :: "sync_digest \<Rightarrow> string list option"
  pc_fetch :: "string \<Rightarrow> fetched_design"

fun sync_round ::
  "federation_context \<Rightarrow> bool \<Rightarrow> (did \<Rightarrow> peer_channel) \<Rightarrow> peer_state list \<Rightarrow> federation_state \<Rightarrow> design_sync_result list option \<times> federation_state" where
  "sync_round cx background channel [] s = (Some [], s)"
| "sync_round cx background channel (p # ps) s =
     (if \<not> ps_followed p \<and> \<not> is_followed (fn_store s) (ps_did p) then sync_round cx background channel ps s
      else
        let ch = channel (ps_did p) in
        case sync_with_peer cx (pc_allowed ch) (pc_answer ch) (pc_fetch ch) (p\<lparr>ps_followed := True\<rparr>) s of
          (None, s1) \<Rightarrow> (None, s1)
        | (Some res, s1) \<Rightarrow>
            (case sync_round cx background channel ps (record_sync_result (fx_now cx) background res s1) of
               (rest, s2) \<Rightarrow> (map_option ((#) res) rest, s2)))"

definition sync_all_followed ::
  "federation_context \<Rightarrow> bool \<Rightarrow> (did \<Rightarrow> peer_channel) \<Rightarrow> federation_state \<Rightarrow> design_sync_result list option \<times> federation_state" where
  "sync_all_followed cx background channel s = sync_round cx background channel (peers (fn_store s)) s"

text \<open>Identify a peer by its URL, follow it, and sync.\<close>

definition sync_with_url ::
  "federation_context \<Rightarrow> (string \<Rightarrow> string option) \<Rightarrow> (string \<Rightarrow> json option) \<Rightarrow> (did \<Rightarrow> peer_channel) \<Rightarrow> string \<Rightarrow> federation_state \<Rightarrow>
   design_sync_result option \<times> federation_state" where
  "sync_with_url cx base_url identify channel url s =
     (case refresh_peers base_url identify (fx_now cx) (ni_did (fx_me cx)) [url] [] [] (fn_store s) of
        (Some (p # ps), fs) \<Rightarrow>
          (let known = is_followed fs (ps_did p);
               q = (if known then p else p\<lparr>ps_followed := True\<rparr>);
               s1 = s\<lparr>fn_store := if known then fs else set_followed (ps_did p) True fs\<rparr>;
               ch = channel (ps_did p)
           in case sync_with_peer cx (pc_allowed ch) (pc_answer ch) (pc_fetch ch) q s1 of
                (None, s2) \<Rightarrow> (None, s2)
              | (Some res, s2) \<Rightarrow> (Some res, record_sync_result (fx_now cx) False res s2))
      | (_, fs) \<Rightarrow> (None, s\<lparr>fn_store := fs\<rparr>))"

end
