(* ===== verification/Okh_Federation_Facts.thy ===== *)
theory Okh_Federation_Facts imports Okh_Federation Okh_Service_Facts Okw_Facts Validator_Facts begin

text \<open>What the federation of designs promises: what is published, what an ingest may write, what a sync reports.\<close>

section \<open>The catalog\<close>

lemma list_keeps:
  "okh_list md5 fr now p n st = (r, st1) \<Longrightarrow>
     os_blobs st1 = os_blobs st \<and> os_visibility st1 = os_visibility st \<and> os_provenance st1 = os_provenance st"
  by (auto simp: okh_list_def catalog_entries_def split: option.splits)

lemma get_keeps:
  "design_get md5 fr now i st = (r, st1) \<Longrightarrow>
     os_blobs st1 = os_blobs st \<and> os_visibility st1 = os_visibility st \<and> os_provenance st1 = os_provenance st"
  by (auto simp: design_get_def catalog_entries_def split: option.splits)

lemma design_entry_cases:
  "design_entry sha ed me now pkg atts st m = None \<longleftrightarrow>
     is_shareable (Some (okh_get_visibility st (om_id m))) \<and>
     (manifest_to_dict m = None \<or> read_str (om_title m) = None \<or> read_str (om_version m) = None)"
  by (cases "manifest_to_dict m"; cases "read_str (om_title m)"; cases "read_str (om_version m)") (auto simp: design_entry_def Let_def)

lemma signed_record_simps [simp]:
  "cg_publisher (sign_catalog_record ed me r) = cg_publisher r" "cg_content_hash (sign_catalog_record ed me r) = cg_content_hash r"
  "cg_manifest_id (sign_catalog_record ed me r) = cg_manifest_id r" "cg_provenance (sign_catalog_record ed me r) = cg_provenance r"
  "cg_attestations (sign_catalog_record ed me r) = cg_attestations r"
  "design_record_payload (sign_catalog_record ed me r) = design_record_payload r"
  "cg_signature (sign_catalog_record ed me r) = hex (ed_sign ed (private_key me) (canonical_json (design_record_payload r)))"
  by (simp_all add: sign_catalog_record_def sign_json_def design_record_payload_def del: canonical_json.simps)

lemma own_signature_checks:
  "ed_sound ed \<Longrightarrow> check_design_signature ed (ed_pub ed sk) (hex (ed_sign ed sk (canonical_json p))) p f = None"
  by (simp add: check_design_signature_def fromhex_hex ed_sound_def)

lemma own_design_verifies:
  assumes "ed_sound (fx_ed cx)" and "wf_identity (fx_ed cx) (fx_me cx)"
    and e: "design_entry (fx_sha cx) (fx_ed cx) (fx_me cx) now pkg atts st m = Some (Some s)"
  shows "verify_signed_design cx s =
    or_fail (check_provenance (fx_ed cx) (cg_provenance (sd_record s))) (check_attestations (fx_ed cx) (fx_utcnow cx) (cg_attestations (sd_record s)))"
proof -
  have pk: "did_to_public_key (ni_did (fx_me cx)) = Inr (ed_pub (fx_ed cx) (private_key (fx_me cx)))"
    using assms(1,2) by (simp add: wf_identity_def key_did_def did_to_public_key_did ed_sound_def)
  obtain r d where s: "s = \<lparr>sd_record = sign_catalog_record (fx_ed cx) (fx_me cx) r, sd_manifest = d,
      sd_signature = hex (sign_json (fx_ed cx) (fx_me cx) (JObj d))\<rparr>"
    "cg_publisher r = ni_did (fx_me cx)" "cg_content_hash r = manifest_content_hash (fx_sha cx) d"
    using e by (auto simp: design_entry_def Let_def split: if_splits bind_splits)
  show ?thesis
    by (simp add: verify_signed_design_def Let_def s pk sign_json_def own_signature_checks [OF assms(1)] or_fail_def del: canonical_json.simps)
qed

lemma design_entry_facts:
  assumes "design_entry sha ed me now pkg atts st m = Some (Some s)"
  shows "is_shareable (Some (okh_get_visibility st (om_id m)))" "cg_manifest_id (sd_record s) = om_id m"
    "cg_publisher (sd_record s) = ni_did me" "manifest_to_dict m = Some (sd_manifest s)"
    "cg_content_hash (sd_record s) = manifest_content_hash sha (sd_manifest s)"
  using assms by (auto simp: design_entry_def Let_def split: if_splits bind_splits)

lemma index_entry:
  assumes "(h, s) \<in> set (di_signed (index_of_entries sha es))"
  shows "s \<in> set es \<and> cg_content_hash (sd_record s) = h"
proof -
  have "map_of (dict_by (\<lambda>s. cg_content_hash (sd_record s)) es) h = Some s"
    using assms by (auto simp: index_of_entries_def intro: map_of_is_SomeI)
  then have "find (\<lambda>s. cg_content_hash (sd_record s) = h) (rev es) = Some s" by (simp add: map_of_dict_by)
  then have "s \<in> set (rev es)" "cg_content_hash (sd_record s) = h" unfolding find_Some_iff by (metis nth_mem)+
  then show ?thesis by simp
qed

definition published_ok :: "federation_context \<Rightarrow> okh_state \<Rightarrow> string \<times> signed_design \<Rightarrow> bool" where
  "published_ok cx st e = (case e of (h, s) \<Rightarrow>
     is_shareable (Some (okh_get_visibility st (cg_manifest_id (sd_record s)))) \<and>
     cg_publisher (sd_record s) = ni_did (fx_me cx) \<and> h = cg_content_hash (sd_record s) \<and>
     h = manifest_content_hash (fx_sha cx) (sd_manifest s) \<and>
     jget (sd_manifest s) ''id'' = JStr (cg_manifest_id (sd_record s)) \<and>
     verify_signed_design cx s =
       or_fail (check_provenance (fx_ed cx) (cg_provenance (sd_record s))) (check_attestations (fx_ed cx) (fx_utcnow cx) (cg_attestations (sd_record s))))"

text \<open>
  C29: what a node publishes of its designs. Every record of the catalog is of a design whose visibility
  lets it leave the node, stands under the hash of the document it carries, names that document's id, and
  passes a receiver's check of signatures and hash, so that only a provenance or an attestation that does
  not verify can have it refused.
\<close>

theorem design_catalog_discloses:
  assumes "ed_sound (fx_ed cx)" and "wf_identity (fx_ed cx) (fx_me cx)" and b: "build_catalog_index cx node = (Some ix, node')"
  shows "list_all (published_ok cx (dn_designs node)) (di_signed ix)"
proof -
  obtain ms n st es where l: "okh_list (fx_md5 cx) (fx_draws cx) (fx_tick cx) 1 10000 (dn_designs node) = (Inr (ms, n), st)"
    and es: "map_opt (design_entry (fx_sha cx) (fx_ed cx) (fx_me cx) (fx_now cx) (fx_pkg cx) (dn_attestations node) st) ms = Some es"
    and ix: "ix = index_of_entries (fx_sha cx) (List.map_filter id es)"
    using b by (auto simp: build_catalog_index_def split: prod.splits sum.splits)
  have v: "okh_get_visibility st i = okh_get_visibility (dn_designs node) i" for i
    using list_keeps [OF l] by (simp add: okh_get_visibility_def)
  have "published_ok cx (dn_designs node) (h, s)" if "(h, s) \<in> set (di_signed ix)" for h s
  proof -
    from index_entry [OF that [unfolded ix]] have s: "Some s \<in> set es" "cg_content_hash (sd_record s) = h"
      by (auto simp: List.map_filter_def)
    from map_opt_set [OF es s(1)] obtain m where
      e: "design_entry (fx_sha cx) (fx_ed cx) (fx_me cx) (fx_now cx) (fx_pkg cx) (dn_attestations node) st m = Some (Some s)" by blast
    note f = design_entry_facts [OF e]
    have "jget (sd_manifest s) ''id'' = JStr (om_id m)"
      using written_gets [OF f(4)] by (auto simp: fields_values)
    with f s own_design_verifies [OF assms(1,2) e] v show ?thesis by (simp add: published_ok_def)
  qed
  then show ?thesis by (auto simp: list_all_iff)
qed

text \<open>
  C30: one design can take a node out of the federation. The catalog can be built exactly when the listing
  succeeds and every design that may leave the node can be written and has a title and a version that are
  texts; otherwise no digest of a peer is answered and no sync of a followed peer starts.
\<close>

theorem catalog_all_or_nothing:
  "(fst (build_catalog_index cx node) = None) =
     (case fst (okh_list (fx_md5 cx) (fx_draws cx) (fx_tick cx) 1 10000 (dn_designs node)) of
        Inl e \<Rightarrow> True
      | Inr (ms, n) \<Rightarrow> list_ex (\<lambda>m. is_shareable (Some (okh_get_visibility (dn_designs node) (om_id m))) \<and>
          (None \<in> set (om_contributors m) \<or> read_str (om_title m) = None \<or> read_str (om_version m) = None)) ms) \<and>
   (case fst (build_catalog_index cx (fn_node s)) of
      Some ix \<Rightarrow> True
    | None \<Rightarrow> fst (handle_sync_digest cx role digest s) = None \<and>
        fst (sync_with_peer cx allowed answer fetch (p\<lparr>ps_followed := True\<rparr>) s) = None)"
proof
  obtain r st where l: "okh_list (fx_md5 cx) (fx_draws cx) (fx_tick cx) 1 10000 (dn_designs node) = (r, st)" by force
  have v: "okh_get_visibility st i = okh_get_visibility (dn_designs node) i" for i
    using list_keeps [OF l] by (simp add: okh_get_visibility_def)
  have n: "map_opt f ms = None \<longleftrightarrow> list_ex (\<lambda>m. f m = None) ms" for f :: "design_manifest \<Rightarrow> signed_design option option" and ms
    by (induction ms) (auto split: bind_splits)
  show "(fst (build_catalog_index cx node) = None) =
     (case fst (okh_list (fx_md5 cx) (fx_draws cx) (fx_tick cx) 1 10000 (dn_designs node)) of
        Inl e \<Rightarrow> True
      | Inr (ms, n) \<Rightarrow> list_ex (\<lambda>m. is_shareable (Some (okh_get_visibility (dn_designs node) (om_id m))) \<and>
          (None \<in> set (om_contributors m) \<or> read_str (om_title m) = None \<or> read_str (om_version m) = None)) ms)"
    by (simp add: build_catalog_index_def l [simplified] n design_entry_cases v okh_unwritable split: sum.split prod.split)
  show "case fst (build_catalog_index cx (fn_node s)) of
      Some ix \<Rightarrow> True
    | None \<Rightarrow> fst (handle_sync_digest cx role digest s) = None \<and>
        fst (sync_with_peer cx allowed answer fetch (p\<lparr>ps_followed := True\<rparr>) s) = None"
    by (cases "build_catalog_index cx (fn_node s)") (auto simp: handle_sync_digest_def sync_with_peer_def split: option.split)
qed

section \<open>Ingest\<close>

lemma store_cases:
  assumes "verify_and_store_design cx fs local_hashes r node = (Inr (Stored h), node')"
  obtains st m st' where "is_followed fs (cg_publisher (sd_record r))" "verify_signed_design cx r = None"
    "h = cg_content_hash (sd_record r)" "h \<notin> set local_hashes"
    "design_get (fx_md5 cx) (fx_draws cx) (fx_tick cx) (cg_manifest_id (sd_record r)) (dn_designs node) = (Inr None, st)"
    "vr_valid (validate_okh_manifest (fx_exists cx) (fx_md5 cx) (fx_draws cx []) (sd_manifest r) ''professional'' False [])"
    "okh_create (fx_md5 cx) (fx_draws cx) (fx_tick cx) (sd_manifest r) None (cg_provenance (sd_record r)) st = (Inr m, st')"
    "node' = node\<lparr>dn_designs := st', dn_attestations := fold save_attestation (cg_attestations (sd_record r)) (dn_attestations node)\<rparr>"
  using assms
  by (auto simp: verify_and_store_design_def Let_def split: if_splits option.splits prod.splits sum.splits)

lemma create_result:
  assumes "okh_create md5 fr now data by' p st = (Inr m, st')"
  shows "manifest_from_dict md5 (fr []) data = Some m"
    "\<And>j. okh_get_visibility st' j = (if j = om_id m then PRIVATE else okh_get_visibility st j)"
    "\<And>j. okh_get_provenance st' j = (if j = om_id m \<and> p \<noteq> None then p else okh_get_provenance st j)"
  using assms
  by (auto simp: okh_create_def okh_store_def Let_def invalidate_catalog_cache_def okh_save_visibility_def okh_save_provenance_def
      put_object_def okh_get_visibility_def okh_get_provenance_def default_visibility_def update_conv' split: option.splits)

text \<open>
  C31: an ingest writes the id in the document, not the id of the record it was looked up under, and
  nobody compares the two. Whatever design of this node has the document's id loses its visibility,
  and its provenance is replaced by the sender's.
\<close>

theorem design_ingest_writes_any_id:
  assumes "verify_and_store_design cx fs local_hashes r node = (Inr (Stored h), node')"
    and "cg_provenance (sd_record r) = Some p"
  shows "\<exists>m. manifest_from_dict (fx_md5 cx) (fx_draws cx []) (sd_manifest r) = Some m \<and>
     okh_get_visibility (dn_designs node') (om_id m) = PRIVATE \<and> okh_get_provenance (dn_designs node') (om_id m) = Some p"
proof -
  from assms(1) show ?thesis
    by (rule store_cases) (use create_result assms(2) in fastforce)
qed

section \<open>A node to try it on\<close>

abbreviation lamp_id :: uuid where "lamp_id \<equiv> ''12345678-1234-1234-1234-123456789abc''"

definition demo_cx :: federation_context where
  "demo_cx =
     (let t = midnight \<lparr>date_year = 2026, date_month = 1, date_day = 1\<rparr>
      in \<lparr>fx_sha = (\<lambda>s. s), fx_md5 = id, fx_ed = toy_ed, fx_me = toy_key, fx_draws = (\<lambda>k n. lamp_id), fx_pkg = (\<lambda>i. None),
          fx_exists = (\<lambda>p. False), fx_now = t, fx_utcnow = t, fx_tick = 1\<rparr>)"

definition lamp_blob :: blob where
  "lamp_blob = \<lparr>bl_key = ''okh/lamp-okh.json'', bl_size = 2, bl_modified = 0, bl_metadata = [], bl_content = Some (JObj lamp_dict)\<rparr>"

definition demo_designs :: okh_state where "demo_designs = okh_start [lamp_blob] True [] 5 60 0"

definition peer_demo_node :: design_node where
  "peer_demo_node = \<lparr>dn_designs = demo_designs, dn_attestations = \<lparr>kv_objects = [], kv_index = None\<rparr>\<rparr>"

definition toy_follows :: federation_store where "toy_follows = save_follows [ni_did toy_key] empty_federation_store"

lemma demo_cx_simps [simp]:
  "fx_sha demo_cx = (\<lambda>s. s)" "fx_md5 demo_cx = id" "fx_ed demo_cx = toy_ed" "fx_me demo_cx = toy_key" "fx_draws demo_cx = (\<lambda>k n. lamp_id)"
  "fx_exists demo_cx = (\<lambda>p. False)" "fx_tick demo_cx = 1"
  by (simp_all add: demo_cx_def Let_def)

lemma demo_list:
  "case fst (okh_list id (\<lambda>k n. lamp_id) 1 1 10000 demo_designs) of
     Inr ([m], n) \<Rightarrow> om_title m = JStr ''Lamp'' \<and> om_version m = JStr ''1.0'' \<and> om_contributors m = [] | _ \<Rightarrow> False"
  by code_simp

lemma demo_visibility: "okh_get_visibility demo_designs i = FOLLOWERS"
  by (simp add: demo_designs_def okh_start_def okh_get_visibility_def legacy_visibility_def)

lemma peer_demo_index: "\<exists>ix node'. build_catalog_index demo_cx peer_demo_node = (Some ix, node') \<and> di_count ix = 1"
proof -
  obtain m n st where l: "okh_list id (\<lambda>k n. lamp_id) 1 1 10000 demo_designs = (Inr ([m], n), st)"
    and m: "om_title m = JStr ''Lamp''" "om_version m = JStr ''1.0''" "om_contributors m = []"
  proof -
    obtain r st where r: "okh_list id (\<lambda>k n. lamp_id) 1 1 10000 demo_designs = (r, st)" by force
    show thesis using demo_list that r unfolding r fst_conv by (auto split: sum.splits prod.splits list.splits)
  qed
  obtain d where d: "manifest_to_dict m = Some d" using okh_unwritable [of m] m(3) by auto
  have "okh_get_visibility st i = FOLLOWERS" for i
    using list_keeps [OF l] demo_visibility by (simp add: okh_get_visibility_def)
  then show ?thesis
    by (simp add: build_catalog_index_def peer_demo_node_def l [simplified] design_entry_def Let_def d m is_shareable_def index_of_entries_def List.map_filter_simps)
qed

theorem design_catalog_discloses_witness:
  "\<exists>ix node'. build_catalog_index demo_cx peer_demo_node = (Some ix, node') \<and> di_count ix = 1 \<and>
     list_all (published_ok demo_cx (dn_designs peer_demo_node)) (di_signed ix)"
proof -
  obtain ix node' where b: "build_catalog_index demo_cx peer_demo_node = (Some ix, node')" "di_count ix = 1" using peer_demo_index by blast
  from design_catalog_discloses [OF _ _ b(1)] toy_ed_sound toy_key_wf b show ?thesis by auto
qed

definition toy_design :: signed_design where
  "toy_design =
     \<lparr>sd_record = \<lparr>cg_manifest_id = ''00000000-0000-0000-0000-000000000000'', cg_content_hash = manifest_content_hash (\<lambda>s. s) lamp_dict,
        cg_title = ''Lamp'', cg_version = ''1.0'', cg_updated_at = fx_now demo_cx, cg_publisher = ni_did toy_key,
        cg_provenance = Some (synced_provenance (ni_did toy_key)), cg_attestations = [], cg_package = None, cg_signature = ''00''\<rparr>,
      sd_manifest = lamp_dict, sd_signature = ''00''\<rparr>"

lemma toy_design_verified: "is_followed toy_follows (cg_publisher (sd_record toy_design))" "verify_signed_design demo_cx toy_design = None"
proof -
  show "is_followed toy_follows (cg_publisher (sd_record toy_design))"
    by (simp add: toy_design_def toy_follows_def is_followed_def save_follows_def)
  have zero: "fromhex ''00'' = Some [0]" by code_simp
  have ok: "check_design_signature toy_ed pk ''00'' p f = None" for pk p f
    unfolding check_design_signature_def zero by (simp add: toy_ed_def)
  have "did_to_public_key (ni_did toy_key) = Inr (ed_pub toy_ed (private_key toy_key))"
    using toy_ed_sound by (simp add: toy_key_def generate_identity_def key_did_def did_to_public_key_did ed_sound_def)
  then show "verify_signed_design demo_cx toy_design = None"
    by (simp add: verify_signed_design_def Let_def toy_design_def ok or_fail_def check_provenance_def
        synced_provenance_def absent_def)
qed

lemma demo_unknown: "fst (design_get id (\<lambda>k n. lamp_id) 1 ''00000000-0000-0000-0000-000000000000'' demo_designs) = Inr None"
  by code_simp

lemma lamp_valid: "vr_valid (validate_okh_manifest (\<lambda>p. False) id (\<lambda>n. lamp_id) lamp_dict ''professional'' False [])"
  by code_simp

lemma lamp_title: "safe_title (om_title lamp) = Some ''lamp''"
  by code_simp

lemma lamp_stored: "\<exists>node'. verify_and_store_design demo_cx toy_follows [] toy_design peer_demo_node = (Inr (Stored (cg_content_hash (sd_record toy_design))), node')"
proof -
  obtain st where g: "design_get id (\<lambda>k n. lamp_id) 1 ''00000000-0000-0000-0000-000000000000'' demo_designs = (Inr None, st)"
    using demo_unknown by (metis prod.collapse)
  show ?thesis
    using toy_design_verified
    by (simp add: verify_and_store_design_def Let_def g peer_demo_node_def toy_design_def lamp_valid okh_create_def okh_store_def lamp_read lamp_title lamp_written)
qed

theorem design_ingest_writes_any_id_witness:
  "okh_get_visibility demo_designs lamp_id = FOLLOWERS \<and>
   (\<exists>node'. fst (verify_and_store_design demo_cx toy_follows [] toy_design peer_demo_node) = Inr (Stored (cg_content_hash (sd_record toy_design))) \<and>
      node' = snd (verify_and_store_design demo_cx toy_follows [] toy_design peer_demo_node) \<and>
      okh_get_visibility (dn_designs node') lamp_id = PRIVATE \<and>
      okh_get_provenance (dn_designs node') lamp_id = Some (synced_provenance (ni_did toy_key)))"
proof -
  obtain node' where s: "verify_and_store_design demo_cx toy_follows [] toy_design peer_demo_node = (Inr (Stored (cg_content_hash (sd_record toy_design))), node')"
    using lamp_stored by blast
  have "cg_provenance (sd_record toy_design) = Some (synced_provenance (ni_did toy_key))" by (simp add: toy_design_def)
  from design_ingest_writes_any_id [OF s this] obtain m where
    m: "manifest_from_dict id (\<lambda>n. lamp_id) lamp_dict = Some m" "okh_get_visibility (dn_designs node') (om_id m) = PRIVATE"
    "okh_get_provenance (dn_designs node') (om_id m) = Some (synced_provenance (ni_did toy_key))"
    by (auto simp: toy_design_def)
  have "m = lamp" using m(1) lamp_read by simp
  then have "om_id m = lamp_id" by (simp add: lamp_def manifest_of_def)
  with m s demo_visibility show ?thesis by simp
qed

section \<open>Ingesting twice\<close>

lemma saved_contributors: "om_contributors (saved_form m) = om_contributors m"
  by (simp add: saved_form_def)

lemma create_again:
  assumes "okh_create md5 fr now data by' p st = (Inr m, st')"
  shows "\<exists>st3. okh_create md5 fr now data by' p st2 = (Inr m, st3)"
  using assms by (auto simp: okh_create_def okh_store_def Let_def split: option.splits)

text \<open>
  C32: a design that was taken over is known from then on: when it is offered again it is skipped. The
  exception is a title that makes the file name begin with \<open>bom_\<close>: no look-up finds the design, and every
  sync stores it anew and counts it as pulled.
\<close>

theorem design_ingest_twice:
  assumes f: "\<forall>n. is_uuid (fx_draws cx [] n)" and coh: "catalog_coherent (fx_md5 cx) (dn_designs node)"
    and st: "verify_and_store_design cx fs known r node = (Inr (Stored h), node')"
    and m: "manifest_from_dict (fx_md5 cx) (fx_draws cx []) (sd_manifest r) = Some m" "cg_manifest_id (sd_record r) = om_id m"
    and s: "safe_title (om_title m) = Some safe" and h: "h \<notin> set known'"
    and u: "list_all (\<lambda>b. bl_key b = design_key safe (om_id m) \<or>
        design_id (fx_md5 cx) (fx_draws cx) (dn_designs node) (bl_key b) \<noteq> Some (om_id m)) (os_blobs (dn_designs node))"
  shows "\<exists>x. fst (verify_and_store_design cx fs known' r node') = Inr x \<and> (x = Stored h) = starts_with ''bom_'' safe"
proof -
  from st obtain st1 m' st2 where v: "is_followed fs (cg_publisher (sd_record r))" "verify_signed_design cx r = None"
    "h = cg_content_hash (sd_record r)"
    "vr_valid (validate_okh_manifest (fx_exists cx) (fx_md5 cx) (fx_draws cx []) (sd_manifest r) ''professional'' False [])"
    and g: "design_get (fx_md5 cx) (fx_draws cx) (fx_tick cx) (cg_manifest_id (sd_record r)) (dn_designs node) = (Inr None, st1)"
    and c: "okh_create (fx_md5 cx) (fx_draws cx) (fx_tick cx) (sd_manifest r) None (cg_provenance (sd_record r)) st1 = (Inr m', st2)"
    and n: "node' = node\<lparr>dn_designs := st2, dn_attestations := fold save_attestation (cg_attestations (sd_record r)) (dn_attestations node)\<rparr>"
    by (rule store_cases)
  have m': "m' = m" using create_result(1) [OF c] m by simp
  have coh1: "catalog_coherent (fx_md5 cx) st1" using okh_get_coherent [OF coh] g by (metis snd_conv)
  have b: "os_blobs st1 = os_blobs (dn_designs node)" using get_keeps [OF g] by simp
  have u1: "list_all (\<lambda>b. bl_key b = design_key safe (om_id m) \<or>
      design_id (fx_md5 cx) (fx_draws cx) st1 (bl_key b) \<noteq> Some (om_id m)) (os_blobs st1)"
    using u fixed_dict_cong [OF b] unfolding b by (simp add: design_id_def)
  have get: "fst (design_get (fx_md5 cx) (fx_draws cx) (fx_tick cx) (om_id m) st2) = Inr (if starts_with ''bom_'' safe then None else Some (saved_form m))"
    using created_then_get [OF f coh1 c [unfolded m'] s u1] by simp
  obtain st3 where g2: "design_get (fx_md5 cx) (fx_draws cx) (fx_tick cx) (om_id m) st2 = (Inr (if starts_with ''bom_'' safe then None else Some (saved_form m)), st3)"
    using get by (metis prod.collapse)
  show ?thesis
  proof (cases "starts_with ''bom_'' safe")
    case True
    obtain st4 where "okh_create (fx_md5 cx) (fx_draws cx) (fx_tick cx) (sd_manifest r) None (cg_provenance (sd_record r)) st3 = (Inr m, st4)"
      using create_again [OF c] m' by blast
    with True g2 v h show ?thesis by (simp add: verify_and_store_design_def Let_def n m(2))
  next
    case False
    have "manifest_to_dict m \<noteq> None" using c m' create_result(1) [OF c] by (auto simp: okh_create_def okh_store_def split: option.splits)
    then have "manifest_to_dict (saved_form m) \<noteq> None" by (metis okh_unwritable saved_contributors)
    with False g2 v h show ?thesis by (auto simp: verify_and_store_design_def Let_def n m(2))
  qed
qed

section \<open>Designs that cannot travel\<close>

text \<open>
  A design that names no manufacturing process can be kept, shared and published, but no peer ever
  takes it over: the ingest validates it at the professional level of the manufacturing domain, which
  every design with a title and a version but without a domain is taken for.
\<close>

theorem design_without_process_refused:
  assumes "is_followed fs (cg_publisher (sd_record r))" and "verify_signed_design cx r = None" and "cg_content_hash (sd_record r) \<notin> set known"
    and g: "fst (design_get (fx_md5 cx) (fx_draws cx) (fx_tick cx) (cg_manifest_id (sd_record r)) (dn_designs node)) = Inr None"
    and m: "manifest_from_dict (fx_md5 cx) (fx_draws cx []) (sd_manifest r) = Some m" "om_processes m = []"
    and "\<not> truthy (om_domain m)" and t: "om_title m \<noteq> JNull" "om_version m \<noteq> JNull"
  shows "fst (verify_and_store_design cx fs known r node) = Inl (DesignFault DesignInvalid)"
proof -
  obtain st where g': "design_get (fx_md5 cx) (fx_draws cx) (fx_tick cx) (cg_manifest_id (sd_record r)) (dn_designs node) = (Inr None, st)"
    using g by (metis prod.collapse)
  have "\<not> vr_valid (okh_report (fx_exists cx) ''professional'' False [] m)"
  proof (cases "manifest_to_dict m")
    case None
    then show ?thesis by (simp add: okh_report_def)
  next
    case (Some d)
    then have "detect_domain d ''manufacturing'' = ''manufacturing''"
      using shape_domain [of m d "''manufacturing''"] assms(7) t by simp
    with assms(7) have "manifest_domain [] m d = JStr ''manufacturing''" by (simp add: manifest_domain_def)
    then have "okh_report (fx_exists cx) ''professional'' False [] m = okh_report (fx_exists cx) ''professional'' False ''manufacturing'' m"
      by (simp add: okh_report_def Some manifest_domain_def [of "''manufacturing''"])
    then show ?thesis using manufacturing_verdict [OF Some] m(2) by simp
  qed
  then show ?thesis using assms(1-3) g' m(1) by (simp add: verify_and_store_design_def Let_def validate_okh_manifest_def)
qed

section \<open>What a sync may change and what it reports\<close>

lemma ingest_visibility:
  assumes "verify_and_store_design cx fs known r node = (x, node')"
  shows "okh_get_visibility (dn_designs node') j \<in> {okh_get_visibility (dn_designs node) j, PRIVATE}"
proof -
  have k: "okh_get_visibility st j = okh_get_visibility (dn_designs node) j"
    if "design_get (fx_md5 cx) (fx_draws cx) (fx_tick cx) (cg_manifest_id (sd_record r)) (dn_designs node) = (y, st)" for y st
    using get_keeps [OF that] by (simp add: okh_get_visibility_def)
  have c: "okh_get_visibility st' j \<in> {okh_get_visibility st j, PRIVATE}"
    if "okh_create (fx_md5 cx) (fx_draws cx) (fx_tick cx) (sd_manifest r) None (cg_provenance (sd_record r)) st = (y, st')" for y st st'
  proof (cases y)
    case (Inl e)
    then have "st' = st" using that by (auto simp: okh_create_def okh_store_def Let_def split: option.splits)
    then show ?thesis by simp
  next
    case (Inr m)
    then show ?thesis using create_result(2) [of _ _ _ _ _ _ st m st' j] that by auto
  qed
  show ?thesis
    using assms k c
    by (fastforce simp: verify_and_store_design_def Let_def split: if_splits option.splits prod.splits sum.splits)
qed

definition visibility_kept :: "design_node \<Rightarrow> design_node \<Rightarrow> bool" where
  "visibility_kept a b \<longleftrightarrow> (\<forall>j. okh_get_visibility (dn_designs b) j \<in> {okh_get_visibility (dn_designs a) j, PRIVATE})"

lemma visibility_kept_refl [simp]: "visibility_kept a a"
  by (simp add: visibility_kept_def)

lemma visibility_kept_trans: "visibility_kept a b \<Longrightarrow> visibility_kept b c \<Longrightarrow> visibility_kept a c"
  unfolding visibility_kept_def by (metis insert_iff singletonD)

lemma index_build_keeps: "build_catalog_index cx node = (x, node') \<Longrightarrow> visibility_kept node node'"
  using list_keeps by (auto simp: build_catalog_index_def visibility_kept_def okh_get_visibility_def split: prod.splits sum.splits)

lemma loop_facts:
  assumes "design_sync_loop cx fs fetch hs known res node = (x, node')"
  shows "visibility_kept node node' \<and>
     (case x of None \<Rightarrow> True | Some r \<Rightarrow> dy_peer r = dy_peer res \<and>
        dy_pulled r + dy_skipped r + length (dy_errors r) = dy_pulled res + dy_skipped res + length (dy_errors res) + length hs)"
  using assms
proof (induction cx fs fetch hs known res node rule: design_sync_loop.induct)
  case (2 cx fs fetch h hs known res node)
  have k: "visibility_kept node n" if "verify_and_store_design cx fs known r node = (y, n)" for r y n
    using ingest_visibility [OF that] by (simp add: visibility_kept_def)
  show ?case
  proof (cases "fetch h")
    case FetchBroken
    with 2 show ?thesis by (auto simp: sync_problem_def split: option.splits)
  next
    case NotARecord
    with 2 show ?thesis by auto
  next
    case (FetchedDesign r)
    obtain y n where y: "verify_and_store_design cx fs known r node = (y, n)" by force
    note IH = "2.IH"(2-) [OF FetchedDesign y [symmetric]]
    show ?thesis
    proof (cases y)
      case (Inl e)
      show ?thesis
      proof (cases e)
        case DesignCrash
        with Inl y FetchedDesign "2.prems" k [OF y] show ?thesis by auto
      next
        case (DesignFault w)
        with Inl y FetchedDesign "2.prems" have l: "design_sync_loop cx fs fetch hs known (sync_problem (RecordProblem h w) res) n = (x, node')" by simp
        from IH(1) [OF Inl DesignFault l] visibility_kept_trans [OF k [OF y]] show ?thesis
          by (auto simp: sync_problem_def split: option.splits)
      qed
    next
      case (Inr z)
      show ?thesis
      proof (cases z)
        case (Stored w)
        with Inr y FetchedDesign "2.prems" have l: "design_sync_loop cx fs fetch hs (h # known) (res\<lparr>dy_pulled := dy_pulled res + 1\<rparr>) n = (x, node')" by simp
        from IH(2) [OF Inr Stored l] visibility_kept_trans [OF k [OF y]] show ?thesis by (auto split: option.splits)
      next
        case (Skipped w v)
        with Inr y FetchedDesign "2.prems" have l: "design_sync_loop cx fs fetch hs known (res\<lparr>dy_skipped := dy_skipped res + 1\<rparr>) n = (x, node')" by simp
        from IH(3) [OF Inr Skipped l] visibility_kept_trans [OF k [OF y]] show ?thesis by (auto split: option.splits)
      qed
    qed
  qed
qed (auto split: option.split)

text \<open>The counters of pulls that a sync leaves alone: only \<open>record_sync_run\<close> changes them.\<close>

definition pull_counters :: "sync_metrics \<Rightarrow> nat \<times> nat \<times> nat \<times> (did \<times> nat) list" where
  "pull_counters m = (mt_runs m, mt_pulled m, mt_skipped m, mt_per_peer m)"

lemma sync_with_peer_facts:
  assumes "sync_with_peer cx allowed answer fetch p s = (x, s')"
  shows "visibility_kept (fn_node s) (fn_node s')" "pull_counters (fn_metrics s') = pull_counters (fn_metrics s)"
    "case x of None \<Rightarrow> True | Some r \<Rightarrow> dy_peer r = ps_did p \<and> (dy_pulled r + dy_skipped r = 0 \<or>
       (\<exists>d hs. answer d = Some hs \<and> dy_pulled r + dy_skipped r + length (dy_errors r) = length hs))"
proof -
  have "visibility_kept (fn_node s) (fn_node s') \<and> pull_counters (fn_metrics s') = pull_counters (fn_metrics s) \<and>
    (case x of None \<Rightarrow> True | Some r \<Rightarrow> dy_peer r = ps_did p \<and> (dy_pulled r + dy_skipped r = 0 \<or>
       (\<exists>d hs. answer d = Some hs \<and> dy_pulled r + dy_skipped r + length (dy_errors r) = length hs)))"
  proof (cases "\<not> ps_followed p \<and> \<not> is_followed (fn_store s) (ps_did p)")
    case True
    with assms show ?thesis by (auto simp: sync_with_peer_def sync_problem_def sync_start_def)
  next
    case followed: False
    obtain i node where b: "build_catalog_index cx (fn_node s) = (i, node)" by force
    note k = index_build_keeps [OF b]
    show ?thesis
    proof (cases i)
      case None
      with followed b k assms show ?thesis by (auto simp: sync_with_peer_def)
    next
      case (Some ix)
      let ?d = "design_digest ix (ni_did (fx_me cx))"
      show ?thesis
      proof (cases "allowed \<and> answer ?d \<noteq> None")
        case False
        with followed b k Some assms show ?thesis
          by (auto simp: sync_with_peer_def Let_def sync_problem_def sync_start_def pull_counters_def record_rate_limit_rejection_def
              record_outbound_digest_def split: if_splits)
      next
        case True
        then obtain hs where a: "allowed" "answer ?d = Some hs" by blast
        obtain y node' where l: "design_sync_loop cx (fn_store s) fetch hs (map cg_content_hash (di_records ix)) (sync_start p) node = (y, node')"
          by force
        from assms followed b Some a l have x: "x = y" "fn_node s' = node'" "fn_metrics s' = record_outbound_digest (fn_metrics s)"
          by (auto simp: sync_with_peer_def Let_def split: option.splits)
        show ?thesis
          using loop_facts [OF l] visibility_kept_trans [OF k] a(2) unfolding x
          by (auto simp: pull_counters_def record_outbound_digest_def sync_start_def split: option.splits)
      qed
    qed
  qed
  then show "visibility_kept (fn_node s) (fn_node s')" "pull_counters (fn_metrics s') = pull_counters (fn_metrics s)"
    "case x of None \<Rightarrow> True | Some r \<Rightarrow> dy_peer r = ps_did p \<and> (dy_pulled r + dy_skipped r = 0 \<or>
       (\<exists>d hs. answer d = Some hs \<and> dy_pulled r + dy_skipped r + length (dy_errors r) = length hs))" by blast+
qed

definition metrics_ok :: "sync_metrics \<Rightarrow> bool" where
  "metrics_ok m \<longleftrightarrow> distinct (keys (mt_per_peer m)) \<and> mt_pulled m = sum_list (vals (mt_per_peer m))"

lemma sum_vals_update:
  "distinct (keys m) \<Longrightarrow> sum_list (vals (AList.update d (count_of m d + n) m)) = sum_list (vals m) + n"
  by (induction m) (auto simp: count_of_def)

lemma record_sync_run_ok: "metrics_ok m \<Longrightarrow> metrics_ok (record_sync_run d pulled skipped background when m)"
  by (simp add: metrics_ok_def record_sync_run_def sum_vals_update distinct_keys_update)

lemma metrics_ok_cong: "pull_counters m = pull_counters m' \<Longrightarrow> metrics_ok m = metrics_ok m'"
  by (simp add: metrics_ok_def pull_counters_def)

definition round_counts :: "sync_metrics \<Rightarrow> design_sync_result list \<Rightarrow> sync_metrics \<Rightarrow> bool" where
  "round_counts m rs m' \<longleftrightarrow>
     mt_runs m' = mt_runs m + length rs \<and> mt_pulled m' = mt_pulled m + sum_list (map dy_pulled rs) \<and>
     mt_skipped m' = mt_skipped m + sum_list (map dy_skipped rs)"

lemma sync_round_facts:
  assumes "sync_round cx background channel ps s = (x, s')" and "metrics_ok (fn_metrics s)"
  shows "visibility_kept (fn_node s) (fn_node s') \<and> metrics_ok (fn_metrics s') \<and>
     (case x of None \<Rightarrow> True | Some rs \<Rightarrow> round_counts (fn_metrics s) rs (fn_metrics s'))"
  using assms
proof (induction ps arbitrary: s x s')
  case Nil
  then show ?case by (auto simp: round_counts_def)
next
  case (Cons p ps)
  show ?case
  proof (cases "\<not> ps_followed p \<and> \<not> is_followed (fn_store s) (ps_did p)")
    case True
    with Cons show ?thesis by auto
  next
    case followed: False
    define ch where "ch = channel (ps_did p)"
    obtain y s1 where y: "sync_with_peer cx (pc_allowed ch) (pc_answer ch) (pc_fetch ch) (p\<lparr>ps_followed := True\<rparr>) s = (y, s1)" by force
    note f = sync_with_peer_facts [OF y]
    have m1: "metrics_ok (fn_metrics s1)" using metrics_ok_cong [OF f(2)] Cons.prems(2) by simp
    show ?thesis
    proof (cases y)
      case None
      with followed y f(1) m1 Cons.prems(1) show ?thesis by (auto simp: ch_def Let_def)
    next
      case (Some res)
      let ?s2 = "record_sync_result (fx_now cx) background res s1"
      obtain z s3 where z: "sync_round cx background channel ps ?s2 = (z, s3)" by force
      have e: "x = map_option ((#) res) z" "s' = s3" using Cons.prems(1) followed y Some z by (auto simp: ch_def Let_def)
      have "metrics_ok (fn_metrics ?s2)" using m1 by (simp add: record_sync_result_def record_sync_run_ok)
      from Cons.IH [OF z this] f(1,2) show ?thesis
        unfolding e by (cases z) (auto simp: record_sync_result_def record_sync_run_def pull_counters_def round_counts_def intro: visibility_kept_trans)
    qed
  qed
qed

text \<open>
  C33: what a round of syncs with all followed peers may change. No peer can have a design of this node
  shown to more than before: every visibility stays or becomes private. The counters agree with each
  other afterwards, and when the round ends they have grown by exactly what its results report.
\<close>

theorem sync_round_accounts:
  assumes "metrics_ok (fn_metrics s)" and "sync_all_followed cx background channel s = (x, s')"
  shows "visibility_kept (fn_node s) (fn_node s') \<and> metrics_ok (fn_metrics s') \<and>
     (case x of None \<Rightarrow> True | Some rs \<Rightarrow> round_counts (fn_metrics s) rs (fn_metrics s'))"
  using sync_round_facts assms unfolding sync_all_followed_def by blast

definition no_metrics :: sync_metrics where
  "no_metrics = \<lparr>mt_pulled = 0, mt_skipped = 0, mt_runs = 0, mt_inbound = 0, mt_outbound = 0, mt_rejected = 0, mt_last = None,
     mt_background = None, mt_per_peer = []\<rparr>"

definition peer_demo_state :: federation_state where
  "peer_demo_state = \<lparr>fn_node = peer_demo_node, fn_store = upsert_peer toy_peer toy_follows, fn_metrics = no_metrics\<rparr>"

theorem sync_round_accounts_witness:
  "\<forall>channel. case sync_all_followed demo_cx True channel peer_demo_state of (x, s') \<Rightarrow>
     visibility_kept peer_demo_node (fn_node s') \<and> metrics_ok (fn_metrics s') \<and>
     (case x of None \<Rightarrow> True | Some rs \<Rightarrow> round_counts no_metrics rs (fn_metrics s'))"
proof
  fix channel
  obtain x s' where e: "sync_all_followed demo_cx True channel peer_demo_state = (x, s')" by force
  have d: "fn_metrics peer_demo_state = no_metrics" "fn_node peer_demo_state = peer_demo_node" by (simp_all add: peer_demo_state_def)
  then have "metrics_ok (fn_metrics peer_demo_state)" by (simp add: no_metrics_def metrics_ok_def)
  from sync_round_accounts [OF this e]
  show "case sync_all_followed demo_cx True channel peer_demo_state of (x, s') \<Rightarrow>
     visibility_kept peer_demo_node (fn_node s') \<and> metrics_ok (fn_metrics s') \<and>
     (case x of None \<Rightarrow> True | Some rs \<Rightarrow> round_counts no_metrics rs (fn_metrics s'))"
    unfolding e d by simp
qed

section \<open>Witnesses\<close>

lemma demo_coherent: "catalog_coherent id demo_designs"
  unfolding demo_designs_def by (rule okh_start_coherent) simp

text \<open>A record under the id of its own document, of a design the empty node does not have.\<close>

definition empty_node :: design_node where
  "empty_node = \<lparr>dn_designs = okh_start [] True [] 5 60 0, dn_attestations = \<lparr>kv_objects = [], kv_index = None\<rparr>\<rparr>"

definition honest_design :: signed_design where
  "honest_design = toy_design\<lparr>sd_record := (sd_record toy_design)\<lparr>cg_manifest_id := lamp_id\<rparr>\<rparr>"

definition plain_dict :: doc where
  "plain_dict = filter (\<lambda>(k, v). k \<noteq> ''manufacturing_processes'') lamp_dict"

definition plain_design :: signed_design where
  "plain_design = toy_design\<lparr>sd_record := (sd_record toy_design)\<lparr>cg_content_hash := manifest_content_hash (\<lambda>s. s) plain_dict\<rparr>, sd_manifest := plain_dict\<rparr>"

lemma toy_check: "check_design_signature toy_ed pk ''00'' p f = None"
proof -
  have zero: "fromhex ''00'' = Some [0]" by code_simp
  show ?thesis unfolding check_design_signature_def zero by (simp add: toy_ed_def)
qed

lemma toy_key_reads: "did_to_public_key (ni_did toy_key) = Inr (ed_pub toy_ed (private_key toy_key))"
  using toy_ed_sound by (simp add: toy_key_def generate_identity_def key_did_def did_to_public_key_did ed_sound_def)

lemma other_designs_verified:
  "is_followed toy_follows (cg_publisher (sd_record honest_design))" "verify_signed_design demo_cx honest_design = None"
  "is_followed toy_follows (cg_publisher (sd_record plain_design))" "verify_signed_design demo_cx plain_design = None"
  using toy_design_verified(1) toy_key_reads
  by (simp_all add: verify_signed_design_def Let_def honest_design_def plain_design_def toy_design_def toy_check or_fail_def
      check_provenance_def synced_provenance_def absent_def)

lemma empty_unknown: "fst (design_get id (\<lambda>k n. lamp_id) 1 lamp_id (okh_start [] True [] 5 60 0)) = Inr None"
  by code_simp

theorem design_ingest_twice_witness:
  "fst (verify_and_store_design demo_cx toy_follows [] honest_design empty_node) = Inr (Stored (cg_content_hash (sd_record honest_design))) \<and>
   (\<exists>w v. fst (verify_and_store_design demo_cx toy_follows [] honest_design
      (snd (verify_and_store_design demo_cx toy_follows [] honest_design empty_node))) = Inr (Skipped w v))"
proof -
  obtain st where g: "design_get id (\<lambda>k n. lamp_id) 1 lamp_id (okh_start [] True [] 5 60 0) = (Inr None, st)"
    using empty_unknown by (metis prod.collapse)
  have "\<exists>node'. verify_and_store_design demo_cx toy_follows [] honest_design empty_node = (Inr (Stored (cg_content_hash (sd_record honest_design))), node')"
    using other_designs_verified(1,2)
    by (simp add: verify_and_store_design_def Let_def g empty_node_def honest_design_def toy_design_def lamp_valid okh_create_def okh_store_def
        lamp_read lamp_title lamp_written)
  then obtain node' where s: "verify_and_store_design demo_cx toy_follows [] honest_design empty_node =
      (Inr (Stored (cg_content_hash (sd_record honest_design))), node')" by blast
  have l: "om_id lamp = lamp_id" by (simp add: lamp_def manifest_of_def)
  have c: "catalog_coherent id (okh_start [] True [] 5 60 0)" by (rule okh_start_coherent) simp
  have m: "manifest_from_dict (fx_md5 demo_cx) (fx_draws demo_cx []) (sd_manifest honest_design) = Some lamp"
    "cg_manifest_id (sd_record honest_design) = om_id lamp"
    using lamp_read by (simp_all add: honest_design_def toy_design_def l)
  from design_ingest_twice [OF _ _ s m lamp_title, of "[]"] lamp_uuid c
  obtain x where x: "fst (verify_and_store_design demo_cx toy_follows [] honest_design node') = Inr x"
    "x \<noteq> Stored (cg_content_hash (sd_record honest_design))"
    by (auto simp: empty_node_def okh_start_def starts_with_def)
  have "\<exists>w v. x = Skipped w v"
  proof (cases x)
    case (Stored w)
    with x(1) obtain n where "verify_and_store_design demo_cx toy_follows [] honest_design node' = (Inr (Stored w), n)" by (metis prod.collapse)
    then have "w = cg_content_hash (sd_record honest_design)" by (rule store_cases)
    with Stored x(2) show ?thesis by simp
  qed simp
  with s x(1) show ?thesis by auto
qed

lemma plain_read: "case manifest_from_dict id (\<lambda>n. lamp_id) plain_dict of None \<Rightarrow> False
   | Some m \<Rightarrow> om_processes m = [] \<and> \<not> truthy (om_domain m) \<and> om_title m \<noteq> JNull \<and> om_version m \<noteq> JNull"
  by code_simp

theorem design_without_process_refused_witness:
  "fst (verify_and_store_design demo_cx toy_follows [] plain_design peer_demo_node) = Inl (DesignFault DesignInvalid)"
proof -
  obtain m where m: "manifest_from_dict id (\<lambda>n. lamp_id) plain_dict = Some m" "om_processes m = []" "\<not> truthy (om_domain m)"
    "om_title m \<noteq> JNull" "om_version m \<noteq> JNull"
    using plain_read by (auto split: option.splits)
  show ?thesis
    by (rule design_without_process_refused [where m = m])
      (use m demo_unknown other_designs_verified(3,4) in \<open>simp_all add: plain_design_def toy_design_def peer_demo_node_def\<close>)
qed

end
