(* ===== verification/Mom_Cache.thy ===== *)
theory Mom_Cache imports Complex_Main begin

text \<open>
  \<open>MoMSpacesCache\<close> of \<open>services/mom_bridge.py\<close> with its callers. The coroutines run one at a time and give
  way only while they wait for the lock (a queue, first come first served) and while a fetch is under way, so
  an event is one stretch of code between two such points. \<open>Wake\<close> is the turn of the first in the queue after
  the lock was released; \<open>Gone\<close> is a caller whose task is cancelled. The clock is \<open>time.monotonic\<close>.
\<close>

section \<open>The cache\<close>

record mom_limits =
  ml_ttl :: rat
  ml_cooldown :: rat

definition default_mom_limits :: mom_limits where
  "default_mom_limits = \<lparr>ml_ttl = 24 * 60 * 60, ml_cooldown = 60\<rparr>"

record 'a mom_cache =
  mo_data :: "'a list option"
  mo_fetched :: rat
  mo_failed :: rat

definition empty_mom_cache :: "'a mom_cache" where
  "empty_mom_cache = \<lparr>mo_data = None, mo_fetched = 0, mo_failed = 0\<rparr>"

definition is_fresh :: "mom_limits \<Rightarrow> rat \<Rightarrow> 'a mom_cache \<Rightarrow> bool" where
  "is_fresh cfg now c \<longleftrightarrow> mo_data c \<noteq> None \<and> now - mo_fetched c < ml_ttl cfg"

definition in_failure_cooldown :: "mom_limits \<Rightarrow> rat \<Rightarrow> 'a mom_cache \<Rightarrow> bool" where
  "in_failure_cooldown cfg now c \<longleftrightarrow> 0 < mo_failed c \<and> now - mo_failed c < ml_cooldown cfg"

definition fetch_due :: "mom_limits \<Rightarrow> rat \<Rightarrow> 'a mom_cache \<Rightarrow> bool" where
  "fetch_due cfg now c \<longleftrightarrow> \<not> (is_fresh cfg now c \<or> in_failure_cooldown cfg now c)"

text \<open>The two ends of \<open>_refresh_locked\<close>, and \<open>invalidate\<close>.\<close>

definition fetch_succeeded :: "rat \<Rightarrow> 'a list \<Rightarrow> 'a mom_cache \<Rightarrow> 'a mom_cache" where
  "fetch_succeeded now xs c = c\<lparr>mo_data := Some xs, mo_fetched := now, mo_failed := 0\<rparr>"

definition fetch_failed :: "rat \<Rightarrow> 'a mom_cache \<Rightarrow> 'a mom_cache" where
  "fetch_failed now c = c\<lparr>mo_failed := now\<rparr>"

definition mom_invalidate :: "'a mom_cache \<Rightarrow> 'a mom_cache" where
  "mom_invalidate c = c\<lparr>mo_data := None, mo_fetched := 0, mo_failed := 0\<rparr>"

section \<open>Callers\<close>

text \<open>\<open>get(force_refresh)\<close> and \<open>refresh()\<close>, and what they return.\<close>

datatype mom_call = Get bool | Refresh

datatype 'a mom_answer = Spaces "'a list" bool | Refreshed bool

definition held :: "'a mom_cache \<Rightarrow> 'a mom_answer" where
  "held c = Spaces (case mo_data c of None \<Rightarrow> [] | Some xs \<Rightarrow> xs) (mo_data c \<noteq> None)"

definition answer_to :: "mom_call \<Rightarrow> bool \<Rightarrow> 'a mom_cache \<Rightarrow> 'a mom_answer" where
  "answer_to call ok c = (case call of Get f \<Rightarrow> held c | Refresh \<Rightarrow> Refreshed ok)"

definition must_fetch :: "mom_limits \<Rightarrow> rat \<Rightarrow> mom_call \<Rightarrow> 'a mom_cache \<Rightarrow> bool" where
  "must_fetch cfg now call c \<longleftrightarrow> call \<noteq> Get False \<or> fetch_due cfg now c"

record 'a mom_state =
  ms_cache :: "'a mom_cache"
  ms_now :: rat
  ms_running :: "(nat \<times> mom_call) option"
  ms_waiting :: "(nat \<times> mom_call) list"

definition mom_start :: "rat \<Rightarrow> 'a mom_state" where
  "mom_start t = \<lparr>ms_cache = empty_mom_cache, ms_now = t, ms_running = None, ms_waiting = []\<rparr>"

text \<open>What can be seen from outside: requests sent to MoM and answers to callers.\<close>

datatype 'a mom_sight = FetchSent nat | Answered nat "'a mom_answer"

datatype 'a mom_event = Tick rat | Call nat mom_call | Wake | Fetched "'a list" | FetchBroken | Gone nat | Invalidated

text \<open>The body of \<open>async with self._lock\<close> up to the fetch, or to the end when none is due.\<close>

definition mom_enter :: "mom_limits \<Rightarrow> nat \<times> mom_call \<Rightarrow> 'a mom_state \<Rightarrow> 'a mom_state \<times> 'a mom_sight list" where
  "mom_enter cfg w s =
     (if must_fetch cfg (ms_now s) (snd w) (ms_cache s) then (s\<lparr>ms_running := Some w\<rparr>, [FetchSent (fst w)])
      else (s, [Answered (fst w) (held (ms_cache s))]))"

definition mom_arrive :: "mom_limits \<Rightarrow> nat \<times> mom_call \<Rightarrow> 'a mom_state \<Rightarrow> 'a mom_state \<times> 'a mom_sight list" where
  "mom_arrive cfg w s =
     (if \<not> must_fetch cfg (ms_now s) (snd w) (ms_cache s) then (s, [Answered (fst w) (held (ms_cache s))])
      else if snd w = Get False \<and> mo_data (ms_cache s) \<noteq> None \<and> ms_running s \<noteq> None then (s, [Answered (fst w) (held (ms_cache s))])
      else if ms_running s = None \<and> ms_waiting s = [] then mom_enter cfg w s
      else (s\<lparr>ms_waiting := ms_waiting s @ [w]\<rparr>, []))"

definition mom_done :: "bool \<Rightarrow> nat \<times> mom_call \<Rightarrow> 'a mom_cache \<Rightarrow> 'a mom_state \<Rightarrow> 'a mom_state \<times> 'a mom_sight list" where
  "mom_done ok w c s = (s\<lparr>ms_cache := c, ms_running := None\<rparr>, [Answered (fst w) (answer_to (snd w) ok c)])"

text \<open>One event; \<open>None\<close> when it cannot happen in this state.\<close>

fun mom_step :: "mom_limits \<Rightarrow> 'a mom_event \<Rightarrow> 'a mom_state \<Rightarrow> ('a mom_state \<times> 'a mom_sight list) option" where
  "mom_step cfg (Tick d) s = (if d < 0 then None else Some (s\<lparr>ms_now := ms_now s + d\<rparr>, []))"
| "mom_step cfg (Call i call) s = Some (mom_arrive cfg (i, call) s)"
| "mom_step cfg Wake s =
     (case (ms_running s, ms_waiting s) of
        (None, w # ws) \<Rightarrow> Some (mom_enter cfg w (s\<lparr>ms_waiting := ws\<rparr>))
      | _ \<Rightarrow> None)"
| "mom_step cfg (Fetched xs) s =
     map_option (\<lambda>w. mom_done True w (fetch_succeeded (ms_now s) xs (ms_cache s)) s) (ms_running s)"
| "mom_step cfg FetchBroken s =
     map_option (\<lambda>w. mom_done False w (fetch_failed (ms_now s) (ms_cache s)) s) (ms_running s)"
| "mom_step cfg (Gone i) s =
     Some (s\<lparr>ms_running := (case ms_running s of None \<Rightarrow> None | Some w \<Rightarrow> if fst w = i then None else Some w),
             ms_waiting := filter (\<lambda>w. fst w \<noteq> i) (ms_waiting s)\<rparr>, [])"
| "mom_step cfg Invalidated s = Some (s\<lparr>ms_cache := mom_invalidate (ms_cache s)\<rparr>, [])"

fun mom_run :: "mom_limits \<Rightarrow> 'a mom_event list \<Rightarrow> 'a mom_state \<Rightarrow> ('a mom_state \<times> 'a mom_sight list) option" where
  "mom_run cfg [] s = Some (s, [])"
| "mom_run cfg (e # es) s =
     (case mom_step cfg e s of
        None \<Rightarrow> None
      | Some (s1, out) \<Rightarrow> map_option (\<lambda>(s2, rest). (s2, out @ rest)) (mom_run cfg es s1))"

end
