(* ===== verification/Network_Spaces.thy ===== *)
theory Network_Spaces imports Okw_Class Mom_Cache begin

text \<open>
  The network surface: the rows of Maps of Making (\<open>services/mom_bridge.py\<close>), country names
  (\<open>utils/country_names.py\<close>), and the spaces of \<open>services/okw_service.py\<close>, local facilities and those of MoM, with
  their filters. \<open>tx\<close> is the process taxonomy, \<open>fl\<close> Python's \<open>float\<close> on a text, \<open>u5\<close> the UUID5 of an address.
  A number is kept as its text; \<open>None\<close> is an exception.
\<close>

section \<open>Rows of Maps of Making\<close>

record mom_space =
  mom_iri :: json
  mom_name :: json
  mom_lat :: string
  mom_lon :: string
  mom_city :: json
  mom_country :: json
  mom_status :: json
  mom_url :: json
  mom_processes :: "string list"

text \<open>The ids of known processes, each once, in the order they are met.\<close>

definition add_process :: "taxonomy \<Rightarrow> string list \<Rightarrow> string \<Rightarrow> string list" where
  "add_process tx acc s = (case normalize tx s of None \<Rightarrow> acc | Some c \<Rightarrow> if c = [] \<or> c \<in> set acc then acc else acc @ [c])"

definition normalize_process_tags :: "taxonomy \<Rightarrow> string \<Rightarrow> string list" where
  "normalize_process_tags tx tags = foldl (add_process tx) [] (filter (\<lambda>s. s \<noteq> []) (map strip (split_char (CHR ''|'') tags)))"

text \<open>\<open>binding[k]["value"]\<close>, and \<open>_cell\<close>, which raises on a cell that is no dict.\<close>

definition cell_value :: "doc \<Rightarrow> string \<Rightarrow> json option" where
  "cell_value b k = (case map_of b k of Some (JObj c) \<Rightarrow> map_of c ''value'' | _ \<Rightarrow> None)"

definition mom_cell :: "doc \<Rightarrow> string \<Rightarrow> json option" where
  "mom_cell b k = do { c \<leftarrow> as_dict (get_default b k (JObj [])); Some (py_or (jget c ''value'') JNull) }"

definition float_text :: "float_reader \<Rightarrow> json \<Rightarrow> string option" where
  "float_text fl j =
     (case j of
        JStr s \<Rightarrow> map_option snd (fl s)
      | JInt i \<Rightarrow> map_option snd (fl (int_text i))
      | JFloat s \<Rightarrow> Some s
      | JBool b \<Rightarrow> Some (if b then ''1.0'' else ''0.0'')
      | _ \<Rightarrow> None)"

definition row_point :: "float_reader \<Rightarrow> json \<Rightarrow> (doc \<times> string \<times> string) option" where
  "row_point fl row =
     do { b \<leftarrow> as_dict row; lat \<leftarrow> Option.bind (cell_value b ''lat'') (float_text fl);
          lon \<leftarrow> Option.bind (cell_value b ''lon'') (float_text fl); Some (b, lat, lon) }"

text \<open>A row without a point is skipped; one without an address, or with odd cells, breaks the fetch.\<close>

definition mom_row :: "float_reader \<Rightarrow> taxonomy \<Rightarrow> json \<Rightarrow> mom_space option option" where
  "mom_row fl tx row =
     (case row_point fl row of
        None \<Rightarrow> Some None
      | Some (b, lat, lon) \<Rightarrow>
          do { iri \<leftarrow> cell_value b ''space''; nm \<leftarrow> mom_cell b ''name''; ci \<leftarrow> mom_cell b ''city''; co \<leftarrow> mom_cell b ''country'';
               st \<leftarrow> mom_cell b ''state''; url \<leftarrow> mom_cell b ''url''; tags \<leftarrow> mom_cell b ''tags'';
               ps \<leftarrow> (case py_or tags (JStr []) of JStr s \<Rightarrow> Some (normalize_process_tags tx s) | _ \<Rightarrow> None);
               Some (Some \<lparr>mom_iri = iri, mom_name = py_or nm (JStr []), mom_lat = lat, mom_lon = lon, mom_city = ci, mom_country = co,
                  mom_status = st, mom_url = url, mom_processes = ps\<rparr>) })"

definition fetch_all_mom_spaces :: "float_reader \<Rightarrow> taxonomy \<Rightarrow> json \<Rightarrow> mom_space list option" where
  "fetch_all_mom_spaces fl tx reply =
     do { d \<leftarrow> as_dict reply; r \<leftarrow> as_dict (get_default d ''results'' (JObj []));
          rows \<leftarrow> items_of (get_default r ''bindings'' (JList [])); spaces \<leftarrow> map_opt (mom_row fl tx) rows;
          Some (List.map_filter id spaces) }"

section \<open>Country names\<close>

definition country_names :: "(string \<times> string) list" where
  "country_names =
     [(''AD'', ''Andorra''), (''AE'', ''United Arab Emirates''), (''AR'', ''Argentina''), (''AT'', ''Austria''), (''AU'', ''Australia''),
      (''BE'', ''Belgium''), (''BR'', ''Brazil''), (''CA'', ''Canada''), (''CH'', ''Switzerland''), (''CL'', ''Chile''), (''CN'', ''China''),
      (''CO'', ''Colombia''), (''CZ'', ''Czechia''), (''DE'', ''Germany''), (''DK'', ''Denmark''), (''ES'', ''Spain''), (''FI'', ''Finland''),
      (''FR'', ''France''), (''GB'', ''United Kingdom''), (''GR'', ''Greece''), (''HK'', ''Hong Kong''), (''HU'', ''Hungary''), (''IE'', ''Ireland''),
      (''IL'', ''Israel''), (''IN'', ''India''), (''IT'', ''Italy''), (''JP'', ''Japan''), (''KR'', ''South Korea''), (''MX'', ''Mexico''),
      (''NL'', ''Netherlands''), (''NO'', ''Norway''), (''NZ'', ''New Zealand''), (''PL'', ''Poland''), (''PT'', ''Portugal''), (''RO'', ''Romania''),
      (''RU'', ''Russia''), (''SE'', ''Sweden''), (''SG'', ''Singapore''), (''TH'', ''Thailand''), (''TR'', ''Turkey''), (''TW'', ''Taiwan''),
      (''UA'', ''Ukraine''), (''US'', ''United States''), (''USA'', ''United States''), (''ZA'', ''South Africa'')]"

text \<open>\<open>_BY_NAME\<close>: of two codes with one name the later stays.\<close>

definition code_by_name :: "(string \<times> string) list" where
  "code_by_name = rev (map (\<lambda>(c, n). (lower n, c)) country_names)"

definition display_country_name :: "json \<Rightarrow> string" where
  "display_country_name raw =
     (if \<not> truthy raw \<or> strip (str_of raw) = [] then []
      else let s = strip (str_of raw) in case map_of country_names (upper s) of None \<Rightarrow> s | Some n \<Rightarrow> n)"

definition country_match_key :: "json \<Rightarrow> string" where
  "country_match_key raw =
     (if \<not> truthy raw \<or> strip (str_of raw) = [] then []
      else let s = strip (str_of raw) in
        case map_of country_names (upper s) of
          Some n \<Rightarrow> lower n
        | None \<Rightarrow> (case Option.bind (map_of code_by_name (lower s)) (map_of country_names) of Some n \<Rightarrow> lower n | None \<Rightarrow> lower s))"

definition countries_match :: "json \<Rightarrow> json \<Rightarrow> bool" where
  "countries_match a b \<longleftrightarrow> country_match_key a \<noteq> [] \<and> country_match_key a = country_match_key b"

section \<open>Spaces\<close>

record net_space =
  ns_id :: json
  ns_name :: json
  ns_point :: "(string \<times> string) option"
  ns_city :: json
  ns_region :: json
  ns_country :: json
  ns_source :: string
  ns_status :: json
  ns_processes :: "string list"
  ns_access :: json
  ns_url :: json
  ns_facility :: manufacturing_facility

definition status_normalized :: "(string \<times> string) list" where
  "status_normalized =
     [(''active'', ''active''), (''confirmed'', ''active''), (''planned'', ''tentative''), (''seeded'', ''tentative''),
      (''temporary closure'', ''tentative''), (''closed'', ''inactive''), (''inactive'', ''inactive'')]"

definition normalize_status :: "json \<Rightarrow> json option" where
  "normalize_status j =
     (if \<not> truthy j then Some JNull
      else case j of
        JStr s \<Rightarrow>
          (let key = lower (strip s) in
           Some (case map_of status_normalized key of Some v \<Rightarrow> JStr v | None \<Rightarrow> if key = [] then JNull else JStr key))
      | _ \<Rightarrow> None)"

text \<open>Entries that are no text are no process.\<close>

definition canonical_processes :: "taxonomy \<Rightarrow> json \<Rightarrow> string list option" where
  "canonical_processes tx j =
     do { ps \<leftarrow> items_of (py_or j (JList []));
          Some (foldl (\<lambda>acc p. case p of JStr s \<Rightarrow> add_process tx acc s | _ \<Rightarrow> acc) [] ps) }"

definition address_part :: "(address \<Rightarrow> json) \<Rightarrow> location \<Rightarrow> json" where
  "address_part part l = (case lc_address l of None \<Rightarrow> JNull | Some a \<Rightarrow> part a)"

definition shown_country :: "json \<Rightarrow> json" where
  "shown_country raw = py_or (JStr (display_country_name raw)) raw"

definition local_facility_to_space :: "float_reader \<Rightarrow> taxonomy \<Rightarrow> bool \<Rightarrow> manufacturing_facility \<Rightarrow> net_space option option" where
  "local_facility_to_space fl tx require_coords f =
     (let l = mf_location f; point = parse_decimal_degrees fl (lc_gps l)
      in if point = None \<and> require_coords then Some None
         else do { st \<leftarrow> normalize_status (JStr (facility_status_value (mf_status f))); ps \<leftarrow> canonical_processes tx (mf_processes f);
                   Some (Some
                     \<lparr>ns_id = JStr (mf_id f), ns_name = mf_name f, ns_point = point, ns_city = py_or (address_part ad_city l) (lc_city l),
                      ns_region = py_or (address_part ad_region l) (lc_region l),
                      ns_country = shown_country (py_or (address_part ad_country l) (lc_country l)), ns_source = ''local'', ns_status = st,
                      ns_processes = ps, ns_access = JStr (access_value (mf_access f)),
                      ns_url = (case mf_owner f of None \<Rightarrow> JNull | Some a \<Rightarrow> ag_website a), ns_facility = f\<rparr>) })"

definition mom_stub_facility :: "(string \<Rightarrow> uuid) \<Rightarrow> mom_space \<Rightarrow> manufacturing_facility" where
  "mom_stub_facility u5 s =
     \<lparr>mf_name = mom_name s,
      mf_location = \<lparr>lc_address = None, lc_gps = JStr (mom_lat s @ '', '' @ mom_lon s), lc_directions = JNull, lc_what3words = None,
        lc_city = JNull, lc_region = JNull, lc_country = JNull\<rparr>,
      mf_status = ACTIVE, mf_id = u5 (str_of (mom_iri s)), mf_owner = None, mf_contact = None, mf_affiliations = [], mf_hours = JNull,
      mf_description = JNull, mf_founded = None, mf_access = RESTRICTED, mf_wheelchair = JNull, mf_equipment = [],
      mf_processes = JList (map JStr (mom_processes s)), mf_batch = None, mf_floor = JNull, mf_storage = JNull, mf_materials = [],
      mf_certifications = JList [], mf_generator = JBool False, mf_ups = JBool False, mf_road = JBool False, mf_dock = JBool False,
      mf_schedule = JNull, mf_products = JList [], mf_partners = [], mf_reviews = JList [], mf_circular = no_circular,
      mf_headcount = JNull, mf_innovation = no_innovation, mf_record = None, mf_domain = JNull\<rparr>"

definition mom_space_to_space :: "(string \<Rightarrow> uuid) \<Rightarrow> mom_space \<Rightarrow> net_space option" where
  "mom_space_to_space u5 s =
     do { st \<leftarrow> normalize_status (mom_status s);
          Some \<lparr>ns_id = mom_iri s, ns_name = mom_name s, ns_point = Some (mom_lat s, mom_lon s), ns_city = mom_city s, ns_region = JNull,
            ns_country = shown_country (mom_country s), ns_source = ''mom'', ns_status = st, ns_processes = mom_processes s,
            ns_access = JNull, ns_url = mom_url s, ns_facility = mom_stub_facility u5 s\<rparr> }"

section \<open>Filters\<close>

text \<open>The filters of a request; an empty text is a filter that is not set.\<close>

record net_filter =
  nf_country :: string
  nf_city :: string
  nf_process :: string
  nf_source :: string
  nf_status :: string
  nf_region :: string
  nf_access :: string

definition no_filter :: net_filter where
  "no_filter = \<lparr>nf_country = [], nf_city = [], nf_process = [], nf_source = [], nf_status = [], nf_region = [], nf_access = []\<rparr>"

definition fold_case :: "string \<Rightarrow> string" where
  "fold_case s = lower (strip s)"

text \<open>\<open>_ci(city) in _ci(value)\<close>.\<close>

definition city_in :: "string \<Rightarrow> json \<Rightarrow> bool option" where
  "city_in want j =
     (if \<not> truthy j then Some False
      else case j of JStr s \<Rightarrow> Some (contains (fold_case want) (fold_case s)) | _ \<Rightarrow> code_in (fold_case want) j)"

text \<open>One of the filters only local spaces can answer: whether it excludes the space, whether it leaves it open.\<close>

definition axis_excludes :: "string \<Rightarrow> json \<Rightarrow> bool" where
  "axis_excludes want have \<longleftrightarrow>
     want \<noteq> [] \<and> have \<noteq> JNull \<and> (case have of JStr s \<Rightarrow> fold_case s \<noteq> fold_case want | _ \<Rightarrow> True)"

definition axis_open :: "string \<Rightarrow> json \<Rightarrow> bool" where
  "axis_open want have \<longleftrightarrow> want \<noteq> [] \<and> have = JNull"

text \<open>Whether a space is kept and, if so, whether it is ambiguous.\<close>

definition space_verdict :: "net_filter \<Rightarrow> net_space \<Rightarrow> bool option option" where
  "space_verdict f s =
     (if nf_source f \<noteq> [] \<and> ns_source s \<noteq> nf_source f then Some None
      else if nf_country f \<noteq> [] \<and> \<not> countries_match (ns_country s) (JStr (nf_country f)) then Some None
      else do { ok \<leftarrow> (if nf_city f = [] then Some True else city_in (nf_city f) (ns_city s));
                if \<not> ok then Some None
                else if nf_status f \<noteq> [] \<and> ns_status s \<noteq> JStr (fold_case (nf_status f)) then Some None
                else if nf_process f \<noteq> [] \<and> nf_process f \<notin> set (ns_processes s) then Some None
                else if axis_excludes (nf_region f) (ns_region s) \<or> axis_excludes (nf_access f) (ns_access s) then Some None
                else Some (Some (axis_open (nf_region f) (ns_region s) \<or> axis_open (nf_access f) (ns_access s))) })"

definition filter_network_spaces :: "net_filter \<Rightarrow> net_space list \<Rightarrow> (net_space \<times> bool) list option" where
  "filter_network_spaces f spaces =
     do { vs \<leftarrow> map_opt (space_verdict f) spaces;
          Some (sort_key snd (List.map_filter (\<lambda>(s, v). map_option (Pair s) v) (zip spaces vs))) }"

section \<open>The surface\<close>

text \<open>The pages of the facility listing, until one is empty or short.\<close>

function load_pages :: "'f facility_model \<Rightarrow> okw_store \<Rightarrow> nat \<Rightarrow> nat \<Rightarrow> 'f list" where
  "load_pages fm st page n =
     (let got = fst (okw_list fm st page n)
      in if got = [] then [] else if length got < n then got else got @ load_pages fm st (page + 1) n)"
  by auto
termination
proof (relation "measure (\<lambda>(fm, st, page, n). (Suc (length (okw_list_all fm st)) - (page - 1) * n) + (if page = 0 then 1 else 0))")
  fix fm :: "'f facility_model" and st page n got
  assume "got = fst (okw_list fm st page n)" "got \<noteq> []"
  then have "0 < n" "(page - 1) * n < length (okw_list_all fm st)" by (auto simp: okw_list_def Let_def)
  then show "((fm, st, page + 1, n), fm, st, page, n) \<in>
      measure (\<lambda>(fm, st, page, n). (Suc (length (okw_list_all fm st)) - (page - 1) * n) + (if page = 0 then 1 else 0))"
    by (cases page) auto
qed auto

declare load_pages.simps [simp del]

text \<open>All spaces before filtering, with the number of local ones without a point; \<open>mom\<close> is what the cache answers.\<close>

definition load_network_candidates ::
  "float_reader \<Rightarrow> taxonomy \<Rightarrow> (string \<Rightarrow> uuid) \<Rightarrow> bool \<Rightarrow> (mom_space list \<times> bool) option \<Rightarrow> manufacturing_facility facility_model \<Rightarrow> okw_store \<Rightarrow>
   (net_space list \<times> nat \<times> bool) option" where
  "load_network_candidates fl tx u5 require_coords mom fm st =
     do { locals \<leftarrow> map_opt (local_facility_to_space fl tx require_coords) (load_pages fm st 1 500);
          (ms, available) \<leftarrow> Some (case mom of None \<Rightarrow> ([], False) | Some m \<Rightarrow> m);
          remote \<leftarrow> map_opt (mom_space_to_space u5) ms;
          Some (List.map_filter id locals @ remote, length (filter (\<lambda>x. x = None) locals), available) }"

record network_answer =
  na_spaces :: "(net_space \<times> bool) list"
  na_local :: nat
  na_mom :: nat
  na_dropped :: nat
  na_available :: bool

definition get_network_spaces ::
  "float_reader \<Rightarrow> taxonomy \<Rightarrow> (string \<Rightarrow> uuid) \<Rightarrow> (mom_space list \<times> bool) option \<Rightarrow> manufacturing_facility facility_model \<Rightarrow> okw_store \<Rightarrow>
   net_filter \<Rightarrow> network_answer option" where
  "get_network_spaces fl tx u5 mom fm st f =
     do { (candidates, dropped, available) \<leftarrow> load_network_candidates fl tx u5 True mom fm st;
          spaces \<leftarrow> filter_network_spaces f candidates;
          Some \<lparr>na_spaces = spaces, na_local = length (filter (\<lambda>(s, a). ns_source s = ''local'') spaces),
             na_mom = length (filter (\<lambda>(s, a). ns_source s = ''mom'') spaces), na_dropped = dropped, na_available = available\<rparr> }"

text \<open>The facilities to match against; \<open>ids\<close> are the ids of spaces to keep, all when there are none.\<close>

definition get_network_match_facilities ::
  "float_reader \<Rightarrow> taxonomy \<Rightarrow> (string \<Rightarrow> uuid) \<Rightarrow> bool \<Rightarrow> (mom_space list \<times> bool) option \<Rightarrow> manufacturing_facility facility_model \<Rightarrow> okw_store \<Rightarrow>
   net_filter \<Rightarrow> string list \<Rightarrow> manufacturing_facility list option" where
  "get_network_match_facilities fl tx u5 require_coords mom fm st f ids =
     do { (candidates, dropped, available) \<leftarrow> load_network_candidates fl tx u5 require_coords mom fm st;
          spaces \<leftarrow> filter_network_spaces f candidates;
          Some (map (\<lambda>(s, a). ns_facility s) (filter (\<lambda>(s, a). ids = [] \<or> str_of (ns_id s) \<in> set ids) spaces)) }"

end
