(* ===== verification/Mom_Cache_Facts.thy ===== *)
theory Mom_Cache_Facts imports Mom_Cache begin

text \<open>What the cache of the Maps of Making spaces guarantees to its callers and to the remote service.\<close>

lemmas mom_times = is_fresh_def in_failure_cooldown_def fetch_due_def

section \<open>How often the remote service is asked\<close>

definition fetches :: "'a mom_sight list \<Rightarrow> nat" where
  "fetches out = length (filter (\<lambda>x. case x of FetchSent i \<Rightarrow> True | _ \<Rightarrow> False) out)"

lemma fetches_simps [simp]:
  "fetches [] = 0" "fetches (FetchSent i # out) = Suc (fetches out)" "fetches (Answered i a # out) = fetches out"
  "fetches (out @ out') = fetches out + fetches out'"
  by (simp_all add: fetches_def)

text \<open>The events that excuse a further request: a caller who insists, a cancelled caller, an invalidation.\<close>

definition excuse :: "'a mom_event \<Rightarrow> bool" where
  "excuse e = (case e of Call i c \<Rightarrow> c \<noteq> Get False | Gone i \<Rightarrow> True | Invalidated \<Rightarrow> True | _ \<Rightarrow> False)"

definition excuses :: "'a mom_event list \<Rightarrow> nat" where
  "excuses es = length (filter excuse es)"

definition forced_waiting :: "'a mom_state \<Rightarrow> nat" where
  "forced_waiting s = length (filter (\<lambda>w. snd w \<noteq> Get False) (ms_waiting s))"

definition gap :: "mom_limits \<Rightarrow> rat" where
  "gap cfg = min (ml_ttl cfg) (ml_cooldown cfg)"

text \<open>
  \<open>k\<close> requests beyond the excused ones were sent since \<open>t0\<close>: they took \<open>k - 1\<close> gaps, and while none is under
  way the next unforced one is not due before \<open>k\<close> gaps have passed.
\<close>

definition paced :: "mom_limits \<Rightarrow> rat \<Rightarrow> rat \<Rightarrow> 'a mom_state \<Rightarrow> bool" where
  "paced cfg t0 k s \<longleftrightarrow>
     t0 \<le> ms_now s \<and> (k - 1) * gap cfg \<le> ms_now s - t0 \<and>
     (ms_running s = None \<longrightarrow> (\<forall>t \<ge> ms_now s. fetch_due cfg t (ms_cache s) \<longrightarrow> k * gap cfg \<le> t - t0))"

lemma paced_less:
  assumes "paced cfg t0 k s" "k' \<le> k" "0 \<le> gap cfg"
  shows "paced cfg t0 k' s"
proof -
  have "k' * gap cfg \<le> k * gap cfg" "(k' - 1) * gap cfg \<le> (k - 1) * gap cfg"
    using assms(2,3) by (simp_all add: mult_right_mono)
  with assms(1) show ?thesis unfolding paced_def by (meson order_trans)
qed

text \<open>An excuse pays for any one change of the cache or of the running fetch.\<close>

lemma paced_excused:
  assumes "paced cfg t0 k s" "ms_now s' = ms_now s" "0 \<le> gap cfg" "k' \<le> k - 1"
  shows "paced cfg t0 k' s'"
proof -
  have "k' * gap cfg \<le> (k - 1) * gap cfg" "(k' - 1) * gap cfg \<le> (k - 1) * gap cfg"
    using assms(3,4) by (simp_all add: mult_right_mono)
  with assms(1,2) show ?thesis by (force simp: paced_def)
qed

lemma paced_fetch_ends:
  assumes "paced cfg t0 k s" "\<And>t. ms_now s \<le> t \<Longrightarrow> fetch_due cfg t c \<Longrightarrow> ms_now s + gap cfg \<le> t"
  shows "paced cfg t0 k (s\<lparr>ms_cache := c, ms_running := None\<rparr>)"
proof -
  have "k * gap cfg \<le> ms_now s + gap cfg - t0" using assms(1) by (simp add: paced_def algebra_simps)
  with assms show ?thesis by (force simp: paced_def)
qed

lemma due_after_success: "fetch_due cfg t (fetch_succeeded now xs c) \<Longrightarrow> now + gap cfg \<le> t"
  by (auto simp: mom_times fetch_succeeded_def gap_def)

lemma due_after_failure: "fetch_due cfg t (fetch_failed now c) \<Longrightarrow> 0 < now \<Longrightarrow> now + gap cfg \<le> t"
  by (auto simp: mom_times fetch_failed_def gap_def)

text \<open>Entering the lock: a request that is not excused was due.\<close>

lemma paced_enter:
  assumes "paced cfg t0 k s" "mom_enter cfg w s = (s', out)" "ms_running s = None"
  shows "paced cfg t0 (if snd w = Get False then k + of_nat (fetches out) else k) s' \<and>
    (snd w \<noteq> Get False \<longrightarrow> fetches out = 1) \<and> ms_waiting s' = ms_waiting s"
  using assms by (auto simp: mom_enter_def must_fetch_def paced_def split: if_splits)

lemma mom_arrive_cases:
  assumes "mom_arrive cfg w s = (s', out)"
  obtains (answered) "s' = s" "fetches out = 0"
    | (entered) "mom_enter cfg w s = (s', out)" "ms_running s = None"
    | (queued) "s' = s\<lparr>ms_waiting := ms_waiting s @ [w]\<rparr>" "out = []"
proof -
  from assms have "s' = s \<and> out = [Answered (fst w) (held (ms_cache s))] \<or> mom_enter cfg w s = (s', out) \<and> ms_running s = None \<or>
      s' = s\<lparr>ms_waiting := ms_waiting s @ [w]\<rparr> \<and> out = []"
    unfolding mom_arrive_def by (fastforce split: if_split_asm)
  then show thesis using that by fastforce
qed

definition balance :: "'a mom_event \<Rightarrow> rat" where
  "balance e = (if excuse e then 1 else 0)"

lemma paced_step:
  assumes "paced cfg t0 (k + of_nat (forced_waiting s)) s" and st: "mom_step cfg e s = Some (s', out)"
    and "0 < t0" and g: "0 \<le> gap cfg"
  shows "paced cfg t0 (k + of_nat (fetches out) - balance e + of_nat (forced_waiting s')) s'"
proof (cases e)
  case (Tick d)
  with assms show ?thesis by (auto simp: paced_def forced_waiting_def balance_def excuse_def split: if_splits)
next
  case (Call i call)
  have "mom_arrive cfg (i, call) s = (s', out)" using st Call by simp
  then show ?thesis
  proof (cases rule: mom_arrive_cases)
    case answered
    then show ?thesis using assms(1) g Call by (auto simp: balance_def intro: paced_less)
  next
    case entered
    from paced_enter [OF assms(1) entered] show ?thesis
      using Call by (auto simp: balance_def excuse_def forced_waiting_def algebra_simps split: if_splits)
  next
    case queued
    then show ?thesis using assms(1) Call by (auto simp: balance_def excuse_def forced_waiting_def paced_def algebra_simps)
  qed
next
  case Wake
  then obtain w ws where w: "ms_running s = None" "ms_waiting s = w # ws" "mom_enter cfg w (s\<lparr>ms_waiting := ws\<rparr>) = (s', out)"
    using st by (auto split: option.splits list.splits)
  have "paced cfg t0 (k + of_nat (forced_waiting s)) (s\<lparr>ms_waiting := ws\<rparr>)" using assms(1) by (simp add: paced_def)
  from paced_enter [OF this w(3)] show ?thesis
    using w Wake by (auto simp: balance_def excuse_def forced_waiting_def algebra_simps split: if_splits)
next
  case (Fetched xs)
  then show ?thesis using st assms(1) paced_fetch_ends [OF assms(1) due_after_success]
    by (auto simp: mom_done_def balance_def excuse_def forced_waiting_def)
next
  case FetchBroken
  have "0 < ms_now s" using assms(1,3) by (auto simp: paced_def)
  then show ?thesis using st assms(1) paced_fetch_ends [OF assms(1) due_after_failure] FetchBroken
    by (auto simp: mom_done_def balance_def excuse_def forced_waiting_def)
next
  case (Gone i)
  have "forced_waiting s' \<le> forced_waiting s"
    using st Gone by (auto simp: forced_waiting_def length_filter_le filter_filter conj_commute
      intro: order_trans [OF _ length_filter_le [of "\<lambda>w. fst w \<noteq> i"]])
  moreover have "ms_now s' = ms_now s" "out = []" using st Gone by auto
  ultimately show ?thesis
    using Gone by (intro paced_excused [OF assms(1)]) (auto simp: g balance_def excuse_def)
next
  case Invalidated
  then show ?thesis using st
    by (intro paced_excused [OF assms(1)]) (auto simp: g balance_def excuse_def forced_waiting_def)
qed

lemma excuses_Cons: "of_nat (excuses (e # es)) = balance e + (of_nat (excuses es) :: rat)"
  by (simp add: excuses_def balance_def)

lemma paced_run:
  "mom_run cfg es s = Some (s', out) \<Longrightarrow> paced cfg t0 (k + of_nat (forced_waiting s)) s \<Longrightarrow> 0 < t0 \<Longrightarrow> 0 \<le> gap cfg \<Longrightarrow>
   paced cfg t0 (k + of_nat (fetches out) - of_nat (excuses es) + of_nat (forced_waiting s')) s'"
proof (induction es arbitrary: s out k)
  case Nil
  then show ?case by (simp add: excuses_def)
next
  case (Cons e es)
  then obtain s1 out1 out2 where st: "mom_step cfg e s = Some (s1, out1)" and r: "mom_run cfg es s1 = Some (s', out2)" "out = out1 @ out2"
    by (auto split: option.splits)
  from Cons.IH [OF r(1) paced_step [OF Cons.prems(2) st Cons.prems(3,4)] Cons.prems(3,4)] show ?case
    by (simp add: r(2) excuses_Cons algebra_simps)
qed

text \<open>
  C35: how often the remote service is asked, whatever callers come and however their turns interleave. In
  any run from the empty cache, one request is free; every further one was excused by a caller who insisted, by
  a cancelled caller or by an invalidation, or the smaller of the two waiting times had gone by for it.
\<close>

theorem mom_fetch_budget:
  assumes "mom_run cfg es (mom_start t0) = Some (s', out)" and "0 < t0" and "0 \<le> gap cfg"
  shows "of_nat (fetches out) * gap cfg \<le> (1 + of_nat (excuses es)) * gap cfg + (ms_now s' - t0)"
proof -
  have "paced cfg t0 (0 + of_nat (forced_waiting (mom_start t0))) (mom_start t0 :: 'a mom_state)"
    using assms(3) by (simp add: paced_def mom_start_def forced_waiting_def)
  from paced_run [OF assms(1) this assms(2,3)]
  have "(of_nat (fetches out) - of_nat (excuses es) + of_nat (forced_waiting s') - 1) * gap cfg \<le> ms_now s' - t0"
    by (simp add: paced_def)
  moreover have "(of_nat (fetches out) - of_nat (excuses es) - 1) * gap cfg \<le>
      (of_nat (fetches out) - of_nat (excuses es) + of_nat (forced_waiting s') - 1) * gap cfg"
    using assms(3) by (intro mult_right_mono) simp_all
  ultimately show ?thesis by (simp add: algebra_simps)
qed

theorem mom_fetch_budget_witness:
  "mom_run default_mom_limits [Call 1 (Get False), Tick 15, Call 2 (Get False), FetchBroken, Wake, Tick 60, Call 3 (Get False)] (mom_start 1) =
     Some (\<lparr>ms_cache = \<lparr>mo_data = None, mo_fetched = 0, mo_failed = 16\<rparr>, ms_now = 76, ms_running = Some (3, Get False), ms_waiting = []\<rparr>,
           [FetchSent 1, Answered 1 (Spaces [] False), Answered 2 (Spaces [] False), FetchSent (3 :: nat)]) \<and>
   of_nat 2 * gap default_mom_limits \<le> (1 + of_nat 0) * gap default_mom_limits + (76 - 1)"
  (is "?r = Some (?s, ?out) \<and> _")
proof -
  have r: "?r = Some (?s, ?out)"
    by (simp add: mom_start_def mom_arrive_def mom_enter_def mom_done_def must_fetch_def mom_times empty_mom_cache_def fetch_failed_def
        answer_to_def held_def default_mom_limits_def)
  then show ?thesis
    using mom_fetch_budget [OF r] by (simp add: gap_def default_mom_limits_def excuses_def excuse_def)
qed

section \<open>Callers that wait\<close>

lemma quiet_turn:
  assumes "\<not> fetch_due cfg (ms_now s + d) (ms_cache s)" "0 \<le> d" "ms_running s = None" "ms_waiting s = w # ws" "snd w = Get False"
  shows "mom_run cfg (Tick d # Wake # es) s =
     map_option (\<lambda>(s2, rest). (s2, Answered (fst w) (held (ms_cache s)) # rest)) (mom_run cfg es (s\<lparr>ms_now := ms_now s + d, ms_waiting := ws\<rparr>))"
  using assms by (simp add: mom_enter_def must_fetch_def case_prod_unfold option.map_comp comp_def)

definition turns :: "rat list \<Rightarrow> 'a mom_event list" where
  "turns ds = concat (map (\<lambda>d. [Tick d, Wake]) ds)"

lemma quiet_turns:
  assumes "\<And>t. t \<le> ms_now s + sum_list ds \<Longrightarrow> \<not> fetch_due cfg t (ms_cache s)" "list_all (\<lambda>d. 0 \<le> d) ds" "ms_running s = None"
    "length (ms_waiting s) = length ds" "list_all (\<lambda>w. snd w = Get False) (ms_waiting s)"
  shows "mom_run cfg (turns ds) s =
     Some (s\<lparr>ms_now := ms_now s + sum_list ds, ms_waiting := []\<rparr>, map (\<lambda>w. Answered (fst w) (held (ms_cache s))) (ms_waiting s))"
  using assms
proof (induction ds arbitrary: s)
  case Nil
  then show ?case by (simp add: turns_def)
next
  case (Cons d ds)
  then obtain w ws where w: "ms_waiting s = w # ws" by (cases "ms_waiting s") auto
  have p: "0 \<le> sum_list ds" using Cons.prems(2) by (simp add: list_all_iff sum_list_nonneg)
  have "mom_run cfg (turns ds) (s\<lparr>ms_now := ms_now s + d, ms_waiting := ws\<rparr>) =
      Some (s\<lparr>ms_now := ms_now s + d + sum_list ds, ms_waiting := []\<rparr>, map (\<lambda>w. Answered (fst w) (held (ms_cache s))) ws)"
    using Cons.IH [of "s\<lparr>ms_now := ms_now s + d, ms_waiting := ws\<rparr>"] Cons.prems w by (simp add: add.assoc)
  then show ?case
    using quiet_turn [of cfg s d w ws "turns ds"] Cons.prems w p by (simp add: turns_def add.assoc)
qed

definition fetch_end :: "rat \<Rightarrow> 'a list option \<Rightarrow> 'a mom_cache \<Rightarrow> 'a mom_cache" where
  "fetch_end now r c = (case r of None \<Rightarrow> fetch_failed now c | Some xs \<Rightarrow> fetch_succeeded now xs c)"

definition end_event :: "'a list option \<Rightarrow> 'a mom_event" where
  "end_event r = (case r of None \<Rightarrow> FetchBroken | Some xs \<Rightarrow> Fetched xs)"

lemma not_due_after_end:
  assumes "t - now < gap cfg" "0 < now"
  shows "\<not> fetch_due cfg t (fetch_end now r c)"
  using assms by (cases r) (auto simp: fetch_end_def mom_times fetch_failed_def fetch_succeeded_def gap_def)



section \<open>What callers are told\<close>

text \<open>An answer with data carries the data held at the start or the result of a fetch of the run.\<close>

definition told :: "'a list \<Rightarrow> 'a mom_event list \<Rightarrow> 'a mom_sight \<Rightarrow> bool" where
  "told ys es x = (case x of Answered i (Spaces xs b) \<Rightarrow> b \<and> (xs = ys \<or> Fetched xs \<in> set es) | _ \<Rightarrow> True)"

lemma told_answers:
  assumes "mo_data c = Some zs" "zs = ys \<or> Fetched zs \<in> set es"
  shows "told ys es (Answered i (held c))" "told ys es (Answered i (answer_to call ok c))"
  using assms by (cases call; auto simp: told_def held_def answer_to_def)+

lemma told_sent [simp]: "told ys es (FetchSent i)"
  by (simp add: told_def)

lemma told_step:
  assumes "mom_step cfg e s = Some (s', out)" "mo_data (ms_cache s) = Some ys" "e \<noteq> Invalidated"
  shows "\<exists>zs. mo_data (ms_cache s') = Some zs \<and> (zs = ys \<or> e = Fetched zs) \<and> list_all (told ys [e]) out"
  using assms
  by (cases e) (auto simp: mom_arrive_def mom_enter_def mom_done_def fetch_succeeded_def fetch_failed_def told_answers
      split: if_splits option.splits list.splits)

text \<open>
  Once spaces were fetched, every caller is told that spaces are available and gets a list that was held or
  fetched, however many fetches break afterwards; only an invalidation ends this.
\<close>

theorem mom_data_kept:
  assumes "mom_run cfg es s = Some (s', out)" and "mo_data (ms_cache s) = Some ys" and "list_all (\<lambda>e. e \<noteq> Invalidated) es"
  shows "mo_data (ms_cache s') \<noteq> None \<and> list_all (told ys es) out"
  using assms
proof (induction es arbitrary: s ys out)
  case Nil
  then show ?case by simp
next
  case (Cons e es)
  then obtain s1 out1 out2 where st: "mom_step cfg e s = Some (s1, out1)" and r: "mom_run cfg es s1 = Some (s', out2)" "out = out1 @ out2"
    by (auto split: option.splits)
  have e: "e \<noteq> Invalidated" "list_all (\<lambda>e. e \<noteq> Invalidated) es" using Cons.prems(3) by simp_all
  from told_step [OF st Cons.prems(2) e(1)] obtain zs where
    z: "mo_data (ms_cache s1) = Some zs" "zs = ys \<or> e = Fetched zs" "list_all (told ys [e]) out1" by blast
  have "told ys [e] x \<Longrightarrow> told ys (e # es) x" "told zs es x \<Longrightarrow> told ys (e # es) x" for x
    using z(2) by (auto simp: told_def split: mom_sight.splits mom_answer.splits)
  then show ?case using Cons.IH [OF r(1) z(1) e(2)] z(3) by (auto simp: r(2) list_all_iff)
qed

text \<open>
  An invalidation during a fetch is lost. When the fetch that was already under way ends, its result
  counts as fresh, and the next caller gets it without a new request.
\<close>

theorem mom_invalidation_lost:
  assumes "ms_running s = Some w" and "0 < ml_ttl cfg"
  shows "mom_run cfg [Invalidated, Fetched xs, Call j (Get False)] s =
     (let c = \<lparr>mo_data = Some xs, mo_fetched = ms_now s, mo_failed = 0\<rparr>
      in Some (s\<lparr>ms_cache := c, ms_running := None\<rparr>, [Answered (fst w) (answer_to (snd w) True c), Answered j (Spaces xs True)]))"
proof -
  have "fetch_succeeded (ms_now s) xs (mom_invalidate (ms_cache s)) = \<lparr>mo_data = Some xs, mo_fetched = ms_now s, mo_failed = 0\<rparr>"
    by (cases "ms_cache s") (simp add: fetch_succeeded_def mom_invalidate_def)
  with assms show ?thesis by (simp add: mom_done_def mom_arrive_def must_fetch_def mom_times held_def Let_def)
qed

end
