(* ===== verification/Network_Facts.thy ===== *)
theory Network_Facts imports Network_Spaces Mom_Cache_Facts begin

text \<open>What the network surface shows: its pages, its filters, and how it agrees with the facilities matched against.\<close>

section \<open>Pages\<close>

lemma load_pages_drop:
  "0 < n \<Longrightarrow> 1 \<le> page \<Longrightarrow> load_pages fm st page n = drop ((page - 1) * n) (okw_list_all fm st)"
proof (induction fm st page n rule: load_pages.induct)
  case (1 fm st page n)
  let ?rest = "drop ((page - 1) * n) (okw_list_all fm st)"
  have g: "fst (okw_list fm st page n) = take n ?rest" by (simp add: okw_list_def Let_def)
  have s: "(page + 1 - 1) * n = n + (page - 1) * n" using 1(3) by (cases page) simp_all
  have u: "load_pages fm st page n =
      (if take n ?rest = [] then [] else if length (take n ?rest) < n then take n ?rest else take n ?rest @ load_pages fm st (page + 1) n)"
    by (subst load_pages.simps) (simp only: g Let_def)
  show ?case
  proof (cases "length (take n ?rest) < n")
    case True
    then have "take n ?rest = ?rest" "length ?rest < n" by simp_all
    then show ?thesis unfolding u by (cases "?rest = []") (simp_all del: drop_eq_Nil)
  next
    case False
    then have "take n ?rest \<noteq> []" using 1(2) by auto
    with False have e: "load_pages fm st (page + 1) n = drop n ?rest"
      using 1(1) [OF refl] 1(2) g s by (simp add: drop_drop)
    show ?thesis unfolding u e using False \<open>take n ?rest \<noteq> []\<close> by (simp only: if_False append_take_drop_id)
  qed
qed

lemma load_all: "load_pages fm st 1 500 = okw_list_all fm st"
  using load_pages_drop [of 500 1] by simp

section \<open>Filters\<close>

lemma map_opt_Some: "map_opt f xs = Some ys \<longleftrightarrow> list_all2 (\<lambda>x y. f x = Some y) xs ys"
proof (induction xs arbitrary: ys)
  case (Cons x xs)
  then show ?case by (cases "f x"; cases "map_opt f xs") (auto simp: list_all2_Cons1)
qed auto

lemma map_opt_None: "map_opt f xs = None \<longleftrightarrow> list_ex (\<lambda>x. f x = None) xs"
  by (induction xs) (auto split: bind_splits)

lemma insort_flag:
  "list_all (\<lambda>y. \<not> f y) xs \<Longrightarrow> list_all f ys \<Longrightarrow> insort_key f x (xs @ ys) = (if f x then xs @ x # ys else x # xs @ ys)"
  by (induction xs) (cases ys; auto)+

lemma sort_by_flag: "sort_key f xs = filter (\<lambda>x. \<not> f x) xs @ filter f xs"
  by (induction xs) (simp_all add: insort_flag list_all_iff)

definition kept_as :: "net_filter \<Rightarrow> bool \<Rightarrow> net_space list \<Rightarrow> net_space list" where
  "kept_as f a spaces = filter (\<lambda>s. space_verdict f s = Some (Some a)) spaces"

lemma flagged:
  "list_all2 (\<lambda>s v. space_verdict f s = Some v) spaces vs \<Longrightarrow>
   filter (\<lambda>x. snd x = a) (List.map_filter (\<lambda>(s, v). map_option (Pair s) v) (zip spaces vs)) = map (\<lambda>s. (s, a)) (kept_as f a spaces)"
  by (induction rule: list_all2_induct) (auto simp: kept_as_def List.map_filter_def)

lemma filter_result:
  "filter_network_spaces f spaces =
     (if list_ex (\<lambda>s. space_verdict f s = None) spaces then None
      else Some (map (\<lambda>s. (s, False)) (kept_as f False spaces) @ map (\<lambda>s. (s, True)) (kept_as f True spaces)))"
proof (cases "map_opt (space_verdict f) spaces")
  case None
  then have "list_ex (\<lambda>s. space_verdict f s = None) spaces" using map_opt_None by blast
  then show ?thesis by (simp add: filter_network_spaces_def None)
next
  case (Some vs)
  then have "\<not> list_ex (\<lambda>s. space_verdict f s = None) spaces" by (metis map_opt_None option.distinct(1))
  moreover have "list_all2 (\<lambda>s v. space_verdict f s = Some v) spaces vs" using Some by (simp add: map_opt_Some)
  from flagged [OF this, of True] flagged [OF this, of False] have
    "sort_key snd (List.map_filter (\<lambda>(s, v). map_option (Pair s) v) (zip spaces vs)) =
     map (\<lambda>s. (s, False)) (kept_as f False spaces) @ map (\<lambda>s. (s, True)) (kept_as f True spaces)"
    by (simp add: sort_by_flag)
  ultimately show ?thesis by (simp add: filter_network_spaces_def Some)
qed

lemma filter_unset: "filter_network_spaces no_filter spaces = Some (map (\<lambda>s. (s, False)) spaces)"
proof -
  have "space_verdict no_filter s = Some (Some False)" for s
    by (simp add: space_verdict_def no_filter_def axis_excludes_def axis_open_def)
  then show ?thesis by (simp add: filter_result kept_as_def list_ex_iff)
qed

text \<open>
  What the filters keep. The result is the spaces that answer every filter, in the order they came, followed
  by those of which a region or an access type was asked that they do not state; it fails only on a city
  that is neither a text nor a collection. Without filters every space is kept, unmarked and in place.
\<close>

theorem network_filter_result:
  "filter_network_spaces f spaces =
     (if list_ex (\<lambda>s. space_verdict f s = None) spaces then None
      else Some (map (\<lambda>s. (s, False)) (filter (\<lambda>s. space_verdict f s = Some (Some False)) spaces) @
                 map (\<lambda>s. (s, True)) (filter (\<lambda>s. space_verdict f s = Some (Some True)) spaces))) \<and>
   (space_verdict f s = None) =
     ((nf_source f = [] \<or> nf_source f = ns_source s) \<and> (nf_country f = [] \<or> countries_match (ns_country s) (JStr (nf_country f))) \<and>
      nf_city f \<noteq> [] \<and> (case ns_city s of JBool b \<Rightarrow> b | JInt i \<Rightarrow> i \<noteq> 0 | JFloat x \<Rightarrow> truthy (JFloat x) | _ \<Rightarrow> False)) \<and>
   filter_network_spaces no_filter spaces = Some (map (\<lambda>s. (s, False)) spaces)"
proof (intro conjI)
  show "(space_verdict f s = None) =
     ((nf_source f = [] \<or> nf_source f = ns_source s) \<and> (nf_country f = [] \<or> countries_match (ns_country s) (JStr (nf_country f))) \<and>
      nf_city f \<noteq> [] \<and> (case ns_city s of JBool b \<Rightarrow> b | JInt i \<Rightarrow> i \<noteq> 0 | JFloat x \<Rightarrow> truthy (JFloat x) | _ \<Rightarrow> False))"
    by (cases "ns_city s") (auto simp: space_verdict_def city_in_def code_in_def split: bind_splits)
qed (simp add: filter_result kept_as_def, rule filter_unset)

section \<open>The map and the matching\<close>

definition has_point :: "net_space \<Rightarrow> bool" where
  "has_point s \<longleftrightarrow> ns_point s \<noteq> None"

lemma no_point: "(\<not> has_point s) = (ns_point s = None)"
  by (cases "ns_point s") (simp_all add: has_point_def)

definition pointed :: "net_space \<Rightarrow> net_space option" where
  "pointed s = (if has_point s then Some s else None)"

lemma local_space_point:
  assumes "local_facility_to_space fl tx False f = Some x"
  shows "\<exists>s. x = Some s \<and> local_facility_to_space fl tx True f = Some (pointed s)"
proof -
  from assms obtain s where "x = Some s" and p: "ns_point s = parse_decimal_degrees fl (lc_gps (mf_location f))"
    by (auto simp: local_facility_to_space_def Let_def split: bind_splits)
  moreover have "local_facility_to_space fl tx True f =
      (if parse_decimal_degrees fl (lc_gps (mf_location f)) = None then Some None else local_facility_to_space fl tx False f)"
    by (simp add: local_facility_to_space_def Let_def)
  ultimately show ?thesis using assms by (simp add: pointed_def has_point_def)
qed

lemma local_spaces_point:
  "map_opt (local_facility_to_space fl tx False) fs = Some xs \<Longrightarrow>
   \<exists>ss. xs = map Some ss \<and> map_opt (local_facility_to_space fl tx True) fs = Some (map pointed ss)"
proof (induction fs arbitrary: xs)
  case Nil
  then show ?case by simp
next
  case (Cons f fs)
  then obtain x ys where x: "local_facility_to_space fl tx False f = Some x" "map_opt (local_facility_to_space fl tx False) fs = Some ys" "xs = x # ys"
    by (auto split: bind_splits)
  from local_space_point [OF x(1)] Cons.IH [OF x(2)] obtain s ss where
    "x = Some s" "local_facility_to_space fl tx True f = Some (pointed s)" "ys = map Some ss"
    "map_opt (local_facility_to_space fl tx True) fs = Some (map pointed ss)" by blast
  then show ?case using x(3) by (intro exI [of _ "s # ss"]) simp
qed

lemma pointed_lists:
  "List.map_filter id (map Some ss) = ss" "List.map_filter id (map pointed ss) = filter has_point ss"
  "filter (\<lambda>x. x = None) (map Some ss) = []"
  "filter ((\<lambda>x. x = None) \<circ> pointed) ss = filter (\<lambda>s. \<not> has_point s) ss"
  by (induction ss) (simp_all add: List.map_filter_def pointed_def)

lemma mom_spaces_pointed: "map_opt (mom_space_to_space u5) ms = Some xs \<Longrightarrow> list_all has_point xs"
  by (induction ms arbitrary: xs) (auto simp: mom_space_to_space_def has_point_def split: bind_splits)

lemma candidates_pointed:
  assumes "load_network_candidates fl tx u5 False mom fm st = Some (cs, d, av)"
  shows "load_network_candidates fl tx u5 True mom fm st = Some (filter has_point cs, length (filter (\<lambda>s. \<not> has_point s) cs), av) \<and> d = 0"
proof -
  obtain xs ms remote where x: "map_opt (local_facility_to_space fl tx False) (load_pages fm st 1 500) = Some xs"
    and m: "(case mom of None \<Rightarrow> ([], False) | Some m \<Rightarrow> m) = (ms, av)" "map_opt (mom_space_to_space u5) ms = Some remote"
    and c: "cs = List.map_filter id xs @ remote" "d = length (filter (\<lambda>x. x = None) xs)"
    using assms by (auto simp: load_network_candidates_def split: bind_splits prod.splits)
  from local_spaces_point [OF x] obtain ss where
    s: "xs = map Some ss" "map_opt (local_facility_to_space fl tx True) (load_pages fm st 1 500) = Some (map pointed ss)" by blast
  have "filter has_point remote = remote" "filter (\<lambda>s. \<not> has_point s) remote = []"
    using mom_spaces_pointed [OF m(2)] by (auto simp: list_all_iff filter_id_conv filter_empty_conv)
  then show ?thesis using s(2) m by (simp add: load_network_candidates_def c s(1) pointed_lists)
qed

lemma kept_pointed: "kept_as f a (filter has_point cs) = filter has_point (kept_as f a cs)"
  by (simp add: kept_as_def conj_commute)


definition demo_space :: mom_space where
  "demo_space = \<lparr>mom_iri = JStr ''https://mom.example/1'', mom_name = JStr ''Fab'', mom_lat = ''46.9'', mom_lon = ''7.4'', mom_city = JStr ''Bern'',
     mom_country = JStr ''CH'', mom_status = JStr ''confirmed'', mom_url = JNull, mom_processes = []\<rparr>"

lemma lab_listed:
  "okw_list_all demo_class lab_node = [the (facility_from_dict lab_id demo_lab)]"
  "case local_facility_to_space no_floats (build_taxonomy []) False (the (facility_from_dict lab_id demo_lab)) of
     Some (Some s) \<Rightarrow> ns_point s = None | _ \<Rightarrow> False"
  "case mom_space_to_space id demo_space of Some s \<Rightarrow> ns_point s \<noteq> None | _ \<Rightarrow> False"
  by code_simp+


end
