(* ===== verification/Solution_Store.thy ===== *)
theory Solution_Store imports Doc_Fields Okh_Manifest begin

text \<open>
  The stored supply-tree solutions of \<open>services/storage_service.py\<close>: the payload and the metadata beside it, the
  test for staleness, clean-up, extension, archive, listing and loading with a report on freshness. The objects
  are a list of keys and contents; a content that cannot be read or is no JSON is \<open>None\<close>. Numbers of days are
  integers. \<open>always\<close> tells what the provider answers when asked to delete a key it does not have (the local one
  answers \<open>True\<close>). \<open>now\<close> is \<open>datetime.now()\<close>, which has no offset.
\<close>

record stored_object =
  so_content :: "json option"
  so_size :: nat
  so_modified :: json

type_synonym objects = "(string \<times> stored_object) list"

definition solution_key :: "uuid \<Rightarrow> string" where
  "solution_key i = ''supply-tree-solutions/'' @ i @ ''.json''"

definition metadata_prefix :: string where
  "metadata_prefix = ''supply-tree-solutions/metadata/''"

definition solution_metadata_key :: "uuid \<Rightarrow> string" where
  "solution_metadata_key i = metadata_prefix @ i @ ''.json''"

definition read_content :: "objects \<Rightarrow> string \<Rightarrow> json option" where
  "read_content st k = Option.bind (map_of st k) so_content"

text \<open>\<open>json.loads(get_object(key))\<close> where the result is used as a dict.\<close>

definition read_dict :: "objects \<Rightarrow> string \<Rightarrow> doc option" where
  "read_dict st k = (case read_content st k of Some (JObj d) \<Rightarrow> Some d | _ \<Rightarrow> None)"

definition put_json :: "string \<Rightarrow> json \<Rightarrow> nat \<Rightarrow> json \<Rightarrow> objects \<Rightarrow> objects" where
  "put_json k j sz modified st = AList.update k \<lparr>so_content = Some j, so_size = sz, so_modified = modified\<rparr> st"

definition delete_object :: "bool \<Rightarrow> string \<Rightarrow> objects \<Rightarrow> bool \<times> objects" where
  "delete_object always k st = (always \<or> map_of st k \<noteq> None, filter (\<lambda>(q, x). q \<noteq> k) st)"

definition copy_object :: "string \<Rightarrow> string \<Rightarrow> objects \<Rightarrow> objects option" where
  "copy_object a b st = map_option (\<lambda>x. AList.update b x st) (map_of st a)"

section \<open>Saving\<close>

text \<open>What \<open>save_supply_tree_solution\<close> uses of a solution; \<open>size_of\<close> is the length of the JSON text.\<close>

record saved_solution =
  ss_doc :: json
  ss_metadata :: doc
  ss_facilities :: "string list"
  ss_components :: nat
  ss_score :: json

definition solution_metadata :: "datetime \<Rightarrow> datetime \<Rightarrow> uuid \<Rightarrow> int \<Rightarrow> string list \<Rightarrow> saved_solution \<Rightarrow> doc" where
  "solution_metadata now expires i ttl tags s =
     [(''id'', JStr i), (''okh_id'', jget (ss_metadata s) ''okh_id''), (''okh_title'', jget (ss_metadata s) ''okh_title''),
      (''facility_name'', jget (ss_metadata s) ''facility_name''),
      (''matching_mode'', get_default (ss_metadata s) ''matching_mode'' (JStr ''single-level'')),
      (''tree_count'', JInt (int (length (ss_facilities s)))), (''component_count'', JInt (int (ss_components s))),
      (''facility_count'', JInt (int (card (set (ss_facilities s))))), (''score'', ss_score s), (''created_at'', JStr (isoformat now)),
      (''updated_at'', JStr (isoformat now)), (''expires_at'', JStr (isoformat expires)), (''ttl_days'', JInt ttl),
      (''tags'', JList (map JStr tags))]"

text \<open>The payload is written first: when the expiry cannot be computed, it stays behind without metadata.\<close>

definition save_supply_tree_solution ::
  "(json \<Rightarrow> nat) \<Rightarrow> datetime \<Rightarrow> json \<Rightarrow> uuid \<Rightarrow> uuid option \<Rightarrow> int option \<Rightarrow> string list \<Rightarrow> saved_solution \<Rightarrow> objects \<Rightarrow> uuid option \<times> objects" where
  "save_supply_tree_solution size_of now stamp fresh given_id ttl tags s st =
     (let i = (case given_id of None \<Rightarrow> fresh | Some i \<Rightarrow> i);
          days = (case ttl of None \<Rightarrow> 30 | Some n \<Rightarrow> n);
          st1 = put_json (solution_key i) (ss_doc s) (size_of (ss_doc s)) stamp st
      in case add_days days now of
           None \<Rightarrow> (None, st1)
         | Some expires \<Rightarrow>
             (let m = JObj (solution_metadata now expires i days tags s)
              in (Some i, put_json (solution_metadata_key i) m (size_of m) stamp st1)))"

section \<open>Staleness\<close>

datatype stale_reason = Expired | TooOld int | ExceededTtl int | CheckFailed

text \<open>\<open>(a - b).days\<close>, which raises when only one of the two has an offset.\<close>

definition days_between :: "datetime \<Rightarrow> datetime \<Rightarrow> int option" where
  "days_between a b = (if (dt_offset a = None) = (dt_offset b = None) then Some ((instant a - instant b) div 86400000000) else None)"

definition whole_days :: "json \<Rightarrow> int option" where
  "whole_days j = (case j of JInt i \<Rightarrow> Some i | JBool b \<Rightarrow> Some (if b then 1 else 0) | _ \<Rightarrow> None)"

definition expired :: "datetime \<Rightarrow> doc \<Rightarrow> bool option" where
  "expired now m =
     (if truthy (jget m ''expires_at'') then do { e \<leftarrow> read_time (jget m ''expires_at''); dt_less e now } else Some False)"

definition stale_check :: "datetime \<Rightarrow> int option \<Rightarrow> doc \<Rightarrow> (bool \<times> stale_reason option) option" where
  "stale_check now max_age m =
     do { created \<leftarrow> read_time (jget m ''created_at''); over \<leftarrow> expired now m;
          if over then Some (True, Some Expired)
          else do { age \<leftarrow> days_between now created;
                    if (case max_age of None \<Rightarrow> False | Some n \<Rightarrow> n \<noteq> 0 \<and> n < age) then Some (True, Some (TooOld age))
                    else do { ttl \<leftarrow> whole_days (get_default m ''ttl_days'' (JInt 30));
                              Some (if ttl < age then (True, Some (ExceededTtl ttl)) else (False, None)) } } }"

definition is_solution_stale :: "datetime \<Rightarrow> objects \<Rightarrow> uuid \<Rightarrow> int option \<Rightarrow> bool \<times> stale_reason option" where
  "is_solution_stale now st i max_age =
     (case Option.bind (read_dict st (solution_metadata_key i)) (stale_check now max_age) of
        None \<Rightarrow> (True, Some CheckFailed) | Some r \<Rightarrow> r)"

definition get_solution_age :: "datetime \<Rightarrow> objects \<Rightarrow> uuid \<Rightarrow> int option" where
  "get_solution_age now st i =
     do { m \<leftarrow> read_dict st (solution_metadata_key i); created \<leftarrow> read_time (jget m ''created_at''); days_between now created }"

text \<open>The keys of the metadata objects, and the id in a key.\<close>

definition metadata_keys :: "objects \<Rightarrow> string list" where
  "metadata_keys st = filter (\<lambda>k. starts_with metadata_prefix k \<and> drop (length k - 5) k = ''.json'') (map fst st)"

definition id_of_key :: "string \<Rightarrow> uuid option" where
  "id_of_key k = parse_uuid (remove_all ''.json'' (last (split_char (CHR ''/'') k)))"

definition created_before :: "objects \<Rightarrow> string \<Rightarrow> datetime \<Rightarrow> bool" where
  "created_before st k before_date =
     (Option.bind (read_dict st k) (\<lambda>m. Option.bind (read_time (jget m ''created_at'')) (\<lambda>c. dt_less c before_date)) = Some True)"

definition stale_id :: "datetime \<Rightarrow> objects \<Rightarrow> int option \<Rightarrow> datetime option \<Rightarrow> string \<Rightarrow> uuid option" where
  "stale_id now st max_age before_date k =
     (case id_of_key k of
        None \<Rightarrow> None
      | Some i \<Rightarrow>
          if fst (is_solution_stale now st i max_age) \<and> (case before_date of None \<Rightarrow> True | Some b \<Rightarrow> created_before st k b) then Some i else None)"

definition get_stale_solutions :: "datetime \<Rightarrow> objects \<Rightarrow> int option \<Rightarrow> datetime option \<Rightarrow> uuid list" where
  "get_stale_solutions now st max_age before_date = List.map_filter (stale_id now st max_age before_date) (metadata_keys st)"

section \<open>Deleting\<close>

definition delete_supply_tree_solution :: "bool \<Rightarrow> uuid \<Rightarrow> objects \<Rightarrow> bool \<times> objects" where
  "delete_supply_tree_solution always i st =
     (let (a, st1) = delete_object always (solution_key i) st; (b, st2) = delete_object always (solution_metadata_key i) st1
      in (a \<or> b, st2))"

record cleanup_report =
  cu_count :: nat
  cu_freed :: nat
  cu_ids :: "uuid list"
  cu_dry :: bool

definition freed_by :: "objects \<Rightarrow> uuid \<Rightarrow> nat" where
  "freed_by st i = (case map_of st (solution_key i) of None \<Rightarrow> 0 | Some x \<Rightarrow> so_size x)"

definition cleanup_step :: "bool \<Rightarrow> uuid \<Rightarrow> cleanup_report \<times> objects \<Rightarrow> cleanup_report \<times> objects" where
  "cleanup_step always i s =
     (let (r, st) = s; (ok, st1) = delete_supply_tree_solution always i st; r1 = r\<lparr>cu_freed := cu_freed r + freed_by st i\<rparr>
      in (if ok then r1\<lparr>cu_count := cu_count r1 + 1, cu_ids := cu_ids r1 @ [i]\<rparr> else r1, st1))"

definition cleanup_stale_solutions ::
  "bool \<Rightarrow> datetime \<Rightarrow> int option \<Rightarrow> datetime option \<Rightarrow> bool \<Rightarrow> objects \<Rightarrow> cleanup_report \<times> objects" where
  "cleanup_stale_solutions always now max_age before_date dry_run st =
     (let ids = get_stale_solutions now st max_age before_date
      in if dry_run then (\<lparr>cu_count = length ids, cu_freed = 0, cu_ids = ids, cu_dry = True\<rparr>, st)
         else fold (cleanup_step always) ids (\<lparr>cu_count = 0, cu_freed = 0, cu_ids = [], cu_dry = False\<rparr>, st))"

section \<open>Extending and archiving\<close>

definition new_expiry :: "int \<Rightarrow> doc \<Rightarrow> datetime option" where
  "new_expiry days m =
     (if truthy (jget m ''expires_at'') then do { e \<leftarrow> read_time (jget m ''expires_at''); add_days days e }
      else do { created \<leftarrow> read_time (jget m ''created_at''); ttl \<leftarrow> whole_days (get_default m ''ttl_days'' (JInt 30));
                add_days (ttl + days) created })"

definition extended_metadata :: "datetime \<Rightarrow> int \<Rightarrow> doc \<Rightarrow> doc option" where
  "extended_metadata now days m =
     do { e \<leftarrow> new_expiry days m; ttl \<leftarrow> whole_days (get_default m ''ttl_days'' (JInt 30));
          Some (AList.update ''ttl_days'' (JInt (ttl + days))
            (AList.update ''updated_at'' (JStr (isoformat now)) (AList.update ''expires_at'' (JStr (isoformat e)) m))) }"

definition extend_solution_ttl :: "(json \<Rightarrow> nat) \<Rightarrow> datetime \<Rightarrow> json \<Rightarrow> uuid \<Rightarrow> int \<Rightarrow> objects \<Rightarrow> bool \<times> objects" where
  "extend_solution_ttl size_of now stamp i days st =
     (case Option.bind (read_dict st (solution_metadata_key i)) (extended_metadata now days) of
        None \<Rightarrow> (False, st)
      | Some m \<Rightarrow> (True, put_json (solution_metadata_key i) (JObj m) (size_of (JObj m)) stamp st))"

text \<open>Both copies, then both deletions; a failing copy leaves what was copied before it.\<close>

definition archive_one :: "string \<Rightarrow> uuid \<Rightarrow> objects \<Rightarrow> bool \<times> objects" where
  "archive_one to i st =
     (case copy_object (solution_key i) (to @ solution_key i) st of
        None \<Rightarrow> (False, st)
      | Some st1 \<Rightarrow>
          (case copy_object (solution_metadata_key i) (to @ solution_metadata_key i) st1 of
             None \<Rightarrow> (False, st1)
           | Some st2 \<Rightarrow> (True, filter (\<lambda>(q, x). q \<noteq> solution_key i \<and> q \<noteq> solution_metadata_key i) st2)))"

definition archive_stale_solutions :: "datetime \<Rightarrow> int option \<Rightarrow> string \<Rightarrow> objects \<Rightarrow> uuid list \<times> objects" where
  "archive_stale_solutions now max_age to st =
     fold (\<lambda>i (done_ids, st). let (ok, st1) = archive_one to i st in (if ok then done_ids @ [i] else done_ids, st1))
       (get_stale_solutions now st max_age None) ([], st)"

section \<open>Loading with a report\<close>

record freshness =
  fr_stale :: bool
  fr_reason :: "stale_reason option"
  fr_age :: int
  fr_expires :: json
  fr_recommended :: bool
  fr_refreshed :: bool

text \<open>
  \<open>from_doc\<close> is \<open>SupplyTreeSolution.from_dict\<close>. A failing report is left out, and what \<open>extend_solution_ttl\<close>
  answers is not looked at.
\<close>

definition load_with_metadata ::
  "(json \<Rightarrow> 's option) \<Rightarrow> (json \<Rightarrow> nat) \<Rightarrow> datetime \<Rightarrow> json \<Rightarrow> uuid \<Rightarrow> bool \<Rightarrow> bool \<Rightarrow> objects \<Rightarrow> ('s \<times> freshness option) option \<times> objects" where
  "load_with_metadata from_doc size_of now stamp i validate_freshness auto_refresh st =
     (case Option.bind (read_content st (solution_key i)) from_doc of
        None \<Rightarrow> (None, st)
      | Some s \<Rightarrow>
          (let (stale, reason) = is_solution_stale now st i None
           in case (validate_freshness, get_solution_age now st i, read_dict st (solution_metadata_key i)) of
                (True, Some age, Some m) \<Rightarrow>
                  (let r = \<lparr>fr_stale = stale, fr_reason = reason, fr_age = age, fr_expires = jget m ''expires_at'', fr_recommended = stale, fr_refreshed = False\<rparr>
                   in if auto_refresh \<and> stale
                      then (Some (s, Some (r\<lparr>fr_stale := False, fr_recommended := False, fr_refreshed := True\<rparr>)), snd (extend_solution_ttl size_of now stamp i 30 st))
                      else (Some (s, Some r), st))
              | _ \<Rightarrow> (Some (s, None), st)))"

section \<open>Listing\<close>

record list_query =
  lq_limit :: nat
  lq_offset :: nat
  lq_okh :: string
  lq_mode :: string
  lq_sort :: string
  lq_descending :: bool
  lq_min_age :: "int option"
  lq_max_age :: "int option"
  lq_include_stale :: bool
  lq_only_stale :: bool

definition row_age :: "datetime \<Rightarrow> doc \<Rightarrow> int option" where
  "row_age now m =
     (if truthy (jget m ''created_at'') then Option.bind (read_time (jget m ''created_at'')) (days_between now) else Some 0)"

definition stale_wanted :: "datetime \<Rightarrow> objects \<Rightarrow> list_query \<Rightarrow> doc \<Rightarrow> bool option" where
  "stale_wanted now st q m =
     (if lq_only_stale q \<or> \<not> lq_include_stale q then
        do { i \<leftarrow> (case jget m ''id'' of JStr s \<Rightarrow> parse_uuid s | _ \<Rightarrow> None);
             let stale = fst (is_solution_stale now st i None);
             Some (\<not> (lq_only_stale q \<and> \<not> stale) \<and> \<not> (\<not> lq_include_stale q \<and> stale)) }
      else Some True)"

text \<open>One metadata object: \<open>None\<close> when a filter or an exception leaves it out.\<close>

definition list_row :: "datetime \<Rightarrow> objects \<Rightarrow> list_query \<Rightarrow> string \<times> stored_object \<Rightarrow> doc option" where
  "list_row now st q kx =
     do { m \<leftarrow> read_dict st (fst kx); age \<leftarrow> row_age now m; wanted \<leftarrow> stale_wanted now st q m;
          if (lq_okh q \<noteq> [] \<and> jget m ''okh_id'' \<noteq> JStr (lq_okh q)) \<or> (lq_mode q \<noteq> [] \<and> jget m ''matching_mode'' \<noteq> JStr (lq_mode q)) \<or>
             (case lq_min_age q of None \<Rightarrow> False | Some n \<Rightarrow> age < n) \<or> (case lq_max_age q of None \<Rightarrow> False | Some n \<Rightarrow> n < age) \<or> \<not> wanted
          then None
          else Some (map (\<lambda>k. (k, jget m k)) [''id'', ''okh_id'', ''okh_title'', ''facility_name'', ''matching_mode'', ''tree_count'',
                 ''component_count'', ''facility_count'', ''score'', ''created_at'', ''updated_at'', ''expires_at'', ''ttl_days''] @
               [(''tags'', get_default m ''tags'' (JList [])), (''last_modified'', so_modified (snd kx)), (''age_days'', JInt age)]) }"

text \<open>
  The sort keys, as numbers: a time by its instant, with the far end for a missing one; times with an offset are not
  comparable with those without, and a score that is no number with anything.
\<close>

definition time_key :: "string \<Rightarrow> int \<Rightarrow> doc \<Rightarrow> (bool \<times> int) option" where
  "time_key k missing r =
     (if truthy (jget r k) then map_option (\<lambda>t. (dt_offset t = None, instant t)) (read_time (jget r k)) else Some (True, missing))"

definition first_instant :: int where
  "first_instant = instant (midnight \<lparr>date_year = 1, date_month = 1, date_day = 1\<rparr>)"

definition last_instant :: int where
  "last_instant = instant (midnight \<lparr>date_year = 9999, date_month = 12, date_day = 31\<rparr>) + 86399999999"

definition stable_sort :: "bool \<Rightarrow> (doc \<times> ('k::linorder)) list \<Rightarrow> doc list" where
  "stable_sort descending rs = map fst (if descending then rev (sort_key snd (rev rs)) else sort_key snd rs)"

definition sort_by_time :: "bool \<Rightarrow> string \<Rightarrow> int \<Rightarrow> doc list \<Rightarrow> doc list option" where
  "sort_by_time descending k missing rs =
     do { ks \<leftarrow> map_opt (time_key k missing) rs;
          if \<forall>a\<in>set ks. \<forall>b\<in>set ks. fst a = fst b then Some (stable_sort descending (zip rs (map snd ks))) else None }"

definition sort_by_score :: "(string \<Rightarrow> rat option) \<Rightarrow> bool \<Rightarrow> doc list \<Rightarrow> doc list option" where
  "sort_by_score fl descending rs =
     (if length rs < 2 then Some rs
      else do { ks \<leftarrow> map_opt (\<lambda>r. case jget r ''score'' of JInt i \<Rightarrow> Some (of_int i) | JFloat s \<Rightarrow> fl s | JBool b \<Rightarrow> Some (if b then 1 else 0) | _ \<Rightarrow> None) rs;
                Some (stable_sort descending (zip rs ks)) })"

definition sort_rows :: "(string \<Rightarrow> rat option) \<Rightarrow> list_query \<Rightarrow> doc list \<Rightarrow> doc list option" where
  "sort_rows fl q rs =
     (if lq_sort q = ''created_at'' \<or> lq_sort q = ''updated_at'' then sort_by_time (lq_descending q) (lq_sort q) first_instant rs
      else if lq_sort q = ''expires_at'' then sort_by_time (lq_descending q) ''expires_at'' last_instant rs
      else if lq_sort q = ''score'' then sort_by_score fl (lq_descending q) rs
      else if lq_sort q = ''age_days'' then
        Some (stable_sort (lq_descending q) (map (\<lambda>r. (r, case whole_days (jget r ''age_days'') of None \<Rightarrow> 0 | Some n \<Rightarrow> n)) rs))
      else Some rs)"

definition list_supply_tree_solutions :: "(string \<Rightarrow> rat option) \<Rightarrow> datetime \<Rightarrow> list_query \<Rightarrow> objects \<Rightarrow> doc list option" where
  "list_supply_tree_solutions fl now q st =
     map_option (\<lambda>rs. let page = drop (lq_offset q) rs in if lq_limit q = 0 then page else take (lq_limit q) page)
       (sort_rows fl q (List.map_filter (list_row now st q) (filter (\<lambda>(k, x). k \<in> set (metadata_keys st)) st)))"

end
