(* ===== verification/Solution_Facts.thy ===== *)
theory Solution_Facts imports Solution_Store begin

text \<open>When a stored solution is stale, what the clean-up removes, and what a refresh really does.\<close>

section \<open>Keys\<close>

lemma uuid_hex_chars: "is_uuid u \<Longrightarrow> c \<in> set u \<Longrightarrow> c = CHR ''-'' \<or> is_hex c"
proof -
  assume "is_uuid u" "c \<in> set u"
  then obtain h where "list_all is_hex h" "u = dashed (lower h)" unfolding is_uuid_def parse_uuid_def Let_def by (auto split: if_splits)
  with \<open>c \<in> set u\<close> show ?thesis using set_dashed [of "lower h"] by (auto simp: lower_def list_all_iff)
qed

lemma uuid_no_slash: "is_uuid u \<Longrightarrow> CHR ''/'' \<notin> set u" and uuid_no_dot: "is_uuid u \<Longrightarrow> CHR ''.'' \<notin> set u"
  using uuid_hex_chars by (fastforce simp: is_hex_def lower_char_def)+

lemma solution_keys_inj [simp]:
  "solution_key i = solution_key j \<longleftrightarrow> i = j" "solution_metadata_key i = solution_metadata_key j \<longleftrightarrow> i = j"
  by (simp_all add: solution_key_def solution_metadata_key_def metadata_prefix_def)

lemma solution_keys_apart: "is_uuid i \<Longrightarrow> solution_key i \<noteq> solution_metadata_key j"
proof
  assume "is_uuid i" "solution_key i = solution_metadata_key j"
  then have "i = ''metadata/'' @ j" by (simp add: solution_key_def solution_metadata_key_def metadata_prefix_def)
  with uuid_no_slash [OF \<open>is_uuid i\<close>] show False by simp
qed

lemma remove_all_tail: "p \<noteq> [] \<Longrightarrow> hd p \<notin> set s \<Longrightarrow> remove_all p (s @ p) = s"
proof (induction s)
  case Nil
  then show ?case by (subst remove_all.simps) (simp add: remove_all.simps starts_with_def)
next
  case (Cons c s)
  then have "\<not> starts_with p (c # s @ p)" by (cases p) (auto simp: starts_with_def)
  with Cons show ?case by (subst remove_all.simps) simp
qed

lemma split_char_tail: "\<exists>ps. split_char c (xs @ c # ys) = ps @ split_char c ys \<and> ps \<noteq> []"
  by (induction xs) (force split: list.splits simp: append_eq_Cons_conv)+

lemma last_split: "last (split_char c (xs @ c # ys)) = last (split_char c ys)"
  using split_char_tail [of c xs ys] by auto

lemma id_of_metadata_key: "is_uuid i \<Longrightarrow> id_of_key (solution_metadata_key i) = Some i"
proof -
  assume i: "is_uuid i"
  have "last (split_char (CHR ''/'') (''supply-tree-solutions/metadata'' @ CHR ''/'' # i @ ''.json'')) = i @ ''.json''"
    unfolding last_split using uuid_no_slash [OF i] by (subst split_char_free) auto
  then have "last (split_char (CHR ''/'') (solution_metadata_key i)) = i @ ''.json''"
    by (simp add: solution_metadata_key_def metadata_prefix_def)
  then show ?thesis using i remove_all_tail [of "''.json''" i] uuid_no_dot [OF i] by (simp add: id_of_key_def is_uuid_def)
qed

lemma metadata_key_listed: "solution_metadata_key i \<in> set (keys st) \<Longrightarrow> solution_metadata_key i \<in> set (metadata_keys st)"
  by (auto simp: metadata_keys_def solution_metadata_key_def starts_with_def)

section \<open>A saved solution\<close>

lemma next_days_time:
  "dt_hour ((next_day ^^ n) d) = dt_hour d" "dt_minute ((next_day ^^ n) d) = dt_minute d" "dt_second ((next_day ^^ n) d) = dt_second d"
  "dt_micro ((next_day ^^ n) d) = dt_micro d"
  by (induction n) (simp_all add: next_day_def)

lemma add_days_valid:
  assumes "valid_datetime d" "0 \<le> n" "add_days n d = Some e"
  shows "valid_datetime e"
proof -
  have e: "e = (next_day ^^ nat n) d" "dt_year e \<le> 9999" using assms(2,3) by (auto simp: add_days_def Let_def split: if_splits)
  have "valid_date e" "dt_offset e = dt_offset d" using next_days_props [OF valid_datetime_date [OF assms(1)]] e(1) by simp_all
  with assms(1) e show ?thesis by (simp add: valid_datetime_def valid_date_def next_days_time)
qed

lemma read_put_dict [simp]: "read_dict (put_json k (JObj m) sz t st) k = Some m"
  by (simp add: read_dict_def read_content_def put_json_def update_conv')

lemma metadata_gets:
  "jget (solution_metadata now e i ttl tags s) ''created_at'' = JStr (isoformat now)"
  "jget (solution_metadata now e i ttl tags s) ''expires_at'' = JStr (isoformat e)"
  "get_default (solution_metadata now e i ttl tags s) ''ttl_days'' d = JInt ttl"
  by (simp_all add: solution_metadata_def jget_def get_default_def)

lemma isoformat_not_Nil [simp]: "isoformat d \<noteq> []"
  by (simp add: isoformat_def)

definition day :: int where "day = 86400000000"

definition plain_time :: "datetime \<Rightarrow> bool" where
  "plain_time t \<longleftrightarrow> valid_datetime t \<and> dt_offset t = None"

lemma saved_check:
  assumes "save_supply_tree_solution size_of now stamp fresh given_id ttl tags s st = (Some i, st')"
    and "plain_time now" "plain_time t" and "0 \<le> (case ttl of None \<Rightarrow> 30 | Some n \<Rightarrow> n)"
  shows "is_solution_stale t st' i max_age =
     (if instant now + (case ttl of None \<Rightarrow> 30 | Some n \<Rightarrow> n) * day < instant t then (True, Some Expired)
      else case max_age of
        None \<Rightarrow> (False, None)
      | Some n \<Rightarrow> if n \<noteq> 0 \<and> n < (instant t - instant now) div day then (True, Some (TooOld ((instant t - instant now) div day))) else (False, None))"
proof -
  define days where "days = (case ttl of None \<Rightarrow> 30 | Some n \<Rightarrow> n)"
  from assms(1) obtain e where e: "add_days days now = Some e"
    and st': "read_dict st' (solution_metadata_key i) = Some (solution_metadata now e i days tags s)"
    by (auto simp: save_supply_tree_solution_def Let_def days_def split: option.splits)
  have v: "valid_datetime now" "0 \<le> days" "dt_offset now = None" using assms(2,4) by (simp_all add: plain_time_def days_def)
  note x = add_days_instant [OF v(1,2) e]
  have b: "expired t (solution_metadata now e i days tags s) = Some (instant now + days * day < instant t)"
    using add_days_valid [OF v(1,2) e] x v(3) assms(3)
    by (simp add: expired_def metadata_gets fromisoformat_isoformat dt_less_def plain_time_def day_def)
  have a: "days_between t now = Some ((instant t - instant now) div day)"
    using v(3) assms(3) by (simp add: days_between_def plain_time_def day_def)
  have s: "is_solution_stale t st' i max_age =
      (if instant now + days * day < instant t then (True, Some Expired)
       else if (case max_age of None \<Rightarrow> False | Some n \<Rightarrow> n \<noteq> 0 \<and> n < (instant t - instant now) div day)
         then (True, Some (TooOld ((instant t - instant now) div day)))
       else if days < (instant t - instant now) div day then (True, Some (ExceededTtl days)) else (False, None))"
    using v(1) by (simp add: is_solution_stale_def st' stale_check_def metadata_gets fromisoformat_isoformat a b whole_days_def)
  show ?thesis
  proof (cases "instant now + days * day < instant t")
    case True
    then show ?thesis by (simp add: s days_def)
  next
    case False
    then have "(instant t - instant now) div day \<le> (days * day) div day" by (intro zdiv_mono1) (simp_all add: day_def)
    then have "\<not> days < (instant t - instant now) div day" by (simp add: day_def)
    then show ?thesis unfolding s days_def [symmetric] using False by (simp split: option.split)
  qed
qed


section \<open>Clean-up\<close>

lemma solution_cleanup_keeps:
  "snd (fold (cleanup_step always) ids (r, st)) = filter (\<lambda>(q, x). \<forall>i\<in>set ids. q \<noteq> solution_key i \<and> q \<noteq> solution_metadata_key i) st"
proof (induction ids arbitrary: r st)
  case Nil
  then show ?case by simp
next
  case (Cons i ids)
  obtain r1 where s: "cleanup_step always i (r, st) = (r1, filter (\<lambda>(q, x). q \<noteq> solution_key i \<and> q \<noteq> solution_metadata_key i) st)"
    by (auto simp: cleanup_step_def delete_supply_tree_solution_def delete_object_def Let_def case_prod_unfold conj_commute)
  then show ?case using Cons by (simp add: case_prod_unfold conj_commute conj_left_commute)
qed

lemma map_of_kept: "map_of (filter (\<lambda>(q, x). P q) st) k = (if P k then map_of st k else None)"
  by (induction st) auto

lemma stale_ids_uuid: "i \<in> set (get_stale_solutions now st max_age before_date) \<Longrightarrow> is_uuid i \<and> fst (is_solution_stale now st i max_age)"
  by (auto simp: get_stale_solutions_def List.map_filter_def stale_id_def id_of_key_def is_uuid_parsed split: option.splits if_splits)

lemma stale_listed:
  assumes "is_uuid i" "solution_metadata_key i \<in> set (keys st)"
  shows "i \<in> set (get_stale_solutions now st max_age None) \<longleftrightarrow> fst (is_solution_stale now st i max_age)"
proof
  assume "fst (is_solution_stale now st i max_age)"
  then have "stale_id now st max_age None (solution_metadata_key i) = Some i" by (simp add: stale_id_def id_of_metadata_key [OF assms(1)])
  then show "i \<in> set (get_stale_solutions now st max_age None)"
    using metadata_key_listed [OF assms(2)] by (force simp: get_stale_solutions_def List.map_filter_def)
qed (use stale_ids_uuid in blast)

text \<open>
  C39: the clean-up removes exactly the solutions whose check says stale, payload and metadata, and leaves the others as
  they were; the dry run changes nothing and names the same solutions. A solution whose metadata cannot be
  read, at that moment or at all, counts as stale: one failing read is enough to delete it.
\<close>

theorem cleanup_removes_stale:
  assumes "is_uuid i" and "solution_metadata_key i \<in> set (keys st)"
  shows "(case cleanup_stale_solutions always now max_age None False st of (r, st') \<Rightarrow>
        if fst (is_solution_stale now st i max_age) then map_of st' (solution_key i) = None \<and> map_of st' (solution_metadata_key i) = None
        else map_of st' (solution_key i) = map_of st (solution_key i) \<and>
          map_of st' (solution_metadata_key i) = map_of st (solution_metadata_key i)) \<and>
     (case cleanup_stale_solutions always now max_age None True st of (r, st') \<Rightarrow>
        st' = st \<and> (i \<in> set (cu_ids r)) = fst (is_solution_stale now st i max_age)) \<and>
     (case read_dict st (solution_metadata_key i) of None \<Rightarrow> fst (is_solution_stale now st i max_age) | Some m \<Rightarrow> True)"
proof (intro conjI)
  let ?ids = "get_stale_solutions now st max_age None"
  have "map_of (snd (cleanup_stale_solutions always now max_age None False st)) k =
      (if \<forall>j\<in>set ?ids. k \<noteq> solution_key j \<and> k \<noteq> solution_metadata_key j then map_of st k else None)" for k
    by (simp add: cleanup_stale_solutions_def Let_def solution_cleanup_keeps map_of_kept)
  moreover have "(\<forall>j\<in>set ?ids. solution_key i \<noteq> solution_key j \<and> solution_key i \<noteq> solution_metadata_key j) = (i \<notin> set ?ids)"
    using solution_keys_apart [OF assms(1)] by auto
  moreover have "(\<forall>j\<in>set ?ids. solution_metadata_key i \<noteq> solution_key j \<and> solution_metadata_key i \<noteq> solution_metadata_key j) = (i \<notin> set ?ids)"
    using solution_keys_apart stale_ids_uuid by (metis solution_keys_inj(2))
  ultimately show "case cleanup_stale_solutions always now max_age None False st of (r, st') \<Rightarrow>
        if fst (is_solution_stale now st i max_age) then map_of st' (solution_key i) = None \<and> map_of st' (solution_metadata_key i) = None
        else map_of st' (solution_key i) = map_of st (solution_key i) \<and>
          map_of st' (solution_metadata_key i) = map_of st (solution_metadata_key i)"
    using stale_listed [OF assms] by (simp add: case_prod_unfold)
  show "case cleanup_stale_solutions always now max_age None True st of (r, st') \<Rightarrow>
        st' = st \<and> (i \<in> set (cu_ids r)) = fst (is_solution_stale now st i max_age)"
    by (simp add: cleanup_stale_solutions_def Let_def stale_listed [OF assms])
  show "case read_dict st (solution_metadata_key i) of None \<Rightarrow> fst (is_solution_stale now st i max_age) | Some m \<Rightarrow> True"
    by (simp add: is_solution_stale_def split: option.split)
qed

section \<open>Refreshing\<close>

text \<open>
  C40: what an automatic refresh says and what it does. Loading a stale solution with it reports the solution as fresh
  again; in truth the expiry moved by thirty days from where it was, so a solution that expired earlier than
  that is still stale right afterwards, and the next clean-up deletes it.
\<close>

theorem auto_refresh_truth:
  assumes "Option.bind (read_content st (solution_key i)) from_doc = Some s" and m: "read_dict st (solution_metadata_key i) = Some m"
    and c: "read_time (jget m ''created_at'') = Some created" "plain_time created"
    and e: "read_time (jget m ''expires_at'') = Some e" "plain_time e" "add_days 30 e = Some e'"
    and ttl: "whole_days (get_default m ''ttl_days'' (JInt 30)) = Some ttl"
    and now: "plain_time now" and stale: "instant e < instant now"
  shows "\<exists>r st'. load_with_metadata from_doc size_of now stamp i True True st = (Some (s, Some r), st') \<and>
     \<not> fr_stale r \<and> fr_refreshed r \<and>
     fst (is_solution_stale now st' i None) = (instant e + 30 * day < instant now \<or> ttl + 30 < (instant now - instant created) div day)"
proof -
  have t: "truthy (jget m ''expires_at'')" using e(1) by (cases "jget m ''expires_at''") (auto simp: fromisoformat_def scan_def read_nat_def)
  have "is_solution_stale now st i None = (True, Some Expired)"
    using m c e now stale t by (simp add: is_solution_stale_def stale_check_def expired_def dt_less_def plain_time_def)
  moreover have "get_solution_age now st i = Some ((instant now - instant created) div day)"
    using m c now by (simp add: get_solution_age_def days_between_def plain_time_def day_def)
  moreover define m' where "m' = AList.update ''ttl_days'' (JInt (ttl + 30))
      (AList.update ''updated_at'' (JStr (isoformat now)) (AList.update ''expires_at'' (JStr (isoformat e')) m))"
  have x: "extended_metadata now 30 m = Some m'" using e ttl t by (simp add: extended_metadata_def new_expiry_def m'_def)
  define st' where "st' = put_json (solution_metadata_key i) (JObj m') (size_of (JObj m')) stamp st"
  have g: "jget m' ''created_at'' = jget m ''created_at''" "jget m' ''expires_at'' = JStr (isoformat e')"
    "get_default m' ''ttl_days'' (JInt 30) = JInt (ttl + 30)"
    by (simp_all add: m'_def jget_def get_default_def update_conv')
  have v: "valid_datetime e" "0 \<le> (30 :: int)" using e(2) by (simp_all add: plain_time_def)
  have "fst (is_solution_stale now st' i None) = (instant e + 30 * day < instant now \<or> ttl + 30 < (instant now - instant created) div day)"
    using add_days_valid [OF v e(3)] add_days_instant [OF v e(3)] c e(2) now
    by (simp add: is_solution_stale_def st'_def stale_check_def expired_def g fromisoformat_isoformat dt_less_def
        plain_time_def days_between_def whole_days_def day_def)
  ultimately show ?thesis
    using assms(1) m x by (simp add: load_with_metadata_def extend_solution_ttl_def st'_def Let_def)
qed

section \<open>A solution to try it on\<close>

definition in_2026 :: "nat \<Rightarrow> nat \<Rightarrow> datetime" where
  "in_2026 m d = midnight \<lparr>date_year = 2026, date_month = m, date_day = d\<rparr>"

abbreviation shown_id :: uuid where "shown_id \<equiv> ''12345678-1234-1234-1234-123456789abc''"

definition shown_solution :: saved_solution where
  "shown_solution = \<lparr>ss_doc = JObj [], ss_metadata = [], ss_facilities = [''Lab''], ss_components = 0, ss_score = JInt 2\<rparr>"

definition shown_metadata :: doc where
  "shown_metadata = solution_metadata (in_2026 3 2) (in_2026 3 5) shown_id 3 [] shown_solution"

definition shown_objects :: objects where
  "shown_objects = put_json (solution_metadata_key shown_id) (JObj shown_metadata) 2 JNull (put_json (solution_key shown_id) (JObj []) 2 JNull [])"

lemma shown_times:
  "plain_time (in_2026 3 2)" "plain_time (in_2026 3 3)" "plain_time (in_2026 3 5)" "plain_time (in_2026 6 2)"
  "instant (in_2026 3 3) = instant (in_2026 3 2) + day" "instant (in_2026 3 5) = instant (in_2026 3 2) + 3 * day"
  "instant (in_2026 6 2) = instant (in_2026 3 2) + 92 * day"
  by (simp_all add: plain_time_def valid_datetime_def in_2026_def midnight_def month_lengths_def instant_def days_of_date_def is_leap_def day_def)

lemma shown_uuid: "is_uuid shown_id"
  by code_simp

lemma next_days_year: "dt_year ((next_day ^^ n) d) \<le> dt_year d + n" "dt_year d \<le> dt_year ((next_day ^^ n) d)"
  by (induction n) (auto simp: next_day_def)

lemma shown_extension: "add_days 30 (in_2026 3 5) \<noteq> None"
  using next_days_year [where n = 30 and d = "in_2026 3 5"] by (simp add: add_days_def Let_def) (simp add: in_2026_def midnight_def)

lemma shown_saved:
  "save_supply_tree_solution (\<lambda>j. 2) (in_2026 3 2) JNull shown_id None (Some 3) [] shown_solution [] = (Some shown_id, shown_objects)"
proof -
  have "add_days 3 (in_2026 3 2) = Some (in_2026 3 5)"
    by (simp add: add_days_def next_day_def in_2026_def midnight_def month_lengths_def numeral_3_eq_3)
  then show ?thesis
    by (simp add: save_supply_tree_solution_def shown_objects_def shown_metadata_def Let_def) (simp add: shown_solution_def)
qed

lemma shown_facts:
  "solution_metadata_key shown_id \<in> set (keys shown_objects)"
  "read_content shown_objects (solution_key shown_id) = Some (JObj [])" "map_of shown_objects (solution_key shown_id) \<noteq> None"
  "read_dict shown_objects (solution_metadata_key shown_id) = Some shown_metadata"
  using solution_keys_apart [OF shown_uuid, of shown_id]
  by (simp_all add: shown_objects_def) (simp_all add: read_content_def put_json_def update_conv')

lemma shown_stale:
  "is_solution_stale (in_2026 3 3) shown_objects shown_id None = (False, None)"
  "is_solution_stale (in_2026 6 2) shown_objects shown_id None = (True, Some Expired)"
  using saved_check [OF shown_saved shown_times(1,2), of None] saved_check [OF shown_saved shown_times(1,4), of None] shown_times(5,7)
  by (simp_all add: day_def)


theorem cleanup_removes_stale_witness:
  "map_of (snd (cleanup_stale_solutions True (in_2026 3 3) None None False shown_objects)) (solution_key shown_id) \<noteq> None \<and>
   map_of (snd (cleanup_stale_solutions True (in_2026 6 2) None None False shown_objects)) (solution_key shown_id) = None"
  using cleanup_removes_stale [OF shown_uuid shown_facts(1), where always = True and now = "in_2026 3 3" and max_age = None]
    cleanup_removes_stale [OF shown_uuid shown_facts(1), where always = True and now = "in_2026 6 2" and max_age = None] shown_stale shown_facts(3)
  by (simp add: case_prod_unfold)

theorem auto_refresh_truth_witness:
  "\<exists>r st'. load_with_metadata Some (\<lambda>j. 2) (in_2026 6 2) JNull shown_id True True shown_objects = (Some (JObj [], Some r), st') \<and>
     \<not> fr_stale r \<and> fr_refreshed r \<and> fst (is_solution_stale (in_2026 6 2) st' shown_id None)"
proof -
  obtain e' where e': "add_days 30 (in_2026 3 5) = Some e'" using shown_extension by blast
  have c: "Option.bind (read_content shown_objects (solution_key shown_id)) Some = Some (JObj [])" unfolding shown_facts(2) by simp
  have r: "read_time (jget shown_metadata ''created_at'') = Some (in_2026 3 2)" "read_time (jget shown_metadata ''expires_at'') = Some (in_2026 3 5)"
    "whole_days (get_default shown_metadata ''ttl_days'' (JInt 30)) = Some 3"
    using shown_times(1,3)
    by (simp_all add: shown_metadata_def metadata_gets fromisoformat_isoformat plain_time_def whole_days_def)
  show ?thesis
    using auto_refresh_truth [OF c shown_facts(4) r(1) shown_times(1) r(2) shown_times(3) e' r(3) shown_times(4)] shown_times(6,7)
    by (fastforce simp: day_def)
qed

end
