(* ===== verification/Spec2Isabelle.thy ===== *)
theory Spec2Isabelle imports Merkle_Root Did_Key Supply_Tree_Facts Asset_Facts Signing Identity_Facts Rate_Limit Memory_Cache Peer_Store Process_Match_Data Composite_Match Okw_Facts Nested_Facts Okh_Service_Facts Domain_Facts Cooking_Facts Okh_Match_Facts Validator_Facts Okh_Federation_Facts Network_Facts Solution_Facts begin

text \<open>
  A model of the core of the Open Hardware Manager (supply-graph-ai, the Python package under
  \<open>src/src/core\<close>), and what is proved of it.

  \<^bold>\<open>The program.\<close> A node keeps designs (OKH manifests), facilities (OKW) and assets, matches the
  process requirements of designs to the capabilities of facilities, builds supply trees from the
  matches, and exchanges signed records with peer nodes. Accounts, keys, grants and attestations
  decide who may do what.

  \<^bold>\<open>Shared ground.\<close> \<open>Py_Prelude\<close> has Python's strings, lists and dicts (a dict is an association list,
  \<open>AList.update\<close> is assignment, \<open>dict_by\<close> a dict built in a loop) and the collection \<open>keys_simps\<close>;
  \<open>Json_Value\<close> JSON values and \<open>canonical_json_bytes\<close>; \<open>Py_Time\<close> naive and aware datetimes with their
  ISO forms; \<open>Doc_Fields\<close> the reading of fields of stored documents; \<open>Store_Index\<close> key-value stores and
  the stores with an index over them, with the locales every store of the program is an instance of.

  \<^bold>\<open>Matching\<close> (\<open>taxonomy/\<close>, \<open>matching/\<close>, \<open>services/matching_service.py\<close>, \<open>services/matching/\<close>).
  \<open>Process_Taxonomy\<close> is the table of process definitions, its validation, normalisation and hierarchy,
  \<open>Process_Data\<close> the built-in definitions, \<open>Taxonomy_Facts\<close> their properties. \<open>Edit_Distance\<close> has the
  base layer with the two-row Levenshtein table, proved to compute the least cost of an edit script.
  \<open>Direct_Matcher\<close> and \<open>Capability_Rules\<close> are the direct and the heuristic layer, \<open>Layer_Cascade\<close> the
  order in which layers are asked and the veto, \<open>Process_Match\<close> the comparison of two processes,
  \<open>Matching_Service\<close> the verdict on a facility, its explanation and the score of a tree,
  \<open>Composite_Match\<close> the greedy combination of facilities. The language layer (spaCy) is a function in
  \<open>match_config\<close>, as are the extractors of the domains; scores are exact rationals.

  \<^bold>\<open>Supply trees and nested designs\<close> (\<open>models/supply_trees.py\<close>, \<open>models/bom.py\<close>,
  \<open>services/bom_resolution_service.py\<close>). \<open>Supply_Tree\<close> and \<open>Supply_Tree_Facts\<close> have trees, solutions, the
  dependency graph, cycle detection, validation and the production sequence. \<open>Bill_Of_Materials\<close>,
  \<open>Bom_Resolution\<close> and \<open>Bom_Facts\<close> read, merge and explode bills of materials; \<open>Nested_Match\<close> and
  \<open>Nested_Facts\<close> match every component. There the trees live in a store, because they are shared and
  linked by mutation.

  \<open>Solution_Store\<close> keeps solutions with their metadata (\<open>services/storage_service.py\<close>): staleness, clean-up,
  extension, archive and listing; \<open>Solution_Facts\<close> says when a solution is stale and what the clean-up removes.

  \<^bold>\<open>Assets\<close> (\<open>models/asset.py\<close>, \<open>models/repair.py\<close>, \<open>services/asset_service.py\<close>): \<open>Asset_Record\<close>,
  \<open>Asset_Service\<close>, \<open>Asset_Facts\<close>; triage, claims, salvage search and sourcing over the stored documents.

  \<^bold>\<open>Identity and authorisation\<close> (\<open>models/\<close>, \<open>storage/\<close>, \<open>services/auth_service.py\<close>). \<open>Did_Key\<close> and
  \<open>Signing\<close> are keys as DIDs and signatures, with Ed25519 as the parameter \<open>ed\<close> and its documented law
  \<open>ed_sound\<close>; \<open>Identity_Models\<close>, \<open>Identity_Stores\<close>, \<open>Auth_Service\<close>, \<open>Auth_Grants\<close> the records, stores and
  operations; \<open>Auth_Facts\<close> and \<open>Identity_Facts\<close> their properties.

  \<^bold>\<open>Federation\<close> (\<open>federation/\<close>, \<open>services/okw_service.py\<close>). \<open>Merkle_Root\<close> is the root of a catalog,
  \<open>Peer_Store\<close> peers and follows, \<open>Disclosure\<close> and \<open>Okw_Service\<close> what may leave the node and the facility
  service, \<open>Okw_Federation\<close> catalog, digest, ingest and sync, \<open>Okw_Facts\<close> their properties. SHA-256 is the
  parameter \<open>sha\<close>, the facility class the parameter \<open>fm\<close>, which \<open>Okw_Class\<close> instantiates.
  \<open>Okh_Federation\<close> does the same for designs, over the design service, with the metrics and the round over
  all followed peers; \<open>Okh_Federation_Facts\<close> shows what is published, what an ingest may write, which designs
  no peer accepts, and that a round keeps visibilities and adds up.

  \<^bold>\<open>Facilities\<close> (\<open>models/okw.py\<close>). \<open>Okw_Model\<close> has the records and the dict forms that are written,
  \<open>Okw_Parse\<close> what is read back, the check and the search of processes, and the SpaceAPI form;
  \<open>Facility_Facts\<close> relates the two. \<open>Okw_Class\<close> puts them into the facility service and the federation: a
  saved facility is read back, what that loses, and what a sync does with it. Python's \<open>float\<close> on a text
  is the parameter \<open>fl\<close>.

  \<^bold>\<open>Designs\<close> (\<open>models/okh.py\<close>, \<open>validation/uuid_validator.py\<close>, \<open>storage/smart_discovery.py\<close>,
  \<open>services/okh_service.py\<close>). \<open>Uuid_Repair\<close> has the repair of ids (MD5 is the parameter \<open>md5\<close>, a random id
  \<open>rnd\<close> or \<open>fresh\<close>), \<open>Py_Date\<close> calendar dates, \<open>Okh_Record\<close>, \<open>Okh_Agents\<close>, \<open>Okh_Manifest\<close> and \<open>Okh_Dict\<close> a
  manifest, its parts and its dict form, \<open>Okh_Facts\<close> their round trip. \<open>Smart_Discovery\<close> finds the files
  under a prefix (a listing is a parameter), \<open>Okh_Service\<close> has the operations over them with the cached
  catalogue, \<open>Okh_Catalog\<close> the invariant of that cache and \<open>Okh_Service_Facts\<close> what the operations do.

  \<^bold>\<open>Validation\<close> (\<open>validation/model_validator.py\<close>, \<open>utils/domain_detection.py\<close>). \<open>Model_Validator\<close> has the
  reports on manifests and facilities with their levels, scores and suggestions, and the answers both
  services make of them; \<open>Validator_Facts\<close> says when a document is valid.

  \<^bold>\<open>Domains\<close> (\<open>domains/\<close>, \<open>models/base/\<close>). \<open>Kitchen_Model\<close> has kitchens, recipes and the tests that tell
  their files from facilities and designs; \<open>Domain_Extract\<close> the frame of the extractors and the cooking
  one, \<open>Okh_Extract\<close> the manufacturing one with the part of \<open>urlparse\<close> it needs (\<open>host_ok\<close> tells which
  bracketed hosts are accepted). \<open>Cooking_Match\<close> scores a recipe in a kitchen, \<open>Okh_Match\<close> is the
  manufacturing matcher with its substitutions, \<open>Domain_Adjust\<close> the keyword tables of the direct matchers.
  \<open>Domain_Facts\<close>, \<open>Cooking_Facts\<close> and \<open>Okh_Match_Facts\<close> have their properties.

  \<^bold>\<open>The network of spaces\<close> (\<open>services/mom_bridge.py\<close>, \<open>services/okw_service.py\<close>,
  \<open>utils/country_names.py\<close>). \<open>Mom_Cache\<close> is the cache of the Maps of Making spaces as a machine whose events are
  the stretches of code between two points where a coroutine gives way; \<open>Mom_Cache_Facts\<close> bounds the requests it
  sends and shows that nobody queues for more than one fetch. \<open>Network_Spaces\<close> and \<open>Network_Facts\<close> have the spaces
  of both sources, the filters and the agreement of the map with the matching.

  \<^bold>\<open>Support\<close>: \<open>Rate_Limit\<close> (\<open>services/rate_limit_service.py\<close>) and \<open>Memory_Cache\<close> (\<open>cache/\<close>).

  \<^bold>\<open>Conventions.\<close> A class is a record, an enum a datatype. What the code raises is \<open>Inl\<close> of an error or
  \<open>None\<close>. Mutable state is passed and returned. Random ids and the clock are arguments. Recursion
  that could be endless has fuel: the depth-first search of a dependency graph gets one more than the
  number of nodes, which \<open>detect_ok\<close> proves enough, and the loop of the production sequence is a partial
  function whose result is proved to exist. The explosion of a bill recurses on the levels left.

  \<^bold>\<open>Not modelled.\<close> The HTTP routes and the command line (argument handling around the services); storage
  providers and language model providers (clients of outside services); the generation of manifests from
  repositories (regular expressions, spaCy and language models over free text, whose results a person
  reviews); automatic corrections of documents; packaging and file
  transfer; the writers of spreadsheets, diagrams and projects; logging, metrics, jobs and configuration.
  Within the modelled services, what only logs, what fetches from a URL and what asks a language model is
  left out; the note of each component in the manifest says what else is.
\<close>

end
